(* ===== verification/ToolHub_Prelude.thy ===== *)
theory ToolHub_Prelude
  imports
    Main
    "HOL-Library.Char_ord"
    "HOL-Library.List_Lexorder"
    "HOL-Library.Multiset"
    "HOL-Library.Sublist"
begin

text \<open>
  What every component shares: the Go values the code passes around (byte strings, instants,
  JSON values, errors), the parts of Go's \<open>strings\<close>, \<open>strconv\<close>, \<open>path\<close> and \<open>time\<close> packages
  the source calls, and generic lemmas on lists.

  A Go \<open>string\<close> or \<open>[]byte\<close> is a HOL \<open>string\<close>, one \<open>char\<close> per byte, so \<open>length\<close> is Go's
  \<open>len\<close> and the order of \<open>List_Lexorder\<close> over \<open>Char_ord\<close> is Go's string order. An instant is
  the number of nanoseconds since the Unix epoch (an \<open>int\<close>). An error that the code
  returns is a value of \<open>go_error\<close>; a Go \<open>error\<close> result is \<open>go_error option\<close> and a pair
  (value, error) is \<open>go_error + 'a\<close>.
\<close>

named_theorems go_const \<open>definitions of the string constants of the source\<close>

named_theorems go_valid \<open>what a successful validation guarantees\<close>

section \<open>Instants and durations (package time)\<close>

type_synonym time = int
type_synonym duration = int

definition second :: duration where
  "second = 1000000000"

definition minute :: duration where
  "minute = 60 * second"

definition hour :: duration where
  "hour = 60 * minute"

text \<open>\<open>t.Unix()\<close> rounds towards minus infinity; \<open>time.Unix(s, 0)\<close> is its right inverse.\<close>

definition Unix :: "time \<Rightarrow> int" where
  "Unix t = t div second"

definition fromUnix :: "int \<Rightarrow> time" where
  "fromUnix s = s * second"

text \<open>\<open>t.Sub(u)\<close> saturates at the two ends of the int64 duration range.\<close>

definition maxDuration :: duration where
  "maxDuration = 9223372036854775807"

definition Sub :: "time \<Rightarrow> time \<Rightarrow> duration" where
  "Sub t u = max (- maxDuration - 1) (min maxDuration (t - u))"

lemma Unix_fromUnix [simp]: "Unix (fromUnix s) = s"
  by (simp add: Unix_def fromUnix_def second_def)

lemma Unix_mono: "t \<le> u \<Longrightarrow> Unix t \<le> Unix u"
  unfolding Unix_def second_def by (rule zdiv_mono1) simp_all

lemma Sub_window:
  assumes "0 \<le> w" and "w < maxDuration" and "\<not> Sub t u > w" and "\<not> Sub t u < - w"
  shows "t - u \<le> w" and "- w \<le> t - u"
  using assms unfolding Sub_def maxDuration_def by linarith+

section \<open>Byte strings (package strings)\<close>

text \<open>
  The White\_Space code points of Unicode in UTF-8: what \<open>strings.TrimSpace\<close> removes at both
  ends.
\<close>

definition spaceRunes :: "string list" where
  "spaceRunes =
    [[CHR 0x09], [CHR 0x0A], [CHR 0x0B], [CHR 0x0C], [CHR 0x0D], [CHR 0x20],
     [CHR 0xC2, CHR 0x85], [CHR 0xC2, CHR 0xA0], [CHR 0xE1, CHR 0x9A, CHR 0x80],
     [CHR 0xE2, CHR 0x80, CHR 0x80], [CHR 0xE2, CHR 0x80, CHR 0x81], [CHR 0xE2, CHR 0x80, CHR 0x82],
     [CHR 0xE2, CHR 0x80, CHR 0x83], [CHR 0xE2, CHR 0x80, CHR 0x84], [CHR 0xE2, CHR 0x80, CHR 0x85],
     [CHR 0xE2, CHR 0x80, CHR 0x86], [CHR 0xE2, CHR 0x80, CHR 0x87], [CHR 0xE2, CHR 0x80, CHR 0x88],
     [CHR 0xE2, CHR 0x80, CHR 0x89], [CHR 0xE2, CHR 0x80, CHR 0x8A], [CHR 0xE2, CHR 0x80, CHR 0xA8],
     [CHR 0xE2, CHR 0x80, CHR 0xA9], [CHR 0xE2, CHR 0x80, CHR 0xAF], [CHR 0xE2, CHR 0x81, CHR 0x9F],
     [CHR 0xE3, CHR 0x80, CHR 0x80]]"

text \<open>Remove every leading occurrence of one of the given non-empty runes.\<close>

function stripRunes :: "string list \<Rightarrow> string \<Rightarrow> string" where
  "stripRunes rs s =
     (case find (\<lambda>r. r \<noteq> [] \<and> prefix r s) rs of
        None \<Rightarrow> s
      | Some r \<Rightarrow> stripRunes rs (drop (length r) s))"
  by pat_completeness auto
termination
proof (relation "measure (\<lambda>(rs, s). length s)", goal_cases)
  case (2 rs s r)
  then have "r \<noteq> []" and "prefix r s"
    by (auto simp: find_Some_iff)
  then show ?case
    by (auto simp: prefix_def)
qed simp

declare stripRunes.simps [simp del]

definition TrimSpace :: "string \<Rightarrow> string" where
  "TrimSpace s = rev (stripRunes (map rev spaceRunes) (rev (stripRunes spaceRunes s)))"

text \<open>
  \<open>strings.ToLower\<close> on bytes. Besides A to Z, the two non-ASCII letters whose lower case is an
  ASCII letter are U+0130 and U+212A; every other non-ASCII letter is mapped to a non-ASCII
  letter and is kept as it is here, since the code only compares the result with ASCII words.
\<close>

definition lowerByte :: "char \<Rightarrow> char" where
  "lowerByte c =
     (if CHR ''A'' \<le> c \<and> c \<le> CHR ''Z'' then char_of ((of_char c :: nat) + 32) else c)"

fun ToLower :: "string \<Rightarrow> string" where
  "ToLower [] = []"
| "ToLower (c # s) =
     (if prefix [CHR 0xC4, CHR 0xB0] (c # s) then CHR ''i'' # ToLower (drop 1 s)
      else if prefix [CHR 0xE2, CHR 0x84, CHR 0xAA] (c # s) then CHR ''k'' # ToLower (drop 2 s)
      else lowerByte c # ToLower s)"

text \<open>\<open>strings.ToUpper\<close>, with U+0131 and U+017F, the non-ASCII letters whose upper case is ASCII.\<close>

definition upperByte :: "char \<Rightarrow> char" where
  "upperByte c =
     (if CHR ''a'' \<le> c \<and> c \<le> CHR ''z'' then char_of ((of_char c :: nat) - 32) else c)"

fun ToUpper :: "string \<Rightarrow> string" where
  "ToUpper [] = []"
| "ToUpper (c # s) =
     (if prefix [CHR 0xC4, CHR 0xB1] (c # s) then CHR ''I'' # ToUpper (drop 1 s)
      else if prefix [CHR 0xC5, CHR 0xBF] (c # s) then CHR ''S'' # ToUpper (drop 1 s)
      else upperByte c # ToUpper s)"

definition HasPrefix :: "string \<Rightarrow> string \<Rightarrow> bool" where
  "HasPrefix s p = prefix p s"

definition Contains :: "string \<Rightarrow> string \<Rightarrow> bool" where
  "Contains s p = sublist p s"

lemma stripRunes_suffix: "suffix (stripRunes rs s) s"
proof (induction rs s rule: stripRunes.induct)
  case (1 rs s)
  show ?case
  proof (cases "find (\<lambda>r. r \<noteq> [] \<and> prefix r s) rs")
    case None
    then show ?thesis by (subst stripRunes.simps) simp
  next
    case (Some r)
    with "1" have "suffix (stripRunes rs (drop (length r) s)) (drop (length r) s)" by blast
    moreover have "suffix (drop (length r) s) s" by (rule suffix_drop)
    ultimately have "suffix (stripRunes rs (drop (length r) s)) s"
      by (rule suffix_order.trans)
    with Some show ?thesis by (subst stripRunes.simps) simp
  qed
qed

lemma stripRunes_clean: "r \<in> set rs \<Longrightarrow> r \<noteq> [] \<Longrightarrow> \<not> prefix r (stripRunes rs s)"
proof (induction rs s rule: stripRunes.induct)
  case (1 rs s)
  then show ?case
    by (subst stripRunes.simps) (auto split: option.splits simp: find_None_iff)
qed

lemma stripRunes_id: "\<forall>r \<in> set rs. r \<noteq> [] \<longrightarrow> \<not> prefix r s \<Longrightarrow> stripRunes rs s = s"
  by (subst stripRunes.simps) (auto split: option.splits simp: find_Some_iff)

lemma length_TrimSpace: "length (TrimSpace s) \<le> length s"
proof -
  have "length (stripRunes rs t) \<le> length t" for rs t
    by (rule suffix_length_le) (rule stripRunes_suffix)
  then show ?thesis
    unfolding TrimSpace_def by (metis length_rev order_trans)
qed

text \<open>Trimming twice is trimming once: the trimmed string has no space rune at either end.\<close>

lemma TrimSpace_idem [simp]: "TrimSpace (TrimSpace s) = TrimSpace s"
proof -
  let ?l = "stripRunes spaceRunes s"
  let ?t = "stripRunes (map rev spaceRunes) (rev ?l)"
  have "prefix (rev ?t) ?l"
    using stripRunes_suffix [of "map rev spaceRunes" "rev ?l"] by (simp add: suffix_to_prefix)
  then have "stripRunes spaceRunes (rev ?t) = rev ?t"
    by (intro stripRunes_id ballI impI notI)
      (meson prefix_order.trans stripRunes_clean)
  moreover have "stripRunes (map rev spaceRunes) ?t = ?t"
    by (intro stripRunes_id ballI impI stripRunes_clean)
  ultimately show ?thesis unfolding TrimSpace_def by simp
qed

text \<open>A string of printable non-space ASCII bytes is its own trimming.\<close>

definition graphic :: "char \<Rightarrow> bool" where
  "graphic c = (CHR 0x21 \<le> c \<and> c \<le> CHR 0x7E)"

lemma spaceRunes_not_graphic:
  "r \<in> set spaceRunes \<Longrightarrow> r \<noteq> [] \<and> \<not> graphic (hd r) \<and> \<not> graphic (last r)"
  by (auto simp: spaceRunes_def graphic_def less_eq_char_def)

lemma TrimSpace_graphic: "list_all graphic s \<Longrightarrow> TrimSpace s = s"
proof -
  assume s: "list_all graphic s"
  have "stripRunes spaceRunes s = s"
  proof (rule stripRunes_id, intro ballI impI notI)
    fix r assume "r \<in> set spaceRunes" and "prefix r s"
    then have "r \<noteq> []" and "\<not> graphic (hd r)" and "list_all graphic r"
      using spaceRunes_not_graphic [of r] s by (auto simp: prefix_def)
    then show False by (cases r) auto
  qed
  moreover have "stripRunes (map rev spaceRunes) (rev s) = rev s"
  proof (rule stripRunes_id, intro ballI impI notI)
    fix r assume "r \<in> set (map rev spaceRunes)" and "prefix r (rev s)"
    then obtain q where q: "q \<in> set spaceRunes" and "prefix (rev q) (rev s)" by auto
    then have "suffix q s" by (simp add: suffix_to_prefix)
    with s have "q \<noteq> [] \<Longrightarrow> graphic (last q)"
      by (auto simp: suffix_def list_all_iff)
    with spaceRunes_not_graphic [OF q] show False by simp
  qed
  ultimately show ?thesis by (simp add: TrimSpace_def)
qed

section \<open>Regular expressions of the source, as predicates\<close>

definition isLower :: "char \<Rightarrow> bool" where
  "isLower c = (CHR ''a'' \<le> c \<and> c \<le> CHR ''z'')"

definition isDigit :: "char \<Rightarrow> bool" where
  "isDigit c = (CHR ''0'' \<le> c \<and> c \<le> CHR ''9'')"

definition isHexLower :: "char \<Rightarrow> bool" where
  "isHexLower c = (isDigit c \<or> (CHR ''a'' \<le> c \<and> c \<le> CHR ''f''))"

lemma isLower_graphic: "isLower c \<Longrightarrow> graphic c"
  by (auto simp: isLower_def graphic_def less_eq_char_def)

lemma isDigit_graphic: "isDigit c \<Longrightarrow> graphic c"
  by (auto simp: isDigit_def graphic_def less_eq_char_def)

section \<open>Decimal integers (strconv.ParseInt with base 10 and 64 bits)\<close>

definition digitVal :: "char \<Rightarrow> int" where
  "digitVal c = of_char c - 48"

definition parseDigits :: "string \<Rightarrow> int option" where
  "parseDigits s =
     (if s \<noteq> [] \<and> list_all isDigit s then Some (foldl (\<lambda>n c. 10 * n + digitVal c) 0 s) else None)"

definition ParseInt64 :: "string \<Rightarrow> int option" where
  "ParseInt64 s =
     (let (neg, ds) = (case s of [] \<Rightarrow> (False, [])
         | c # t \<Rightarrow> if c = CHR ''-'' then (True, t) else if c = CHR ''+'' then (False, t) else (False, s))
      in case parseDigits ds of
           None \<Rightarrow> None
         | Some n \<Rightarrow> (let v = (if neg then - n else n)
             in if - 9223372036854775808 \<le> v \<and> v \<le> 9223372036854775807 then Some v else None))"

text \<open>\<open>strconv.FormatInt(n, 10)\<close>.\<close>

function natDigits :: "nat \<Rightarrow> string" where
  "natDigits n = (if n < 10 then [char_of (48 + n)] else natDigits (n div 10) @ [char_of (48 + n mod 10)])"
  by pat_completeness auto
termination
  by (relation "measure id") auto

declare natDigits.simps [simp del]

definition FormatInt :: "int \<Rightarrow> string" where
  "FormatInt n = (if n < 0 then CHR ''-'' # natDigits (nat (- n)) else natDigits (nat n))"

definition digitsValue :: "string \<Rightarrow> int" where
  "digitsValue s = foldl (\<lambda>n c. 10 * n + digitVal c) 0 s"

lemma digitsValue_snoc [simp]: "digitsValue (s @ [c]) = 10 * digitsValue s + digitVal c"
  by (simp add: digitsValue_def)

lemma digit_char:
  assumes "n < 10"
  shows "isDigit (char_of (48 + n :: nat)) \<and> digitVal (char_of (48 + n)) = int n"
proof -
  have eq: "of_char (char_of (48 + n) :: char) = 48 + n" using assms by simp
  then have "isDigit (char_of (48 + n))" using assms by (simp add: isDigit_def less_eq_char_def)
  moreover have "(of_char (char_of (48 + n) :: char) :: int) = int (of_char (char_of (48 + n) :: char))"
    by (simp only: of_nat_of_char)
  ultimately show ?thesis unfolding digitVal_def eq by simp
qed

lemma natDigits_value:
  "natDigits n \<noteq> [] \<and> list_all isDigit (natDigits n) \<and> digitsValue (natDigits n) = int n"
proof (induction n rule: natDigits.induct)
  case (1 n)
  show ?case
  proof (cases "n < 10")
    case True
    then have "natDigits n = [char_of (48 + n)]" by (subst natDigits.simps) simp
    with digit_char [OF True] show ?thesis by (simp add: digitsValue_def)
  next
    case False
    then have "natDigits n = natDigits (n div 10) @ [char_of (48 + n mod 10)]"
      by (subst natDigits.simps) simp
    with False "1" digit_char [of "n mod 10"] show ?thesis by (simp add: zmod_int zdiv_int)
  qed
qed

lemma parseDigits_natDigits: "parseDigits (natDigits n) = Some (int n)"
  using natDigits_value [of n] by (simp add: parseDigits_def digitsValue_def)

lemma natDigits_head: "\<exists>c t. natDigits n = c # t \<and> c \<noteq> CHR ''-'' \<and> c \<noteq> CHR ''+''"
proof -
  obtain c t where ct: "natDigits n = c # t" using natDigits_value [of n] by (cases "natDigits n") auto
  then have "isDigit c" using natDigits_value [of n] by simp
  then have "c \<noteq> CHR ''-''" and "c \<noteq> CHR ''+''" by (auto simp: isDigit_def less_eq_char_def)
  with ct show ?thesis by blast
qed

text \<open>Parsing what was formatted gives the number back, on the whole int64 range.\<close>

lemma ParseInt64_FormatInt:
  assumes "- 9223372036854775808 \<le> n" and "n \<le> 9223372036854775807"
  shows "ParseInt64 (FormatInt n) = Some n"
proof (cases "n < 0")
  case True
  then show ?thesis using assms
    by (simp add: ParseInt64_def FormatInt_def parseDigits_natDigits)
next
  case False
  obtain c t where "natDigits (nat n) = c # t" "c \<noteq> CHR ''-''" "c \<noteq> CHR ''+''"
    using natDigits_head by blast
  then show ?thesis using assms False parseDigits_natDigits [of "nat n"]
    by (simp add: ParseInt64_def FormatInt_def)
qed

section \<open>Hexadecimal text (package hex)\<close>

definition hexDigit :: "nat \<Rightarrow> char" where
  "hexDigit n = char_of (if n < 10 then 48 + n else 87 + n)"

definition hexValue :: "char \<Rightarrow> nat option" where
  "hexValue c =
     (let n = of_char c in
      if 48 \<le> n \<and> n \<le> 57 then Some (n - 48)
      else if 97 \<le> n \<and> n \<le> 102 then Some (n - 87)
      else if 65 \<le> n \<and> n \<le> 70 then Some (n - 55)
      else None)"

text \<open>\<open>hex.EncodeToString\<close>.\<close>

fun hexEncode :: "string \<Rightarrow> string" where
  "hexEncode [] = []"
| "hexEncode (c # s) = hexDigit (of_char c div 16) # hexDigit (of_char c mod 16) # hexEncode s"

text \<open>\<open>hex.DecodeString\<close>: both cases of digits; an odd length or another byte is an error.\<close>

fun hexDecode :: "string \<Rightarrow> string option" where
  "hexDecode [] = Some []"
| "hexDecode [_] = None"
| "hexDecode (a # b # s) =
     (case (hexValue a, hexValue b, hexDecode s) of
        (Some x, Some y, Some t) \<Rightarrow> Some (char_of (16 * x + y) # t)
      | _ \<Rightarrow> None)"

lemma of_char_div_16: "(of_char c :: nat) div 16 < 16"
  using nat_of_char_less_256 [of c] by (simp add: less_mult_imp_div_less)

lemma hexValue_hexDigit: "n < 16 \<Longrightarrow> hexValue (hexDigit n) = Some n"
  by (auto simp: hexValue_def hexDigit_def Let_def)

lemma hexDecode_hexEncode [simp]: "hexDecode (hexEncode s) = Some s"
proof (induction s)
  case Nil
  then show ?case by simp
next
  case (Cons c s)
  then show ?case
    by (simp add: hexValue_hexDigit of_char_div_16)
qed

lemma length_hexEncode [simp]: "length (hexEncode s) = 2 * length s"
  by (induction s) auto

lemma isHexLower_hexDigit: "n < 16 \<Longrightarrow> isHexLower (hexDigit n)"
  by (auto simp: isHexLower_def isDigit_def hexDigit_def less_eq_char_def)

lemma hexEncode_lower: "list_all isHexLower (hexEncode s)"
proof (induction s)
  case Nil
  then show ?case by simp
next
  case (Cons c s)
  then show ?case by (simp add: isHexLower_hexDigit of_char_div_16)
qed

section \<open>Slash-separated paths (package path)\<close>

fun splitOn :: "char \<Rightarrow> string \<Rightarrow> string list" where
  "splitOn d [] = [[]]"
| "splitOn d (c # s) =
     (if c = d then [] # splitOn d s
      else case splitOn d s of [] \<Rightarrow> [[c]] | w # ws \<Rightarrow> (c # w) # ws)"

fun joinWith :: "string \<Rightarrow> string list \<Rightarrow> string" where
  "joinWith sep [] = []"
| "joinWith sep [w] = w"
| "joinWith sep (w # v # ws) = w @ sep @ joinWith sep (v # ws)"

definition path_IsAbs :: "string \<Rightarrow> bool" where
  "path_IsAbs p = HasPrefix p ''/''"

definition cleanStep :: "bool \<Rightarrow> string list \<Rightarrow> string \<Rightarrow> string list" where
  "cleanStep rooted out w =
     (if w = [] \<or> w = ''.'' then out
      else if w = ''..'' then
        (if out \<noteq> [] \<and> last out \<noteq> ''..'' then butlast out
         else if rooted then out else out @ [w])
      else out @ [w])"

text \<open>\<open>path.Clean\<close>: the shortest equivalent path by lexical processing.\<close>

definition path_Clean :: "string \<Rightarrow> string" where
  "path_Clean p =
     (let rooted = path_IsAbs p; out = foldl (cleanStep rooted) [] (splitOn CHR ''/'' p)
      in if rooted then ''/'' @ joinWith ''/'' out
         else if out = [] then ''.'' else joinWith ''/'' out)"

lemma splitOn_not_Nil [simp]: "splitOn d s \<noteq> []"
  by (induction s) (auto split: list.splits)

lemma splitOn_no_sep: "w \<in> set (splitOn d s) \<Longrightarrow> d \<notin> set w"
proof (induction s arbitrary: w)
  case Nil
  then show ?case by simp
next
  case (Cons c s)
  then show ?case
    by (cases "splitOn d s") (fastforce split: if_splits)+
qed

lemma splitOn_word: "d \<notin> set w \<Longrightarrow> splitOn d w = [w]"
  by (induction w) auto

lemma splitOn_append: "d \<notin> set w \<Longrightarrow> splitOn d (w @ d # s) = w # splitOn d s"
  by (induction w) auto

lemma splitOn_joinWith:
  "ws \<noteq> [] \<Longrightarrow> \<forall>w \<in> set ws. d \<notin> set w \<Longrightarrow> splitOn d (joinWith [d] ws) = ws"
  by (induction "[d]" ws rule: joinWith.induct) (auto simp: splitOn_word splitOn_append)

lemma joinWith_splitOn: "joinWith [d] (splitOn d s) = s"
proof (induction s)
  case Nil
  then show ?case by simp
next
  case (Cons c s)
  obtain w ws where w: "splitOn d s = w # ws" by (cases "splitOn d s") auto
  with Cons show ?case by (cases ws) auto
qed

text \<open>Cleaning a rooted path leaves no empty, dot or dot-dot component.\<close>

definition plainPart :: "string \<Rightarrow> bool" where
  "plainPart w = (w \<noteq> [] \<and> w \<noteq> ''.'' \<and> w \<noteq> ''..'')"

lemma cleanStep_rooted:
  assumes "list_all plainPart out"
  shows "list_all plainPart (cleanStep True out v)"
proof (cases "plainPart v")
  case True
  then have "cleanStep True out v = out @ [v]"
    by (simp add: cleanStep_def plainPart_def)
  with True assms show ?thesis by simp
next
  case False
  then have "cleanStep True out v = out \<or> cleanStep True out v = butlast out"
    by (auto simp only: cleanStep_def plainPart_def if_True split: if_split)
  then show ?thesis using assms by (metis in_set_butlastD list_all_iff)
qed

lemma foldl_cleanStep_rooted:
  "list_all plainPart out \<Longrightarrow> list_all plainPart (foldl (cleanStep True) out ws)"
  by (induction ws arbitrary: out) (simp_all add: cleanStep_rooted)

lemma cleanStep_parts: "set (cleanStep r out v) \<subseteq> set out \<union> {v}"
  unfolding cleanStep_def by (auto dest: in_set_butlastD split del: if_split split: if_splits)

lemma foldl_cleanStep_parts: "set (foldl (cleanStep r) out ws) \<subseteq> set out \<union> set ws"
proof (induction ws arbitrary: out)
  case Nil
  then show ?case by simp
next
  case (Cons v ws)
  show ?case using Cons.IH [of "cleanStep r out v"] cleanStep_parts [of r out v] by auto
qed

lemma foldl_cleanStep_plain:
  "list_all plainPart ws \<Longrightarrow> foldl (cleanStep r) out ws = out @ ws"
proof (induction ws arbitrary: out)
  case (Cons v ws)
  then have "cleanStep r out v = out @ [v]" by (simp add: cleanStep_def plainPart_def)
  with Cons show ?case by simp
qed simp

lemma path_Clean_rooted:
  assumes "path_IsAbs p" and "path_Clean p = p" and "p \<noteq> ''/''"
  shows "list_all plainPart (tl (splitOn CHR ''/'' p))"
proof -
  define out where "out = foldl (cleanStep True) [] (splitOn CHR ''/'' p)"
  have p: "p = CHR ''/'' # joinWith ''/'' out"
    using assms(1,2) by (simp add: path_Clean_def out_def)
  have ne: "out \<noteq> []" using p assms(3) by auto
  have "\<forall>w \<in> set out. CHR ''/'' \<notin> set w"
    using foldl_cleanStep_parts [of True "[]" "splitOn CHR ''/'' p"] splitOn_no_sep
    unfolding out_def by fastforce
  with ne have "splitOn CHR ''/'' (joinWith ''/'' out) = out"
    by (rule splitOn_joinWith)
  then have "tl (splitOn CHR ''/'' p) = out" by (subst p) simp
  moreover have "list_all plainPart out"
    unfolding out_def by (rule foldl_cleanStep_rooted) simp
  ultimately show ?thesis by simp
qed

section \<open>JSON values (any after json.Unmarshal)\<close>

text \<open>
  An object is the list of its members; nothing in the code depends on the order in which Go
  ranges over one. Numbers keep their integer value only and an encoded \<open>time.Time\<close> keeps its
  instant, and an error message stays unrendered: no decision of the code reads one of these out of a
  JSON value.
\<close>

text \<open>A message is a literal or a format with its arguments, kept unrendered.\<close>

datatype message = Lit string | Fmt string "string list"

datatype json =
    JNull
  | JBool bool
  | JNum int
  | JTime time
  | JStr string
  | JMsg message
  | JArr "json list"
  | JObj "(string \<times> json) list"

definition omitEmpty :: "string \<Rightarrow> string \<Rightarrow> (string \<times> json) list" where
  "omitEmpty key value = (if value = [] then [] else [(key, JStr value)])"

definition omitFalse :: "string \<Rightarrow> bool \<Rightarrow> (string \<times> json) list" where
  "omitFalse key value = (if value then [(key, JBool True)] else [])"

definition omitZero :: "string \<Rightarrow> int \<Rightarrow> (string \<times> json) list" where
  "omitZero key value = (if value = 0 then [] else [(key, JNum value)])"

definition omitNil :: "string \<Rightarrow> json option \<Rightarrow> (string \<times> json) list" where
  "omitNil key value = (case value of None \<Rightarrow> [] | Some j \<Rightarrow> [(key, j)])"

section \<open>Errors\<close>

text \<open>
  An error is a
  \<open>*bridgeprotocol.APIError\<close>, an error made by \<open>errors.New\<close> or \<open>fmt.Errorf\<close>, or one wrapped
  with \<open>%w\<close>, through which \<open>errors.As\<close> looks.
\<close>

record api_error =
  apiCode :: string
  apiMessage :: message
  apiRetryable :: bool
  apiDetails :: "(string \<times> json) list"

datatype go_error = APIErr api_error | Err message | Wrapped string go_error

abbreviation errorsNew :: "string \<Rightarrow> go_error" where
  "errorsNew text \<equiv> Err (Lit text)"

abbreviation errorf :: "string \<Rightarrow> string list \<Rightarrow> go_error" where
  "errorf format args \<equiv> Err (Fmt format args)"

text \<open>\<open>&APIError{Code: c, Message: m}\<close>.\<close>

definition apiError :: "string \<Rightarrow> string \<Rightarrow> api_error" where
  "apiError c m = \<lparr>apiCode = c, apiMessage = Lit m, apiRetryable = False, apiDetails = []\<rparr>"

text \<open>\<open>errors.As(err, &apiErr)\<close>.\<close>

fun asAPI :: "go_error \<Rightarrow> api_error option" where
  "asAPI (APIErr e) = Some e"
| "asAPI (Err _) = None"
| "asAPI (Wrapped _ e) = asAPI e"

section \<open>Lists\<close>

text \<open>Two sorted lists over the same distinct keys are equal: sorting gives a canonical order.\<close>

lemma sort_key_perm_unique:
  assumes "mset xs = mset ys" and "distinct (map f xs)"
  shows "sort_key f xs = sort_key f ys"
proof (rule properties_for_sort_key [symmetric])
  show "mset (sort_key f xs) = mset ys" using assms(1) by simp
  show "sorted (map f (sort_key f xs))" by simp
  fix k assume "k \<in> set (sort_key f xs)"
  then have k: "k \<in> set xs" by simp
  have inj: "inj_on f (set xs)" using assms(2) by (simp add: distinct_map)
  have dist: "distinct xs" using assms(2) by (simp add: distinct_map)
  have eq: "set ys = set xs" using assms(1) by (metis set_mset_mset)
  have dist': "distinct ys" using assms(1) dist by (metis mset_eq_imp_distinct_iff)
  have one: "filter (\<lambda>x. f k = f x) zs = [k]"
    if "set zs = set xs" and "distinct zs" for zs
  proof -
    have "set (filter (\<lambda>x. f k = f x) zs) = {k}"
      using that(1) k inj by (auto dest: inj_onD)
    moreover have "distinct (filter (\<lambda>x. f k = f x) zs)" using that(2) by simp
    ultimately show ?thesis
      by (cases "filter (\<lambda>x. f k = f x) zs" rule: list.exhaust; cases "tl (filter (\<lambda>x. f k = f x) zs)")
        auto
  qed
  show "filter (\<lambda>x. f k = f x) (sort_key f xs) = filter (\<lambda>x. f k = f x) ys"
    using one [of "sort_key f xs"] one [of ys] eq dist dist' by simp
qed

text \<open>With distinct keys, the first element with a key is the only one.\<close>

lemma find_key_unique:
  "distinct (map f xs) \<Longrightarrow> x \<in> set xs \<Longrightarrow> find (\<lambda>y. f y = f x) xs = Some x"
  by (induction xs) auto

lemma find_key_SomeD: "find (\<lambda>y. f y = k) xs = Some x \<Longrightarrow> x \<in> set xs \<and> f x = k"
  by (auto simp: find_Some_iff)

lemma length_filter_mono_imp:
  "(\<And>x. x \<in> set xs \<Longrightarrow> P x \<Longrightarrow> Q x) \<Longrightarrow> length (filter P xs) \<le> length (filter Q xs)"
  by (induction xs) (auto intro: le_SucI)

end
