(* ===== verification/Protocol_Types.thy ===== *)
theory Protocol_Types
  imports ToolHub_Prelude
begin

text \<open>
  The values of the Bridge protocol that every other component exchanges
  (\<open>src/internal/bridgeprotocol/types.go\<close>): the constants, the public error classes with
  \<open>BoundedAPIError\<close>, and the validation of a runtime target.

  \<open>github.com/google/uuid\<close> is not part of the repository: \<open>uuid.Validate(s) == nil\<close> is the
  parameter \<open>uv\<close> of the definitions that call it.
\<close>

section \<open>Constants\<close>

abbreviation RuntimeClaude :: string where "RuntimeClaude \<equiv> ''claude''"
abbreviation RuntimeCodex :: string where "RuntimeCodex \<equiv> ''codex''"
abbreviation RuntimeHermes :: string where "RuntimeHermes \<equiv> ''hermes''"
abbreviation RuntimeSharedRelay :: string where "RuntimeSharedRelay \<equiv> ''shared-relay''"

abbreviation NodeKindLocal :: string where "NodeKindLocal \<equiv> ''local''"
abbreviation NodeKindSalt :: string where "NodeKindSalt \<equiv> ''salt''"

abbreviation OperationQueued :: string where "OperationQueued \<equiv> ''queued''"
abbreviation OperationRunning :: string where "OperationRunning \<equiv> ''running''"
abbreviation OperationSucceeded :: string where "OperationSucceeded \<equiv> ''succeeded''"
abbreviation OperationPartial :: string where "OperationPartial \<equiv> ''partial''"
abbreviation OperationFailed :: string where "OperationFailed \<equiv> ''failed''"
abbreviation OperationCancelled :: string where "OperationCancelled \<equiv> ''cancelled''"

abbreviation HealthHealthy :: string where "HealthHealthy \<equiv> ''healthy''"
abbreviation HealthDrifted :: string where "HealthDrifted \<equiv> ''drifted''"
abbreviation HealthRepairing :: string where "HealthRepairing \<equiv> ''repairing''"
abbreviation HealthBlocked :: string where "HealthBlocked \<equiv> ''blocked''"
abbreviation HealthUnavailable :: string where "HealthUnavailable \<equiv> ''unavailable''"

abbreviation ErrAuthentication :: string where "ErrAuthentication \<equiv> ''authentication_failed''"
abbreviation ErrReplay :: string where "ErrReplay \<equiv> ''nonce_replay''"
abbreviation ErrExpiredRequest :: string where "ErrExpiredRequest \<equiv> ''request_expired''"
abbreviation ErrIdempotencyConflict :: string where "ErrIdempotencyConflict \<equiv> ''idempotency_conflict''"
abbreviation ErrInvalidRequest :: string where "ErrInvalidRequest \<equiv> ''invalid_request''"
abbreviation ErrUnsupportedOperation :: string where "ErrUnsupportedOperation \<equiv> ''unsupported_operation''"
abbreviation ErrRevisionConflict :: string where "ErrRevisionConflict \<equiv> ''revision_conflict''"
abbreviation ErrProtectedScope :: string where "ErrProtectedScope \<equiv> ''protected_scope''"
abbreviation ErrTargetUnavailable :: string where "ErrTargetUnavailable \<equiv> ''target_unavailable''"
abbreviation ErrManagedUserMissing :: string where "ErrManagedUserMissing \<equiv> ''managed_user_missing''"
abbreviation ErrSaltVersion :: string where "ErrSaltVersion \<equiv> ''salt_version_incompatible''"
abbreviation ErrSaltJobMissing :: string where "ErrSaltJobMissing \<equiv> ''salt_job_missing''"
abbreviation ErrMCPMMissing :: string where "ErrMCPMMissing \<equiv> ''mcpm_missing''"
abbreviation ErrMCPMIncompatible :: string where "ErrMCPMIncompatible \<equiv> ''mcpm_incompatible''"
abbreviation ErrRelayPortConflict :: string where "ErrRelayPortConflict \<equiv> ''relay_port_conflict''"
abbreviation ErrRelayUnhealthy :: string where "ErrRelayUnhealthy \<equiv> ''relay_unhealthy''"
abbreviation ErrAtomicWrite :: string where "ErrAtomicWrite \<equiv> ''atomic_write_failed''"
abbreviation ErrBackup :: string where "ErrBackup \<equiv> ''backup_failed''"
abbreviation ErrHermesReadOnly :: string where "ErrHermesReadOnly \<equiv> ''hermes_read_only''"

definition MaxRequestBytes :: int where
  "MaxRequestBytes = 64 * 2 ^ 20"

section \<open>Patterns and names\<close>

definition slugChar :: "char \<Rightarrow> bool" where
  "slugChar c = (isLower c \<or> isDigit c \<or> c \<in> {CHR ''.'', CHR ''_'', CHR ''-''})"

definition slugPattern :: "string \<Rightarrow> bool" where
  "slugPattern s =
     (case s of [] \<Rightarrow> False
      | c # t \<Rightarrow> (isLower c \<or> isDigit c) \<and> list_all slugChar t \<and> length t \<le> 127)"

definition IsSHA256 :: "string \<Rightarrow> bool" where
  "IsSHA256 s = (length s = 64 \<and> list_all isHexLower s)"

definition managedUsernamePattern :: "string \<Rightarrow> bool" where
  "managedUsernamePattern s =
     (case s of [] \<Rightarrow> False
      | c # t \<Rightarrow> (isLower c \<or> c = CHR ''_'')
          \<and> list_all (\<lambda>d. isLower d \<or> isDigit d \<or> d = CHR ''_'' \<or> d = CHR ''-'') t \<and> length t \<le> 31)"

definition ValidateManagedUsername :: "string \<Rightarrow> go_error option" where
  "ValidateManagedUsername value =
     (if \<not> managedUsernamePattern value then
        Some (errorsNew ''managed username must be a lowercase Linux username of at most 32 characters'')
      else None)"

definition IsProtectedSkillEntry :: "string \<Rightarrow> bool" where
  "IsProtectedSkillEntry name0 =
     (let name = TrimSpace (ToLower name0)
      in name = '''' \<or> name = ''.'' \<or> name = ''..'' \<or> name = ''.system''
         \<or> HasPrefix name ''.'' \<or> HasPrefix name ''toolhub-'')"

definition validID :: "(string \<Rightarrow> bool) \<Rightarrow> string \<Rightarrow> bool" where
  "validID uv value = uv (TrimSpace value)"

definition IsTerminalOperationStatus :: "string \<Rightarrow> bool" where
  "IsTerminalOperationStatus status =
     (status = OperationSucceeded \<or> status = OperationPartial
      \<or> status = OperationFailed \<or> status = OperationCancelled)"

section \<open>Public error classes\<close>

record apiErrorClass =
  classMessage :: string
  classRetryable :: bool

definition boundedAPIErrorClasses :: "(string \<times> apiErrorClass) list" where
  "boundedAPIErrorClasses =
    [(ErrAuthentication, \<lparr>classMessage = ''Bridge authentication failed'', classRetryable = False\<rparr>),
     (ErrReplay, \<lparr>classMessage = ''Bridge request nonce was already used'', classRetryable = False\<rparr>),
     (ErrExpiredRequest, \<lparr>classMessage = ''Bridge request expired'', classRetryable = False\<rparr>),
     (ErrIdempotencyConflict, \<lparr>classMessage = ''Idempotency key conflicts with an existing request'', classRetryable = False\<rparr>),
     (ErrInvalidRequest, \<lparr>classMessage = ''Request is invalid'', classRetryable = False\<rparr>),
     (ErrUnsupportedOperation, \<lparr>classMessage = ''Operation is not supported'', classRetryable = False\<rparr>),
     (ErrRevisionConflict, \<lparr>classMessage = ''Runtime revision conflicts with the request'', classRetryable = False\<rparr>),
     (ErrProtectedScope, \<lparr>classMessage = ''Protected scope cannot be modified'', classRetryable = False\<rparr>),
     (ErrTargetUnavailable, \<lparr>classMessage = ''Target is unavailable'', classRetryable = True\<rparr>),
     (ErrManagedUserMissing, \<lparr>classMessage = ''Managed user is unavailable'', classRetryable = False\<rparr>),
     (ErrSaltVersion, \<lparr>classMessage = ''Salt version is incompatible'', classRetryable = False\<rparr>),
     (ErrSaltJobMissing, \<lparr>classMessage = ''Salt job result is unavailable'', classRetryable = True\<rparr>),
     (ErrMCPMMissing, \<lparr>classMessage = ''mcpm runtime is unavailable'', classRetryable = False\<rparr>),
     (ErrMCPMIncompatible, \<lparr>classMessage = ''mcpm runtime is incompatible'', classRetryable = False\<rparr>),
     (ErrRelayPortConflict, \<lparr>classMessage = ''Relay port conflicts with another process'', classRetryable = False\<rparr>),
     (ErrRelayUnhealthy, \<lparr>classMessage = ''Relay runtime is unhealthy'', classRetryable = True\<rparr>),
     (ErrAtomicWrite, \<lparr>classMessage = ''Atomic write failed'', classRetryable = False\<rparr>),
     (ErrBackup, \<lparr>classMessage = ''Backup operation failed'', classRetryable = False\<rparr>),
     (ErrHermesReadOnly, \<lparr>classMessage = ''Hermes target is read-only'', classRetryable = False\<rparr>)]"

definition classOf :: "string \<Rightarrow> apiErrorClass option" where
  "classOf = map_of boundedAPIErrorClasses"

definition boundedError :: "string \<Rightarrow> apiErrorClass \<Rightarrow> api_error" where
  "boundedError c cl =
     \<lparr>apiCode = c, apiMessage = Lit (classMessage cl), apiRetryable = classRetryable cl, apiDetails = []\<rparr>"

text \<open>\<open>BoundedAPIError\<close> on a non-nil error; on nil the source returns nil.\<close>

definition BoundedAPIError :: "go_error \<Rightarrow> string \<Rightarrow> api_error" where
  "BoundedAPIError err fallbackCode =
     (let (code, class) = (case classOf fallbackCode of
            None \<Rightarrow> (ErrInvalidRequest, the (classOf ErrInvalidRequest))
          | Some cl \<Rightarrow> (fallbackCode, cl))
      in case asAPI err of
           None \<Rightarrow> boundedError code class
         | Some apiErr \<Rightarrow>
             (case classOf (apiCode apiErr) of
                None \<Rightarrow> boundedError code class
              | Some candidate \<Rightarrow> boundedError (apiCode apiErr) candidate))"

text \<open>A public error: a code of the table with the fixed message and retry policy of its class.\<close>

definition is_bounded :: "api_error \<Rightarrow> bool" where
  "is_bounded e = (\<exists>cl. classOf (apiCode e) = Some cl \<and> e = boundedError (apiCode e) cl)"

lemma classOf_invalid: "classOf ErrInvalidRequest
    = Some \<lparr>classMessage = ''Request is invalid'', classRetryable = False\<rparr>"
  by (simp add: classOf_def boundedAPIErrorClasses_def)

lemma BoundedAPIError_bounded: "is_bounded (BoundedAPIError err c)"
proof -
  have inv: "is_bounded (boundedError c cl)" if "classOf c = Some cl" for c cl
    using that by (simp add: is_bounded_def boundedError_def)
  show ?thesis
    by (cases "classOf c"; cases "asAPI err")
      (auto simp: BoundedAPIError_def classOf_invalid intro!: inv split: option.split)
qed

lemma BoundedAPIError_idem: "is_bounded e \<Longrightarrow> BoundedAPIError (APIErr e) c = e"
  by (cases "classOf c") (auto simp: is_bounded_def BoundedAPIError_def)

lemma bounded_no_details: "is_bounded e \<Longrightarrow> apiDetails e = []"
  by (metis api_error.select_convs(4) boundedError_def is_bounded_def)

section \<open>Targets\<close>

record Target =
  T_ID :: string
  T_NodeID :: string
  T_NodeKind :: string
  T_SaltMinionID :: string
  T_Runtime :: string
  T_ManagedUsername :: string
  T_ManagedHome :: string

definition managedHomeBad :: "string \<Rightarrow> bool" where
  "managedHomeBad home =
     (\<not> path_IsAbs home \<or> path_Clean home \<noteq> home \<or> home = ''/'' \<or> CHR 0x00 \<in> set home)"

definition Target_Validate :: "(string \<Rightarrow> bool) \<Rightarrow> bool \<Rightarrow> Target \<Rightarrow> go_error option" where
  "Target_Validate uv write t =
     (if \<not> uv (T_ID t) \<or> \<not> uv (T_NodeID t) then
        Some (errorsNew ''target id and node id must be UUIDs'')
      else if T_NodeKind t \<noteq> NodeKindLocal \<and> T_NodeKind t \<noteq> NodeKindSalt then
        Some (errorsNew ''target node kind must be local or salt'')
      else if T_NodeKind t = NodeKindSalt \<and> TrimSpace (T_SaltMinionID t) = '''' then
        Some (errorsNew ''Salt target requires a minion id'')
      else case ValidateManagedUsername (T_ManagedUsername t) of Some e \<Rightarrow> Some e
      | None \<Rightarrow>
      if T_ManagedHome t \<noteq> '''' \<and> managedHomeBad (T_ManagedHome t) then
        Some (errorsNew ''target managed home must be a canonical absolute path'')
      else if T_Runtime t = RuntimeClaude \<or> T_Runtime t = RuntimeCodex then None
      else if T_Runtime t = RuntimeHermes then
        (if write then Some (APIErr (apiError ErrHermesReadOnly ''Hermes targets are read-only'')) else None)
      else if T_Runtime t = RuntimeSharedRelay then
        (if T_NodeKind t \<noteq> NodeKindLocal then
           Some (errorsNew ''shared relay is available only on the local node'') else None)
      else Some (errorf ''unsupported runtime %q'' [T_Runtime t]))"

definition writableRuntime :: "string \<Rightarrow> bool" where
  "writableRuntime r = (r = RuntimeClaude \<or> r = RuntimeCodex \<or> r = RuntimeSharedRelay)"

lemma Target_Validate_ids [go_valid]:
  "Target_Validate uv write t = None \<Longrightarrow> uv (T_ID t) \<and> uv (T_NodeID t)"
  unfolding Target_Validate_def by (simp split: if_splits)

lemma Target_Validate_runtime [go_valid]:
  "Target_Validate uv True t = None \<Longrightarrow>
    writableRuntime (T_Runtime t) \<and>
    (T_Runtime t = RuntimeSharedRelay \<longrightarrow> T_NodeKind t = NodeKindLocal)"
  unfolding Target_Validate_def writableRuntime_def by (auto split: if_splits option.splits)

lemma Target_Validate_user [go_valid]:
  "Target_Validate uv write t = None \<Longrightarrow> managedUsernamePattern (T_ManagedUsername t)"
  unfolding Target_Validate_def ValidateManagedUsername_def by (simp split: if_splits)

lemma Target_Validate_home [go_valid]:
  "Target_Validate uv write t = None \<Longrightarrow> T_ManagedHome t \<noteq> '''' \<Longrightarrow> \<not> managedHomeBad (T_ManagedHome t)"
  unfolding Target_Validate_def by (simp split: if_splits option.splits)

lemma Target_Validate_write_imp_read:
  "Target_Validate uv True t = None \<Longrightarrow> Target_Validate uv False t = None"
  unfolding Target_Validate_def by (auto split: if_splits option.splits)

end
