(* ===== verification/Routing_Bundle.thy ===== *)
theory Routing_Bundle
  imports Protocol_Types
begin

text \<open>
  The relay routing bundle (\<open>src/internal/bridgeprotocol/governance.go\<close>): its data, the
  validation that guards every bundle the relay is given, the canonical hash, the tool counts the
  session canary is compared with, and the validation of governance JSON bodies.

  \<open>encoding/json\<close> into the bundle struct, the JSON canonicalizer (a third-party package) and
  SHA-256 are parameters, gathered in the record \<open>codec\<close>.
\<close>

section \<open>Data\<close>

record RoutingToolDTO =
  RT_ToolID :: string
  RT_Name :: string
  RT_InputSchema :: json
  RT_OutputSchema :: json
  RT_Annotations :: json
  RT_GlobalDecision :: string
  RT_ReasonCodes :: "string list"
  RT_Paused :: bool

record ServerContractDTO =
  SC_ServerID :: string
  SC_ServerName :: string
  SC_MCPConfigRevisionID :: string
  SC_AcceptedContractRevisionID :: "string option"
  SC_AcceptedContractHash :: "string option"
  SC_Tools :: "RoutingToolDTO list"

record ToolVisibilityOverrideDTO =
  VO_ToolID :: string
  VO_Visible :: bool

record ToolPolicyRuleDTO =
  PR_ToolID :: string
  PR_Decision :: string

record ProfileServerRoutingDTO =
  PS_ServerID :: string
  PS_MCPConfigRevisionID :: string
  PS_AcceptedContractRevisionID :: "string option"
  PS_VisibilityMode :: string
  PS_ToolOverrides :: "ToolVisibilityOverrideDTO list"
  PS_ToolRules :: "ToolPolicyRuleDTO list"

record PublishedProfileDTO =
  PP_ProfileID :: string
  PP_ProfileRevisionID :: string
  PP_ProfileRevisionHash :: string
  PP_ProfileName :: string
  PP_ClientKind :: string
  PP_Servers :: "ProfileServerRoutingDTO list"

record RoutingBundle =
  RB_SchemaVersion :: int
  RB_Mode :: string
  RB_RelayConfigurationRevisionID :: string
  RB_RelayConfigurationHash :: string
  RB_GlobalPolicyRevisionID :: string
  RB_GlobalPolicyHash :: string
  RB_DefaultProfileID :: "string option"
  RB_Servers :: "ServerContractDTO list"
  RB_Profiles :: "PublishedProfileDTO list"

definition GovernanceMaxBodyBytes :: int where
  "GovernanceMaxBodyBytes = 2 ^ 20"

section \<open>Helpers\<close>

definition validGovernanceName :: "string \<Rightarrow> bool" where
  "validGovernanceName value = (TrimSpace value \<noteq> '''' \<and> length (TrimSpace value) \<le> 256)"

definition validGovernanceDecision :: "string \<Rightarrow> bool" where
  "validGovernanceDecision value = (value = ''allow'' \<or> value = ''confirm'' \<or> value = ''deny'')"

definition decisionRank :: "string \<Rightarrow> nat" where
  "decisionRank value = (if value = ''deny'' then 2 else if value = ''confirm'' then 1 else 0)"

definition findRoutingServer :: "ServerContractDTO list \<Rightarrow> string \<Rightarrow> ServerContractDTO option" where
  "findRoutingServer servers i = find (\<lambda>s. SC_ServerID s = i) servers"

definition findRoutingTool :: "RoutingToolDTO list \<Rightarrow> string \<Rightarrow> RoutingToolDTO option" where
  "findRoutingTool tools i = find (\<lambda>t. RT_ToolID t = i) tools"

text \<open>\<open>sameOptional\<close> compares two \<open>*string\<close> by value.\<close>

definition sameOptional :: "string option \<Rightarrow> string option \<Rightarrow> bool" where
  "sameOptional left right =
     (case (left, right) of (Some l, Some r) \<Rightarrow> l = r | (None, None) \<Rightarrow> True | _ \<Rightarrow> False)"

lemma sameOptional_eq [simp]: "sameOptional l r = (l = r)"
  by (cases l; cases r) (auto simp: sameOptional_def)

lemma decisionRank_deny: "decisionRank d = 2 \<longleftrightarrow> d = ''deny''"
  by (simp add: decisionRank_def)

lemma decisionRank_le: "decisionRank d \<le> 2"
  by (simp add: decisionRank_def)

section \<open>RoutingBundle.Validate\<close>

definition runtimeName :: "bool \<Rightarrow> string \<Rightarrow> string \<Rightarrow> string" where
  "runtimeName multi serverName toolName = (if multi then serverName @ ''_'' @ toolName else toolName)"

text \<open>
  The loop over the tools of one server: the ids and names seen in this server, then the
  runtime names and the number of tools of the whole bundle.
\<close>

fun checkTools :: "(string \<Rightarrow> bool) \<Rightarrow> bool \<Rightarrow> string \<Rightarrow> RoutingToolDTO list \<Rightarrow> string list \<Rightarrow> string list
    \<Rightarrow> string list \<times> nat \<Rightarrow> go_error + (string list \<times> nat)" where
  "checkTools uv multi sn [] toolIDs toolNames acc = Inr acc"
| "checkTools uv multi sn (tool # tools) toolIDs toolNames (rts, tally) =
     (if \<not> uv (RT_ToolID tool) \<or> \<not> validGovernanceName (RT_Name tool)
         \<or> \<not> validGovernanceDecision (RT_GlobalDecision tool) then
        Inl (errorsNew ''routing bundle tool identity is invalid'')
      else if RT_ToolID tool \<in> set toolIDs then
        Inl (errorsNew ''routing bundle contains duplicate tool id'')
      else if RT_Name tool \<in> set toolNames then
        Inl (errorsNew ''routing bundle contains duplicate tool name'')
      else if runtimeName multi sn (RT_Name tool) \<in> set rts then
        Inl (errorsNew ''routing bundle contains duplicate runtime tool name'')
      else checkTools uv multi sn tools (RT_ToolID tool # toolIDs) (RT_Name tool # toolNames)
             (runtimeName multi sn (RT_Name tool) # rts, Suc tally))"

definition contractPointerBad :: "(string \<Rightarrow> bool) \<Rightarrow> ServerContractDTO \<Rightarrow> bool" where
  "contractPointerBad uv s =
     ((SC_AcceptedContractRevisionID s = None) \<noteq> (SC_AcceptedContractHash s = None)
      \<or> (case SC_AcceptedContractRevisionID s of None \<Rightarrow> False | Some i \<Rightarrow> \<not> uv i)
      \<or> (case SC_AcceptedContractHash s of None \<Rightarrow> False | Some h \<Rightarrow> \<not> IsSHA256 h))"

fun checkServers :: "(string \<Rightarrow> bool) \<Rightarrow> string \<Rightarrow> bool \<Rightarrow> ServerContractDTO list \<Rightarrow> string list \<Rightarrow> string list
    \<Rightarrow> string list \<times> nat \<Rightarrow> go_error + (string list \<times> string list \<times> nat)" where
  "checkServers uv mode multi [] serverIDs serverNames (rts, tally) = Inr (serverNames, rts, tally)"
| "checkServers uv mode multi (s # servers) serverIDs serverNames acc =
     (if \<not> uv (SC_ServerID s) \<or> \<not> uv (SC_MCPConfigRevisionID s) \<or> \<not> validGovernanceName (SC_ServerName s) then
        Inl (errorsNew ''routing bundle server identity is invalid'')
      else if SC_ServerID s \<in> set serverIDs then
        Inl (errorsNew ''routing bundle contains duplicate server id'')
      else if SC_ServerName s \<in> set serverNames then
        Inl (errorsNew ''routing bundle contains duplicate server name'')
      else if contractPointerBad uv s then
        Inl (errorsNew ''routing bundle server contract pointer is invalid'')
      else if mode = ''enforced'' \<and> SC_AcceptedContractRevisionID s = None then
        Inl (errorsNew ''enforced routing bundle requires accepted server contracts'')
      else case checkTools uv multi (SC_ServerName s) (SC_Tools s) [] [] acc of
             Inl e \<Rightarrow> Inl e
           | Inr acc' \<Rightarrow> checkServers uv mode multi servers (SC_ServerID s # serverIDs)
                 (SC_ServerName s # serverNames) acc')"

definition ambiguousPrefix :: "string list \<Rightarrow> bool" where
  "ambiguousPrefix names =
     list_ex (\<lambda>a. list_ex (\<lambda>b. a \<noteq> b \<and> HasPrefix b (a @ ''_'')) names) names"

fun checkOverrides :: "(string \<Rightarrow> bool) \<Rightarrow> string list \<Rightarrow> ToolVisibilityOverrideDTO list \<Rightarrow> string list
    \<Rightarrow> go_error option" where
  "checkOverrides uv toolIDs [] seen = None"
| "checkOverrides uv toolIDs (ov # os) seen =
     (if \<not> uv (VO_ToolID ov) then
        Some (errorsNew ''routing bundle visibility override identity is invalid'')
      else if VO_ToolID ov \<notin> set toolIDs then
        Some (errorsNew ''routing bundle visibility override references an unknown tool'')
      else if VO_ToolID ov \<in> set seen then
        Some (errorsNew ''routing bundle contains duplicate visibility override'')
      else checkOverrides uv toolIDs os (VO_ToolID ov # seen))"

fun checkRules :: "(string \<Rightarrow> bool) \<Rightarrow> RoutingToolDTO list \<Rightarrow> ToolPolicyRuleDTO list \<Rightarrow> string list
    \<Rightarrow> go_error option" where
  "checkRules uv tools [] seen = None"
| "checkRules uv tools (r # rs) seen =
     (if \<not> uv (PR_ToolID r) \<or> \<not> validGovernanceDecision (PR_Decision r) then
        Some (errorsNew ''routing bundle policy rule is invalid'')
      else if PR_ToolID r \<in> set seen then
        Some (errorsNew ''routing bundle contains duplicate policy rule'')
      else case findRoutingTool tools (PR_ToolID r) of
             None \<Rightarrow> Some (errorsNew ''routing bundle profile policy loosens the global decision'')
           | Some t \<Rightarrow>
               if decisionRank (PR_Decision r) < decisionRank (RT_GlobalDecision t) then
                 Some (errorsNew ''routing bundle profile policy loosens the global decision'')
               else checkRules uv tools rs (PR_ToolID r # seen))"

definition visibilityModes :: "string list" where
  "visibilityModes = [''all_accepted'', ''selected'', ''hidden'']"

fun checkProfileServers :: "(string \<Rightarrow> bool) \<Rightarrow> string \<Rightarrow> ServerContractDTO list \<Rightarrow> ProfileServerRoutingDTO list
    \<Rightarrow> string list \<Rightarrow> nat \<Rightarrow> go_error + nat" where
  "checkProfileServers uv mode servers [] seen totalRules = Inr totalRules"
| "checkProfileServers uv mode servers (ps # pss) seen totalRules =
     (case findRoutingServer servers (PS_ServerID ps) of
        None \<Rightarrow> Inl (errorsNew ''routing bundle profile server pin is invalid'')
      | Some server \<Rightarrow>
          if PS_MCPConfigRevisionID ps \<noteq> SC_MCPConfigRevisionID server
             \<or> \<not> sameOptional (PS_AcceptedContractRevisionID ps) (SC_AcceptedContractRevisionID server)
             \<or> PS_VisibilityMode ps \<notin> set visibilityModes then
            Inl (errorsNew ''routing bundle profile server pin is invalid'')
          else if mode = ''enforced'' \<and> PS_AcceptedContractRevisionID ps = None then
            Inl (errorsNew ''enforced routing bundle requires accepted profile contracts'')
          else if PS_ServerID ps \<in> set seen then
            Inl (errorsNew ''routing bundle contains duplicate profile server'')
          else case checkOverrides uv (map RT_ToolID (SC_Tools server)) (PS_ToolOverrides ps) [] of
                 Some e \<Rightarrow> Inl e
               | None \<Rightarrow>
                   case checkRules uv (SC_Tools server) (PS_ToolRules ps) [] of
                     Some e \<Rightarrow> Inl e
                   | None \<Rightarrow> checkProfileServers uv mode servers pss (PS_ServerID ps # seen)
                               (totalRules + length (PS_ToolRules ps)))"

fun checkProfiles :: "(string \<Rightarrow> bool) \<Rightarrow> string \<Rightarrow> ServerContractDTO list \<Rightarrow> PublishedProfileDTO list
    \<Rightarrow> string list \<Rightarrow> string list \<Rightarrow> nat \<Rightarrow> go_error + (string list \<times> nat)" where
  "checkProfiles uv mode servers [] profileIDs profileNames totalRules = Inr (profileIDs, totalRules)"
| "checkProfiles uv mode servers (p # ps) profileIDs profileNames totalRules =
     (if \<not> uv (PP_ProfileID p) \<or> \<not> uv (PP_ProfileRevisionID p) \<or> \<not> IsSHA256 (PP_ProfileRevisionHash p)
         \<or> \<not> validGovernanceName (PP_ProfileName p)
         \<or> (PP_ClientKind p \<noteq> RuntimeClaude \<and> PP_ClientKind p \<noteq> RuntimeCodex) then
        Inl (errorsNew ''routing bundle profile identity is invalid'')
      else if PP_ProfileID p \<in> set profileIDs then
        Inl (errorsNew ''routing bundle contains duplicate profile id'')
      else if PP_ProfileName p \<in> set profileNames then
        Inl (errorsNew ''routing bundle contains duplicate profile name'')
      else case checkProfileServers uv mode servers (PP_Servers p) [] totalRules of
             Inl e \<Rightarrow> Inl e
           | Inr totalRules' \<Rightarrow> checkProfiles uv mode servers ps (PP_ProfileID p # profileIDs)
                 (PP_ProfileName p # profileNames) totalRules')"

definition RoutingBundle_Validate :: "(string \<Rightarrow> bool) \<Rightarrow> RoutingBundle \<Rightarrow> go_error option" where
  "RoutingBundle_Validate uv r =
     (if RB_SchemaVersion r \<noteq> 1 \<or> (RB_Mode r \<noteq> ''compatibility'' \<and> RB_Mode r \<noteq> ''enforced'')
         \<or> \<not> uv (RB_RelayConfigurationRevisionID r) \<or> \<not> uv (RB_GlobalPolicyRevisionID r)
         \<or> \<not> IsSHA256 (RB_RelayConfigurationHash r) \<or> \<not> IsSHA256 (RB_GlobalPolicyHash r) then
        Some (errorsNew ''routing bundle contains invalid governance metadata'')
      else if (case RB_DefaultProfileID r of None \<Rightarrow> False | Some d \<Rightarrow> \<not> uv d) then
        Some (errorsNew ''routing bundle default profile is invalid'')
      else if length (RB_Servers r) > 500 \<or> length (RB_Profiles r) > 100 then
        Some (errorsNew ''routing bundle profile limit exceeded'')
      else case checkServers uv (RB_Mode r) (length (RB_Servers r) > 1) (RB_Servers r) [] [] ([], 0) of
        Inl e \<Rightarrow> Some e
      | Inr (serverNames, rts, totalTools) \<Rightarrow>
          if ambiguousPrefix serverNames then
            Some (errorsNew ''routing bundle contains ambiguous server name prefix'')
          else case checkProfiles uv (RB_Mode r) (RB_Servers r) (RB_Profiles r) [] [] 0 of
            Inl e \<Rightarrow> Some e
          | Inr (profileIDs, totalRules) \<Rightarrow>
              if (case RB_DefaultProfileID r of None \<Rightarrow> False | Some d \<Rightarrow> d \<notin> set profileIDs) then
                Some (errorsNew ''routing bundle default profile is not published'')
              else if totalTools > 10000 \<or> totalRules > 20000 then
                Some (errorsNew ''routing bundle profile limit exceeded'')
              else None)"

section \<open>Canonical form, governance manifests and reloads\<close>

record codec =
  uuidValid :: "string \<Rightarrow> bool"
  sha256 :: "string \<Rightarrow> string"
  decodeRouting :: "string \<Rightarrow> go_error + RoutingBundle"
  marshalRouting :: "RoutingBundle \<Rightarrow> go_error + string"

definition RoutingBundle_Canonical :: "codec \<Rightarrow> RoutingBundle \<Rightarrow> go_error + (string \<times> string)" where
  "RoutingBundle_Canonical cd r =
     (case RoutingBundle_Validate (uuidValid cd) r of
        Some e \<Rightarrow> Inl e
      | None \<Rightarrow> (case marshalRouting cd r of
          Inl e \<Rightarrow> Inl e
        | Inr body \<Rightarrow> Inr (body, hexEncode (sha256 cd body))))"

record RelayGovernanceManifest =
  RG_RelayConfigurationRevisionID :: string
  RG_RelayConfigurationHash :: string
  RG_RoutingBundle :: string
  RG_RoutingHash :: string

definition RelayGovernanceManifest_Validate :: "codec \<Rightarrow> RelayGovernanceManifest \<Rightarrow> go_error option" where
  "RelayGovernanceManifest_Validate cd r =
     (if \<not> uuidValid cd (RG_RelayConfigurationRevisionID r) \<or> \<not> IsSHA256 (RG_RelayConfigurationHash r)
         \<or> \<not> IsSHA256 (RG_RoutingHash r) \<or> length (RG_RoutingBundle r) = 0
         \<or> int (length (RG_RoutingBundle r)) > GovernanceMaxBodyBytes then
        Some (errorsNew ''relay governance manifest contains invalid identifiers or hashes'')
      else case decodeRouting cd (RG_RoutingBundle r) of
        Inl e \<Rightarrow> Some (Wrapped ''routing bundle: %w'' e)
      | Inr bundle \<Rightarrow>
          (case RoutingBundle_Canonical cd bundle of
             Inl e \<Rightarrow> Some e
           | Inr (_, hash) \<Rightarrow>
               if hash \<noteq> RG_RoutingHash r then
                 Some (errorsNew ''routing bundle hash does not match governance manifest'')
               else if RB_RelayConfigurationRevisionID bundle \<noteq> RG_RelayConfigurationRevisionID r
                  \<or> RB_RelayConfigurationHash bundle \<noteq> RG_RelayConfigurationHash r then
                 Some (errorsNew ''routing bundle relay revision does not match governance manifest'')
               else None))"

section \<open>Tool counts of the session canary\<close>

definition toolVisible :: "ProfileServerRoutingDTO \<Rightarrow> RoutingToolDTO \<Rightarrow> bool" where
  "toolVisible ps tool =
     (case find (\<lambda>ov. VO_ToolID ov = RT_ToolID tool) (PS_ToolOverrides ps) of
        None \<Rightarrow> PS_VisibilityMode ps = ''all_accepted''
      | Some ov \<Rightarrow> VO_Visible ov)"

definition toolDecision :: "ProfileServerRoutingDTO \<Rightarrow> RoutingToolDTO \<Rightarrow> string" where
  "toolDecision ps tool =
     (case find (\<lambda>rl. PR_ToolID rl = RT_ToolID tool) (PS_ToolRules ps) of
        None \<Rightarrow> RT_GlobalDecision tool
      | Some rl \<Rightarrow> PR_Decision rl)"

definition relayCanaryToolCount :: "RoutingBundle \<Rightarrow> PublishedProfileDTO \<Rightarrow> nat" where
  "relayCanaryToolCount bundle profile =
     sum_list (map (\<lambda>server.
       case find (\<lambda>ps. PS_ServerID ps = SC_ServerID server) (PP_Servers profile) of
         None \<Rightarrow> 0
       | Some ps \<Rightarrow> length (filter (\<lambda>tool. toolVisible ps tool \<and> \<not> RT_Paused tool
                                  \<and> toolDecision ps tool \<noteq> ''deny'') (SC_Tools server)))
       (RB_Servers bundle))"

definition relayCanaryDefaultToolCount :: "RoutingBundle \<Rightarrow> nat" where
  "relayCanaryDefaultToolCount bundle =
     sum_list (map (\<lambda>server. length (filter (\<lambda>tool. \<not> RT_Paused tool
         \<and> RT_GlobalDecision tool \<noteq> ''deny'') (SC_Tools server))) (RB_Servers bundle))"

section \<open>What a validated bundle guarantees\<close>

definition serverRuntimeNames :: "bool \<Rightarrow> ServerContractDTO \<Rightarrow> string list" where
  "serverRuntimeNames multi s = map (\<lambda>t. runtimeName multi (SC_ServerName s) (RT_Name t)) (SC_Tools s)"

definition bundleRuntimeNames :: "RoutingBundle \<Rightarrow> string list" where
  "bundleRuntimeNames r =
     concat (map (serverRuntimeNames (length (RB_Servers r) > 1)) (RB_Servers r))"

lemma checkTools_Inr:
  assumes "checkTools uv multi sn tools ids names (rts, n) = Inr (rts', n')" and "distinct rts"
  shows "distinct (map RT_ToolID tools) \<and> set (map RT_ToolID tools) \<inter> set ids = {}
    \<and> rts' = rev (map (\<lambda>t. runtimeName multi sn (RT_Name t)) tools) @ rts \<and> distinct rts'
    \<and> n' = n + length tools"
  using assms
proof (induction tools arbitrary: ids names rts n)
  case Nil
  then show ?case by simp
next
  case (Cons t tools)
  let ?rt = "runtimeName multi sn (RT_Name t)"
  from Cons.prems have step: "checkTools uv multi sn tools (RT_ToolID t # ids) (RT_Name t # names)
      (?rt # rts, Suc n) = Inr (rts', n')" and fresh: "RT_ToolID t \<notin> set ids" "?rt \<notin> set rts"
    by (simp_all split: if_splits)
  have "distinct (?rt # rts)" using fresh Cons.prems(2) by simp
  from Cons.IH [OF step this] fresh show ?case by (elim conjE) simp
qed

lemma checkServers_Cons:
  assumes "checkServers uv mode multi (s # servers) ids names (rts, n) = Inr res"
  obtains rts' n' where
    "checkTools uv multi (SC_ServerName s) (SC_Tools s) [] [] (rts, n) = Inr (rts', n')"
    "checkServers uv mode multi servers (SC_ServerID s # ids) (SC_ServerName s # names) (rts', n') = Inr res"
    "SC_ServerID s \<notin> set ids" "mode = ''enforced'' \<longrightarrow> SC_AcceptedContractRevisionID s \<noteq> None"
  using assms by (auto split: if_splits sum.splits)

lemma checkServers_Inr:
  assumes "checkServers uv mode multi servers ids names (rts, n) = Inr (names', rts', n')"
    and "distinct rts"
  shows "(distinct (map SC_ServerID servers) \<and> set (map SC_ServerID servers) \<inter> set ids = {})
    \<and> names' = rev (map SC_ServerName servers) @ names
    \<and> rts' = rev (concat (map (serverRuntimeNames multi) servers)) @ rts \<and> distinct rts'
    \<and> (\<forall>s \<in> set servers. distinct (map RT_ToolID (SC_Tools s)))
    \<and> (mode = ''enforced'' \<longrightarrow> (\<forall>s \<in> set servers. SC_AcceptedContractRevisionID s \<noteq> None))
    \<and> n' = n + sum_list (map (\<lambda>s. length (SC_Tools s)) servers)"
  using assms
proof (induction servers arbitrary: ids names rts n)
  case Nil
  then show ?case by simp
next
  case (Cons s servers)
  obtain rts1 n1 where
    t: "checkTools uv multi (SC_ServerName s) (SC_Tools s) [] [] (rts, n) = Inr (rts1, n1)"
    and r: "checkServers uv mode multi servers (SC_ServerID s # ids) (SC_ServerName s # names)
        (rts1, n1) = Inr (names', rts', n')"
    and s: "SC_ServerID s \<notin> set ids" "mode = ''enforced'' \<longrightarrow> SC_AcceptedContractRevisionID s \<noteq> None"
    using checkServers_Cons [OF Cons.prems(1)] by metis
  note tl = checkTools_Inr [OF t Cons.prems(2), folded serverRuntimeNames_def]
  then have t': "rts1 = rev (serverRuntimeNames multi s) @ rts" "distinct rts1"
    "distinct (map RT_ToolID (SC_Tools s))" "n1 = n + length (SC_Tools s)"
    by blast+
  from Cons.IH [OF r t'(2)] s t' show ?case by (elim conjE) simp
qed

lemma checkRules_None:
  "checkRules uv tools rules seen = None \<Longrightarrow> rl \<in> set rules \<Longrightarrow>
    \<exists>t. findRoutingTool tools (PR_ToolID rl) = Some t
        \<and> decisionRank (RT_GlobalDecision t) \<le> decisionRank (PR_Decision rl)"
  by (induction rules arbitrary: seen) (auto split: if_splits option.splits)

lemma checkProfileServers_Inr:
  "checkProfileServers uv mode servers pss seen n = Inr n' \<Longrightarrow> ps \<in> set pss \<Longrightarrow>
    \<exists>server. findRoutingServer servers (PS_ServerID ps) = Some server
        \<and> checkRules uv (SC_Tools server) (PS_ToolRules ps) [] = None
        \<and> PS_AcceptedContractRevisionID ps = SC_AcceptedContractRevisionID server
        \<and> (mode = ''enforced'' \<longrightarrow> PS_AcceptedContractRevisionID ps \<noteq> None)"
  by (induction pss arbitrary: seen n) (auto split: if_splits option.splits)

lemma checkProfiles_Inr:
  "checkProfiles uv mode servers ps ids names n = Inr res \<Longrightarrow> p \<in> set ps \<Longrightarrow>
    \<exists>n1 n2. checkProfileServers uv mode servers (PP_Servers p) [] n1 = Inr n2"
  by (induction ps arbitrary: ids names n) (auto split: if_splits sum.splits)

lemma RoutingBundle_Validate_None:
  assumes "RoutingBundle_Validate uv r = None"
  obtains names rts n pids m where
    "checkServers uv (RB_Mode r) (length (RB_Servers r) > 1) (RB_Servers r) [] [] ([], 0) = Inr (names, rts, n)"
    "\<not> ambiguousPrefix names"
    "checkProfiles uv (RB_Mode r) (RB_Servers r) (RB_Profiles r) [] [] 0 = Inr (pids, m)"
    "n \<le> 10000" "m \<le> 20000"
  using assms unfolding RoutingBundle_Validate_def
  by (auto split: if_splits sum.splits prod.splits)

lemma validated_server:
  assumes "RoutingBundle_Validate uv r = None" and "server \<in> set (RB_Servers r)"
  shows "findRoutingServer (RB_Servers r) (SC_ServerID server) = Some server"
    and "distinct (map RT_ToolID (SC_Tools server))"
proof -
  obtain names rts n where
    "checkServers uv (RB_Mode r) (length (RB_Servers r) > 1) (RB_Servers r) [] [] ([], 0) = Inr (names, rts, n)"
    using RoutingBundle_Validate_None [OF assms(1)] by metis
  note ok = checkServers_Inr [OF this distinct.simps(1) [THEN iffD2, OF TrueI]]
  with assms(2) show "findRoutingServer (RB_Servers r) (SC_ServerID server) = Some server"
    unfolding findRoutingServer_def by (intro find_key_unique) blast+
  from ok assms(2) show "distinct (map RT_ToolID (SC_Tools server))" by blast
qed

lemma validated_rule:
  assumes "RoutingBundle_Validate uv r = None" and "p \<in> set (RB_Profiles r)"
    and "ps \<in> set (PP_Servers p)" and "server \<in> set (RB_Servers r)" and "SC_ServerID server = PS_ServerID ps"
    and "rl \<in> set (PS_ToolRules ps)"
  shows "\<exists>t. findRoutingTool (SC_Tools server) (PR_ToolID rl) = Some t
        \<and> decisionRank (RT_GlobalDecision t) \<le> decisionRank (PR_Decision rl)"
proof -
  obtain pids m where
    "checkProfiles uv (RB_Mode r) (RB_Servers r) (RB_Profiles r) [] [] 0 = Inr (pids, m)"
    using RoutingBundle_Validate_None [OF assms(1)] by metis
  then obtain n1 n2 where "checkProfileServers uv (RB_Mode r) (RB_Servers r) (PP_Servers p) [] n1 = Inr n2"
    using checkProfiles_Inr assms(2) by blast
  from checkProfileServers_Inr [OF this assms(3)] validated_server(1) [OF assms(1,4)] assms(5)
  have "checkRules uv (SC_Tools server) (PS_ToolRules ps) [] = None" by simp
  from checkRules_None [OF this assms(6)] show ?thesis .
qed

lemma toolDecision_rank:
  assumes "RoutingBundle_Validate uv r = None" and "p \<in> set (RB_Profiles r)"
    and "ps \<in> set (PP_Servers p)" and "server \<in> set (RB_Servers r)" and "SC_ServerID server = PS_ServerID ps"
    and "tool \<in> set (SC_Tools server)"
  shows "decisionRank (RT_GlobalDecision tool) \<le> decisionRank (toolDecision ps tool)"
proof (cases "find (\<lambda>rl. PR_ToolID rl = RT_ToolID tool) (PS_ToolRules ps)")
  case None
  then show ?thesis by (simp add: toolDecision_def)
next
  case (Some rl)
  note rl = find_key_SomeD [OF Some]
  from find_key_unique [OF validated_server(2) [OF assms(1,4)] assms(6)]
  have "findRoutingTool (SC_Tools server) (PR_ToolID rl) = Some tool"
    by (simp add: findRoutingTool_def rl)
  with validated_rule [OF assms(1-5) rl [THEN conjunct1]] Some show ?thesis
    by (simp add: toolDecision_def)
qed

lemma denied_stays_denied:
  assumes "decisionRank g \<le> decisionRank d" and "d \<noteq> ''deny''"
  shows "g \<noteq> ''deny''"
  using assms decisionRank_le [of d] decisionRank_deny [of d] decisionRank_deny [of g] by auto

text \<open>The names a server's tools have at run time start with the server's name and an underscore.\<close>

lemma runtimeName_server:
  "w \<in> set (serverRuntimeNames True s) \<Longrightarrow> prefix (SC_ServerName s @ ''_'') w"
  by (auto simp: serverRuntimeNames_def runtimeName_def)

lemma ambiguousPrefix_False:
  assumes "\<not> ambiguousPrefix names" and "a \<in> set names" and "b \<in> set names"
    and "prefix (a @ ''_'') w" and "prefix (b @ ''_'') w"
  shows "a = b"
proof (rule ccontr)
  assume ne: "a \<noteq> b"
  have clash: False
    if "x \<in> set names" "y \<in> set names" "x \<noteq> y" "prefix (x @ ''_'') w" "prefix (y @ ''_'') w"
      "length x \<le> length y" for x y
  proof -
    have "prefix (x @ ''_'') (y @ ''_'')"
      using that(4-6) prefix_length_prefix by fastforce
    with that(3) have "prefix (x @ ''_'') y" by auto
    with that(1-3) assms(1) show False
      by (auto simp: ambiguousPrefix_def list_ex_iff HasPrefix_def)
  qed
  show False
    using clash [of a b] clash [of b a] ne assms(2-5) by (cases "length a \<le> length b") auto
qed

section \<open>Properties\<close>

text \<open>
  C2. A bundle accepted by \<open>RoutingBundle.Validate\<close> never loosens the global call policy: the
  decision a profile applies to a tool is at least as strict as the tool's global decision.
\<close>

theorem profile_decision_never_looser:
  assumes "RoutingBundle_Validate uv r = None" and "p \<in> set (RB_Profiles r)"
    and "ps \<in> set (PP_Servers p)" and "server \<in> set (RB_Servers r)" and "SC_ServerID server = PS_ServerID ps"
    and "tool \<in> set (SC_Tools server)"
  shows "decisionRank (RT_GlobalDecision tool) \<le> decisionRank (toolDecision ps tool)"
  using assms by (rule toolDecision_rank)

text \<open>
  In a validated bundle no profile exposes more callable tools than the default session
  does: the count the canary expects for a profile is at most the default count.
\<close>

theorem profile_tools_within_default:
  assumes "RoutingBundle_Validate uv r = None" and "p \<in> set (RB_Profiles r)"
  shows "relayCanaryToolCount r p \<le> relayCanaryDefaultToolCount r"
  unfolding relayCanaryToolCount_def relayCanaryDefaultToolCount_def
proof (rule sum_list_mono)
  fix server assume server: "server \<in> set (RB_Servers r)"
  let ?n = "length (filter (\<lambda>tool. \<not> RT_Paused tool \<and> RT_GlobalDecision tool \<noteq> ''deny'') (SC_Tools server))"
  show "(case find (\<lambda>ps. PS_ServerID ps = SC_ServerID server) (PP_Servers p) of None \<Rightarrow> 0
      | Some ps \<Rightarrow> length (filter (\<lambda>tool. toolVisible ps tool \<and> \<not> RT_Paused tool
          \<and> toolDecision ps tool \<noteq> ''deny'') (SC_Tools server))) \<le> ?n"
  proof (cases "find (\<lambda>ps. PS_ServerID ps = SC_ServerID server) (PP_Servers p)")
    case (Some ps)
    note ps = find_key_SomeD [OF Some]
    have "RT_GlobalDecision tool \<noteq> ''deny''"
      if "tool \<in> set (SC_Tools server)" "toolDecision ps tool \<noteq> ''deny''" for tool
      using denied_stays_denied toolDecision_rank [OF assms ps [THEN conjunct1] server _ that(1)] ps that(2)
      by metis
    then show ?thesis
      unfolding Some option.case by (intro length_filter_mono_imp) blast
  qed simp
qed

text \<open>
  In a validated bundle all runtime tool names are distinct, and with several servers a
  runtime name is attributed to one server only: if it starts with another server's name and an
  underscore, that server is the same.
\<close>

theorem runtime_names_unambiguous:
  assumes "RoutingBundle_Validate uv r = None"
  shows "distinct (bundleRuntimeNames r) \<and>
    (\<forall>s \<in> set (RB_Servers r). \<forall>s' \<in> set (RB_Servers r). \<forall>w \<in> set (serverRuntimeNames True s).
      prefix (SC_ServerName s' @ ''_'') w \<longrightarrow> SC_ServerName s' = SC_ServerName s)"
proof -
  obtain names rts n where
    srv: "checkServers uv (RB_Mode r) (length (RB_Servers r) > 1) (RB_Servers r) [] [] ([], 0) = Inr (names, rts, n)"
    and amb: "\<not> ambiguousPrefix names"
    using RoutingBundle_Validate_None [OF assms] by metis
  note ok = checkServers_Inr [OF srv distinct.simps(1) [THEN iffD2, OF TrueI], folded bundleRuntimeNames_def]
  then have "rts = rev (bundleRuntimeNames r)" and "distinct rts" by auto
  then have "distinct (bundleRuntimeNames r)" by simp
  moreover have "set names = SC_ServerName ` set (RB_Servers r)" using ok by simp
  then have "SC_ServerName s' = SC_ServerName s"
    if "s \<in> set (RB_Servers r)" "s' \<in> set (RB_Servers r)"
      "w \<in> set (serverRuntimeNames True s)" "prefix (SC_ServerName s' @ ''_'') w" for s s' w
    using that ambiguousPrefix_False [OF amb _ _ that(4) runtimeName_server [OF that(3)]] by blast
  ultimately show ?thesis by blast
qed

text \<open>A small enforced bundle with two servers and one profile, for the witnesses.\<close>

definition exampleHash :: string where
  "exampleHash = replicate 64 CHR ''0''"

definition exampleBundle :: RoutingBundle where
  "exampleBundle =
    \<lparr>RB_SchemaVersion = 1, RB_Mode = ''enforced'', RB_RelayConfigurationRevisionID = ''rev'',
     RB_RelayConfigurationHash = exampleHash, RB_GlobalPolicyRevisionID = ''pol'',
     RB_GlobalPolicyHash = exampleHash, RB_DefaultProfileID = None,
     RB_Servers =
      [\<lparr>SC_ServerID = ''s1'', SC_ServerName = ''git'', SC_MCPConfigRevisionID = ''m1'',
        SC_AcceptedContractRevisionID = Some ''c1'', SC_AcceptedContractHash = Some exampleHash,
        SC_Tools =
         [\<lparr>RT_ToolID = ''t1'', RT_Name = ''log'', RT_InputSchema = JNull, RT_OutputSchema = JNull,
           RT_Annotations = JNull, RT_GlobalDecision = ''allow'', RT_ReasonCodes = [], RT_Paused = False\<rparr>,
          \<lparr>RT_ToolID = ''t2'', RT_Name = ''push'', RT_InputSchema = JNull, RT_OutputSchema = JNull,
           RT_Annotations = JNull, RT_GlobalDecision = ''confirm'', RT_ReasonCodes = [], RT_Paused = False\<rparr>]\<rparr>,
       \<lparr>SC_ServerID = ''s2'', SC_ServerName = ''db'', SC_MCPConfigRevisionID = ''m2'',
        SC_AcceptedContractRevisionID = Some ''c2'', SC_AcceptedContractHash = Some exampleHash,
        SC_Tools =
         [\<lparr>RT_ToolID = ''t3'', RT_Name = ''log'', RT_InputSchema = JNull, RT_OutputSchema = JNull,
           RT_Annotations = JNull, RT_GlobalDecision = ''deny'', RT_ReasonCodes = [], RT_Paused = False\<rparr>]\<rparr>],
     RB_Profiles =
      [\<lparr>PP_ProfileID = ''p1'', PP_ProfileRevisionID = ''p1r1'', PP_ProfileRevisionHash = exampleHash,
        PP_ProfileName = ''coding'', PP_ClientKind = ''claude'',
        PP_Servers =
         [\<lparr>PS_ServerID = ''s1'', PS_MCPConfigRevisionID = ''m1'',
           PS_AcceptedContractRevisionID = Some ''c1'', PS_VisibilityMode = ''all_accepted'',
           PS_ToolOverrides = [], PS_ToolRules = [\<lparr>PR_ToolID = ''t2'', PR_Decision = ''deny''\<rparr>]\<rparr>]\<rparr>]\<rparr>"

lemma exampleBundle_valid: "RoutingBundle_Validate (\<lambda>_. True) exampleBundle = None"
  by code_simp

theorem profile_decision_never_looser_witness:
  "let p = hd (RB_Profiles exampleBundle); ps = hd (PP_Servers p);
       server = hd (RB_Servers exampleBundle); tool = SC_Tools server ! 1
   in RoutingBundle_Validate (\<lambda>_. True) exampleBundle = None
      \<and> decisionRank (RT_GlobalDecision tool) \<le> decisionRank (toolDecision ps tool)
      \<and> toolDecision ps tool = ''deny''"
  using profile_decision_never_looser [OF exampleBundle_valid,
      of "hd (RB_Profiles exampleBundle)" "hd (PP_Servers (hd (RB_Profiles exampleBundle)))"
        "hd (RB_Servers exampleBundle)" "SC_Tools (hd (RB_Servers exampleBundle)) ! 1"]
    exampleBundle_valid
  by (simp add: exampleBundle_def toolDecision_def)

theorem profile_tools_within_default_witness:
  "relayCanaryToolCount exampleBundle (hd (RB_Profiles exampleBundle)) = 1
   \<and> relayCanaryDefaultToolCount exampleBundle = 2
   \<and> relayCanaryToolCount exampleBundle (hd (RB_Profiles exampleBundle))
       \<le> relayCanaryDefaultToolCount exampleBundle"
proof -
  have "hd (RB_Profiles exampleBundle) \<in> set (RB_Profiles exampleBundle)"
    by (simp add: exampleBundle_def)
  note profile_tools_within_default [OF exampleBundle_valid this]
  moreover have "relayCanaryToolCount exampleBundle (hd (RB_Profiles exampleBundle)) = 1"
    and "relayCanaryDefaultToolCount exampleBundle = 2"
    by code_simp+
  ultimately show ?thesis by simp
qed

theorem runtime_names_unambiguous_witness:
  "distinct (bundleRuntimeNames exampleBundle)
   \<and> bundleRuntimeNames exampleBundle = [''git_log'', ''git_push'', ''db_log'']"
  using runtime_names_unambiguous [OF exampleBundle_valid]
  by (simp add: exampleBundle_def bundleRuntimeNames_def serverRuntimeNames_def runtimeName_def)

end
