(* ===== verification/Call_Policy.thy ===== *)
theory Call_Policy
  imports Routing_Bundle
begin

text \<open>
  The call policy (\<open>src/internal/policy/catalog.go\<close>): the classification of an observed tool as allowed, to be confirmed
  or denied, and its combination with the global policy (\<open>classifyGovernanceTool\<close> in
  \<open>src/internal/store/relay_governance.go\<close>) that is rendered into the routing bundle.

  A Go map is an association list, read with \<open>map_of\<close>; a map decoded from JSON is the list of the members of an
  object. \<open>unm\<close> is \<open>json.Unmarshal\<close> into \<open>any\<close> (\<open>None\<close> for an error) and \<open>marshal\<close> is \<open>json.Marshal\<close>.
  The decisions' order \<open>decisionRank\<close> and \<open>validDecision\<close> are the same code as in \<open>governance.go\<close>.
\<close>

section \<open>Constants\<close>

abbreviation CatalogVersion :: int where "CatalogVersion \<equiv> 1"
abbreviation DecisionAllow :: string where "DecisionAllow \<equiv> ''allow''"
abbreviation DecisionConfirm :: string where "DecisionConfirm \<equiv> ''confirm''"
abbreviation DecisionDeny :: string where "DecisionDeny \<equiv> ''deny''"
abbreviation ReasonExplicitOverride :: string where "ReasonExplicitOverride \<equiv> ''explicit_override''"
abbreviation ReasonAnnotationDeny :: string where "ReasonAnnotationDeny \<equiv> ''annotation_deny''"
abbreviation ReasonAnnotationDestructive :: string where "ReasonAnnotationDestructive \<equiv> ''annotation_destructive''"
abbreviation ReasonAnnotationMutating :: string where "ReasonAnnotationMutating \<equiv> ''annotation_mutating''"
abbreviation ReasonAnnotationReadOnly :: string where "ReasonAnnotationReadOnly \<equiv> ''annotation_read_only''"
abbreviation ReasonCatalogDestructive :: string where "ReasonCatalogDestructive \<equiv> ''catalog_destructive''"
abbreviation ReasonCatalogCredential :: string where "ReasonCatalogCredential \<equiv> ''catalog_credential''"
abbreviation ReasonCatalogExternalPublish :: string where "ReasonCatalogExternalPublish \<equiv> ''catalog_external_publish''"
abbreviation ReasonCatalogFinancial :: string where "ReasonCatalogFinancial \<equiv> ''catalog_financial''"
abbreviation ReasonCatalogCommand :: string where "ReasonCatalogCommand \<equiv> ''catalog_command_execution''"
abbreviation ReasonSchemaMutating :: string where "ReasonSchemaMutating \<equiv> ''schema_mutating''"
abbreviation ReasonUnclassifiedMutating :: string where "ReasonUnclassifiedMutating \<equiv> ''unclassified_mutating''"
abbreviation ReasonReviewedReadOnly :: string where "ReasonReviewedReadOnly \<equiv> ''reviewed_read_only''"
abbreviation ReasonUnclassified :: string where "ReasonUnclassified \<equiv> ''unclassified''"

definition validReasonCodes :: "string list" where
  "validReasonCodes = [ReasonExplicitOverride, ReasonAnnotationDeny, ReasonAnnotationDestructive, ReasonAnnotationMutating,
     ReasonAnnotationReadOnly, ReasonCatalogDestructive, ReasonCatalogCredential, ReasonCatalogExternalPublish,
     ReasonCatalogFinancial, ReasonCatalogCommand, ReasonSchemaMutating, ReasonUnclassifiedMutating, ReasonReviewedReadOnly,
     ReasonUnclassified, ''operator_review'', ''compatibility-mode'', ''profile-rule'', ''schema_changed'',
     ''presentation_changed'', ''server_visibility'', ''rename_confirmed'']"

definition ValidateReasonCode :: "string \<Rightarrow> bool" where
  "ValidateReasonCode value = (value \<in> set validReasonCodes)"

definition validDecision :: "string \<Rightarrow> bool" where
  "validDecision value = (value = DecisionAllow \<or> value = DecisionConfirm \<or> value = DecisionDeny)"

definition policyRank :: "string \<Rightarrow> nat" where
  "policyRank value = (if value = DecisionDeny then 2 else if value = DecisionConfirm then 1 else 0)"

definition EffectiveDecision :: "string \<Rightarrow> string \<Rightarrow> string" where
  "EffectiveDecision global profile =
     (let g = (if validDecision global then global else DecisionConfirm);
          p = (if validDecision profile then profile else DecisionConfirm)
      in if policyRank p > policyRank g then p else g)"

section \<open>Annotations and schemas\<close>

definition annotationBool :: "(string \<times> json) list \<Rightarrow> string \<Rightarrow> bool" where
  "annotationBool values key = (case map_of values key of Some (JBool b) \<Rightarrow> b | _ \<Rightarrow> False)"

definition annotationString :: "(string \<times> json) list \<Rightarrow> string \<Rightarrow> string" where
  "annotationString values key = (case map_of values key of Some (JStr s) \<Rightarrow> ToLower (TrimSpace s) | _ \<Rightarrow> '''')"

definition containsAny :: "string \<Rightarrow> string list \<Rightarrow> bool" where
  "containsAny value patterns = list_ex (\<lambda>p. Contains value p) patterns"

fun schemaValueIndicatesReadOnly :: "json \<Rightarrow> bool" where
  "schemaValueIndicatesReadOnly (JObj item) = list_ex (\<lambda>kv.
     (ToLower (fst kv) \<in> {''readonly'', ''read_only'', ''x-toolhub-read-only''} \<and> snd kv = JBool True)
     \<or> schemaValueIndicatesReadOnly (snd kv)) item"
| "schemaValueIndicatesReadOnly (JArr item) = list_ex schemaValueIndicatesReadOnly item"
| "schemaValueIndicatesReadOnly _ = False"

text \<open>The comparisons with \<open>readOnly\<close> and \<open>writeOnly\<close> come after \<open>ToLower\<close>, as in the source.\<close>

fun schemaValueSuggestsMutation :: "json \<Rightarrow> bool" where
  "schemaValueSuggestsMutation (JObj item) = list_ex (\<lambda>kv.
     let lower = ToLower (fst kv) in
     if (lower = ''readOnly'' \<or> lower = ''readonly'') \<and> snd kv = JBool True then False
     else (lower = ''writeOnly'' \<or> lower = ''writeonly'' \<or> lower = ''mutating'' \<or> lower = ''destructive'') \<and> snd kv = JBool True
       \<or> schemaValueSuggestsMutation (snd kv)) item"
| "schemaValueSuggestsMutation (JArr item) = list_ex schemaValueSuggestsMutation item"
| "schemaValueSuggestsMutation _ = False"

definition schemaSuggestsMutation :: "(string \<Rightarrow> json option) \<Rightarrow> string \<Rightarrow> bool" where
  "schemaSuggestsMutation unm raw =
     (if length raw = 0 then False else case unm raw of None \<Rightarrow> False | Some v \<Rightarrow> schemaValueSuggestsMutation v)"

definition schemaIndicatesReadOnly :: "(string \<Rightarrow> json option) \<Rightarrow> string \<Rightarrow> bool" where
  "schemaIndicatesReadOnly unm raw =
     (if length raw = 0 then False else case unm raw of None \<Rightarrow> False | Some v \<Rightarrow> schemaValueIndicatesReadOnly v)"

section \<open>Classification\<close>

record ToolDescriptor =
  TD_Name :: string
  TD_Description :: string
  TD_InputSchema :: string
  TD_OutputSchema :: string
  TD_Annotations :: "(string \<times> json) list"
  TD_ExplicitOverride :: string
  TD_ReadOnlyHint :: bool
  TD_Mutating :: bool

text \<open>A reason is its code; the source never sets a detail.\<close>

record Classification =
  CL_CatalogVersion :: int
  CL_Decision :: string
  CL_Reasons :: "string list"

definition raise :: "Classification \<Rightarrow> string \<Rightarrow> string \<Rightarrow> Classification" where
  "raise result decision reason =
     (if policyRank decision > policyRank (CL_Decision result) then result\<lparr>CL_Decision := decision\<rparr> else result)
       \<lparr>CL_Reasons := CL_Reasons result @ [reason]\<rparr>"

definition raiseIf :: "bool \<Rightarrow> string \<Rightarrow> Classification \<Rightarrow> Classification" where
  "raiseIf b reason result = (if b then raise result DecisionConfirm reason else result)"

definition markers :: "(string list \<times> string) list" where
  "markers =
     [([''delete'', ''destroy'', ''drop'', ''purge'', ''revoke'', ''terminate''], ReasonCatalogDestructive),
      ([''credential'', ''password'', ''secret'', ''token'', ''api_key'', ''apikey'', ''rotate_key''], ReasonCatalogCredential),
      ([''publish'', ''release'', ''deploy'', ''send_external'', ''post_public''], ReasonCatalogExternalPublish),
      ([''payment'', ''charge'', ''refund'', ''invoice'', ''transfer''], ReasonCatalogFinancial),
      ([''shell'', ''exec'', ''execute_command'', ''run_command'', ''sudo''], ReasonCatalogCommand)]"

definition catalogName :: "ToolDescriptor \<Rightarrow> string" where
  "catalogName tool = ToLower (TrimSpace (TD_Name tool @ '' '' @ TD_Description tool))"

definition readOnlyTool :: "(string \<Rightarrow> json option) \<Rightarrow> ToolDescriptor \<Rightarrow> bool" where
  "readOnlyTool unm tool =
     (TD_ReadOnlyHint tool \<or> annotationBool (TD_Annotations tool) ''readOnlyHint'' \<or> annotationBool (TD_Annotations tool) ''readOnly''
      \<or> schemaIndicatesReadOnly unm (TD_InputSchema tool) \<or> schemaIndicatesReadOnly unm (TD_OutputSchema tool))"

definition denyAnnotation :: "ToolDescriptor \<Rightarrow> bool" where
  "denyAnnotation tool = (annotationBool (TD_Annotations tool) ''denyHint'' \<or> annotationString (TD_Annotations tool) ''decision'' = DecisionDeny)"

text \<open>What follows the two early returns for a denial.\<close>

definition classifyRisk :: "(string \<Rightarrow> json option) \<Rightarrow> ToolDescriptor \<Rightarrow> Classification \<Rightarrow> Classification" where
  "classifyRisk unm tool result =
     (let annotations = TD_Annotations tool;
          r1 = raiseIf (annotationBool annotations ''destructiveHint'' \<or> annotationBool annotations ''destructive'') ReasonAnnotationDestructive result;
          r2 = raiseIf (annotationBool annotations ''mutatingHint'' \<or> annotationBool annotations ''mutating'') ReasonAnnotationMutating r1;
          r3 = (if readOnlyTool unm tool \<and> \<not> TD_Mutating tool then r2\<lparr>CL_Reasons := CL_Reasons r2 @ [ReasonAnnotationReadOnly]\<rparr> else r2);
          r4 = foldl (\<lambda>r (patterns, code). raiseIf (containsAny (catalogName tool) patterns) code r) r3 markers;
          r5 = raiseIf (schemaSuggestsMutation unm (TD_InputSchema tool) \<or> schemaSuggestsMutation unm (TD_OutputSchema tool)) ReasonSchemaMutating r4
      in if CL_Decision r5 = DecisionConfirm then r5
         else if TD_Mutating tool then raise r5 DecisionConfirm ReasonUnclassifiedMutating
         else if \<not> readOnlyTool unm tool then raise r5 DecisionConfirm ReasonUnclassified
         else r5\<lparr>CL_Reasons := CL_Reasons r5 @ [ReasonReviewedReadOnly]\<rparr>)"

definition Classify :: "(string \<Rightarrow> json option) \<Rightarrow> ToolDescriptor \<Rightarrow> Classification" where
  "Classify unm tool =
     (let start = \<lparr>CL_CatalogVersion = CatalogVersion, CL_Decision = DecisionAllow, CL_Reasons = []\<rparr>;
          result = (if validDecision (TD_ExplicitOverride tool)
            then start\<lparr>CL_Decision := TD_ExplicitOverride tool, CL_Reasons := [ReasonExplicitOverride]\<rparr> else start)
      in if validDecision (TD_ExplicitOverride tool) \<and> TD_ExplicitOverride tool = DecisionDeny then result
         else if denyAnnotation tool then result\<lparr>CL_Decision := DecisionDeny, CL_Reasons := CL_Reasons result @ [ReasonAnnotationDeny]\<rparr>
         else classifyRisk unm tool result)"

section \<open>The global policy\<close>

record GlobalPolicyRevision =
  GP_ID :: string
  GP_Revision :: int
  GP_CanonicalHash :: string
  GP_CatalogVersion :: int
  GP_ExplicitOverrides :: "(string \<times> string) list"
  GP_UnclassifiedMutating :: string
  GP_ReviewedReadOnly :: string
  GP_CreatedAt :: time

text \<open>A lookup in a \<open>map[string]string\<close>: the empty string for a missing key.\<close>

definition mapText :: "(string \<times> string) list \<Rightarrow> string \<Rightarrow> string" where
  "mapText m k = (case map_of m k of None \<Rightarrow> '''' | Some v \<Rightarrow> v)"

definition explicitDecision :: "GlobalPolicyRevision \<Rightarrow> string \<Rightarrow> string \<Rightarrow> string" where
  "explicitDecision global toolID nm =
     (if mapText (GP_ExplicitOverrides global) toolID = '''' then mapText (GP_ExplicitOverrides global) nm
      else mapText (GP_ExplicitOverrides global) toolID)"

definition riskReasons :: "string list" where
  "riskReasons = [ReasonExplicitOverride, ReasonAnnotationDeny, ReasonAnnotationDestructive, ReasonCatalogDestructive,
     ReasonCatalogCredential, ReasonCatalogExternalPublish, ReasonCatalogFinancial, ReasonCatalogCommand, ReasonSchemaMutating]"

text \<open>The loop over the reasons: the decision, and whether a generic mutation and a classified risk were seen.\<close>

definition reasonStep :: "GlobalPolicyRevision \<Rightarrow> bool \<Rightarrow> string \<times> bool \<times> bool \<Rightarrow> string \<Rightarrow> string \<times> bool \<times> bool" where
  "reasonStep global explicit = (\<lambda>(decision, mutating, risk) code.
     if code = ReasonUnclassifiedMutating then (if explicit then decision else GP_UnclassifiedMutating global, mutating, risk)
     else if code = ReasonReviewedReadOnly then (if explicit then decision else GP_ReviewedReadOnly global, mutating, risk)
     else if code = ReasonAnnotationMutating then (decision, True, risk)
     else if code \<in> set riskReasons then (decision, mutating, True)
     else (decision, mutating, risk))"

definition governanceDescriptor ::
    "GlobalPolicyRevision \<Rightarrow> string \<Rightarrow> string \<Rightarrow> string \<Rightarrow> string \<Rightarrow> (string \<times> json) list \<Rightarrow> ToolDescriptor" where
  "governanceDescriptor global toolID nm inputSchema outputSchema annotations =
     \<lparr>TD_Name = nm, TD_Description = '''', TD_InputSchema = inputSchema, TD_OutputSchema = outputSchema, TD_Annotations = annotations,
      TD_ExplicitOverride = explicitDecision global toolID nm, TD_ReadOnlyHint = annotationBool annotations ''readOnlyHint'',
      TD_Mutating = annotationBool annotations ''mutatingHint''\<rparr>"

definition classifyGovernanceTool ::
    "(string \<Rightarrow> json option) \<Rightarrow> GlobalPolicyRevision \<Rightarrow> string \<Rightarrow> string \<Rightarrow> string \<Rightarrow> string \<Rightarrow> (string \<times> json) list \<Rightarrow> string \<times> string list" where
  "classifyGovernanceTool unm global toolID nm inputSchema outputSchema annotations =
     (let classification = Classify unm (governanceDescriptor global toolID nm inputSchema outputSchema annotations);
          explicit = (ReasonExplicitOverride \<in> set (CL_Reasons classification));
          (decision, mutating, risk) = foldl (reasonStep global explicit) (CL_Decision classification, False, False) (CL_Reasons classification)
      in (if mutating \<and> \<not> risk \<and> \<not> explicit then GP_UnclassifiedMutating global else decision, CL_Reasons classification))"

section \<open>The classification as a decision table\<close>

definition destructiveAnnotation :: "ToolDescriptor \<Rightarrow> bool" where
  "destructiveAnnotation t = (annotationBool (TD_Annotations t) ''destructiveHint'' \<or> annotationBool (TD_Annotations t) ''destructive'')"

definition mutatingAnnotation :: "ToolDescriptor \<Rightarrow> bool" where
  "mutatingAnnotation t = (annotationBool (TD_Annotations t) ''mutatingHint'' \<or> annotationBool (TD_Annotations t) ''mutating'')"

definition markedCodes :: "ToolDescriptor \<Rightarrow> string list" where
  "markedCodes t = map snd (filter (\<lambda>(patterns, _). containsAny (catalogName t) patterns) markers)"

definition mutatingSchema :: "(string \<Rightarrow> json option) \<Rightarrow> ToolDescriptor \<Rightarrow> bool" where
  "mutatingSchema unm t = (schemaSuggestsMutation unm (TD_InputSchema t) \<or> schemaSuggestsMutation unm (TD_OutputSchema t))"

text \<open>The risks that no policy can lower below a confirmation.\<close>

definition namedRisk :: "(string \<Rightarrow> json option) \<Rightarrow> ToolDescriptor \<Rightarrow> bool" where
  "namedRisk unm t = (destructiveAnnotation t \<or> markedCodes t \<noteq> [] \<or> mutatingSchema unm t)"

lemma raise_parts [simp]:
  "CL_Reasons (raise r d c) = CL_Reasons r @ [c]"
  "CL_Reasons (raiseIf b c r) = CL_Reasons r @ (if b then [c] else [])"
  "CL_Decision (raise r DecisionConfirm c) = (if CL_Decision r = DecisionDeny then DecisionDeny else DecisionConfirm)"
  "CL_Decision (raiseIf b c r) = (if b \<and> CL_Decision r \<noteq> DecisionDeny then DecisionConfirm else CL_Decision r)"
  by (auto simp: raise_def raiseIf_def policyRank_def)

lemma marker_fold:
  "CL_Reasons (foldl (\<lambda>r (patterns, code). raiseIf (containsAny n patterns) code r) r ms)
     = CL_Reasons r @ map snd (filter (\<lambda>(patterns, _). containsAny n patterns) ms)"
  "CL_Decision (foldl (\<lambda>r (patterns, code). raiseIf (containsAny n patterns) code r) r ms)
     = (if filter (\<lambda>(patterns, _). containsAny n patterns) ms \<noteq> [] \<and> CL_Decision r \<noteq> DecisionDeny then DecisionConfirm else CL_Decision r)"
  by (induction ms arbitrary: r) (auto split: if_splits)

definition riskCodes :: "(string \<Rightarrow> json option) \<Rightarrow> ToolDescriptor \<Rightarrow> string list" where
  "riskCodes unm t = (if destructiveAnnotation t then [ReasonAnnotationDestructive] else [])
     @ (if mutatingAnnotation t then [ReasonAnnotationMutating] else [])
     @ (if readOnlyTool unm t \<and> \<not> TD_Mutating t then [ReasonAnnotationReadOnly] else [])
     @ markedCodes t @ (if mutatingSchema unm t then [ReasonSchemaMutating] else [])"

definition finalCode :: "(string \<Rightarrow> json option) \<Rightarrow> ToolDescriptor \<Rightarrow> string" where
  "finalCode unm t = (if TD_Mutating t then ReasonUnclassifiedMutating else if \<not> readOnlyTool unm t then ReasonUnclassified else ReasonReviewedReadOnly)"

lemma classifyRisk_parts:
  assumes "CL_Decision r = DecisionAllow \<or> CL_Decision r = DecisionConfirm"
    and risky_def: "risky = (CL_Decision r = DecisionConfirm \<or> namedRisk unm t \<or> mutatingAnnotation t)"
  shows "CL_Reasons (classifyRisk unm t r) = CL_Reasons r @ riskCodes unm t @ (if risky then [] else [finalCode unm t])"
    and "CL_Decision (classifyRisk unm t r) = (if risky \<or> TD_Mutating t \<or> \<not> readOnlyTool unm t then DecisionConfirm else DecisionAllow)"
proof -
  define r5 where "r5 = raiseIf (mutatingSchema unm t) ReasonSchemaMutating
    (foldl (\<lambda>r (patterns, code). raiseIf (containsAny (catalogName t) patterns) code r)
      (let r2 = raiseIf (mutatingAnnotation t) ReasonAnnotationMutating (raiseIf (destructiveAnnotation t) ReasonAnnotationDestructive r)
       in if readOnlyTool unm t \<and> \<not> TD_Mutating t then r2\<lparr>CL_Reasons := CL_Reasons r2 @ [ReasonAnnotationReadOnly]\<rparr> else r2) markers)"
  have run: "classifyRisk unm t r = (if CL_Decision r5 = DecisionConfirm then r5
         else if TD_Mutating t then raise r5 DecisionConfirm ReasonUnclassifiedMutating
         else if \<not> readOnlyTool unm t then raise r5 DecisionConfirm ReasonUnclassified
         else r5\<lparr>CL_Reasons := CL_Reasons r5 @ [ReasonReviewedReadOnly]\<rparr>)"
    by (simp only: classifyRisk_def r5_def Let_def mutatingSchema_def mutatingAnnotation_def destructiveAnnotation_def)
  have reasons: "CL_Reasons r5 = CL_Reasons r @ riskCodes unm t"
    by (simp add: r5_def Let_def marker_fold riskCodes_def markedCodes_def)
  have decision: "CL_Decision r5 = (if risky then DecisionConfirm else DecisionAllow)"
    using assms(1) by (auto simp: r5_def Let_def marker_fold risky_def namedRisk_def markedCodes_def)
  show "CL_Reasons (classifyRisk unm t r) = CL_Reasons r @ riskCodes unm t @ (if risky then [] else [finalCode unm t])"
    by (simp add: run decision reasons finalCode_def)
  show "CL_Decision (classifyRisk unm t r) = (if risky \<or> TD_Mutating t \<or> \<not> readOnlyTool unm t then DecisionConfirm else DecisionAllow)"
    by (simp add: run decision)
qed

lemma Classify_decision:
  "CL_Decision (Classify unm t) =
     (if TD_ExplicitOverride t = DecisionDeny \<or> denyAnnotation t then DecisionDeny
      else if TD_ExplicitOverride t = DecisionConfirm \<or> namedRisk unm t \<or> mutatingAnnotation t \<or> TD_Mutating t \<or> \<not> readOnlyTool unm t
      then DecisionConfirm else DecisionAllow)"
  by (simp add: Classify_def Let_def validDecision_def classifyRisk_parts(2) [OF _ refl])

lemma Classify_reasons:
  "CL_Reasons (Classify unm t) =
     (if validDecision (TD_ExplicitOverride t) then [ReasonExplicitOverride] else [])
     @ (if TD_ExplicitOverride t = DecisionDeny then []
        else if denyAnnotation t then [ReasonAnnotationDeny]
        else riskCodes unm t @ (if TD_ExplicitOverride t = DecisionConfirm \<or> namedRisk unm t \<or> mutatingAnnotation t then [] else [finalCode unm t]))"
  by (simp add: Classify_def Let_def validDecision_def classifyRisk_parts(1) [OF _ refl])

section \<open>The decision rendered for a tool\<close>

lemma reasonStep_plain:
  assumes "ReasonUnclassifiedMutating \<notin> set codes" and "ReasonReviewedReadOnly \<notin> set codes"
  shows "foldl (reasonStep global explicit) (d, m, k) codes
    = (d, m \<or> ReasonAnnotationMutating \<in> set codes, k \<or> (\<exists>c \<in> set codes. c \<in> set riskReasons))"
  using assms by (induction codes arbitrary: m k) (auto simp: reasonStep_def riskReasons_def)

lemma markedCodes_set: "set (markedCodes t) \<subseteq> {ReasonCatalogDestructive, ReasonCatalogCredential, ReasonCatalogExternalPublish,
    ReasonCatalogFinancial, ReasonCatalogCommand}"
  by (auto simp: markedCodes_def markers_def)

lemma markedCodes_risk: "(\<exists>c \<in> set (markedCodes t). c \<in> set riskReasons) = (markedCodes t \<noteq> [])"
proof -
  have "set (markedCodes t) \<subseteq> set riskReasons" using markedCodes_set [of t] by (rule subset_trans) (simp add: riskReasons_def)
  then show ?thesis by (cases "markedCodes t") auto
qed

lemma markedCodes_not:
  "ReasonUnclassifiedMutating \<notin> set (markedCodes t)" "ReasonReviewedReadOnly \<notin> set (markedCodes t)"
  "ReasonExplicitOverride \<notin> set (markedCodes t)" "ReasonAnnotationMutating \<notin> set (markedCodes t)"
  using markedCodes_set [of t] by fastforce+

lemma riskCodes_plain:
  "ReasonUnclassifiedMutating \<notin> set (riskCodes unm t)" "ReasonReviewedReadOnly \<notin> set (riskCodes unm t)"
  "ReasonExplicitOverride \<notin> set (riskCodes unm t)"
  "(ReasonAnnotationMutating \<in> set (riskCodes unm t)) = mutatingAnnotation t"
  "(\<exists>c \<in> set (riskCodes unm t). c \<in> set riskReasons) = namedRisk unm t"
proof -
  have n: "ReasonAnnotationMutating \<notin> set riskReasons" "ReasonAnnotationReadOnly \<notin> set riskReasons"
    "ReasonAnnotationDestructive \<in> set riskReasons" "ReasonSchemaMutating \<in> set riskReasons"
    by (simp_all add: riskReasons_def)
  show "ReasonUnclassifiedMutating \<notin> set (riskCodes unm t)" "ReasonReviewedReadOnly \<notin> set (riskCodes unm t)"
    "ReasonExplicitOverride \<notin> set (riskCodes unm t)" "(ReasonAnnotationMutating \<in> set (riskCodes unm t)) = mutatingAnnotation t"
    by (simp_all add: riskCodes_def markedCodes_not)
  show "(\<exists>c \<in> set (riskCodes unm t). c \<in> set riskReasons) = namedRisk unm t"
    using n markedCodes_risk [of t] by (simp add: riskCodes_def namedRisk_def bex_Un)
qed

lemma finalCode_step:
  "reasonStep global explicit (d, m, k) (finalCode unm t) =
     (if explicit then d else if TD_Mutating t then GP_UnclassifiedMutating global
      else if readOnlyTool unm t then GP_ReviewedReadOnly global else d, m, k)"
  by (simp add: reasonStep_def finalCode_def riskReasons_def)

lemma governanceDescriptor_mutating: "TD_Mutating (governanceDescriptor g i n a b c) \<Longrightarrow> mutatingAnnotation (governanceDescriptor g i n a b c)"
  by (simp add: governanceDescriptor_def mutatingAnnotation_def)

lemma reasonStep_explicit: "fst (foldl (reasonStep global True) acc codes) = fst acc"
  by (induction codes arbitrary: acc) (simp_all add: reasonStep_def split: prod.split)

lemma validDecision_other: "\<not> validDecision v \<Longrightarrow> v \<noteq> DecisionDeny \<and> v \<noteq> DecisionConfirm \<and> v \<noteq> DecisionAllow"
  by (simp add: validDecision_def)

lemma governance_table:
  assumes t_def: "t = governanceDescriptor global toolID nm i out annotations"
  shows "fst (classifyGovernanceTool unm global toolID nm i out annotations) =
    (let override = explicitDecision global toolID nm in
     if override = DecisionDeny \<or> denyAnnotation t then DecisionDeny
     else if validDecision override then
       (if override = DecisionConfirm \<or> namedRisk unm t \<or> mutatingAnnotation t \<or> \<not> readOnlyTool unm t then DecisionConfirm else DecisionAllow)
     else if namedRisk unm t then DecisionConfirm
     else if mutatingAnnotation t then GP_UnclassifiedMutating global
     else if readOnlyTool unm t then GP_ReviewedReadOnly global
     else DecisionConfirm)"
proof -
  let ?o = "explicitDecision global toolID nm"
  have o: "TD_ExplicitOverride t = ?o" by (simp add: t_def governanceDescriptor_def)
  have m: "TD_Mutating t \<Longrightarrow> mutatingAnnotation t" unfolding t_def by (rule governanceDescriptor_mutating)
  have x: "(ReasonExplicitOverride \<in> set (CL_Reasons (Classify unm t))) = validDecision ?o"
    using riskCodes_plain(3) by (auto simp: Classify_reasons o finalCode_def)
  obtain d mu k where f: "foldl (reasonStep global (validDecision ?o)) (CL_Decision (Classify unm t), False, False) (CL_Reasons (Classify unm t)) = (d, mu, k)"
    by (rule prod_cases3)
  have run: "fst (classifyGovernanceTool unm global toolID nm i out annotations) = (if mu \<and> \<not> k \<and> \<not> validDecision ?o then GP_UnclassifiedMutating global else d)"
    using f x by (simp add: classifyGovernanceTool_def t_def [symmetric] Let_def)
  show ?thesis
  proof (cases "validDecision ?o")
    case True
    then have "d = CL_Decision (Classify unm t)"
      using f reasonStep_explicit [of global "(CL_Decision (Classify unm t), False, False)" "CL_Reasons (Classify unm t)"] by simp
    then show ?thesis using run True m by (simp add: Classify_decision o Let_def)
  next
    case False
    note other = validDecision_other [OF this]
    note plain = reasonStep_plain [OF riskCodes_plain(1,2), of global False, unfolded riskCodes_plain(4,5)]
    consider (deny) "denyAnnotation t" | (risk) "\<not> denyAnnotation t" "namedRisk unm t \<or> mutatingAnnotation t"
      | (none) "\<not> denyAnnotation t" "\<not> namedRisk unm t" "\<not> mutatingAnnotation t" by blast
    then show ?thesis
    proof cases
      case deny
      then have "d = DecisionDeny" "k" using f False other
        by (simp_all add: Classify_reasons Classify_decision o reasonStep_def riskReasons_def)
      then show ?thesis using run deny by simp
    next
      case risk
      then have "d = DecisionConfirm" "mu = mutatingAnnotation t" "k = namedRisk unm t" using f False other
        by (auto simp: Classify_reasons Classify_decision o plain)
      then show ?thesis using run risk False other by auto
    next
      case none
      then have "\<not> TD_Mutating t" using m by blast
      then have "d = (if readOnlyTool unm t then GP_ReviewedReadOnly global else DecisionConfirm)" "\<not> mu"
        using f False other none by (auto simp: Classify_reasons Classify_decision o plain finalCode_step split: if_splits)
      then show ?thesis using run none False other by simp
    qed
  qed
qed

lemma governance_reasons:
  "snd (classifyGovernanceTool unm global toolID nm i out annotations) =
    (let override = explicitDecision global toolID nm; t = governanceDescriptor global toolID nm i out annotations in
     (if validDecision override then [ReasonExplicitOverride] else [])
     @ (if override = DecisionDeny then []
        else if denyAnnotation t then [ReasonAnnotationDeny]
        else riskCodes unm t
          @ (if override = DecisionConfirm \<or> namedRisk unm t \<or> mutatingAnnotation t then [] else [finalCode unm t])))"
proof -
  have "TD_ExplicitOverride (governanceDescriptor global toolID nm i out annotations) = explicitDecision global toolID nm"
    by (simp add: governanceDescriptor_def)
  then show ?thesis by (simp add: classifyGovernanceTool_def Classify_reasons Let_def split: prod.split)
qed

text \<open>
  C22. What is rendered for a tool, the decision and its reasons, as a table. An override of the tool (by id, else by name) to
  deny and an annotation that denies are final; an override can raise but not lower: allow takes effect only for a read-only
  tool without any risk. Without an override a named risk (a destructive annotation, a catalog marker in the name, a mutating
  schema) is always confirmed, whatever the global policy; the policy decides only about tools that are merely annotated as
  mutating and about read-only ones; every other tool is confirmed. The reasons are, in this order: the override, when there
  is one; after an override to deny nothing more; the denying annotation alone; and otherwise every risk code found, followed
  by the reason of an unmarked tool (read-only or unclassified) exactly when no override confirms and no named risk and no
  mutating annotation was found.
\<close>

theorem governance_decision_table:
  "classifyGovernanceTool unm global toolID nm i out annotations =
    (let override = explicitDecision global toolID nm; t = governanceDescriptor global toolID nm i out annotations in
     (if override = DecisionDeny \<or> denyAnnotation t then DecisionDeny
      else if validDecision override then
        (if override = DecisionConfirm \<or> namedRisk unm t \<or> mutatingAnnotation t \<or> \<not> readOnlyTool unm t then DecisionConfirm else DecisionAllow)
      else if namedRisk unm t then DecisionConfirm
      else if mutatingAnnotation t then GP_UnclassifiedMutating global
      else if readOnlyTool unm t then GP_ReviewedReadOnly global
      else DecisionConfirm,
      (if validDecision override then [ReasonExplicitOverride] else [])
      @ (if override = DecisionDeny then []
         else if denyAnnotation t then [ReasonAnnotationDeny]
         else riskCodes unm t
           @ (if override = DecisionConfirm \<or> namedRisk unm t \<or> mutatingAnnotation t then [] else [finalCode unm t]))))"
  using governance_table [OF refl, of unm global toolID nm i out annotations]
    governance_reasons [of unm global toolID nm i out annotations]
  by (simp add: prod_eq_iff Let_def)

section \<open>Types of the results\<close>

text \<open>What \<open>SaveGlobalPolicy\<close> and the checks of the table \<open>global_policy_revisions\<close> require of the decisions.\<close>

definition policyDecisions_ok :: "GlobalPolicyRevision \<Rightarrow> bool" where
  "policyDecisions_ok global = (validDecision (GP_UnclassifiedMutating global) \<and> validDecision (GP_ReviewedReadOnly global))"

lemma codes_valid: "ReasonExplicitOverride \<in> set validReasonCodes" "ReasonAnnotationDeny \<in> set validReasonCodes"
  "set (riskCodes unm t) \<subseteq> set validReasonCodes" "finalCode unm t \<in> set validReasonCodes"
proof -
  show "ReasonExplicitOverride \<in> set validReasonCodes" "ReasonAnnotationDeny \<in> set validReasonCodes" "finalCode unm t \<in> set validReasonCodes"
    by (simp_all add: validReasonCodes_def finalCode_def)
  have "set (markedCodes t) \<subseteq> set validReasonCodes"
    using markedCodes_set [of t] by (rule subset_trans) (simp add: validReasonCodes_def)
  then show "set (riskCodes unm t) \<subseteq> set validReasonCodes" by (auto simp: riskCodes_def validReasonCodes_def)
qed

text \<open>
  C23. Types. Under a policy with valid decisions, whatever the name, the schemas, the annotations and the overrides of a tool
  are, the rendered decision is one of allow, confirm and deny, and every reason is a code that \<open>ValidateReasonCode\<close> admits.
\<close>

theorem classification_typed:
  assumes "policyDecisions_ok global"
  shows "validDecision (fst (classifyGovernanceTool unm global toolID nm i out annotations))
    \<and> list_all ValidateReasonCode (snd (classifyGovernanceTool unm global toolID nm i out annotations))"
proof
  show "validDecision (fst (classifyGovernanceTool unm global toolID nm i out annotations))"
    using assms unfolding governance_table [OF refl] by (auto simp: Let_def validDecision_def policyDecisions_ok_def)
  have "snd (classifyGovernanceTool unm global toolID nm i out annotations)
      = CL_Reasons (Classify unm (governanceDescriptor global toolID nm i out annotations))"
    by (simp add: classifyGovernanceTool_def Let_def split: prod.split)
  then show "list_all ValidateReasonCode (snd (classifyGovernanceTool unm global toolID nm i out annotations))"
    using codes_valid by (auto simp: Classify_reasons list_all_iff ValidateReasonCode_def)
qed

definition defaultPolicy :: GlobalPolicyRevision where
  "defaultPolicy = \<lparr>GP_ID = ''p'', GP_Revision = 1, GP_CanonicalHash = '''', GP_CatalogVersion = CatalogVersion, GP_ExplicitOverrides = [],
     GP_UnclassifiedMutating = DecisionConfirm, GP_ReviewedReadOnly = DecisionAllow, GP_CreatedAt = 0\<rparr>"

theorem classification_typed_witness:
  "validDecision (fst (classifyGovernanceTool (\<lambda>_. None) defaultPolicy ''t'' ''delete_all'' '''' '''' []))
   \<and> fst (classifyGovernanceTool (\<lambda>_. None) defaultPolicy ''t'' ''delete_all'' '''' '''' []) = DecisionConfirm"
proof -
  have "policyDecisions_ok defaultPolicy" by code_simp
  moreover have "fst (classifyGovernanceTool (\<lambda>_. None) defaultPolicy ''t'' ''delete_all'' '''' '''' []) = DecisionConfirm" by code_simp
  ultimately show ?thesis using classification_typed [of defaultPolicy "\<lambda>_. None" "''t''" "''delete_all''" "''''" "''''" "[]"] by blast
qed

text \<open>A tool named \<open>delete_all\<close> stays to be confirmed even with an override that allows it.\<close>

definition allowingPolicy :: GlobalPolicyRevision where
  "allowingPolicy = defaultPolicy\<lparr>GP_ExplicitOverrides := [(''delete_all'', ''allow'')]\<rparr>"

theorem governance_decision_table_witness:
  "classifyGovernanceTool (\<lambda>_. None) allowingPolicy ''t'' ''delete_all'' '''' '''' []
     = (DecisionConfirm, [ReasonExplicitOverride, ReasonCatalogDestructive])"
proof -
  have "namedRisk (\<lambda>_. None) (governanceDescriptor allowingPolicy ''t'' ''delete_all'' '''' '''' [])"
    "riskCodes (\<lambda>_. None) (governanceDescriptor allowingPolicy ''t'' ''delete_all'' '''' '''' []) = [ReasonCatalogDestructive]"
    "\<not> denyAnnotation (governanceDescriptor allowingPolicy ''t'' ''delete_all'' '''' '''' [])"
    "explicitDecision allowingPolicy ''t'' ''delete_all'' = DecisionAllow" "validDecision DecisionAllow"
    "DecisionAllow \<noteq> DecisionDeny" by code_simp+
  then show ?thesis
    using governance_decision_table [of "\<lambda>_. None" allowingPolicy "''t''" "''delete_all''" "''''" "''''" "[]"] by (simp add: Let_def)
qed

section \<open>A schema keyword that allows a tool\<close>

text \<open>The input of a tool that changes a record: one field carries JSON Schema's keyword \<open>readOnly\<close>.\<close>

definition recordSchema :: json where
  "recordSchema = JObj [(''type'', JStr ''object''), (''properties'', JObj
     [(''id'', JObj [(''type'', JStr ''string''), (''readOnly'', JBool True)]), (''value'', JObj [(''type'', JStr ''string'')])])]"

text \<open>
  \<open>schemaIndicatesReadOnly\<close> looks for the key at any depth of the schema. A field marked with JSON Schema's keyword
  \<open>readOnly\<close> therefore makes the whole tool a reviewed read-only one: \<open>set_record\<close> is allowed without confirmation under
  the default policy, while without the keyword the same tool has to be confirmed.
\<close>

theorem field_keyword_allows_tool:
  "classifyGovernanceTool (\<lambda>raw. if raw = ''schema'' then Some recordSchema else None) defaultPolicy ''t'' ''set_record'' ''schema'' '''' []
     = (DecisionAllow, [ReasonAnnotationReadOnly, ReasonReviewedReadOnly])
   \<and> fst (classifyGovernanceTool (\<lambda>raw. Some (JObj [(''type'', JStr ''object'')])) defaultPolicy ''t'' ''set_record'' ''schema'' '''' [])
     = DecisionConfirm"
  by code_simp

end
