(* ===== verification/Operation_Store.thy ===== *)
theory Operation_Store
  imports Protocol_Types
begin

text \<open>
  The operation queue of the control plane (\<open>src/internal/store/operations.go\<close>) over the PostgreSQL tables
  \<open>operations\<close>, \<open>operation_targets\<close>, \<open>targets\<close> with their nodes, and \<open>target_desired_snapshots\<close>. A table is
  the list of its rows in creation order; every exported method is one definition whose SQL statements are
  list operations in the order in which the code runs them. A failed method leaves the database as it was.

  Every method runs in one transaction and locks the operation row it works on, so a method is one step.
  \<open>createOperationTx\<close> reads before it locks: it takes the database its reads see (\<open>snap\<close>) and the one its inserts
  meet. The unique indexes of the schema (\<open>src/internal/store/migrations\<close>) are part of the two insert operations.
  \<open>FOR UPDATE SKIP LOCKED\<close> is a predicate on the rows that other transactions hold. Identifiers that
  \<open>uuid.NewString\<close> makes, the clock and \<open>uuid.Validate\<close> are arguments. The columns \<open>created_at\<close> and
  \<open>updated_at\<close> are not kept: no statement here reads them other than to order rows by age.
\<close>

section \<open>Tables\<close>

record op_row =
  O_ID :: string
  O_Kind :: string
  O_Status :: string
  O_SourceID :: "string option"
  O_Key :: "string option"
  O_Hash :: "string option"
  O_Metadata :: "(string \<times> json) list"
  O_ErrorCode :: string
  O_ErrorReason :: message
  O_Cancel :: bool
  O_Started :: "time option"
  O_Finished :: "time option"

record ot_row =
  W_ID :: string
  W_Op :: string
  W_Target :: string
  W_DependsOn :: "string option"
  W_Status :: string
  W_Attempt :: int
  W_PendingRerun :: bool
  W_BridgeOp :: string
  W_SaltJID :: string
  W_Request :: json
  W_Result :: "json option"
  W_ErrorCode :: string
  W_ErrorReason :: message
  W_GovPending :: bool
  W_Started :: "time option"
  W_Finished :: "time option"

text \<open>A target with the archival state of its node and its desired snapshot, when it has one.\<close>

record snapshot_row =
  DS_Health :: string
  DS_Suspended :: bool
  DS_NextRetry :: "time option"
  DS_LastMemberCheck :: "time option"

text \<open>\<open>D_published\<close> has each profile with its published revision, the empty string when there is none.\<close>

record target_row =
  X_ID :: string
  X_Runtime :: string
  X_Archived :: bool
  X_Desired :: "snapshot_row option"

record db =
  D_ops :: "op_row list"
  D_ots :: "ot_row list"
  D_targets :: "target_row list"
  D_published :: "(string \<times> string) list"

datatype store_error =
    NotFound
  | Conflict
  | IdempotencyConflict
  | OperationActive
  | CoalescedRace
  | StoreErr go_error

section \<open>Statuses and constraints\<close>

definition liveStatus :: "string \<Rightarrow> bool" where
  "liveStatus status = (status = OperationQueued \<or> status = OperationRunning)"

definition controlOperationKinds :: "string list" where
  "controlOperationKinds = [''skill_import'', ''update_check'', ''refresh'', ''backup_gc'', ''contract_observe'', ''relay_telemetry_pull'']"

definition coalescedControlOperationKinds :: "string list" where
  "coalescedControlOperationKinds = [''contract_observe'', ''relay_telemetry_pull'']"

text \<open>The predicate of the unique index \<open>operation_targets_one_active_idx\<close>.\<close>

definition owning :: "ot_row \<Rightarrow> bool" where
  "owning w = (liveStatus (W_Status w) \<or> W_GovPending w)"

datatype sql_error = UniqueViolation string | SQLError string

definition coalescedIndex :: string where
  "coalescedIndex = ''operations_governance_control_one_active_idx''"

definition insertOp :: "op_row \<Rightarrow> db \<Rightarrow> sql_error + db" where
  "insertOp q d =
     (if list_ex (\<lambda>p. O_ID p = O_ID q) (D_ops d) then Inl (UniqueViolation ''operations_pkey'')
      else if O_Key q \<noteq> None \<and> list_ex (\<lambda>p. O_Kind p = O_Kind q \<and> O_Key p = O_Key q) (D_ops d) then
        Inl (UniqueViolation ''operations_kind_idempotency_key_key'')
      else if O_Kind q \<in> set coalescedControlOperationKinds \<and> liveStatus (O_Status q)
          \<and> list_ex (\<lambda>p. O_Kind p = O_Kind q \<and> liveStatus (O_Status p)) (D_ops d) then
        Inl (UniqueViolation coalescedIndex)
      else Inr (d\<lparr>D_ops := D_ops d @ [q]\<rparr>))"

definition insertOT :: "ot_row \<Rightarrow> db \<Rightarrow> sql_error + db" where
  "insertOT w d =
     (if (case W_DependsOn w of None \<Rightarrow> False
          | Some i \<Rightarrow> list_ex (\<lambda>v. W_ID v = i \<and> W_Op v \<noteq> W_Op w) (D_ots d)) then
        Inl (SQLError ''operation target dependency must remain within one operation'')
      else if list_ex (\<lambda>v. W_ID v = W_ID w) (D_ots d) then Inl (UniqueViolation ''operation_targets_pkey'')
      else if list_ex (\<lambda>v. W_Op v = W_Op w \<and> W_Target v = W_Target w) (D_ots d) then
        Inl (UniqueViolation ''operation_targets_operation_id_target_id_key'')
      else if owning w \<and> list_ex (\<lambda>v. owning v \<and> W_Target v = W_Target w) (D_ots d) then
        Inl (UniqueViolation ''operation_targets_one_active_idx'')
      else if (case W_DependsOn w of None \<Rightarrow> False | Some i \<Rightarrow> \<not> list_ex (\<lambda>v. W_ID v = i) (D_ots d)) then
        Inl (SQLError ''operation_targets_depends_on_fk'')
      else Inr (d\<lparr>D_ots := D_ots d @ [w]\<rparr>))"

definition updateOps :: "(op_row \<Rightarrow> bool) \<Rightarrow> (op_row \<Rightarrow> op_row) \<Rightarrow> db \<Rightarrow> db" where
  "updateOps P f d = d\<lparr>D_ops := map (\<lambda>q. if P q then f q else q) (D_ops d)\<rparr>"

definition updateOTs :: "(ot_row \<Rightarrow> bool) \<Rightarrow> (ot_row \<Rightarrow> ot_row) \<Rightarrow> db \<Rightarrow> db" where
  "updateOTs P f d = d\<lparr>D_ots := map (\<lambda>w. if P w then f w else w) (D_ots d)\<rparr>"

definition findOp :: "string \<Rightarrow> db \<Rightarrow> op_row option" where
  "findOp i d = find (\<lambda>q. O_ID q = i) (D_ops d)"

definition findOT :: "string \<Rightarrow> db \<Rightarrow> ot_row option" where
  "findOT i d = find (\<lambda>w. W_ID w = i) (D_ots d)"

definition findTarget :: "string \<Rightarrow> db \<Rightarrow> target_row option" where
  "findTarget i d = find (\<lambda>x. X_ID x = i) (D_targets d)"

definition targetsOf :: "string \<Rightarrow> db \<Rightarrow> ot_row list" where
  "targetsOf i d = filter (\<lambda>w. W_Op w = i) (D_ots d)"

section \<open>Creating operations\<close>

record CreateOperationInput =
  CI_Kind :: string
  CI_SourceID :: string
  CI_IdempotencyKey :: string
  CI_Request :: json
  CI_Metadata :: "json option"
  CI_TargetIDs :: "string list"
  CI_TargetRequests :: "(string \<times> json) list"
  CI_TargetDependencies :: "(string \<times> string) list"

fun uniqueIDsFrom :: "string list \<Rightarrow> string list \<Rightarrow> string list" where
  "uniqueIDsFrom seen [] = []"
| "uniqueIDsFrom seen (i # is) =
     (let j = TrimSpace i
      in if j \<noteq> '''' \<and> j \<notin> set seen then j # uniqueIDsFrom (j # seen) is else uniqueIDsFrom seen is)"

definition uniqueIDs :: "string list \<Rightarrow> string list" where
  "uniqueIDs is = uniqueIDsFrom [] is"

text \<open>\<open>enc\<close> is the byte encoding of a JSON value, \<open>sha\<close> SHA-256.\<close>

definition operationRequestHashWithDependencies ::
    "(json \<Rightarrow> string) \<Rightarrow> (string \<Rightarrow> string) \<Rightarrow> json \<Rightarrow> (string \<times> json) list \<Rightarrow> (string \<times> json) list \<Rightarrow> string" where
  "operationRequestHashWithDependencies enc sha request targetRequests dependencies =
     hexEncode (sha (enc (JObj ([(''request'', request)]
       @ (if targetRequests = [] then [] else [(''targetRequests'', JObj targetRequests)])
       @ (if dependencies = [] then [] else [(''dependencies'', JObj dependencies)])))))"

definition marshalJSONObject :: "json option \<Rightarrow> go_error + json" where
  "marshalJSONObject value = (case value of
       None \<Rightarrow> Inr (JObj [])
     | Some (JObj fs) \<Rightarrow> Inr (JObj fs)
     | Some _ \<Rightarrow> Inl (errorsNew ''operation target request must be a JSON object''))"

definition nullableText :: "string \<Rightarrow> string option" where
  "nullableText value = (if value = '''' then None else Some value)"

definition lockActiveTargets :: "(string \<Rightarrow> bool) \<Rightarrow> string list \<Rightarrow> db \<Rightarrow> store_error option" where
  "lockActiveTargets uv targetIDs d =
     (let ids = uniqueIDs targetIDs in
      if ids = [] then None
      else if list_ex (\<lambda>i. \<not> uv i) ids then Some NotFound
      else if length (filter (\<lambda>x. X_ID x \<in> set ids \<and> \<not> X_Archived x) (D_targets d)) \<noteq> length ids then Some NotFound
      else None)"

text \<open>The insert loop over the unique target IDs; \<open>rowIDs\<close> gives the row identifier of each.\<close>

definition newStep :: "CreateOperationInput \<Rightarrow> string \<Rightarrow> (string \<Rightarrow> string) \<Rightarrow> string list \<Rightarrow> string \<Rightarrow> json \<Rightarrow> ot_row" where
  "newStep input opID rowIDs allIDs t request =
     (let dependency = (case map_of (CI_TargetDependencies input) t of
                 None \<Rightarrow> None
               | Some dep \<Rightarrow> if dep \<in> set allIDs \<and> rowIDs dep \<noteq> '''' then Some (rowIDs dep) else None)
      in \<lparr>W_ID = rowIDs t, W_Op = opID, W_Target = t, W_DependsOn = dependency, W_Status = OperationQueued,
          W_Attempt = 1, W_PendingRerun = False, W_BridgeOp = '''', W_SaltJID = '''', W_Request = request,
          W_Result = None, W_ErrorCode = '''', W_ErrorReason = Lit '''',
          W_GovPending = (CI_Kind input = ''relay_config_apply'' \<or> CI_Kind input = ''policy_apply''),
          W_Started = None, W_Finished = None\<rparr>)"

fun insertTargets ::
    "CreateOperationInput \<Rightarrow> string \<Rightarrow> (string \<Rightarrow> string) \<Rightarrow> string list \<Rightarrow> string list \<Rightarrow> db \<Rightarrow> store_error + db" where
  "insertTargets input opID rowIDs allIDs [] d = Inr d"
| "insertTargets input opID rowIDs allIDs (t # ts) d =
     (case marshalJSONObject (map_of (CI_TargetRequests input) t) of
        Inl e \<Rightarrow> Inl (StoreErr e)
      | Inr request \<Rightarrow>
          (case insertOT (newStep input opID rowIDs allIDs t request) d of
             Inl (UniqueViolation _) \<Rightarrow> Inl OperationActive
           | Inl (SQLError m) \<Rightarrow> Inl (StoreErr (errorsNew m))
           | Inr d' \<Rightarrow> insertTargets input opID rowIDs allIDs ts d'))"

record create_env =
  ce_enc :: "json \<Rightarrow> string"
  ce_sha :: "string \<Rightarrow> string"
  ce_uuid :: "string \<Rightarrow> bool"
  ce_newID :: string
  ce_rowIDs :: "string \<Rightarrow> string"

definition inputHash :: "create_env \<Rightarrow> CreateOperationInput \<Rightarrow> string" where
  "inputHash ce input = operationRequestHashWithDependencies (ce_enc ce) (ce_sha ce) (CI_Request input)
     (CI_TargetRequests input) (map (\<lambda>(t, dep). (t, JStr dep)) (CI_TargetDependencies input))"

text \<open>The rows that the two queries before the inserts find, and the new row.\<close>

definition keyedOperation :: "CreateOperationInput \<Rightarrow> db \<Rightarrow> op_row option" where
  "keyedOperation input d =
     (if CI_IdempotencyKey input \<noteq> ''''
      then find (\<lambda>q. O_Kind q = CI_Kind input \<and> O_Key q = Some (CI_IdempotencyKey input)) (D_ops d) else None)"

definition liveOperation :: "string \<Rightarrow> db \<Rightarrow> op_row option" where
  "liveOperation kind d = find (\<lambda>q. O_Kind q = kind \<and> liveStatus (O_Status q)) (D_ops d)"

definition coalescedOperation :: "CreateOperationInput \<Rightarrow> db \<Rightarrow> op_row option" where
  "coalescedOperation input d =
     (if CI_Kind input \<in> set coalescedControlOperationKinds \<and> CI_TargetIDs input = [] then liveOperation (CI_Kind input) d else None)"

definition newOperation :: "create_env \<Rightarrow> CreateOperationInput \<Rightarrow> json \<Rightarrow> op_row" where
  "newOperation ce input metadata =
     \<lparr>O_ID = ce_newID ce, O_Kind = CI_Kind input, O_Status = OperationQueued,
      O_SourceID = (if ce_uuid ce (CI_SourceID input) then Some (CI_SourceID input) else None),
      O_Key = nullableText (CI_IdempotencyKey input), O_Hash = Some (inputHash ce input),
      O_Metadata = (case metadata of JObj fs \<Rightarrow> fs | _ \<Rightarrow> []), O_ErrorCode = '''',
      O_ErrorReason = Lit '''', O_Cancel = False, O_Started = None, O_Finished = None\<rparr>"

text \<open>The checks of \<open>dependencies\<close>.\<close>

definition badDependencies :: "CreateOperationInput \<Rightarrow> bool" where
  "badDependencies input =
     list_ex (\<lambda>(dependent, dependency). dependent \<notin> set (uniqueIDs (CI_TargetIDs input))
         \<or> dependency \<notin> set (uniqueIDs (CI_TargetIDs input)) \<or> dependent = dependency) (CI_TargetDependencies input)"

text \<open>The identifier and whether it is that of an earlier operation, with the database after the inserts.\<close>

definition createOperationTx ::
    "create_env \<Rightarrow> CreateOperationInput \<Rightarrow> bool \<Rightarrow> db \<Rightarrow> db \<Rightarrow> store_error + (string \<times> bool) \<times> db" where
  "createOperationTx ce input targetsLocked snap d =
     (case marshalJSONObject (CI_Metadata input) of
        Inl e \<Rightarrow> Inl (StoreErr e)
      | Inr metadata \<Rightarrow>
      (case keyedOperation input snap of
        Some q \<Rightarrow> if O_Hash q \<noteq> Some (inputHash ce input) then Inl IdempotencyConflict else Inr ((O_ID q, True), d)
      | None \<Rightarrow>
      (case coalescedOperation input snap of
        Some q \<Rightarrow> Inr ((O_ID q, True), d)
      | None \<Rightarrow>
      (case (if targetsLocked then None else lockActiveTargets (ce_uuid ce) (CI_TargetIDs input) snap) of
        Some e \<Rightarrow> Inl e
      | None \<Rightarrow>
        if badDependencies input then Inl Conflict
        else case insertOp (newOperation ce input metadata) d of
          Inl (UniqueViolation c) \<Rightarrow>
            if CI_Kind input \<in> set coalescedControlOperationKinds \<and> c = coalescedIndex then Inl CoalescedRace
            else Inl (StoreErr (errorsNew c))
        | Inl (SQLError m) \<Rightarrow> Inl (StoreErr (errorsNew m))
        | Inr d1 \<Rightarrow> (case insertTargets input (ce_newID ce) (ce_rowIDs ce) (uniqueIDs (CI_TargetIDs input))
                            (uniqueIDs (CI_TargetIDs input)) d1 of
            Inl e \<Rightarrow> Inl e
          | Inr d2 \<Rightarrow> Inr ((ce_newID ce, False), d2))))))"

definition Store_Operation :: "string \<Rightarrow> db \<Rightarrow> store_error + op_row" where
  "Store_Operation i d = (case findOp i d of None \<Rightarrow> Inl NotFound | Some q \<Rightarrow> Inr q)"

definition CreateOperation ::
    "create_env \<Rightarrow> CreateOperationInput \<Rightarrow> db \<Rightarrow> db \<Rightarrow> (store_error + op_row) \<times> db" where
  "CreateOperation ce input snap d =
     (case createOperationTx ce input False snap d of
        Inl CoalescedRace \<Rightarrow>
          (case liveOperation (CI_Kind input) d of
             None \<Rightarrow> (Inl NotFound, d)
           | Some q \<Rightarrow> (Store_Operation (O_ID q) d, d))
      | Inl e \<Rightarrow> (Inl e, d)
      | Inr ((i, True), _) \<Rightarrow> (Store_Operation i d, d)
      | Inr ((i, False), d') \<Rightarrow> (Store_Operation i d', d'))"

section \<open>Control operations\<close>

definition hasTargets :: "string \<Rightarrow> db \<Rightarrow> bool" where
  "hasTargets i d = list_ex (\<lambda>w. W_Op w = i) (D_ots d)"

text \<open>\<open>coalesce(started_at, now())\<close>\<close>

definition orNow :: "time option \<Rightarrow> time \<Rightarrow> time option" where
  "orNow t now = (case t of None \<Rightarrow> Some now | Some u \<Rightarrow> Some u)"

definition ClaimControlOperation :: "(string \<Rightarrow> bool) \<Rightarrow> time \<Rightarrow> db \<Rightarrow> (store_error + op_row) \<times> db" where
  "ClaimControlOperation locked now d =
     (case find (\<lambda>q. O_Status q = OperationQueued \<and> \<not> O_Cancel q \<and> O_Kind q \<in> set controlOperationKinds
             \<and> \<not> hasTargets (O_ID q) d \<and> \<not> locked (O_ID q)) (D_ops d) of
        None \<Rightarrow> (Inl NotFound, d)
      | Some q \<Rightarrow>
          (let d' = updateOps (\<lambda>p. O_ID p = O_ID q) (\<lambda>p. p\<lparr>O_Status := OperationRunning, O_Started := orNow (O_Started p) now\<rparr>) d
           in (Store_Operation (O_ID q) d', d')))"

definition setField :: "string \<Rightarrow> json \<Rightarrow> (string \<times> json) list \<Rightarrow> (string \<times> json) list" where
  "setField key v fs = filter (\<lambda>(k, _). k \<noteq> key) fs @ [(key, v)]"

text \<open>The columns \<open>error_code\<close> and \<open>error_reason\<close> that an error leaves.\<close>

definition boundedColumns :: "api_error option \<Rightarrow> string \<times> message" where
  "boundedColumns apiErr = (case apiErr of
       None \<Rightarrow> ('''', Lit '''')
     | Some e \<Rightarrow> (let b = BoundedAPIError (APIErr e) ErrInvalidRequest in (apiCode b, apiMessage b)))"

definition FinishControlOperation ::
    "time \<Rightarrow> string \<Rightarrow> string \<Rightarrow> json \<Rightarrow> api_error option \<Rightarrow> db \<Rightarrow> store_error option \<times> db" where
  "FinishControlOperation now operationID status result apiErr d =
     (if status \<noteq> OperationSucceeded \<and> status \<noteq> OperationFailed \<and> status \<noteq> OperationCancelled then
        (Some (StoreErr (errorsNew ''control operation terminal status is invalid'')), d)
      else let (errorCode, errorReason) = boundedColumns apiErr;
               hit = (\<lambda>q. O_ID q = operationID \<and> O_Status q = OperationRunning \<and> \<not> hasTargets operationID d)
           in if length (filter hit (D_ops d)) \<noteq> 1 then (Some Conflict, d)
              else (None, updateOps hit (\<lambda>q. q\<lparr>O_Status := status, O_Metadata := setField ''result'' result (O_Metadata q),
                O_ErrorCode := errorCode, O_ErrorReason := errorReason, O_Finished := Some now\<rparr>) d))"

definition RequeueRunningControlOperations :: "db \<Rightarrow> db" where
  "RequeueRunningControlOperations d =
     updateOps (\<lambda>q. O_Status q = OperationRunning \<and> O_Kind q \<in> set controlOperationKinds \<and> \<not> hasTargets (O_ID q) d)
       (\<lambda>q. q\<lparr>O_Status := OperationQueued, O_Started := None, O_Finished := None, O_ErrorCode := '''', O_ErrorReason := Lit ''''\<rparr>) d"

section \<open>The steps of an operation\<close>

definition dependencyMet :: "ot_row \<Rightarrow> db \<Rightarrow> bool" where
  "dependencyMet w d = (case W_DependsOn w of
       None \<Rightarrow> True | Some i \<Rightarrow> list_ex (\<lambda>v. W_ID v = i \<and> W_Status v = OperationSucceeded) (D_ots d))"

definition claimable :: "ot_row \<Rightarrow> db \<Rightarrow> bool" where
  "claimable w d = (W_Status w = OperationQueued
     \<and> (case findOp (W_Op w) d of None \<Rightarrow> False | Some q \<Rightarrow> \<not> O_Cancel q)
     \<and> dependencyMet w d
     \<and> (case findTarget (W_Target w) d of None \<Rightarrow> False | Some x \<Rightarrow> \<not> X_Archived x \<or> W_BridgeOp w \<noteq> ''''))"

definition ClaimOperationTarget ::
    "(string \<Rightarrow> bool) \<Rightarrow> time \<Rightarrow> db \<Rightarrow> (store_error + op_row \<times> ot_row \<times> target_row) \<times> db" where
  "ClaimOperationTarget locked now d =
     (let candidates = take 100 (sort_key W_Op (sort_key W_ID (filter (\<lambda>w. claimable w d) (D_ots d))))
      in case find (\<lambda>w. \<not> locked (W_Op w) \<and> \<not> locked (W_ID w)) candidates of
           None \<Rightarrow> (Inl NotFound, d)
         | Some w \<Rightarrow>
             (let d' = updateOps (\<lambda>q. O_ID q = W_Op w) (\<lambda>q. q\<lparr>O_Status := OperationRunning, O_Started := orNow (O_Started q) now\<rparr>)
                (updateOTs (\<lambda>v. W_ID v = W_ID w) (\<lambda>v. v\<lparr>W_Status := OperationRunning, W_Started := orNow (W_Started v) now\<rparr>) d)
              in case (findOp (W_Op w) d', findTarget (W_Target w) d') of
                   (Some q, Some x) \<Rightarrow> (Inr (q, w\<lparr>W_Status := OperationRunning\<rparr>, x), d')
                 | _ \<Rightarrow> (Inl NotFound, d')))"

definition countStatus :: "string \<Rightarrow> ot_row list \<Rightarrow> nat" where
  "countStatus status ws = length (filter (\<lambda>w. W_Status w = status) ws)"

text \<open>The status that \<open>recalculateOperation\<close> gives to an operation whose steps are \<open>ws\<close>.\<close>

definition aggregateStatus :: "bool \<Rightarrow> ot_row list \<Rightarrow> string" where
  "aggregateStatus cancelRequested ws =
     (let queued = countStatus OperationQueued ws; running = countStatus OperationRunning ws;
          succeeded = countStatus OperationSucceeded ws; partial = countStatus OperationPartial ws;
          failed = countStatus OperationFailed ws; cancelled = countStatus OperationCancelled ws
      in if queued + running + succeeded + partial + failed + cancelled = 0 \<and> cancelRequested then OperationCancelled
         else if partial > 0 \<or> (failed > 0 \<and> succeeded > 0) \<or> (cancelled > 0 \<and> succeeded > 0) then OperationPartial
         else if failed > 0 then OperationFailed
         else if cancelled > 0 \<and> succeeded = 0 then OperationCancelled
         else if cancelled > 0 then OperationPartial
         else OperationSucceeded)"

definition recalculateOperation :: "time \<Rightarrow> string \<Rightarrow> db \<Rightarrow> db" where
  "recalculateOperation now operationID d =
     (let ws = targetsOf operationID d
      in if list_ex (\<lambda>w. liveStatus (W_Status w) \<or> W_GovPending w) ws then d
         else updateOps (\<lambda>q. O_ID q = operationID)
           (\<lambda>q. q\<lparr>O_Status := aggregateStatus (O_Cancel q) ws, O_Finished := Some now\<rparr>) d)"

definition terminalFailure :: "string \<Rightarrow> bool" where
  "terminalFailure status = (status = OperationPartial \<or> status = OperationFailed \<or> status = OperationCancelled)"

definition clearPending :: "string \<Rightarrow> db \<Rightarrow> db" where
  "clearPending operationID = updateOTs (\<lambda>w. W_Op w = operationID \<and> W_GovPending w) (\<lambda>w. w\<lparr>W_GovPending := False\<rparr>)"

definition finishStep :: "time \<Rightarrow> string \<Rightarrow> json \<Rightarrow> api_error option \<Rightarrow> ot_row \<Rightarrow> ot_row" where
  "finishStep now status result apiErr w =
     (let (errorCode, errorReason) = boundedColumns apiErr
      in w\<lparr>W_Status := status, W_Result := Some result, W_ErrorCode := errorCode, W_ErrorReason := errorReason, W_Finished := Some now\<rparr>)"

definition failDependant :: "time \<Rightarrow> ot_row \<Rightarrow> ot_row" where
  "failDependant now w = w\<lparr>W_Status := OperationFailed, W_ErrorCode := ''dependency_failed'',
     W_ErrorReason := Lit ''dependency target did not succeed'', W_Finished := Some now\<rparr>"

definition FinishOperationTarget ::
    "time \<Rightarrow> string \<Rightarrow> string \<Rightarrow> json \<Rightarrow> api_error option \<Rightarrow> db \<Rightarrow> store_error option \<times> db" where
  "FinishOperationTarget now operationTargetID status result apiErr d =
     (if \<not> IsTerminalOperationStatus status then
        (Some (StoreErr (errorsNew ''operation target terminal status is invalid'')), d)
      else case findOT operationTargetID d of
        None \<Rightarrow> (Some NotFound, d)
      | Some w \<Rightarrow>
      (case findOp (W_Op w) d of
        None \<Rightarrow> (Some (StoreErr (errorsNew ''no rows in result set'')), d)
      | Some q \<Rightarrow>
          if W_Status w \<noteq> OperationRunning then (Some Conflict, d)
          else let d1 = updateOTs (\<lambda>v. W_ID v = operationTargetID \<and> W_Status v = OperationRunning) (finishStep now status result apiErr) d;
                   d2 = (if status \<noteq> OperationSucceeded then
                           updateOTs (\<lambda>v. W_DependsOn v = Some operationTargetID \<and> W_Status v = OperationQueued) (failDependant now) d1
                         else d1);
                   d3 = (if list_ex (\<lambda>v. terminalFailure (W_Status v)) (targetsOf (W_Op w) d2) then clearPending (W_Op w) d2 else d2)
               in (None, recalculateOperation now (W_Op w) d3)))"

definition OperationTargetsTerminal :: "string \<Rightarrow> db \<Rightarrow> bool" where
  "OperationTargetsTerminal operationID d = list_all (\<lambda>w. IsTerminalOperationStatus (W_Status w)) (targetsOf operationID d)"

text \<open>\<open>apiErr.Message\<close> is compared as a literal: the callers pass bounded errors.\<close>

definition blankMessage :: "message \<Rightarrow> bool" where
  "blankMessage m = (case m of Lit s \<Rightarrow> TrimSpace s = '''' | Fmt s _ \<Rightarrow> s = '''')"

definition FailGovernanceFinalization ::
    "(string \<Rightarrow> bool) \<Rightarrow> time \<Rightarrow> string \<Rightarrow> api_error option \<Rightarrow> db \<Rightarrow> store_error option \<times> db" where
  "FailGovernanceFinalization uv now operationID apiErr d =
     (if \<not> uv operationID then (Some NotFound, d)
      else case apiErr of
        None \<Rightarrow> (Some (StoreErr (errorsNew ''governance finalization error is required'')), d)
      | Some e \<Rightarrow>
          if TrimSpace (apiCode e) = '''' \<or> blankMessage (apiMessage e) then
            (Some (StoreErr (errorsNew ''governance finalization error is required'')), d)
          else case findOp operationID d of
            None \<Rightarrow> (Some NotFound, d)
          | Some q \<Rightarrow>
              if O_Status q \<noteq> OperationRunning then (Some Conflict, d)
              else if \<not> list_ex W_GovPending (targetsOf operationID d) then (Some Conflict, d)
              else let b = BoundedAPIError (APIErr e) ErrInvalidRequest
                   in (None, updateOps (\<lambda>p. O_ID p = operationID \<and> O_Status p = OperationRunning)
                         (\<lambda>p. p\<lparr>O_Status := OperationFailed, O_ErrorCode := apiCode b, O_ErrorReason := apiMessage b, O_Finished := Some now\<rparr>)
                         (clearPending operationID d)))"

definition markGovernanceFinalizedTx :: "time \<Rightarrow> string \<Rightarrow> string \<Rightarrow> db \<Rightarrow> store_error option \<times> db" where
  "markGovernanceFinalizedTx now operationID action d =
     (let hit = (\<lambda>q. O_ID q = operationID \<and> map_of (O_Metadata q) ''governanceFinalizedAction'' = None)
      in if length (filter hit (D_ops d)) \<noteq> 1 then (Some Conflict, d)
         else if \<not> list_ex W_GovPending (targetsOf operationID d) then (Some Conflict, d)
         else (None, recalculateOperation now operationID (clearPending operationID
                (updateOps hit (\<lambda>q. q\<lparr>O_Metadata := setField ''governanceFinalizedAction'' (JStr action) (O_Metadata q)\<rparr>) d))))"

definition UpdateOperationTargetRequest :: "string \<Rightarrow> json option \<Rightarrow> db \<Rightarrow> store_error option \<times> db" where
  "UpdateOperationTargetRequest operationTargetID request d =
     (case marshalJSONObject request of
        Inl e \<Rightarrow> (Some (StoreErr e), d)
      | Inr body \<Rightarrow>
          (let hit = (\<lambda>w. W_ID w = operationTargetID \<and> W_Status w = OperationRunning)
           in if length (filter hit (D_ots d)) \<noteq> 1 then (Some Conflict, d)
              else (None, updateOTs hit (\<lambda>w. w\<lparr>W_Request := body\<rparr>) d)))"

definition SetBridgeOperationMetadata :: "string \<Rightarrow> string \<Rightarrow> string \<Rightarrow> db \<Rightarrow> store_error option \<times> db" where
  "SetBridgeOperationMetadata operationTargetID bridgeOperationID saltJID d =
     (let hit = (\<lambda>w. W_ID w = operationTargetID \<and> W_Status w = OperationRunning)
      in if length (filter hit (D_ots d)) \<noteq> 1 then (Some Conflict, d)
         else (None, updateOTs hit (\<lambda>w. w\<lparr>W_BridgeOp := bridgeOperationID, W_SaltJID := saltJID\<rparr>) d))"

definition CancelOperation :: "time \<Rightarrow> string \<Rightarrow> db \<Rightarrow> store_error option \<times> db" where
  "CancelOperation now operationID d =
     (case findOp operationID d of
        None \<Rightarrow> (Some NotFound, d)
      | Some q \<Rightarrow>
          if \<not> liveStatus (O_Status q) then (Some Conflict, d)
          else let d1 = updateOps (\<lambda>p. O_ID p = operationID) (\<lambda>p. p\<lparr>O_Cancel := True\<rparr>) d;
                   hit = (\<lambda>w. W_Op w = operationID \<and> W_Status w = OperationQueued);
                   d2 = updateOTs hit (\<lambda>w. w\<lparr>W_Status := OperationCancelled, W_Finished := Some now\<rparr>) d1;
                   d3 = (if list_ex hit (D_ots d1) then clearPending operationID d2 else d2)
               in (None, if \<not> hasTargets operationID d3 then
                           (if O_Status q = OperationQueued then
                              updateOps (\<lambda>p. O_ID p = operationID) (\<lambda>p. p\<lparr>O_Status := OperationCancelled, O_Finished := Some now\<rparr>) d3
                            else d3)
                         else recalculateOperation now operationID d3))"

section \<open>Recovery and reconciliation\<close>

definition RequeueRunningOperationTarget :: "time \<Rightarrow> string \<Rightarrow> db \<Rightarrow> store_error option \<times> db" where
  "RequeueRunningOperationTarget now operationTargetID d =
     (case findOT operationTargetID d of
        None \<Rightarrow> (None, d)
      | Some w \<Rightarrow> (case findTarget (W_Target w) d of
        None \<Rightarrow> (None, d)
      | Some x \<Rightarrow> (case findOp (W_Op w) d of
        None \<Rightarrow> (Some (StoreErr (errorsNew ''no rows in result set'')), d)
      | Some q \<Rightarrow>
          if W_Status w \<noteq> OperationRunning then (None, d)
          else if X_Archived x \<and> W_BridgeOp w = '''' then
            (None, recalculateOperation now (W_Op w)
              (updateOTs (\<lambda>v. W_ID v = operationTargetID)
                (\<lambda>v. v\<lparr>W_Status := OperationCancelled, W_PendingRerun := False, W_Finished := Some now\<rparr>) d))
          else let d1 = updateOTs (\<lambda>v. W_ID v = operationTargetID)
                 (\<lambda>v. v\<lparr>W_Status := OperationQueued, W_Attempt := W_Attempt v + 1, W_Result := None, W_ErrorCode := '''',
                   W_ErrorReason := Lit '''', W_Started := None, W_Finished := None\<rparr>) d;
                   status = (if list_ex (\<lambda>v. W_Status v = OperationRunning) (targetsOf (W_Op w) d1)
                     then OperationRunning else OperationQueued)
            in (None, updateOps (\<lambda>p. O_ID p = W_Op w)
                  (\<lambda>p. p\<lparr>O_Status := status, O_Finished := None, O_ErrorCode := '''', O_ErrorReason := Lit ''''\<rparr>) d1))))"

definition RunningOperationTargets :: "db \<Rightarrow> (string \<times> string) list" where
  "RunningOperationTargets d = map (\<lambda>w. (W_ID w, W_BridgeOp w)) (filter (\<lambda>w. W_Status w = OperationRunning) (D_ots d))"

definition PendingGovernanceFinalizations :: "db \<Rightarrow> op_row list" where
  "PendingGovernanceFinalizations d =
     filter (\<lambda>q. O_Kind q \<in> {''apply'', ''relay_config_apply'', ''policy_apply''} \<and> O_Status q = OperationRunning
       \<and> list_ex W_GovPending (targetsOf (O_ID q) d)
       \<and> list_all (\<lambda>w. W_Status w = OperationSucceeded) (targetsOf (O_ID q) d)) (D_ops d)"

definition PendingProfileApplyFinalizations :: "db \<Rightarrow> op_row list" where
  "PendingProfileApplyFinalizations d = filter (\<lambda>q. O_Kind q = ''apply'') (PendingGovernanceFinalizations d)"

definition relayEligible :: "time \<Rightarrow> target_row \<Rightarrow> snapshot_row \<Rightarrow> bool" where
  "relayEligible now x s = (X_Runtime x \<noteq> RuntimeSharedRelay \<or> (\<not> DS_Suspended s \<and>
     (DS_Health s \<noteq> HealthBlocked \<or> (case DS_NextRetry s of None \<Rightarrow> True | Some t \<Rightarrow> t \<le> now))))"

definition fullRelayProbe :: "time \<Rightarrow> target_row \<Rightarrow> snapshot_row \<Rightarrow> bool" where
  "fullRelayProbe now x s = (X_Runtime x = RuntimeSharedRelay \<and>
     (DS_Health s = HealthBlocked \<or> (case DS_LastMemberCheck s of None \<Rightarrow> True | Some t \<Rightarrow> t \<le> now - 30 * minute)))"

definition reconcileOp :: "string \<Rightarrow> string \<Rightarrow> op_row" where
  "reconcileOp i flag = \<lparr>O_ID = i, O_Kind = ''reconcile'', O_Status = OperationQueued, O_SourceID = None, O_Key = None,
     O_Hash = None, O_Metadata = [(flag, JBool True)], O_ErrorCode = '''', O_ErrorReason = Lit '''', O_Cancel = False,
     O_Started = None, O_Finished = None\<rparr>"

definition reconcileStep :: "string \<Rightarrow> string \<Rightarrow> string \<Rightarrow> bool \<Rightarrow> ot_row" where
  "reconcileStep i opID targetID probe = \<lparr>W_ID = i, W_Op = opID, W_Target = targetID, W_DependsOn = None,
     W_Status = OperationQueued, W_Attempt = 1, W_PendingRerun = False, W_BridgeOp = '''', W_SaltJID = '''',
     W_Request = JObj (if probe then [(''fullRelayProbe'', JBool True)] else []), W_Result = None, W_ErrorCode = '''',
     W_ErrorReason = Lit '''', W_GovPending = False, W_Started = None, W_Finished = None\<rparr>"

fun sqlMessage :: "sql_error \<Rightarrow> string" where
  "sqlMessage (UniqueViolation c) = c"
| "sqlMessage (SQLError m) = m"

text \<open>The insert of a reconcile operation with its only step; \<open>ids\<close> are the new identifiers.\<close>

definition insertReconcile :: "string \<times> string \<Rightarrow> string \<Rightarrow> string \<Rightarrow> bool \<Rightarrow> db \<Rightarrow> store_error + db" where
  "insertReconcile ids flag targetID probe d =
     (case insertOp (reconcileOp (fst ids) flag) d of
        Inl e \<Rightarrow> Inl (StoreErr (errorsNew (sqlMessage e)))
      | Inr d1 \<Rightarrow> (case insertOT (reconcileStep (snd ids) (fst ids) targetID probe) d1 of
          Inl e \<Rightarrow> Inl (StoreErr (errorsNew (sqlMessage e)))
        | Inr d2 \<Rightarrow> Inr d2))"

fun enqueueLoop :: "(string \<Rightarrow> string \<times> string) \<Rightarrow> (string \<times> bool) list \<Rightarrow> nat \<Rightarrow> db \<Rightarrow> store_error + nat \<times> db" where
  "enqueueLoop ids [] created d = Inr (created, d)"
| "enqueueLoop ids ((t, probe) # ts) created d =
     (case find (\<lambda>w. W_Target w = t \<and> liveStatus (W_Status w)) (D_ots d) of
        Some w \<Rightarrow> enqueueLoop ids ts created (updateOTs (\<lambda>v. W_ID v = W_ID w) (\<lambda>v. v\<lparr>W_PendingRerun := True\<rparr>) d)
      | None \<Rightarrow> (case insertReconcile (ids t) ''scheduled'' t probe d of
          Inl e \<Rightarrow> Inl e
        | Inr d' \<Rightarrow> enqueueLoop ids ts (created + 1) d'))"

definition reconcileTargets :: "time \<Rightarrow> db \<Rightarrow> (string \<times> bool) list" where
  "reconcileTargets now d = List.map_filter (\<lambda>x. case X_Desired x of
       None \<Rightarrow> None
     | Some s \<Rightarrow> if \<not> X_Archived x \<and> relayEligible now x s then Some (X_ID x, fullRelayProbe now x s) else None) (D_targets d)"

definition EnqueueReconciles :: "(string \<Rightarrow> string \<times> string) \<Rightarrow> time \<Rightarrow> db \<Rightarrow> (store_error + nat) \<times> db" where
  "EnqueueReconciles ids now d =
     (case enqueueLoop ids (reconcileTargets now d) 0 d of
        Inl e \<Rightarrow> (Inl e, d) | Inr (created, d') \<Rightarrow> (Inr created, d'))"

definition EnqueuePendingRerun :: "string \<times> string \<Rightarrow> time \<Rightarrow> string \<Rightarrow> db \<Rightarrow> (store_error + bool) \<times> db" where
  "EnqueuePendingRerun ids now operationTargetID d =
     (case findOT operationTargetID d of
        None \<Rightarrow> (Inr False, d)
      | Some w \<Rightarrow> (case findTarget (W_Target w) d of
        None \<Rightarrow> (Inr False, d)
      | Some x \<Rightarrow> (case X_Desired x of
        None \<Rightarrow> (Inr False, d)
      | Some s \<Rightarrow>
          if \<not> (W_PendingRerun w \<and> W_Status w \<in> {OperationSucceeded, OperationFailed, OperationCancelled}) then (Inr False, d)
          else let d1 = updateOTs (\<lambda>v. W_ID v = operationTargetID) (\<lambda>v. v\<lparr>W_PendingRerun := False\<rparr>) d
            in if X_Archived x \<or> \<not> relayEligible now x s then (Inr False, d1)
               else case insertReconcile ids ''coalesced'' (W_Target w) (fullRelayProbe now x s) d1 of
                 Inl e \<Rightarrow> (Inl e, d)
               | Inr d2 \<Rightarrow> (Inr True, d2))))"


definition retryInput :: "string \<Rightarrow> op_row \<Rightarrow> string \<Rightarrow> db \<Rightarrow> CreateOperationInput" where
  "retryInput operationID original key d =
     (let rows = sort_key W_Target (filter (\<lambda>w. W_Status w = OperationFailed \<or> W_Status w = OperationPartial) (targetsOf operationID d))
      in \<lparr>CI_Kind = O_Kind original, CI_SourceID = operationID, CI_IdempotencyKey = key,
          CI_Request = JObj [(''retryOf'', JStr operationID), (''targetIds'', JArr (map (\<lambda>w. JStr (W_Target w)) rows))],
          CI_Metadata = Some (JObj (setField ''originalKind'' (JStr (O_Kind original)) (setField ''retryOf'' (JStr operationID)
            (filter (\<lambda>(k, _). k \<noteq> ''governanceFinalizedAction'') (O_Metadata original))))),
          CI_TargetIDs = map W_Target rows, CI_TargetRequests = map (\<lambda>w. (W_Target w, W_Request w)) rows,
          CI_TargetDependencies = []\<rparr>)"

definition stringMetadata :: "(string \<times> json) list \<Rightarrow> string \<Rightarrow> string" where
  "stringMetadata fs key = (case map_of fs key of Some (JStr s) \<Rightarrow> s | _ \<Rightarrow> '''')"

definition isProfileApply :: "(string \<Rightarrow> bool) \<Rightarrow> op_row \<Rightarrow> bool" where
  "isProfileApply uv q = (O_Kind q = ''apply'' \<and> O_SourceID q \<noteq> None
     \<and> IsSHA256 (stringMetadata (O_Metadata q) ''routingHash'') \<and> uv (stringMetadata (O_Metadata q) ''profileRevisionId''))"

definition validatePublishedProfilePredecessorTx :: "string \<Rightarrow> string \<Rightarrow> db \<Rightarrow> store_error option" where
  "validatePublishedProfilePredecessorTx profileID expectedRevisionID d =
     (case map_of (D_published d) profileID of
        None \<Rightarrow> Some NotFound
      | Some current \<Rightarrow> if current \<noteq> expectedRevisionID then Some Conflict else None)"

text \<open>The checks on the steps of the original: their statuses, their requests, and one step of each role.\<close>

definition requestText :: "ot_row \<Rightarrow> string \<Rightarrow> string" where
  "requestText w key = (case W_Request w of JObj fs \<Rightarrow> stringMetadata fs key | _ \<Rightarrow> '''')"

definition runtimeOf :: "db \<Rightarrow> ot_row \<Rightarrow> string" where
  "runtimeOf d w = (case findTarget (W_Target w) d of None \<Rightarrow> '''' | Some x \<Rightarrow> X_Runtime x)"

definition profileRetrySteps :: "db \<Rightarrow> op_row \<Rightarrow> ot_row list \<Rightarrow> (ot_row \<times> ot_row) option" where
  "profileRetrySteps d original rows =
     (if length rows \<noteq> 2
         \<or> list_ex (\<lambda>w. W_Status w \<notin> {OperationSucceeded, OperationFailed, OperationPartial}) rows
         \<or> list_ex (\<lambda>w. requestText w ''sourceKind'' \<noteq> ''profile_apply'' \<or> Some (requestText w ''sourceId'') \<noteq> O_SourceID original) rows
         \<or> list_all (\<lambda>w. W_Status w = OperationSucceeded) rows then None
      else case (find (\<lambda>w. runtimeOf d w = RuntimeClaude \<or> runtimeOf d w = RuntimeCodex) rows,
                 find (\<lambda>w. runtimeOf d w = RuntimeSharedRelay) rows) of
        (Some skill, Some rel) \<Rightarrow> Some (skill, rel)
      | _ \<Rightarrow> None)"

definition retryRow :: "time \<Rightarrow> string \<Rightarrow> string \<Rightarrow> string option \<Rightarrow> ot_row \<Rightarrow> ot_row" where
  "retryRow now i opID dependency w =
     (let done = (W_Status w = OperationSucceeded)
      in \<lparr>W_ID = i, W_Op = opID, W_Target = W_Target w, W_DependsOn = dependency,
          W_Status = (if done then OperationSucceeded else OperationQueued), W_Attempt = 1, W_PendingRerun = False,
          W_BridgeOp = '''', W_SaltJID = '''', W_Request = W_Request w, W_Result = (if done then W_Result w else None),
          W_ErrorCode = '''', W_ErrorReason = Lit '''', W_GovPending = True, W_Started = None,
          W_Finished = (if done then Some now else None)\<rparr>)"

definition storeSQL :: "sql_error \<Rightarrow> store_error" where
  "storeSQL e = (case e of UniqueViolation _ \<Rightarrow> OperationActive | SQLError m \<Rightarrow> StoreErr (errorsNew m))"

definition retryProfileApplyTargets ::
    "create_env \<Rightarrow> time \<Rightarrow> string \<Rightarrow> string \<Rightarrow> db \<Rightarrow> (store_error + op_row) \<times> db" where
  "retryProfileApplyTargets ce now operationID key d =
     (case findOp operationID d of
        None \<Rightarrow> (Inl NotFound, d)
      | Some original \<Rightarrow>
      if \<not> isProfileApply (ce_uuid ce) original \<or> O_Status original \<notin> {OperationFailed, OperationPartial}
         \<or> (case O_SourceID original of None \<Rightarrow> True | Some s \<Rightarrow> \<not> ce_uuid ce s) then (Inl Conflict, d)
      else case profileRetrySteps d original (sort_key W_Target (targetsOf operationID d)) of
        None \<Rightarrow> (Inl Conflict, d)
      | Some (skill, rel) \<Rightarrow>
      (let ids = [W_Target skill, W_Target rel];
           hash = operationRequestHashWithDependencies (ce_enc ce) (ce_sha ce)
             (JObj [(''retryOf'', JStr operationID), (''targetIds'', JArr (map JStr ids))])
             [(W_Target skill, W_Request skill), (W_Target rel, W_Request rel)] [(W_Target rel, JStr (W_Target skill))]
       in case (if key \<noteq> '''' then find (\<lambda>q. O_Kind q = ''apply'' \<and> O_Key q = Some key) (D_ops d) else None) of
        Some q \<Rightarrow> (if O_Hash q \<noteq> Some hash then Inl IdempotencyConflict else Store_Operation (O_ID q) d, d)
      | None \<Rightarrow>
      (case validatePublishedProfilePredecessorTx (the (O_SourceID original))
              (stringMetadata (O_Metadata original) ''expectedPublishedProfileRevisionId'') d of
        Some e \<Rightarrow> (Inl e, d)
      | None \<Rightarrow>
      (case lockActiveTargets (ce_uuid ce) ids d of
        Some e \<Rightarrow> (Inl e, d)
      | None \<Rightarrow>
      (case insertOp \<lparr>O_ID = ce_newID ce, O_Kind = ''apply'', O_Status = OperationQueued, O_SourceID = O_SourceID original,
              O_Key = nullableText key, O_Hash = Some hash,
              O_Metadata = setField ''originalKind'' (JStr (O_Kind original)) (setField ''retryOf'' (JStr operationID)
                (filter (\<lambda>(k, _). k \<noteq> ''governanceFinalizedAction'') (O_Metadata original))),
              O_ErrorCode = '''', O_ErrorReason = Lit '''', O_Cancel = False, O_Started = None, O_Finished = None\<rparr> d of
        Inl e \<Rightarrow> (Inl (StoreErr (errorsNew (sqlMessage e))), d)
      | Inr d1 \<Rightarrow>
      (case insertOT (retryRow now (ce_rowIDs ce (W_Target skill)) (ce_newID ce) None skill) d1 of
        Inl e \<Rightarrow> (Inl (storeSQL e), d)
      | Inr d2 \<Rightarrow>
      (case insertOT (retryRow now (ce_rowIDs ce (W_Target rel)) (ce_newID ce) (Some (ce_rowIDs ce (W_Target skill))) rel) d2 of
        Inl e \<Rightarrow> (Inl (storeSQL e), d)
      | Inr d3 \<Rightarrow> (Store_Operation (ce_newID ce) d3, d3))))))))"

definition RetryFailedTargets ::
    "create_env \<Rightarrow> time \<Rightarrow> string \<Rightarrow> string \<Rightarrow> db \<Rightarrow> (store_error + op_row) \<times> db" where
  "RetryFailedTargets ce now operationID key d =
     (case findOp operationID d of
        None \<Rightarrow> (Inl NotFound, d)
      | Some original \<Rightarrow>
          if isProfileApply (ce_uuid ce) original then retryProfileApplyTargets ce now operationID key d
          else if CI_TargetIDs (retryInput operationID original key d) = [] then (Inl NotFound, d)
          else CreateOperation ce (retryInput operationID original key d) d d)"

end
