(* ===== verification/Governance_Store.thy ===== *)
theory Governance_Store
  imports Call_Policy Operation_Store
begin

text \<open>
  The governance tables of the store: revisions of the global policy and of the relay configuration
  (\<open>src/internal/store/policies.go\<close>, \<open>relay_governance.go\<close>), the rendering of the routing bundle from them
  (\<open>renderCandidateRoutingBundleTx\<close>), the check of a profile's rules against the policy, and the number of tools a profile
  shows (\<open>ProfileEffectiveVisibleCount\<close> in \<open>profiles.go\<close>).

  A table is a list of rows; a query is a filter and a join over them, ordered as in its SQL. A method runs in one
  transaction: an error leaves the database as it was. A \<open>jsonb\<close> column is a \<open>json\<close> value. The names of the tables and
  their unique constraints are those of \<open>src/internal/store/migrations\<close>. \<open>governance_env\<close> has the calls outside:
  \<open>json.Unmarshal\<close>, \<open>json.Marshal\<close>, SHA-256, \<open>uuid.Validate\<close> and the canonical JSON of a bundle.
\<close>

section \<open>Tables\<close>

record RelayConfigurationRevision =
  RV_ID :: string
  RV_Revision :: int
  RV_CanonicalHash :: string
  RV_Metadata :: json

record relay_pin =
  RP_RelayRevisionID :: string
  RP_ServerID :: string
  RP_MCPRevisionID :: string
  RP_Position :: int

record server_row =
  SV_ID :: string
  SV_Name :: string
  SV_CurrentRevisionID :: string

record mcp_revision_row =
  MR_ID :: string
  MR_ServerID :: string
  MR_Revision :: int
  MR_Name :: string
  MR_Description :: string
  MR_Transport :: string
  MR_Command :: string
  MR_Args :: "string list"
  MR_URL :: string
  MR_EnvSlots :: "string list"
  MR_HeaderSlots :: "string list"
  MR_ContentHash :: string
  MR_Unbound :: bool

record contract_revision_row =
  CV_ID :: string
  CV_ServerID :: string
  CV_Revision :: int
  CV_CanonicalHash :: string
  CV_Body :: json

record contract_state_row =
  CS_ServerID :: string
  CS_Accepted :: "string option"
  CS_Latest :: "string option"
  CS_ReviewState :: string

record contract_tool_row =
  CT_ContractRevisionID :: string
  CT_ToolID :: string
  CT_Position :: int
  CT_InputSchema :: json
  CT_OutputSchema :: json
  CT_Annotations :: json
  CT_Presentation :: json
  CT_Status :: string

record tool_row =
  TL_ID :: string
  TL_ServerID :: string
  TL_Name :: string

record rename_row =
  RN_ID :: string
  RN_ServerID :: string
  RN_OldToolID :: string
  RN_NewToolID :: string
  RN_RemovedContract :: string
  RN_AddedContract :: string

record proposal_row =
  PO_ID :: string
  PO_ServerID :: string
  PO_RemovedToolID :: string
  PO_AddedToolID :: string
  PO_RemovedContract :: string
  PO_AddedContract :: string
  PO_Status :: string

record profile_row =
  PF_ID :: string
  PF_Name :: string
  PF_Description :: string
  PF_ClientKind :: string
  PF_Category :: string
  PF_Variant :: string
  PF_MigrationState :: string
  PF_Revision :: int
  PF_CurrentRevisionID :: string
  PF_Archived :: bool

record profile_revision_row =
  PV_ID :: string
  PV_ProfileID :: string
  PV_Revision :: int
  PV_CanonicalHash :: string
  PV_Name :: string
  PV_Description :: string
  PV_ClientKind :: string
  PV_Category :: string
  PV_Variant :: string
  PV_MigrationState :: string
  PV_PendingBindings :: bool
  PV_ArchivedRestore :: bool

record profile_governance_row =
  PG_ProfileRevisionID :: string
  PG_ServerID :: string
  PG_MCPRevisionID :: string
  PG_AcceptedContract :: "string option"
  PG_VisibilityMode :: string

record profile_rule_row =
  PT_ProfileRevisionID :: string
  PT_ToolID :: string
  PT_Visible :: bool
  PT_Decision :: string
  PT_ReasonCodes :: "string list"

text \<open>
  \<open>MR_Unbound\<close> is whether one of the secrets of an MCP revision is missing, \<open>PF_Archived\<close> is \<open>archived_at IS NOT NULL\<close>; the
  pairs of \<open>GD_Published\<close> are profiles and their published revisions.
\<close>

record governance_db =
  GD_Policies :: "GlobalPolicyRevision list"
  GD_CurrentPolicy :: string
  GD_AppliedPolicy :: string
  GD_RelayRevisions :: "RelayConfigurationRevision list"
  GD_RelayPins :: "relay_pin list"
  GD_CurrentRelay :: string
  GD_AppliedRelay :: string
  GD_Mode :: string
  GD_DefaultProfile :: "string option"
  GD_Servers :: "server_row list"
  GD_MCPRevisions :: "mcp_revision_row list"
  GD_Contracts :: "contract_revision_row list"
  GD_ContractStates :: "contract_state_row list"
  GD_ContractTools :: "contract_tool_row list"
  GD_Tools :: "tool_row list"
  GD_Profiles :: "profile_row list"
  GD_Published :: "(string \<times> string) list"
  GD_ProfileRevisions :: "profile_revision_row list"
  GD_ProfileGovernance :: "profile_governance_row list"
  GD_ProfileRules :: "profile_rule_row list"
  GD_Renames :: "rename_row list"
  GD_Proposals :: "proposal_row list"

record governance_env =
  ge_unmarshal :: "string \<Rightarrow> json option"
  ge_marshal :: "json \<Rightarrow> string"
  ge_sha :: "string \<Rightarrow> string"
  ge_uuid :: "string \<Rightarrow> bool"
  ge_canonical :: "RoutingBundle \<Rightarrow> store_error + string"

abbreviation noRows :: store_error where "noRows \<equiv> StoreErr (errorsNew ''no rows in result set'')"

definition uniqueViolation :: "string \<Rightarrow> store_error" where
  "uniqueViolation constraint = StoreErr (errorf ''duplicate key value violates unique constraint %q'' [constraint])"

fun mapE :: "('a \<Rightarrow> 'e + 'b) \<Rightarrow> 'a list \<Rightarrow> 'e + 'b list" where
  "mapE f [] = Inr []"
| "mapE f (x # xs) = (case f x of Inl e \<Rightarrow> Inl e | Inr y \<Rightarrow> (case mapE f xs of Inl e \<Rightarrow> Inl e | Inr ys \<Rightarrow> Inr (y # ys)))"

definition findPolicy :: "governance_db \<Rightarrow> string \<Rightarrow> GlobalPolicyRevision option" where
  "findPolicy d i = find (\<lambda>p. GP_ID p = i) (GD_Policies d)"

definition findServer :: "governance_db \<Rightarrow> string \<Rightarrow> server_row option" where
  "findServer d i = find (\<lambda>v. SV_ID v = i) (GD_Servers d)"

definition findMCPRevision :: "governance_db \<Rightarrow> string \<Rightarrow> mcp_revision_row option" where
  "findMCPRevision d i = find (\<lambda>r. MR_ID r = i) (GD_MCPRevisions d)"

definition findContract :: "governance_db \<Rightarrow> string \<Rightarrow> contract_revision_row option" where
  "findContract d i = find (\<lambda>c. CV_ID c = i) (GD_Contracts d)"

definition findProfile :: "governance_db \<Rightarrow> string \<Rightarrow> profile_row option" where
  "findProfile d i = find (\<lambda>p. PF_ID p = i) (GD_Profiles d)"

definition findRelay :: "governance_db \<Rightarrow> string \<Rightarrow> RelayConfigurationRevision option" where
  "findRelay d i = find (\<lambda>r. RV_ID r = i) (GD_RelayRevisions d)"

section \<open>Revisions of the global policy\<close>

record GlobalPolicyInput =
  GI_Revision :: int
  GI_CatalogVersion :: int
  GI_ExplicitOverrides :: "(string \<times> string) list"
  GI_UnclassifiedMutating :: string
  GI_ReviewedReadOnly :: string

definition policyDefaults :: "GlobalPolicyInput \<Rightarrow> GlobalPolicyInput" where
  "policyDefaults input = input\<lparr>
     GI_CatalogVersion := (if GI_CatalogVersion input = 0 then CatalogVersion else GI_CatalogVersion input),
     GI_UnclassifiedMutating := (if GI_UnclassifiedMutating input = '''' then DecisionConfirm else GI_UnclassifiedMutating input),
     GI_ReviewedReadOnly := (if GI_ReviewedReadOnly input = '''' then DecisionAllow else GI_ReviewedReadOnly input)\<rparr>"

definition policyInputError :: "GlobalPolicyInput \<Rightarrow> store_error option" where
  "policyInputError input =
     (if GI_CatalogVersion input \<noteq> CatalogVersion \<or> \<not> validDecision (GI_UnclassifiedMutating input)
         \<or> \<not> validDecision (GI_ReviewedReadOnly input) then
        Some (StoreErr (errorsNew ''invalid global policy catalog or decision''))
      else if length (GI_ExplicitOverrides input) > 20000 then
        Some (StoreErr (errorsNew ''global policy override limit exceeded''))
      else case find (\<lambda>(key, decision). TrimSpace key = '''' \<or> length key > 256 \<or> \<not> validDecision decision) (GI_ExplicitOverrides input) of
        Some (key, _) \<Rightarrow> Some (StoreErr (errorf ''invalid global policy override %q'' [key]))
      | None \<Rightarrow> None)"

definition canonicalPolicyHash :: "governance_env \<Rightarrow> GlobalPolicyInput \<Rightarrow> string" where
  "canonicalPolicyHash ge input =
     hexEncode (ge_sha ge (ge_marshal ge (JObj
       [(''catalogVersion'', JNum (GI_CatalogVersion input)),
        (''explicitOverrides'', JArr (map (\<lambda>(k, v). JArr [JStr k, JStr v]) (sort_key fst (GI_ExplicitOverrides input)))),
        (''unclassifiedMutating'', JStr (GI_UnclassifiedMutating input)),
        (''reviewedReadOnly'', JStr (GI_ReviewedReadOnly input))])))"

text \<open>The insert, with the unique constraints of \<open>global_policy_revisions\<close>: \<open>id\<close>, \<open>canonical_hash\<close> and \<open>revision\<close>.\<close>

definition insertPolicy :: "GlobalPolicyRevision \<Rightarrow> governance_db \<Rightarrow> store_error + governance_db" where
  "insertPolicy p d =
     (if list_ex (\<lambda>q. GP_ID q = GP_ID p) (GD_Policies d) then Inl (uniqueViolation ''global_policy_revisions_pkey'')
      else if list_ex (\<lambda>q. GP_CanonicalHash q = GP_CanonicalHash p) (GD_Policies d) then
        Inl (uniqueViolation ''global_policy_revisions_canonical_hash_key'')
      else if list_ex (\<lambda>q. GP_Revision q = GP_Revision p) (GD_Policies d) then
        Inl (uniqueViolation ''global_policy_revisions_revision_key'')
      else Inr (d\<lparr>GD_Policies := GD_Policies d @ [p]\<rparr>))"

text \<open>\<open>newID\<close> and \<open>now\<close> are what \<open>uuid.NewString\<close> and the database's clock return.\<close>

definition SaveGlobalPolicy ::
    "governance_env \<Rightarrow> string \<Rightarrow> time \<Rightarrow> GlobalPolicyInput \<Rightarrow> governance_db \<Rightarrow> store_error + (GlobalPolicyRevision \<times> governance_db)" where
  "SaveGlobalPolicy ge newID now input0 d =
     (let input = policyDefaults input0 in
      case policyInputError input of
        Some e \<Rightarrow> Inl e
      | None \<Rightarrow> (let hash = canonicalPolicyHash ge input in
          case findPolicy d (GD_CurrentPolicy d) of
            None \<Rightarrow> Inl noRows
          | Some current \<Rightarrow>
              if GI_Revision input \<noteq> 0 \<and> GI_Revision input \<noteq> GP_Revision current then Inl Conflict
              else if GP_CanonicalHash current = hash then Inr (current, d)
              else let p = \<lparr>GP_ID = newID, GP_Revision = GP_Revision current + 1, GP_CanonicalHash = hash,
                     GP_CatalogVersion = GI_CatalogVersion input, GP_ExplicitOverrides = GI_ExplicitOverrides input,
                     GP_UnclassifiedMutating = GI_UnclassifiedMutating input, GP_ReviewedReadOnly = GI_ReviewedReadOnly input, GP_CreatedAt = now\<rparr>
                in case insertPolicy p d of
                     Inl e \<Rightarrow> Inl e
                   | Inr d' \<Rightarrow> Inr (p, d'\<lparr>GD_CurrentPolicy := newID\<rparr>)))"

definition GlobalPolicy :: "governance_db \<Rightarrow> string \<Rightarrow> store_error + GlobalPolicyRevision" where
  "GlobalPolicy d i = (case findPolicy d i of None \<Rightarrow> Inl NotFound | Some p \<Rightarrow> Inr p)"

definition AppliedGlobalPolicy :: "governance_db \<Rightarrow> store_error + GlobalPolicyRevision" where
  "AppliedGlobalPolicy d = GlobalPolicy d (GD_AppliedPolicy d)"

section \<open>Revisions of the relay configuration\<close>

record RelayConfigurationInput =
  CI_Revision :: int
  CI_MCPServerIDs :: "string list"
  CI_MCPRevisionIDs :: "(string \<times> string) list"
  CI_Metadata :: json

definition normalizedGovernanceMetadataKey :: "string \<Rightarrow> string" where
  "normalizedGovernanceMetadataKey value =
     map lowerByte (filter (\<lambda>c. CHR ''A'' \<le> c \<and> c \<le> CHR ''Z'' \<or> CHR ''a'' \<le> c \<and> c \<le> CHR ''z'' \<or> CHR ''0'' \<le> c \<and> c \<le> CHR ''9'') value)"

definition forbiddenMetadata :: "string list" where
  "forbiddenMetadata = [''secretvalue'', ''secretvalues'', ''ciphertext'', ''password'', ''token'', ''apikey'', ''arguments'',
     ''result'', ''results'', ''prompt'', ''prompts'', ''rawerror'', ''sessionid'']"

text \<open>The walk of \<open>rejectGovernanceMetadata\<close>: whether a forbidden key occurs at any depth.\<close>

fun forbiddenKey :: "json \<Rightarrow> bool" where
  "forbiddenKey (JObj fs) = list_ex (\<lambda>kv. normalizedGovernanceMetadataKey (fst kv) \<in> set forbiddenMetadata \<or> forbiddenKey (snd kv)) fs"
| "forbiddenKey (JArr vs) = list_ex forbiddenKey vs"
| "forbiddenKey _ = False"

text \<open>The error does not say which of several forbidden keys the map iteration met first.\<close>

definition rejectGovernanceMetadata :: "json \<Rightarrow> store_error option" where
  "rejectGovernanceMetadata v = (if forbiddenKey v then Some (StoreErr (errorsNew ''governance metadata contains forbidden field'')) else None)"

definition relayConfigurationPins :: "(string \<Rightarrow> bool) \<Rightarrow> RelayConfigurationInput \<Rightarrow> store_error + (string \<times> string) list" where
  "relayConfigurationPins uv input =
     (let ids = uniqueIDs (CI_MCPServerIDs input) in
      if length ids > 500 then Inl (StoreErr (errorsNew ''relay configuration exceeds server limit''))
      else mapE (\<lambda>serverID. let revisionID = TrimSpace (mapText (CI_MCPRevisionIDs input) serverID) in
        if \<not> uv serverID \<or> \<not> uv revisionID then Inl NotFound else Inr (serverID, revisionID)) ids)"

definition relayConfigurationHash :: "governance_env \<Rightarrow> (string \<times> string) list \<Rightarrow> json \<Rightarrow> string" where
  "relayConfigurationHash ge pins metadata =
     hexEncode (ge_sha ge (ge_marshal ge (JObj
       [(''servers'', JArr (map (\<lambda>(i, s, r). JObj [(''serverId'', JStr s), (''mcpRevisionId'', JStr r), (''position'', JNum (int i))])
           (zip [0..<length pins] pins))),
        (''metadata'', metadata)])))"

fun validateRelayConfigurationPins :: "governance_db \<Rightarrow> (string \<times> string) list \<Rightarrow> store_error option" where
  "validateRelayConfigurationPins d [] = None"
| "validateRelayConfigurationPins d ((serverID, revisionID) # pins) =
     (case findMCPRevision d revisionID of
        None \<Rightarrow> Some NotFound
      | Some mr \<Rightarrow>
          if MR_ServerID mr \<noteq> serverID then Some Conflict
          else if MR_Unbound mr then Some (StoreErr (errorsNew ''relay configuration has an unbound MCP secret''))
          else validateRelayConfigurationPins d pins)"

text \<open>The inserts, with the unique constraints of \<open>relay_configuration_revisions\<close>.\<close>

definition insertRelay :: "RelayConfigurationRevision \<Rightarrow> (string \<times> string) list \<Rightarrow> governance_db \<Rightarrow> store_error + governance_db" where
  "insertRelay r pins d =
     (if list_ex (\<lambda>q. RV_ID q = RV_ID r) (GD_RelayRevisions d) then Inl (uniqueViolation ''relay_configuration_revisions_pkey'')
      else if list_ex (\<lambda>q. RV_CanonicalHash q = RV_CanonicalHash r) (GD_RelayRevisions d) then
        Inl (uniqueViolation ''relay_configuration_revisions_canonical_hash_key'')
      else if list_ex (\<lambda>q. RV_Revision q = RV_Revision r) (GD_RelayRevisions d) then
        Inl (uniqueViolation ''relay_configuration_revisions_revision_key'')
      else Inr (d\<lparr>GD_RelayRevisions := GD_RelayRevisions d @ [r],
        GD_RelayPins := GD_RelayPins d @ map (\<lambda>(i, s, m). \<lparr>RP_RelayRevisionID = RV_ID r, RP_ServerID = s, RP_MCPRevisionID = m, RP_Position = int i\<rparr>)
          (zip [0..<length pins] pins)\<rparr>))"

definition SaveRelayConfiguration ::
    "governance_env \<Rightarrow> string \<Rightarrow> RelayConfigurationInput \<Rightarrow> governance_db \<Rightarrow> store_error + (RelayConfigurationRevision \<times> governance_db)" where
  "SaveRelayConfiguration ge newID input d =
     (case relayConfigurationPins (ge_uuid ge) input of
        Inl e \<Rightarrow> Inl e
      | Inr pins \<Rightarrow>
     (case rejectGovernanceMetadata (CI_Metadata input) of
        Some e \<Rightarrow> Inl e
      | None \<Rightarrow>
     (let metadata = (if CI_Metadata input = JNull then JObj [] else CI_Metadata input);
          hash = relayConfigurationHash ge pins metadata in
      case findRelay d (GD_CurrentRelay d) of
        None \<Rightarrow> Inl noRows
      | Some current \<Rightarrow>
          if CI_Revision input \<noteq> 0 \<and> CI_Revision input \<noteq> RV_Revision current then Inl Conflict
          else if RV_CanonicalHash current = hash then Inr (current, d)
          else case validateRelayConfigurationPins d pins of
            Some e \<Rightarrow> Inl e
          | None \<Rightarrow>
              (let r = \<lparr>RV_ID = newID, RV_Revision = RV_Revision current + 1, RV_CanonicalHash = hash, RV_Metadata = metadata\<rparr>
               in case insertRelay r pins d of
                    Inl e \<Rightarrow> Inl e
                  | Inr d' \<Rightarrow> Inr (r, d'\<lparr>GD_CurrentRelay := newID\<rparr>)))))"

section \<open>Rendering the routing bundle\<close>

record RoutingBundleCandidate =
  RC_Mode :: string
  RC_RelayConfigurationRevisionID :: string
  RC_GlobalPolicyRevisionID :: string
  RC_DefaultProfileID :: "string option"
  RC_ReplacePublishedProfiles :: bool
  RC_PublishedProfileRevisions :: "(string \<times> string) list"

definition noCandidate :: RoutingBundleCandidate where
  "noCandidate = \<lparr>RC_Mode = '''', RC_RelayConfigurationRevisionID = '''', RC_GlobalPolicyRevisionID = '''', RC_DefaultProfileID = None,
     RC_ReplacePublishedProfiles = False, RC_PublishedProfileRevisions = []\<rparr>"

definition equalJSONMap :: "governance_env \<Rightarrow> json \<Rightarrow> json \<Rightarrow> bool" where
  "equalJSONMap ge left right = (ge_marshal ge left = ge_marshal ge right)"

definition objectMembers :: "json \<Rightarrow> (string \<times> json) list" where
  "objectMembers v = (case v of JObj fs \<Rightarrow> fs | _ \<Rightarrow> [])"

definition isObject :: "json \<Rightarrow> bool" where
  "isObject v = (case v of JObj _ \<Rightarrow> True | _ \<Rightarrow> False)"

definition classifyRoutingTool :: "governance_env \<Rightarrow> GlobalPolicyRevision \<Rightarrow> string \<Rightarrow> string \<Rightarrow> json \<Rightarrow> json \<Rightarrow> json \<Rightarrow> string \<times> string list" where
  "classifyRoutingTool ge global toolID nm inputSchema outputSchema annotations =
     classifyGovernanceTool (ge_unmarshal ge) global toolID nm (ge_marshal ge inputSchema) (ge_marshal ge outputSchema) (objectMembers annotations)"

text \<open>
  The joins of the query for the tools of an accepted contract: the row of \<open>mcp_tools\<close>, and the row that the latest
  contract of the server has for the tool.
\<close>

definition findTool :: "governance_db \<Rightarrow> string \<Rightarrow> tool_row option" where
  "findTool d i = find (\<lambda>t. TL_ID t = i) (GD_Tools d)"

definition findState :: "governance_db \<Rightarrow> string \<Rightarrow> contract_state_row option" where
  "findState d s = find (\<lambda>c. CS_ServerID c = s) (GD_ContractStates d)"

definition latestTool :: "governance_db \<Rightarrow> string \<Rightarrow> string \<Rightarrow> contract_tool_row option" where
  "latestTool d serverID toolID =
     (case findState d serverID of
        None \<Rightarrow> None
      | Some cs \<Rightarrow> (case CS_Latest cs of
          None \<Rightarrow> None
        | Some l \<Rightarrow> find (\<lambda>ct. CT_ContractRevisionID ct = l \<and> CT_ToolID ct = toolID) (GD_ContractTools d)))"

definition contractTools :: "governance_db \<Rightarrow> string \<Rightarrow> (contract_tool_row \<times> tool_row) list" where
  "contractTools d c =
     List.map_filter (\<lambda>ct. map_option (Pair ct) (findTool d (CT_ToolID ct)))
       (sort_key CT_Position (filter (\<lambda>ct. CT_ContractRevisionID ct = c) (GD_ContractTools d)))"

definition renderTool ::
    "governance_env \<Rightarrow> GlobalPolicyRevision \<Rightarrow> contract_tool_row option \<Rightarrow> contract_tool_row \<times> tool_row \<Rightarrow> store_error + RoutingToolDTO" where
  "renderTool ge global latest = (\<lambda>(ct, t).
     if \<not> isObject (CT_InputSchema ct) then Inl (StoreErr (errorsNew ''contract input schema is not an object''))
     else if CT_OutputSchema ct \<noteq> JNull \<and> \<not> isObject (CT_OutputSchema ct) then Inl (StoreErr (errorsNew ''contract output schema is not an object''))
     else if \<not> isObject (CT_Annotations ct) then Inl (StoreErr (errorsNew ''contract annotations are not an object''))
     else let (decision, reasons) = classifyRoutingTool ge global (TL_ID t) (TL_Name t) (CT_InputSchema ct) (CT_OutputSchema ct) (CT_Annotations ct);
              tool = \<lparr>RT_ToolID = TL_ID t, RT_Name = TL_Name t, RT_InputSchema = CT_InputSchema ct, RT_OutputSchema = CT_OutputSchema ct,
                RT_Annotations = CT_Annotations ct, RT_GlobalDecision = decision, RT_ReasonCodes = reasons, RT_Paused = (latest = None)\<rparr>
          in case latest of
               None \<Rightarrow> Inr tool
             | Some l \<Rightarrow>
                 if \<not> isObject (CT_InputSchema l) then Inl (StoreErr (errorsNew ''latest contract input schema is not an object''))
                 else if CT_OutputSchema l \<noteq> JNull \<and> \<not> isObject (CT_OutputSchema l) then
                   Inl (StoreErr (errorsNew ''latest contract output schema is not an object''))
                 else if \<not> isObject (CT_Annotations l) then Inl (StoreErr (errorsNew ''latest contract annotations are not an object''))
                 else Inr (tool\<lparr>RT_Paused := \<not> equalJSONMap ge (CT_InputSchema ct) (CT_InputSchema l)
                   \<or> \<not> equalJSONMap ge (CT_OutputSchema ct) (CT_OutputSchema l) \<or> \<not> equalJSONMap ge (CT_Annotations ct) (CT_Annotations l)\<rparr>))"

definition renderServer :: "governance_env \<Rightarrow> governance_db \<Rightarrow> GlobalPolicyRevision \<Rightarrow> relay_pin \<times> string \<Rightarrow> store_error + ServerContractDTO" where
  "renderServer ge d global = (\<lambda>(pin, nm).
     let accepted = (case findState d (RP_ServerID pin) of None \<Rightarrow> None | Some cs \<Rightarrow> CS_Accepted cs);
         server = \<lparr>SC_ServerID = RP_ServerID pin, SC_ServerName = nm, SC_MCPConfigRevisionID = RP_MCPRevisionID pin,
           SC_AcceptedContractRevisionID = accepted,
           SC_AcceptedContractHash = (case accepted of None \<Rightarrow> None | Some c \<Rightarrow> map_option CV_CanonicalHash (findContract d c)), SC_Tools = []\<rparr>
     in case accepted of
          None \<Rightarrow> Inr server
        | Some c \<Rightarrow> (case mapE (\<lambda>(ct, t). renderTool ge global (latestTool d (TL_ServerID t) (CT_ToolID ct)) (ct, t)) (contractTools d c) of
            Inl e \<Rightarrow> Inl e | Inr tools \<Rightarrow> Inr (server\<lparr>SC_Tools := tools\<rparr>)))"

text \<open>The servers of a relay configuration revision with their names, by position.\<close>

definition relayServers :: "governance_db \<Rightarrow> string \<Rightarrow> (relay_pin \<times> string) list" where
  "relayServers d relayID =
     List.map_filter (\<lambda>pin. map_option (Pair pin) (map_option SV_Name (findServer d (RP_ServerID pin))))
       (sort_key RP_Position (filter (\<lambda>pin. RP_RelayRevisionID pin = relayID) (GD_RelayPins d)))"

section \<open>Profiles in the bundle\<close>

definition ruleRows :: "governance_db \<Rightarrow> string \<Rightarrow> string \<Rightarrow> profile_rule_row list" where
  "ruleRows d profileRevisionID serverID =
     sort_key PT_ToolID (filter (\<lambda>r. PT_ProfileRevisionID r = profileRevisionID
        \<and> (case findTool d (PT_ToolID r) of None \<Rightarrow> False | Some t \<Rightarrow> TL_ServerID t = serverID)) (GD_ProfileRules d))"

definition renamedTool :: "governance_db \<Rightarrow> contract_tool_row \<Rightarrow> bool" where
  "renamedTool d ct = list_ex (\<lambda>r. RN_NewToolID r = CT_ToolID ct \<and> RN_AddedContract r = CT_ContractRevisionID ct) (GD_Renames d)"

definition hasRule :: "governance_db \<Rightarrow> string \<Rightarrow> string \<Rightarrow> bool" where
  "hasRule d profileRevisionID toolID = list_ex (\<lambda>r. PT_ProfileRevisionID r = profileRevisionID \<and> PT_ToolID r = toolID) (GD_ProfileRules d)"

definition governanceRows :: "governance_db \<Rightarrow> string \<Rightarrow> profile_governance_row list" where
  "governanceRows d profileRevisionID = filter (\<lambda>g. PG_ProfileRevisionID g = profileRevisionID) (GD_ProfileGovernance d)"

definition hiddenTools :: "governance_db \<Rightarrow> string \<Rightarrow> string \<Rightarrow> string list" where
  "hiddenTools d profileRevisionID serverID =
     sort (concat (map (\<lambda>g. map CT_ToolID (filter (\<lambda>ct. PG_AcceptedContract g = Some (CT_ContractRevisionID ct) \<and> CT_Status ct = ''new_hidden''
          \<and> \<not> renamedTool d ct \<and> \<not> hasRule d profileRevisionID (CT_ToolID ct)) (GD_ContractTools d)))
       (filter (\<lambda>g. PG_ServerID g = serverID \<and> PG_VisibilityMode g = ''all_accepted'') (governanceRows d profileRevisionID))))"

definition routingProfileRules :: "governance_db \<Rightarrow> string \<Rightarrow> string \<Rightarrow> ToolVisibilityOverrideDTO list \<times> ToolPolicyRuleDTO list" where
  "routingProfileRules d profileRevisionID serverID =
     (map (\<lambda>r. \<lparr>VO_ToolID = PT_ToolID r, VO_Visible = PT_Visible r\<rparr>) (ruleRows d profileRevisionID serverID)
        @ map (\<lambda>i. \<lparr>VO_ToolID = i, VO_Visible = False\<rparr>) (hiddenTools d profileRevisionID serverID),
      map (\<lambda>r. \<lparr>PR_ToolID = PT_ToolID r, PR_Decision = PT_Decision r\<rparr>) (ruleRows d profileRevisionID serverID))"

definition renderProfileServer ::
    "governance_db \<Rightarrow> ServerContractDTO list \<Rightarrow> string \<Rightarrow> profile_governance_row \<Rightarrow> store_error + ProfileServerRoutingDTO" where
  "renderProfileServer d servers profileRevisionID g =
     (case findRoutingServer servers (PG_ServerID g) of
        None \<Rightarrow> Inl Conflict
      | Some server \<Rightarrow>
          if SC_MCPConfigRevisionID server \<noteq> PG_MCPRevisionID g \<or> \<not> sameOptional (SC_AcceptedContractRevisionID server) (PG_AcceptedContract g) then Inl Conflict
          else let (overrides, rules) = routingProfileRules d profileRevisionID (SC_ServerID server)
               in Inr \<lparr>PS_ServerID = PG_ServerID g, PS_MCPConfigRevisionID = PG_MCPRevisionID g, PS_AcceptedContractRevisionID = PG_AcceptedContract g,
                    PS_VisibilityMode = PG_VisibilityMode g, PS_ToolOverrides = overrides, PS_ToolRules = rules\<rparr>)"

definition renderProfile :: "governance_db \<Rightarrow> ServerContractDTO list \<Rightarrow> string \<times> string \<Rightarrow> store_error + PublishedProfileDTO" where
  "renderProfile d servers = (\<lambda>(profileID, revisionID).
     case find (\<lambda>r. PV_ID r = revisionID) (GD_ProfileRevisions d) of
       None \<Rightarrow> Inl NotFound
     | Some r \<Rightarrow> (case findProfile d (PV_ProfileID r) of
         None \<Rightarrow> Inl NotFound
       | Some p \<Rightarrow>
           if PV_ProfileID r \<noteq> profileID \<or> PF_Archived p \<or> (PV_ClientKind r \<noteq> RuntimeClaude \<and> PV_ClientKind r \<noteq> RuntimeCodex) then Inl Conflict
           else (case mapE (renderProfileServer d servers revisionID) (sort_key PG_ServerID (governanceRows d revisionID)) of
             Inl e \<Rightarrow> Inl e
           | Inr pss \<Rightarrow> Inr \<lparr>PP_ProfileID = profileID, PP_ProfileRevisionID = revisionID, PP_ProfileRevisionHash = PV_CanonicalHash r,
               PP_ProfileName = PV_Name r, PP_ClientKind = PV_ClientKind r, PP_Servers = pss\<rparr>)))"

text \<open>The published revisions with the candidate's on top; an empty revision removes the profile.\<close>

definition putRevision :: "string \<Rightarrow> string \<Rightarrow> (string \<times> string) list \<Rightarrow> (string \<times> string) list" where
  "putRevision k v m = filter (\<lambda>(l, _). l \<noteq> k) m @ (if TrimSpace v = '''' then [] else [(k, v)])"

definition publishedRevisions :: "(string \<Rightarrow> bool) \<Rightarrow> governance_db \<Rightarrow> RoutingBundleCandidate \<Rightarrow> store_error + (string \<times> string) list" where
  "publishedRevisions uv d candidate =
     (let published = (if RC_ReplacePublishedProfiles candidate then []
            else filter (\<lambda>(p, _). map_option PF_Archived (findProfile d p) = Some False) (GD_Published d))
      in if \<not> list_all (\<lambda>(p, _). uv p) (RC_PublishedProfileRevisions candidate) then Inl NotFound
         else Inr (foldl (\<lambda>m (p, r). putRevision p r m) published (RC_PublishedProfileRevisions candidate)))"

definition renderCandidateRoutingBundle ::
    "governance_env \<Rightarrow> governance_db \<Rightarrow> RoutingBundleCandidate \<Rightarrow> bool \<Rightarrow> store_error + (RoutingBundle \<times> string)" where
  "renderCandidateRoutingBundle ge d candidate includeProfiles =
     (let relayID = (if RC_RelayConfigurationRevisionID candidate \<noteq> '''' then RC_RelayConfigurationRevisionID candidate else GD_AppliedRelay d);
          globalID = (if RC_GlobalPolicyRevisionID candidate \<noteq> '''' then RC_GlobalPolicyRevisionID candidate else GD_AppliedPolicy d);
          mode = (if RC_Mode candidate \<noteq> '''' then RC_Mode candidate else GD_Mode d);
          chosen = (case RC_DefaultProfileID candidate of Some p \<Rightarrow> TrimSpace p | None \<Rightarrow> (case GD_DefaultProfile d of None \<Rightarrow> '''' | Some p \<Rightarrow> p));
          defaultProfile = (if includeProfiles then chosen else '''')
      in if findRelay d (GD_AppliedRelay d) = None \<or> findPolicy d (GD_AppliedPolicy d) = None then Inl noRows
         else (case (findRelay d relayID, findPolicy d globalID) of
           (Some relay, Some global) \<Rightarrow>
             (case mapE (renderServer ge d global) (relayServers d relayID) of
               Inl e \<Rightarrow> Inl e
             | Inr servers \<Rightarrow>
             (case (if includeProfiles then
                      (case publishedRevisions (ge_uuid ge) d candidate of
                         Inl e \<Rightarrow> Inl e
                       | Inr revisions \<Rightarrow> mapE (renderProfile d servers) (sort_key fst revisions))
                    else Inr []) of
               Inl e \<Rightarrow> Inl e
             | Inr profiles \<Rightarrow>
                 (let bundle = \<lparr>RB_SchemaVersion = 1, RB_Mode = mode, RB_RelayConfigurationRevisionID = relayID,
                        RB_RelayConfigurationHash = RV_CanonicalHash relay, RB_GlobalPolicyRevisionID = globalID,
                        RB_GlobalPolicyHash = GP_CanonicalHash global,
                        RB_DefaultProfileID = (if defaultProfile = '''' then None else Some defaultProfile),
                        RB_Servers = servers, RB_Profiles = profiles\<rparr>
                  in case ge_canonical ge bundle of
                       Inl e \<Rightarrow> Inl e
                     | Inr body \<Rightarrow> Inr (bundle, hexEncode (ge_sha ge body)))))
         | _ \<Rightarrow> Inl NotFound))"

definition RenderRoutingBundle :: "governance_env \<Rightarrow> governance_db \<Rightarrow> store_error + (RoutingBundle \<times> string)" where
  "RenderRoutingBundle ge d = renderCandidateRoutingBundle ge d noCandidate True"

definition RenderRelayConfigurationBundle :: "governance_env \<Rightarrow> governance_db \<Rightarrow> RoutingBundleCandidate \<Rightarrow> store_error + (RoutingBundle \<times> string)" where
  "RenderRelayConfigurationBundle ge d candidate = renderCandidateRoutingBundle ge d candidate False"

section \<open>The number of tools a profile shows\<close>

text \<open>\<open>json.Unmarshal\<close> into a map: an object or null.\<close>

definition decodesToMap :: "json \<Rightarrow> bool" where
  "decodesToMap v = (isObject v \<or> v = JNull)"

definition routingToolPaused :: "governance_env \<Rightarrow> contract_tool_row \<Rightarrow> contract_tool_row option \<Rightarrow> bool" where
  "routingToolPaused ge ct latest =
     (case latest of
        None \<Rightarrow> True
      | Some l \<Rightarrow> \<not> decodesToMap (CT_InputSchema l) \<or> \<not> decodesToMap (CT_OutputSchema l) \<or> \<not> decodesToMap (CT_Annotations l)
          \<or> \<not> equalJSONMap ge (CT_InputSchema ct) (CT_InputSchema l) \<or> \<not> equalJSONMap ge (CT_OutputSchema ct) (CT_OutputSchema l)
          \<or> \<not> equalJSONMap ge (CT_Annotations ct) (CT_Annotations l))"

definition findRule :: "governance_db \<Rightarrow> string \<Rightarrow> string \<Rightarrow> profile_rule_row option" where
  "findRule d profileRevisionID toolID = find (\<lambda>r. PT_ProfileRevisionID r = profileRevisionID \<and> PT_ToolID r = toolID) (GD_ProfileRules d)"

text \<open>Whether one row of the query counts; an error when a column of the accepted contract is not an object.\<close>

definition countsTool ::
    "governance_env \<Rightarrow> governance_db \<Rightarrow> GlobalPolicyRevision \<Rightarrow> profile_governance_row \<Rightarrow> contract_tool_row \<times> tool_row \<Rightarrow> store_error + bool" where
  "countsTool ge d global g = (\<lambda>(ct, t).
     if \<not> decodesToMap (CT_InputSchema ct) \<or> \<not> decodesToMap (CT_OutputSchema ct) \<or> \<not> decodesToMap (CT_Annotations ct) then
       Inl (StoreErr (errorsNew ''json: cannot unmarshal into map''))
     else let rule = findRule d (PG_ProfileRevisionID g) (CT_ToolID ct);
              visible = (case rule of
                  Some r \<Rightarrow> PT_Visible r
                | None \<Rightarrow> PG_VisibilityMode g = ''all_accepted'' \<and> \<not> (CT_Status ct = ''new_hidden'' \<and> \<not> renamedTool d ct));
              globalDecision = fst (classifyRoutingTool ge global (TL_ID t) (TL_Name t) (CT_InputSchema ct) (CT_OutputSchema ct) (CT_Annotations ct));
              effective = (case rule of None \<Rightarrow> globalDecision | Some r \<Rightarrow> EffectiveDecision globalDecision (PT_Decision r))
          in Inr (visible \<and> \<not> routingToolPaused ge ct (latestTool d (PG_ServerID g) (CT_ToolID ct)) \<and> effective \<noteq> DecisionDeny))"

definition ProfileEffectiveVisibleCount :: "governance_env \<Rightarrow> governance_db \<Rightarrow> string \<Rightarrow> store_error + nat" where
  "ProfileEffectiveVisibleCount ge d revisionID =
     (case AppliedGlobalPolicy d of
        Inl e \<Rightarrow> Inl e
      | Inr global \<Rightarrow>
          (case mapE (\<lambda>(g, row). countsTool ge d global g row)
              (concat (map (\<lambda>g. case PG_AcceptedContract g of None \<Rightarrow> [] | Some c \<Rightarrow> map (Pair g) (contractTools d c))
                 (sort_key PG_ServerID (governanceRows d revisionID)))) of
             Inl e \<Rightarrow> Inl e
           | Inr counted \<Rightarrow> Inr (length (filter id counted))))"

section \<open>The ceiling of the policy\<close>

record ProfileToolRule =
  PTR_ToolID :: string
  PTR_Visible :: bool
  PTR_Decision :: string
  PTR_ReasonCodes :: "string list"

definition acceptedRoutingTool :: "governance_db \<Rightarrow> string \<Rightarrow> store_error + (contract_tool_row \<times> tool_row)" where
  "acceptedRoutingTool d toolID =
     (case findTool d toolID of
        None \<Rightarrow> Inl NotFound
      | Some t \<Rightarrow>
     (case findState d (TL_ServerID t) of
        None \<Rightarrow> Inl NotFound
      | Some cs \<Rightarrow>
     (case find (\<lambda>ct. CS_Accepted cs = Some (CT_ContractRevisionID ct) \<and> CT_ToolID ct = toolID) (GD_ContractTools d) of
        None \<Rightarrow> Inl NotFound
      | Some ct \<Rightarrow>
          if \<not> decodesToMap (CT_InputSchema ct) \<or> \<not> decodesToMap (CT_OutputSchema ct) \<or> \<not> decodesToMap (CT_Annotations ct) then
            Inl (StoreErr (errorsNew ''json: cannot unmarshal into map''))
          else Inr (ct, t))))"

fun checkCeiling :: "governance_env \<Rightarrow> governance_db \<Rightarrow> GlobalPolicyRevision \<Rightarrow> ProfileToolRule list \<Rightarrow> string list \<Rightarrow> store_error option" where
  "checkCeiling ge d global [] seen = None"
| "checkCeiling ge d global (rule # rules) seen =
     (if \<not> ge_uuid ge (PTR_ToolID rule) \<or> \<not> validDecision (PTR_Decision rule) \<or> length (PTR_ReasonCodes rule) > 16 then
        Some (StoreErr (errorsNew ''invalid profile tool rule''))
      else if \<not> list_all ValidateReasonCode (PTR_ReasonCodes rule) then Some (StoreErr (errorsNew ''invalid profile tool rule reason''))
      else if PTR_ToolID rule \<in> set seen then Some (StoreErr (errorsNew ''duplicate profile tool rule''))
      else case acceptedRoutingTool d (PTR_ToolID rule) of
        Inl e \<Rightarrow> Some e
      | Inr (ct, t) \<Rightarrow>
          let globalDecision = fst (classifyRoutingTool ge global (TL_ID t) (TL_Name t) (CT_InputSchema ct) (CT_OutputSchema ct) (CT_Annotations ct))
          in if EffectiveDecision globalDecision (PTR_Decision rule) \<noteq> PTR_Decision rule then Some Conflict
             else checkCeiling ge d global rules (PTR_ToolID rule # seen))"

definition validateProfileToolCeiling :: "governance_env \<Rightarrow> governance_db \<Rightarrow> ProfileToolRule list \<Rightarrow> store_error option" where
  "validateProfileToolCeiling ge d rules =
     (if rules = [] then None
      else case findPolicy d (GD_AppliedPolicy d) of
        None \<Rightarrow> Some noRows
      | Some global \<Rightarrow> checkCeiling ge d global rules [])"

end
