(* ===== verification/Skill_Package.thy ===== *)
theory Skill_Package
  imports Protocol_Types
begin

text \<open>
  Skill packages (\<open>src/internal/skills/package.go\<close>): the scan of an uploaded archive or of a directory,
  the normalisation of the package root, the security report, the content hash and the slug.

  What lies outside the repository or is a file format is a parameter: \<open>openZip\<close> (the entries
  \<open>zip.NewReader\<close> lists, each with what reading it returns), \<open>writeZip\<close> (the bytes \<open>zip.Writer\<close> makes of
  a list of files), \<open>yaml\<close> (\<open>yaml.Unmarshal\<close> of the frontmatter), \<open>urlsOf\<close> (the absolute URLs
  that the URL pattern and \<open>url.Parse\<close> find in a file) and \<open>sha\<close> (SHA-256). A file mode is Go's
  \<open>fs.FileMode\<close> as a number; a directory walk is the list of the items \<open>filepath.WalkDir\<close> visits.
\<close>

section \<open>Paths\<close>

definition path_Base :: "string \<Rightarrow> string" where
  "path_Base p =
     (if p = '''' then ''.''
      else let q = rev (dropWhile (\<lambda>c. c = CHR ''/'') (rev p))
           in if q = '''' then ''/'' else last (splitOn CHR ''/'' q))"

definition path_Dir :: "string \<Rightarrow> string" where
  "path_Dir p = path_Clean (rev (dropWhile (\<lambda>c. c \<noteq> CHR ''/'') (rev p)))"

definition path_Ext :: "string \<Rightarrow> string" where
  "path_Ext p =
     (let b = last (splitOn CHR ''/'' p); e = takeWhile (\<lambda>c. c \<noteq> CHR ''.'') (rev b)
      in if length e = length b then '''' else CHR ''.'' # rev e)"

section \<open>Data\<close>

record Limits =
  MaxArchiveBytes :: int
  MaxUncompressedBytes :: int
  MaxFileBytes :: int
  MaxFiles :: int

definition DefaultLimits :: Limits where
  "DefaultLimits = \<lparr>MaxArchiveBytes = 20 * 2 ^ 20, MaxUncompressedBytes = 50 * 2 ^ 20,
     MaxFileBytes = 10 * 2 ^ 20, MaxFiles = 2000\<rparr>"

record Finding =
  FD_Code :: string
  FD_Severity :: string
  FD_Path :: string

record ScanReport =
  RiskLevel :: string
  Findings :: "Finding list"
  FileCount :: int
  SizeBytes :: int
  Scripts :: "string list"
  Executables :: "string list"
  ExternalURLs :: "string list"
  AllowedTools :: "string list"
  License :: string

record Package =
  PK_Slug :: string
  PK_Name :: string
  PK_Description :: string
  PK_Manifest :: "(string \<times> json) list"
  PK_SHA256 :: string
  PK_ContentHash :: string
  PK_CanonicalZIP :: string
  PK_Report :: ScanReport

record pkg_entry =
  en_name :: string
  en_mode :: int
  en_data :: string

record zip_file =
  zf_name :: string
  zf_isDir :: bool
  zf_mode :: int
  zf_size :: int
  zf_open :: "go_error + string"

definition modeSymlink :: "int \<Rightarrow> bool" where
  "modeSymlink mode = odd (mode div 2 ^ 27)"

definition Perm :: "int \<Rightarrow> int" where
  "Perm mode = mode mod 512"

definition executable :: "int \<Rightarrow> bool" where
  "executable mode = (odd (mode div 64) \<or> odd (mode div 8) \<or> odd mode)"

section \<open>Archive paths\<close>

definition safeArchivePath :: "string \<Rightarrow> go_error + string" where
  "safeArchivePath name =
     (if name = '''' \<or> Contains name [CHR 0x5C] \<or> CHR 0x00 \<in> set name \<or> path_IsAbs name then
        Inl (errorf ''unsafe archive path %q'' [name])
      else let clean = path_Clean name
           in if clean = ''.'' \<or> clean = ''..'' \<or> HasPrefix clean ''../'' \<or> clean \<noteq> name then
                Inl (errorf ''unsafe archive path %q'' [name])
              else Inr clean)"

definition readZipFile :: "zip_file \<Rightarrow> int \<Rightarrow> go_error + string" where
  "readZipFile file limit =
     (case zf_open file of
        Inl e \<Rightarrow> Inl e
      | Inr body \<Rightarrow> if int (length body) > limit then Inl (errorsNew ''file exceeds size limit'') else Inr body)"

section \<open>The package root\<close>

definition normalizeRoot :: "pkg_entry list \<Rightarrow> go_error + pkg_entry list" where
  "normalizeRoot entries =
     (let skillPaths = filter (\<lambda>n. path_Base n = ''SKILL.md'') (map en_name entries)
      in if length skillPaths \<noteq> 1 then
           Inl (errorf ''package must contain exactly one SKILL.md, found %d'' [FormatInt (int (length skillPaths))])
         else let root = path_Dir (hd skillPaths)
           in if root = ''.'' then Inr entries
              else let pre = root @ ''/''
                in if list_ex (\<lambda>item. \<not> HasPrefix (en_name item) pre) entries then
                     Inl (errorsNew ''files outside the SKILL.md package root are not allowed'')
                   else Inr (map (\<lambda>item. item\<lparr>en_name := drop (length pre) (en_name item)\<rparr>) entries))"

section \<open>Frontmatter, report and slug\<close>

fun replaceCRLF :: "string \<Rightarrow> string" where
  "replaceCRLF (a # b # s) =
     (if a = CHR 0x0D \<and> b = CHR 0x0A then CHR 0x0A # replaceCRLF s else a # replaceCRLF (b # s))"
| "replaceCRLF s = s"

text \<open>\<open>strings.Index\<close>: the first position at which the needle occurs.\<close>

fun strIndex :: "string \<Rightarrow> string \<Rightarrow> nat option" where
  "strIndex [] needle = (if needle = [] then Some 0 else None)"
| "strIndex (c # s) needle =
     (if prefix needle (c # s) then Some 0 else map_option Suc (strIndex s needle))"

definition parseFrontmatter ::
    "(string \<Rightarrow> go_error + (string \<times> json) list) \<Rightarrow> string \<Rightarrow> go_error + (string \<times> json) list" where
  "parseFrontmatter yaml body =
     (let text = replaceCRLF body; nl = [CHR 0x0A]
      in if \<not> HasPrefix text (''---'' @ nl) then
           Inl (errorsNew ''SKILL.md must start with YAML frontmatter'')
         else case strIndex (drop 4 text) (nl @ ''---'' @ nl) of
           None \<Rightarrow> Inl (errorsNew ''SKILL.md frontmatter is not terminated'')
         | Some n \<Rightarrow> (case yaml (take n (drop 4 text)) of
             Inl e \<Rightarrow> Inl (Wrapped ''parse SKILL.md frontmatter: %w'' e)
           | Inr manifest \<Rightarrow> Inr manifest))"

definition stringField :: "(string \<times> json) list \<Rightarrow> string \<Rightarrow> string" where
  "stringField m key = (case map_of m key of Some (JStr s) \<Rightarrow> s | _ \<Rightarrow> '''')"

text \<open>\<open>strings.FieldsFunc\<close>: the maximal runs of characters that are not separators.\<close>

fun fieldsBy :: "(char \<Rightarrow> bool) \<Rightarrow> string \<Rightarrow> string \<Rightarrow> string list" where
  "fieldsBy sep acc [] = (if acc = [] then [] else [rev acc])"
| "fieldsBy sep acc (c # s) =
     (if sep c then (if acc = [] then fieldsBy sep [] s else rev acc # fieldsBy sep [] s)
      else fieldsBy sep (c # acc) s)"

definition stringList :: "json option \<Rightarrow> string list" where
  "stringList value = (case value of
       Some (JStr typed) \<Rightarrow> fieldsBy (\<lambda>c. c \<in> {CHR '','', CHR '' '', CHR 0x0A}) [] typed
     | Some (JArr typed) \<Rightarrow> List.map_filter (\<lambda>item. case item of
           JStr text \<Rightarrow> if TrimSpace text \<noteq> '''' then Some (TrimSpace text) else None | _ \<Rightarrow> None) typed
     | _ \<Rightarrow> [])"

definition hasSeverity :: "Finding list \<Rightarrow> string \<Rightarrow> bool" where
  "hasSeverity findings severity = list_ex (\<lambda>f. FD_Severity f = severity) findings"

definition scriptExtensions :: "string list" where
  "scriptExtensions = [''.sh'', ''.bash'', ''.zsh'', ''.fish'', ''.ps1'', ''.bat'', ''.cmd'', ''.py'', ''.js'', ''.ts'']"

text \<open>
  \<open>secretPattern\<close>, a keyword, a separator and at least twelve characters of a credential. Case folding
  also identifies U+212A with k and U+017F with s; \<open>foldCase\<close> replaces them first. Every part of the
  pattern starts with characters the part before it cannot match, so the match is deterministic.
\<close>

fun foldCase :: "string \<Rightarrow> string" where
  "foldCase [] = []"
| "foldCase (c # s) =
     (if prefix [CHR 0xE2, CHR 0x84, CHR 0xAA] (c # s) then CHR ''k'' # foldCase (drop 2 s)
      else if prefix [CHR 0xC5, CHR 0xBF] (c # s) then CHR ''s'' # foldCase (drop 1 s)
      else lowerByte c # foldCase s)"

definition secretWords :: "string list" where
  "secretWords = [''api_key'', ''api-key'', ''apikey'', ''secret'', ''password'', ''token'',
     ''private_key'', ''private-key'', ''privatekey'']"

definition reSpace :: "char \<Rightarrow> bool" where
  "reSpace c = (c \<in> {CHR 0x09, CHR 0x0A, CHR 0x0C, CHR 0x0D, CHR 0x20})"

definition credentialChar :: "char \<Rightarrow> bool" where
  "credentialChar c = (isLower c \<or> isDigit c \<or> c \<in> {CHR ''_'', CHR ''.'', CHR ''/'', CHR ''+'', CHR ''='', CHR ''-''})"

definition secretTail :: "string \<Rightarrow> bool" where
  "secretTail s =
     (case dropWhile reSpace s of
        [] \<Rightarrow> False
      | c # t \<Rightarrow> (c = CHR '':'' \<or> c = CHR ''='') \<and>
          (let u = dropWhile reSpace t;
               v = (case u of [] \<Rightarrow> [] | q # r \<Rightarrow> if q = CHR 0x22 \<or> q = CHR 0x27 then r else u)
           in 12 \<le> length (takeWhile credentialChar v)))"

fun secretAnywhere :: "string \<Rightarrow> bool" where
  "secretAnywhere [] = False"
| "secretAnywhere (c # s) =
     (list_ex (\<lambda>w. prefix w (c # s) \<and> secretTail (drop (length w) (c # s))) secretWords \<or> secretAnywhere s)"

definition secretPattern :: "string \<Rightarrow> bool" where
  "secretPattern data = secretAnywhere (foldCase data)"

text \<open>\<open>inspect\<close>: the findings, the lists of the report and the risk level.\<close>

definition licenseOf :: "pkg_entry list \<Rightarrow> (string \<times> json) list \<Rightarrow> string" where
  "licenseOf entries manifest =
     (if stringField manifest ''license'' \<noteq> '''' then stringField manifest ''license''
      else case find (\<lambda>item. HasPrefix (ToUpper (path_Base (en_name item))) ''LICENSE'') entries of
        Some item \<Rightarrow> ''file:'' @ en_name item
      | None \<Rightarrow> '''')"

definition inspect :: "(string \<Rightarrow> string list) \<Rightarrow> pkg_entry list \<Rightarrow> (string \<times> json) list \<Rightarrow> ScanReport" where
  "inspect urlsOf entries manifest =
     (let scripts = map en_name (filter (\<lambda>item. ToLower (path_Ext (en_name item)) \<in> set scriptExtensions) entries);
          execs = map en_name (filter (\<lambda>item. executable (en_mode item)) entries);
          urls = sort (remdups (concat (map (\<lambda>item. urlsOf (en_data item)) entries)));
          secrets = map (\<lambda>item. \<lparr>FD_Code = ''possible-secret'', FD_Severity = ''high'', FD_Path = en_name item\<rparr>)
            (filter (\<lambda>item. secretPattern (en_data item)) entries);
          tools = stringList (map_of manifest ''allowed-tools'');
          license = licenseOf entries manifest;
          findings = secrets @ (if license = '''' then
            [\<lparr>FD_Code = ''license-missing'', FD_Severity = ''medium'', FD_Path = ''''\<rparr>] else []);
          risk = (if execs \<noteq> [] \<or> hasSeverity findings ''high'' then ''high''
            else if scripts \<noteq> [] \<or> urls \<noteq> [] \<or> tools \<noteq> [] \<or> license = '''' then ''medium'' else ''low'')
      in \<lparr>RiskLevel = risk, Findings = findings, FileCount = int (length entries),
          SizeBytes = sum_list (map (\<lambda>item. int (length (en_data item))) entries),
          Scripts = scripts, Executables = execs, ExternalURLs = urls, AllowedTools = tools, License = license\<rparr>)"

text \<open>\<open>slugPattern.ReplaceAllString(..., "-")\<close>: every maximal run of other bytes becomes one dash.\<close>

definition slugByte :: "char \<Rightarrow> bool" where
  "slugByte c = (isLower c \<or> isDigit c)"

fun dashRuns :: "bool \<Rightarrow> string \<Rightarrow> string" where
  "dashRuns inRun [] = []"
| "dashRuns inRun (c # s) =
     (if slugByte c then c # dashRuns False s
      else if inRun then dashRuns True s else CHR ''-'' # dashRuns True s)"

definition trimDashes :: "string \<Rightarrow> string" where
  "trimDashes s = (let dash = (\<lambda>c. c = CHR ''-'') in rev (dropWhile dash (rev (dropWhile dash s))))"

definition slugify :: "string \<Rightarrow> string" where
  "slugify name =
     (let value = trimDashes (dashRuns False (ToLower (TrimSpace name)))
      in if value = [] then ''skill'' else value)"

section \<open>The canonical archive and the content hash\<close>

definition octal4 :: "int \<Rightarrow> string" where
  "octal4 n = map (\<lambda>d. char_of (48 + nat d)) [n div 512 mod 8, n div 64 mod 8, n div 8 mod 8, n mod 8]"

text \<open>What \<open>canonicalContentHash\<close> feeds to the hash for one file.\<close>

definition contentItem :: "pkg_entry \<Rightarrow> string" where
  "contentItem item = FormatInt (int (length (en_name item))) @ '':'' @ en_name item
     @ '':'' @ octal4 (Perm (en_mode item)) @ '':'' @ FormatInt (int (length (en_data item))) @ '':'' @ en_data item"

definition contentBytes :: "pkg_entry list \<Rightarrow> string" where
  "contentBytes entries = concat (map contentItem (sort_key en_name entries))"

definition canonicalContentHash :: "(string \<Rightarrow> string) \<Rightarrow> pkg_entry list \<Rightarrow> string" where
  "canonicalContentHash sha entries = hexEncode (sha (contentBytes entries))"

definition canonicalZIP :: "((string \<times> int \<times> string) list \<Rightarrow> go_error + string) \<Rightarrow> pkg_entry list \<Rightarrow> go_error + string" where
  "canonicalZIP writeZip entries =
     writeZip (map (\<lambda>item. (en_name item, Perm (en_mode item), en_data item)) (sort_key en_name entries))"

section \<open>Building and scanning a package\<close>

record package_env =
  pe_openZip :: "string \<Rightarrow> go_error + zip_file list"
  pe_writeZip :: "(string \<times> int \<times> string) list \<Rightarrow> go_error + string"
  pe_yaml :: "string \<Rightarrow> go_error + (string \<times> json) list"
  pe_urlsOf :: "string \<Rightarrow> string list"
  pe_sha :: "string \<Rightarrow> string"

definition buildPackage :: "package_env \<Rightarrow> pkg_entry list \<Rightarrow> go_error + Package" where
  "buildPackage pe entries0 =
     (case normalizeRoot entries0 of
        Inl e \<Rightarrow> Inl e
      | Inr entries \<Rightarrow>
          (let skillMD = (case find (\<lambda>item. en_name item = ''SKILL.md'') entries of Some item \<Rightarrow> en_data item | None \<Rightarrow> [])
           in case parseFrontmatter (pe_yaml pe) skillMD of
                Inl e \<Rightarrow> Inl e
              | Inr manifest \<Rightarrow>
                  (let name = TrimSpace (stringField manifest ''name'')
                   in if name = [] \<or> length name > 120 then
                        Inl (errorsNew ''SKILL.md frontmatter requires a name of at most 120 characters'')
                      else case canonicalZIP (pe_writeZip pe) entries of
                        Inl e \<Rightarrow> Inl e
                      | Inr canonical \<Rightarrow>
                          Inr \<lparr>PK_Slug = slugify name, PK_Name = name,
                            PK_Description = TrimSpace (stringField manifest ''description''), PK_Manifest = manifest,
                            PK_SHA256 = hexEncode (pe_sha pe canonical),
                            PK_ContentHash = canonicalContentHash (pe_sha pe) entries, PK_CanonicalZIP = canonical,
                            PK_Report = inspect (pe_urlsOf pe) entries manifest\<rparr>)))"

text \<open>The loop of \<open>ScanZIP\<close>, with the entries so far and their size.\<close>

fun zipLoop :: "Limits \<Rightarrow> zip_file list \<Rightarrow> pkg_entry list \<Rightarrow> int \<Rightarrow> go_error + pkg_entry list" where
  "zipLoop limits [] entries used = Inr entries"
| "zipLoop limits (file # files) entries used =
     (if zf_isDir file then zipLoop limits files entries used
      else case safeArchivePath (zf_name file) of
        Inl e \<Rightarrow> Inl e
      | Inr name \<Rightarrow>
          if name \<in> set (map en_name entries) then Inl (errorf ''duplicate archive path %q'' [name])
          else if modeSymlink (zf_mode file) then Inl (errorf ''symlink entries are not allowed: %s'' [name])
          else if int (length entries) + 1 > MaxFiles limits then Inl (errorsNew ''archive contains too many files'')
          else if zf_size file > MaxFileBytes limits then Inl (errorf ''file exceeds size limit: %s'' [name])
          else case readZipFile file (MaxFileBytes limits) of
            Inl e \<Rightarrow> Inl (Wrapped ''read %s: %w'' e)
          | Inr body \<Rightarrow>
              if used + int (length body) > MaxUncompressedBytes limits then
                Inl (errorsNew ''archive exceeds uncompressed size limit'')
              else zipLoop limits files
                (entries @ [\<lparr>en_name = name, en_mode = zf_mode file, en_data = body\<rparr>]) (used + int (length body)))"

definition ScanZIP :: "package_env \<Rightarrow> string \<Rightarrow> Limits \<Rightarrow> go_error + Package" where
  "ScanZIP pe data limits =
     (if int (length data) > MaxArchiveBytes limits then Inl (errorsNew ''archive exceeds compressed size limit'')
      else case pe_openZip pe data of
        Inl e \<Rightarrow> Inl (Wrapped ''open ZIP: %w'' e)
      | Inr files \<Rightarrow> (case zipLoop limits files [] 0 of Inl e \<Rightarrow> Inl e | Inr entries \<Rightarrow> buildPackage pe entries))"

text \<open>
  One item of the walk below the resolved root: its path relative to the root, what \<open>Info\<close> and
  \<open>os.ReadFile\<close> return. The items below a skipped \<open>__pycache__\<close> directory are those whose path lies under it.
\<close>

record walk_item =
  wi_rel :: string
  wi_name :: string
  wi_isDir :: bool
  wi_info :: "go_error + (int \<times> int)"
  wi_read :: "go_error + string"

fun walkLoop :: "Limits \<Rightarrow> walk_item list \<Rightarrow> string list \<Rightarrow> pkg_entry list \<Rightarrow> int \<Rightarrow> go_error + pkg_entry list" where
  "walkLoop limits [] skipped entries used = Inr entries"
| "walkLoop limits (item # items) skipped entries used =
     (if list_ex (\<lambda>d. HasPrefix (wi_rel item) (d @ ''/'')) skipped then walkLoop limits items skipped entries used
      else if wi_isDir item \<and> wi_name item = ''__pycache__'' then
        walkLoop limits items (wi_rel item # skipped) entries used
      else if \<not> wi_isDir item \<and> ToLower (path_Ext (wi_name item)) \<in> {''.pyc'', ''.pyo''} then
        walkLoop limits items skipped entries used
      else case wi_info item of
        Inl e \<Rightarrow> Inl e
      | Inr (mode, bytes) \<Rightarrow>
          if modeSymlink mode then Inl (errorf ''symlinks are not allowed: %s'' [wi_rel item])
          else if wi_isDir item then walkLoop limits items skipped entries used
          else if wi_name item = ''.toolhub-managed.json'' then walkLoop limits items skipped entries used
          else if int (length entries) + 1 > MaxFiles limits then
            Inl (errorf ''package contains more than %d files'' [FormatInt (MaxFiles limits)])
          else if bytes > MaxFileBytes limits then
            Inl (errorf ''file exceeds the %d MiB per-file limit: %s'' [FormatInt (MaxFileBytes limits div 2 ^ 20), wi_rel item])
          else case safeArchivePath (wi_rel item) of
            Inl e \<Rightarrow> Inl e
          | Inr name \<Rightarrow> (case wi_read item of
              Inl e \<Rightarrow> Inl e
            | Inr body \<Rightarrow>
                if used + int (length body) > MaxUncompressedBytes limits then
                  Inl (errorf ''package exceeds the %d MiB total size limit'' [FormatInt (MaxUncompressedBytes limits div 2 ^ 20)])
                else walkLoop limits items skipped
                  (entries @ [\<lparr>en_name = name, en_mode = mode, en_data = body\<rparr>]) (used + int (length body))))"

definition ScanDirectory :: "package_env \<Rightarrow> (go_error + walk_item list) \<Rightarrow> Limits \<Rightarrow> go_error + Package" where
  "ScanDirectory pe walk limits =
     (case walk of
        Inl e \<Rightarrow> Inl e
      | Inr items \<Rightarrow> (case walkLoop limits items [] [] 0 of Inl e \<Rightarrow> Inl e | Inr entries \<Rightarrow> buildPackage pe entries))"

section \<open>Accepted paths stay inside the package\<close>

text \<open>A relative path whose components are all ordinary names, without backslash or NUL.\<close>

definition safeRelative :: "string \<Rightarrow> bool" where
  "safeRelative n = (list_all plainPart (splitOn CHR ''/'' n) \<and> CHR 0x5C \<notin> set n \<and> CHR 0x00 \<notin> set n)"

lemma cleanStep_relative:
  assumes "out = replicate k ''..'' @ ps" and "list_all plainPart ps"
  shows "\<exists>k' ps'. cleanStep False out v = replicate k' ''..'' @ ps' \<and> list_all plainPart ps'"
proof (cases "plainPart v")
  case True
  then have "cleanStep False out v = replicate k ''..'' @ (ps @ [v])"
    using assms(1) by (simp add: cleanStep_def plainPart_def)
  with True assms(2) show ?thesis by (intro exI [of _ k] exI [of _ "ps @ [v]"]) simp
next
  case v: False
  show ?thesis
  proof (cases "v = ''..''")
    case False
    then have "cleanStep False out v = out" using v by (auto simp: cleanStep_def plainPart_def)
    with assms show ?thesis by blast
  next
    case True
    show ?thesis
    proof (cases "ps = []")
      case True
      then have "out = [] \<or> last out = ''..''" using assms(1) by (cases k) (simp_all add: replicate_append_same [symmetric] del: replicate.simps)
      then have "cleanStep False out v = replicate (Suc k) ''..'' @ []"
        using \<open>v = ''..''\<close> True assms(1) by (auto simp: cleanStep_def replicate_append_same)
      then show ?thesis by (intro exI [of _ "Suc k"] exI [of _ "[]"]) simp
    next
      case False
      then have "plainPart (last ps)" and "out \<noteq> []" and "last out = last ps"
        using assms by (simp_all add: list_all_iff)
      then have "cleanStep False out v = replicate k ''..'' @ butlast ps"
        using \<open>v = ''..''\<close> False assms(1) by (simp add: cleanStep_def plainPart_def butlast_append)
      moreover have "list_all plainPart (butlast ps)" using assms(2) by (auto simp: list_all_iff dest: in_set_butlastD)
      ultimately show ?thesis by blast
    qed
  qed
qed

lemma foldl_cleanStep_relative:
  "\<exists>k ps. out = replicate k ''..'' @ ps \<and> list_all plainPart ps \<Longrightarrow>
   \<exists>k ps. foldl (cleanStep False) out ws = replicate k ''..'' @ ps \<and> list_all plainPart ps"
proof (induction ws arbitrary: out)
  case Nil
  then show ?case by simp
next
  case (Cons v ws)
  then obtain k ps where "out = replicate k ''..'' @ ps" "list_all plainPart ps" by blast
  from Cons.IH [OF cleanStep_relative [OF this]] show ?case by simp
qed

lemma joinWith_head: "ws \<noteq> [] \<Longrightarrow> \<exists>rest. joinWith ''/'' ws = hd ws @ rest \<and> (rest = [] \<or> hd rest = CHR ''/'')"
  by (cases ws rule: remdups_adj.cases) auto

lemma safeArchivePath_safe:
  assumes "safeArchivePath name = Inr n"
  shows "n = name \<and> safeRelative n"
proof -
  define out where "out = foldl (cleanStep False) [] (splitOn CHR ''/'' name)"
  have c: "name \<noteq> []" "\<not> path_IsAbs name" "\<not> Contains name [CHR 0x5C]" "CHR 0x00 \<notin> set name"
      "path_Clean name = name" "n = name" "name \<noteq> ''.''" "name \<noteq> ''..''" "\<not> HasPrefix name ''../''"
    using assms by (auto simp: safeArchivePath_def Let_def split: if_splits)
  have out: "out \<noteq> []" and nm: "name = joinWith ''/'' out"
    using c by (auto simp: path_Clean_def out_def Let_def split: if_splits)
  obtain k ps where kps: "out = replicate k ''..'' @ ps" "list_all plainPart ps"
    using foldl_cleanStep_relative [of "[]" "splitOn CHR ''/'' name"] unfolding out_def by auto
  have "k = 0"
  proof (rule ccontr)
    assume "k \<noteq> 0"
    then obtain k' where "k = Suc k'" by (cases k) auto
    then have "hd out = ''..''" using kps by simp
    then obtain rest where "name = ''..'' @ rest" "rest = [] \<or> hd rest = CHR ''/''"
      using joinWith_head [OF out] nm by metis
    then show False using c(8,9) by (cases rest) (auto simp: HasPrefix_def)
  qed
  with kps have pl: "list_all plainPart out" by simp
  have "\<forall>w \<in> set out. CHR ''/'' \<notin> set w"
    using foldl_cleanStep_parts [of False "[]" "splitOn CHR ''/'' name"] splitOn_no_sep
    unfolding out_def by fastforce
  then have "splitOn CHR ''/'' name = out" using nm out splitOn_joinWith [of out "CHR ''/''"] by simp
  moreover have "CHR 0x5C \<notin> set name"
    using c(3) by (auto simp: Contains_def sublist_def in_set_conv_decomp)
  ultimately show ?thesis using pl c(4,6) by (simp add: safeRelative_def)
qed

lemma splitOn_append_sep: "splitOn d (a @ d # b) = splitOn d a @ splitOn d b"
  by (induction a) (auto split: list.splits)

lemma safeRelative_tail: "safeRelative (a @ CHR ''/'' # b) \<Longrightarrow> safeRelative b"
  by (simp add: safeRelative_def splitOn_append_sep)

section \<open>Base and directory of a safe path\<close>

lemma safe_parts:
  assumes "safeRelative n"
  obtains ws w where "n = joinWith ''/'' (ws @ [w])" and "splitOn CHR ''/'' n = ws @ [w]"
    and "list_all plainPart (ws @ [w])" and "\<forall>v \<in> set (ws @ [w]). CHR ''/'' \<notin> set v"
proof -
  have ne: "splitOn CHR ''/'' n \<noteq> []" by simp
  then obtain ws w where s: "splitOn CHR ''/'' n = ws @ [w]" by (metis append_butlast_last_id)
  moreover have "n = joinWith ''/'' (ws @ [w])" using joinWith_splitOn [of "CHR ''/''" n] s by simp
  ultimately show ?thesis
    using that assms splitOn_no_sep [of _ "CHR ''/''" n] by (simp add: safeRelative_def)
qed

lemma joinWith_snoc: "joinWith ''/'' (ws @ [w]) = (if ws = [] then w else joinWith ''/'' ws @ ''/'' @ w)"
proof (induction ws)
  case (Cons a ws)
  then show ?case by (cases ws) auto
qed simp

lemma dropWhile_last_part:
  assumes "CHR ''/'' \<notin> set w"
  shows "rev (dropWhile (\<lambda>c. c \<noteq> CHR ''/'') (rev w)) = []"
    and "rev (dropWhile (\<lambda>c. c \<noteq> CHR ''/'') (rev (p @ ''/'' @ w))) = p @ ''/''"
proof -
  have w: "\<forall>c \<in> set (rev w). c \<noteq> CHR ''/''" using assms by auto
  show "rev (dropWhile (\<lambda>c. c \<noteq> CHR ''/'') (rev w)) = []" using w by (simp add: dropWhile_eq_Nil_conv)
  show "rev (dropWhile (\<lambda>c. c \<noteq> CHR ''/'') (rev (p @ ''/'' @ w))) = p @ ''/''"
  proof -
    have "dropWhile (\<lambda>c. c \<noteq> CHR ''/'') (rev w @ (CHR ''/'' # rev p)) = dropWhile (\<lambda>c. c \<noteq> CHR ''/'') (CHR ''/'' # rev p)"
      using w by (intro dropWhile_append2) blast
    then show ?thesis by simp
  qed
qed

lemma safe_Dir:
  assumes "list_all plainPart (ws @ [w])" and "\<forall>v \<in> set (ws @ [w]). CHR ''/'' \<notin> set v"
  shows "path_Dir (joinWith ''/'' (ws @ [w])) = (if ws = [] then ''.'' else joinWith ''/'' ws)"
proof (cases "ws = []")
  case True
  have "CHR ''/'' \<notin> set w" using assms(2) by simp
  then have "rev (dropWhile (\<lambda>c. c \<noteq> CHR ''/'') (rev w)) = []" by (rule dropWhile_last_part(1))
  then have "path_Dir w = path_Clean []" unfolding path_Dir_def by (simp only:)
  also have "\<dots> = ''.''" by code_simp
  finally show ?thesis using True by simp
next
  case False
  have nz: "CHR ''/'' \<notin> set w" using assms(2) by simp
  have s: "splitOn CHR ''/'' (joinWith ''/'' ws @ ''/'') = ws @ [[]]"
    using splitOn_append_sep [of "CHR ''/''" "joinWith ''/'' ws" "[]"] splitOn_joinWith [OF False, of "CHR ''/''"] assms(2)
    by simp
  have f: "cleanStep r (foldl (cleanStep r) [] ws) [] = ws" for r
    using foldl_cleanStep_plain [of ws r "[]"] assms(1) by (simp add: cleanStep_def)
  have h: "hd ws \<noteq> []" using assms(1) False by (cases ws) (simp_all add: plainPart_def)
  obtain rest where rest: "joinWith ''/'' ws = hd ws @ rest" using joinWith_head [OF False] by blast
  have "\<not> path_IsAbs (joinWith ''/'' ws @ ''/'')"
  proof -
    obtain c u where cu: "hd ws = c # u" using h by (cases "hd ws") auto
    then have "c \<noteq> CHR ''/''" using assms(2) False by (cases ws) auto
    then show ?thesis using cu rest by (simp add: path_IsAbs_def HasPrefix_def)
  qed
  then show ?thesis
    using False dropWhile_last_part(2) [OF nz, of "joinWith ''/'' ws"]
    by (simp add: path_Dir_def joinWith_snoc path_Clean_def s f Let_def)
qed

lemma safe_Base:
  assumes "list_all plainPart (ws @ [w])" and "\<forall>v \<in> set (ws @ [w]). CHR ''/'' \<notin> set v"
  shows "path_Base (joinWith ''/'' (ws @ [w])) = w"
proof -
  have w: "w \<noteq> []" "last w \<noteq> CHR ''/''" using assms by (auto simp: plainPart_def dest: last_in_set)
  define n where "n = joinWith ''/'' (ws @ [w])"
  have "n \<noteq> []" and "last n = last w" using w by (simp_all add: n_def joinWith_snoc)
  then have "rev (dropWhile (\<lambda>c. c = CHR ''/'') (rev n)) = n"
    using w by (cases n rule: rev_cases) auto
  moreover have "splitOn CHR ''/'' n = ws @ [w]" unfolding n_def by (rule splitOn_joinWith) (use assms in auto)
  ultimately show ?thesis using \<open>n \<noteq> []\<close> by (simp add: path_Base_def n_def [symmetric])
qed

text \<open>The root chosen by \<open>normalizeRoot\<close>: with the SKILL.md at the top it is the dot.\<close>

lemma safe_skill_path:
  assumes "safeRelative n" and "path_Base n = ''SKILL.md''"
  shows "n = ''SKILL.md'' \<and> path_Dir n = ''.'' \<or> path_Dir n \<noteq> ''.'' \<and> n = path_Dir n @ ''/SKILL.md''"
proof -
  obtain ws w where p: "n = joinWith ''/'' (ws @ [w])" "list_all plainPart (ws @ [w])"
      "\<forall>v \<in> set (ws @ [w]). CHR ''/'' \<notin> set v"
    using safe_parts [OF assms(1)] by metis
  have w: "w = ''SKILL.md''" using safe_Base [OF p(2,3)] p(1) assms(2) by simp
  show ?thesis
  proof (cases "ws = []")
    case True
    then show ?thesis using p safe_Dir [OF p(2,3)] w by simp
  next
    case False
    have d: "path_Dir n = joinWith ''/'' ws" using safe_Dir [OF p(2,3)] False p(1) by simp
    have "joinWith ''/'' ws \<noteq> ''.''"
    proof
      assume dot: "joinWith ''/'' ws = ''.''"
      have "splitOn CHR ''/'' (joinWith ''/'' ws) = ws" by (rule splitOn_joinWith) (use False p(3) in auto)
      then have "ws = [''.'']" using dot by simp
      then show False using p(2) by (simp add: plainPart_def)
    qed
    then show ?thesis using d p(1) w False by (simp add: joinWith_snoc)
  qed
qed

section \<open>What a scan admits\<close>

definition withinLimits :: "Limits \<Rightarrow> pkg_entry list \<Rightarrow> bool" where
  "withinLimits limits entries =
     (int (length entries) \<le> MaxFiles limits
      \<and> list_all (\<lambda>item. int (length (en_data item)) \<le> MaxFileBytes limits) entries
      \<and> sum_list (map (\<lambda>item. int (length (en_data item))) entries) \<le> MaxUncompressedBytes limits)"

text \<open>What the loop of \<open>ScanZIP\<close> keeps of the entries it has collected.\<close>

definition admitted :: "Limits \<Rightarrow> pkg_entry list \<Rightarrow> bool" where
  "admitted limits entries = (withinLimits limits entries \<and> distinct (map en_name entries)
     \<and> list_all (\<lambda>item. safeRelative (en_name item) \<and> \<not> modeSymlink (en_mode item)) entries)"

lemma zipLoop_admitted:
  assumes "zipLoop limits files entries used = Inr result"
    and "admitted limits entries" and "used = sum_list (map (\<lambda>item. int (length (en_data item))) entries)"
  shows "admitted limits result"
  using assms
proof (induction limits files entries used rule: zipLoop.induct)
  case (2 limits f files entries used)
  show ?case
  proof (cases "zf_isDir f")
    case True
    with 2 show ?thesis by simp
  next
    case dir: False
    from dir 2(3) obtain name where n: "safeArchivePath (zf_name f) = Inr name" by (auto split: sum.splits)
    from dir n 2(3) obtain body where b: "readZipFile f (MaxFileBytes limits) = Inr body" by (auto split: sum.splits if_splits)
    let ?new = "entries @ [\<lparr>en_name = name, en_mode = zf_mode f, en_data = body\<rparr>]"
    from dir n b 2(3) have g: "name \<notin> set (map en_name entries)" "\<not> modeSymlink (zf_mode f)"
        "\<not> int (length entries) + 1 > MaxFiles limits" "\<not> zf_size f > MaxFileBytes limits"
        "\<not> used + int (length body) > MaxUncompressedBytes limits"
        and rec: "zipLoop limits files ?new (used + int (length body)) = Inr result"
      by (auto split: if_splits)
    have bl: "int (length body) \<le> MaxFileBytes limits"
      using b by (auto simp: readZipFile_def split: sum.splits if_splits)
    have "admitted limits ?new"
      using 2(4,5) g bl conjunct2 [OF safeArchivePath_safe [OF n]] by (simp add: admitted_def withinLimits_def)
    moreover have "used + int (length body) = sum_list (map (\<lambda>item. int (length (en_data item))) ?new)"
      using 2(5) by simp
    ultimately show ?thesis using 2(2) [OF dir n g(1-4) b g(5) rec] by blast
  qed
qed simp

lemma zipLoop_start:
  "0 \<le> MaxFiles limits \<Longrightarrow> 0 \<le> MaxUncompressedBytes limits \<Longrightarrow> zipLoop limits files [] 0 = Inr entries
    \<Longrightarrow> admitted limits entries"
  by (erule zipLoop_admitted) (simp_all add: admitted_def withinLimits_def)

text \<open>Moving the root keeps the files, their modes and contents, and puts \<open>SKILL.md\<close> at the top.\<close>

lemma normalizeRoot_admitted:
  assumes "normalizeRoot entries = Inr result" and "admitted limits entries"
  shows "admitted limits result \<and> ''SKILL.md'' \<in> set (map en_name result)
    \<and> map (\<lambda>item. (en_mode item, en_data item)) result = map (\<lambda>item. (en_mode item, en_data item)) entries"
proof -
  define sp where "sp = filter (\<lambda>n. path_Base n = ''SKILL.md'') (map en_name entries)"
  have one: "length sp = 1" using assms(1) by (auto simp: normalizeRoot_def Let_def sp_def split: if_splits)
  then obtain n where n: "sp = [n]" by (cases sp) auto
  then have nin: "n \<in> set (map en_name entries)" and base: "path_Base n = ''SKILL.md''"
  proof -
    have "n \<in> set sp" using n by simp
    then show "n \<in> set (map en_name entries)" and "path_Base n = ''SKILL.md''" unfolding sp_def by auto
  qed
  have safe: "safeRelative n" using assms(2) nin by (auto simp: admitted_def list_all_iff)
  have run: "normalizeRoot entries = (if path_Dir n = ''.'' then Inr entries
      else if list_ex (\<lambda>item. \<not> HasPrefix (en_name item) (path_Dir n @ ''/'')) entries then
        Inl (errorsNew ''files outside the SKILL.md package root are not allowed'')
      else Inr (map (\<lambda>item. item\<lparr>en_name := drop (length (path_Dir n @ ''/'')) (en_name item)\<rparr>) entries))"
    using n by (simp add: normalizeRoot_def Let_def sp_def [symmetric])
  show ?thesis
  proof (cases "path_Dir n = ''.''")
    case True
    then have "n = ''SKILL.md''" using safe_skill_path [OF safe base] by blast
    then show ?thesis using True run assms nin by simp
  next
    case False
    define pre where "pre = path_Dir n @ ''/''"
    have pre: "HasPrefix (en_name item) pre" if "item \<in> set entries" for item
      using assms(1) run False that by (auto simp: list_ex_iff pre_def split: if_splits)
    have res: "result = map (\<lambda>item. item\<lparr>en_name := drop (length pre) (en_name item)\<rparr>) entries"
      using assms(1) run False by (auto simp: pre_def split: if_splits)
    have cut: "en_name item = pre @ drop (length pre) (en_name item)" if "item \<in> set entries" for item
      using pre [OF that] by (auto simp: HasPrefix_def prefix_def)
    have names: "map en_name result = map (\<lambda>item. drop (length pre) (en_name item)) entries" by (simp add: res comp_def)
    have "inj_on (\<lambda>item. drop (length pre) (en_name item)) (set entries)"
    proof (rule inj_onI)
      fix x y assume xy: "x \<in> set entries" "y \<in> set entries" "drop (length pre) (en_name x) = drop (length pre) (en_name y)"
      then have "en_name x = en_name y" using cut by metis
      moreover have "inj_on en_name (set entries)" using assms(2) by (simp add: admitted_def distinct_map)
      ultimately show "x = y" using xy by (auto dest: inj_onD)
    qed
    then have d: "distinct (map en_name result)"
      using assms(2) unfolding names by (simp add: distinct_map admitted_def)
    have sf: "safeRelative (drop (length pre) (en_name item))" if "item \<in> set entries" for item
    proof -
      have "safeRelative (en_name item)" using assms(2) that by (auto simp: admitted_def list_all_iff)
      then have "safeRelative (path_Dir n @ CHR ''/'' # drop (length pre) (en_name item))"
        using cut [OF that] by (simp add: pre_def)
      then show ?thesis by (rule safeRelative_tail)
    qed
    have "n = pre @ ''SKILL.md''" using safe_skill_path [OF safe base] False by (simp add: pre_def)
    then have "drop (length pre) n = ''SKILL.md''" by simp
    then have top: "''SKILL.md'' \<in> set (map en_name result)" unfolding names using nin by force
    show ?thesis
      using d top assms(2) sf by (simp add: res admitted_def withinLimits_def list_all_iff comp_def)
  qed
qed

text \<open>
  C7. What an accepted archive can contain. When \<open>ScanZIP\<close> accepts an archive, the package is built from
  files whose names are distinct relative paths without empty, dot or dot-dot components, backslash or NUL,
  none of which is a symlink; they respect the limits on the number, the size of each and the total size;
  the SKILL.md is at the root; and the canonical archive and both hashes are those of exactly these files.
\<close>

theorem scanned_package_contained:
  assumes "ScanZIP pe data limits = Inr pkg" and "0 \<le> MaxFiles limits" and "0 \<le> MaxUncompressedBytes limits"
  shows "\<exists>entries. admitted limits entries \<and> ''SKILL.md'' \<in> set (map en_name entries)
     \<and> int (length data) \<le> MaxArchiveBytes limits
     \<and> canonicalZIP (pe_writeZip pe) entries = Inr (PK_CanonicalZIP pkg)
     \<and> PK_SHA256 pkg = hexEncode (pe_sha pe (PK_CanonicalZIP pkg))
     \<and> PK_ContentHash pkg = canonicalContentHash (pe_sha pe) entries
     \<and> FileCount (PK_Report pkg) = int (length entries)"
proof -
  from assms(1) obtain files es where z: "zipLoop limits files [] 0 = Inr es" and b: "buildPackage pe es = Inr pkg"
    and sz: "int (length data) \<le> MaxArchiveBytes limits"
    by (auto simp: ScanZIP_def split: if_splits sum.splits)
  from b obtain entries where n: "normalizeRoot es = Inr entries" by (auto simp: buildPackage_def split: sum.splits)
  have "admitted limits entries \<and> ''SKILL.md'' \<in> set (map en_name entries)"
    using normalizeRoot_admitted [OF n zipLoop_start [OF assms(2,3) z]] by blast
  moreover from b n have "canonicalZIP (pe_writeZip pe) entries = Inr (PK_CanonicalZIP pkg)
     \<and> PK_SHA256 pkg = hexEncode (pe_sha pe (PK_CanonicalZIP pkg))
     \<and> PK_ContentHash pkg = canonicalContentHash (pe_sha pe) entries
     \<and> FileCount (PK_Report pkg) = int (length entries)"
    by (auto simp: buildPackage_def Let_def inspect_def split: sum.splits if_splits)
  ultimately show ?thesis using sz by blast
qed

definition exampleZip :: "zip_file list" where
  "exampleZip =
    [\<lparr>zf_name = ''demo/SKILL.md'', zf_isDir = False, zf_mode = 420, zf_size = 16,
       zf_open = Inr (''---'' @ [CHR 0x0A] @ ''name: My Demo'' @ [CHR 0x0A] @ ''---'' @ [CHR 0x0A])\<rparr>,
     \<lparr>zf_name = ''demo/run.sh'', zf_isDir = False, zf_mode = 493, zf_size = 2, zf_open = Inr ''ls''\<rparr>]"

definition exampleEnv :: package_env where
  "exampleEnv = \<lparr>pe_openZip = (\<lambda>_. Inr exampleZip), pe_writeZip = (\<lambda>fs. Inr (concat (map (\<lambda>(n, _, d). n @ d) fs))),
     pe_yaml = (\<lambda>_. Inr [(''name'', JStr ''My Demo'')]), pe_urlsOf = (\<lambda>_. []), pe_sha = (\<lambda>s. take 32 s)\<rparr>"

lemma exampleEnv_accepts: "\<not> isl (ScanZIP exampleEnv ''zip'' DefaultLimits)"
  by code_simp

theorem scanned_package_contained_witness:
  "\<exists>pkg entries. ScanZIP exampleEnv ''zip'' DefaultLimits = Inr pkg \<and> admitted DefaultLimits entries
     \<and> ''SKILL.md'' \<in> set (map en_name entries) \<and> PK_ContentHash pkg = canonicalContentHash (take 32) entries"
proof -
  obtain pkg where p: "ScanZIP exampleEnv ''zip'' DefaultLimits = Inr pkg"
    using exampleEnv_accepts by (cases "ScanZIP exampleEnv ''zip'' DefaultLimits") simp_all
  have "0 \<le> MaxFiles DefaultLimits" "0 \<le> MaxUncompressedBytes DefaultLimits" by (simp_all add: DefaultLimits_def)
  from scanned_package_contained [OF p this] p show ?thesis by (auto simp: exampleEnv_def)
qed

section \<open>The content hash identifies the content\<close>

text \<open>A decimal length followed by a colon can be read back.\<close>

lemma decimal_colon:
  assumes "natDigits n @ '':'' @ r = natDigits m @ '':'' @ s"
  shows "n = m \<and> r = s"
proof -
  have tw: "takeWhile isDigit (natDigits k @ '':'' @ t) = natDigits k" for k t
    using natDigits_value [of k]
    by (subst takeWhile_append2) (auto simp: list_all_iff isDigit_def less_eq_char_def)
  then have eq: "natDigits n = natDigits m" using assms by metis
  then have "int n = int m" using natDigits_value [of n] natDigits_value [of m] by metis
  then show ?thesis using assms eq by simp
qed

lemma octal4_inj: "0 \<le> a \<Longrightarrow> a < 512 \<Longrightarrow> 0 \<le> b \<Longrightarrow> b < 512 \<Longrightarrow> octal4 a = octal4 b \<Longrightarrow> a = b"
proof -
  assume r: "0 \<le> a" "a < 512" "0 \<le> b" "b < 512" and eq: "octal4 a = octal4 b"
  have inj: "x = y" if "char_of (48 + nat x) = (char_of (48 + nat y) :: char)" "0 \<le> x" "x < 8" "0 \<le> y" "y < 8" for x y
  proof -
    have l: "nat x < 8" "nat y < 8" using that by simp_all
    have "(of_char (char_of (48 + nat x) :: char) :: nat) = of_char (char_of (48 + nat y) :: char)"
      using that(1) by (rule arg_cong)
    then have "48 + nat x = 48 + nat y" using l by simp
    then show ?thesis using that by simp
  qed
  have split: "c = 64 * (c div 64 mod 8) + 8 * (c div 8 mod 8) + c mod 8" if "0 \<le> c" "c < 512" for c :: int
  proof -
    have "c div 8 div 8 = c div 64" by (simp add: div_mult2_eq [symmetric])
    moreover have "c div 64 mod 8 = c div 64" using that by (intro mod_pos_pos_trivial) simp_all
    ultimately show ?thesis using div_mult_mod_eq [of c 8] div_mult_mod_eq [of "c div 8" 8] by linarith
  qed
  have "a div 64 mod 8 = b div 64 mod 8" "a div 8 mod 8 = b div 8 mod 8" "a mod 8 = b mod 8"
  proof -
    have e: "char_of (48 + nat (a div 64 mod 8)) = (char_of (48 + nat (b div 64 mod 8)) :: char)"
        "char_of (48 + nat (a div 8 mod 8)) = (char_of (48 + nat (b div 8 mod 8)) :: char)"
        "char_of (48 + nat (a mod 8)) = (char_of (48 + nat (b mod 8)) :: char)"
      using eq unfolding octal4_def list.map list.inject by blast+
    show "a div 64 mod 8 = b div 64 mod 8" by (rule inj [OF e(1)]) simp_all
    show "a div 8 mod 8 = b div 8 mod 8" by (rule inj [OF e(2)]) simp_all
    show "a mod 8 = b mod 8" by (rule inj [OF e(3)]) simp_all
  qed
  then show "a = b" using split [OF r(1,2)] split [OF r(3,4)] by linarith
qed

lemma contentItem_prefix:
  assumes "contentItem x @ r = contentItem y @ s"
  shows "en_name x = en_name y \<and> Perm (en_mode x) = Perm (en_mode y) \<and> en_data x = en_data y \<and> r = s"
proof -
  define rest :: "pkg_entry \<Rightarrow> string \<Rightarrow> string" where "rest z t = '':'' @ octal4 (Perm (en_mode z)) @ '':'' @ natDigits (length (en_data z)) @ '':'' @ en_data z @ t" for z t
  have form: "contentItem z @ t = natDigits (length (en_name z)) @ '':'' @ (en_name z @ rest z t)" for z t
    by (simp add: contentItem_def rest_def FormatInt_def)
  from decimal_colon [OF assms [unfolded form]]
  have n: "en_name x = en_name y" and rest: "rest x r = rest y s" by auto
  have l4: "length (octal4 k) = 4" for k by (simp add: octal4_def)
  from rest have o: "octal4 (Perm (en_mode x)) = octal4 (Perm (en_mode y))"
    and rest': "natDigits (length (en_data x)) @ '':'' @ (en_data x @ r) = natDigits (length (en_data y)) @ '':'' @ (en_data y @ s)"
    using l4 by (auto simp: rest_def)
  from decimal_colon [OF rest'] have d: "en_data x = en_data y \<and> r = s" by auto
  have "Perm (en_mode x) = Perm (en_mode y)" by (rule octal4_inj [OF _ _ _ _ o]) (simp_all add: Perm_def)
  with n d show ?thesis by blast
qed

definition contentTriple :: "pkg_entry \<Rightarrow> string \<times> int \<times> string" where
  "contentTriple item = (en_name item, Perm (en_mode item), en_data item)"

lemma contentItem_nonempty: "contentItem x \<noteq> []"
  by (simp add: contentItem_def)

lemma contentItems_inj:
  "concat (map contentItem xs) = concat (map contentItem ys) \<Longrightarrow> map contentTriple xs = map contentTriple ys"
proof (induction xs arbitrary: ys)
  case Nil
  then show ?case by (cases ys) (auto simp: contentItem_nonempty)
next
  case (Cons x xs)
  then obtain y ys' where ys: "ys = y # ys'" by (cases ys) (auto simp: contentItem_nonempty)
  with Cons.prems have "contentItem x @ concat (map contentItem xs) = contentItem y @ concat (map contentItem ys')" by simp
  from contentItem_prefix [OF this] Cons.IH show ?case by (auto simp: ys contentTriple_def)
qed

lemma contentItem_triple: "contentTriple x = contentTriple y \<Longrightarrow> contentItem x = contentItem y"
  by (simp add: contentTriple_def contentItem_def)

lemma contentBytes_triples:
  "contentBytes xs = concat (map (\<lambda>(n, p, d). FormatInt (int (length n)) @ '':'' @ n @ '':'' @ octal4 p @ '':'' @ FormatInt (int (length d)) @ '':'' @ d)
     (sort_key fst (map contentTriple xs)))"
proof -
  have s: "sort_key fst (map contentTriple xs) = map contentTriple (sort_key en_name xs)"
  proof (rule properties_for_sort_key)
    show "mset (map contentTriple (sort_key en_name xs)) = mset (map contentTriple xs)" by simp
    show "sorted (map fst (map contentTriple (sort_key en_name xs)))" by (simp add: comp_def contentTriple_def)
    fix k
    show "filter (\<lambda>x. fst k = fst x) (map contentTriple (sort_key en_name xs)) = filter (\<lambda>x. fst k = fst x) (map contentTriple xs)"
    proof -
      have "filter (\<lambda>x. fst k = fst x) (map contentTriple ys) = map contentTriple (filter (\<lambda>x. en_name x = fst k) ys)" for ys
        by (simp add: filter_map comp_def contentTriple_def eq_commute)
      then show ?thesis by (simp add: sort_key_stable)
    qed
  qed
  have "(\<lambda>(n, p, d). FormatInt (int (length n)) @ '':'' @ n @ '':'' @ octal4 p @ '':'' @ FormatInt (int (length d)) @ '':'' @ d)
      \<circ> contentTriple = contentItem"
    by (rule ext) (simp add: contentTriple_def contentItem_def)
  then show ?thesis unfolding s contentBytes_def by simp
qed

text \<open>
  C8. The bytes that are hashed into the content hash identify the content. For two packages with distinct
  file names they are equal exactly when both have the same files, each with the same name, permissions
  and data, whatever the order in which the archive lists them; and in that case the canonical archive
  is the same too. So a collision of content hashes of different packages is a collision of SHA-256.
\<close>

theorem content_bytes_identify_package:
  assumes "distinct (map en_name xs)" and "distinct (map en_name ys)"
  shows "(contentBytes xs = contentBytes ys \<longleftrightarrow> mset (map contentTriple xs) = mset (map contentTriple ys))
    \<and> (contentBytes xs = contentBytes ys \<longrightarrow> canonicalZIP writeZip xs = canonicalZIP writeZip ys
        \<and> canonicalContentHash sha xs = canonicalContentHash sha ys)"
proof -
  have sorts: "sort_key fst (map contentTriple xs) = sort_key fst (map contentTriple ys)"
    if "mset (map contentTriple xs) = mset (map contentTriple ys)"
    using that assms by (intro sort_key_perm_unique) (simp_all add: comp_def contentTriple_def)
  have triples: "map contentTriple (sort_key en_name xs) = map contentTriple (sort_key en_name ys)" if "contentBytes xs = contentBytes ys"
    using that unfolding contentBytes_def by (rule contentItems_inj)
  have "mset (map contentTriple xs) = mset (map contentTriple ys)" if "contentBytes xs = contentBytes ys"
    using arg_cong [OF triples [OF that], of mset] by simp
  moreover have "contentBytes xs = contentBytes ys" if "mset (map contentTriple xs) = mset (map contentTriple ys)"
    using sorts [OF that] by (simp add: contentBytes_triples)
  moreover have "canonicalZIP writeZip xs = canonicalZIP writeZip ys" if "contentBytes xs = contentBytes ys"
    using triples [OF that] unfolding canonicalZIP_def contentTriple_def by simp
  ultimately show ?thesis by (auto simp: canonicalContentHash_def)
qed

definition exampleFile :: "string \<Rightarrow> string \<Rightarrow> pkg_entry" where
  "exampleFile n d = \<lparr>en_name = n, en_mode = 420, en_data = d\<rparr>"

theorem content_bytes_identify_package_witness:
  "contentBytes [exampleFile ''a'' ''x'', exampleFile ''b'' ''y''] = contentBytes [exampleFile ''b'' ''y'', exampleFile ''a'' ''x'']
   \<and> contentBytes [exampleFile ''a'' ''x'', exampleFile ''b'' ''y''] \<noteq> contentBytes [exampleFile ''a'' ''xb'', exampleFile ''c'' ''y'']"
proof -
  have d: "distinct (map en_name [exampleFile a x, exampleFile b y]) = (a \<noteq> b)" for a b x y
    by (simp add: exampleFile_def)
  have m: "mset (map contentTriple [exampleFile ''a'' ''x'', exampleFile ''b'' ''y''])
      = mset (map contentTriple [exampleFile ''b'' ''y'', exampleFile ''a'' ''x''])" by simp
  have n: "contentTriple (exampleFile ''b'' ''y'') \<notin> set (map contentTriple [exampleFile ''a'' ''xb'', exampleFile ''c'' ''y''])"
    by (simp add: exampleFile_def contentTriple_def)
  have n': "mset (map contentTriple [exampleFile ''a'' ''x'', exampleFile ''b'' ''y''])
      \<noteq> mset (map contentTriple [exampleFile ''a'' ''xb'', exampleFile ''c'' ''y''])"
  proof
    assume "mset (map contentTriple [exampleFile ''a'' ''x'', exampleFile ''b'' ''y''])
      = mset (map contentTriple [exampleFile ''a'' ''xb'', exampleFile ''c'' ''y''])"
    from mset_eq_setD [OF this] n show False by auto
  qed
  show ?thesis
    using content_bytes_identify_package [of "[exampleFile ''a'' ''x'', exampleFile ''b'' ''y'']" "[exampleFile ''b'' ''y'', exampleFile ''a'' ''x'']"]
      content_bytes_identify_package [of "[exampleFile ''a'' ''x'', exampleFile ''b'' ''y'']" "[exampleFile ''a'' ''xb'', exampleFile ''c'' ''y'']"]
      m n' unfolding d by simp
qed

section \<open>Slugs\<close>

lemma dashRuns_chars: "list_all (\<lambda>c. slugByte c \<or> c = CHR ''-'') (dashRuns b s)"
  by (induction b s rule: dashRuns.induct) auto

lemma length_dashRuns: "length (dashRuns b s) \<le> length s"
  by (induction b s rule: dashRuns.induct) auto

lemma length_ToLower: "length (ToLower s) \<le> length s"
  by (induction s rule: ToLower.induct) auto

lemma slugify_ok:
  assumes "length name \<le> 120"
  shows "slugPattern (slugify name)"
proof -
  define v where "v = trimDashes (dashRuns False (ToLower (TrimSpace name)))"
  have suf: "suffix (dropWhile P s) s" for P and s :: string by (rule suffix_dropWhile)
  have tl: "set v \<subseteq> set (dashRuns False (ToLower (TrimSpace name)))"
  proof -
    have "set (dropWhile P s) \<subseteq> set s" for P and s :: string by (rule set_mono_suffix [OF suf])
    then show ?thesis unfolding v_def trimDashes_def Let_def set_rev by (metis set_rev subset_trans)
  qed
  have len: "length v \<le> 120"
  proof -
    have "length v \<le> length (dashRuns False (ToLower (TrimSpace name)))"
      unfolding v_def trimDashes_def Let_def by (metis length_dropWhile_le length_rev order_trans)
    then show ?thesis
      using length_dashRuns length_ToLower length_TrimSpace assms by (meson order_trans)
  qed
  have hd: "slugByte (hd v)" if "v \<noteq> []"
  proof -
    define u where "u = dropWhile (\<lambda>c. c = CHR ''-'') (dashRuns False (ToLower (TrimSpace name)))"
    have v: "v = rev (dropWhile (\<lambda>c. c = CHR ''-'') (rev u))" by (simp add: v_def trimDashes_def u_def Let_def)
    have "prefix v u" using suf [of "\<lambda>c. c = CHR ''-''" "rev u"] unfolding v by (simp add: suffix_to_prefix)
    then have "hd v = hd u" and "u \<noteq> []" using that by (auto simp: prefix_def)
    moreover have "hd u \<noteq> CHR ''-''" using \<open>u \<noteq> []\<close> unfolding u_def by (rule hd_dropWhile)
    moreover have "hd v \<in> set v" using that by simp
    ultimately show ?thesis using tl dashRuns_chars by (auto simp: list_all_iff)
  qed
  show ?thesis
  proof (cases "v = []")
    case True
    then have "slugify name = ''skill''" by (simp add: slugify_def v_def Let_def)
    moreover have "slugPattern ''skill''" by code_simp
    ultimately show ?thesis by simp
  next
    case False
    then have "slugify name = v" by (simp add: slugify_def v_def Let_def)
    moreover have "list_all slugChar (tl v)"
      using tl dashRuns_chars False by (auto simp: list_all_iff slugChar_def slugByte_def dest!: list.set_sel(2) [OF False] subsetD)
    ultimately show ?thesis using hd [OF False] False len
      by (cases v) (auto simp: slugPattern_def slugByte_def)
  qed
qed

text \<open>
  The slug that a package gets is a slug a desired manifest accepts: it matches the Bridge protocol's
  pattern, and the name it is made from has at most 120 bytes.
\<close>

theorem package_slug_valid:
  assumes "buildPackage pe entries = Inr pkg"
  shows "slugPattern (PK_Slug pkg) \<and> PK_Slug pkg = slugify (PK_Name pkg) \<and> PK_Name pkg \<noteq> [] \<and> length (PK_Name pkg) \<le> 120"
proof -
  have "PK_Slug pkg = slugify (PK_Name pkg) \<and> PK_Name pkg \<noteq> [] \<and> length (PK_Name pkg) \<le> 120"
    using assms by (auto simp: buildPackage_def Let_def split: sum.splits if_splits)
  then show ?thesis using slugify_ok by auto
qed

definition exampleEntries :: "pkg_entry list" where
  "exampleEntries = [exampleFile ''SKILL.md'' (''---'' @ [CHR 0x0A] @ ''name: x'' @ [CHR 0x0A] @ ''---'' @ [CHR 0x0A])]"

theorem package_slug_valid_witness:
  "\<exists>pkg. buildPackage exampleEnv exampleEntries = Inr pkg \<and> slugPattern (PK_Slug pkg) \<and> PK_Slug pkg = slugify (PK_Name pkg)"
proof -
  have "\<not> isl (buildPackage exampleEnv exampleEntries)" by code_simp
  then obtain pkg where "buildPackage exampleEnv exampleEntries = Inr pkg"
    by (cases "buildPackage exampleEnv exampleEntries") simp_all
  then show ?thesis using package_slug_valid by blast
qed

end
