(* ===== verification/Profile_Bundle.thy ===== *)
theory Profile_Bundle
  imports Skill_Package
begin

text \<open>
  Profile bundles (\<open>src/internal/profilebundle/bundle.go\<close>): the ZIP container that carries a profile, the archives of its
  Skills and, in a secret-bearing bundle, the secrets of its MCP servers. \<open>Encode\<close> writes one, \<open>Parse\<close> reads and verifies
  one. The archives inside are scanned by \<open>ScanZIP\<close> of theory Skill\_Package.

  \<open>bundle_env\<close> has what the package calls: the ZIP reader and writer and SHA-256 (in \<open>be_skills\<close>, the same as those of the
  scanner), \<open>json.Marshal\<close>, the strict decoder at the two document types, and \<open>url.Parse\<close>. A Go map is the list of its pairs.
\<close>

section \<open>Documents\<close>

record Origin =
  OG_Label :: string
  OG_ExportedAt :: "time option"

record Provenance =
  PN_Source :: string
  PN_Provider :: string
  PN_URL :: string
  PN_Commit :: string

record BundleProfile =
  BP_Name :: string
  BP_Description :: string
  BP_SourceRevision :: int
  BP_CanonicalHash :: string

record BundleSkill =
  BS_Slug :: string
  BS_Name :: string
  BS_Description :: string
  BS_SHA256 :: string
  BS_ContentHash :: string
  BS_Provenance :: Provenance

record BundleMCP =
  BM_Key :: string
  BM_Name :: string
  BM_Description :: string
  BM_Transport :: string
  BM_Command :: string
  BM_Args :: "string list"
  BM_URL :: string
  BM_EnvSlots :: "string list"
  BM_HeaderSlots :: "string list"
  BM_Provenance :: Provenance

record BundleManifest =
  MF_SchemaVersion :: int
  MF_Kind :: string
  MF_Origin :: Origin
  MF_Profile :: BundleProfile
  MF_Skills :: "BundleSkill list"
  MF_MCPServers :: "BundleMCP list"

record SecretMCP =
  SM_Key :: string
  SM_Env :: "(string \<times> string) list"
  SM_Headers :: "(string \<times> string) list"

record SecretDocument =
  SD_SchemaVersion :: int
  SD_MCPServers :: "SecretMCP list"

record Parsed =
  PA_Manifest :: BundleManifest
  PA_Packages :: "(string \<times> Package) list"
  PA_Secrets :: SecretDocument
  PA_BundleHash :: string

record parsed_url =
  UR_Scheme :: string
  UR_Host :: string
  UR_User :: bool

record bundle_env =
  be_skills :: package_env
  be_marshal :: "json \<Rightarrow> string"
  be_decodeManifest :: "string \<Rightarrow> BundleManifest option"
  be_decodeSecrets :: "string \<Rightarrow> SecretDocument option"
  be_parseURL :: "string \<Rightarrow> parsed_url option"

abbreviation SchemaVersion :: int where "SchemaVersion \<equiv> 1"
abbreviation KindStandard :: string where "KindStandard \<equiv> ''profile''"
abbreviation KindSecrets :: string where "KindSecrets \<equiv> ''profile-secrets''"

definition MaxBundleBytes :: int where
  "MaxBundleBytes = 256 * 2 ^ 20"

definition MaxMembers :: nat where
  "MaxMembers = 500"

definition noProvenance :: Provenance where
  "noProvenance = \<lparr>PN_Source = '''', PN_Provider = '''', PN_URL = '''', PN_Commit = ''''\<rparr>"

section \<open>Keys and hashes\<close>

definition sortedUnique :: "string list \<Rightarrow> string list" where
  "sortedUnique values = sort (remdups (filter (\<lambda>v. v \<noteq> '''') (map TrimSpace values)))"

text \<open>The documents as their \<open>json\<close> tags encode them.\<close>

definition strings :: "string list \<Rightarrow> json" where
  "strings xs = JArr (map JStr xs)"

definition provenanceJSON :: "Provenance \<Rightarrow> json" where
  "provenanceJSON p = JObj ((''source'', JStr (PN_Source p)) # omitEmpty ''provider'' (PN_Provider p) @ omitEmpty ''url'' (PN_URL p)
     @ omitEmpty ''commit'' (PN_Commit p))"

definition mcpJSON :: "BundleMCP \<Rightarrow> json" where
  "mcpJSON i = JObj ([(''key'', JStr (BM_Key i)), (''name'', JStr (BM_Name i))] @ omitEmpty ''description'' (BM_Description i)
     @ [(''transport'', JStr (BM_Transport i))] @ omitEmpty ''command'' (BM_Command i)
     @ (if BM_Args i = [] then [] else [(''args'', strings (BM_Args i))]) @ omitEmpty ''url'' (BM_URL i)
     @ [(''envSlots'', strings (BM_EnvSlots i)), (''headerSlots'', strings (BM_HeaderSlots i)), (''provenance'', provenanceJSON (BM_Provenance i))])"

definition skillJSON :: "BundleSkill \<Rightarrow> json" where
  "skillJSON i = JObj ([(''slug'', JStr (BS_Slug i)), (''name'', JStr (BS_Name i))] @ omitEmpty ''description'' (BS_Description i)
     @ [(''sha256'', JStr (BS_SHA256 i)), (''contentHash'', JStr (BS_ContentHash i)), (''provenance'', provenanceJSON (BS_Provenance i))])"

definition timeJSON :: "time option \<Rightarrow> json" where
  "timeJSON t = (case t of None \<Rightarrow> JStr ''0001-01-01T00:00:00Z'' | Some n \<Rightarrow> JTime n)"

definition manifestJSON :: "BundleManifest \<Rightarrow> json" where
  "manifestJSON m = JObj
     [(''schemaVersion'', JNum (MF_SchemaVersion m)), (''kind'', JStr (MF_Kind m)),
      (''origin'', JObj [(''label'', JStr (OG_Label (MF_Origin m))), (''exportedAt'', timeJSON (OG_ExportedAt (MF_Origin m)))]),
      (''profile'', JObj ((''name'', JStr (BP_Name (MF_Profile m))) # omitEmpty ''description'' (BP_Description (MF_Profile m))
         @ [(''sourceRevision'', JNum (BP_SourceRevision (MF_Profile m))), (''canonicalHash'', JStr (BP_CanonicalHash (MF_Profile m)))])),
      (''skills'', JArr (map skillJSON (MF_Skills m))), (''mcpServers'', JArr (map mcpJSON (MF_MCPServers m)))]"

definition secretsJSON :: "SecretDocument \<Rightarrow> json" where
  "secretsJSON s = JObj
     [(''schemaVersion'', JNum (SD_SchemaVersion s)),
      (''mcpServers'', JArr (map (\<lambda>i. JObj ((''key'', JStr (SM_Key i))
          # (if SM_Env i = [] then [] else [(''env'', JObj (map (\<lambda>(k, v). (k, JStr v)) (sort_key fst (SM_Env i))))])
          @ (if SM_Headers i = [] then [] else [(''headers'', JObj (map (\<lambda>(k, v). (k, JStr v)) (sort_key fst (SM_Headers i))))])))
        (SD_MCPServers s)))]"

definition MCPKey :: "bundle_env \<Rightarrow> BundleMCP \<Rightarrow> string" where
  "MCPKey be item =
     hexEncode (pe_sha (be_skills be) (be_marshal be (mcpJSON (item\<lparr>BM_Key := '''', BM_Provenance := noProvenance,
       BM_EnvSlots := sortedUnique (BM_EnvSlots item), BM_HeaderSlots := sortedUnique (BM_HeaderSlots item)\<rparr>))))"

definition CanonicalProfileHash :: "bundle_env \<Rightarrow> BundleManifest \<Rightarrow> string" where
  "CanonicalProfileHash be m =
     hexEncode (pe_sha (be_skills be) (be_marshal be (JObj
       [(''Name'', JStr (TrimSpace (BP_Name (MF_Profile m)))), (''Description'', JStr (TrimSpace (BP_Description (MF_Profile m)))),
        (''Skills'', if MF_Skills m = [] then JNull
           else JArr (map (\<lambda>i. JObj [(''Slug'', JStr (BS_Slug i)), (''SHA256'', JStr (BS_SHA256 i)), (''ContentHash'', JStr (BS_ContentHash i))])
             (sort_key BS_Slug (MF_Skills m)))),
        (''MCPKeys'', strings (sort (map (MCPKey be) (MF_MCPServers m))))])))"

section \<open>Validation\<close>

definition provenanceSources :: "string list" where
  "provenanceSources = [''claude'', ''codex'', ''hermes'', ''git'', ''skillsmp'', ''xiaping'', ''zip'', ''local'', ''bundle'']"

definition validateProvenance :: "bundle_env \<Rightarrow> Provenance \<Rightarrow> go_error option" where
  "validateProvenance be p =
     (if ToLower (TrimSpace (PN_Source p)) \<notin> set provenanceSources \<or> length (PN_Provider p) > 120 \<or> length (PN_Commit p) > 200 then
        Some (errorsNew ''Profile Bundle member provenance is invalid'')
      else if PN_URL p \<noteq> '''' \<and> (case be_parseURL be (PN_URL p) of None \<Rightarrow> True
          | Some u \<Rightarrow> UR_Scheme u \<noteq> ''https'' \<or> UR_Host u = '''' \<or> UR_User u) then
        Some (errorsNew ''Profile Bundle provenance URL is invalid'')
      else None)"

definition validateMCP :: "bundle_env \<Rightarrow> BundleMCP \<Rightarrow> go_error option" where
  "validateMCP be i =
     (if length (BM_Key i) \<noteq> 64 \<or> length (BM_Args i) > 100 \<or> length (BM_EnvSlots i) > 100 \<or> length (BM_HeaderSlots i) > 100 then
        Some (errorsNew ''Profile Bundle MCP metadata exceeds safety limits'')
      else if list_ex (\<lambda>k. TrimSpace k = '''' \<or> length k > 200) (BM_EnvSlots i @ BM_HeaderSlots i) then
        Some (errorsNew ''Profile Bundle MCP Secret slot is invalid'')
      else if BM_Transport i = ''stdio'' then
        (if TrimSpace (BM_Command i) = '''' \<or> BM_URL i \<noteq> '''' then Some (errorsNew ''Profile Bundle stdio MCP structure is invalid'') else None)
      else if BM_Transport i = ''http'' \<or> BM_Transport i = ''sse'' then
        (if (case be_parseURL be (BM_URL i) of None \<Rightarrow> True
             | Some u \<Rightarrow> UR_Scheme u \<noteq> ''http'' \<and> UR_Scheme u \<noteq> ''https'' \<or> UR_Host u = '''' \<or> UR_User u \<or> BM_Command i \<noteq> '''' \<or> BM_Args i \<noteq> [])
         then Some (errorsNew ''Profile Bundle network MCP structure is invalid'') else None)
      else Some (errorsNew ''Profile Bundle MCP transport is invalid''))"

text \<open>The two loops of \<open>validateManifest\<close>, with the names seen; the second returns the servers with their slots normalized.\<close>

fun checkBundleSkills :: "bundle_env \<Rightarrow> BundleSkill list \<Rightarrow> string list \<Rightarrow> go_error option" where
  "checkBundleSkills be [] seen = None"
| "checkBundleSkills be (i # is) seen =
     (if \<not> slugPattern (BS_Slug i) \<or> HasPrefix (BS_Slug i) ''.'' \<or> TrimSpace (BS_Name i) = '''' \<or> \<not> IsSHA256 (BS_SHA256 i)
         \<or> \<not> IsSHA256 (BS_ContentHash i) \<or> BS_Slug i \<in> set seen then
        Some (errorsNew ''Profile Bundle contains invalid or duplicate Skill metadata'')
      else case validateProvenance be (BS_Provenance i) of
        Some e \<Rightarrow> Some e
      | None \<Rightarrow> checkBundleSkills be is (BS_Slug i # seen))"

definition normalizeMCP :: "BundleMCP \<Rightarrow> BundleMCP" where
  "normalizeMCP i = i\<lparr>BM_EnvSlots := sortedUnique (BM_EnvSlots i), BM_HeaderSlots := sortedUnique (BM_HeaderSlots i)\<rparr>"

definition mcpError :: "bundle_env \<Rightarrow> BundleMCP \<Rightarrow> go_error option" where
  "mcpError be i =
     (case validateMCP be i of
        Some e \<Rightarrow> Some e
      | None \<Rightarrow> if MCPKey be i \<noteq> BM_Key i then Some (errorf ''Profile Bundle MCP %q hash does not match'' [BM_Name i])
          else validateProvenance be (BM_Provenance i))"

fun checkMCPServers :: "bundle_env \<Rightarrow> BundleMCP list \<Rightarrow> string list \<Rightarrow> go_error option" where
  "checkMCPServers be [] seen = None"
| "checkMCPServers be (i # is) seen =
     (if \<not> slugPattern (BM_Name i) \<or> HasPrefix (BM_Name i) ''.'' \<or> BM_Name i \<in> set seen then
        Some (errorsNew ''Profile Bundle contains invalid or duplicate MCP metadata'')
      else case mcpError be (normalizeMCP i) of
        Some e \<Rightarrow> Some e
      | None \<Rightarrow> checkMCPServers be is (BM_Name i # seen))"

text \<open>What \<open>validateManifest\<close> leaves in the manifest behind its pointer.\<close>

definition normalizeManifest :: "BundleManifest \<Rightarrow> BundleManifest" where
  "normalizeManifest m = m\<lparr>MF_Origin := (MF_Origin m)\<lparr>OG_Label := TrimSpace (OG_Label (MF_Origin m))\<rparr>,
     MF_Profile := (MF_Profile m)\<lparr>BP_Name := TrimSpace (BP_Name (MF_Profile m))\<rparr>,
     MF_MCPServers := map normalizeMCP (MF_MCPServers m)\<rparr>"

definition validateManifest :: "bundle_env \<Rightarrow> BundleManifest \<Rightarrow> go_error + BundleManifest" where
  "validateManifest be m =
     (let label = TrimSpace (OG_Label (MF_Origin m)); nm = TrimSpace (BP_Name (MF_Profile m)) in
      if MF_SchemaVersion m \<noteq> SchemaVersion \<or> MF_Kind m \<noteq> KindStandard \<and> MF_Kind m \<noteq> KindSecrets then
        Inl (errorsNew ''unsupported Profile Bundle schema or kind'')
      else if label = '''' \<or> length label > 120 \<or> list_ex (\<lambda>c. c \<in> {CHR ''/'', CHR 0x5C, CHR 0x00, CHR 0x0D, CHR 0x0A}) label
          \<or> OG_ExportedAt (MF_Origin m) = None then
        Inl (errorsNew ''Profile Bundle Origin is invalid'')
      else if nm = '''' \<or> length nm > 120 \<or> BP_SourceRevision (MF_Profile m) < 1 \<or> \<not> IsSHA256 (BP_CanonicalHash (MF_Profile m)) then
        Inl (errorsNew ''Profile Bundle Profile metadata is invalid'')
      else if length (MF_Skills m) > MaxMembers \<or> length (MF_MCPServers m) > MaxMembers then
        Inl (errorsNew ''Profile Bundle membership exceeds safety limit'')
      else case checkBundleSkills be (MF_Skills m) [] of
        Some e \<Rightarrow> Inl e
      | None \<Rightarrow> (case checkMCPServers be (MF_MCPServers m) [] of
          Some e \<Rightarrow> Inl e
        | None \<Rightarrow> Inr (normalizeManifest m)))"

definition sameKeys :: "string list \<Rightarrow> (string \<times> string) list \<Rightarrow> bool" where
  "sameKeys expected values = (length expected = length values \<and> list_all (\<lambda>k. map_of values k \<noteq> None) expected)"

fun checkSecrets :: "BundleMCP list \<Rightarrow> SecretMCP list \<Rightarrow> string list \<Rightarrow> go_error + string list" where
  "checkSecrets servers [] seen = Inr seen"
| "checkSecrets servers (i # is) seen =
     (case find (\<lambda>s. BM_Key s = SM_Key i) (rev servers) of
        None \<Rightarrow> Inl (errorsNew ''Profile Bundle contains an unknown or duplicate Secret binding'')
      | Some mcp \<Rightarrow>
          if SM_Key i \<in> set seen then Inl (errorsNew ''Profile Bundle contains an unknown or duplicate Secret binding'')
          else if \<not> sameKeys (BM_EnvSlots mcp) (SM_Env i) \<or> \<not> sameKeys (BM_HeaderSlots mcp) (SM_Headers i) then
            Inl (errorsNew ''Profile Bundle Secret bindings do not match declared slots'')
          else if list_ex (\<lambda>(_, v). int (length v) > 64 * 2 ^ 10) (SM_Env i @ SM_Headers i) then
            Inl (errorsNew ''Profile Bundle Secret value exceeds size limit'')
          else checkSecrets servers is (SM_Key i # seen))"

definition validateSecrets :: "BundleManifest \<Rightarrow> SecretDocument \<Rightarrow> go_error option" where
  "validateSecrets m s =
     (if SD_SchemaVersion s \<noteq> SchemaVersion then Some (errorsNew ''Profile Bundle Secret schema is invalid'')
      else case checkSecrets (MF_MCPServers m) (SD_MCPServers s) [] of
        Inl e \<Rightarrow> Some e
      | Inr seen \<Rightarrow>
          if list_ex (\<lambda>i. (BM_EnvSlots i \<noteq> [] \<or> BM_HeaderSlots i \<noteq> []) \<and> BM_Key i \<notin> set seen) (MF_MCPServers m) then
            Some (errorsNew ''Profile Bundle is missing a declared Secret binding'')
          else None)"

section \<open>Writing a bundle\<close>

definition archiveName :: "string \<Rightarrow> string" where
  "archiveName sha = ''skills/'' @ sha @ ''.zip''"

definition verifySkill :: "bundle_env \<Rightarrow> BundleSkill \<Rightarrow> string \<Rightarrow> Package option" where
  "verifySkill be i body =
     (case ScanZIP (be_skills be) body DefaultLimits of
        Inl _ \<Rightarrow> None
      | Inr pkg \<Rightarrow> if PK_SHA256 pkg \<noteq> BS_SHA256 i \<or> PK_ContentHash pkg \<noteq> BS_ContentHash i \<or> PK_Slug pkg \<noteq> BS_Slug i then None else Some pkg)"

text \<open>The loop over the Skills in order of their hash; \<open>archives\<close> is the map from hashes to archives.\<close>

fun skillEntries :: "bundle_env \<Rightarrow> (string \<Rightarrow> string) \<Rightarrow> BundleSkill list \<Rightarrow> go_error + (string \<times> int \<times> string) list" where
  "skillEntries be archives [] = Inr []"
| "skillEntries be archives (i # is) =
     (case verifySkill be i (archives (BS_SHA256 i)) of
        None \<Rightarrow> Inl (errorf ''Skill archive %s does not match manifest'' [BS_Slug i])
      | Some _ \<Rightarrow> (case skillEntries be archives is of
          Inl e \<Rightarrow> Inl e
        | Inr es \<Rightarrow> Inr ((archiveName (BS_SHA256 i), 384, archives (BS_SHA256 i)) # es)))"

definition secretEntries :: "bundle_env \<Rightarrow> BundleManifest \<Rightarrow> SecretDocument option \<Rightarrow> go_error + (string \<times> int \<times> string) list" where
  "secretEntries be m secrets =
     (case secrets of
        None \<Rightarrow> Inr []
      | Some s \<Rightarrow> (case validateSecrets m s of
          Some e \<Rightarrow> Inl e
        | None \<Rightarrow> Inr [(''secrets.json'', 384, be_marshal be (secretsJSON s))]))"

text \<open>The documents as \<open>Encode\<close> completes them before it validates.\<close>

definition completeManifest :: "bundle_env \<Rightarrow> BundleManifest \<Rightarrow> bool \<Rightarrow> BundleManifest" where
  "completeManifest be m secret =
     (let m' = m\<lparr>MF_SchemaVersion := SchemaVersion, MF_Kind := (if secret then KindSecrets else KindStandard)\<rparr>
      in m'\<lparr>MF_Profile := (MF_Profile m')\<lparr>BP_CanonicalHash := CanonicalProfileHash be m'\<rparr>\<rparr>)"

abbreviation completeSecrets :: "SecretDocument \<Rightarrow> SecretDocument" where
  "completeSecrets s \<equiv> s\<lparr>SD_SchemaVersion := SchemaVersion\<rparr>"

definition bundleEntries :: "bundle_env \<Rightarrow> BundleManifest \<Rightarrow> (string \<Rightarrow> string) \<Rightarrow> SecretDocument option \<Rightarrow> go_error + (string \<times> int \<times> string) list" where
  "bundleEntries be m archives secrets =
     (case validateManifest be (completeManifest be m (secrets \<noteq> None)) of
        Inl e \<Rightarrow> Inl e
      | Inr manifest \<Rightarrow> (case skillEntries be archives (sort_key BS_SHA256 (MF_Skills manifest)) of
          Inl e \<Rightarrow> Inl e
        | Inr es \<Rightarrow> (case secretEntries be manifest (map_option completeSecrets secrets) of
            Inl e \<Rightarrow> Inl e
          | Inr ss \<Rightarrow> Inr ((''manifest.json'', 384, be_marshal be (manifestJSON manifest)) # es @ ss))))"

definition Encode :: "bundle_env \<Rightarrow> BundleManifest \<Rightarrow> (string \<Rightarrow> string) \<Rightarrow> SecretDocument option \<Rightarrow> go_error + string" where
  "Encode be m archives secrets =
     (case bundleEntries be m archives secrets of
        Inl e \<Rightarrow> Inl e
      | Inr es \<Rightarrow> (case pe_writeZip (be_skills be) es of
          Inl e \<Rightarrow> Inl e
        | Inr body \<Rightarrow> if int (length body) > MaxBundleBytes then Inl (errorsNew ''Profile Bundle exceeds size limit'') else Inr body))"

section \<open>Reading a bundle\<close>

text \<open>The bits of \<open>os.ModeType\<close>: directory, symbolic link, device, named pipe, socket, character device, irregular.\<close>

definition modeType :: "int \<Rightarrow> bool" where
  "modeType mode = list_ex (\<lambda>b. odd (mode div 2 ^ b)) [31, 27, 26, 25, 24, 21, 19 :: nat]"

definition entryLimit :: "string \<Rightarrow> int" where
  "entryLimit name = (if HasPrefix name ''skills/'' then MaxArchiveBytes DefaultLimits else 2 * 2 ^ 20)"

definition readEntry :: "zip_file \<Rightarrow> int \<Rightarrow> go_error + string" where
  "readEntry f limit =
     (if zf_size f > limit then Inl (errorsNew ''Profile Bundle entry exceeds size limit'')
      else case zf_open f of
        Inl e \<Rightarrow> Inl e
      | Inr body \<Rightarrow> if int (length body) > limit then Inl (errorsNew ''Profile Bundle entry exceeds size limit'') else Inr body)"

fun readEntries :: "zip_file list \<Rightarrow> (string \<times> string) list \<Rightarrow> go_error + (string \<times> string) list" where
  "readEntries [] files = Inr files"
| "readEntries (f # fs) files =
     (let name = path_Clean (zf_name f) in
      if name \<noteq> zf_name f \<or> name = ''.'' \<or> name = ''..'' \<or> HasPrefix name ''../'' \<or> path_IsAbs name \<or> Contains name [CHR 0x5C]
          \<or> zf_isDir f \<or> modeType (zf_mode f) then
        Inl (errorsNew ''Profile Bundle contains an unsafe entry'')
      else if map_of files name \<noteq> None then Inl (errorsNew ''Profile Bundle contains a duplicate entry'')
      else case readEntry f (entryLimit name) of
        Inl e \<Rightarrow> Inl e
      | Inr body \<Rightarrow> readEntries fs (files @ [(name, body)]))"

definition fileOf :: "(string \<times> string) list \<Rightarrow> string \<Rightarrow> string" where
  "fileOf files name = (case map_of files name of None \<Rightarrow> [] | Some body \<Rightarrow> body)"

fun parseSkills :: "bundle_env \<Rightarrow> (string \<times> string) list \<Rightarrow> BundleSkill list \<Rightarrow> go_error + (string \<times> Package) list" where
  "parseSkills be files [] = Inr []"
| "parseSkills be files (i # is) =
     (case verifySkill be i (fileOf files (archiveName (BS_SHA256 i))) of
        None \<Rightarrow> Inl (errorf ''Profile Bundle Skill %q failed verification'' [BS_Slug i])
      | Some pkg \<Rightarrow>
          if PK_Name pkg \<noteq> BS_Name i then Inl (errorf ''Profile Bundle Skill %q failed verification'' [BS_Slug i])
          else (case parseSkills be files is of Inl e \<Rightarrow> Inl e | Inr ps \<Rightarrow> Inr ((BS_SHA256 i, pkg) # ps)))"

definition parseSecrets :: "bundle_env \<Rightarrow> BundleManifest \<Rightarrow> (string \<times> string) list \<Rightarrow> go_error + SecretDocument" where
  "parseSecrets be manifest files =
     (if MF_Kind manifest = KindSecrets then
        (case be_decodeSecrets be (fileOf files ''secrets.json'') of
           None \<Rightarrow> Inl (errorsNew ''secret-bearing Profile Bundle is missing a valid secrets document'')
         | Some s \<Rightarrow> (case validateSecrets manifest s of Some e \<Rightarrow> Inl e | None \<Rightarrow> Inr s))
      else if fileOf files ''secrets.json'' \<noteq> [] then Inl (errorsNew ''standard Profile Bundle cannot contain Secret values'')
      else Inr \<lparr>SD_SchemaVersion = SchemaVersion, SD_MCPServers = []\<rparr>)"

definition expectedFiles :: "BundleManifest \<Rightarrow> string list" where
  "expectedFiles manifest = ''manifest.json'' # map (\<lambda>i. archiveName (BS_SHA256 i)) (MF_Skills manifest)
     @ (if MF_Kind manifest = KindSecrets then [''secrets.json''] else [])"

definition parseFiles :: "bundle_env \<Rightarrow> string \<Rightarrow> (string \<times> string) list \<Rightarrow> go_error + Parsed" where
  "parseFiles be body files =
     (if fileOf files ''manifest.json'' = [] then Inl (errorsNew ''Profile Bundle manifest is missing'')
      else case be_decodeManifest be (fileOf files ''manifest.json'') of
        None \<Rightarrow> Inl (errorsNew ''invalid Profile Bundle manifest'')
      | Some decoded \<Rightarrow>
     (case validateManifest be decoded of
        Inl e \<Rightarrow> Inl e
      | Inr manifest \<Rightarrow>
          if CanonicalProfileHash be manifest \<noteq> BP_CanonicalHash (MF_Profile manifest) then
            Inl (errorsNew ''Profile Bundle canonical hash does not match'')
          else
     (case parseSkills be files (MF_Skills manifest) of
        Inl e \<Rightarrow> Inl e
      | Inr packages \<Rightarrow>
     (case parseSecrets be manifest files of
        Inl e \<Rightarrow> Inl e
      | Inr secrets \<Rightarrow>
          (case find (\<lambda>(n, _). n \<notin> set (expectedFiles manifest)) files of
             Some (n, _) \<Rightarrow> Inl (errorf ''unexpected Profile Bundle entry %q'' [n])
           | None \<Rightarrow> Inr \<lparr>PA_Manifest = manifest, PA_Packages = packages, PA_Secrets = secrets,
               PA_BundleHash = hexEncode (pe_sha (be_skills be) body)\<rparr>)))))"

definition Parse :: "bundle_env \<Rightarrow> string \<Rightarrow> go_error + Parsed" where
  "Parse be body =
     (if body = [] \<or> int (length body) > MaxBundleBytes then Inl (errorsNew ''Profile Bundle size is invalid'')
      else case pe_openZip (be_skills be) body of
        Inl _ \<Rightarrow> Inl (errorsNew ''Profile Bundle is not a valid ZIP container'')
      | Inr zfs \<Rightarrow>
          if length zfs > 2 + MaxMembers then Inl (errorsNew ''Profile Bundle contains too many entries'')
          else (case readEntries zfs [] of Inl e \<Rightarrow> Inl e | Inr files \<Rightarrow> parseFiles be body files))"

section \<open>Normalization\<close>

lemma trimmed_sortedUnique: "v \<in> set (sortedUnique xs) \<Longrightarrow> TrimSpace v = v \<and> v \<noteq> ''''"
  by (auto simp: sortedUnique_def)

lemma sortedUnique_facts: "distinct (sortedUnique xs)" "sorted (sortedUnique xs)"
  by (simp_all add: sortedUnique_def)

lemma sortedUnique_idem [simp]: "sortedUnique (sortedUnique xs) = sortedUnique xs"
proof -
  have "map TrimSpace (sortedUnique xs) = sortedUnique xs" by (rule map_idI) (simp add: trimmed_sortedUnique)
  moreover have "filter (\<lambda>v. v \<noteq> '''') (sortedUnique xs) = sortedUnique xs" by (rule filter_True) (simp add: trimmed_sortedUnique)
  ultimately show ?thesis
    unfolding sortedUnique_def [of "sortedUnique xs"]
    by (simp add: distinct_remdups_id sortedUnique_facts sort_key_id_if_sorted)
qed

lemma normalizeMCP_idem [simp]: "normalizeMCP (normalizeMCP i) = normalizeMCP i"
  by (simp add: normalizeMCP_def)

lemma normalizeMCP_same [simp]: "BM_Name (normalizeMCP i) = BM_Name i" "BM_Key (normalizeMCP i) = BM_Key i"
  by (simp_all add: normalizeMCP_def)

lemma MCPKey_normalizeMCP [simp]: "MCPKey be (normalizeMCP i) = MCPKey be i"
  by (simp add: MCPKey_def normalizeMCP_def)

lemma checkMCPServers_normalize [simp]: "checkMCPServers be (map normalizeMCP is) seen = checkMCPServers be is seen"
  by (induction "is" arbitrary: seen) (auto split: option.splits)

lemma validateManifest_Inr: "validateManifest be m = Inr m' \<Longrightarrow> m' = normalizeManifest m"
  by (auto simp: validateManifest_def Let_def split: if_splits option.splits)

lemma normalizeManifest_sel [simp]:
  "MF_SchemaVersion (normalizeManifest m) = MF_SchemaVersion m" "MF_Kind (normalizeManifest m) = MF_Kind m"
  "OG_Label (MF_Origin (normalizeManifest m)) = TrimSpace (OG_Label (MF_Origin m))"
  "OG_ExportedAt (MF_Origin (normalizeManifest m)) = OG_ExportedAt (MF_Origin m)"
  "BP_Name (MF_Profile (normalizeManifest m)) = TrimSpace (BP_Name (MF_Profile m))"
  "BP_Description (MF_Profile (normalizeManifest m)) = BP_Description (MF_Profile m)"
  "BP_SourceRevision (MF_Profile (normalizeManifest m)) = BP_SourceRevision (MF_Profile m)"
  "BP_CanonicalHash (MF_Profile (normalizeManifest m)) = BP_CanonicalHash (MF_Profile m)"
  "MF_Skills (normalizeManifest m) = MF_Skills m"
  "MF_MCPServers (normalizeManifest m) = map normalizeMCP (MF_MCPServers m)"
  by (simp_all add: normalizeManifest_def)

lemma normalizeManifest_idem: "normalizeManifest (normalizeManifest m) = normalizeManifest m"
  by (simp add: normalizeManifest_def comp_def)

lemma validateManifest_again:
  assumes "validateManifest be m = Inr m'"
  shows "validateManifest be m' = Inr m'"
proof -
  have m: "m' = normalizeManifest m" by (rule validateManifest_Inr [OF assms])
  show ?thesis using assms unfolding m validateManifest_def Let_def
    by (simp add: normalizeManifest_idem split: if_splits option.splits)
qed

lemma CanonicalProfileHash_normalize: "CanonicalProfileHash be (normalizeManifest m) = CanonicalProfileHash be m"
  by (simp add: CanonicalProfileHash_def comp_def)

lemma CanonicalProfileHash_profile:
  "CanonicalProfileHash be (m\<lparr>MF_Profile := (MF_Profile m)\<lparr>BP_CanonicalHash := h\<rparr>\<rparr>) = CanonicalProfileHash be m"
  by (simp add: CanonicalProfileHash_def)

text \<open>The manifest that \<open>Encode\<close> writes.\<close>

definition encodedManifest :: "bundle_env \<Rightarrow> BundleManifest \<Rightarrow> SecretDocument option \<Rightarrow> BundleManifest" where
  "encodedManifest be m secrets = normalizeManifest (completeManifest be m (secrets \<noteq> None))"

lemma encodedManifest_hash:
  "CanonicalProfileHash be (encodedManifest be m secrets) = BP_CanonicalHash (MF_Profile (encodedManifest be m secrets))"
  by (simp add: encodedManifest_def CanonicalProfileHash_normalize completeManifest_def Let_def CanonicalProfileHash_def [of be "_\<lparr>MF_Profile := _\<rparr>"]
      CanonicalProfileHash_def [of be "_\<lparr>MF_Kind := _\<rparr>"])

lemma encodedManifest_sel: "MF_Skills (encodedManifest be m secrets) = MF_Skills m"
    "MF_Kind (encodedManifest be m secrets) = (if secrets = None then KindStandard else KindSecrets)"
  by (simp_all add: encodedManifest_def completeManifest_def Let_def)

section \<open>The entries of a written bundle\<close>

lemma checkBundleSkills_None:
  "checkBundleSkills be is seen = None \<Longrightarrow> distinct (map BS_Slug is) \<and> set (map BS_Slug is) \<inter> set seen = {} \<and> list_all (\<lambda>i. IsSHA256 (BS_SHA256 i)) is"
proof (induction "is" arbitrary: seen)
  case (Cons i "is")
  then have "checkBundleSkills be is (BS_Slug i # seen) = None" and c: "BS_Slug i \<notin> set seen" "IsSHA256 (BS_SHA256 i)"
    by (auto split: if_splits option.splits)
  from Cons.IH [OF this(1)] c show ?case by auto
qed simp

lemma skillEntries_Inr:
  "(skillEntries be archives is = Inr es) = (list_all (\<lambda>i. verifySkill be i (archives (BS_SHA256 i)) \<noteq> None) is
     \<and> es = map (\<lambda>i. (archiveName (BS_SHA256 i), 384, archives (BS_SHA256 i))) is)"
proof (induction "is" arbitrary: es)
  case (Cons i "is")
  then show ?case by (cases "verifySkill be i (archives (BS_SHA256 i))"; cases "skillEntries be archives is") auto
qed auto

lemma verifySkill_Some:
  "(verifySkill be i body = Some pkg) = (ScanZIP (be_skills be) body DefaultLimits = Inr pkg \<and> PK_SHA256 pkg = BS_SHA256 i
     \<and> PK_ContentHash pkg = BS_ContentHash i \<and> PK_Slug pkg = BS_Slug i)"
  by (auto simp: verifySkill_def split: sum.splits)

lemma distinct_shas:
  assumes "distinct (map BS_Slug is)" and "list_all (\<lambda>i. verifySkill be i (archives (BS_SHA256 i)) \<noteq> None) is"
  shows "distinct (map BS_SHA256 is)"
proof -
  have "BS_Slug i = BS_Slug j" if "i \<in> set is" "j \<in> set is" "BS_SHA256 i = BS_SHA256 j" for i j
  proof -
    obtain p q where "verifySkill be i (archives (BS_SHA256 i)) = Some p" "verifySkill be j (archives (BS_SHA256 j)) = Some q"
      using assms(2) \<open>i \<in> set is\<close> \<open>j \<in> set is\<close> by (fastforce simp: list_all_iff)
    then show ?thesis using that(3) by (simp add: verifySkill_Some)
  qed
  then have "inj_on BS_SHA256 (set is)" using assms(1) unfolding distinct_map by (intro inj_onI) (blast dest: inj_onD)
  then show ?thesis using assms(1) by (simp add: distinct_map)
qed

lemma path_Clean_plain:
  assumes "ws \<noteq> []" and "list_all plainPart ws" and "\<forall>w \<in> set ws. CHR ''/'' \<notin> set w"
  shows "path_Clean (joinWith ''/'' ws) = joinWith ''/'' ws" and "\<not> path_IsAbs (joinWith ''/'' ws)"
proof -
  obtain c w vs where ws: "ws = (c # w) # vs" using assms(1,2) by (cases ws; cases "hd ws") (auto simp: plainPart_def)
  then have "c \<noteq> CHR ''/''" using assms(3) by auto
  then show abs: "\<not> path_IsAbs (joinWith ''/'' ws)" unfolding ws by (cases vs) (simp_all add: path_IsAbs_def HasPrefix_def)
  show "path_Clean (joinWith ''/'' ws) = joinWith ''/'' ws"
    using abs assms(1) splitOn_joinWith [OF assms(1,3)] foldl_cleanStep_plain [OF assms(2), of False "[]"] by (simp add: path_Clean_def)
qed

definition safeName :: "string \<Rightarrow> bool" where
  "safeName n = (path_Clean n = n \<and> n \<noteq> ''.'' \<and> n \<noteq> ''..'' \<and> \<not> HasPrefix n ''../'' \<and> \<not> path_IsAbs n \<and> \<not> Contains n [CHR 0x5C])"

lemma Contains_char: "Contains s [c] \<Longrightarrow> c \<in> set s"
  by (auto simp: Contains_def dest: set_mono_sublist)

lemma hexLower_ne: "isHexLower c \<Longrightarrow> c \<noteq> CHR ''/'' \<and> c \<noteq> CHR 0x5C"
  by (auto simp: isHexLower_def isDigit_def less_eq_char_def)

lemma safeName_archive: "IsSHA256 sha \<Longrightarrow> safeName (archiveName sha)"
proof -
  assume a: "IsSHA256 sha"
  then have c: "\<forall>c \<in> set sha. c \<noteq> CHR ''/'' \<and> c \<noteq> CHR 0x5C" by (auto simp: IsSHA256_def list_all_iff dest: hexLower_ne)
  have len: "length (sha @ ''.zip'') = 68" using a by (simp add: IsSHA256_def)
  then have plain: "list_all plainPart [''skills'', sha @ ''.zip'']" by (auto simp: plainPart_def)
  have sep: "\<forall>w \<in> set [''skills'', sha @ ''.zip'']. CHR ''/'' \<notin> set w" using c by auto
  have n: "archiveName sha = joinWith ''/'' [''skills'', sha @ ''.zip'']" by (simp add: archiveName_def)
  have "CHR 0x5C \<notin> set (archiveName sha)" using c by (auto simp: archiveName_def)
  then have "\<not> Contains (archiveName sha) [CHR 0x5C]" by (auto dest: Contains_char)
  moreover have "path_Clean (archiveName sha) = archiveName sha" "\<not> path_IsAbs (archiveName sha)"
    unfolding n by (rule path_Clean_plain [OF _ plain sep]; simp)+
  ultimately show ?thesis by (simp add: safeName_def archiveName_def HasPrefix_def)
qed

lemma safeName_fixed: "safeName ''manifest.json''" "safeName ''secrets.json''"
  by code_simp+

text \<open>How the ZIP reader shows an entry that the writer was given.\<close>

definition zipped :: "string \<times> int \<times> string \<Rightarrow> zip_file" where
  "zipped = (\<lambda>(n, m, b). \<lparr>zf_name = n, zf_isDir = False, zf_mode = m, zf_size = int (length b), zf_open = Inr b\<rparr>)"

lemma modeType_384: "\<not> modeType 384"
  by code_simp

lemma readEntries_step:
  assumes "safeName n" and "map_of files n = None"
  shows "readEntries (zipped (n, 384, b) # zs) files =
     (if int (length b) > entryLimit n then Inl (errorsNew ''Profile Bundle entry exceeds size limit'') else readEntries zs (files @ [(n, b)]))"
  using assms modeType_384 by (simp add: safeName_def zipped_def Let_def readEntry_def)

lemma readEntries_zipped:
  assumes "list_all safeName (map fst es)" and "distinct (map fst es)" and "set (map fst es) \<inter> set (map fst files) = {}"
  shows "if list_all (\<lambda>(n, b). int (length b) \<le> entryLimit n) es
     then readEntries (map (\<lambda>(n, b). zipped (n, 384, b)) es) files = Inr (files @ es)
     else isl (readEntries (map (\<lambda>(n, b). zipped (n, 384, b)) es) files)"
  using assms
proof (induction es arbitrary: files)
  case (Cons e es)
  obtain n b where e: "e = (n, b)" by (cases e)
  have m: "map_of files n = None" using Cons.prems(3) by (auto simp: e map_of_eq_None_iff)
  have "safeName n" using Cons.prems(1) by (simp add: e)
  note step = readEntries_step [OF this m, of b "map (\<lambda>(n, b). zipped (n, 384, b)) es"]
  show ?case
  proof (cases "int (length b) > entryLimit n")
    case True
    then show ?thesis using step by (simp add: e)
  next
    case False
    have "set (map fst es) \<inter> set (map fst (files @ [(n, b)])) = {}" using Cons.prems(2,3) by (auto simp: e)
    from Cons.IH [OF _ _ this] Cons.prems(1,2) False step show ?thesis by (simp add: e not_less split: if_splits)
  qed
qed simp

definition bundleFiles :: "bundle_env \<Rightarrow> BundleManifest \<Rightarrow> (string \<Rightarrow> string) \<Rightarrow> SecretDocument option \<Rightarrow> (string \<times> string) list" where
  "bundleFiles be m archives secrets =
     (''manifest.json'', be_marshal be (manifestJSON (encodedManifest be m secrets)))
       # map (\<lambda>i. (archiveName (BS_SHA256 i), archives (BS_SHA256 i))) (sort_key BS_SHA256 (MF_Skills m))
       @ (case secrets of None \<Rightarrow> [] | Some s \<Rightarrow> [(''secrets.json'', be_marshal be (secretsJSON (completeSecrets s)))])"

abbreviation archivesVerify :: "bundle_env \<Rightarrow> (string \<Rightarrow> string) \<Rightarrow> BundleSkill list \<Rightarrow> bool" where
  "archivesVerify be archives is \<equiv> list_all (\<lambda>i. verifySkill be i (archives (BS_SHA256 i)) \<noteq> None) is"

lemma bundleEntries_Inr:
  assumes "bundleEntries be m archives secrets = Inr es"
  shows "validateManifest be (encodedManifest be m secrets) = Inr (encodedManifest be m secrets)"
    and "archivesVerify be archives (MF_Skills m)"
    and "secrets = Some s \<Longrightarrow> validateSecrets (encodedManifest be m secrets) (completeSecrets s) = None"
    and "es = map (\<lambda>(n, b). (n, 384, b)) (bundleFiles be m archives secrets)"
proof -
  obtain manifest where v: "validateManifest be (completeManifest be m (secrets \<noteq> None)) = Inr manifest"
    using assms by (cases "validateManifest be (completeManifest be m (secrets \<noteq> None))") (simp_all add: bundleEntries_def)
  then have mf: "manifest = encodedManifest be m secrets" unfolding encodedManifest_def by (rule validateManifest_Inr)
  show "validateManifest be (encodedManifest be m secrets) = Inr (encodedManifest be m secrets)"
    using validateManifest_again [OF v] by (simp add: mf)
  obtain ks where k: "skillEntries be archives (sort_key BS_SHA256 (MF_Skills m)) = Inr ks"
    using assms v by (cases "skillEntries be archives (sort_key BS_SHA256 (MF_Skills m))") (simp_all add: bundleEntries_def mf encodedManifest_sel)
  obtain ss where s: "secretEntries be (encodedManifest be m secrets) (map_option completeSecrets secrets) = Inr ss"
    using assms v k by (cases "secretEntries be (encodedManifest be m secrets) (map_option completeSecrets secrets)")
      (simp_all add: bundleEntries_def mf encodedManifest_sel)
  have es: "es = (''manifest.json'', 384, be_marshal be (manifestJSON (encodedManifest be m secrets))) # ks @ ss"
    using assms v k s by (simp add: bundleEntries_def mf encodedManifest_sel)
  show "archivesVerify be archives (MF_Skills m)" using k by (simp add: skillEntries_Inr list_all_iff)
  show "secrets = Some s \<Longrightarrow> validateSecrets (encodedManifest be m secrets) (completeSecrets s) = None"
    using s by (simp add: secretEntries_def split: option.splits)
  have "ss = map (\<lambda>(n, b). (n, 384, b)) (case secrets of None \<Rightarrow> [] | Some s \<Rightarrow> [(''secrets.json'', be_marshal be (secretsJSON (completeSecrets s)))])"
    using s by (auto simp: secretEntries_def split: option.splits)
  moreover have "ks = map (\<lambda>(n, b). (n, 384, b)) (map (\<lambda>i. (archiveName (BS_SHA256 i), archives (BS_SHA256 i))) (sort_key BS_SHA256 (MF_Skills m)))"
    using k by (simp add: skillEntries_Inr comp_def)
  ultimately show "es = map (\<lambda>(n, b). (n, 384, b)) (bundleFiles be m archives secrets)"
    unfolding es bundleFiles_def by simp
qed

lemma archiveName_other: "archiveName sha \<noteq> ''manifest.json''" "archiveName sha \<noteq> ''secrets.json''"
    "''manifest.json'' \<noteq> archiveName sha" "''secrets.json'' \<noteq> archiveName sha"
  by (simp_all add: archiveName_def)

lemma archiveName_inj: "(archiveName a = archiveName b) = (a = b)"
  by (simp add: archiveName_def)

lemma validated_shas: "validateManifest be m = Inr m' \<Longrightarrow> list_all (\<lambda>i. IsSHA256 (BS_SHA256 i)) (MF_Skills m) \<and> distinct (map BS_Slug (MF_Skills m))"
  using checkBundleSkills_None [of be "MF_Skills m" "[]"] by (auto simp: validateManifest_def Let_def split: if_splits option.splits)

lemma bundleFiles_names:
  assumes "list_all (\<lambda>i. IsSHA256 (BS_SHA256 i)) (MF_Skills m)" and "distinct (map BS_SHA256 (MF_Skills m))"
  shows "list_all safeName (map fst (bundleFiles be m archives secrets))" and "distinct (map fst (bundleFiles be m archives secrets))"
proof -
  have names: "map fst (bundleFiles be m archives secrets) = ''manifest.json'' # map (\<lambda>i. archiveName (BS_SHA256 i)) (sort_key BS_SHA256 (MF_Skills m))
     @ (if secrets = None then [] else [''secrets.json''])"
    by (simp add: bundleFiles_def comp_def split: option.splits)
  have d: "distinct (map (\<lambda>i. archiveName (BS_SHA256 i)) (sort_key BS_SHA256 (MF_Skills m)))"
    using assms(2) by (auto simp: distinct_map inj_on_def archiveName_inj)
  show "distinct (map fst (bundleFiles be m archives secrets))"
    unfolding names using d by (auto simp: archiveName_other)
  show "list_all safeName (map fst (bundleFiles be m archives secrets))"
    unfolding names using assms(1) by (auto simp: list_all_iff safeName_fixed safeName_archive)
qed

lemma bundleFiles_lookup:
  assumes "distinct (map fst (bundleFiles be m archives secrets))"
  shows "fileOf (bundleFiles be m archives secrets) ''manifest.json'' = be_marshal be (manifestJSON (encodedManifest be m secrets))"
    and "i \<in> set (MF_Skills m) \<Longrightarrow> fileOf (bundleFiles be m archives secrets) (archiveName (BS_SHA256 i)) = archives (BS_SHA256 i)"
    and "fileOf (bundleFiles be m archives secrets) ''secrets.json'' =
      (case secrets of None \<Rightarrow> [] | Some s \<Rightarrow> be_marshal be (secretsJSON (completeSecrets s)))"
proof -
  show "fileOf (bundleFiles be m archives secrets) ''manifest.json'' = be_marshal be (manifestJSON (encodedManifest be m secrets))"
    by (simp add: bundleFiles_def fileOf_def)
  show "fileOf (bundleFiles be m archives secrets) (archiveName (BS_SHA256 i)) = archives (BS_SHA256 i)" if "i \<in> set (MF_Skills m)"
  proof -
    have "(archiveName (BS_SHA256 i), archives (BS_SHA256 i)) \<in> set (bundleFiles be m archives secrets)"
      using that by (auto simp: bundleFiles_def)
    from map_of_is_SomeI [OF assms this] show ?thesis by (simp add: fileOf_def)
  qed
  show "fileOf (bundleFiles be m archives secrets) ''secrets.json'' =
      (case secrets of None \<Rightarrow> [] | Some s \<Rightarrow> be_marshal be (secretsJSON (completeSecrets s)))"
  proof (cases secrets)
    case None
    then have "''secrets.json'' \<notin> fst ` set (bundleFiles be m archives secrets)" by (auto simp: bundleFiles_def archiveName_other)
    then have "map_of (bundleFiles be m archives secrets) ''secrets.json'' = None" by (simp only: map_of_eq_None_iff) simp
    then show ?thesis using None by (simp add: fileOf_def)
  next
    case (Some s)
    have "(''secrets.json'', be_marshal be (secretsJSON (completeSecrets s))) \<in> set (bundleFiles be m archives secrets)"
      using Some by (simp add: bundleFiles_def)
    from map_of_is_SomeI [OF assms this] show ?thesis using Some by (simp add: fileOf_def)
  qed
qed

lemma parseSkills_agree:
  assumes "list_all (\<lambda>i. verifySkill be i (fileOf files (archiveName (BS_SHA256 i))) \<noteq> None) is"
  shows "if list_all (\<lambda>i. PK_Name (the (verifySkill be i (fileOf files (archiveName (BS_SHA256 i))))) = BS_Name i) is
     then parseSkills be files is = Inr (map (\<lambda>i. (BS_SHA256 i, the (verifySkill be i (fileOf files (archiveName (BS_SHA256 i)))))) is)
     else isl (parseSkills be files is)"
  using assms
proof (induction "is")
  case (Cons i "is")
  then show ?case by (cases "parseSkills be files is") (auto split: if_splits)
qed simp

section \<open>Export and import\<close>

definition documentLimit :: int where
  "documentLimit = 2 * 2 ^ 20"

lemma ScanZIP_size: "ScanZIP pe body DefaultLimits = Inr pkg \<Longrightarrow> int (length body) \<le> MaxArchiveBytes DefaultLimits"
  by (auto simp: ScanZIP_def split: if_splits)

lemma entryLimits: "entryLimit ''manifest.json'' = documentLimit" "entryLimit ''secrets.json'' = documentLimit"
    "entryLimit (archiveName sha) = MaxArchiveBytes DefaultLimits"
  by (simp_all add: entryLimit_def documentLimit_def archiveName_def HasPrefix_def)

text \<open>The documents that an import reads.\<close>

definition documentsFit :: "bundle_env \<Rightarrow> BundleManifest \<Rightarrow> SecretDocument option \<Rightarrow> bool" where
  "documentsFit be m secrets = (int (length (be_marshal be (manifestJSON (encodedManifest be m secrets)))) \<le> documentLimit
     \<and> (case secrets of None \<Rightarrow> True | Some s \<Rightarrow> int (length (be_marshal be (secretsJSON (completeSecrets s)))) \<le> documentLimit))"

lemma bundleFiles_fit:
  assumes "archivesVerify be archives (MF_Skills m)"
  shows "list_all (\<lambda>(n, b). int (length b) \<le> entryLimit n) (bundleFiles be m archives secrets) = documentsFit be m secrets"
proof -
  have "int (length (archives (BS_SHA256 i))) \<le> MaxArchiveBytes DefaultLimits" if "i \<in> set (MF_Skills m)" for i
    using assms that by (auto simp: list_all_iff verifySkill_Some dest: ScanZIP_size)
  then have "list_all (\<lambda>(n, b). int (length b) \<le> entryLimit n)
      (map (\<lambda>i. (archiveName (BS_SHA256 i), archives (BS_SHA256 i))) (sort_key BS_SHA256 (MF_Skills m)))"
    by (simp add: list_all_iff entryLimits)
  then show ?thesis by (simp add: bundleFiles_def documentsFit_def entryLimits split: option.splits)
qed

text \<open>What \<open>Parse\<close> returns for the entries that \<open>Encode\<close> wrote.\<close>

definition namesAgree :: "bundle_env \<Rightarrow> (string \<Rightarrow> string) \<Rightarrow> BundleSkill list \<Rightarrow> bool" where
  "namesAgree be archives is = list_all (\<lambda>i. case ScanZIP (be_skills be) (archives (BS_SHA256 i)) DefaultLimits of
     Inl _ \<Rightarrow> False | Inr pkg \<Rightarrow> PK_Name pkg = BS_Name i) is"

definition bundleSecrets :: "SecretDocument option \<Rightarrow> SecretDocument" where
  "bundleSecrets secrets = (case secrets of None \<Rightarrow> \<lparr>SD_SchemaVersion = SchemaVersion, SD_MCPServers = []\<rparr> | Some s \<Rightarrow> completeSecrets s)"

lemma parseFiles_bundle:
  assumes v: "validateManifest be (encodedManifest be m secrets) = Inr (encodedManifest be m secrets)"
    and verify: "archivesVerify be archives (MF_Skills m)"
    and sec: "\<And>s. secrets = Some s \<Longrightarrow> validateSecrets (encodedManifest be m secrets) (completeSecrets s) = None"
    and dist: "distinct (map fst (bundleFiles be m archives secrets))"
    and man: "be_marshal be (manifestJSON (encodedManifest be m secrets)) \<noteq> []"
      "be_decodeManifest be (be_marshal be (manifestJSON (encodedManifest be m secrets))) = Some (encodedManifest be m secrets)"
    and doc: "\<And>s. secrets = Some s \<Longrightarrow> be_decodeSecrets be (be_marshal be (secretsJSON (completeSecrets s))) = Some (completeSecrets s)"
  shows "if namesAgree be archives (MF_Skills m)
     then \<exists>packages. parseFiles be body (bundleFiles be m archives secrets) = Inr \<lparr>PA_Manifest = encodedManifest be m secrets,
         PA_Packages = packages, PA_Secrets = bundleSecrets secrets, PA_BundleHash = hexEncode (pe_sha (be_skills be) body)\<rparr>
       \<and> map fst packages = map BS_SHA256 (MF_Skills m)
       \<and> list_all (\<lambda>(sha, pkg). ScanZIP (be_skills be) (archives sha) DefaultLimits = Inr pkg) packages
     else isl (parseFiles be body (bundleFiles be m archives secrets))"
proof -
  let ?fe = "bundleFiles be m archives secrets" and ?em = "encodedManifest be m secrets"
  have files: "list_all (\<lambda>i. verifySkill be i (fileOf ?fe (archiveName (BS_SHA256 i))) = verifySkill be i (archives (BS_SHA256 i))) (MF_Skills m)"
    by (simp add: list_all_iff bundleFiles_lookup(2) [OF dist])
  have "list_all (\<lambda>i. verifySkill be i (fileOf ?fe (archiveName (BS_SHA256 i))) \<noteq> None) (MF_Skills m)"
    using files verify by (simp add: list_all_iff)
  note ps = parseSkills_agree [OF this]
  have scan: "ScanZIP (be_skills be) (archives (BS_SHA256 i)) DefaultLimits = Inr (the (verifySkill be i (archives (BS_SHA256 i))))"
    if "i \<in> set (MF_Skills m)" for i
  proof -
    obtain pkg where "verifySkill be i (archives (BS_SHA256 i)) = Some pkg" using verify \<open>i \<in> set (MF_Skills m)\<close> by (auto simp: list_all_iff)
    moreover from this have "ScanZIP (be_skills be) (archives (BS_SHA256 i)) DefaultLimits = Inr pkg" by (simp add: verifySkill_Some)
    ultimately show ?thesis by simp
  qed
  have agree: "namesAgree be archives (MF_Skills m)
      = list_all (\<lambda>i. PK_Name (the (verifySkill be i (fileOf ?fe (archiveName (BS_SHA256 i))))) = BS_Name i) (MF_Skills m)"
    using files by (simp add: namesAgree_def list_all_iff scan)
  have secrets: "parseSecrets be ?em ?fe = Inr (bundleSecrets secrets)"
  proof (cases secrets)
    case None
    note lookup = bundleFiles_lookup(3) [OF dist, unfolded None]
    show ?thesis unfolding None by (simp add: parseSecrets_def encodedManifest_sel lookup bundleSecrets_def)
  next
    case (Some s)
    note lookup = bundleFiles_lookup(3) [OF dist, unfolded Some]
    show ?thesis using sec [OF Some] doc [OF Some] unfolding Some by (simp add: parseSecrets_def encodedManifest_sel lookup bundleSecrets_def)
  qed
  have expected: "find (\<lambda>(n, _). n \<notin> set (expectedFiles ?em)) ?fe = None"
    by (auto simp: find_None_iff bundleFiles_def expectedFiles_def encodedManifest_sel split: option.splits)
  note red = parseFiles_def bundleFiles_lookup(1) [OF dist] man v encodedManifest_hash encodedManifest_sel(1) secrets expected
  show ?thesis
  proof (cases "namesAgree be archives (MF_Skills m)")
    case True
    then have "parseSkills be ?fe (MF_Skills m) = Inr (map (\<lambda>i. (BS_SHA256 i, the (verifySkill be i (fileOf ?fe (archiveName (BS_SHA256 i)))))) (MF_Skills m))"
      using ps by (simp add: agree)
    moreover have "list_all (\<lambda>(sha, pkg). ScanZIP (be_skills be) (archives sha) DefaultLimits = Inr pkg)
        (map (\<lambda>i. (BS_SHA256 i, the (verifySkill be i (fileOf ?fe (archiveName (BS_SHA256 i)))))) (MF_Skills m))"
      using files by (simp add: list_all_iff scan)
    ultimately show ?thesis using True by (simp add: red comp_def)
  next
    case False
    then have "isl (parseSkills be ?fe (MF_Skills m))" using ps by (simp add: agree)
    then obtain e where "parseSkills be ?fe (MF_Skills m) = Inl e" by (cases "parseSkills be ?fe (MF_Skills m)") simp_all
    then show ?thesis using False by (simp add: red)
  qed
qed

lemma encode_parse:
  assumes enc: "Encode be m archives secrets = Inr body"
    and zip: "\<And>es. bundleEntries be m archives secrets = Inr es \<Longrightarrow> body \<noteq> [] \<and> pe_openZip (be_skills be) body = Inr (map zipped es)"
    and man: "be_marshal be (manifestJSON (encodedManifest be m secrets)) \<noteq> []"
      "be_decodeManifest be (be_marshal be (manifestJSON (encodedManifest be m secrets))) = Some (encodedManifest be m secrets)"
    and doc: "\<And>s. secrets = Some s \<Longrightarrow> be_decodeSecrets be (be_marshal be (secretsJSON (completeSecrets s))) = Some (completeSecrets s)"
  shows "if documentsFit be m secrets \<and> namesAgree be archives (MF_Skills m)
     then \<exists>packages. Parse be body = Inr \<lparr>PA_Manifest = encodedManifest be m secrets, PA_Packages = packages,
         PA_Secrets = bundleSecrets secrets, PA_BundleHash = hexEncode (pe_sha (be_skills be) body)\<rparr>
       \<and> map fst packages = map BS_SHA256 (MF_Skills m)
       \<and> list_all (\<lambda>(sha, pkg). ScanZIP (be_skills be) (archives sha) DefaultLimits = Inr pkg) packages
     else isl (Parse be body)"
proof -
  let ?fe = "bundleFiles be m archives secrets"
  obtain es where es: "bundleEntries be m archives secrets = Inr es" and len: "int (length body) \<le> MaxBundleBytes"
    using enc by (auto simp: Encode_def split: sum.splits if_splits)
  note b = bundleEntries_Inr [OF es]
  have shas: "list_all (\<lambda>i. IsSHA256 (BS_SHA256 i)) (MF_Skills m)" "distinct (map BS_SHA256 (MF_Skills m))"
    using validated_shas [OF b(1)] distinct_shas [OF _ b(2)] by (simp_all add: encodedManifest_sel)
  note names = bundleFiles_names [OF shas, of be archives secrets]
  have members: "length (MF_Skills m) \<le> 500"
    using b(1) by (auto simp: validateManifest_def Let_def encodedManifest_sel MaxMembers_def split: if_splits)
  have opened: "pe_openZip (be_skills be) body = Inr (map (\<lambda>(n, c). zipped (n, 384, c)) ?fe)" "body \<noteq> []"
    using zip [OF es] by (simp_all add: b(4) comp_def split_def)
  have few: "length ?fe \<le> 2 + MaxMembers" using members by (simp add: bundleFiles_def MaxMembers_def split: option.splits)
  have start: "Parse be body = (case readEntries (map (\<lambda>(n, c). zipped (n, 384, c)) ?fe) [] of Inl e \<Rightarrow> Inl e | Inr files \<Rightarrow> parseFiles be body files)"
    using opened len few by (simp add: Parse_def)
  note re = readEntries_zipped [OF names, of "[]", simplified bundleFiles_fit [OF b(2)]]
  show ?thesis
  proof (cases "documentsFit be m secrets")
    case True
    then have "readEntries (map (\<lambda>(n, c). zipped (n, 384, c)) ?fe) [] = Inr ?fe" using re by simp
    then have "Parse be body = parseFiles be body ?fe" by (simp add: start)
    then show ?thesis using True parseFiles_bundle [OF b(1) b(2) b(3) names(2) man doc, of body] by simp
  next
    case False
    then have "isl (readEntries (map (\<lambda>(n, c). zipped (n, 384, c)) ?fe) [])" using re by simp
    then obtain e where "readEntries (map (\<lambda>(n, c). zipped (n, 384, c)) ?fe) [] = Inl e"
      by (cases "readEntries (map (\<lambda>(n, c). zipped (n, 384, c)) ?fe) []") simp_all
    then show ?thesis using False by (simp add: start)
  qed
qed

text \<open>
  C28. Which exported bundles can be imported. When \<open>Encode\<close> writes a bundle, and the ZIP reader shows its entries and the
  decoder the two documents as they were written, \<open>Parse\<close> accepts it exactly when the name of every Skill in the manifest is
  the name in its archive and both documents have at most 2 MiB, which \<open>Encode\<close> does not check. Then it returns the manifest
  (normalized, with its hash), one scanned package for every Skill, and the secrets.
\<close>

theorem bundle_roundtrip:
  assumes enc: "Encode be m archives secrets = Inr body"
    and zip: "\<And>es. bundleEntries be m archives secrets = Inr es \<Longrightarrow> body \<noteq> [] \<and> pe_openZip (be_skills be) body = Inr (map zipped es)"
    and man: "be_marshal be (manifestJSON (encodedManifest be m secrets)) \<noteq> []"
      "be_decodeManifest be (be_marshal be (manifestJSON (encodedManifest be m secrets))) = Some (encodedManifest be m secrets)"
    and doc: "\<And>s. secrets = Some s \<Longrightarrow> be_decodeSecrets be (be_marshal be (secretsJSON (completeSecrets s))) = Some (completeSecrets s)"
  shows "if documentsFit be m secrets \<and> namesAgree be archives (MF_Skills m)
     then \<exists>packages. Parse be body = Inr \<lparr>PA_Manifest = encodedManifest be m secrets, PA_Packages = packages,
         PA_Secrets = bundleSecrets secrets, PA_BundleHash = hexEncode (pe_sha (be_skills be) body)\<rparr>
       \<and> map fst packages = map BS_SHA256 (MF_Skills m)
       \<and> list_all (\<lambda>(sha, pkg). ScanZIP (be_skills be) (archives sha) DefaultLimits = Inr pkg) packages
     else isl (Parse be body)"
  using encode_parse [OF enc zip man doc] .

section \<open>What an accepted bundle contains\<close>

lemma readEntries_Inr:
  "readEntries zs files = Inr out \<Longrightarrow> \<exists>more. out = files @ more \<and> length more = length zs \<and> list_all safeName (map fst more)
     \<and> (distinct (map fst files) \<longrightarrow> distinct (map fst out))"
proof (induction zs arbitrary: files)
  case (Cons z zs)
  let ?n = "path_Clean (zf_name z)"
  obtain b where "map_of files ?n = None" and r: "readEntries zs (files @ [(?n, b)]) = Inr out" and safe: "safeName ?n"
    using Cons.prems(1) by (auto simp: Let_def safeName_def split: if_splits sum.splits)
  then have d: "distinct (map fst files) \<Longrightarrow> distinct (map fst (files @ [(?n, b)]))" by (auto simp: map_of_eq_None_iff)
  obtain more where "out = (files @ [(?n, b)]) @ more" "length more = length zs" "list_all safeName (map fst more)"
      "distinct (map fst (files @ [(?n, b)])) \<longrightarrow> distinct (map fst out)"
    using Cons.IH [OF r] by blast
  then show ?case using d safe by (intro exI [of _ "(?n, b) # more"]) simp
qed simp

lemma sameKeys_exact:
  assumes "sameKeys expected values" and "distinct expected" and "distinct (map fst values)"
  shows "set (map fst values) = set expected"
proof -
  have "set expected \<subseteq> set (map fst values)" using assms(1) by (auto simp: sameKeys_def list_all_iff map_of_eq_None_iff)
  moreover have "card (set expected) = card (set (map fst values))"
    using assms unfolding sameKeys_def by (metis distinct_card length_map)
  ultimately show ?thesis using card_subset_eq [of "set (map fst values)" "set expected"] by simp
qed

definition bindingOf :: "BundleMCP \<Rightarrow> SecretMCP \<Rightarrow> bool" where
  "bindingOf server b = (BM_Key server = SM_Key b \<and> sameKeys (BM_EnvSlots server) (SM_Env b) \<and> sameKeys (BM_HeaderSlots server) (SM_Headers b))"

lemma checkSecrets_Inr:
  "checkSecrets servers bs seen = Inr out \<Longrightarrow> list_all (\<lambda>b. list_ex (\<lambda>server. bindingOf server b) servers) bs
     \<and> distinct (map SM_Key bs) \<and> set (map SM_Key bs) \<inter> set seen = {} \<and> set out = set seen \<union> set (map SM_Key bs)"
proof (induction bs arbitrary: seen)
  case (Cons b bs)
  obtain server where f: "find (\<lambda>s. BM_Key s = SM_Key b) (rev servers) = Some server"
    and c: "SM_Key b \<notin> set seen" "sameKeys (BM_EnvSlots server) (SM_Env b)" "sameKeys (BM_HeaderSlots server) (SM_Headers b)"
    and r: "checkSecrets servers bs (SM_Key b # seen) = Inr out"
    using Cons.prems by (auto split: option.splits if_splits)
  have "server \<in> set servers" "BM_Key server = SM_Key b" using find_key_SomeD [OF f] by simp_all
  then have "list_ex (\<lambda>server. bindingOf server b) servers" using c by (auto simp: list_ex_iff bindingOf_def)
  with Cons.IH [OF r] c(1) show ?case by auto
qed simp

text \<open>A binding gives a value for every declared slot of its server and for nothing else.\<close>

definition exactBinding :: "BundleMCP \<Rightarrow> SecretMCP \<Rightarrow> bool" where
  "exactBinding server b = (BM_Key server = SM_Key b \<and> set (map fst (SM_Env b)) = set (BM_EnvSlots server)
     \<and> set (map fst (SM_Headers b)) = set (BM_HeaderSlots server))"

lemma validateSecrets_exact:
  assumes "validateSecrets (normalizeManifest m) s = None"
    and maps: "list_all (\<lambda>b. distinct (map fst (SM_Env b)) \<and> distinct (map fst (SM_Headers b))) (SD_MCPServers s)"
  shows "list_all (\<lambda>b. list_ex (\<lambda>server. exactBinding server b) (MF_MCPServers (normalizeManifest m))) (SD_MCPServers s)"
    and "distinct (map SM_Key (SD_MCPServers s))"
    and "list_all (\<lambda>server. BM_EnvSlots server = [] \<and> BM_HeaderSlots server = [] \<or> BM_Key server \<in> set (map SM_Key (SD_MCPServers s)))
      (MF_MCPServers (normalizeManifest m))"
proof -
  obtain out where c: "checkSecrets (MF_MCPServers (normalizeManifest m)) (SD_MCPServers s) [] = Inr out"
    and slots: "\<not> list_ex (\<lambda>i. (BM_EnvSlots i \<noteq> [] \<or> BM_HeaderSlots i \<noteq> []) \<and> BM_Key i \<notin> set out) (MF_MCPServers (normalizeManifest m))"
    using assms(1) unfolding validateSecrets_def by (auto split: if_splits sum.splits)
  note r = checkSecrets_Inr [OF c]
  then show "distinct (map SM_Key (SD_MCPServers s))" by simp
  show "list_all (\<lambda>server. BM_EnvSlots server = [] \<and> BM_HeaderSlots server = [] \<or> BM_Key server \<in> set (map SM_Key (SD_MCPServers s)))
      (MF_MCPServers (normalizeManifest m))"
    using slots r unfolding list_all_iff list_ex_iff by auto
  have "exactBinding server b" if "bindingOf server b" "server \<in> set (MF_MCPServers (normalizeManifest m))" "b \<in> set (SD_MCPServers s)" for server b
  proof -
    have "distinct (BM_EnvSlots server)" "distinct (BM_HeaderSlots server)"
      using that(2) by (auto simp: normalizeMCP_def sortedUnique_facts)
    moreover have "distinct (map fst (SM_Env b))" "distinct (map fst (SM_Headers b))" using maps that(3) by (simp_all add: list_all_iff)
    ultimately show ?thesis using that(1) sameKeys_exact unfolding bindingOf_def exactBinding_def by blast
  qed
  then show "list_all (\<lambda>b. list_ex (\<lambda>server. exactBinding server b) (MF_MCPServers (normalizeManifest m))) (SD_MCPServers s)"
    using r unfolding list_all_iff list_ex_iff by blast
qed

lemma parseSkills_Inr:
  "parseSkills be files is = Inr ps \<Longrightarrow> list_all2 (\<lambda>i (sha, pkg). sha = BS_SHA256 i
     \<and> ScanZIP (be_skills be) (fileOf files (archiveName sha)) DefaultLimits = Inr pkg
     \<and> PK_SHA256 pkg = BS_SHA256 i \<and> PK_ContentHash pkg = BS_ContentHash i \<and> PK_Slug pkg = BS_Slug i \<and> PK_Name pkg = BS_Name i) is ps"
proof (induction "is" arbitrary: ps)
  case (Cons i "is")
  obtain pkg qs where "verifySkill be i (fileOf files (archiveName (BS_SHA256 i))) = Some pkg" "PK_Name pkg = BS_Name i"
      "parseSkills be files is = Inr qs" "ps = (BS_SHA256 i, pkg) # qs"
    using Cons.prems by (auto split: option.splits if_splits sum.splits)
  then show ?case using Cons.IH by (simp add: verifySkill_Some)
qed simp

text \<open>
  C29. What an accepted bundle contains. \<open>Parse\<close> accepts a container only when its entries have distinct, safe relative
  names, all of them expected; its manifest is valid and carries its own canonical hash; every Skill has the archive named by
  its hash, and the scan of that archive has the manifest's hashes, slug and name. A standard bundle has no secrets; in a
  secret-bearing one every binding belongs to a server and has values for exactly its declared slots, no server has two
  bindings, and no server with slots is left without.
\<close>

theorem parsed_bundle_verified:
  assumes p: "Parse be body = Inr p"
    and maps: "\<forall>t s. be_decodeSecrets be t = Some s \<longrightarrow>
       list_all (\<lambda>b. distinct (map fst (SM_Env b)) \<and> distinct (map fst (SM_Headers b))) (SD_MCPServers s)"
  shows "\<exists>zs files raw. pe_openZip (be_skills be) body = Inr zs \<and> readEntries zs [] = Inr files
     \<and> distinct (map fst files) \<and> list_all safeName (map fst files) \<and> set (map fst files) \<subseteq> set (expectedFiles (PA_Manifest p))
     \<and> be_decodeManifest be (fileOf files ''manifest.json'') = Some raw \<and> PA_Manifest p = normalizeManifest raw
     \<and> validateManifest be (PA_Manifest p) = Inr (PA_Manifest p)
     \<and> BP_CanonicalHash (MF_Profile (PA_Manifest p)) = CanonicalProfileHash be (PA_Manifest p)
     \<and> list_all2 (\<lambda>i (sha, pkg). sha = BS_SHA256 i \<and> ScanZIP (be_skills be) (fileOf files (archiveName sha)) DefaultLimits = Inr pkg
         \<and> PK_SHA256 pkg = BS_SHA256 i \<and> PK_ContentHash pkg = BS_ContentHash i \<and> PK_Slug pkg = BS_Slug i \<and> PK_Name pkg = BS_Name i)
       (MF_Skills (PA_Manifest p)) (PA_Packages p)
     \<and> (if MF_Kind (PA_Manifest p) = KindSecrets
        then list_all (\<lambda>b. list_ex (\<lambda>server. exactBinding server b) (MF_MCPServers (PA_Manifest p))) (SD_MCPServers (PA_Secrets p))
          \<and> distinct (map SM_Key (SD_MCPServers (PA_Secrets p)))
          \<and> list_all (\<lambda>server. BM_EnvSlots server = [] \<and> BM_HeaderSlots server = [] \<or> BM_Key server \<in> set (map SM_Key (SD_MCPServers (PA_Secrets p))))
            (MF_MCPServers (PA_Manifest p))
        else SD_MCPServers (PA_Secrets p) = [])"
proof -
  obtain zs files where zs: "pe_openZip (be_skills be) body = Inr zs" and files: "readEntries zs [] = Inr files"
    and pf: "parseFiles be body files = Inr p"
    using p by (auto simp: Parse_def split: if_splits sum.splits)
  obtain raw where raw: "be_decodeManifest be (fileOf files ''manifest.json'') = Some raw"
    using pf by (auto simp: parseFiles_def split: if_splits option.splits)
  obtain m where v: "validateManifest be raw = Inr m"
    using pf by (cases "validateManifest be raw") (simp_all add: parseFiles_def raw split: if_splits)
  have hash: "CanonicalProfileHash be m = BP_CanonicalHash (MF_Profile m)"
    using pf by (simp add: parseFiles_def raw v split: if_splits)
  obtain ps where ps: "parseSkills be files (MF_Skills m) = Inr ps"
    using pf by (cases "parseSkills be files (MF_Skills m)") (simp_all add: parseFiles_def raw v hash split: if_splits)
  obtain s where s: "parseSecrets be m files = Inr s"
    using pf by (cases "parseSecrets be m files") (simp_all add: parseFiles_def raw v hash ps split: if_splits)
  have e: "find (\<lambda>(n, _). n \<notin> set (expectedFiles m)) files = None"
    using pf by (cases "find (\<lambda>(n, _). n \<notin> set (expectedFiles m)) files") (auto simp: parseFiles_def raw v hash ps s split: if_splits)
  have pp: "PA_Manifest p = m" "PA_Packages p = ps" "PA_Secrets p = s"
    using pf by (auto simp: parseFiles_def raw v hash ps s e split: if_splits)
  have n: "distinct (map fst files)" "list_all safeName (map fst files)" using readEntries_Inr [OF files] by auto
  have sub: "set (map fst files) \<subseteq> set (expectedFiles m)" using e by (auto simp: find_None_iff)
  have bindings: "if MF_Kind m = KindSecrets
      then list_all (\<lambda>b. list_ex (\<lambda>server. exactBinding server b) (MF_MCPServers m)) (SD_MCPServers s)
        \<and> distinct (map SM_Key (SD_MCPServers s))
        \<and> list_all (\<lambda>server. BM_EnvSlots server = [] \<and> BM_HeaderSlots server = [] \<or> BM_Key server \<in> set (map SM_Key (SD_MCPServers s))) (MF_MCPServers m)
      else SD_MCPServers s = []"
  proof (cases "MF_Kind m = KindSecrets")
    case True
    then have d: "be_decodeSecrets be (fileOf files ''secrets.json'') = Some s" and "validateSecrets m s = None"
      using s by (auto simp: parseSecrets_def split: option.splits)
    then have "validateSecrets (normalizeManifest raw) s = None" using validateManifest_Inr [OF v] by simp
    from validateSecrets_exact [OF this maps [rule_format, OF d]] show ?thesis using True validateManifest_Inr [OF v] by simp
  next
    case False
    then have "s = \<lparr>SD_SchemaVersion = SchemaVersion, SD_MCPServers = []\<rparr>" using s by (auto simp: parseSecrets_def split: if_splits)
    then show ?thesis using False by simp
  qed
  show ?thesis unfolding pp
    using zs files n sub raw validateManifest_Inr [OF v] validateManifest_again [OF v] hash [symmetric] parseSkills_Inr [OF ps] bindings by blast
qed

section \<open>A bundle with one Skill and one server\<close>

definition exampleDigest :: string where
  "exampleDigest = concat (replicate 32 ''30'')"

definition exampleBundleEntries :: "(string \<times> int \<times> string) list" where
  "exampleBundleEntries = [(''manifest.json'', 384, ''{}''), (archiveName exampleDigest, 384, ''zip''), (''secrets.json'', 384, ''{}'')]"

definition exampleBundleServer :: BundleMCP where
  "exampleBundleServer = \<lparr>BM_Key = exampleDigest, BM_Name = ''files'', BM_Description = '''', BM_Transport = ''stdio'', BM_Command = ''run'',
     BM_Args = [], BM_URL = '''', BM_EnvSlots = [''TOKEN''], BM_HeaderSlots = [], BM_Provenance = noProvenance\<lparr>PN_Source := ''local''\<rparr>\<rparr>"

definition exampleManifestAt :: "string \<Rightarrow> string \<Rightarrow> string \<Rightarrow> string \<Rightarrow> BundleManifest" where
  "exampleManifestAt kind label h nm = \<lparr>MF_SchemaVersion = 1, MF_Kind = kind, MF_Origin = \<lparr>OG_Label = label, OG_ExportedAt = Some 5\<rparr>,
     MF_Profile = \<lparr>BP_Name = ''coding'', BP_Description = '''', BP_SourceRevision = 3, BP_CanonicalHash = h\<rparr>,
     MF_Skills = [\<lparr>BS_Slug = ''my-demo'', BS_Name = nm, BS_Description = '''', BS_SHA256 = exampleDigest,
       BS_ContentHash = exampleDigest, BS_Provenance = noProvenance\<lparr>PN_Source := ''zip''\<rparr>\<rparr>],
     MF_MCPServers = [exampleBundleServer]\<rparr>"

abbreviation exampleBundleManifest :: BundleManifest where "exampleBundleManifest \<equiv> exampleManifestAt '''' ''home '' '''' ''My Demo''"

definition exampleSecrets :: "SecretDocument option" where
  "exampleSecrets = Some \<lparr>SD_SchemaVersion = 0, SD_MCPServers = [\<lparr>SM_Key = exampleDigest, SM_Env = [(''TOKEN'', ''x'')], SM_Headers = []\<rparr>]\<rparr>"

definition exampleBundleEnv :: "string \<Rightarrow> bundle_env" where
  "exampleBundleEnv nm = \<lparr>be_skills = exampleEnv\<lparr>pe_sha := (\<lambda>_. replicate 32 CHR ''0''),
       pe_openZip := (\<lambda>b. if b = ''bundle'' then Inr (map zipped exampleBundleEntries) else Inr exampleZip),
       pe_writeZip := (\<lambda>es. if fst (hd es) = ''manifest.json'' then Inr ''bundle'' else Inr ''canonical'')\<rparr>,
     be_marshal = (\<lambda>_. ''{}''), be_decodeManifest = (\<lambda>_. Some (exampleManifestAt KindSecrets ''home'' exampleDigest nm)),
     be_decodeSecrets = (\<lambda>_. map_option completeSecrets exampleSecrets), be_parseURL = (\<lambda>_. None)\<rparr>"

lemma exampleBundle_scan:
  "case ScanZIP (be_skills (exampleBundleEnv nm)) ''zip'' DefaultLimits of Inl _ \<Rightarrow> False
   | Inr pkg \<Rightarrow> PK_SHA256 pkg = exampleDigest \<and> PK_ContentHash pkg = exampleDigest \<and> PK_Slug pkg = ''my-demo'' \<and> PK_Name pkg = ''My Demo''"
  by code_simp

lemma exampleBundle_validated:
  "validateManifest (exampleBundleEnv v) (exampleManifestAt KindSecrets ''home '' exampleDigest ''My Demo'')
    = Inr (exampleManifestAt KindSecrets ''home'' exampleDigest ''My Demo'')"
  by code_simp

lemma exampleBundle_entries:
  "bundleEntries (exampleBundleEnv ''My Demo'') exampleBundleManifest (\<lambda>_. ''zip'') exampleSecrets = Inr exampleBundleEntries"
  "bundleEntries (exampleBundleEnv ''Demo'') (exampleManifestAt '''' ''home '' '''' ''Demo'') (\<lambda>_. ''zip'') exampleSecrets = Inr exampleBundleEntries"
  by code_simp+

lemma exampleBundle_encoded:
  "encodedManifest (exampleBundleEnv ''My Demo'') exampleBundleManifest exampleSecrets = exampleManifestAt KindSecrets ''home'' exampleDigest ''My Demo''"
  by code_simp

lemma exampleBundle_agree:
  "namesAgree (exampleBundleEnv ''My Demo'') (\<lambda>_. ''zip'') (MF_Skills exampleBundleManifest)"
  "documentsFit (exampleBundleEnv ''My Demo'') exampleBundleManifest exampleSecrets"
  by code_simp+

lemma exampleBundle_written:
  "Encode (exampleBundleEnv ''My Demo'') exampleBundleManifest (\<lambda>_. ''zip'') exampleSecrets = Inr ''bundle''"
  unfolding Encode_def exampleBundle_entries by (simp add: exampleBundleEnv_def exampleBundleEntries_def MaxBundleBytes_def)

lemma exampleBundle_codec:
  "bundleEntries (exampleBundleEnv ''My Demo'') exampleBundleManifest (\<lambda>_. ''zip'') exampleSecrets = Inr es \<Longrightarrow>
     ''bundle'' \<noteq> [] \<and> pe_openZip (be_skills (exampleBundleEnv ''My Demo'')) ''bundle'' = Inr (map zipped es)"
  "be_marshal (exampleBundleEnv ''My Demo'') v \<noteq> []"
  "be_decodeManifest (exampleBundleEnv ''My Demo'') t
    = Some (encodedManifest (exampleBundleEnv ''My Demo'') exampleBundleManifest exampleSecrets)"
  "exampleSecrets = Some s \<Longrightarrow> be_decodeSecrets (exampleBundleEnv ''My Demo'') t = Some (completeSecrets s)"
  unfolding exampleBundle_entries exampleBundle_encoded by (auto simp: exampleBundleEnv_def)

theorem bundle_roundtrip_witness:
  "\<not> isl (Parse (exampleBundleEnv ''My Demo'') ''bundle'')"
  using bundle_roundtrip [OF exampleBundle_written exampleBundle_codec] exampleBundle_agree by auto

lemma exampleBundle_accepted: "\<exists>p. Parse (exampleBundleEnv ''My Demo'') ''bundle'' = Inr p"
  using encode_parse [OF exampleBundle_written exampleBundle_codec] exampleBundle_agree by auto

theorem parsed_bundle_verified_witness:
  "\<exists>p zs. Parse (exampleBundleEnv ''My Demo'') ''bundle'' = Inr p \<and> pe_openZip (be_skills (exampleBundleEnv ''My Demo'')) ''bundle'' = Inr zs
     \<and> BP_CanonicalHash (MF_Profile (PA_Manifest p)) = CanonicalProfileHash (exampleBundleEnv ''My Demo'') (PA_Manifest p)"
proof -
  obtain p where p: "Parse (exampleBundleEnv ''My Demo'') ''bundle'' = Inr p"
    using exampleBundle_accepted by blast
  have maps: "\<forall>t s. be_decodeSecrets (exampleBundleEnv ''My Demo'') t = Some s \<longrightarrow>
      list_all (\<lambda>b. distinct (map fst (SM_Env b)) \<and> distinct (map fst (SM_Headers b))) (SD_MCPServers s)"
    by (auto simp: exampleBundleEnv_def exampleSecrets_def)
  from parsed_bundle_verified [OF p maps] p show ?thesis by blast
qed

end
