(* ===== verification/Profile_Store.thy ===== *)
theory Profile_Store
  imports Governance_Store Profile_Bundle
begin

text \<open>
  Profiles (\<open>src/internal/store/profiles.go\<close>): a profile pins versions of Skills and revisions of MCP servers, says which
  tools its clients see, and keeps every saved state as an immutable revision. \<open>profile_db\<close> adds the tables of
  \<open>src/internal/store/migrations/001\<close>, \<open>003\<close> and \<open>005\<close> that only profiles use to the governance tables. A method is one
  transaction. \<open>profile_env\<close> has the calls outside; new ids are arguments.
\<close>

section \<open>Tables\<close>

record skill_row =
  SK_ID :: string
  SK_Slug :: string
  SK_Name :: string
  SK_Tags :: "string list"
  SK_CurrentVersionID :: string
  SK_Archived :: bool

text \<open>A version with the hashes of its artifact.\<close>

record skill_version_row =
  VR_ID :: string
  VR_SkillID :: string
  VR_SHA256 :: string
  VR_ContentHash :: string

record profile_skill_row =
  PSK_ProfileRevisionID :: string
  PSK_SkillID :: string
  PSK_VersionID :: string
  PSK_Position :: int

record profile_server_row =
  PMS_ProfileRevisionID :: string
  PMS_ServerID :: string
  PMS_MCPRevisionID :: string
  PMS_Position :: int

record pending_binding =
  BN_ProfileRevisionID :: string
  BN_MCPRevisionID :: string
  BN_Namespace :: string
  BN_Key :: string
  BN_SlotHash :: string
  BN_SecretID :: "string option"

record profile_db =
  PD_Gov :: governance_db
  PD_Skills :: "skill_row list"
  PD_SkillVersions :: "skill_version_row list"
  PD_ProfileSkills :: "profile_skill_row list"
  PD_ProfileServers :: "profile_server_row list"
  PD_SkillHeads :: "(string \<times> string) list"
  PD_ServerHeads :: "(string \<times> string) list"
  PD_Seals :: "string list"
  PD_Pending :: "pending_binding list"

record profile_env =
  fe_gov :: governance_env
  fe_bundle :: bundle_env

abbreviation overGov :: "(governance_db \<Rightarrow> governance_db) \<Rightarrow> profile_db \<Rightarrow> profile_db" where
  "overGov f d \<equiv> d\<lparr>PD_Gov := f (PD_Gov d)\<rparr>"

section \<open>Input\<close>

record ProfileMCPGovernance =
  GO_ServerID :: string
  GO_MCPRevisionID :: string
  GO_AcceptedContractRevisionID :: string
  GO_VisibilityMode :: string

record ProfileSkillPin =
  SP_SkillID :: string
  SP_VersionID :: string
  SP_Slug :: string
  SP_Name :: string
  SP_Tags :: "string list"
  SP_SHA256 :: string
  SP_ContentHash :: string
  SP_Current :: bool

text \<open>The pin of a server is the row of its revision.\<close>

type_synonym ProfileMCPPin = mcp_revision_row

record ProfileInput =
  FI_Name :: string
  FI_Description :: string
  FI_ClientKind :: string
  FI_Category :: string
  FI_Variant :: string
  FI_MigrationState :: string
  FI_SkillIDs :: "string list"
  FI_MCPServerIDs :: "string list"
  FI_SkillVersionIDs :: "(string \<times> string) list"
  FI_MCPRevisionIDs :: "(string \<times> string) list"
  FI_MCPGovernance :: "ProfileMCPGovernance list"
  FI_ToolRules :: "ProfileToolRule list"
  FI_Revision :: int
  FI_ArchivedRestore :: bool
  FI_PendingBindings :: bool

abbreviation maxProfileMembers :: nat where "maxProfileMembers \<equiv> 500"

abbreviation rejected :: "string \<Rightarrow> store_error" where "rejected msg \<equiv> StoreErr (errorsNew msg)"

text \<open>The checks before the first query; the flag is \<open>variantProvided\<close>.\<close>

definition trimInput :: "ProfileInput \<Rightarrow> ProfileInput" where
  "trimInput input = input\<lparr>FI_Name := TrimSpace (FI_Name input), FI_Description := TrimSpace (FI_Description input),
     FI_SkillIDs := uniqueIDs (FI_SkillIDs input), FI_MCPServerIDs := uniqueIDs (FI_MCPServerIDs input),
     FI_ClientKind := TrimSpace (FI_ClientKind input), FI_Category := TrimSpace (FI_Category input),
     FI_Variant := (if TrimSpace (FI_Variant input) = '''' then ''standard'' else TrimSpace (FI_Variant input))\<rparr>"

definition inputError :: "ProfileInput \<Rightarrow> store_error option" where
  "inputError input =
     (if FI_Name input = '''' \<or> length (FI_Name input) > 120 then Some (rejected ''Profile name must contain 1-120 characters'')
      else if length (FI_SkillIDs input) > maxProfileMembers \<or> length (FI_MCPServerIDs input) > maxProfileMembers then
        Some (rejected ''Profile membership exceeds safety limit'')
      else if FI_ClientKind input \<notin> {'''', ''claude'', ''codex'', ''shared'', ''unknown''} then Some (rejected ''invalid Profile client kind'')
      else if length (FI_Category input) > 120 \<or> length (FI_Variant input) > 64 then Some (rejected ''invalid Profile category or variant'')
      else None)"

text \<open>What the stored profile, if there is one, gives for the fields that the input leaves open.\<close>

definition inheritInput :: "profile_row option \<Rightarrow> bool \<Rightarrow> ProfileInput \<Rightarrow> ProfileInput" where
  "inheritInput existing variantProvided input =
     (let kind = (if FI_ClientKind input = '''' then (case existing of None \<Rightarrow> ''unknown'' | Some p \<Rightarrow> PF_ClientKind p) else FI_ClientKind input);
          category = (if FI_Category input = '''' then (case existing of None \<Rightarrow> '''' | Some p \<Rightarrow> PF_Category p) else FI_Category input);
          existingVariant = (case existing of None \<Rightarrow> ''standard'' | Some p \<Rightarrow> PF_Variant p);
          variant = (if \<not> variantProvided \<and> existingVariant \<noteq> '''' then existingVariant else FI_Variant input);
          state = (if FI_MigrationState input \<noteq> '''' then FI_MigrationState input
            else case existing of Some p \<Rightarrow> PF_MigrationState p
            | None \<Rightarrow> if kind = ''claude'' \<or> kind = ''codex'' then ''ready'' else if kind = ''shared'' then ''compatibility'' else ''needs_review'')
      in input\<lparr>FI_ClientKind := kind, FI_Category := category, FI_Variant := variant, FI_MigrationState := state\<rparr>)"

section \<open>Pins\<close>

definition invalidUUID :: "string \<Rightarrow> store_error" where
  "invalidUUID value = StoreErr (errorf ''invalid input syntax for type uuid: %q'' [value])"

definition findSkill :: "profile_db \<Rightarrow> string \<Rightarrow> skill_row option" where
  "findSkill d i = find (\<lambda>s. SK_ID s = i) (PD_Skills d)"

definition findSkillVersion :: "profile_db \<Rightarrow> string \<Rightarrow> skill_version_row option" where
  "findSkillVersion d i = find (\<lambda>v. VR_ID v = i) (PD_SkillVersions d)"

definition skillPin :: "skill_row \<Rightarrow> skill_version_row \<Rightarrow> ProfileSkillPin" where
  "skillPin s v = \<lparr>SP_SkillID = SK_ID s, SP_VersionID = VR_ID v, SP_Slug = SK_Slug s, SP_Name = SK_Name s, SP_Tags = SK_Tags s,
     SP_SHA256 = VR_SHA256 v, SP_ContentHash = VR_ContentHash v, SP_Current = (VR_ID v = SK_CurrentVersionID s)\<rparr>"

definition resolveSkill :: "(string \<Rightarrow> bool) \<Rightarrow> profile_db \<Rightarrow> ProfileInput \<Rightarrow> string \<Rightarrow> store_error + ProfileSkillPin" where
  "resolveSkill uv d input skillID =
     (let versionID = TrimSpace (mapText (FI_SkillVersionIDs input) skillID) in
      if \<not> uv skillID then Inl NotFound
      else if versionID \<noteq> '''' \<and> \<not> uv versionID then Inl (invalidUUID versionID)
      else case findSkill d skillID of
        None \<Rightarrow> Inl NotFound
      | Some s \<Rightarrow> (case findSkillVersion d (if versionID = '''' then SK_CurrentVersionID s else versionID) of
          None \<Rightarrow> Inl NotFound
        | Some v \<Rightarrow> if VR_SkillID v \<noteq> skillID \<or> SK_Archived s then Inl NotFound else Inr (skillPin s v)))"

definition resolveServer :: "(string \<Rightarrow> bool) \<Rightarrow> profile_db \<Rightarrow> ProfileInput \<Rightarrow> string \<Rightarrow> store_error + ProfileMCPPin" where
  "resolveServer uv d input serverID =
     (let revisionID = TrimSpace (mapText (FI_MCPRevisionIDs input) serverID) in
      if \<not> uv serverID then Inl NotFound
      else if revisionID \<noteq> '''' \<and> \<not> uv revisionID then Inl (invalidUUID revisionID)
      else case findServer (PD_Gov d) serverID of
        None \<Rightarrow> Inl NotFound
      | Some s \<Rightarrow> (case findMCPRevision (PD_Gov d) (if revisionID = '''' then SV_CurrentRevisionID s else revisionID) of
          None \<Rightarrow> Inl NotFound
        | Some r \<Rightarrow> if MR_ServerID r \<noteq> serverID then Inl NotFound else Inr r))"

definition resolveProfilePins :: "(string \<Rightarrow> bool) \<Rightarrow> profile_db \<Rightarrow> ProfileInput \<Rightarrow> store_error + (ProfileSkillPin list \<times> ProfileMCPPin list)" where
  "resolveProfilePins uv d input =
     (case mapE (resolveSkill uv d input) (FI_SkillIDs input) of
        Inl e \<Rightarrow> Inl e
      | Inr skills \<Rightarrow> (case mapE (resolveServer uv d input) (FI_MCPServerIDs input) of
          Inl e \<Rightarrow> Inl e
        | Inr servers \<Rightarrow> Inr (skills, servers)))"

definition validateRequiredSkills :: "profile_db \<Rightarrow> string list \<Rightarrow> store_error option" where
  "validateRequiredSkills d selected =
     (case find (\<lambda>s. SK_ID s \<notin> set selected) (sort_key SK_Slug (filter (\<lambda>s. \<not> SK_Archived s \<and> ''required'' \<in> set (SK_Tags s)) (PD_Skills d))) of
        Some s \<Rightarrow> Some (StoreErr (errorf ''Profile must include required Skill %q'' [SK_Slug s]))
      | None \<Rightarrow> None)"

section \<open>Governance of the profile's tools\<close>

fun checkGovernance :: "ProfileMCPGovernance list \<Rightarrow> string list \<Rightarrow> store_error option" where
  "checkGovernance [] seen = None"
| "checkGovernance (g # gs) seen =
     (if GO_ServerID g = '''' \<or> GO_VisibilityMode g = '''' then Some (rejected ''invalid Profile MCP governance'')
      else if GO_VisibilityMode g \<notin> {''all_accepted'', ''selected'', ''hidden''} then Some (rejected ''invalid Profile MCP visibility'')
      else if GO_ServerID g \<in> set seen then Some (rejected ''duplicate Profile MCP governance'')
      else checkGovernance gs (GO_ServerID g # seen))"

text \<open>The entry of the map, or Go's zero value.\<close>

definition governanceOf :: "ProfileMCPGovernance list \<Rightarrow> string \<Rightarrow> ProfileMCPGovernance" where
  "governanceOf gs serverID = (case find (\<lambda>g. GO_ServerID g = serverID) gs of
     Some g \<Rightarrow> g
   | None \<Rightarrow> \<lparr>GO_ServerID = '''', GO_MCPRevisionID = '''', GO_AcceptedContractRevisionID = '''', GO_VisibilityMode = ''''\<rparr>)"

definition ruleError :: "governance_env \<Rightarrow> governance_db \<Rightarrow> string list \<Rightarrow> ProfileMCPGovernance list \<Rightarrow> ProfileToolRule \<Rightarrow> store_error option" where
  "ruleError ge g servers governance rule =
     (if \<not> ge_uuid ge (PTR_ToolID rule) then Some (invalidUUID (PTR_ToolID rule))
      else case findTool g (PTR_ToolID rule) of
        None \<Rightarrow> Some NotFound
      | Some t \<Rightarrow>
          let contract = TrimSpace (GO_AcceptedContractRevisionID (governanceOf governance (TL_ServerID t))) in
          if TL_ServerID t \<notin> set servers then Some Conflict
          else if contract = '''' then Some Conflict
          else if \<not> ge_uuid ge contract then Some (invalidUUID contract)
          else if \<not> list_ex (\<lambda>ct. CT_ContractRevisionID ct = contract \<and> CT_ToolID ct = PTR_ToolID rule) (GD_ContractTools g) then Some Conflict
          else None)"

fun firstError :: "('a \<Rightarrow> store_error option) \<Rightarrow> 'a list \<Rightarrow> store_error option" where
  "firstError f [] = None"
| "firstError f (x # xs) = (case f x of Some e \<Rightarrow> Some e | None \<Rightarrow> firstError f xs)"

definition profileGovernanceError :: "governance_env \<Rightarrow> governance_db \<Rightarrow> ProfileInput \<Rightarrow> ProfileMCPPin list \<Rightarrow> store_error option" where
  "profileGovernanceError ge g input servers =
     (case checkGovernance (FI_MCPGovernance input) [] of
        Some e \<Rightarrow> Some e
      | None \<Rightarrow>
          if list_ex (\<lambda>i. GO_ServerID i \<notin> set (map MR_ServerID servers)) (FI_MCPGovernance input) then Some Conflict
          else case firstError (ruleError ge g (map MR_ServerID servers) (FI_MCPGovernance input)) (FI_ToolRules input) of
            Some e \<Rightarrow> Some e
          | None \<Rightarrow> validateProfileToolCeiling ge g (FI_ToolRules input))"

section \<open>The hash of a profile\<close>

definition bundleSkillOf :: "ProfileSkillPin \<Rightarrow> BundleSkill" where
  "bundleSkillOf p = \<lparr>BS_Slug = SP_Slug p, BS_Name = '''', BS_Description = '''', BS_SHA256 = SP_SHA256 p, BS_ContentHash = SP_ContentHash p,
     BS_Provenance = noProvenance\<rparr>"

definition bundleServerOf :: "bundle_env \<Rightarrow> ProfileMCPPin \<Rightarrow> BundleMCP" where
  "bundleServerOf be p =
     (let item = \<lparr>BM_Key = '''', BM_Name = MR_Name p, BM_Description = MR_Description p, BM_Transport = MR_Transport p, BM_Command = MR_Command p,
        BM_Args = MR_Args p, BM_URL = MR_URL p, BM_EnvSlots = MR_EnvSlots p, BM_HeaderSlots = MR_HeaderSlots p, BM_Provenance = noProvenance\<rparr>
      in item\<lparr>BM_Key := MCPKey be item\<rparr>)"

definition profileHash :: "bundle_env \<Rightarrow> string \<Rightarrow> string \<Rightarrow> ProfileSkillPin list \<Rightarrow> ProfileMCPPin list \<Rightarrow> string" where
  "profileHash be nm description skills servers =
     CanonicalProfileHash be \<lparr>MF_SchemaVersion = 0, MF_Kind = '''', MF_Origin = \<lparr>OG_Label = '''', OG_ExportedAt = None\<rparr>,
       MF_Profile = \<lparr>BP_Name = TrimSpace nm, BP_Description = TrimSpace description, BP_SourceRevision = 0, BP_CanonicalHash = ''''\<rparr>,
       MF_Skills = map bundleSkillOf skills, MF_MCPServers = map (bundleServerOf be) servers\<rparr>"

definition governanceJSON :: "ProfileMCPGovernance \<Rightarrow> json" where
  "governanceJSON g = JObj ([(''serverId'', JStr (GO_ServerID g)), (''mcpRevisionId'', JStr (GO_MCPRevisionID g))]
     @ omitEmpty ''acceptedContractRevisionId'' (GO_AcceptedContractRevisionID g) @ [(''visibilityMode'', JStr (GO_VisibilityMode g))])"

definition ruleJSON :: "ProfileToolRule \<Rightarrow> json" where
  "ruleJSON r = JObj ([(''toolId'', JStr (PTR_ToolID r)), (''visible'', JBool (PTR_Visible r)), (''decision'', JStr (PTR_Decision r))]
     @ (if PTR_ReasonCodes r = [] then [] else [(''reasonCodes'', strings (PTR_ReasonCodes r))]))"

definition effectiveGovernance :: "ProfileMCPGovernance list \<Rightarrow> ProfileMCPPin \<Rightarrow> ProfileMCPGovernance" where
  "effectiveGovernance provided pin =
     (let item = governanceOf provided (MR_ServerID pin)
      in item\<lparr>GO_ServerID := MR_ServerID pin, GO_MCPRevisionID := MR_ID pin,
           GO_VisibilityMode := (if GO_VisibilityMode item = '''' then ''all_accepted'' else GO_VisibilityMode item)\<rparr>)"

definition CanonicalGovernedProfileHash :: "profile_env \<Rightarrow> ProfileInput \<Rightarrow> ProfileSkillPin list \<Rightarrow> ProfileMCPPin list \<Rightarrow> string" where
  "CanonicalGovernedProfileHash fe input skills servers =
     (let base = profileHash (fe_bundle fe) (FI_Name input) (FI_Description input) skills servers in
      if FI_ClientKind input = ''unknown'' \<and> FI_Category input = '''' \<and> FI_Variant input = ''standard'' \<and> FI_MigrationState input = ''needs_review''
         \<and> FI_MCPGovernance input = [] \<and> FI_ToolRules input = [] then base
      else hexEncode (ge_sha (fe_gov fe) (ge_marshal (fe_gov fe) (JObj
        [(''base'', JStr base), (''clientKind'', JStr (FI_ClientKind input)), (''category'', JStr (FI_Category input)),
         (''variant'', JStr (FI_Variant input)), (''migrationState'', JStr (FI_MigrationState input)),
         (''mcpGovernance'', JArr (map governanceJSON (sort_key GO_ServerID (map (effectiveGovernance (FI_MCPGovernance input)) servers)))),
         (''toolRules'', if FI_ToolRules input = [] then JNull else JArr (map ruleJSON (sort_key PTR_ToolID (FI_ToolRules input))))]))))"

section \<open>Saving\<close>

definition nameTaken :: "governance_db \<Rightarrow> string \<Rightarrow> string \<Rightarrow> bool" where
  "nameTaken g profileID nm = list_ex (\<lambda>p. PF_ID p \<noteq> profileID \<and> PF_Name p = nm) (GD_Profiles g)"

text \<open>The row of the profile, inserted or updated; \<open>name\<close> is unique.\<close>

definition putProfile :: "string \<Rightarrow> ProfileInput \<Rightarrow> int \<Rightarrow> string \<Rightarrow> governance_db \<Rightarrow> store_error + governance_db" where
  "putProfile profileID input revision revisionID g =
     (let row = \<lparr>PF_ID = profileID, PF_Name = FI_Name input, PF_Description = FI_Description input, PF_ClientKind = FI_ClientKind input,
        PF_Category = FI_Category input, PF_Variant = FI_Variant input, PF_MigrationState = FI_MigrationState input,
        PF_Revision = revision, PF_CurrentRevisionID = revisionID, PF_Archived = False\<rparr> in
      if nameTaken g profileID (FI_Name input) then Inl Conflict
      else Inr (g\<lparr>GD_Profiles := (if findProfile g profileID = None then GD_Profiles g @ [row]
        else map (\<lambda>p. if PF_ID p = profileID then row else p) (GD_Profiles g))\<rparr>))"

definition insertRevision :: "profile_revision_row \<Rightarrow> governance_db \<Rightarrow> store_error + governance_db" where
  "insertRevision r g =
     (if list_ex (\<lambda>q. PV_ID q = PV_ID r) (GD_ProfileRevisions g) then Inl (uniqueViolation ''profile_revisions_pkey'')
      else if list_ex (\<lambda>q. PV_ProfileID q = PV_ProfileID r \<and> PV_Revision q = PV_Revision r) (GD_ProfileRevisions g) then
        Inl (uniqueViolation ''profile_revisions_profile_id_revision_key'')
      else Inr (g\<lparr>GD_ProfileRevisions := GD_ProfileRevisions g @ [r]\<rparr>))"

definition skillRows :: "string \<Rightarrow> ProfileSkillPin list \<Rightarrow> profile_skill_row list" where
  "skillRows revisionID pins = map (\<lambda>(i, p). \<lparr>PSK_ProfileRevisionID = revisionID, PSK_SkillID = SP_SkillID p, PSK_VersionID = SP_VersionID p,
     PSK_Position = int i\<rparr>) (zip [0..<length pins] pins)"

definition serverRowsOf :: "string \<Rightarrow> ProfileMCPPin list \<Rightarrow> profile_server_row list" where
  "serverRowsOf revisionID pins = map (\<lambda>(i, p). \<lparr>PMS_ProfileRevisionID = revisionID, PMS_ServerID = MR_ServerID p, PMS_MCPRevisionID = MR_ID p,
     PMS_Position = int i\<rparr>) (zip [0..<length pins] pins)"

definition acceptedContract :: "governance_db \<Rightarrow> string \<Rightarrow> string" where
  "acceptedContract g serverID = (case findState g serverID of
     None \<Rightarrow> '''' | Some cs \<Rightarrow> (case CS_Accepted cs of None \<Rightarrow> '''' | Some c \<Rightarrow> c))"

definition governanceRow :: "governance_db \<Rightarrow> string \<Rightarrow> ProfileMCPGovernance list \<Rightarrow> ProfileMCPPin \<Rightarrow> store_error + profile_governance_row" where
  "governanceRow g revisionID governance pin =
     (let item = governanceOf governance (MR_ServerID pin) in
      if GO_MCPRevisionID item \<noteq> '''' \<and> GO_MCPRevisionID item \<noteq> MR_ID pin then Inl Conflict
      else if TrimSpace (GO_AcceptedContractRevisionID item) \<noteq> acceptedContract g (MR_ServerID pin) then Inl Conflict
      else if TrimSpace (GO_AcceptedContractRevisionID item) \<noteq> '''' \<and> TrimSpace (GO_AcceptedContractRevisionID item) \<noteq> GO_AcceptedContractRevisionID item then
        Inl (invalidUUID (GO_AcceptedContractRevisionID item))
      else Inr \<lparr>PG_ProfileRevisionID = revisionID, PG_ServerID = MR_ServerID pin, PG_MCPRevisionID = MR_ID pin,
        PG_AcceptedContract = (if TrimSpace (GO_AcceptedContractRevisionID item) = '''' then None else Some (GO_AcceptedContractRevisionID item)),
        PG_VisibilityMode = (if GO_VisibilityMode item = '''' then ''all_accepted'' else GO_VisibilityMode item)\<rparr>)"

definition ruleRow :: "string \<Rightarrow> ProfileToolRule \<Rightarrow> profile_rule_row" where
  "ruleRow revisionID r = \<lparr>PT_ProfileRevisionID = revisionID, PT_ToolID = PTR_ToolID r, PT_Visible = PTR_Visible r, PT_Decision = PTR_Decision r,
     PT_ReasonCodes = PTR_ReasonCodes r\<rparr>"

definition replaceProfileHeadProjection :: "string \<Rightarrow> ProfileSkillPin list \<Rightarrow> ProfileMCPPin list \<Rightarrow> profile_db \<Rightarrow> profile_db" where
  "replaceProfileHeadProjection profileID skills servers d = d\<lparr>
     PD_SkillHeads := filter (\<lambda>(p, _). p \<noteq> profileID) (PD_SkillHeads d) @ map (\<lambda>s. (profileID, SP_SkillID s)) skills,
     PD_ServerHeads := filter (\<lambda>(p, _). p \<noteq> profileID) (PD_ServerHeads d) @ map (\<lambda>s. (profileID, MR_ServerID s)) servers\<rparr>"

text \<open>The writes of \<open>saveProfileTx\<close>, after its checks.\<close>

definition writeProfile ::
    "profile_env \<Rightarrow> string \<Rightarrow> string \<Rightarrow> ProfileInput \<Rightarrow> int \<Rightarrow> ProfileSkillPin list \<Rightarrow> ProfileMCPPin list \<Rightarrow> profile_db \<Rightarrow> store_error + profile_db" where
  "writeProfile fe profileID revisionID input current skills servers d =
     (let revision = current + 1;
          row = \<lparr>PV_ID = revisionID, PV_ProfileID = profileID, PV_Revision = revision,
            PV_CanonicalHash = CanonicalGovernedProfileHash fe input skills servers, PV_Name = FI_Name input, PV_Description = FI_Description input,
            PV_ClientKind = FI_ClientKind input, PV_Category = FI_Category input, PV_Variant = FI_Variant input,
            PV_MigrationState = FI_MigrationState input, PV_PendingBindings = FI_PendingBindings input, PV_ArchivedRestore = FI_ArchivedRestore input\<rparr>
      in case putProfile profileID input revision revisionID (PD_Gov d) of
        Inl e \<Rightarrow> Inl e
      | Inr g1 \<Rightarrow> (case insertRevision row g1 of
          Inl e \<Rightarrow> Inl e
        | Inr g2 \<Rightarrow> (case mapE (governanceRow (PD_Gov d) revisionID (FI_MCPGovernance input)) servers of
            Inl e \<Rightarrow> Inl e
          | Inr rows \<Rightarrow>
              Inr (replaceProfileHeadProjection profileID skills servers
                (d\<lparr>PD_Gov := g2\<lparr>GD_ProfileGovernance := GD_ProfileGovernance g2 @ rows,
                     GD_ProfileRules := GD_ProfileRules g2 @ map (ruleRow revisionID) (FI_ToolRules input)\<rparr>,
                   PD_ProfileSkills := PD_ProfileSkills d @ skillRows revisionID skills,
                   PD_ProfileServers := PD_ProfileServers d @ serverRowsOf revisionID servers,
                   PD_Seals := PD_Seals d @ [revisionID]\<rparr>)))))"

definition saveProfile ::
    "profile_env \<Rightarrow> string \<Rightarrow> string \<Rightarrow> string \<Rightarrow> ProfileInput \<Rightarrow> profile_db \<Rightarrow> store_error + ((string \<times> string) \<times> profile_db)" where
  "saveProfile fe newID revisionID id0 input0 d =
     (let trimmed = trimInput input0; profileID = (if id0 = '''' then newID else id0) in
      case inputError trimmed of
        Some e \<Rightarrow> Inl e
      | None \<Rightarrow>
      if \<not> ge_uuid (fe_gov fe) profileID then Inl NotFound
      else (let existing = findProfile (PD_Gov d) profileID;
                current = (case existing of None \<Rightarrow> 0 | Some p \<Rightarrow> PF_Revision p);
                archived = (case existing of None \<Rightarrow> False | Some p \<Rightarrow> PF_Archived p);
                input = inheritInput existing (TrimSpace (FI_Variant input0) \<noteq> '''') trimmed in
      if current > 0 \<and> FI_Revision input \<noteq> current then Inl Conflict
      else if archived \<and> \<not> FI_ArchivedRestore input then Inl Conflict
      else if FI_MigrationState input \<notin> {''ready'', ''needs_review'', ''compatibility''} then Inl (rejected ''invalid Profile migration state'')
      else (case resolveProfilePins (ge_uuid (fe_gov fe)) d input of
        Inl e \<Rightarrow> Inl e
      | Inr (skills, servers) \<Rightarrow>
      (case (if FI_ClientKind input = ''shared'' then None else validateRequiredSkills d (FI_SkillIDs input)) of
        Some e \<Rightarrow> Inl e
      | None \<Rightarrow>
      (case profileGovernanceError (fe_gov fe) (PD_Gov d) input servers of
        Some e \<Rightarrow> Inl e
      | None \<Rightarrow>
      (case writeProfile fe profileID revisionID input current skills servers d of
        Inl e \<Rightarrow> Inl e
      | Inr d' \<Rightarrow> Inr ((profileID, revisionID), d')))))))"

section \<open>Reading a profile\<close>

text \<open>The pins of a revision with the current rows they refer to.\<close>

definition skillPins :: "profile_db \<Rightarrow> string \<Rightarrow> ProfileSkillPin list" where
  "skillPins d revisionID =
     List.map_filter (\<lambda>r. case (findSkill d (PSK_SkillID r), findSkillVersion d (PSK_VersionID r)) of
         (Some s, Some v) \<Rightarrow> Some (skillPin s v) | _ \<Rightarrow> None)
       (sort_key PSK_Position (filter (\<lambda>r. PSK_ProfileRevisionID r = revisionID) (PD_ProfileSkills d)))"

definition serverPins :: "profile_db \<Rightarrow> string \<Rightarrow> ProfileMCPPin list" where
  "serverPins d revisionID =
     List.map_filter (\<lambda>r. case findServer (PD_Gov d) (PMS_ServerID r) of None \<Rightarrow> None | Some _ \<Rightarrow> findMCPRevision (PD_Gov d) (PMS_MCPRevisionID r))
       (sort_key PMS_Position (filter (\<lambda>r. PMS_ProfileRevisionID r = revisionID) (PD_ProfileServers d)))"

definition governanceInputOf :: "profile_governance_row \<Rightarrow> ProfileMCPGovernance" where
  "governanceInputOf g = \<lparr>GO_ServerID = PG_ServerID g, GO_MCPRevisionID = PG_MCPRevisionID g,
     GO_AcceptedContractRevisionID = (case PG_AcceptedContract g of None \<Rightarrow> '''' | Some c \<Rightarrow> c), GO_VisibilityMode = PG_VisibilityMode g\<rparr>"

definition ruleInputOf :: "profile_rule_row \<Rightarrow> ProfileToolRule" where
  "ruleInputOf r = \<lparr>PTR_ToolID = PT_ToolID r, PTR_Visible = PT_Visible r, PTR_Decision = PT_Decision r, PTR_ReasonCodes = PT_ReasonCodes r\<rparr>"

definition profileGovernanceInputs :: "profile_db \<Rightarrow> string \<Rightarrow> ProfileMCPGovernance list \<times> ProfileToolRule list" where
  "profileGovernanceInputs d revisionID =
     (map governanceInputOf (sort_key PG_ServerID (filter (\<lambda>g. PG_ProfileRevisionID g = revisionID) (GD_ProfileGovernance (PD_Gov d)))),
      map ruleInputOf (sort_key PT_ToolID (filter (\<lambda>r. PT_ProfileRevisionID r = revisionID) (GD_ProfileRules (PD_Gov d)))))"

record ProfileRevision =
  RR_Row :: profile_revision_row
  RR_Skills :: "ProfileSkillPin list"
  RR_MCPServers :: "ProfileMCPPin list"
  RR_MCPGovernance :: "ProfileMCPGovernance list"
  RR_ToolRules :: "ProfileToolRule list"

definition findRevision :: "governance_db \<Rightarrow> string \<Rightarrow> profile_revision_row option" where
  "findRevision g i = find (\<lambda>r. PV_ID r = i) (GD_ProfileRevisions g)"

definition readRevision :: "profile_db \<Rightarrow> string \<Rightarrow> store_error + ProfileRevision" where
  "readRevision d i =
     (case findRevision (PD_Gov d) i of
        None \<Rightarrow> Inl NotFound
      | Some r \<Rightarrow> (let (governance, rules) = profileGovernanceInputs d i in
          Inr \<lparr>RR_Row = r, RR_Skills = skillPins d i, RR_MCPServers = serverPins d i, RR_MCPGovernance = governance, RR_ToolRules = rules\<rparr>))"

record ProfileView =
  VW_Row :: profile_row
  VW_PendingBindings :: bool
  VW_CanonicalHash :: string
  VW_PublishedRevisionID :: string
  VW_Revision :: ProfileRevision
  VW_EffectiveVisibleCount :: nat

definition readProfile :: "profile_env \<Rightarrow> profile_db \<Rightarrow> string \<Rightarrow> store_error + ProfileView" where
  "readProfile fe d i =
     (case findProfile (PD_Gov d) i of
        None \<Rightarrow> Inl NotFound
      | Some p \<Rightarrow> (case readRevision d (PF_CurrentRevisionID p) of
          Inl e \<Rightarrow> Inl e
        | Inr r \<Rightarrow> (case ProfileEffectiveVisibleCount (fe_gov fe) (PD_Gov d) (PF_CurrentRevisionID p) of
            Inl e \<Rightarrow> Inl e
          | Inr n \<Rightarrow> Inr \<lparr>VW_Row = p, VW_PendingBindings = PV_PendingBindings (RR_Row r), VW_CanonicalHash = PV_CanonicalHash (RR_Row r),
              VW_PublishedRevisionID = mapText (GD_Published (PD_Gov d)) i, VW_Revision = r, VW_EffectiveVisibleCount = n\<rparr>)))"

definition ProfileHistory :: "profile_db \<Rightarrow> string \<Rightarrow> store_error + ProfileRevision list" where
  "ProfileHistory d profileID =
     mapE (\<lambda>r. readRevision d (PV_ID r)) (rev (sort_key PV_Revision (filter (\<lambda>r. PV_ProfileID r = profileID) (GD_ProfileRevisions (PD_Gov d)))))"

definition SaveProfile ::
    "profile_env \<Rightarrow> string \<Rightarrow> string \<Rightarrow> string \<Rightarrow> ProfileInput \<Rightarrow> profile_db \<Rightarrow> (store_error + ProfileView) \<times> profile_db" where
  "SaveProfile fe newID revisionID i input d =
     (case saveProfile fe newID revisionID i input d of
        Inl e \<Rightarrow> (Inl e, d)
      | Inr ((profileID, _), d') \<Rightarrow> (readProfile fe d' profileID, d'))"

section \<open>Refresh, clone, archive, restore, purge\<close>

text \<open>The input that saves a profile as it is, with the given pins.\<close>

definition profileSkillVersions :: "ProfileRevision \<Rightarrow> (string \<times> string) list" where
  "profileSkillVersions r = map (\<lambda>p. (SP_SkillID p, SP_VersionID p)) (RR_Skills r)"

definition profileMCPRevisions :: "ProfileRevision \<Rightarrow> (string \<times> string) list" where
  "profileMCPRevisions r = map (\<lambda>p. (MR_ServerID p, MR_ID p)) (RR_MCPServers r)"

definition inputOf :: "ProfileView \<Rightarrow> ProfileInput" where
  "inputOf v = \<lparr>FI_Name = PF_Name (VW_Row v), FI_Description = PF_Description (VW_Row v), FI_ClientKind = PF_ClientKind (VW_Row v),
     FI_Category = PF_Category (VW_Row v), FI_Variant = PF_Variant (VW_Row v), FI_MigrationState = PF_MigrationState (VW_Row v),
     FI_SkillIDs = map SP_SkillID (RR_Skills (VW_Revision v)), FI_MCPServerIDs = map MR_ServerID (RR_MCPServers (VW_Revision v)),
     FI_SkillVersionIDs = [], FI_MCPRevisionIDs = [], FI_MCPGovernance = RR_MCPGovernance (VW_Revision v), FI_ToolRules = RR_ToolRules (VW_Revision v),
     FI_Revision = 0, FI_ArchivedRestore = False, FI_PendingBindings = False\<rparr>"

definition pinnedInputOf :: "ProfileView \<Rightarrow> ProfileInput" where
  "pinnedInputOf v = (inputOf v)\<lparr>FI_SkillVersionIDs := profileSkillVersions (VW_Revision v), FI_MCPRevisionIDs := profileMCPRevisions (VW_Revision v)\<rparr>"

definition RefreshProfile :: "profile_env \<Rightarrow> string \<Rightarrow> string \<Rightarrow> int \<Rightarrow> profile_db \<Rightarrow> (store_error + ProfileView) \<times> profile_db" where
  "RefreshProfile fe revisionID i expectedRevision d =
     (case readProfile fe d i of
        Inl e \<Rightarrow> (Inl e, d)
      | Inr v \<Rightarrow> if VW_PendingBindings v then (Inl Conflict, d)
          else SaveProfile fe '''' revisionID i ((inputOf v)\<lparr>FI_MCPGovernance := map (\<lambda>g. g\<lparr>GO_MCPRevisionID := ''''\<rparr>) (RR_MCPGovernance (VW_Revision v)),
            FI_Revision := expectedRevision\<rparr>) d)"

definition CloneProfile :: "profile_env \<Rightarrow> string \<Rightarrow> string \<Rightarrow> string \<Rightarrow> string \<Rightarrow> profile_db \<Rightarrow> (store_error + ProfileView) \<times> profile_db" where
  "CloneProfile fe newID revisionID i nm d =
     (case readProfile fe d i of
        Inl e \<Rightarrow> (Inl e, d)
      | Inr v \<Rightarrow> if VW_PendingBindings v then (Inl Conflict, d)
          else SaveProfile fe '''' revisionID newID ((pinnedInputOf v)\<lparr>FI_Name := nm\<rparr>) d)"

definition ArchiveProfile :: "string \<Rightarrow> int \<Rightarrow> profile_db \<Rightarrow> store_error + profile_db" where
  "ArchiveProfile i expectedRevision d =
     (let g = PD_Gov d; hit = (\<lambda>p. PF_ID p = i \<and> PF_Revision p = expectedRevision \<and> \<not> PF_Archived p) in
      if map_of (GD_Published g) i \<noteq> None \<or> GD_DefaultProfile g = Some i then Inl Conflict
      else if \<not> list_ex hit (GD_Profiles g) then Inl Conflict
      else Inr (d\<lparr>PD_Gov := g\<lparr>GD_Profiles := map (\<lambda>p. if hit p then p\<lparr>PF_Archived := True\<rparr> else p) (GD_Profiles g)\<rparr>\<rparr>))"

definition DeleteProfile :: "profile_env \<Rightarrow> string \<Rightarrow> profile_db \<Rightarrow> store_error + profile_db" where
  "DeleteProfile fe i d = (case readProfile fe d i of Inl e \<Rightarrow> Inl e | Inr v \<Rightarrow> ArchiveProfile i (PF_Revision (VW_Row v)) d)"

text \<open>
  The bindings are copied while the rows of the query over them are open, on the connection of the same transaction: pgx
  refuses a statement on a connection with open rows. So the copy of the first binding fails, and without one nothing is
  copied.
\<close>

abbreviation connBusy :: store_error where "connBusy \<equiv> StoreErr (errorsNew ''conn busy'')"

definition RestoreArchivedProfile :: "profile_env \<Rightarrow> string \<Rightarrow> string \<Rightarrow> int \<Rightarrow> profile_db \<Rightarrow> (store_error + ProfileView) \<times> profile_db" where
  "RestoreArchivedProfile fe revisionID i expectedRevision d =
     (case readProfile fe d i of
        Inl e \<Rightarrow> (Inl e, d)
      | Inr v \<Rightarrow> (case saveProfile fe '''' revisionID i ((pinnedInputOf v)\<lparr>FI_Revision := expectedRevision, FI_ArchivedRestore := True,
            FI_PendingBindings := VW_PendingBindings v\<rparr>) d of
          Inl e \<Rightarrow> (Inl e, d)
        | Inr (_, d') \<Rightarrow>
            if VW_PendingBindings v \<and> list_ex (\<lambda>b. BN_ProfileRevisionID b = PF_CurrentRevisionID (VW_Row v)) (PD_Pending d) then (Inl connBusy, d)
            else (readProfile fe d' i, d')))"

text \<open>
  A purge deletes the row of the profile; its revisions and their members go with it (\<open>ON DELETE CASCADE\<close>), and the triggers
  of the member tables refuse every deletion. \<open>referenced\<close> is whether a snapshot, an open confirmation, an import fingerprint
  or a live operation still names the profile.
\<close>

definition hasMembers :: "profile_db \<Rightarrow> string \<Rightarrow> bool" where
  "hasMembers d revisionID =
     (list_ex (\<lambda>r. PSK_ProfileRevisionID r = revisionID) (PD_ProfileSkills d)
      \<or> list_ex (\<lambda>r. PMS_ProfileRevisionID r = revisionID) (PD_ProfileServers d)
      \<or> list_ex (\<lambda>r. PG_ProfileRevisionID r = revisionID) (GD_ProfileGovernance (PD_Gov d))
      \<or> list_ex (\<lambda>r. PT_ProfileRevisionID r = revisionID) (GD_ProfileRules (PD_Gov d)))"

definition revisionsOf :: "governance_db \<Rightarrow> string \<Rightarrow> profile_revision_row list" where
  "revisionsOf g profileID = filter (\<lambda>r. PV_ProfileID r = profileID) (GD_ProfileRevisions g)"

definition PurgeProfile :: "bool \<Rightarrow> string \<Rightarrow> profile_db \<Rightarrow> store_error + profile_db" where
  "PurgeProfile referenced i d =
     (let g = PD_Gov d; gone = map PV_ID (revisionsOf g i) in
      if \<not> list_ex (\<lambda>p. PF_ID p = i \<and> PF_Archived p) (GD_Profiles g) \<or> referenced then Inl Conflict
      else if list_ex (hasMembers d) gone then Inl (rejected ''governance revisions are immutable'')
      else Inr (d\<lparr>PD_Gov := g\<lparr>GD_Profiles := filter (\<lambda>p. PF_ID p \<noteq> i) (GD_Profiles g),
             GD_ProfileRevisions := filter (\<lambda>r. PV_ProfileID r \<noteq> i) (GD_ProfileRevisions g),
             GD_Published := filter (\<lambda>(p, _). p \<noteq> i) (GD_Published g)\<rparr>,
           PD_SkillHeads := filter (\<lambda>(p, _). p \<noteq> i) (PD_SkillHeads d), PD_ServerHeads := filter (\<lambda>(p, _). p \<noteq> i) (PD_ServerHeads d),
           PD_Seals := filter (\<lambda>s. s \<notin> set gone) (PD_Seals d),
           PD_Pending := filter (\<lambda>b. BN_ProfileRevisionID b \<notin> set gone) (PD_Pending d)\<rparr>))"

end
