(* ===== verification/Governance_Properties.thy ===== *)
theory Governance_Properties
  imports Governance_Store
begin

text \<open>
  What the governance tables guarantee: the revisions of the policy, the agreement between the number of tools shown for a
  profile and the number the relay's canary expects for the rendered bundle, and the ceiling of the global policy.
\<close>

section \<open>Lists of results\<close>

lemma mapE_Inr: "(mapE f xs = Inr ys) = list_all2 (\<lambda>x y. f x = Inr y) xs ys"
proof (induction xs arbitrary: ys)
  case Nil
  then show ?case by auto
next
  case (Cons x xs)
  show ?case
  proof (cases "f x")
    case (Inl e)
    then show ?thesis by (auto simp: list_all2_Cons1)
  next
    case (Inr y)
    show ?thesis
    proof (cases "mapE f xs")
      case (Inl e)
      then have "\<not> list_all2 (\<lambda>x y. f x = Inr y) xs zs" for zs using Cons.IH [of zs] by simp
      then show ?thesis using \<open>f x = Inr y\<close> Inl by (auto simp: list_all2_Cons1)
    next
      case (Inr zs)
      then have "list_all2 (\<lambda>x y. f x = Inr y) xs vs = (zs = vs)" for vs using Cons.IH [of vs] by simp
      then show ?thesis using \<open>f x = Inr y\<close> Inr by (auto simp: list_all2_Cons1)
    qed
  qed
qed

lemma find_key_iff: "distinct (map f xs) \<Longrightarrow> (find (\<lambda>y. f y = k) xs = Some x) = (x \<in> set xs \<and> f x = k)"
  by (metis find_key_SomeD find_key_unique)

text \<open>A sum over servers of what the matching profile server contributes is the sum over the profile servers.\<close>

lemma find_as_sum:
  fixes G :: "'b \<Rightarrow> nat"
  assumes "distinct (map b ys)"
  shows "(case find (\<lambda>y. b y = k) ys of None \<Rightarrow> 0 | Some y \<Rightarrow> G y) = (\<Sum>y\<leftarrow>ys. if b y = k then G y else 0)"
  using assms
proof (induction ys)
  case (Cons y ys)
  show ?case
  proof (cases "b y = k")
    case True
    then have "\<forall>z \<in> set ys. b z \<noteq> k" using Cons.prems by (simp, metis image_eqI)
    then have "(\<Sum>z\<leftarrow>ys. if b z = k then G z else 0) = 0" by (induction ys) auto
    then show ?thesis using True by simp
  qed (use Cons in simp)
qed simp

lemma sum_list_swap:
  fixes H :: "'a \<Rightarrow> 'b \<Rightarrow> nat"
  shows "(\<Sum>x\<leftarrow>xs. \<Sum>y\<leftarrow>ys. H x y) = (\<Sum>y\<leftarrow>ys. \<Sum>x\<leftarrow>xs. H x y)"
  by (induction xs) (simp_all add: sum_list_addf)

lemma sum_matching:
  fixes F :: "'a \<Rightarrow> 'b \<Rightarrow> nat"
  assumes "distinct (map a xs)" and "distinct (map b ys)"
  shows "(\<Sum>x\<leftarrow>xs. case find (\<lambda>y. b y = a x) ys of None \<Rightarrow> 0 | Some y \<Rightarrow> F x y)
    = (\<Sum>y\<leftarrow>ys. case find (\<lambda>x. a x = b y) xs of None \<Rightarrow> 0 | Some x \<Rightarrow> F x y)"
  unfolding find_as_sum [OF assms(1)] find_as_sum [OF assms(2)] sum_list_swap [of _ ys] by (simp add: eq_commute)

section \<open>Revisions of the policy\<close>

text \<open>The unique constraints of the table, and that the current revision is the latest.\<close>

definition policies_ok :: "governance_db \<Rightarrow> bool" where
  "policies_ok d = (distinct (map GP_ID (GD_Policies d)) \<and> distinct (map GP_CanonicalHash (GD_Policies d))
     \<and> distinct (map GP_Revision (GD_Policies d)) \<and> list_all policyDecisions_ok (GD_Policies d)
     \<and> (\<exists>c \<in> set (GD_Policies d). GP_ID c = GD_CurrentPolicy d \<and> (\<forall>p \<in> set (GD_Policies d). GP_Revision p \<le> GP_Revision c)))"

lemma findPolicy_iff: "policies_ok d \<Longrightarrow> (findPolicy d i = Some p) = (p \<in> set (GD_Policies d) \<and> GP_ID p = i)"
  unfolding policies_ok_def findPolicy_def by (rule find_key_iff) blast

lemma SaveGlobalPolicy_Inr:
  assumes "SaveGlobalPolicy ge newID now input d = Inr (p, d')"
  obtains (same) "d' = d" "findPolicy d (GD_CurrentPolicy d) = Some p" "GP_CanonicalHash p = canonicalPolicyHash ge (policyDefaults input)"
  | (saved) current where "findPolicy d (GD_CurrentPolicy d) = Some current" "GP_Revision p = GP_Revision current + 1" "GP_ID p = newID"
      "GP_CanonicalHash p = canonicalPolicyHash ge (policyDefaults input)" "policyDecisions_ok p"
      "GI_Revision input = 0 \<or> GI_Revision input = GP_Revision current"
      "newID \<notin> GP_ID ` set (GD_Policies d)" "GP_CanonicalHash p \<notin> GP_CanonicalHash ` set (GD_Policies d)"
      "d' = d\<lparr>GD_Policies := GD_Policies d @ [p], GD_CurrentPolicy := newID\<rparr>"
proof -
  let ?i = "policyDefaults input" and ?h = "canonicalPolicyHash ge (policyDefaults input)"
  have rev: "GI_Revision ?i = GI_Revision input" by (simp add: policyDefaults_def)
  have ok: "policyInputError ?i = None" using assms by (auto simp: SaveGlobalPolicy_def Let_def split: option.splits)
  obtain current where c: "findPolicy d (GD_CurrentPolicy d) = Some current"
    using assms ok by (auto simp: SaveGlobalPolicy_def Let_def split: option.splits)
  have r: "GI_Revision input = 0 \<or> GI_Revision input = GP_Revision current"
    using assms ok c rev by (auto simp: SaveGlobalPolicy_def Let_def split: if_splits)
  show thesis
  proof (cases "GP_CanonicalHash current = ?h")
    case True
    then have "d' = d \<and> p = current" using assms ok c r rev by (auto simp: SaveGlobalPolicy_def Let_def split: if_splits)
    then show thesis using same c True by simp
  next
    case False
    define q where "q = \<lparr>GP_ID = newID, GP_Revision = GP_Revision current + 1, GP_CanonicalHash = ?h,
       GP_CatalogVersion = GI_CatalogVersion ?i, GP_ExplicitOverrides = GI_ExplicitOverrides ?i,
       GP_UnclassifiedMutating = GI_UnclassifiedMutating ?i, GP_ReviewedReadOnly = GI_ReviewedReadOnly ?i, GP_CreatedAt = now\<rparr>"
    have "(case insertPolicy q d of Inl e \<Rightarrow> (Inl e :: store_error + GlobalPolicyRevision \<times> governance_db) | Inr d' \<Rightarrow> Inr (q, d'\<lparr>GD_CurrentPolicy := newID\<rparr>)) = Inr (p, d')"
      using assms ok c r rev False unfolding q_def by (auto simp: SaveGlobalPolicy_def Let_def)
    then obtain d1 where i: "insertPolicy q d = Inr d1" and p: "p = q" "d' = d1\<lparr>GD_CurrentPolicy := newID\<rparr>" by (auto split: sum.splits)
    have d1: "d1 = d\<lparr>GD_Policies := GD_Policies d @ [q]\<rparr>" "newID \<notin> GP_ID ` set (GD_Policies d)"
      "GP_CanonicalHash q \<notin> GP_CanonicalHash ` set (GD_Policies d)"
      using i by (auto simp: insertPolicy_def q_def list_ex_iff split: if_splits)
    have "policyDecisions_ok q" using ok by (auto simp: policyInputError_def policyDecisions_ok_def q_def split: if_splits)
    then show thesis using saved [OF c] d1 p r by (simp add: q_def)
  qed
qed

lemma saved_policies:
  assumes "policies_ok d" and "SaveGlobalPolicy ge newID now input d = Inr (p, d')"
  shows "policies_ok d' \<and> findPolicy d' (GD_CurrentPolicy d') = Some p \<and> GD_AppliedPolicy d' = GD_AppliedPolicy d
        \<and> GP_CanonicalHash p = canonicalPolicyHash ge (policyDefaults input)
        \<and> (d' = d \<or> (GD_Policies d' = GD_Policies d @ [p] \<and> (\<forall>q \<in> set (GD_Policies d). GP_Revision q < GP_Revision p)))"
  using assms(2)
proof (cases rule: SaveGlobalPolicy_Inr)
  case same
  then show ?thesis using assms(1) by simp
next
  case (saved current)
  have c: "current \<in> set (GD_Policies d)" "GP_ID current = GD_CurrentPolicy d" using saved(1) findPolicy_iff [OF assms(1)] by auto
  have max: "GP_Revision q \<le> GP_Revision current" if "q \<in> set (GD_Policies d)" for q
    using assms(1) c that unfolding policies_ok_def by (metis distinct_map inj_onD)
  then have lt: "GP_Revision q < GP_Revision p" if "q \<in> set (GD_Policies d)" for q using saved(2) that by fastforce
  then have fresh: "GP_Revision p \<notin> GP_Revision ` set (GD_Policies d)" by fastforce
  have ok: "policies_ok d'" using assms(1) saved(3,5,7,8,9) fresh lt unfolding policies_ok_def by (auto intro: less_imp_le)
  then have "findPolicy d' (GD_CurrentPolicy d') = Some p" using findPolicy_iff [OF ok] saved(3,9) by simp
  then show ?thesis using ok saved(4,9) lt by simp
qed

lemma SaveGlobalPolicy_input: "SaveGlobalPolicy ge newID now input d = Inr r \<Longrightarrow> policyInputError (policyDefaults input) = None"
  by (auto simp: SaveGlobalPolicy_def Let_def split: option.splits)

text \<open>
  Revisions of the policy. Saving keeps the table in order: identifiers, hashes and revision numbers stay distinct, the
  current revision is the latest, every revision has valid decisions, no stored revision changes, and the applied policy is
  not touched. A save either finds its content already current and writes nothing, or adds the next revision; a save that
  names another revision than the current one is refused.
\<close>

theorem policy_revisions:
  assumes "policies_ok d"
  shows "(\<forall>p d'. SaveGlobalPolicy ge newID now input d = Inr (p, d') \<longrightarrow>
        policies_ok d' \<and> findPolicy d' (GD_CurrentPolicy d') = Some p \<and> GD_AppliedPolicy d' = GD_AppliedPolicy d
        \<and> GP_CanonicalHash p = canonicalPolicyHash ge (policyDefaults input)
        \<and> (d' = d \<or> (GD_Policies d' = GD_Policies d @ [p] \<and> (\<forall>q \<in> set (GD_Policies d). GP_Revision q < GP_Revision p))))
    \<and> (\<forall>c. findPolicy d (GD_CurrentPolicy d) = Some c \<and> GI_Revision input \<noteq> 0 \<and> GI_Revision input \<noteq> GP_Revision c
        \<longrightarrow> isl (SaveGlobalPolicy ge newID now input d))"
proof (intro conjI allI impI)
  fix p d' assume s: "SaveGlobalPolicy ge newID now input d = Inr (p, d')"
  note saved_policies [OF assms s]
  then show "policies_ok d'" "findPolicy d' (GD_CurrentPolicy d') = Some p" "GD_AppliedPolicy d' = GD_AppliedPolicy d"
    "GP_CanonicalHash p = canonicalPolicyHash ge (policyDefaults input)"
    "d' = d \<or> (GD_Policies d' = GD_Policies d @ [p] \<and> (\<forall>q \<in> set (GD_Policies d). GP_Revision q < GP_Revision p))" by blast+
next
  fix c assume "findPolicy d (GD_CurrentPolicy d) = Some c \<and> GI_Revision input \<noteq> 0 \<and> GI_Revision input \<noteq> GP_Revision c"
  then show "isl (SaveGlobalPolicy ge newID now input d)"
    by (auto simp: SaveGlobalPolicy_def Let_def policyDefaults_def split: option.split)
qed

text \<open>The revision a request names matters for the comparison only.\<close>

lemma revision_only:
  "policyDefaults (x\<lparr>GI_Revision := r\<rparr>) = (policyDefaults x)\<lparr>GI_Revision := r\<rparr>"
  "policyInputError (y\<lparr>GI_Revision := r\<rparr>) = policyInputError y"
  "canonicalPolicyHash ge (y\<lparr>GI_Revision := r\<rparr>) = canonicalPolicyHash ge y"
  by (simp_all add: policyDefaults_def policyInputError_def canonicalPolicyHash_def)

text \<open>
  \<open>canonical_hash\<close> is unique over all revisions of the policy, but \<open>SaveGlobalPolicy\<close> compares the new hash with the
  current one only. After a save of one content and a save of another, saving the first one again is refused with the
  database's error for the unique constraint: a change of the policy cannot be taken back.
\<close>

theorem policy_not_restorable:
  assumes "policies_ok d0" and "SaveGlobalPolicy ge i1 t1 old d0 = Inr (p1, d1)" and "SaveGlobalPolicy ge i2 t2 other d1 = Inr (p2, d2)"
    and "canonicalPolicyHash ge (policyDefaults other) \<noteq> canonicalPolicyHash ge (policyDefaults old)"
    and "i3 \<notin> GP_ID ` set (GD_Policies d2)"
  shows "SaveGlobalPolicy ge i3 t3 (old\<lparr>GI_Revision := GP_Revision p2\<rparr>) d2
    = Inl (uniqueViolation ''global_policy_revisions_canonical_hash_key'')"
proof -
  let ?again = "old\<lparr>GI_Revision := GP_Revision p2\<rparr>"
  let ?h = "canonicalPolicyHash ge (policyDefaults old)"
  have ok1: "policies_ok d1" and cur1: "findPolicy d1 (GD_CurrentPolicy d1) = Some p1" and h1: "GP_CanonicalHash p1 = ?h"
    using saved_policies [OF assms(1,2)] by blast+
  have cur2: "findPolicy d2 (GD_CurrentPolicy d2) = Some p2" and h2: "GP_CanonicalHash p2 \<noteq> ?h"
    using saved_policies [OF ok1 assms(3)] assms(4) by simp_all
  have "p1 \<in> set (GD_Policies d2)"
    using saved_policies [OF ok1 assms(3)] cur1 findPolicy_iff [OF ok1] by auto
  then have dup: "list_ex (\<lambda>q. GP_CanonicalHash q = ?h) (GD_Policies d2)" using h1 by (auto simp: list_ex_iff)
  have new: "\<not> list_ex (\<lambda>q. GP_ID q = i3) (GD_Policies d2)" using assms(5) by (auto simp: list_ex_iff)
  have e: "policyInputError (policyDefaults ?again) = None"
    using SaveGlobalPolicy_input [OF assms(2)] by (simp add: revision_only)
  have h: "canonicalPolicyHash ge (policyDefaults ?again) = ?h" by (simp add: revision_only)
  have r: "GI_Revision (policyDefaults ?again) = GP_Revision p2" by (simp add: policyDefaults_def)
  show ?thesis using e cur2 h2 dup new unfolding SaveGlobalPolicy_def Let_def h r by (simp add: insertPolicy_def)
qed

section \<open>The tools a profile shows\<close>

text \<open>
  The primary keys of the tables the rendering reads, the checks on the \<open>jsonb\<close> columns, and that the tools of a contract
  belong to its server (the composite foreign keys of the schema).
\<close>

definition contractRows_ok :: "governance_db \<Rightarrow> bool" where
  "contractRows_ok d = (distinct (map (\<lambda>ct. (CT_ContractRevisionID ct, CT_ToolID ct)) (GD_ContractTools d))
     \<and> distinct (map TL_ID (GD_Tools d))
     \<and> list_all (\<lambda>ct. isObject (CT_InputSchema ct) \<and> isObject (CT_OutputSchema ct) \<and> isObject (CT_Annotations ct)) (GD_ContractTools d))"

definition profileRows_ok :: "governance_db \<Rightarrow> bool" where
  "profileRows_ok d = (distinct (map (\<lambda>r. (PT_ProfileRevisionID r, PT_ToolID r)) (GD_ProfileRules d))
     \<and> distinct (map (\<lambda>g. (PG_ProfileRevisionID g, PG_ServerID g)) (GD_ProfileGovernance d))
     \<and> list_all (\<lambda>g. list_all (\<lambda>ct. PG_AcceptedContract g = Some (CT_ContractRevisionID ct) \<longrightarrow>
          (\<exists>t \<in> set (GD_Tools d). TL_ID t = CT_ToolID ct \<and> TL_ServerID t = PG_ServerID g)) (GD_ContractTools d)) (GD_ProfileGovernance d))"

lemma policyRank_deny: "policyRank v \<le> 2" "(policyRank v = 2) = (v = DecisionDeny)"
  by (simp_all add: policyRank_def)

lemma EffectiveDecision_deny:
  assumes "decisionRank g \<le> decisionRank p"
  shows "(EffectiveDecision g p = DecisionDeny) = (p = DecisionDeny)"
proof -
  define g' where "g' = (if validDecision g then g else DecisionConfirm)"
  define p' where "p' = (if validDecision p then p else DecisionConfirm)"
  have e: "EffectiveDecision g p = (if policyRank p' > policyRank g' then p' else g')" by (simp add: EffectiveDecision_def g'_def p'_def)
  have p: "(p' = DecisionDeny) = (p = DecisionDeny)" and g: "(g' = DecisionDeny) = (g = DecisionDeny)"
    by (simp_all add: p'_def g'_def validDecision_def)
  have le: "p \<noteq> DecisionDeny \<Longrightarrow> g \<noteq> DecisionDeny" using assms by (auto simp: decisionRank_def split: if_splits)
  show ?thesis
  proof (cases "p = DecisionDeny")
    case True
    then have "policyRank p' = 2" using p policyRank_deny(2) by simp
    moreover have "policyRank g' < 2 \<or> g' = DecisionDeny" using policyRank_deny [of g'] by linarith
    ultimately show ?thesis unfolding e using True p by auto
  next
    case False
    then show ?thesis unfolding e using le p g by simp
  qed
qed

lemma findTool_iff: "contractRows_ok d \<Longrightarrow> (findTool d i = Some t) = (t \<in> set (GD_Tools d) \<and> TL_ID t = i)"
  unfolding contractRows_ok_def findTool_def by (rule find_key_iff) blast

lemma set_map_filter: "set (List.map_filter f xs) = {y. \<exists>x \<in> set xs. f x = Some y}"
  by (induction xs) (auto simp: List.map_filter_simps split: option.split)

lemma contractTools_mem: "((ct, t) \<in> set (contractTools d c)) = (ct \<in> set (GD_ContractTools d) \<and> CT_ContractRevisionID ct = c \<and> findTool d (CT_ToolID ct) = Some t)"
  unfolding contractTools_def set_map_filter by auto

text \<open>A tool of the accepted contract in the bundle: its identity, its decision, and whether it is paused.\<close>

lemma renderTool_Inr:
  assumes "renderTool ge global latest (ct, t) = Inr tool" and "\<forall>l. latest = Some l \<longrightarrow> isObject (CT_OutputSchema l) \<or> CT_OutputSchema l = JNull"
  shows "RT_ToolID tool = TL_ID t"
    and "RT_GlobalDecision tool = fst (classifyRoutingTool ge global (TL_ID t) (TL_Name t) (CT_InputSchema ct) (CT_OutputSchema ct) (CT_Annotations ct))"
    and "RT_Paused tool = routingToolPaused ge ct latest"
proof -
  obtain dec reasons where c: "classifyRoutingTool ge global (TL_ID t) (TL_Name t) (CT_InputSchema ct) (CT_OutputSchema ct) (CT_Annotations ct) = (dec, reasons)"
    by (rule prod.exhaust)
  have obj: "isObject (CT_InputSchema ct)" "isObject (CT_Annotations ct)" "\<not> (CT_OutputSchema ct \<noteq> JNull \<and> \<not> isObject (CT_OutputSchema ct))"
    using assms(1) by (simp_all add: renderTool_def split: if_splits)
  note run = assms(1) [unfolded renderTool_def case_prod_conv c Let_def if_not_P [OF obj(3)], simplified obj, simplified]
  have "RT_ToolID tool = TL_ID t \<and> RT_GlobalDecision tool = dec \<and> RT_Paused tool = routingToolPaused ge ct latest"
  proof (cases latest)
    case None
    then show ?thesis using run by (auto simp: routingToolPaused_def)
  next
    case (Some l)
    then have "isObject (CT_InputSchema l)" "isObject (CT_Annotations l)" "decodesToMap (CT_OutputSchema l)"
      using run assms(2) by (auto simp: decodesToMap_def split: if_splits)
    then show ?thesis using run Some by (auto simp: routingToolPaused_def decodesToMap_def)
  qed
  then show "RT_ToolID tool = TL_ID t"
    "RT_GlobalDecision tool = fst (classifyRoutingTool ge global (TL_ID t) (TL_Name t) (CT_InputSchema ct) (CT_OutputSchema ct) (CT_Annotations ct))"
    "RT_Paused tool = routingToolPaused ge ct latest"
    by (simp_all add: c)
qed

text \<open>The rules and overrides rendered for a tool are those of the tables.\<close>

lemma distinct_sort_key_map: "distinct (map f (sort_key g xs)) = distinct (map f xs)"
  by (simp add: distinct_map)

lemma distinct_map_restrict: "distinct (map (\<lambda>x. (f x, g x)) xs) \<Longrightarrow> distinct (map g (filter (\<lambda>x. f x = k \<and> P x) xs))"
  by (auto simp: distinct_map inj_on_def)

lemma find_map_key: "find (\<lambda>y. h y = k) (map f xs) = map_option f (find (\<lambda>x. h (f x) = k) xs)"
  by (induction xs) auto

lemma ruleRows_find:
  assumes "profileRows_ok d" and t: "findTool d i = Some t"
  shows "find (\<lambda>r. PT_ToolID r = i) (ruleRows d rid (TL_ServerID t)) = findRule d rid i"
proof -
  let ?rows = "ruleRows d rid (TL_ServerID t)"
  have dist: "distinct (map PT_ToolID ?rows)"
    unfolding ruleRows_def distinct_sort_key_map using assms(1) by (intro distinct_map_restrict) (simp add: profileRows_ok_def)
  have mem: "r \<in> set ?rows \<and> PT_ToolID r = i \<longleftrightarrow> r \<in> set (GD_ProfileRules d) \<and> PT_ProfileRevisionID r = rid \<and> PT_ToolID r = i" for r
    using t by (auto simp: ruleRows_def)
  have pair: "distinct (map (\<lambda>r. (PT_ProfileRevisionID r, PT_ToolID r)) (GD_ProfileRules d))" using assms(1) by (simp add: profileRows_ok_def)
  have "find (\<lambda>r. PT_ToolID r = i) ?rows = Some r \<longleftrightarrow> findRule d rid i = Some r" for r
    using find_key_iff [OF dist, of i r] find_key_iff [OF pair, of "(rid, i)" r] mem [of r] by (simp add: findRule_def)
  then show ?thesis by (metis option.exhaust)
qed

lemma toolRules:
  assumes "profileRows_ok d" and t: "findTool d (RT_ToolID tool) = Some t" and ps: "PS_ToolRules ps = snd (routingProfileRules d rid (TL_ServerID t))"
  shows "toolDecision ps tool = (case findRule d rid (RT_ToolID tool) of None \<Rightarrow> RT_GlobalDecision tool | Some r \<Rightarrow> PT_Decision r)"
  using ruleRows_find [OF assms(1) t, of rid]
  by (simp add: toolDecision_def ps routingProfileRules_def find_map_key split: option.split)

lemma hasRule_find: "hasRule d rid i = (findRule d rid i \<noteq> None)"
  by (induction "GD_ProfileRules d") (auto simp: hasRule_def findRule_def find_None_iff list_ex_iff)

lemma hiddenTools_mem:
  assumes "profileRows_ok d" and "contractRows_ok d" and "ct \<in> set (GD_ContractTools d)"
    and g: "g \<in> set (governanceRows d rid)" "PG_AcceptedContract g = Some (CT_ContractRevisionID ct)"
  shows "(CT_ToolID ct \<in> set (hiddenTools d rid (PG_ServerID g))) = (PG_VisibilityMode g = ''all_accepted'' \<and> CT_Status ct = ''new_hidden''
     \<and> \<not> renamedTool d ct \<and> findRule d rid (CT_ToolID ct) = None)"
proof -
  have g1: "h = g" if "h \<in> set (governanceRows d rid)" "PG_ServerID h = PG_ServerID g" for h
    using that g(1) assms(1) unfolding profileRows_ok_def governanceRows_def by (auto simp: distinct_map inj_on_def)
  have c1: "x = ct" if "x \<in> set (GD_ContractTools d)" "CT_ContractRevisionID x = CT_ContractRevisionID ct" "CT_ToolID x = CT_ToolID ct" for x
    using that assms(2,3) unfolding contractRows_ok_def by (auto simp: distinct_map inj_on_def)
  have "(CT_ToolID ct \<in> set (hiddenTools d rid (PG_ServerID g))) = (\<exists>h \<in> set (governanceRows d rid). PG_ServerID h = PG_ServerID g
      \<and> PG_VisibilityMode h = ''all_accepted'' \<and> (\<exists>x \<in> set (GD_ContractTools d). PG_AcceptedContract h = Some (CT_ContractRevisionID x)
          \<and> CT_Status x = ''new_hidden'' \<and> \<not> renamedTool d x \<and> \<not> hasRule d rid (CT_ToolID x) \<and> CT_ToolID ct = CT_ToolID x))"
    unfolding hiddenTools_def by auto
  also have "\<dots> = (PG_VisibilityMode g = ''all_accepted'' \<and> (\<exists>x \<in> set (GD_ContractTools d). PG_AcceptedContract g = Some (CT_ContractRevisionID x)
          \<and> CT_Status x = ''new_hidden'' \<and> \<not> renamedTool d x \<and> \<not> hasRule d rid (CT_ToolID x) \<and> CT_ToolID ct = CT_ToolID x))"
    using g1 g(1) by blast
  also have "\<dots> = (PG_VisibilityMode g = ''all_accepted'' \<and> CT_Status ct = ''new_hidden'' \<and> \<not> renamedTool d ct \<and> \<not> hasRule d rid (CT_ToolID ct))"
    using c1 g(2) assms(3) by (metis option.inject)
  finally show ?thesis unfolding hasRule_find by simp
qed

lemma find_append: "find P (xs @ ys) = (case find P xs of None \<Rightarrow> find P ys | Some x \<Rightarrow> Some x)"
  by (induction xs) auto

lemma find_same: "find (\<lambda>x. x = k) xs = (if k \<in> set xs then Some k else None)"
  by (induction xs) auto

lemma toolOverrides:
  assumes "profileRows_ok d" and "contractRows_ok d" and ct: "ct \<in> set (GD_ContractTools d)" and id: "RT_ToolID tool = CT_ToolID ct"
    and t: "findTool d (CT_ToolID ct) = Some t" "TL_ServerID t = PG_ServerID g"
    and g: "g \<in> set (governanceRows d rid)" "PG_AcceptedContract g = Some (CT_ContractRevisionID ct)"
    and ps: "PS_ToolOverrides ps = fst (routingProfileRules d rid (PG_ServerID g))" "PS_VisibilityMode ps = PG_VisibilityMode g"
  shows "toolVisible ps tool = (case findRule d rid (CT_ToolID ct) of
      Some r \<Rightarrow> PT_Visible r | None \<Rightarrow> PG_VisibilityMode g = ''all_accepted'' \<and> \<not> (CT_Status ct = ''new_hidden'' \<and> \<not> renamedTool d ct))"
proof -
  let ?i = "CT_ToolID ct"
  have hidden: "find (\<lambda>x. x = ?i) (hiddenTools d rid (PG_ServerID g)) = (if ?i \<in> set (hiddenTools d rid (PG_ServerID g)) then Some ?i else None)"
    by (rule find_same)
  have "find (\<lambda>ov. VO_ToolID ov = ?i) (PS_ToolOverrides ps) =
     (case findRule d rid ?i of
        Some r \<Rightarrow> Some \<lparr>VO_ToolID = PT_ToolID r, VO_Visible = PT_Visible r\<rparr>
      | None \<Rightarrow> if ?i \<in> set (hiddenTools d rid (PG_ServerID g)) then Some \<lparr>VO_ToolID = ?i, VO_Visible = False\<rparr> else None)"
    using ruleRows_find [OF assms(1) t(1), of rid, unfolded t(2)] hidden
    by (simp add: ps(1) routingProfileRules_def find_append find_map_key split: option.split)
  then show ?thesis
    using hiddenTools_mem [OF assms(1,2) ct g] by (auto simp: toolVisible_def id ps(2) split: option.split)
qed

text \<open>One tool of one server of a profile counts for both.\<close>

definition exposed :: "ProfileServerRoutingDTO \<Rightarrow> RoutingToolDTO \<Rightarrow> bool" where
  "exposed ps tool = (toolVisible ps tool \<and> \<not> RT_Paused tool \<and> toolDecision ps tool \<noteq> ''deny'')"

lemma latestTool_mem: "latestTool d s i = Some l \<Longrightarrow> l \<in> set (GD_ContractTools d)"
  unfolding latestTool_def by (auto split: option.splits simp: find_Some_iff)

lemma countsTool_exposed:
  assumes "profileRows_ok d" and "contractRows_ok d"
    and g: "g \<in> set (governanceRows d rid)" "PG_AcceptedContract g = Some c" and row: "(ct, t) \<in> set (contractTools d c)"
    and tool: "renderTool ge global (latestTool d (TL_ServerID t) (CT_ToolID ct)) (ct, t) = Inr tool"
    and ps: "PS_VisibilityMode ps = PG_VisibilityMode g" "(PS_ToolOverrides ps, PS_ToolRules ps) = routingProfileRules d rid (PG_ServerID g)"
    and rank: "decisionRank (RT_GlobalDecision tool) \<le> decisionRank (toolDecision ps tool)"
  shows "countsTool ge d global g (ct, t) = Inr (exposed ps tool)"
proof -
  have ct: "ct \<in> set (GD_ContractTools d)" "CT_ContractRevisionID ct = c" "findTool d (CT_ToolID ct) = Some t"
    using row unfolding contractTools_mem by blast+
  have tid: "t \<in> set (GD_Tools d)" "TL_ID t = CT_ToolID ct" using ct(3) findTool_iff [OF assms(2)] by blast+
  have own: "TL_ServerID t = PG_ServerID g"
  proof -
    have "\<exists>u \<in> set (GD_Tools d). TL_ID u = CT_ToolID ct \<and> TL_ServerID u = PG_ServerID g"
      using assms(1) g ct by (auto simp: profileRows_ok_def governanceRows_def list_all_iff)
    then show ?thesis using findTool_iff [OF assms(2)] ct(3) by (metis option.inject)
  qed
  have rid: "PG_ProfileRevisionID g = rid" using g(1) by (simp add: governanceRows_def)
  have objects: "isObject (CT_InputSchema x) \<and> isObject (CT_OutputSchema x) \<and> isObject (CT_Annotations x)" if "x \<in> set (GD_ContractTools d)" for x
    using assms(2) that by (auto simp: contractRows_ok_def list_all_iff)
  have latest: "\<forall>l. latestTool d (TL_ServerID t) (CT_ToolID ct) = Some l \<longrightarrow> isObject (CT_OutputSchema l) \<or> CT_OutputSchema l = JNull"
    using latestTool_mem objects by blast
  note R = renderTool_Inr [OF tool latest]
  have id: "RT_ToolID tool = CT_ToolID ct" using R(1) tid by simp
  have psr: "PS_ToolOverrides ps = fst (routingProfileRules d rid (PG_ServerID g))" "PS_ToolRules ps = snd (routingProfileRules d rid (PG_ServerID g))"
    using ps(2) by (metis fst_conv snd_conv)+
  have vis: "toolVisible ps tool = (case findRule d rid (CT_ToolID ct) of
      Some r \<Rightarrow> PT_Visible r | None \<Rightarrow> PG_VisibilityMode g = ''all_accepted'' \<and> \<not> (CT_Status ct = ''new_hidden'' \<and> \<not> renamedTool d ct))"
    using toolOverrides [OF assms(1,2) ct(1) id ct(3) own g(1) _ psr(1) ps(1)] g(2) ct(2) by simp
  have dec: "toolDecision ps tool = (case findRule d rid (CT_ToolID ct) of None \<Rightarrow> RT_GlobalDecision tool | Some r \<Rightarrow> PT_Decision r)"
    using toolRules [OF assms(1), of tool t ps rid] psr(2) ct(3) id own by simp
  define effective where "effective = (case findRule d rid (CT_ToolID ct) of None \<Rightarrow> RT_GlobalDecision tool | Some r \<Rightarrow> EffectiveDecision (RT_GlobalDecision tool) (PT_Decision r))"
  have eff: "(effective = DecisionDeny) = (toolDecision ps tool = DecisionDeny)"
    using rank EffectiveDecision_deny unfolding effective_def dec by (simp split: option.splits)
  have "countsTool ge d global g (ct, t) = Inr (toolVisible ps tool \<and> \<not> RT_Paused tool \<and> effective \<noteq> DecisionDeny)"
    unfolding vis effective_def countsTool_def rid R(2,3) own
    using objects [OF ct(1)] by (simp add: decodesToMap_def Let_def split: option.split)
  then show ?thesis unfolding exposed_def eff by simp
qed

lemma list_all2_mono_mem:
  "list_all2 P xs ys \<Longrightarrow> (\<And>x y. x \<in> set xs \<Longrightarrow> y \<in> set ys \<Longrightarrow> P x y \<Longrightarrow> Q x y) \<Longrightarrow> list_all2 Q xs ys"
  by (induction xs ys rule: list_all2_induct) auto

lemma mapE_concat: "list_all2 (\<lambda>xs ys. mapE f xs = Inr ys) xss yss \<Longrightarrow> mapE f (concat xss) = Inr (concat yss)"
proof (induction xss yss rule: list_all2_induct)
  case (Cons xs xss ys yss)
  have "mapE f (us @ vs) = Inr (us' @ vs')" if "mapE f us = Inr us'" "mapE f vs = Inr vs'" for us us' vs vs'
    using that unfolding mapE_Inr by (rule list_all2_appendI)
  then show ?case using Cons by simp
qed simp

lemma mapE_mem: "mapE f xs = Inr ys \<Longrightarrow> y \<in> set ys \<Longrightarrow> \<exists>x \<in> set xs. f x = Inr y"
  unfolding mapE_Inr by (induction xs ys rule: list_all2_induct) auto

lemma RenderRoutingBundle_Inr:
  assumes "RenderRoutingBundle ge d = Inr (bundle, hash)"
  obtains global revisions where "findPolicy d (GD_AppliedPolicy d) = Some global"
    "mapE (renderServer ge d global) (relayServers d (GD_AppliedRelay d)) = Inr (RB_Servers bundle)"
    "mapE (renderProfile d (RB_Servers bundle)) revisions = Inr (RB_Profiles bundle)"
proof -
  obtain relay global where r: "findRelay d (GD_AppliedRelay d) = Some relay" "findPolicy d (GD_AppliedPolicy d) = Some global"
    using assms by (auto simp: RenderRoutingBundle_def renderCandidateRoutingBundle_def noCandidate_def Let_def split: if_splits)
  obtain servers where s: "mapE (renderServer ge d global) (relayServers d (GD_AppliedRelay d)) = Inr servers"
    using assms r by (auto simp: RenderRoutingBundle_def renderCandidateRoutingBundle_def noCandidate_def Let_def split: sum.splits)
  obtain revisions where v: "publishedRevisions (ge_uuid ge) d noCandidate = Inr revisions"
    using assms r s by (auto simp: RenderRoutingBundle_def renderCandidateRoutingBundle_def noCandidate_def Let_def split: sum.splits)
  obtain profiles where p: "mapE (renderProfile d servers) (sort_key fst revisions) = Inr profiles"
    using assms r s v by (auto simp: RenderRoutingBundle_def renderCandidateRoutingBundle_def noCandidate_def Let_def split: sum.splits)
  have "RB_Servers bundle = servers \<and> RB_Profiles bundle = profiles"
    using assms r s v p by (auto simp: RenderRoutingBundle_def renderCandidateRoutingBundle_def noCandidate_def Let_def split: sum.splits)
  then show thesis using that r s p by blast
qed

lemma renderServer_Inr:
  assumes "renderServer ge d global (pin, nm) = Inr server"
  shows "case SC_AcceptedContractRevisionID server of
      None \<Rightarrow> SC_Tools server = []
    | Some c \<Rightarrow> list_all2 (\<lambda>(ct, t) tool. renderTool ge global (latestTool d (TL_ServerID t) (CT_ToolID ct)) (ct, t) = Inr tool) (contractTools d c) (SC_Tools server)"
  using assms by (auto simp: renderServer_def Let_def mapE_Inr case_prod_unfold split: option.splits sum.splits)

lemma renderProfileServer_Inr:
  assumes "renderProfileServer d servers rid g = Inr ps"
  obtains server where "find (\<lambda>s. SC_ServerID s = PG_ServerID g) servers = Some server" "SC_AcceptedContractRevisionID server = PG_AcceptedContract g"
    "PS_ServerID ps = PG_ServerID g" "PS_VisibilityMode ps = PG_VisibilityMode g" "(PS_ToolOverrides ps, PS_ToolRules ps) = routingProfileRules d rid (PG_ServerID g)"
proof -
  obtain server where f: "findRoutingServer servers (PG_ServerID g) = Some server"
    using assms by (auto simp: renderProfileServer_def split: option.splits)
  have id: "SC_ServerID server = PG_ServerID g" using f find_key_SomeD unfolding findRoutingServer_def by metis
  obtain ov rl where r: "routingProfileRules d rid (PG_ServerID g) = (ov, rl)" by (rule prod.exhaust)
  show thesis using that [of server] f r assms id by (auto simp: renderProfileServer_def findRoutingServer_def split: if_splits)
qed

lemma renderProfile_Inr:
  assumes "renderProfile d servers (pid, rid) = Inr p"
  shows "PP_ProfileRevisionID p = rid \<and> mapE (renderProfileServer d servers rid) (sort_key PG_ServerID (governanceRows d rid)) = Inr (PP_Servers p)"
  using assms by (auto simp: renderProfile_def split: option.splits if_splits sum.splits)

text \<open>The rows of the count that belong to one server of the profile.\<close>

definition serverRows :: "governance_db \<Rightarrow> profile_governance_row \<Rightarrow> (profile_governance_row \<times> contract_tool_row \<times> tool_row) list" where
  "serverRows d g = (case PG_AcceptedContract g of None \<Rightarrow> [] | Some c \<Rightarrow> map (Pair g) (contractTools d c))"

lemma countsServer:
  assumes ok: "profileRows_ok d" "contractRows_ok d" and g: "g \<in> set (governanceRows d rid)"
    and servers: "mapE (renderServer ge d global) pins = Inr servers" and ps: "renderProfileServer d servers rid g = Inr ps"
    and rank: "\<And>server tool. server \<in> set servers \<Longrightarrow> SC_ServerID server = PS_ServerID ps \<Longrightarrow> tool \<in> set (SC_Tools server)
        \<Longrightarrow> decisionRank (RT_GlobalDecision tool) \<le> decisionRank (toolDecision ps tool)"
  shows "\<exists>server. find (\<lambda>s. SC_ServerID s = PS_ServerID ps) servers = Some server
    \<and> mapE (\<lambda>(g, row). countsTool ge d global g row) (serverRows d g) = Inr (map (exposed ps) (SC_Tools server))"
proof -
  obtain server where s: "find (\<lambda>s. SC_ServerID s = PG_ServerID g) servers = Some server" "SC_AcceptedContractRevisionID server = PG_AcceptedContract g"
      and p: "PS_ServerID ps = PG_ServerID g" "PS_VisibilityMode ps = PG_VisibilityMode g" "(PS_ToolOverrides ps, PS_ToolRules ps) = routingProfileRules d rid (PG_ServerID g)"
    by (rule renderProfileServer_Inr [OF ps])
  have mem: "server \<in> set servers" "SC_ServerID server = PS_ServerID ps" using find_key_SomeD [OF s(1)] p(1) by auto
  obtain pin nm where "renderServer ge d global (pin, nm) = Inr server" using mapE_mem [OF servers mem(1)] by force
  note tools = renderServer_Inr [OF this, unfolded s(2)]
  have "mapE (\<lambda>(g, row). countsTool ge d global g row) (serverRows d g) = Inr (map (exposed ps) (SC_Tools server))"
  proof (cases "PG_AcceptedContract g")
    case None
    then show ?thesis using tools by (simp add: serverRows_def)
  next
    case (Some c)
    have rows: "list_all2 (\<lambda>(ct, t) tool. renderTool ge global (latestTool d (TL_ServerID t) (CT_ToolID ct)) (ct, t) = Inr tool) (contractTools d c) (SC_Tools server)"
      using tools Some by simp
    have "list_all2 (\<lambda>row tool. countsTool ge d global g row = Inr (exposed ps tool)) (contractTools d c) (SC_Tools server)"
    proof (rule list_all2_mono_mem [OF rows])
      fix row tool
      assume m: "row \<in> set (contractTools d c)" "tool \<in> set (SC_Tools server)"
        and r: "(case row of (ct, t) \<Rightarrow> \<lambda>tool. renderTool ge global (latestTool d (TL_ServerID t) (CT_ToolID ct)) (ct, t) = Inr tool) tool"
      obtain ct t where row: "row = (ct, t)" by (rule prod.exhaust)
      show "countsTool ge d global g row = Inr (exposed ps tool)" unfolding row
        by (rule countsTool_exposed [OF ok g Some m(1) [unfolded row] r [unfolded row, simplified] p(2,3) rank [OF mem m(2)]])
    qed
    then show ?thesis using Some by (simp add: serverRows_def mapE_Inr list_all2_map1 list_all2_map2)
  qed
  then show ?thesis using s(1) p(1) by simp
qed

lemma map_list_all2: "list_all2 P xs ys \<Longrightarrow> (\<And>x y. P x y \<Longrightarrow> h y = f x) \<Longrightarrow> map h ys = map f xs"
  by (induction xs ys rule: list_all2_induct) auto

lemma filter_id_map: "length (filter id (map P xs)) = length (filter P xs)"
  by (induction xs) auto

lemma length_filter_concat: "length (filter P (concat xss)) = (\<Sum>xs\<leftarrow>xss. length (filter P xs))"
  by (induction xss) auto

text \<open>
  C24. Two computations of the same number. For a profile of a rendered bundle that the Bridge accepts, the number of visible
  tools the store shows (\<open>ProfileEffectiveVisibleCount\<close>, computed from the tables) is the number of tools the relay's session
  canary expects of the bundle (\<open>relayCanaryToolCount\<close>, computed from the rendered overrides, rules, pauses and decisions).
\<close>

theorem visible_count_matches_canary:
  assumes "profileRows_ok d" and "contractRows_ok d"
    and "RenderRoutingBundle ge d = Inr (bundle, hash)" and "RoutingBundle_Validate uv bundle = None" and "p \<in> set (RB_Profiles bundle)"
  shows "ProfileEffectiveVisibleCount ge d (PP_ProfileRevisionID p) = Inr (relayCanaryToolCount bundle p)"
proof -
  obtain global revisions where r: "findPolicy d (GD_AppliedPolicy d) = Some global"
      "mapE (renderServer ge d global) (relayServers d (GD_AppliedRelay d)) = Inr (RB_Servers bundle)"
      "mapE (renderProfile d (RB_Servers bundle)) revisions = Inr (RB_Profiles bundle)"
    by (rule RenderRoutingBundle_Inr [OF assms(3)])
  obtain pid rid where "renderProfile d (RB_Servers bundle) (pid, rid) = Inr p" using mapE_mem [OF r(3) assms(5)] by force
  note P = renderProfile_Inr [OF this]
  define rows where "rows = sort_key PG_ServerID (governanceRows d rid)"
  have each: "list_all2 (\<lambda>g ps. renderProfileServer d (RB_Servers bundle) rid g = Inr ps) rows (PP_Servers p)"
    using P by (simp add: mapE_Inr rows_def)
  define toolsOf where "toolsOf ps = (case find (\<lambda>s. SC_ServerID s = PS_ServerID ps) (RB_Servers bundle) of None \<Rightarrow> [] | Some s \<Rightarrow> SC_Tools s)" for ps :: ProfileServerRoutingDTO
  have "list_all2 (\<lambda>g ps. mapE (\<lambda>(g, row). countsTool ge d global g row) (serverRows d g) = Inr (map (exposed ps) (toolsOf ps))) rows (PP_Servers p)"
  proof (rule list_all2_mono_mem [OF each])
    fix g ps assume m: "g \<in> set rows" "ps \<in> set (PP_Servers p)" and s: "renderProfileServer d (RB_Servers bundle) rid g = Inr ps"
    have g: "g \<in> set (governanceRows d rid)" using m(1) by (simp add: rows_def)
    show "mapE (\<lambda>(g, row). countsTool ge d global g row) (serverRows d g) = Inr (map (exposed ps) (toolsOf ps))"
    proof -
      have "\<exists>server. find (\<lambda>s. SC_ServerID s = PS_ServerID ps) (RB_Servers bundle) = Some server
          \<and> mapE (\<lambda>(g, row). countsTool ge d global g row) (serverRows d g) = Inr (map (exposed ps) (SC_Tools server))"
        by (rule countsServer [OF assms(1,2) g r(2) s]) (rule toolDecision_rank [OF assms(4,5) m(2)])
      then show ?thesis unfolding toolsOf_def by (elim exE conjE) simp
    qed
  qed
  then have "list_all2 (\<lambda>xs ys. mapE (\<lambda>(g, row). countsTool ge d global g row) xs = Inr ys) (map (serverRows d) rows) (map (\<lambda>ps. map (exposed ps) (toolsOf ps)) (PP_Servers p))"
    by (simp add: list_all2_map1 list_all2_map2)
  note counted = mapE_concat [OF this]
  have count: "ProfileEffectiveVisibleCount ge d rid = Inr (\<Sum>ps\<leftarrow>PP_Servers p. length (filter (exposed ps) (toolsOf ps)))"
    using counted r(1)
    by (simp add: ProfileEffectiveVisibleCount_def AppliedGlobalPolicy_def GlobalPolicy_def rows_def serverRows_def length_filter_concat
        filter_id_map comp_def cong: map_cong)
  have ids: "map PS_ServerID (PP_Servers p) = map PG_ServerID rows"
    using each by (rule map_list_all2) (metis renderProfileServer_Inr)
  have dp: "distinct (map PS_ServerID (PP_Servers p))"
    unfolding ids rows_def distinct_sort_key_map governanceRows_def using assms(1) distinct_map_restrict [where P = "\<lambda>_. True"]
    by (fastforce simp: profileRows_ok_def)
  obtain names rts n where "checkServers uv (RB_Mode bundle) (length (RB_Servers bundle) > 1) (RB_Servers bundle) [] [] ([], 0) = Inr (names, rts, n)"
    using RoutingBundle_Validate_None [OF assms(4)] by metis
  then have ds: "distinct (map SC_ServerID (RB_Servers bundle))" using checkServers_Inr by fastforce
  have "relayCanaryToolCount bundle p = (\<Sum>ps\<leftarrow>PP_Servers p. case find (\<lambda>s. SC_ServerID s = PS_ServerID ps) (RB_Servers bundle) of
      None \<Rightarrow> 0 | Some s \<Rightarrow> length (filter (exposed ps) (SC_Tools s)))"
    unfolding relayCanaryToolCount_def exposed_def by (rule sum_matching [OF ds dp])
  also have "\<dots> = (\<Sum>ps\<leftarrow>PP_Servers p. length (filter (exposed ps) (toolsOf ps)))"
    by (rule arg_cong [where f = sum_list], rule map_cong [OF refl]) (simp add: toolsOf_def split: option.split)
  finally show ?thesis using count P by simp
qed

section \<open>The ceiling of the policy\<close>

text \<open>The tools of an accepted contract belong to the server that accepted it.\<close>

definition contractsOwned :: "governance_db \<Rightarrow> bool" where
  "contractsOwned d = list_all (\<lambda>cs. list_all (\<lambda>ct. CS_Accepted cs = Some (CT_ContractRevisionID ct) \<longrightarrow>
     (\<exists>t \<in> set (GD_Tools d). TL_ID t = CT_ToolID ct \<and> TL_ServerID t = CS_ServerID cs)) (GD_ContractTools d)) (GD_ContractStates d)"

lemma list_all2_mem_right:
  assumes "list_all2 P xs ys" and "y \<in> set ys"
  shows "\<exists>x \<in> set xs. P x y"
  using assms by (induction rule: list_all2_induct) auto

lemma EffectiveDecision_fixed:
  assumes "validDecision r" and "EffectiveDecision g r = r"
  shows "decisionRank g \<le> decisionRank r"
proof -
  have eq: "policyRank v = decisionRank v" for v by (simp add: policyRank_def decisionRank_def)
  show ?thesis
  proof (cases "validDecision g")
    case True
    then show ?thesis using assms eq by (auto simp: EffectiveDecision_def split: if_splits)
  next
    case False
    then show ?thesis using validDecision_other [OF False] by (simp add: decisionRank_def)
  qed
qed

lemma checkCeiling_None:
  "checkCeiling ge d global rules seen = None \<Longrightarrow> rule \<in> set rules \<Longrightarrow> validDecision (PTR_Decision rule) \<and>
    (\<exists>ct t. acceptedRoutingTool d (PTR_ToolID rule) = Inr (ct, t) \<and>
      EffectiveDecision (fst (classifyRoutingTool ge global (TL_ID t) (TL_Name t) (CT_InputSchema ct) (CT_OutputSchema ct) (CT_Annotations ct))) (PTR_Decision rule)
        = PTR_Decision rule)"
  by (induction rules arbitrary: seen) (auto simp: Let_def split: if_splits sum.splits)

lemma acceptedRoutingTool_Inr:
  assumes "acceptedRoutingTool d i = Inr (ct, t)"
  shows "findTool d i = Some t \<and> (\<exists>cs. findState d (TL_ServerID t) = Some cs \<and> CS_Accepted cs = Some (CT_ContractRevisionID ct)) \<and> ct \<in> set (GD_ContractTools d) \<and> CT_ToolID ct = i"
  using assms by (auto simp: acceptedRoutingTool_def find_Some_iff split: option.splits if_splits)

lemma renderServer_accepted:
  assumes "renderServer ge d global (pin, nm) = Inr server"
  shows "SC_AcceptedContractRevisionID server = (case findState d (SC_ServerID server) of None \<Rightarrow> None | Some cs \<Rightarrow> CS_Accepted cs)"
  using assms by (auto simp: renderServer_def Let_def split: option.splits sum.splits)

text \<open>
  C25. Saved rules keep under the ceiling. When the rules of a profile pass \<open>validateProfileToolCeiling\<close>, then in the bundle
  rendered from the same tables no rule is looser than the decision rendered for its tool, and every rule has a valid
  decision, as \<open>RoutingBundle.Validate\<close> demands.
\<close>

theorem saved_rules_respect_ceiling:
  assumes "contractRows_ok d" and "contractsOwned d"
    and "validateProfileToolCeiling ge d rules = None" and "rule \<in> set rules"
    and "RenderRoutingBundle ge d = Inr (bundle, hash)" and "server \<in> set (RB_Servers bundle)"
    and "tool \<in> set (SC_Tools server)" and "RT_ToolID tool = PTR_ToolID rule"
  shows "decisionRank (RT_GlobalDecision tool) \<le> decisionRank (PTR_Decision rule) \<and> validGovernanceDecision (PTR_Decision rule)"
proof -
  obtain global revisions where r: "findPolicy d (GD_AppliedPolicy d) = Some global"
      "mapE (renderServer ge d global) (relayServers d (GD_AppliedRelay d)) = Inr (RB_Servers bundle)"
    by (rule RenderRoutingBundle_Inr [OF assms(5)])
  have "checkCeiling ge d global rules [] = None" using assms(3,4) r(1) by (auto simp: validateProfileToolCeiling_def split: if_splits)
  from checkCeiling_None [OF this assms(4)] obtain ct t where v: "validDecision (PTR_Decision rule)"
    and a: "acceptedRoutingTool d (PTR_ToolID rule) = Inr (ct, t)"
    and e: "EffectiveDecision (fst (classifyRoutingTool ge global (TL_ID t) (TL_Name t) (CT_InputSchema ct) (CT_OutputSchema ct) (CT_Annotations ct))) (PTR_Decision rule) = PTR_Decision rule"
    by blast
  note A = acceptedRoutingTool_Inr [OF a]
  obtain pin nm where s: "renderServer ge d global (pin, nm) = Inr server" using mapE_mem [OF r(2) assms(6)] by force
  obtain c where c: "SC_AcceptedContractRevisionID server = Some c"
    using renderServer_Inr [OF s] assms(7) by (cases "SC_AcceptedContractRevisionID server") auto
  then obtain cs where cs: "findState d (SC_ServerID server) = Some cs" "CS_Accepted cs = Some c"
    using renderServer_accepted [OF s] by (auto split: option.splits)
  obtain ct' t' where row: "(ct', t') \<in> set (contractTools d c)" "renderTool ge global (latestTool d (TL_ServerID t') (CT_ToolID ct')) (ct', t') = Inr tool"
  proof -
    have "list_all2 (\<lambda>(ct, t) tool. renderTool ge global (latestTool d (TL_ServerID t) (CT_ToolID ct)) (ct, t) = Inr tool) (contractTools d c) (SC_Tools server)"
      using renderServer_Inr [OF s] c by simp
    from list_all2_mem_right [OF this assms(7)] have "\<exists>ct t. (ct, t) \<in> set (contractTools d c) \<and> renderTool ge global (latestTool d (TL_ServerID t) (CT_ToolID ct)) (ct, t) = Inr tool"
      by (auto split: prod.splits)
    then show thesis using that by blast
  qed
  have m: "ct' \<in> set (GD_ContractTools d)" "CT_ContractRevisionID ct' = c" "findTool d (CT_ToolID ct') = Some t'"
    using row(1) unfolding contractTools_mem by blast+
  have latest: "\<forall>l. latestTool d (TL_ServerID t') (CT_ToolID ct') = Some l \<longrightarrow> isObject (CT_OutputSchema l) \<or> CT_OutputSchema l = JNull"
    using latestTool_mem assms(1) by (fastforce simp: contractRows_ok_def list_all_iff)
  note R = renderTool_Inr [OF row(2) latest]
  have tid: "CT_ToolID ct' = PTR_ToolID rule" using R(1) assms(8) m(3) findTool_iff [OF assms(1)] by metis
  then have t: "t' = t" using m(3) A by simp
  have st: "cs \<in> set (GD_ContractStates d)" "CS_ServerID cs = SC_ServerID server" using find_key_SomeD cs(1) unfolding findState_def by metis+
  have "\<exists>u \<in> set (GD_Tools d). TL_ID u = CT_ToolID ct' \<and> TL_ServerID u = CS_ServerID cs"
    using assms(2) st(1) cs(2) m(1,2) by (auto simp: contractsOwned_def list_all_iff)
  then have "TL_ServerID t = SC_ServerID server" using findTool_iff [OF assms(1)] m(3) t st(2) by (metis option.inject)
  then have "CT_ContractRevisionID ct = c" using A cs by auto
  then have "ct = ct'" using A m(1,2) tid assms(1) by (auto simp: contractRows_ok_def distinct_map inj_on_def)
  then show ?thesis using EffectiveDecision_fixed [OF v e] R(2) t v by (simp add: validGovernanceDecision_def validDecision_def)
qed

section \<open>Examples\<close>

definition exampleGovEnv :: governance_env where
  "exampleGovEnv = \<lparr>ge_unmarshal = (\<lambda>_. None), ge_marshal = (\<lambda>v. case v of JObj [] \<Rightarrow> ''{}'' | JObj ((k, _) # _) \<Rightarrow> k | _ \<Rightarrow> ''''), ge_sha = (\<lambda>s. take 32 (s @ replicate 32 CHR ''0'')),
     ge_uuid = (\<lambda>s. s \<noteq> ''''), ge_canonical = (\<lambda>_. Inr ''{}'')\<rparr>"

definition examplePolicy :: GlobalPolicyRevision where
  "examplePolicy = defaultPolicy\<lparr>GP_CanonicalHash := replicate 64 CHR ''a''\<rparr>"

definition exampleTool :: "string \<Rightarrow> int \<Rightarrow> string \<Rightarrow> (string \<times> json) list \<Rightarrow> contract_tool_row" where
  "exampleTool i pos status annotations = \<lparr>CT_ContractRevisionID = ''c'', CT_ToolID = i, CT_Position = pos, CT_InputSchema = JObj [],
     CT_OutputSchema = JObj [], CT_Annotations = JObj annotations, CT_Presentation = JObj [], CT_Status = status\<rparr>"

definition exampleMCPRevision :: "string \<Rightarrow> string \<Rightarrow> mcp_revision_row" where
  "exampleMCPRevision i server = \<lparr>MR_ID = i, MR_ServerID = server, MR_Revision = 1, MR_Name = ''files'', MR_Description = '''', MR_Transport = ''stdio'',
     MR_Command = ''run'', MR_Args = [], MR_URL = '''', MR_EnvSlots = [], MR_HeaderSlots = [], MR_ContentHash = '''', MR_Unbound = False\<rparr>"

definition exampleProfileRow :: "string \<Rightarrow> string \<Rightarrow> profile_row" where
  "exampleProfileRow i revision = \<lparr>PF_ID = i, PF_Name = ''dev'', PF_Description = '''', PF_ClientKind = ''claude'', PF_Category = '''',
     PF_Variant = ''standard'', PF_MigrationState = ''ready'', PF_Revision = 1, PF_CurrentRevisionID = revision, PF_Archived = False\<rparr>"

definition exampleRevisionRow :: "string \<Rightarrow> string \<Rightarrow> string \<Rightarrow> profile_revision_row" where
  "exampleRevisionRow i profile hash = \<lparr>PV_ID = i, PV_ProfileID = profile, PV_Revision = 1, PV_CanonicalHash = hash, PV_Name = ''dev'',
     PV_Description = '''', PV_ClientKind = ''claude'', PV_Category = '''', PV_Variant = ''standard'', PV_MigrationState = ''ready'',
     PV_PendingBindings = False, PV_ArchivedRestore = False\<rparr>"

text \<open>Three tools: one read-only, one denied by its profile's rule, one that is new and hidden.\<close>

definition exampleGov :: governance_db where
  "exampleGov = \<lparr>GD_Policies = [examplePolicy], GD_CurrentPolicy = ''p'', GD_AppliedPolicy = ''p'',
     GD_RelayRevisions = [\<lparr>RV_ID = ''r'', RV_Revision = 1, RV_CanonicalHash = replicate 64 CHR ''b'', RV_Metadata = JObj []\<rparr>],
     GD_RelayPins = [\<lparr>RP_RelayRevisionID = ''r'', RP_ServerID = ''s'', RP_MCPRevisionID = ''m'', RP_Position = 0\<rparr>],
     GD_CurrentRelay = ''r'', GD_AppliedRelay = ''r'', GD_Mode = ''compatibility'', GD_DefaultProfile = None,
     GD_Servers = [\<lparr>SV_ID = ''s'', SV_Name = ''files'', SV_CurrentRevisionID = ''m''\<rparr>],
     GD_MCPRevisions = [exampleMCPRevision ''m'' ''s''],
     GD_Contracts = [\<lparr>CV_ID = ''c'', CV_ServerID = ''s'', CV_Revision = 1, CV_CanonicalHash = replicate 64 CHR ''c'', CV_Body = JObj []\<rparr>],
     GD_ContractStates = [\<lparr>CS_ServerID = ''s'', CS_Accepted = Some ''c'', CS_Latest = Some ''c'', CS_ReviewState = ''accepted''\<rparr>],
     GD_ContractTools = [exampleTool ''t1'' 0 ''accepted'' [(''readOnlyHint'', JBool True)], exampleTool ''t2'' 1 ''accepted'' [], exampleTool ''t3'' 2 ''new_hidden'' []],
     GD_Tools = [\<lparr>TL_ID = ''t1'', TL_ServerID = ''s'', TL_Name = ''list''\<rparr>, \<lparr>TL_ID = ''t2'', TL_ServerID = ''s'', TL_Name = ''remove''\<rparr>, \<lparr>TL_ID = ''t3'', TL_ServerID = ''s'', TL_Name = ''add''\<rparr>],
     GD_Profiles = [exampleProfileRow ''f'' ''v''], GD_Published = [(''f'', ''v'')],
     GD_ProfileRevisions = [exampleRevisionRow ''v'' ''f'' (replicate 64 CHR ''d'')],
     GD_ProfileGovernance = [\<lparr>PG_ProfileRevisionID = ''v'', PG_ServerID = ''s'', PG_MCPRevisionID = ''m'', PG_AcceptedContract = Some ''c'', PG_VisibilityMode = ''all_accepted''\<rparr>],
     GD_ProfileRules = [\<lparr>PT_ProfileRevisionID = ''v'', PT_ToolID = ''t2'', PT_Visible = True, PT_Decision = ''deny'', PT_ReasonCodes = []\<rparr>], GD_Renames = [], GD_Proposals = []\<rparr>"

lemma exampleGov_rows: "profileRows_ok exampleGov" "contractRows_ok exampleGov" "contractsOwned exampleGov" "policies_ok exampleGov"
  by code_simp+

definition exampleRendered :: "RoutingToolDTO list" where
  "exampleRendered =
     (let tool = (\<lambda>i nm annotations decision reasons. \<lparr>RT_ToolID = i, RT_Name = nm, RT_InputSchema = JObj [], RT_OutputSchema = JObj [],
        RT_Annotations = JObj annotations, RT_GlobalDecision = decision, RT_ReasonCodes = reasons, RT_Paused = False\<rparr>)
      in [tool ''t1'' ''list'' [(''readOnlyHint'', JBool True)] DecisionAllow [ReasonAnnotationReadOnly, ReasonReviewedReadOnly],
          tool ''t2'' ''remove'' [] DecisionConfirm [ReasonUnclassified],
          tool ''t3'' ''add'' [] DecisionConfirm [ReasonUnclassified]])"

definition exampleGovServer :: ServerContractDTO where
  "exampleGovServer = \<lparr>SC_ServerID = ''s'', SC_ServerName = ''files'', SC_MCPConfigRevisionID = ''m'',
     SC_AcceptedContractRevisionID = Some ''c'', SC_AcceptedContractHash = Some (replicate 64 CHR ''c''), SC_Tools = exampleRendered\<rparr>"

definition exampleGovBundle :: RoutingBundle where
  "exampleGovBundle = \<lparr>RB_SchemaVersion = 1, RB_Mode = ''compatibility'', RB_RelayConfigurationRevisionID = ''r'',
     RB_RelayConfigurationHash = replicate 64 CHR ''b'', RB_GlobalPolicyRevisionID = ''p'', RB_GlobalPolicyHash = replicate 64 CHR ''a'',
     RB_DefaultProfileID = None, RB_Servers = [exampleGovServer],
     RB_Profiles = [\<lparr>PP_ProfileID = ''f'', PP_ProfileRevisionID = ''v'', PP_ProfileRevisionHash = replicate 64 CHR ''d'', PP_ProfileName = ''dev'',
       PP_ClientKind = ''claude'', PP_Servers = [\<lparr>PS_ServerID = ''s'', PS_MCPConfigRevisionID = ''m'', PS_AcceptedContractRevisionID = Some ''c'',
         PS_VisibilityMode = ''all_accepted'', PS_ToolOverrides = [\<lparr>VO_ToolID = ''t2'', VO_Visible = True\<rparr>, \<lparr>VO_ToolID = ''t3'', VO_Visible = False\<rparr>],
         PS_ToolRules = [\<lparr>PR_ToolID = ''t2'', PR_Decision = ''deny''\<rparr>]\<rparr>]\<rparr>]\<rparr>"

lemma exampleGov_pins: "relayServers exampleGov ''r'' = [(\<lparr>RP_RelayRevisionID = ''r'', RP_ServerID = ''s'', RP_MCPRevisionID = ''m'', RP_Position = 0\<rparr>, ''files'')]"
  by code_simp

lemma exampleGov_contractTools: "contractTools exampleGov ''c'' =
  [(exampleTool ''t1'' 0 ''accepted'' [(''readOnlyHint'', JBool True)], \<lparr>TL_ID = ''t1'', TL_ServerID = ''s'', TL_Name = ''list''\<rparr>),
   (exampleTool ''t2'' 1 ''accepted'' [], \<lparr>TL_ID = ''t2'', TL_ServerID = ''s'', TL_Name = ''remove''\<rparr>),
   (exampleTool ''t3'' 2 ''new_hidden'' [], \<lparr>TL_ID = ''t3'', TL_ServerID = ''s'', TL_Name = ''add''\<rparr>)]"
  by code_simp

lemma exampleGov_tool1: "renderTool exampleGovEnv examplePolicy (latestTool exampleGov ''s'' ''t1'')
    (exampleTool ''t1'' 0 ''accepted'' [(''readOnlyHint'', JBool True)], \<lparr>TL_ID = ''t1'', TL_ServerID = ''s'', TL_Name = ''list''\<rparr>) = Inr (exampleRendered ! 0)"
  by code_simp

lemma exampleGov_tool2: "renderTool exampleGovEnv examplePolicy (latestTool exampleGov ''s'' ''t2'')
    (exampleTool ''t2'' 1 ''accepted'' [], \<lparr>TL_ID = ''t2'', TL_ServerID = ''s'', TL_Name = ''remove''\<rparr>) = Inr (exampleRendered ! 1)"
  by code_simp

lemma exampleGov_tool3: "renderTool exampleGovEnv examplePolicy (latestTool exampleGov ''s'' ''t3'')
    (exampleTool ''t3'' 2 ''new_hidden'' [], \<lparr>TL_ID = ''t3'', TL_ServerID = ''s'', TL_Name = ''add''\<rparr>) = Inr (exampleRendered ! 2)"
  by code_simp

lemma exampleGov_server:
  "renderServer exampleGovEnv exampleGov examplePolicy (\<lparr>RP_RelayRevisionID = ''r'', RP_ServerID = ''s'', RP_MCPRevisionID = ''m'', RP_Position = 0\<rparr>, ''files'')
    = Inr exampleGovServer"
proof -
  have "findState exampleGov ''s'' = Some \<lparr>CS_ServerID = ''s'', CS_Accepted = Some ''c'', CS_Latest = Some ''c'', CS_ReviewState = ''accepted''\<rparr>"
    "map_option CV_CanonicalHash (findContract exampleGov ''c'') = Some (replicate 64 CHR ''c'')" by code_simp+
  moreover have "exampleRendered = [exampleRendered ! 0, exampleRendered ! 1, exampleRendered ! 2]" by code_simp
  moreover have "CT_ToolID (exampleTool i p s a) = i" for i p s a by (simp add: exampleTool_def)
  ultimately show ?thesis
    by (simp add: renderServer_def exampleGovServer_def exampleGov_contractTools exampleGov_tool1 exampleGov_tool2 exampleGov_tool3)
qed

lemma exampleGov_profile: "mapE (renderProfile exampleGov [exampleGovServer]) (sort_key fst [(''f'', ''v'')]) = Inr (RB_Profiles exampleGovBundle)"
  by code_simp

lemma exampleGov_published: "publishedRevisions u exampleGov noCandidate = Inr [(''f'', ''v'')]"
  by (simp add: publishedRevisions_def findProfile_def exampleProfileRow_def exampleGov_def noCandidate_def)

lemma exampleGov_found: "findRelay exampleGov ''r'' = Some \<lparr>RV_ID = ''r'', RV_Revision = 1, RV_CanonicalHash = replicate 64 CHR ''b'', RV_Metadata = JObj []\<rparr>"
  "findPolicy exampleGov ''p'' = Some examplePolicy"
  by code_simp+

lemma exampleGov_applied: "GD_AppliedPolicy exampleGov = ''p''"
  by (simp add: exampleGov_def)

lemma exampleGov_rendered: "\<exists>hash. RenderRoutingBundle exampleGovEnv exampleGov = Inr (exampleGovBundle, hash)"
proof -
  have "GD_AppliedRelay exampleGov = ''r''" "GD_AppliedPolicy exampleGov = ''p''" "GD_Mode exampleGov = ''compatibility''" "GD_DefaultProfile exampleGov = None"
    by (simp_all add: exampleGov_def)
  moreover have "GP_CanonicalHash examplePolicy = replicate 64 CHR ''a''" by (simp add: examplePolicy_def)
  moreover have "ge_canonical exampleGovEnv b = Inr ''{}''" for b by (simp add: exampleGovEnv_def)
  ultimately show ?thesis
    using exampleGov_profile
    by (simp add: RenderRoutingBundle_def renderCandidateRoutingBundle_def noCandidate_def [symmetric] exampleGov_found exampleGov_pins exampleGov_server
        exampleGov_published exampleGovBundle_def Let_def, simp add: noCandidate_def)
qed

lemma exampleGovBundle_valid: "RoutingBundle_Validate (\<lambda>_. True) exampleGovBundle = None"
  by code_simp

definition exampleInput :: "(string \<times> string) list \<Rightarrow> GlobalPolicyInput" where
  "exampleInput overrides = \<lparr>GI_Revision = 0, GI_CatalogVersion = 0, GI_ExplicitOverrides = overrides, GI_UnclassifiedMutating = '''', GI_ReviewedReadOnly = ''''\<rparr>"

text \<open>An environment whose hash tells the contents of these examples apart.\<close>

definition exampleHashEnv :: governance_env where
  "exampleHashEnv = exampleGovEnv\<lparr>ge_marshal := (\<lambda>v. case v of JObj (_ # (_, JArr []) # _) \<Rightarrow> ''0'' | _ \<Rightarrow> ''1''),
     ge_sha := (\<lambda>s. s)\<rparr>"

definition exampleRevision :: "string \<Rightarrow> int \<Rightarrow> string \<Rightarrow> (string \<times> string) list \<Rightarrow> GlobalPolicyRevision" where
  "exampleRevision i n hash overrides = \<lparr>GP_ID = i, GP_Revision = n, GP_CanonicalHash = hash, GP_CatalogVersion = CatalogVersion,
     GP_ExplicitOverrides = overrides, GP_UnclassifiedMutating = DecisionConfirm, GP_ReviewedReadOnly = DecisionAllow, GP_CreatedAt = 1\<rparr>"

definition exampleSaved :: governance_db where
  "exampleSaved = exampleGov\<lparr>GD_Policies := [examplePolicy, exampleRevision ''n1'' 2 ''30'' []], GD_CurrentPolicy := ''n1''\<rparr>"

definition exampleSavedTwice :: governance_db where
  "exampleSavedTwice = exampleSaved\<lparr>GD_Policies := [examplePolicy, exampleRevision ''n1'' 2 ''30'' [], exampleRevision ''n2'' 3 ''31'' [(''remove'', ''deny'')]],
     GD_CurrentPolicy := ''n2''\<rparr>"

lemma exampleInput_checked:
  "policyInputError (policyDefaults (exampleInput [])) = None"
  "policyInputError (policyDefaults (exampleInput [(''remove'', ''deny'')])) = None"
  "canonicalPolicyHash exampleHashEnv (policyDefaults (exampleInput [])) = ''30''"
  "canonicalPolicyHash exampleHashEnv (policyDefaults (exampleInput [(''remove'', ''deny'')])) = ''31''"
  by code_simp+

lemma exampleHashes: "replicate 64 CHR ''a'' \<noteq> ''30''" "replicate 64 CHR ''a'' \<noteq> ''31''"
  by code_simp+

lemma exampleSave1: "SaveGlobalPolicy exampleHashEnv ''n1'' 1 (exampleInput []) exampleGov = Inr (exampleRevision ''n1'' 2 ''30'' [], exampleSaved)"
  unfolding SaveGlobalPolicy_def Let_def exampleInput_checked
  by (simp add: exampleHashes findPolicy_def exampleGov_def examplePolicy_def defaultPolicy_def exampleInput_def policyDefaults_def insertPolicy_def exampleSaved_def
      exampleRevision_def)

lemma exampleSave2: "SaveGlobalPolicy exampleHashEnv ''n2'' 1 (exampleInput [(''remove'', ''deny'')]) exampleSaved
    = Inr (exampleRevision ''n2'' 3 ''31'' [(''remove'', ''deny'')], exampleSavedTwice)"
  unfolding SaveGlobalPolicy_def Let_def exampleInput_checked
  by (simp add: exampleHashes findPolicy_def exampleSaved_def examplePolicy_def defaultPolicy_def exampleInput_def policyDefaults_def insertPolicy_def exampleSavedTwice_def
      exampleRevision_def)

theorem policy_revisions_witness:
  "SaveGlobalPolicy exampleHashEnv ''n1'' 1 (exampleInput []) exampleGov = Inr (exampleRevision ''n1'' 2 ''30'' [], exampleSaved)
    \<and> policies_ok exampleSaved \<and> findPolicy exampleSaved (GD_CurrentPolicy exampleSaved) = Some (exampleRevision ''n1'' 2 ''30'' [])"
  using policy_revisions [OF exampleGov_rows(4), of exampleHashEnv "''n1''" 1 "exampleInput []"] exampleSave1 by blast

theorem policy_not_restorable_witness:
  "SaveGlobalPolicy exampleHashEnv ''n3'' 3 ((exampleInput [])\<lparr>GI_Revision := GP_Revision (exampleRevision ''n2'' 3 ''31'' [(''remove'', ''deny'')])\<rparr>) exampleSavedTwice
    = Inl (uniqueViolation ''global_policy_revisions_canonical_hash_key'')"
proof -
  have h: "canonicalPolicyHash exampleHashEnv (policyDefaults (exampleInput [(''remove'', ''deny'')]))
      \<noteq> canonicalPolicyHash exampleHashEnv (policyDefaults (exampleInput []))" by (simp add: exampleInput_checked)
  have "''n3'' \<notin> GP_ID ` set (GD_Policies exampleSavedTwice)" by (simp add: exampleSavedTwice_def examplePolicy_def defaultPolicy_def exampleRevision_def)
  from policy_not_restorable [OF exampleGov_rows(4) exampleSave1 exampleSave2 h this] show ?thesis .
qed

theorem visible_count_matches_canary_witness:
  "ProfileEffectiveVisibleCount exampleGovEnv exampleGov ''v'' = Inr 1 \<and> relayCanaryToolCount exampleGovBundle (RB_Profiles exampleGovBundle ! 0) = 1"
proof -
  obtain hash where r: "RenderRoutingBundle exampleGovEnv exampleGov = Inr (exampleGovBundle, hash)" using exampleGov_rendered by blast
  have m: "RB_Profiles exampleGovBundle ! 0 \<in> set (RB_Profiles exampleGovBundle)" and "PP_ProfileRevisionID (RB_Profiles exampleGovBundle ! 0) = ''v''"
    and "relayCanaryToolCount exampleGovBundle (RB_Profiles exampleGovBundle ! 0) = 1"
    by (simp add: exampleGovBundle_def, simp add: exampleGovBundle_def, code_simp)
  then show ?thesis using visible_count_matches_canary [OF exampleGov_rows(1,2) r exampleGovBundle_valid m] by simp
qed

definition exampleDenyRule :: ProfileToolRule where
  "exampleDenyRule = \<lparr>PTR_ToolID = ''t2'', PTR_Visible = True, PTR_Decision = ''deny'', PTR_ReasonCodes = []\<rparr>"

theorem saved_rules_respect_ceiling_witness:
  "validateProfileToolCeiling exampleGovEnv exampleGov [exampleDenyRule] = None \<and> RT_ToolID (exampleRendered ! 1) = PTR_ToolID exampleDenyRule
    \<and> decisionRank (RT_GlobalDecision (exampleRendered ! 1)) \<le> decisionRank (PTR_Decision exampleDenyRule)"
proof -
  obtain hash where r: "RenderRoutingBundle exampleGovEnv exampleGov = Inr (exampleGovBundle, hash)" using exampleGov_rendered by blast
  have a: "acceptedRoutingTool exampleGov ''t2'' = Inr (exampleTool ''t2'' 1 ''accepted'' [], \<lparr>TL_ID = ''t2'', TL_ServerID = ''s'', TL_Name = ''remove''\<rparr>)"
    by code_simp
  have u: "fst (classifyRoutingTool exampleGovEnv examplePolicy ''t2'' ''remove'' (JObj []) (JObj []) (JObj [])) = DecisionConfirm" by code_simp
  have e: "EffectiveDecision DecisionConfirm ''deny'' = ''deny''" and v: "validDecision ''deny''" by code_simp+
  have c: "validateProfileToolCeiling exampleGovEnv exampleGov [exampleDenyRule] = None"
    by (simp add: validateProfileToolCeiling_def exampleDenyRule_def a u e v exampleGov_found exampleTool_def exampleGovEnv_def [THEN arg_cong [of _ _ ge_uuid]]
        exampleGov_applied)
  have rule: "exampleDenyRule \<in> set [exampleDenyRule]" by simp
  have s: "exampleGovServer \<in> set (RB_Servers exampleGovBundle)" by (simp add: exampleGovBundle_def)
  have t: "exampleRendered ! 1 \<in> set (SC_Tools exampleGovServer)" by (simp add: exampleGovServer_def exampleRendered_def Let_def)
  have i: "RT_ToolID (exampleRendered ! 1) = PTR_ToolID exampleDenyRule" by (simp add: exampleRendered_def exampleDenyRule_def Let_def)
  show ?thesis using saved_rules_respect_ceiling [OF exampleGov_rows(2,3) c rule r s t i] c i by blast
qed

end
