(* ===== verification/Profile_Properties.thy ===== *)
theory Profile_Properties
  imports Profile_Store Governance_Properties
begin

text \<open>
  Properties of the profile store: the invariant of its tables over every run of its methods, the permanence of revisions, the
  revision check, and what is read back after a save.
\<close>

section \<open>What a save writes\<close>

lemma putProfile_Inr:
  assumes "putProfile profileID input revision revisionID g = Inr g'"
  shows "\<exists>ps row. g' = g\<lparr>GD_Profiles := ps\<rparr> \<and> row = \<lparr>PF_ID = profileID, PF_Name = FI_Name input, PF_Description = FI_Description input,
       PF_ClientKind = FI_ClientKind input, PF_Category = FI_Category input, PF_Variant = FI_Variant input, PF_MigrationState = FI_MigrationState input,
       PF_Revision = revision, PF_CurrentRevisionID = revisionID, PF_Archived = False\<rparr>
     \<and> ps = (if findProfile g profileID = None then GD_Profiles g @ [row] else map (\<lambda>p. if PF_ID p = profileID then row else p) (GD_Profiles g))
     \<and> \<not> nameTaken g profileID (FI_Name input)"
  using assms by (auto simp: putProfile_def Let_def split: if_splits)

definition savedRow :: "string \<Rightarrow> string \<Rightarrow> ProfileInput \<Rightarrow> int \<Rightarrow> profile_row" where
  "savedRow profileID revisionID input revision = \<lparr>PF_ID = profileID, PF_Name = FI_Name input, PF_Description = FI_Description input,
       PF_ClientKind = FI_ClientKind input, PF_Category = FI_Category input, PF_Variant = FI_Variant input, PF_MigrationState = FI_MigrationState input,
       PF_Revision = revision, PF_CurrentRevisionID = revisionID, PF_Archived = False\<rparr>"

definition savedRevision :: "profile_env \<Rightarrow> string \<Rightarrow> string \<Rightarrow> ProfileInput \<Rightarrow> int \<Rightarrow> ProfileSkillPin list \<Rightarrow> ProfileMCPPin list \<Rightarrow> profile_revision_row" where
  "savedRevision fe profileID revisionID input revision skills servers = \<lparr>PV_ID = revisionID, PV_ProfileID = profileID, PV_Revision = revision,
            PV_CanonicalHash = CanonicalGovernedProfileHash fe input skills servers, PV_Name = FI_Name input, PV_Description = FI_Description input,
            PV_ClientKind = FI_ClientKind input, PV_Category = FI_Category input, PV_Variant = FI_Variant input,
            PV_MigrationState = FI_MigrationState input, PV_PendingBindings = FI_PendingBindings input, PV_ArchivedRestore = FI_ArchivedRestore input\<rparr>"

text \<open>The database after the writes.\<close>

definition savedDB :: "profile_env \<Rightarrow> string \<Rightarrow> string \<Rightarrow> ProfileInput \<Rightarrow> int \<Rightarrow> ProfileSkillPin list \<Rightarrow> ProfileMCPPin list
    \<Rightarrow> profile_governance_row list \<Rightarrow> profile_db \<Rightarrow> profile_db" where
  "savedDB fe profileID revisionID input revision skills servers rows d =
     replaceProfileHeadProjection profileID skills servers
       (d\<lparr>PD_Gov := (PD_Gov d)\<lparr>
            GD_Profiles := (if findProfile (PD_Gov d) profileID = None then GD_Profiles (PD_Gov d) @ [savedRow profileID revisionID input revision]
              else map (\<lambda>p. if PF_ID p = profileID then savedRow profileID revisionID input revision else p) (GD_Profiles (PD_Gov d))),
            GD_ProfileRevisions := GD_ProfileRevisions (PD_Gov d) @ [savedRevision fe profileID revisionID input revision skills servers],
            GD_ProfileGovernance := GD_ProfileGovernance (PD_Gov d) @ rows,
            GD_ProfileRules := GD_ProfileRules (PD_Gov d) @ map (ruleRow revisionID) (FI_ToolRules input)\<rparr>,
          PD_ProfileSkills := PD_ProfileSkills d @ skillRows revisionID skills,
          PD_ProfileServers := PD_ProfileServers d @ serverRowsOf revisionID servers,
          PD_Seals := PD_Seals d @ [revisionID]\<rparr>)"

lemma writeProfile_Inr:
  "(writeProfile fe profileID revisionID input current skills servers d = Inr d') =
   (\<exists>rows. \<not> nameTaken (PD_Gov d) profileID (FI_Name input)
     \<and> \<not> list_ex (\<lambda>q. PV_ID q = revisionID) (GD_ProfileRevisions (PD_Gov d))
     \<and> \<not> list_ex (\<lambda>q. PV_ProfileID q = profileID \<and> PV_Revision q = current + 1) (GD_ProfileRevisions (PD_Gov d))
     \<and> mapE (governanceRow (PD_Gov d) revisionID (FI_MCPGovernance input)) servers = Inr rows
     \<and> d' = savedDB fe profileID revisionID input (current + 1) skills servers rows d)"
proof (cases "nameTaken (PD_Gov d) profileID (FI_Name input)")
  case True
  then show ?thesis by (simp add: writeProfile_def putProfile_def Let_def)
next
  case False
  obtain g1 where g1: "putProfile profileID input (current + 1) revisionID (PD_Gov d) = Inr g1"
    and g1_eq: "g1 = (PD_Gov d)\<lparr>GD_Profiles := (if findProfile (PD_Gov d) profileID = None
        then GD_Profiles (PD_Gov d) @ [savedRow profileID revisionID input (current + 1)]
        else map (\<lambda>p. if PF_ID p = profileID then savedRow profileID revisionID input (current + 1) else p) (GD_Profiles (PD_Gov d)))\<rparr>"
    using False by (simp add: putProfile_def Let_def savedRow_def)
  show ?thesis
  proof (cases "mapE (governanceRow (PD_Gov d) revisionID (FI_MCPGovernance input)) servers")
    case (Inl e)
    then show ?thesis by (simp add: writeProfile_def Let_def g1 insertRevision_def)
  next
    case (Inr rows)
    then show ?thesis using False
      by (auto simp: writeProfile_def Let_def g1 g1_eq insertRevision_def savedDB_def savedRevision_def)
  qed
qed

text \<open>A successful save: its input after trimming and inheritance, the pins, and the writes.\<close>

definition savedInput :: "profile_db \<Rightarrow> string \<Rightarrow> ProfileInput \<Rightarrow> ProfileInput" where
  "savedInput d profileID input0 = inheritInput (findProfile (PD_Gov d) profileID) (TrimSpace (FI_Variant input0) \<noteq> '''') (trimInput input0)"

definition currentRevision :: "profile_db \<Rightarrow> string \<Rightarrow> int" where
  "currentRevision d profileID = (case findProfile (PD_Gov d) profileID of None \<Rightarrow> 0 | Some p \<Rightarrow> PF_Revision p)"

lemma saveProfile_Inr:
  assumes "saveProfile fe newID revisionID id0 input0 d = Inr ((profileID, rid), d')"
  shows "rid = revisionID \<and> profileID = (if id0 = '''' then newID else id0) \<and> inputError (trimInput input0) = None
     \<and> (currentRevision d profileID > 0 \<longrightarrow> FI_Revision input0 = currentRevision d profileID)
     \<and> (\<exists>skills servers rows. resolveProfilePins (ge_uuid (fe_gov fe)) d (savedInput d profileID input0) = Inr (skills, servers)
       \<and> profileGovernanceError (fe_gov fe) (PD_Gov d) (savedInput d profileID input0) servers = None
       \<and> (FI_ClientKind (savedInput d profileID input0) \<noteq> ''shared'' \<longrightarrow> validateRequiredSkills d (FI_SkillIDs (savedInput d profileID input0)) = None)
       \<and> \<not> nameTaken (PD_Gov d) profileID (FI_Name (savedInput d profileID input0))
       \<and> \<not> list_ex (\<lambda>q. PV_ID q = revisionID) (GD_ProfileRevisions (PD_Gov d))
       \<and> \<not> list_ex (\<lambda>q. PV_ProfileID q = profileID \<and> PV_Revision q = currentRevision d profileID + 1) (GD_ProfileRevisions (PD_Gov d))
       \<and> mapE (governanceRow (PD_Gov d) revisionID (FI_MCPGovernance (savedInput d profileID input0))) servers = Inr rows
       \<and> d' = savedDB fe profileID revisionID (savedInput d profileID input0) (currentRevision d profileID + 1) skills servers rows d)"
proof -
  define pid where "pid = (if id0 = '''' then newID else id0)"
  define input where "input = savedInput d pid input0"
  have ie: "inputError (trimInput input0) = None" using assms by (simp add: saveProfile_def Let_def split: option.splits)
  have uv: "ge_uuid (fe_gov fe) pid" using assms ie by (simp add: saveProfile_def Let_def pid_def [symmetric] split: if_splits)
  have rev: "FI_Revision input = FI_Revision input0"
    by (simp add: input_def savedInput_def inheritInput_def trimInput_def Let_def)
  have body: "(if currentRevision d pid > 0 \<and> FI_Revision input \<noteq> currentRevision d pid then Inl Conflict
      else if (case findProfile (PD_Gov d) pid of None \<Rightarrow> False | Some p \<Rightarrow> PF_Archived p) \<and> \<not> FI_ArchivedRestore input then Inl Conflict
      else if FI_MigrationState input \<notin> {''ready'', ''needs_review'', ''compatibility''} then Inl (rejected ''invalid Profile migration state'')
      else (case resolveProfilePins (ge_uuid (fe_gov fe)) d input of
        Inl e \<Rightarrow> Inl e
      | Inr (skills, servers) \<Rightarrow>
      (case (if FI_ClientKind input = ''shared'' then None else validateRequiredSkills d (FI_SkillIDs input)) of
        Some e \<Rightarrow> Inl e
      | None \<Rightarrow>
      (case profileGovernanceError (fe_gov fe) (PD_Gov d) input servers of
        Some e \<Rightarrow> Inl e
      | None \<Rightarrow>
      (case writeProfile fe pid revisionID input (currentRevision d pid) skills servers d of
        Inl e \<Rightarrow> Inl e
      | Inr d' \<Rightarrow> Inr ((pid, revisionID), d')))))) = Inr ((profileID, rid), d')"
    using assms uv unfolding saveProfile_def Let_def pid_def [symmetric] ie option.case currentRevision_def input_def savedInput_def by simp
  have c1: "\<not> (currentRevision d pid > 0 \<and> FI_Revision input \<noteq> currentRevision d pid)"
    using body by (simp split: if_splits)
  obtain skills servers where pins: "resolveProfilePins (ge_uuid (fe_gov fe)) d input = Inr (skills, servers)"
    using body by (cases "resolveProfilePins (ge_uuid (fe_gov fe)) d input") (auto split: if_splits)
  have req: "(if FI_ClientKind input = ''shared'' then None else validateRequiredSkills d (FI_SkillIDs input)) = None"
    using body by (cases "(if FI_ClientKind input = ''shared'' then None else validateRequiredSkills d (FI_SkillIDs input))")
      (auto simp: pins split: if_splits)
  have gov: "profileGovernanceError (fe_gov fe) (PD_Gov d) input servers = None"
    using body by (cases "profileGovernanceError (fe_gov fe) (PD_Gov d) input servers") (auto simp: pins req split: if_splits)
  have "writeProfile fe pid revisionID input (currentRevision d pid) skills servers d = Inr d' \<and> profileID = pid \<and> rid = revisionID"
    using body by (cases "writeProfile fe pid revisionID input (currentRevision d pid) skills servers d") (auto simp: pins req gov split: if_splits)
  then show ?thesis
    using ie c1 rev pins req gov unfolding writeProfile_Inr input_def pid_def by (auto split: if_splits)
qed

section \<open>The invariant of the tables\<close>

definition keysOK :: "governance_db \<Rightarrow> bool" where
  "keysOK g = (distinct (map PF_ID (GD_Profiles g)) \<and> distinct (map PF_Name (GD_Profiles g)) \<and> distinct (map PV_ID (GD_ProfileRevisions g))
     \<and> distinct (map (\<lambda>r. (PV_ProfileID r, PV_Revision r)) (GD_ProfileRevisions g)))"

text \<open>A revision is the current one of a profile: same number, same fields.\<close>

definition currentOf :: "profile_row \<Rightarrow> profile_revision_row \<Rightarrow> bool" where
  "currentOf p r = (PV_ID r = PF_CurrentRevisionID p \<and> PV_ProfileID r = PF_ID p \<and> PV_Revision r = PF_Revision p \<and> PV_Name r = PF_Name p
     \<and> PV_Description r = PF_Description p \<and> PV_ClientKind r = PF_ClientKind p \<and> PV_Category r = PF_Category p \<and> PV_Variant r = PF_Variant p
     \<and> PV_MigrationState r = PF_MigrationState p)"

definition currentsOK :: "governance_db \<Rightarrow> bool" where
  "currentsOK g = (list_all (\<lambda>p. list_ex (currentOf p) (GD_ProfileRevisions g)) (GD_Profiles g)
     \<and> list_all (\<lambda>r. 0 < PV_Revision r \<and> list_ex (\<lambda>p. PF_ID p = PV_ProfileID r \<and> PV_Revision r \<le> PF_Revision p) (GD_Profiles g)) (GD_ProfileRevisions g))"

text \<open>The rows of the member tables belong to stored revisions.\<close>

definition membersOK :: "profile_db \<Rightarrow> bool" where
  "membersOK d = (let ids = map PV_ID (GD_ProfileRevisions (PD_Gov d)) in
     list_all (\<lambda>i. i \<in> set ids) (map PSK_ProfileRevisionID (PD_ProfileSkills d) @ map PMS_ProfileRevisionID (PD_ProfileServers d)
       @ map PG_ProfileRevisionID (GD_ProfileGovernance (PD_Gov d)) @ map PT_ProfileRevisionID (GD_ProfileRules (PD_Gov d))))"

definition skillsOf :: "profile_db \<Rightarrow> string \<Rightarrow> profile_skill_row list" where
  "skillsOf d i = filter (\<lambda>r. PSK_ProfileRevisionID r = i) (PD_ProfileSkills d)"

definition serversOf :: "profile_db \<Rightarrow> string \<Rightarrow> profile_server_row list" where
  "serversOf d i = filter (\<lambda>r. PMS_ProfileRevisionID r = i) (PD_ProfileServers d)"

definition governanceOfRevision :: "profile_db \<Rightarrow> string \<Rightarrow> profile_governance_row list" where
  "governanceOfRevision d i = filter (\<lambda>r. PG_ProfileRevisionID r = i) (GD_ProfileGovernance (PD_Gov d))"

definition rulesOfRevision :: "profile_db \<Rightarrow> string \<Rightarrow> profile_rule_row list" where
  "rulesOfRevision d i = filter (\<lambda>r. PT_ProfileRevisionID r = i) (GD_ProfileRules (PD_Gov d))"

text \<open>The head tables list exactly the members of the current revision.\<close>

definition headOf :: "string \<Rightarrow> (string \<times> string) list \<Rightarrow> string set" where
  "headOf i heads = set (map snd (filter (\<lambda>(p, _). p = i) heads))"

definition headsOK :: "profile_db \<Rightarrow> bool" where
  "headsOK d = list_all (\<lambda>p. headOf (PF_ID p) (PD_SkillHeads d) = set (map PSK_SkillID (skillsOf d (PF_CurrentRevisionID p)))
     \<and> headOf (PF_ID p) (PD_ServerHeads d) = set (map PMS_ServerID (serversOf d (PF_CurrentRevisionID p)))) (GD_Profiles (PD_Gov d))"

definition profiles_ok :: "profile_db \<Rightarrow> bool" where
  "profiles_ok d = (keysOK (PD_Gov d) \<and> currentsOK (PD_Gov d) \<and> membersOK d \<and> headsOK d)"

lemma findProfile_iff: "keysOK g \<Longrightarrow> (findProfile g i = Some p) = (p \<in> set (GD_Profiles g) \<and> PF_ID p = i)"
  unfolding keysOK_def findProfile_def by (elim conjE) (rule find_key_iff)

lemma findProfile_None: "(findProfile g i = None) = (i \<notin> set (map PF_ID (GD_Profiles g)))"
  unfolding findProfile_def find_None_iff set_map image_iff by blast

lemma currentRevision_mem:
  "keysOK (PD_Gov d) \<Longrightarrow> p \<in> set (GD_Profiles (PD_Gov d)) \<Longrightarrow> currentRevision d (PF_ID p) = PF_Revision p"
  using findProfile_iff [of "PD_Gov d" "PF_ID p" p] by (simp add: currentRevision_def)

lemma distinct_map_update:
  assumes "distinct (map f xs)" and "distinct (map k xs)" and "k row = i" and "\<And>x. x \<in> set xs \<Longrightarrow> k x \<noteq> i \<Longrightarrow> f x \<noteq> f row"
  shows "distinct (map f (map (\<lambda>x. if k x = i then row else x) xs))"
  using assms(1,2,4)
proof (induction xs)
  case (Cons x xs)
  have ih: "distinct (map f (map (\<lambda>x. if k x = i then row else x) xs))" using Cons.IH Cons.prems by simp
  have one: "k y \<noteq> k x" "f x \<noteq> f y" if "y \<in> set xs" for y
    using Cons.prems(1,2) that by (simp_all, metis image_eqI, metis image_eqI)
  show ?case
  proof (cases "k x = i")
    case True
    then have "\<forall>y \<in> set xs. k y \<noteq> i" using one by simp
    then have "\<forall>y \<in> set xs. f y \<noteq> f row" using Cons.prems(3) by simp
    then show ?thesis using ih True \<open>\<forall>y \<in> set xs. k y \<noteq> i\<close> by (auto simp: image_iff)
  next
    case False
    then have "f x \<noteq> f row" using Cons.prems(3) by simp
    then show ?thesis using ih False one by (auto simp: image_iff)
  qed
qed simp

section \<open>A save keeps it\<close>

lemma savedDB_sel:
  "GD_ProfileRevisions (PD_Gov (savedDB fe pid rid input n skills servers rows d)) = GD_ProfileRevisions (PD_Gov d) @ [savedRevision fe pid rid input n skills servers]"
  "GD_ProfileGovernance (PD_Gov (savedDB fe pid rid input n skills servers rows d)) = GD_ProfileGovernance (PD_Gov d) @ rows"
  "GD_ProfileRules (PD_Gov (savedDB fe pid rid input n skills servers rows d)) = GD_ProfileRules (PD_Gov d) @ map (ruleRow rid) (FI_ToolRules input)"
  "PD_ProfileSkills (savedDB fe pid rid input n skills servers rows d) = PD_ProfileSkills d @ skillRows rid skills"
  "PD_ProfileServers (savedDB fe pid rid input n skills servers rows d) = PD_ProfileServers d @ serverRowsOf rid servers"
  "PD_SkillHeads (savedDB fe pid rid input n skills servers rows d) = filter (\<lambda>(p, _). p \<noteq> pid) (PD_SkillHeads d) @ map (\<lambda>s. (pid, SP_SkillID s)) skills"
  "PD_ServerHeads (savedDB fe pid rid input n skills servers rows d) = filter (\<lambda>(p, _). p \<noteq> pid) (PD_ServerHeads d) @ map (\<lambda>s. (pid, MR_ServerID s)) servers"
  "GD_Profiles (PD_Gov (savedDB fe pid rid input n skills servers rows d)) = (if findProfile (PD_Gov d) pid = None
     then GD_Profiles (PD_Gov d) @ [savedRow pid rid input n]
     else map (\<lambda>p. if PF_ID p = pid then savedRow pid rid input n else p) (GD_Profiles (PD_Gov d)))"
  by (simp_all add: savedDB_def replaceProfileHeadProjection_def)

lemma savedDB_profiles:
  "p \<in> set (GD_Profiles (PD_Gov (savedDB fe pid rid input n skills servers rows d))) \<Longrightarrow>
     p = savedRow pid rid input n \<or> p \<in> set (GD_Profiles (PD_Gov d)) \<and> PF_ID p \<noteq> pid"
  using findProfile_None [of "PD_Gov d" pid] by (auto simp: savedDB_sel split: if_splits)

lemma savedRow_mem: "savedRow pid rid input n \<in> set (GD_Profiles (PD_Gov (savedDB fe pid rid input n skills servers rows d)))"
  using findProfile_None [of "PD_Gov d" pid] by (auto simp: savedDB_sel image_iff)

lemma other_profiles_stay:
  "p \<in> set (GD_Profiles (PD_Gov d)) \<Longrightarrow> PF_ID p \<noteq> pid \<Longrightarrow> p \<in> set (GD_Profiles (PD_Gov (savedDB fe pid rid input n skills servers rows d)))"
  by (auto simp: savedDB_sel image_iff)

lemma savedDB_keys:
  assumes k: "keysOK (PD_Gov d)" and "\<not> nameTaken (PD_Gov d) pid (FI_Name input)" and "rid \<notin> set (map PV_ID (GD_ProfileRevisions (PD_Gov d)))"
    and "\<not> list_ex (\<lambda>q. PV_ProfileID q = pid \<and> PV_Revision q = n) (GD_ProfileRevisions (PD_Gov d))"
  shows "keysOK (PD_Gov (savedDB fe pid rid input n skills servers rows d))"
proof -
  let ?ps = "GD_Profiles (PD_Gov d)" and ?row = "savedRow pid rid input n"
  have ids: "distinct (map PF_ID ?ps)" "distinct (map PF_Name ?ps)" using k by (simp_all add: keysOK_def)
  have nm: "PF_Name p \<noteq> PF_Name ?row" if "p \<in> set ?ps" "PF_ID p \<noteq> pid" for p
    using assms(2) that by (auto simp: nameTaken_def list_ex_iff savedRow_def)
  have r: "PF_ID ?row = pid" by (simp add: savedRow_def)
  have "distinct (map PF_ID (map (\<lambda>p. if PF_ID p = pid then ?row else p) ?ps))"
    by (rule distinct_map_update [where k = PF_ID]) (use ids r in auto)
  moreover have "distinct (map PF_Name (map (\<lambda>p. if PF_ID p = pid then ?row else p) ?ps))"
    by (rule distinct_map_update [where k = PF_ID]) (use ids r nm in auto)
  moreover have "findProfile (PD_Gov d) pid = None \<Longrightarrow> distinct (map PF_ID (?ps @ [?row])) \<and> distinct (map PF_Name (?ps @ [?row]))"
  proof -
    assume "findProfile (PD_Gov d) pid = None"
    then have new: "pid \<notin> set (map PF_ID ?ps)" by (rule findProfile_None [THEN iffD1])
    then have "PF_Name ?row \<notin> set (map PF_Name ?ps)" using nm by (metis (mono_tags, lifting) imageE imageI list.set_map)
    then show "distinct (map PF_ID (?ps @ [?row])) \<and> distinct (map PF_Name (?ps @ [?row]))" using new ids r by simp
  qed
  ultimately have "distinct (map PF_ID (GD_Profiles (PD_Gov (savedDB fe pid rid input n skills servers rows d))))
     \<and> distinct (map PF_Name (GD_Profiles (PD_Gov (savedDB fe pid rid input n skills servers rows d))))"
    unfolding savedDB_sel by simp
  moreover have "distinct (map PV_ID (GD_ProfileRevisions (PD_Gov d) @ [savedRevision fe pid rid input n skills servers]))"
    using k assms(3) by (simp add: keysOK_def savedRevision_def)
  moreover have "distinct (map (\<lambda>r. (PV_ProfileID r, PV_Revision r)) (GD_ProfileRevisions (PD_Gov d) @ [savedRevision fe pid rid input n skills servers]))"
    using k assms(4) by (auto simp: keysOK_def savedRevision_def list_ex_iff)
  ultimately show ?thesis unfolding keysOK_def savedDB_sel(1) by blast
qed

lemma governanceRow_Inr:
  "governanceRow g rid gs pin = Inr row \<Longrightarrow> PG_ProfileRevisionID row = rid \<and> PG_ServerID row = MR_ServerID pin \<and> PG_MCPRevisionID row = MR_ID pin"
  by (auto simp: governanceRow_def Let_def split: if_splits)

lemma governanceRows_rev:
  "mapE (governanceRow g rid gs) servers = Inr rows \<Longrightarrow> list_all (\<lambda>r. PG_ProfileRevisionID r = rid) rows"
  by (auto simp: list_all_iff dest!: mapE_mem dest: governanceRow_Inr)

lemma skillRows_facts: "map PSK_SkillID (skillRows rid skills) = map SP_SkillID skills" "list_all (\<lambda>r. PSK_ProfileRevisionID r = rid) (skillRows rid skills)"
  by (auto simp: skillRows_def list_all_iff comp_def split_def intro: nth_equalityI)

lemma serverRowsOf_facts: "map PMS_ServerID (serverRowsOf rid servers) = map MR_ServerID servers" "list_all (\<lambda>r. PMS_ProfileRevisionID r = rid) (serverRowsOf rid servers)"
  by (auto simp: serverRowsOf_def list_all_iff comp_def split_def intro: nth_equalityI)

lemma savedRevision_current: "currentOf (savedRow pid rid input n) (savedRevision fe pid rid input n skills servers)"
  by (simp add: currentOf_def savedRow_def savedRevision_def)

lemma savedDB_currents:
  assumes k: "keysOK (PD_Gov d)" and c: "currentsOK (PD_Gov d)" and n: "n = currentRevision d pid + 1"
  shows "currentsOK (PD_Gov (savedDB fe pid rid input n skills servers rows d))"
proof -
  let ?g = "PD_Gov d" and ?g' = "PD_Gov (savedDB fe pid rid input n skills servers rows d)"
  have "list_ex (currentOf p) (GD_ProfileRevisions ?g')" if "p \<in> set (GD_Profiles ?g')" for p
  proof -
    have "p = savedRow pid rid input n \<or> p \<in> set (GD_Profiles ?g)" using savedDB_profiles [OF that] by blast
    then show ?thesis
      using c savedRevision_current [of pid rid input n fe skills servers] unfolding savedDB_sel currentsOK_def list_all_iff list_ex_iff by auto
  qed
  moreover have "0 < PV_Revision r \<and> list_ex (\<lambda>p. PF_ID p = PV_ProfileID r \<and> PV_Revision r \<le> PF_Revision p) (GD_Profiles ?g')"
    if "r \<in> set (GD_ProfileRevisions ?g')" for r
  proof (cases "r \<in> set (GD_ProfileRevisions ?g)")
    case True
    then obtain p where p: "p \<in> set (GD_Profiles ?g)" "PF_ID p = PV_ProfileID r" "PV_Revision r \<le> PF_Revision p" "0 < PV_Revision r"
      using c by (auto simp: currentsOK_def list_all_iff list_ex_iff)
    show ?thesis
    proof (cases "PF_ID p = pid")
      case True
      then have "PF_Revision p = currentRevision d pid" using currentRevision_mem [OF k p(1)] by simp
      then have "PV_Revision r \<le> PF_Revision (savedRow pid rid input n)" using p(3) by (simp add: n savedRow_def)
      moreover have "PF_ID (savedRow pid rid input n) = PV_ProfileID r" using True p(2) by (simp add: savedRow_def)
      ultimately show ?thesis using p(4) savedRow_mem unfolding list_ex_iff by blast
    next
      case False
      then show ?thesis using p other_profiles_stay [OF p(1) False] unfolding list_ex_iff by blast
    qed
  next
    case False
    then have r: "r = savedRevision fe pid rid input n skills servers" using that unfolding savedDB_sel by simp
    have "0 \<le> currentRevision d pid"
    proof (cases "findProfile ?g pid")
      case (Some p)
      then have "p \<in> set (GD_Profiles ?g)" using findProfile_iff [OF k] by blast
      then obtain q where "q \<in> set (GD_ProfileRevisions ?g)" "currentOf p q" using c by (auto simp: currentsOK_def list_all_iff list_ex_iff)
      then have "0 < PF_Revision p" using c by (auto simp: currentsOK_def list_all_iff currentOf_def)
      then show ?thesis using Some by (simp add: currentRevision_def)
    qed (simp add: currentRevision_def)
    then have "0 < PV_Revision r" by (simp add: r n savedRevision_def)
    moreover have "PF_ID (savedRow pid rid input n) = PV_ProfileID r" "PV_Revision r \<le> PF_Revision (savedRow pid rid input n)"
      by (simp_all add: r savedRow_def savedRevision_def)
    ultimately show ?thesis using savedRow_mem unfolding list_ex_iff by blast
  qed
  ultimately show ?thesis unfolding currentsOK_def list_all_iff by blast
qed

lemma savedDB_members:
  assumes "membersOK d" and "list_all (\<lambda>r. PG_ProfileRevisionID r = rid) rows"
  shows "membersOK (savedDB fe pid rid input n skills servers rows d)"
  using assms skillRows_facts(2) [of rid skills] serverRowsOf_facts(2) [of rid servers]
  unfolding membersOK_def savedDB_sel Let_def by (auto simp: list_all_iff savedRevision_def ruleRow_def)

lemma fresh_rows:
  assumes "membersOK d" and "rid \<notin> set (map PV_ID (GD_ProfileRevisions (PD_Gov d)))"
  shows "skillsOf d rid = []" "serversOf d rid = []" "governanceOfRevision d rid = []" "rulesOfRevision d rid = []"
  using assms unfolding membersOK_def Let_def skillsOf_def serversOf_def governanceOfRevision_def rulesOfRevision_def
  by (auto simp: list_all_iff filter_empty_conv)

lemma savedDB_rows:
  assumes "membersOK d" and "rid \<notin> set (map PV_ID (GD_ProfileRevisions (PD_Gov d)))" and "list_all (\<lambda>r. PG_ProfileRevisionID r = rid) rows"
  shows "skillsOf (savedDB fe pid rid input n skills servers rows d) i = (if i = rid then skillRows rid skills else skillsOf d i)"
    and "serversOf (savedDB fe pid rid input n skills servers rows d) i = (if i = rid then serverRowsOf rid servers else serversOf d i)"
    and "governanceOfRevision (savedDB fe pid rid input n skills servers rows d) i = (if i = rid then rows else governanceOfRevision d i)"
    and "rulesOfRevision (savedDB fe pid rid input n skills servers rows d) i
      = (if i = rid then map (ruleRow rid) (FI_ToolRules input) else rulesOfRevision d i)"
proof -
  note fresh = fresh_rows [OF assms(1,2)]
  have "filter (\<lambda>r. PSK_ProfileRevisionID r = i) (skillRows rid skills) = (if i = rid then skillRows rid skills else [])"
    using skillRows_facts(2) [of rid skills] by (auto simp: list_all_iff filter_empty_conv intro!: filter_True)
  then show "skillsOf (savedDB fe pid rid input n skills servers rows d) i = (if i = rid then skillRows rid skills else skillsOf d i)"
    using fresh(1) by (simp add: skillsOf_def savedDB_sel)
  have "filter (\<lambda>r. PMS_ProfileRevisionID r = i) (serverRowsOf rid servers) = (if i = rid then serverRowsOf rid servers else [])"
    using serverRowsOf_facts(2) [of rid servers] by (auto simp: list_all_iff filter_empty_conv intro!: filter_True)
  then show "serversOf (savedDB fe pid rid input n skills servers rows d) i = (if i = rid then serverRowsOf rid servers else serversOf d i)"
    using fresh(2) by (simp add: serversOf_def savedDB_sel)
  have "filter (\<lambda>r. PG_ProfileRevisionID r = i) rows = (if i = rid then rows else [])"
    using assms(3) by (auto simp: list_all_iff filter_empty_conv intro!: filter_True)
  then show "governanceOfRevision (savedDB fe pid rid input n skills servers rows d) i = (if i = rid then rows else governanceOfRevision d i)"
    using fresh(3) by (simp add: governanceOfRevision_def savedDB_sel)
  have "filter (\<lambda>r. PT_ProfileRevisionID r = i) (map (ruleRow rid) (FI_ToolRules input)) = (if i = rid then map (ruleRow rid) (FI_ToolRules input) else [])"
    by (auto simp: filter_empty_conv ruleRow_def intro!: filter_True)
  then show "rulesOfRevision (savedDB fe pid rid input n skills servers rows d) i
      = (if i = rid then map (ruleRow rid) (FI_ToolRules input) else rulesOfRevision d i)"
    using fresh(4) by (simp add: rulesOfRevision_def savedDB_sel)
qed

lemma headOf_replace:
  "headOf i (filter (\<lambda>(p, _). p \<noteq> pid) heads @ map (\<lambda>s. (pid, f s)) xs) = (if i = pid then set (map f xs) else headOf i heads)"
  by (auto simp: headOf_def image_iff)

lemma savedDB_heads:
  assumes h: "headsOK d" and c: "currentsOK (PD_Gov d)" and m: "membersOK d"
    and fresh: "rid \<notin> set (map PV_ID (GD_ProfileRevisions (PD_Gov d)))" and rows: "list_all (\<lambda>r. PG_ProfileRevisionID r = rid) rows"
  shows "headsOK (savedDB fe pid rid input n skills servers rows d)"
  unfolding headsOK_def list_all_iff
proof
  fix p assume p: "p \<in> set (GD_Profiles (PD_Gov (savedDB fe pid rid input n skills servers rows d)))"
  note sel = savedDB_sel(6,7) savedDB_rows(1,2) [OF m fresh rows] headOf_replace
  from savedDB_profiles [OF p] consider "p = savedRow pid rid input n" | "p \<in> set (GD_Profiles (PD_Gov d))" "PF_ID p \<noteq> pid" by blast
  then show "headOf (PF_ID p) (PD_SkillHeads (savedDB fe pid rid input n skills servers rows d))
      = set (map PSK_SkillID (skillsOf (savedDB fe pid rid input n skills servers rows d) (PF_CurrentRevisionID p)))
    \<and> headOf (PF_ID p) (PD_ServerHeads (savedDB fe pid rid input n skills servers rows d))
      = set (map PMS_ServerID (serversOf (savedDB fe pid rid input n skills servers rows d) (PF_CurrentRevisionID p)))"
  proof cases
    case 1
    then have "PF_ID p = pid" "PF_CurrentRevisionID p = rid" by (simp_all add: savedRow_def)
    then show ?thesis by (simp add: sel skillRows_facts(1) serverRowsOf_facts(1) del: set_map)
  next
    case 2
    have "PF_CurrentRevisionID p \<in> set (map PV_ID (GD_ProfileRevisions (PD_Gov d)))"
      using 2(1) c by (force simp: currentsOK_def list_all_iff list_ex_iff currentOf_def)
    then have "PF_CurrentRevisionID p \<noteq> rid" using fresh by blast
    then show ?thesis using 2 h by (simp add: sel headsOK_def list_all_iff)
  qed
qed

lemma saveProfile_ok:
  assumes ok: "profiles_ok d" and s: "saveProfile fe newID revisionID id0 input0 d = Inr (r, d')"
  shows "profiles_ok d'"
proof -
  obtain profileID rid where r: "r = (profileID, rid)" by (cases r)
  define n where "n = currentRevision d profileID + 1"
  obtain skills servers rows where nm: "\<not> nameTaken (PD_Gov d) profileID (FI_Name (savedInput d profileID input0))"
    and fresh: "revisionID \<notin> set (map PV_ID (GD_ProfileRevisions (PD_Gov d)))"
    and num: "\<not> list_ex (\<lambda>q. PV_ProfileID q = profileID \<and> PV_Revision q = n) (GD_ProfileRevisions (PD_Gov d))"
    and rows: "mapE (governanceRow (PD_Gov d) revisionID (FI_MCPGovernance (savedInput d profileID input0))) servers = Inr rows"
    and d': "d' = savedDB fe profileID revisionID (savedInput d profileID input0) n skills servers rows d"
    using saveProfile_Inr [OF s [unfolded r]] unfolding n_def list_ex_iff by auto
  have k: "keysOK (PD_Gov d)" "currentsOK (PD_Gov d)" "membersOK d" "headsOK d" using ok by (simp_all add: profiles_ok_def)
  note rr = governanceRows_rev [OF rows]
  show ?thesis unfolding d' profiles_ok_def
    by (intro conjI savedDB_keys [OF k(1) nm fresh num] savedDB_currents [OF k(1,2) n_def] savedDB_members [OF k(3) rr]
        savedDB_heads [OF k(4,2,3) fresh rr])
qed

section \<open>Runs of the store\<close>

text \<open>What the methods of profiles read and write of their tables.\<close>

definition profileTables :: "profile_db \<Rightarrow> profile_row list \<times> profile_revision_row list \<times> profile_governance_row list \<times> profile_rule_row list
    \<times> profile_skill_row list \<times> profile_server_row list \<times> (string \<times> string) list \<times> (string \<times> string) list" where
  "profileTables d = (GD_Profiles (PD_Gov d), GD_ProfileRevisions (PD_Gov d), GD_ProfileGovernance (PD_Gov d), GD_ProfileRules (PD_Gov d),
     PD_ProfileSkills d, PD_ProfileServers d, PD_SkillHeads d, PD_ServerHeads d)"

text \<open>
  One transaction: a method on profiles, with any ids and arguments, or any change by another component that leaves the tables
  of profiles alone (a new contract, a policy, a Skill version, a publication).
\<close>

inductive profile_step :: "profile_env \<Rightarrow> profile_db \<Rightarrow> profile_db \<Rightarrow> bool" for fe where
  save: "profile_step fe d (snd (SaveProfile fe newID revisionID i input d))"
| refresh: "profile_step fe d (snd (RefreshProfile fe revisionID i expectedRevision d))"
| clone: "profile_step fe d (snd (CloneProfile fe newID revisionID i nm d))"
| restore: "profile_step fe d (snd (RestoreArchivedProfile fe revisionID i expectedRevision d))"
| archive: "ArchiveProfile i expectedRevision d = Inr d' \<Longrightarrow> profile_step fe d d'"
| purge: "PurgeProfile referenced i d = Inr d' \<Longrightarrow> profile_step fe d d'"
| outside: "profileTables d' = profileTables d \<Longrightarrow> profile_step fe d d'"

text \<open>Every method that saves is a save or changes nothing.\<close>

lemma SaveProfile_saves:
  "snd (SaveProfile fe newID revisionID i input d) = d
     \<or> (\<exists>r. saveProfile fe newID revisionID i input d = Inr (r, snd (SaveProfile fe newID revisionID i input d)))"
  by (auto simp: SaveProfile_def split: sum.splits)

lemma profile_step_cases:
  assumes "profile_step fe d d'"
  obtains (same) "profileTables d' = profileTables d"
    | (saved) newID revisionID i input r where "saveProfile fe newID revisionID i input d = Inr (r, d')"
    | (archived) i n where "ArchiveProfile i n d = Inr d'"
    | (purged) i referenced where "PurgeProfile referenced i d = Inr d'"
  using assms
proof cases
  case (save newID revisionID i input)
  then show ?thesis using SaveProfile_saves [of fe newID revisionID i input d] same saved by metis
next
  case (refresh revisionID i n)
  then have "d' = d \<or> (\<exists>newID input r. saveProfile fe newID revisionID i input d = Inr (r, d'))"
    using SaveProfile_saves [of fe "''''" revisionID i _ d] by (auto simp: RefreshProfile_def split: sum.splits if_splits) metis
  then show ?thesis using same saved by metis
next
  case (clone newID revisionID i nm)
  then have "d' = d \<or> (\<exists>newID j input r. saveProfile fe newID revisionID j input d = Inr (r, d'))"
    using SaveProfile_saves [of fe "''''" revisionID newID _ d] by (auto simp: CloneProfile_def split: sum.splits if_splits) metis
  then show ?thesis using same saved by metis
next
  case (restore revisionID i n)
  then have "d' = d \<or> (\<exists>newID input r. saveProfile fe newID revisionID i input d = Inr (r, d'))"
    by (auto simp: RestoreArchivedProfile_def split: sum.splits if_splits)
  then show ?thesis using same saved by metis
qed (use same archived purged in blast)+

lemma skillsOf_cong: "PD_ProfileSkills d' = PD_ProfileSkills d \<Longrightarrow> skillsOf d' i = skillsOf d i"
  and serversOf_cong: "PD_ProfileServers d' = PD_ProfileServers d \<Longrightarrow> serversOf d' i = serversOf d i"
  and governanceOfRevision_cong: "GD_ProfileGovernance (PD_Gov d') = GD_ProfileGovernance (PD_Gov d) \<Longrightarrow> governanceOfRevision d' i = governanceOfRevision d i"
  and rulesOfRevision_cong: "GD_ProfileRules (PD_Gov d') = GD_ProfileRules (PD_Gov d) \<Longrightarrow> rulesOfRevision d' i = rulesOfRevision d i"
  by (simp_all add: skillsOf_def serversOf_def governanceOfRevision_def rulesOfRevision_def)

lemma same_tables_ok: "profileTables d' = profileTables d \<Longrightarrow> profiles_ok d \<Longrightarrow> profiles_ok d'"
  by (simp add: profiles_ok_def profileTables_def keysOK_def currentsOK_def membersOK_def headsOK_def Let_def cong: skillsOf_cong serversOf_cong)

text \<open>An archival only sets the flag of one profile.\<close>

lemma ArchiveProfile_Inr:
  assumes "ArchiveProfile i n d = Inr d'"
  shows "\<exists>f. d' = d\<lparr>PD_Gov := (PD_Gov d)\<lparr>GD_Profiles := map f (GD_Profiles (PD_Gov d))\<rparr>\<rparr> \<and> (\<forall>p. f p = p \<or> f p = p\<lparr>PF_Archived := True\<rparr>)"
  using assms by (auto simp: ArchiveProfile_def Let_def split: if_splits)

lemma archived_fields:
  assumes "f p = p \<or> f p = p\<lparr>PF_Archived := True\<rparr>"
  shows "PF_ID (f p) = PF_ID p" "PF_Name (f p) = PF_Name p" "PF_CurrentRevisionID (f p) = PF_CurrentRevisionID p" "PF_Revision (f p) = PF_Revision p"
    "currentOf (f p) = currentOf p"
  using assms by (auto simp: currentOf_def fun_eq_iff)

lemma archive_ok:
  assumes ok: "profiles_ok d" and a: "ArchiveProfile i n d = Inr d'"
  shows "profiles_ok d'"
proof -
  obtain f where d': "d' = d\<lparr>PD_Gov := (PD_Gov d)\<lparr>GD_Profiles := map f (GD_Profiles (PD_Gov d))\<rparr>\<rparr>"
    and f: "\<And>p. f p = p \<or> f p = p\<lparr>PF_Archived := True\<rparr>"
    using ArchiveProfile_Inr [OF a] by blast
  note fs = archived_fields [of f, OF f]
  have "keysOK (PD_Gov d')" using ok by (simp add: d' profiles_ok_def keysOK_def comp_def fs)
  moreover have "currentsOK (PD_Gov d')" using ok by (simp add: d' profiles_ok_def currentsOK_def list_all_iff list_ex_iff fs)
  moreover have "membersOK d'" using ok by (simp add: d' profiles_ok_def membersOK_def)
  moreover have "headsOK d'" using ok by (simp add: d' profiles_ok_def headsOK_def list_all_iff fs skillsOf_def serversOf_def)
  ultimately show ?thesis by (simp add: profiles_ok_def)
qed

lemma PurgeProfile_Inr:
  assumes "PurgeProfile referenced i d = Inr d'"
  shows "\<not> list_ex (hasMembers d) (map PV_ID (revisionsOf (PD_Gov d) i))
    \<and> GD_Profiles (PD_Gov d') = filter (\<lambda>p. PF_ID p \<noteq> i) (GD_Profiles (PD_Gov d))
    \<and> GD_ProfileRevisions (PD_Gov d') = filter (\<lambda>r. PV_ProfileID r \<noteq> i) (GD_ProfileRevisions (PD_Gov d))
    \<and> GD_ProfileGovernance (PD_Gov d') = GD_ProfileGovernance (PD_Gov d) \<and> GD_ProfileRules (PD_Gov d') = GD_ProfileRules (PD_Gov d)
    \<and> PD_ProfileSkills d' = PD_ProfileSkills d \<and> PD_ProfileServers d' = PD_ProfileServers d
    \<and> PD_SkillHeads d' = filter (\<lambda>(p, _). p \<noteq> i) (PD_SkillHeads d) \<and> PD_ServerHeads d' = filter (\<lambda>(p, _). p \<noteq> i) (PD_ServerHeads d)"
  using assms by (auto simp: PurgeProfile_def Let_def split: if_splits)

lemma hasMembers_rows:
  "hasMembers d i = (skillsOf d i \<noteq> [] \<or> serversOf d i \<noteq> [] \<or> governanceOfRevision d i \<noteq> [] \<or> rulesOfRevision d i \<noteq> [])"
  by (auto simp: hasMembers_def skillsOf_def serversOf_def governanceOfRevision_def rulesOfRevision_def list_ex_iff filter_empty_conv)

lemma membersOK_iff: "membersOK d = (\<forall>j. hasMembers d j \<longrightarrow> j \<in> set (map PV_ID (GD_ProfileRevisions (PD_Gov d))))"
  unfolding membersOK_def Let_def hasMembers_def by (auto simp: list_all_iff list_ex_iff)

lemma purge_ok:
  assumes ok: "profiles_ok d" and a: "PurgeProfile referenced i d = Inr d'"
  shows "profiles_ok d'"
proof -
  note p = PurgeProfile_Inr [OF a]
  note k = ok [unfolded profiles_ok_def]
  have "keysOK (PD_Gov d')" using k p by (simp add: keysOK_def distinct_map_filter)
  moreover have "currentsOK (PD_Gov d')"
    using k p by (fastforce simp: currentsOK_def list_all_iff list_ex_iff currentOf_def)
  moreover have "membersOK d'"
  proof -
    have "j \<in> set (map PV_ID (GD_ProfileRevisions (PD_Gov d')))"
      if h: "hasMembers d j" and j: "j \<in> set (map PV_ID (GD_ProfileRevisions (PD_Gov d)))" for j
    proof -
      obtain r where r: "r \<in> set (GD_ProfileRevisions (PD_Gov d))" "PV_ID r = j" using j by auto
      have "PV_ProfileID r \<noteq> i" using p h r by (auto simp: revisionsOf_def list_ex_iff)
      then show ?thesis using r p by auto
    qed
    moreover have "hasMembers d' j = hasMembers d j" for j using p by (simp add: hasMembers_def)
    ultimately show ?thesis using k unfolding membersOK_iff by blast
  qed
  moreover have "headsOK d'"
  proof -
    have "headOf j (filter (\<lambda>(p, _). p \<noteq> i) hs) = headOf j hs" if "j \<noteq> i" for j hs
      using that by (auto simp: headOf_def image_iff)
    then show ?thesis using k p by (simp add: headsOK_def list_all_iff skillsOf_def serversOf_def)
  qed
  ultimately show ?thesis by (simp add: profiles_ok_def)
qed

text \<open>
  C30. The tables of profiles agree with each other in every run. Ids and names of profiles and the numbers of their revisions
  stay unique; every profile points to its newest revision, with the same fields; the member rows belong to stored revisions;
  and the head tables list exactly the Skills and servers of the current revision.
\<close>

theorem profile_store_invariant:
  assumes "(profile_step fe)\<^sup>*\<^sup>* d d'" and "profiles_ok d"
  shows "profiles_ok d'"
  using assms
proof (induction rule: rtranclp_induct)
  case (step d1 d2)
  from step.hyps(2) show ?case
    by (cases rule: profile_step_cases)
      (use step.IH step.prems same_tables_ok saveProfile_ok archive_ok purge_ok in blast)+
qed simp

section \<open>Revisions are permanent\<close>

lemma list_ex_mapI: "x \<in> set xs \<Longrightarrow> P (f x) \<Longrightarrow> list_ex P (map f xs)"
  by (auto simp: list_ex_iff)

lemma revision_step:
  assumes ok: "profiles_ok d" and st: "profile_step fe d d'" and r: "r \<in> set (GD_ProfileRevisions (PD_Gov d))" and h: "hasMembers d (PV_ID r)"
  shows "r \<in> set (GD_ProfileRevisions (PD_Gov d')) \<and> skillsOf d' (PV_ID r) = skillsOf d (PV_ID r) \<and> serversOf d' (PV_ID r) = serversOf d (PV_ID r)
    \<and> governanceOfRevision d' (PV_ID r) = governanceOfRevision d (PV_ID r) \<and> rulesOfRevision d' (PV_ID r) = rulesOfRevision d (PV_ID r)"
  using st
proof (cases rule: profile_step_cases)
  case same
  then show ?thesis using r by (simp add: profileTables_def skillsOf_def serversOf_def governanceOfRevision_def rulesOfRevision_def)
next
  case (saved newID revisionID i input res)
  obtain profileID rid where res: "res = (profileID, rid)" by (cases res)
  obtain skills servers rows where fresh: "revisionID \<notin> set (map PV_ID (GD_ProfileRevisions (PD_Gov d)))"
    and rows: "mapE (governanceRow (PD_Gov d) revisionID (FI_MCPGovernance (savedInput d profileID input))) servers = Inr rows"
    and d': "d' = savedDB fe profileID revisionID (savedInput d profileID input) (currentRevision d profileID + 1) skills servers rows d"
    using saveProfile_Inr [OF saved [unfolded res]] unfolding list_ex_iff by auto
  have m: "membersOK d" using ok by (simp add: profiles_ok_def)
  have "PV_ID r \<noteq> revisionID" using fresh r by auto
  then show ?thesis using r by (simp add: d' savedDB_sel savedDB_rows [OF m fresh governanceRows_rev [OF rows]])
next
  case (archived i n)
  from ArchiveProfile_Inr [OF this] r show ?thesis
    by (auto simp: skillsOf_def serversOf_def governanceOfRevision_def rulesOfRevision_def)
next
  case (purged i referenced)
  note p = PurgeProfile_Inr [OF this]
  have "PV_ProfileID r \<noteq> i"
  proof
    assume "PV_ProfileID r = i"
    then have "r \<in> set (revisionsOf (PD_Gov d) i)" using r by (simp add: revisionsOf_def)
    then have "list_ex (hasMembers d) (map PV_ID (revisionsOf (PD_Gov d) i))" using h by (rule list_ex_mapI)
    then show False using p by blast
  qed
  then show ?thesis using p r by (simp add: skillsOf_def serversOf_def governanceOfRevision_def rulesOfRevision_def)
qed

lemma revision_kept:
  assumes "(profile_step fe)\<^sup>*\<^sup>* d d'" and "profiles_ok d" and "r \<in> set (GD_ProfileRevisions (PD_Gov d))" and "hasMembers d (PV_ID r)"
  shows "profiles_ok d' \<and> r \<in> set (GD_ProfileRevisions (PD_Gov d')) \<and> skillsOf d' (PV_ID r) = skillsOf d (PV_ID r) \<and> serversOf d' (PV_ID r) = serversOf d (PV_ID r)
    \<and> governanceOfRevision d' (PV_ID r) = governanceOfRevision d (PV_ID r) \<and> rulesOfRevision d' (PV_ID r) = rulesOfRevision d (PV_ID r)"
  using assms(1)
proof (induction rule: rtranclp_induct)
  case base
  then show ?case using assms by blast
next
  case (step d1 d2)
  then have ok: "profiles_ok d1" and r: "r \<in> set (GD_ProfileRevisions (PD_Gov d1))" and h: "hasMembers d1 (PV_ID r)"
    using assms(4) by (simp_all add: hasMembers_rows)
  have "profiles_ok d2" using step.hyps(2)
    by (cases rule: profile_step_cases) (use ok same_tables_ok saveProfile_ok archive_ok purge_ok in blast)+
  moreover note revision_step [OF ok step.hyps(2) r h]
  ultimately show ?case using step.IH by simp
qed

text \<open>
  C31. A saved revision is permanent. In every run after it, a revision with at least one member keeps its row, with its hash,
  and all its Skills, servers, visibility and rules; and its profile can never be purged: the purge of an archived profile
  always fails on the triggers that keep the members immutable.
\<close>

theorem revision_permanent:
  assumes "profiles_ok d" and "r \<in> set (GD_ProfileRevisions (PD_Gov d))" and "hasMembers d (PV_ID r)" and "(profile_step fe)\<^sup>*\<^sup>* d d'"
  shows "r \<in> set (GD_ProfileRevisions (PD_Gov d')) \<and> skillsOf d' (PV_ID r) = skillsOf d (PV_ID r) \<and> serversOf d' (PV_ID r) = serversOf d (PV_ID r)
    \<and> governanceOfRevision d' (PV_ID r) = governanceOfRevision d (PV_ID r) \<and> rulesOfRevision d' (PV_ID r) = rulesOfRevision d (PV_ID r)
    \<and> isl (PurgeProfile referenced (PV_ProfileID r) d')"
proof -
  note k = revision_kept [OF assms(4,1,2,3)]
  have "hasMembers d' (PV_ID r)" using k assms(3) by (simp add: hasMembers_rows)
  moreover have "r \<in> set (revisionsOf (PD_Gov d') (PV_ProfileID r))" using k by (simp add: revisionsOf_def)
  ultimately have "list_ex (hasMembers d') (map PV_ID (revisionsOf (PD_Gov d') (PV_ProfileID r)))" by (intro list_ex_mapI)
  then have "isl (PurgeProfile referenced (PV_ProfileID r) d')" by (simp add: PurgeProfile_def Let_def)
  then show ?thesis using k by blast
qed

section \<open>No lost update\<close>

text \<open>
  C32. A save is never overwritten by one that has not seen it. A successful save of an existing profile was given its current
  revision number and takes the next one; in every run after it, if it has at least one member, every save of the profile with
  the old number, or an older one, is refused.
\<close>

theorem stale_save_refused:
  assumes ok: "profiles_ok d" and s: "saveProfile fe newID revisionID id0 input d = Inr ((pid, rid), d1)"
    and h: "hasMembers d1 rid" and st: "(profile_step fe)\<^sup>*\<^sup>* d1 d2" and pid: "pid \<noteq> ''''" and old: "FI_Revision input' \<le> currentRevision d pid"
  shows "(currentRevision d pid > 0 \<longrightarrow> FI_Revision input = currentRevision d pid) \<and> currentRevision d1 pid = currentRevision d pid + 1
    \<and> isl (saveProfile fe newID' revisionID' pid input' d2)"
proof -
  define n where "n = currentRevision d pid + 1"
  obtain skills servers rows where rid: "rid = revisionID" and seen: "currentRevision d pid > 0 \<longrightarrow> FI_Revision input = currentRevision d pid"
    and d1: "d1 = savedDB fe pid revisionID (savedInput d pid input) n skills servers rows d"
    using saveProfile_Inr [OF s] unfolding n_def by blast
  have ok1: "profiles_ok d1" using saveProfile_ok [OF ok s] .
  have k1: "keysOK (PD_Gov d1)" using ok1 by (simp add: profiles_ok_def)
  have "currentRevision d1 pid = n"
    using currentRevision_mem [OF k1] savedRow_mem [of pid revisionID "savedInput d pid input" n fe skills servers rows d] unfolding d1
    by (metis savedRow_def profile_row.select_convs(1,8))
  moreover have "isl (saveProfile fe newID' revisionID' pid input' d2)"
  proof -
    let ?r = "savedRevision fe pid revisionID (savedInput d pid input) n skills servers"
    have "?r \<in> set (GD_ProfileRevisions (PD_Gov d1))" "PV_ID ?r = rid" by (simp_all add: d1 savedDB_sel savedRevision_def rid)
    then have k: "profiles_ok d2" "?r \<in> set (GD_ProfileRevisions (PD_Gov d2))" using revision_kept [OF st ok1, of ?r] h by simp_all
    obtain p where p: "p \<in> set (GD_Profiles (PD_Gov d2))" "PF_ID p = pid" "n \<le> PF_Revision p" "0 < n"
      using k by (auto simp: profiles_ok_def currentsOK_def list_all_iff list_ex_iff savedRevision_def)
    have "currentRevision d2 pid = PF_Revision p" using currentRevision_mem [OF _ p(1)] k(1) p(2) by (simp add: profiles_ok_def)
    then have cur: "0 < currentRevision d2 pid" "FI_Revision input' < currentRevision d2 pid" using p(3,4) old by (simp_all add: n_def)
    show ?thesis
    proof (rule ccontr)
      assume "\<not> isl (saveProfile fe newID' revisionID' pid input' d2)"
      then obtain q j d3 where sv: "saveProfile fe newID' revisionID' pid input' d2 = Inr ((q, j), d3)"
        by (cases "saveProfile fe newID' revisionID' pid input' d2") auto
      from saveProfile_Inr [OF sv] pid have "q = pid" "currentRevision d2 pid > 0 \<longrightarrow> FI_Revision input' = currentRevision d2 pid" by auto
      then show False using cur by simp
    qed
  qed
  ultimately show ?thesis using seen by (simp add: n_def)
qed

section \<open>What a save stores is what is read\<close>

lemma insort_key_map: "insort_key f (g x) (map g xs) = map g (insort_key (\<lambda>y. f (g y)) x xs)"
  by (induction xs) simp_all

lemma sort_key_map: "sort_key f (map g xs) = map g (sort_key (\<lambda>y. f (g y)) xs)"
  by (induction xs) (simp_all add: insort_key_map)

lemma map_filter_Some: "(\<And>x. x \<in> set xs \<Longrightarrow> f x = Some (g x)) \<Longrightarrow> List.map_filter f xs = map g xs"
  by (induction xs) (simp_all add: List.map_filter_def)

lemma sorted_int_upt: "sorted (map int [0..<n])"
  by (simp add: sorted_map)

lemma sorted_positions:
  "sort_key PSK_Position (skillRows rid pins) = skillRows rid pins" "sort_key PMS_Position (serverRowsOf rid servers) = serverRowsOf rid servers"
proof -
  have "map PSK_Position (skillRows rid pins) = map int [0..<length pins]" by (rule nth_equalityI) (simp_all add: skillRows_def)
  then show "sort_key PSK_Position (skillRows rid pins) = skillRows rid pins" by (intro sort_key_id_if_sorted) (simp only: sorted_int_upt)
  have "map PMS_Position (serverRowsOf rid servers) = map int [0..<length servers]" by (rule nth_equalityI) (simp_all add: serverRowsOf_def)
  then show "sort_key PMS_Position (serverRowsOf rid servers) = serverRowsOf rid servers" by (intro sort_key_id_if_sorted) (simp only: sorted_int_upt)
qed

lemma find_key_again: "find (\<lambda>y. k y = i) xs = Some x \<Longrightarrow> k x = i \<and> find (\<lambda>y. k y = k x) xs = Some x"
  using find_key_SomeD [of k i xs x] by simp

lemma resolveSkill_Inr:
  assumes "resolveSkill uv d input i = Inr p"
  shows "SP_SkillID p = i \<and> (\<exists>s v. findSkill d (SP_SkillID p) = Some s \<and> findSkillVersion d (SP_VersionID p) = Some v \<and> skillPin s v = p)"
proof -
  obtain s v k where s: "findSkill d i = Some s" and v: "findSkillVersion d k = Some v" and p: "p = skillPin s v"
    using assms by (auto simp: resolveSkill_def Let_def split: if_splits option.splits)
  have "SK_ID s = i" by (rule find_key_again [OF s [unfolded findSkill_def], THEN conjunct1])
  moreover have "findSkillVersion d (VR_ID v) = Some v"
    unfolding findSkillVersion_def by (rule find_key_again [OF v [unfolded findSkillVersion_def], THEN conjunct2])
  ultimately show ?thesis using s by (simp add: p skillPin_def)
qed

lemma resolveServer_Inr:
  assumes "resolveServer uv d input i = Inr p"
  shows "MR_ServerID p = i \<and> findServer (PD_Gov d) (MR_ServerID p) \<noteq> None \<and> findMCPRevision (PD_Gov d) (MR_ID p) = Some p"
proof -
  obtain s k where "findServer (PD_Gov d) i = Some s" and r: "findMCPRevision (PD_Gov d) k = Some p" "MR_ServerID p = i"
    using assms by (auto simp: resolveServer_def Let_def split: if_splits option.splits)
  moreover have "findMCPRevision (PD_Gov d) (MR_ID p) = Some p"
    unfolding findMCPRevision_def by (rule find_key_again [OF r(1) [unfolded findMCPRevision_def], THEN conjunct2])
  ultimately show ?thesis by simp
qed

lemma savedDB_library:
  "findSkill (savedDB fe pid rid input n skills servers rows d) i = findSkill d i"
  "findSkillVersion (savedDB fe pid rid input n skills servers rows d) i = findSkillVersion d i"
  "findServer (PD_Gov (savedDB fe pid rid input n skills servers rows d)) i = findServer (PD_Gov d) i"
  "findMCPRevision (PD_Gov (savedDB fe pid rid input n skills servers rows d)) i = findMCPRevision (PD_Gov d) i"
  by (simp_all add: findSkill_def findSkillVersion_def findServer_def findMCPRevision_def savedDB_def replaceProfileHeadProjection_def)

lemma savedDB_pins:
  assumes "membersOK d" and "rid \<notin> set (map PV_ID (GD_ProfileRevisions (PD_Gov d)))" and "list_all (\<lambda>r. PG_ProfileRevisionID r = rid) rows"
    and pins: "resolveProfilePins uv d input = Inr (skills, servers)"
  shows "skillPins (savedDB fe pid rid input n skills servers rows d) rid = skills"
    and "serverPins (savedDB fe pid rid input n skills servers rows d) rid = servers"
    and "map SP_SkillID skills = FI_SkillIDs input" and "map MR_ServerID servers = FI_MCPServerIDs input"
proof -
  let ?d' = "savedDB fe pid rid input n skills servers rows d"
  have r: "mapE (resolveSkill uv d input) (FI_SkillIDs input) = Inr skills" "mapE (resolveServer uv d input) (FI_MCPServerIDs input) = Inr servers"
    using pins by (auto simp: resolveProfilePins_def split: sum.splits)
  have sk: "\<exists>s v. findSkill d (SP_SkillID p) = Some s \<and> findSkillVersion d (SP_VersionID p) = Some v \<and> skillPin s v = p" if "p \<in> set skills" for p
    using mapE_mem [OF r(1) that] resolveSkill_Inr by blast
  have sv: "findServer (PD_Gov d) (MR_ServerID p) \<noteq> None \<and> findMCPRevision (PD_Gov d) (MR_ID p) = Some p" if "p \<in> set servers" for p
    using mapE_mem [OF r(2) that] resolveServer_Inr by blast
  note rows' = savedDB_rows [OF assms(1-3), of fe pid input n skills servers rid, unfolded skillsOf_def serversOf_def, simplified]
  have mem1: "\<exists>p \<in> set skills. PSK_SkillID x = SP_SkillID p \<and> PSK_VersionID x = SP_VersionID p" if "x \<in> set (skillRows rid skills)" for x
    using that by (auto simp: skillRows_def dest: set_zip_rightD)
  have mem2: "\<exists>p \<in> set servers. PMS_ServerID x = MR_ServerID p \<and> PMS_MCPRevisionID x = MR_ID p" if "x \<in> set (serverRowsOf rid servers)" for x
    using that by (auto simp: serverRowsOf_def dest: set_zip_rightD)
  let ?f = "\<lambda>r. case (findSkill d (PSK_SkillID r), findSkillVersion d (PSK_VersionID r)) of (Some s, Some v) \<Rightarrow> Some (skillPin s v) | _ \<Rightarrow> None"
  have "skillPins ?d' rid = List.map_filter ?f (skillRows rid skills)"
    unfolding skillPins_def rows' savedDB_library sorted_positions ..
  also have "\<dots> = map (\<lambda>r. the (?f r)) (skillRows rid skills)"
    by (rule map_filter_Some) (use mem1 sk in fastforce)
  also have "\<dots> = skills"
  proof (rule nth_equalityI)
    show "length (map (\<lambda>r. the (?f r)) (skillRows rid skills)) = length skills" by (simp add: skillRows_def)
    fix i assume "i < length (map (\<lambda>r. the (?f r)) (skillRows rid skills))"
    then have i: "i < length skills" by (simp add: skillRows_def)
    from sk [OF nth_mem [OF i]] i show "map (\<lambda>r. the (?f r)) (skillRows rid skills) ! i = skills ! i"
      by (auto simp: skillRows_def)
  qed
  finally show "skillPins ?d' rid = skills" .
  let ?h = "\<lambda>r. case findServer (PD_Gov d) (PMS_ServerID r) of None \<Rightarrow> None | Some _ \<Rightarrow> findMCPRevision (PD_Gov d) (PMS_MCPRevisionID r)"
  have "serverPins ?d' rid = List.map_filter ?h (serverRowsOf rid servers)"
    unfolding serverPins_def rows' savedDB_library sorted_positions ..
  also have "\<dots> = map (\<lambda>r. the (?h r)) (serverRowsOf rid servers)"
    by (rule map_filter_Some) (use mem2 sv in fastforce)
  also have "\<dots> = servers"
  proof (rule nth_equalityI)
    show "length (map (\<lambda>r. the (?h r)) (serverRowsOf rid servers)) = length servers" by (simp add: serverRowsOf_def)
    fix i assume "i < length (map (\<lambda>r. the (?h r)) (serverRowsOf rid servers))"
    then have i: "i < length servers" by (simp add: serverRowsOf_def)
    from sv [OF nth_mem [OF i]] i show "map (\<lambda>r. the (?h r)) (serverRowsOf rid servers) ! i = servers ! i"
      by (auto simp: serverRowsOf_def)
  qed
  finally show "serverPins ?d' rid = servers" .
  show "map SP_SkillID skills = FI_SkillIDs input"
    using map_list_all2 [OF r(1) [unfolded mapE_Inr], of SP_SkillID "\<lambda>x. x"] resolveSkill_Inr by simp
  show "map MR_ServerID servers = FI_MCPServerIDs input"
    using map_list_all2 [OF r(2) [unfolded mapE_Inr], of MR_ServerID "\<lambda>x. x"] resolveServer_Inr by simp
qed

lemma uniqueIDsFrom_mem: "i \<in> set (uniqueIDsFrom seen is) \<Longrightarrow> i \<notin> set seen \<and> i \<noteq> '''' \<and> (\<exists>j \<in> set is. i = TrimSpace j)"
proof (induction "is" arbitrary: seen)
  case (Cons j "is")
  then show ?case using Cons.IH [of seen] Cons.IH [of "TrimSpace j # seen"] by (auto simp: Let_def split: if_splits)
qed simp

lemma uniqueIDsFrom_distinct: "distinct (uniqueIDsFrom seen is)"
  by (induction "is" arbitrary: seen) (auto simp: Let_def dest: uniqueIDsFrom_mem)

lemma savedInput_ids: "FI_SkillIDs (savedInput d pid input) = uniqueIDs (FI_SkillIDs input)" "FI_MCPServerIDs (savedInput d pid input) = uniqueIDs (FI_MCPServerIDs input)"
    "FI_MCPGovernance (savedInput d pid input) = FI_MCPGovernance input" "FI_ToolRules (savedInput d pid input) = FI_ToolRules input"
  by (simp_all add: savedInput_def inheritInput_def trimInput_def Let_def)

text \<open>The governance of a server as it is stored: its pinned revision and the contract that is accepted at the save.\<close>

definition storedGovernance :: "governance_db \<Rightarrow> ProfileMCPGovernance list \<Rightarrow> ProfileMCPPin \<Rightarrow> ProfileMCPGovernance" where
  "storedGovernance g gs pin = \<lparr>GO_ServerID = MR_ServerID pin, GO_MCPRevisionID = MR_ID pin,
     GO_AcceptedContractRevisionID = acceptedContract g (MR_ServerID pin),
     GO_VisibilityMode = (if GO_VisibilityMode (governanceOf gs (MR_ServerID pin)) = '''' then ''all_accepted''
       else GO_VisibilityMode (governanceOf gs (MR_ServerID pin)))\<rparr>"

lemma governanceRow_read:
  "governanceRow g rid gs pin = Inr row \<Longrightarrow> governanceInputOf row = storedGovernance g gs pin"
  by (auto simp: governanceRow_def governanceInputOf_def storedGovernance_def Let_def split: if_splits)

lemma governanceRow_trimmed:
  "governanceRow g rid gs pin = Inr row \<Longrightarrow>
     TrimSpace (GO_AcceptedContractRevisionID (governanceOf gs (MR_ServerID pin))) = acceptedContract g (MR_ServerID pin)"
  by (auto simp: governanceRow_def Let_def split: if_splits)

lemma savedDB_governanceInputs:
  assumes m: "membersOK d" and fresh: "rid \<notin> set (map PV_ID (GD_ProfileRevisions (PD_Gov d)))"
    and rows: "mapE (governanceRow (PD_Gov d) rid gs) servers = Inr rows"
  shows "profileGovernanceInputs (savedDB fe pid rid input n skills servers rows d) rid
    = (sort_key GO_ServerID (map (storedGovernance (PD_Gov d) gs) servers), sort_key PTR_ToolID (FI_ToolRules input))"
proof -
  note r = savedDB_rows(3,4) [OF m fresh governanceRows_rev [OF rows], of fe pid input n skills servers rid, unfolded governanceOfRevision_def rulesOfRevision_def, simplified]
  have "map governanceInputOf (sort_key PG_ServerID rows) = sort_key GO_ServerID (map governanceInputOf rows)"
    by (simp add: sort_key_map governanceInputOf_def)
  also have "map governanceInputOf rows = map (storedGovernance (PD_Gov d) gs) servers"
    by (rule map_list_all2 [OF rows [unfolded mapE_Inr]]) (rule governanceRow_read)
  finally have "map governanceInputOf (sort_key PG_ServerID rows) = sort_key GO_ServerID (map (storedGovernance (PD_Gov d) gs) servers)" .
  moreover have "map ruleInputOf (sort_key PT_ToolID (map (ruleRow rid) (FI_ToolRules input))) = sort_key PTR_ToolID (FI_ToolRules input)"
  proof -
    have "ruleInputOf (ruleRow rid r) = r" "PT_ToolID (ruleRow rid r) = PTR_ToolID r" for r by (simp_all add: ruleInputOf_def ruleRow_def)
    then show ?thesis by (simp add: sort_key_map comp_def)
  qed
  ultimately show ?thesis by (simp add: profileGovernanceInputs_def r)
qed

text \<open>The branch of \<open>CanonicalGovernedProfileHash\<close> that keeps the hash of an imported profile.\<close>

definition unclassified :: "ProfileInput \<Rightarrow> bool" where
  "unclassified input = (FI_ClientKind input = ''unknown'' \<and> FI_Category input = '''' \<and> FI_Variant input = ''standard''
     \<and> FI_MigrationState input = ''needs_review'' \<and> FI_MCPGovernance input = [] \<and> FI_ToolRules input = [])"

lemma hash_read_back:
  assumes d: "distinct (map MR_ServerID servers)"
    and t: "list_all (\<lambda>pin. GO_AcceptedContractRevisionID (governanceOf (FI_MCPGovernance input) (MR_ServerID pin)) = acceptedContract g (MR_ServerID pin)) servers"
    and u: "unclassified input \<longrightarrow> servers = []" and none: "servers = [] \<longrightarrow> FI_MCPGovernance input = []"
  shows "CanonicalGovernedProfileHash fe (input\<lparr>FI_MCPGovernance := sort_key GO_ServerID (map (storedGovernance g (FI_MCPGovernance input)) servers),
       FI_ToolRules := sort_key PTR_ToolID (FI_ToolRules input)\<rparr>) skills servers = CanonicalGovernedProfileHash fe input skills servers"
proof -
  let ?st = "storedGovernance g (FI_MCPGovernance input)" and ?read = "sort_key GO_ServerID (map (storedGovernance g (FI_MCPGovernance input)) servers)"
  have e1: "map (effectiveGovernance (FI_MCPGovernance input)) servers = map ?st servers"
    by (rule map_cong [OF refl]) (use t in \<open>auto simp: effectiveGovernance_def storedGovernance_def list_all_iff Let_def\<close>)
  have id: "GO_ServerID (?st pin) = MR_ServerID pin" for pin by (simp add: storedGovernance_def)
  have "distinct (map GO_ServerID ?read)" using d by (simp add: distinct_sort_key_map comp_def id)
  then have found: "governanceOf ?read (MR_ServerID pin) = ?st pin" if "pin \<in> set servers" for pin
    using find_key_iff [of GO_ServerID ?read "MR_ServerID pin" "?st pin"] that by (simp add: governanceOf_def id)
  have e2: "map (effectiveGovernance ?read) servers = map ?st servers"
    by (rule map_cong [OF refl]) (simp add: effectiveGovernance_def found, simp add: storedGovernance_def)
  have rules: "sort_key PTR_ToolID (sort_key PTR_ToolID rs) = sort_key PTR_ToolID rs" for rs by (simp add: sort_key_id_if_sorted)
  have empty: "(sort_key PTR_ToolID rs = []) = (rs = [])" for rs by (metis length_0_conv length_sort)
  have emptyg: "(?read = []) = (servers = [])" by (metis length_0_conv length_sort length_map)
  show ?thesis
  proof (cases "servers = []")
    case True
    then have f: "FI_MCPGovernance input = []" using none by simp
    show ?thesis unfolding CanonicalGovernedProfileHash_def Let_def by (simp add: True f rules empty)
  next
    case False
    then have "\<not> unclassified (input\<lparr>FI_MCPGovernance := ?read, FI_ToolRules := sort_key PTR_ToolID (FI_ToolRules input)\<rparr>)" "\<not> unclassified input"
      using u emptyg by (simp_all add: unclassified_def)
    then show ?thesis
      unfolding CanonicalGovernedProfileHash_def Let_def unclassified_def [symmetric] by (simp add: e1 e2 rules empty)
  qed
qed

lemma profileGovernanceError_None:
  "profileGovernanceError ge g input servers = None \<Longrightarrow> list_all (\<lambda>i. GO_ServerID i \<in> set (map MR_ServerID servers)) (FI_MCPGovernance input)"
  by (auto simp: profileGovernanceError_def list_all_iff list_ex_iff split: option.splits if_splits)

text \<open>
  C33. What a save stores is what is read. After a successful save the profile points to the new revision; reading it gives
  exactly the resolved pins in their order, for every server its pinned revision with the contract accepted at that moment,
  and the rules by tool; and the canonical hash of what is read is the stored hash, unless the profile is unclassified and has
  servers.
\<close>

theorem saved_profile_reads_back:
  assumes ok: "profiles_ok d" and s: "saveProfile fe newID revisionID id0 input d = Inr ((pid, rid), d')"
  shows "\<exists>skills servers governance rules.
      resolveProfilePins (ge_uuid (fe_gov fe)) d (savedInput d pid input) = Inr (skills, servers)
    \<and> map SP_SkillID skills = uniqueIDs (FI_SkillIDs input) \<and> map MR_ServerID servers = uniqueIDs (FI_MCPServerIDs input)
    \<and> governance = sort_key GO_ServerID (map (storedGovernance (PD_Gov d) (FI_MCPGovernance input)) servers)
    \<and> rules = sort_key PTR_ToolID (FI_ToolRules input)
    \<and> findProfile (PD_Gov d') pid = Some (savedRow pid rid (savedInput d pid input) (currentRevision d pid + 1))
    \<and> readRevision d' rid = Inr \<lparr>RR_Row = savedRevision fe pid rid (savedInput d pid input) (currentRevision d pid + 1) skills servers,
        RR_Skills = skills, RR_MCPServers = servers, RR_MCPGovernance = governance, RR_ToolRules = rules\<rparr>
    \<and> (\<not> (unclassified (savedInput d pid input) \<and> servers \<noteq> [])
        \<and> list_all (\<lambda>pin. TrimSpace (GO_AcceptedContractRevisionID (governanceOf (FI_MCPGovernance input) (MR_ServerID pin)))
             = GO_AcceptedContractRevisionID (governanceOf (FI_MCPGovernance input) (MR_ServerID pin))) servers \<longrightarrow>
       CanonicalGovernedProfileHash fe ((savedInput d pid input)\<lparr>FI_MCPGovernance := governance, FI_ToolRules := rules\<rparr>) skills servers
         = CanonicalGovernedProfileHash fe (savedInput d pid input) skills servers)"
proof -
  let ?in = "savedInput d pid input" and ?n = "currentRevision d pid + 1"
  obtain skills servers rows where rid: "rid = revisionID" and pins: "resolveProfilePins (ge_uuid (fe_gov fe)) d ?in = Inr (skills, servers)"
    and ge: "profileGovernanceError (fe_gov fe) (PD_Gov d) ?in servers = None"
    and fresh: "rid \<notin> set (map PV_ID (GD_ProfileRevisions (PD_Gov d)))"
    and rows: "mapE (governanceRow (PD_Gov d) rid (FI_MCPGovernance input)) servers = Inr rows"
    and d': "d' = savedDB fe pid rid ?in ?n skills servers rows d"
    using saveProfile_Inr [OF s] unfolding list_ex_iff savedInput_ids by auto
  have m: "membersOK d" using ok by (simp add: profiles_ok_def)
  note p = savedDB_pins(1,2) [OF m fresh governanceRows_rev [OF rows] pins, where fe = fe and pid = pid and n = ?n]
    and ids = savedDB_pins(3,4) [OF m fresh governanceRows_rev [OF rows] pins]
  have k: "keysOK (PD_Gov d')" using saveProfile_ok [OF ok s] by (simp add: profiles_ok_def)
  have found: "findProfile (PD_Gov d') pid = Some (savedRow pid rid ?in ?n)"
    unfolding findProfile_iff [OF k] using savedRow_mem unfolding d' by (simp add: savedRow_def)
  have "findRevision (PD_Gov d') rid = Some (savedRevision fe pid rid ?in ?n skills servers)"
    unfolding findRevision_def using k
    by (subst find_key_iff) (simp_all add: keysOK_def d' savedDB_sel savedRevision_def)
  then have read: "readRevision d' rid = Inr \<lparr>RR_Row = savedRevision fe pid rid ?in ?n skills servers, RR_Skills = skills, RR_MCPServers = servers,
      RR_MCPGovernance = sort_key GO_ServerID (map (storedGovernance (PD_Gov d) (FI_MCPGovernance input)) servers),
      RR_ToolRules = sort_key PTR_ToolID (FI_ToolRules input)\<rparr>"
    using p(1,2) by (simp add: readRevision_def d' savedDB_governanceInputs [OF m fresh rows] savedInput_ids)
  have trimmed: "TrimSpace (GO_AcceptedContractRevisionID (governanceOf (FI_MCPGovernance input) (MR_ServerID pin))) = acceptedContract (PD_Gov d) (MR_ServerID pin)"
    if "pin \<in> set servers" for pin
    using rows [unfolded mapE_Inr] that governanceRow_trimmed by (fastforce simp: list_all2_conv_all_nth in_set_conv_nth)
  have dist: "distinct (map MR_ServerID servers)" using ids(2) uniqueIDsFrom_distinct by (simp add: savedInput_ids uniqueIDs_def)
  have none: "servers = [] \<longrightarrow> FI_MCPGovernance ?in = []" using profileGovernanceError_None [OF ge] by (cases "FI_MCPGovernance ?in") auto
  have hash: "CanonicalGovernedProfileHash fe (?in\<lparr>FI_MCPGovernance := sort_key GO_ServerID (map (storedGovernance (PD_Gov d) (FI_MCPGovernance input)) servers),
        FI_ToolRules := sort_key PTR_ToolID (FI_ToolRules input)\<rparr>) skills servers = CanonicalGovernedProfileHash fe ?in skills servers"
    if u: "\<not> (unclassified ?in \<and> servers \<noteq> [])"
      and t: "list_all (\<lambda>pin. TrimSpace (GO_AcceptedContractRevisionID (governanceOf (FI_MCPGovernance input) (MR_ServerID pin)))
             = GO_AcceptedContractRevisionID (governanceOf (FI_MCPGovernance input) (MR_ServerID pin))) servers"
    by (rule hash_read_back [OF dist, of ?in "PD_Gov d" fe skills, unfolded savedInput_ids])
      (use u t trimmed none in \<open>auto simp: list_all_iff savedInput_ids\<close>)
  show ?thesis using pins ids found read hash unfolding savedInput_ids by blast
qed

section \<open>Profiles after a new contract is accepted\<close>

lemma SaveProfile_refused:
  assumes "isl (saveProfile fe newID revisionID i input d)"
  shows "isl (fst (SaveProfile fe newID revisionID i input d)) \<and> snd (SaveProfile fe newID revisionID i input d) = d"
  using assms by (auto simp: SaveProfile_def split: sum.splits)

lemma uniqueIDsFrom_keeps: "i \<in> set is \<Longrightarrow> TrimSpace i = i \<Longrightarrow> i \<noteq> '''' \<Longrightarrow> i \<notin> set seen \<Longrightarrow> i \<in> set (uniqueIDsFrom seen is)"
proof (induction "is" arbitrary: seen)
  case (Cons j "is")
  then show ?case using Cons.IH [of seen] Cons.IH [of "TrimSpace j # seen"] by (cases "i = TrimSpace j") (auto simp: Let_def)
qed simp

text \<open>An input that names a contract which is not the accepted one is refused.\<close>

lemma outdated_contract_refused:
  assumes "g \<in> set (FI_MCPGovernance input)" and "distinct (map GO_ServerID (FI_MCPGovernance input))"
    and "GO_ServerID g \<in> set (FI_MCPServerIDs input)" and "TrimSpace (GO_ServerID g) = GO_ServerID g" and "GO_ServerID g \<noteq> ''''"
    and "TrimSpace (GO_AcceptedContractRevisionID g) \<noteq> acceptedContract (PD_Gov d) (GO_ServerID g)"
  shows "isl (saveProfile fe newID revisionID i input d)"
proof (rule ccontr)
  assume "\<not> isl (saveProfile fe newID revisionID i input d)"
  then obtain pid rid d' where s: "saveProfile fe newID revisionID i input d = Inr ((pid, rid), d')"
    by (cases "saveProfile fe newID revisionID i input d") auto
  obtain skills servers rows where pins: "resolveProfilePins (ge_uuid (fe_gov fe)) d (savedInput d pid input) = Inr (skills, servers)"
    and rows: "mapE (governanceRow (PD_Gov d) revisionID (FI_MCPGovernance input)) servers = Inr rows"
    using saveProfile_Inr [OF s] unfolding savedInput_ids by blast
  have "mapE (resolveServer (ge_uuid (fe_gov fe)) d (savedInput d pid input)) (uniqueIDs (FI_MCPServerIDs input)) = Inr servers"
    using pins by (auto simp: resolveProfilePins_def savedInput_ids split: sum.splits)
  from map_list_all2 [OF this [unfolded mapE_Inr], of MR_ServerID "\<lambda>x. x"] have ids: "map MR_ServerID servers = uniqueIDs (FI_MCPServerIDs input)"
    using resolveServer_Inr by simp
  have "GO_ServerID g \<in> set (map MR_ServerID servers)" unfolding ids uniqueIDs_def by (rule uniqueIDsFrom_keeps) (use assms in auto)
  then obtain pin where pin: "pin \<in> set servers" "MR_ServerID pin = GO_ServerID g" by auto
  then obtain row where row: "governanceRow (PD_Gov d) revisionID (FI_MCPGovernance input) pin = Inr row"
    using rows unfolding mapE_Inr by (auto simp: list_all2_conv_all_nth in_set_conv_nth)
  have "governanceOf (FI_MCPGovernance input) (GO_ServerID g) = g"
    using find_key_iff [OF assms(2), of "GO_ServerID g" g] assms(1) by (simp add: governanceOf_def)
  then show False using governanceRow_trimmed [OF row] pin(2) assms(6) by simp
qed

text \<open>
  C34. Profiles are stuck after a new contract is accepted. As soon as the accepted contract of one of its servers is not the one
  the current revision of a profile was saved with, refreshing, cloning and restoring the profile are all refused and change
  nothing: each of them saves with the contract of the old revision.
\<close>

theorem profile_stuck_after_acceptance:
  assumes v: "readProfile fe d i = Inr v" and g: "g \<in> set (RR_MCPGovernance (VW_Revision v))"
    and "distinct (map GO_ServerID (RR_MCPGovernance (VW_Revision v)))" and "GO_ServerID g \<in> set (map MR_ServerID (RR_MCPServers (VW_Revision v)))"
    and "TrimSpace (GO_ServerID g) = GO_ServerID g \<and> GO_ServerID g \<noteq> ''''"
    and "TrimSpace (GO_AcceptedContractRevisionID g) \<noteq> acceptedContract (PD_Gov d) (GO_ServerID g)"
  shows "isl (fst (RefreshProfile fe revisionID i n d)) \<and> snd (RefreshProfile fe revisionID i n d) = d
    \<and> isl (fst (CloneProfile fe newID revisionID i nm d)) \<and> snd (CloneProfile fe newID revisionID i nm d) = d
    \<and> isl (fst (RestoreArchivedProfile fe revisionID i n d)) \<and> snd (RestoreArchivedProfile fe revisionID i n d) = d"
proof -
  let ?gs = "RR_MCPGovernance (VW_Revision v)"
  have clone: "isl (saveProfile fe '''' revisionID j ((pinnedInputOf v)\<lparr>FI_Name := nm\<rparr>) d)" for j
    by (rule outdated_contract_refused [of g]) (use assms in \<open>auto simp: pinnedInputOf_def inputOf_def\<close>)
  have restore: "isl (saveProfile fe '''' revisionID i ((pinnedInputOf v)\<lparr>FI_Revision := n, FI_ArchivedRestore := True, FI_PendingBindings := b\<rparr>) d)" for b
    by (rule outdated_contract_refused [of g]) (use assms in \<open>auto simp: pinnedInputOf_def inputOf_def\<close>)
  have refresh: "isl (saveProfile fe '''' revisionID i ((inputOf v)\<lparr>FI_MCPGovernance := map (\<lambda>g. g\<lparr>GO_MCPRevisionID := ''''\<rparr>) ?gs, FI_Revision := n\<rparr>) d)"
    by (rule outdated_contract_refused [of "g\<lparr>GO_MCPRevisionID := ''''\<rparr>"]) (use assms in \<open>auto simp: inputOf_def comp_def\<close>)
  show ?thesis
    using SaveProfile_refused [OF clone [of newID]] SaveProfile_refused [OF refresh] restore [of "VW_PendingBindings v"]
    by (auto simp: RefreshProfile_def CloneProfile_def RestoreArchivedProfile_def v split: sum.splits)
qed

section \<open>Examples\<close>

definition exampleProfiles :: profile_db where
  "exampleProfiles = \<lparr>PD_Gov = exampleGov,
     PD_Skills = [\<lparr>SK_ID = ''k'', SK_Slug = ''my-demo'', SK_Name = ''My Demo'', SK_Tags = [''required''], SK_CurrentVersionID = ''w2'', SK_Archived = False\<rparr>],
     PD_SkillVersions = [\<lparr>VR_ID = ''w1'', VR_SkillID = ''k'', VR_SHA256 = ''1'', VR_ContentHash = ''1''\<rparr>,
       \<lparr>VR_ID = ''w2'', VR_SkillID = ''k'', VR_SHA256 = ''2'', VR_ContentHash = ''2''\<rparr>],
     PD_ProfileSkills = [\<lparr>PSK_ProfileRevisionID = ''v'', PSK_SkillID = ''k'', PSK_VersionID = ''w1'', PSK_Position = 0\<rparr>],
     PD_ProfileServers = [\<lparr>PMS_ProfileRevisionID = ''v'', PMS_ServerID = ''s'', PMS_MCPRevisionID = ''m'', PMS_Position = 0\<rparr>],
     PD_SkillHeads = [(''f'', ''k'')], PD_ServerHeads = [(''f'', ''s'')], PD_Seals = [''v''], PD_Pending = []\<rparr>"

definition exampleFE :: profile_env where
  "exampleFE = \<lparr>fe_gov = exampleGovEnv, fe_bundle = exampleBundleEnv ''My Demo''\<rparr>"

definition exampleProfileInput :: ProfileInput where
  "exampleProfileInput = \<lparr>FI_Name = '' dev'', FI_Description = '''', FI_ClientKind = '''', FI_Category = ''work'', FI_Variant = '''', FI_MigrationState = '''',
     FI_SkillIDs = [''k''], FI_MCPServerIDs = [''s''], FI_SkillVersionIDs = [], FI_MCPRevisionIDs = [],
     FI_MCPGovernance = [\<lparr>GO_ServerID = ''s'', GO_MCPRevisionID = '''', GO_AcceptedContractRevisionID = ''c'', GO_VisibilityMode = ''selected''\<rparr>],
     FI_ToolRules = [], FI_Revision = 1, FI_ArchivedRestore = False, FI_PendingBindings = False\<rparr>"

lemma exampleProfiles_ok: "profiles_ok exampleProfiles"
  by code_simp

definition exampleSavedProfiles :: profile_db where
  "exampleSavedProfiles = (case saveProfile exampleFE '''' ''v2'' ''f'' exampleProfileInput exampleProfiles of Inr (_, d) \<Rightarrow> d)"

lemma exampleProfile_saved: "saveProfile exampleFE '''' ''v2'' ''f'' exampleProfileInput exampleProfiles = Inr ((''f'', ''v2''), exampleSavedProfiles)"
proof -
  have "case saveProfile exampleFE '''' ''v2'' ''f'' exampleProfileInput exampleProfiles of Inl _ \<Rightarrow> False | Inr (r, _) \<Rightarrow> r = (''f'', ''v2'')"
    by code_simp
  then show ?thesis
    by (cases "saveProfile exampleFE '''' ''v2'' ''f'' exampleProfileInput exampleProfiles") (auto simp: exampleSavedProfiles_def split: prod.splits)
qed

lemma exampleSaved_members: "hasMembers exampleSavedProfiles ''v2''"
  by code_simp

lemma exampleCurrent: "currentRevision exampleProfiles ''f'' = 1"
  by code_simp

theorem profile_store_invariant_witness:
  "profiles_ok (snd (SaveProfile exampleFE '''' ''v2'' ''f'' exampleProfileInput exampleProfiles))"
  by (rule profile_store_invariant [OF r_into_rtranclp exampleProfiles_ok]) (rule profile_step.save)

theorem revision_permanent_witness:
  "isl (PurgeProfile False ''f'' (snd (SaveProfile exampleFE '''' ''v2'' ''f'' exampleProfileInput exampleProfiles)))"
proof -
  let ?r = "exampleRevisionRow ''v'' ''f'' (replicate 64 CHR ''d'')"
  have r: "?r \<in> set (GD_ProfileRevisions (PD_Gov exampleProfiles))" "PV_ID ?r = ''v''" "PV_ProfileID ?r = ''f''"
    by (simp_all add: exampleProfiles_def exampleGov_def exampleRevisionRow_def)
  have "hasMembers exampleProfiles ''v''" by code_simp
  then have h: "hasMembers exampleProfiles (PV_ID ?r)" by (simp only: r(2))
  have st: "(profile_step exampleFE)\<^sup>*\<^sup>* exampleProfiles (snd (SaveProfile exampleFE '''' ''v2'' ''f'' exampleProfileInput exampleProfiles))"
    by (rule r_into_rtranclp) (rule profile_step.save)
  from revision_permanent [OF exampleProfiles_ok r(1) h st, of False] show ?thesis unfolding r(3) by blast
qed

theorem stale_save_refused_witness:
  "isl (saveProfile exampleFE '''' ''v3'' ''f'' exampleProfileInput exampleSavedProfiles)"
  using stale_save_refused [OF exampleProfiles_ok exampleProfile_saved exampleSaved_members rtranclp.rtrancl_refl, of exampleProfileInput]
  by (simp add: exampleCurrent exampleProfileInput_def)

theorem saved_profile_reads_back_witness:
  "case readRevision exampleSavedProfiles ''v2'' of Inl _ \<Rightarrow> False | Inr r \<Rightarrow> map SP_SkillID (RR_Skills r) = [''k'']"
proof -
  have ids: "uniqueIDs (FI_SkillIDs exampleProfileInput) = [''k'']" by code_simp
  from saved_profile_reads_back [OF exampleProfiles_ok exampleProfile_saved]
  obtain row sk sv go ru where "map SP_SkillID sk = uniqueIDs (FI_SkillIDs exampleProfileInput)"
      "readRevision exampleSavedProfiles ''v2'' = Inr \<lparr>RR_Row = row, RR_Skills = sk, RR_MCPServers = sv, RR_MCPGovernance = go, RR_ToolRules = ru\<rparr>"
    by (elim exE conjE) (rule that)
  then show ?thesis unfolding ids by simp
qed

definition exampleMoved :: profile_db where
  "exampleMoved = exampleProfiles\<lparr>PD_Gov := exampleGov\<lparr>GD_ContractTools := [],
     GD_ContractStates := [\<lparr>CS_ServerID = ''s'', CS_Accepted = Some ''c2'', CS_Latest = Some ''c2'', CS_ReviewState = ''accepted''\<rparr>]\<rparr>\<rparr>"

lemma exampleMoved_read:
  "case readProfile exampleFE exampleMoved ''f'' of Inl _ \<Rightarrow> False
   | Inr v \<Rightarrow> RR_MCPGovernance (VW_Revision v) = [\<lparr>GO_ServerID = ''s'', GO_MCPRevisionID = ''m'', GO_AcceptedContractRevisionID = ''c'', GO_VisibilityMode = ''all_accepted''\<rparr>]
       \<and> map MR_ServerID (RR_MCPServers (VW_Revision v)) = [''s'']"
  by code_simp

theorem profile_stuck_after_acceptance_witness:
  "isl (fst (RefreshProfile exampleFE ''v2'' ''f'' 1 exampleMoved))"
proof -
  obtain v where v: "readProfile exampleFE exampleMoved ''f'' = Inr v"
    and g: "RR_MCPGovernance (VW_Revision v) = [\<lparr>GO_ServerID = ''s'', GO_MCPRevisionID = ''m'', GO_AcceptedContractRevisionID = ''c'', GO_VisibilityMode = ''all_accepted''\<rparr>]"
    and s: "map MR_ServerID (RR_MCPServers (VW_Revision v)) = [''s'']"
    using exampleMoved_read by (auto split: sum.splits)
  have c: "acceptedContract (PD_Gov exampleMoved) ''s'' = ''c2''" "TrimSpace ''c'' = ''c''" "TrimSpace ''s'' = ''s''" by code_simp+
  show ?thesis
    using profile_stuck_after_acceptance [OF v, of "\<lparr>GO_ServerID = ''s'', GO_MCPRevisionID = ''m'', GO_AcceptedContractRevisionID = ''c'', GO_VisibilityMode = ''all_accepted''\<rparr>" "''v2''" 1]
    by (simp add: g s c del: set_map)
qed

end
