(* ===== verification/Bolt_Bucket.thy ===== *)
theory Bolt_Bucket
  imports ToolHub_Prelude
begin

text \<open>
  The bbolt buckets the Bridge journal is kept in. bbolt is a third-party package: a bucket is
  represented by its contents, the key/value pairs in the byte order of the keys, and the
  operations are the documented ones of \<open>Bucket\<close>: \<open>Get\<close>, \<open>Put\<close> (which refuses a blank or an
  oversized key), \<open>Delete\<close>, and iteration in key order. A value is a JSON document: \<open>Valid v\<close>
  when it decodes to the Go value \<open>v\<close>, \<open>Corrupt\<close> when it does not decode.

  The locale \<open>kv_bucket\<close> states what the journal relies on; it is interpreted on this
  representation at the end of the theory.
\<close>

datatype 'v entry = Valid 'v | Corrupt

type_synonym 'v bucket = "(string \<times> 'v entry) list"

definition boltMaxKeySize :: int where
  "boltMaxKeySize = 32768"

definition bget :: "'v bucket \<Rightarrow> string \<Rightarrow> 'v entry option" where
  "bget b k = map_of b k"

fun bput :: "string \<Rightarrow> 'v entry \<Rightarrow> 'v bucket \<Rightarrow> 'v bucket" where
  "bput k v [] = [(k, v)]"
| "bput k v ((l, w) # b) =
     (if k < l then (k, v) # (l, w) # b
      else if k = l then (k, v) # b
      else (l, w) # bput k v b)"

definition bdelete :: "string \<Rightarrow> 'v bucket \<Rightarrow> 'v bucket" where
  "bdelete k b = filter (\<lambda>(l, _). l \<noteq> k) b"

definition boltPut :: "string \<Rightarrow> 'v entry \<Rightarrow> 'v bucket \<Rightarrow> go_error + 'v bucket" where
  "boltPut k v b =
     (if k = '''' then Inl (errorsNew ''key required'')
      else if int (length k) > boltMaxKeySize then Inl (errorsNew ''key too large'')
      else Inr (bput k v b))"

text \<open>The keys are in strictly increasing order.\<close>

definition bucket_ok :: "'v bucket \<Rightarrow> bool" where
  "bucket_ok b = (sorted (map fst b) \<and> distinct (map fst b))"

lemma bget_bput [simp]: "bget (bput k v b) l = (if l = k then Some v else bget b l)"
  by (induction k v b rule: bput.induct) (auto simp: bget_def)

lemma bget_bdelete [simp]: "bget (bdelete k b) l = (if l = k then None else bget b l)"
  by (induction b) (auto simp: bget_def bdelete_def)

lemma bget_Nil [simp]: "bget [] k = None"
  by (simp add: bget_def)

lemma set_bput: "set (map fst (bput k v b)) = insert k (set (map fst b))"
  by (induction k v b rule: bput.induct) auto

lemma bucket_ok_bput [simp]: "bucket_ok b \<Longrightarrow> bucket_ok (bput k v b)"
proof (induction k v b rule: bput.induct)
  case (1 k v)
  then show ?case by (simp add: bucket_ok_def)
next
  case (2 k v l w b)
  have fst: "fst ` set (bput k v b) = insert k (fst ` set b)"
    using set_bput [of k v b] by simp
  consider "k < l" | "k = l" | "l < k" by fastforce
  then show ?case
  proof cases
    case 3
    then have "bucket_ok (bput k v b)" using 2 by (simp add: bucket_ok_def)
    then show ?thesis using 2(2) 3 fst by (auto simp: bucket_ok_def)
  qed (use 2(2) in \<open>auto simp: bucket_ok_def\<close>)
qed

lemma bucket_ok_filter [simp]: "bucket_ok b \<Longrightarrow> bucket_ok (filter P b)"
  unfolding bucket_ok_def by (simp add: sorted_filter distinct_map_filter)

lemma bucket_ok_bdelete [simp]: "bucket_ok b \<Longrightarrow> bucket_ok (bdelete k b)"
  by (simp add: bdelete_def)

lemma bucket_ok_Nil [simp]: "bucket_ok []"
  by (simp add: bucket_ok_def)

text \<open>Looking a key up in a filtered bucket.\<close>

lemma bget_filter:
  "bucket_ok b \<Longrightarrow> bget (filter (\<lambda>(k, v). P k v) b) l =
    (case bget b l of None \<Rightarrow> None | Some v \<Rightarrow> if P l v then Some v else None)"
  by (induction b) (auto simp: bget_def bucket_ok_def map_of_eq_None_iff image_iff split: option.splits)

lemma bget_map:
  "bget (map (\<lambda>(k, v). (k, f k v)) b) l = map_option (f l) (bget b l)"
  by (induction b) (auto simp: bget_def)

lemma bucket_ok_map [simp]: "bucket_ok (map (\<lambda>(k, v). (k, f k v)) b) = bucket_ok b"
proof -
  have "map fst (map (\<lambda>(k, v). (k, f k v)) b) = map fst b" by (induction b) auto
  then show ?thesis unfolding bucket_ok_def by (simp only:)
qed

lemma bget_in_set: "bget b k = Some v \<Longrightarrow> (k, v) \<in> set b"
  by (simp add: bget_def map_of_SomeD)

lemma in_set_bget: "bucket_ok b \<Longrightarrow> (k, v) \<in> set b \<Longrightarrow> bget b k = Some v"
  by (simp add: bget_def bucket_ok_def)

section \<open>The interface the journal relies on\<close>

locale kv_bucket =
  fixes lookup :: "'b \<Rightarrow> string \<Rightarrow> 'w option"
    and put :: "string \<Rightarrow> 'w \<Rightarrow> 'b \<Rightarrow> 'b"
    and remove :: "string \<Rightarrow> 'b \<Rightarrow> 'b"
    and ok :: "'b \<Rightarrow> bool"
  assumes lookup_put: "ok b \<Longrightarrow> lookup (put k w b) l = (if l = k then Some w else lookup b l)"
    and lookup_remove: "ok b \<Longrightarrow> lookup (remove k b) l = (if l = k then None else lookup b l)"
    and ok_put: "ok b \<Longrightarrow> ok (put k w b)"
    and ok_remove: "ok b \<Longrightarrow> ok (remove k b)"
begin

text \<open>A transaction that deletes a list of keys removes those entries and no other.\<close>

lemma lookup_remove_all:
  "ok b \<Longrightarrow> ok (fold remove ks b) \<and> lookup (fold remove ks b) l = (if l \<in> set ks then None else lookup b l)"
  by (induction ks arbitrary: b) (auto simp: lookup_remove ok_remove)

text \<open>Writing a key again replaces the value; other keys keep theirs.\<close>

lemma lookup_put_put: "ok b \<Longrightarrow> lookup (put k v (put k w b)) l = lookup (put k v b) l"
  by (simp add: lookup_put ok_put)

end

interpretation bolt: kv_bucket bget bput bdelete bucket_ok
  by unfold_locales auto

end
