(* ===== verification/Bridge_Auth.thy ===== *)
theory Bridge_Auth
  imports Protocol_Types Bolt_Bucket
begin

text \<open>
  Request authentication of the Bridge socket: payload signatures
  (\<open>src/internal/security/token.go\<close>), signing and verification of requests
  (\<open>src/internal/bridgeprotocol/auth.go\<close>), the nonce bucket of the journal
  (\<open>AcceptNonce\<close> in \<open>src/internal/bridge/journal.go\<close>) and the \<open>authenticate\<close> middleware of
  \<open>src/internal/bridge/server.go\<close>.

  HMAC-SHA-256 and SHA-256 are the parameters \<open>hmac\<close> and \<open>sha\<close>: every theorem here holds for
  any two functions.
\<close>

section \<open>Payload signatures\<close>

definition SignPayload :: "(string \<Rightarrow> string \<Rightarrow> string) \<Rightarrow> string \<Rightarrow> string \<Rightarrow> string" where
  "SignPayload hmac key payload = hexEncode (hmac key payload)"

definition VerifyPayload :: "(string \<Rightarrow> string \<Rightarrow> string) \<Rightarrow> string \<Rightarrow> string \<Rightarrow> string \<Rightarrow> bool" where
  "VerifyPayload hmac key payload signature =
     (case hexDecode signature of None \<Rightarrow> False | Some want \<Rightarrow> hmac key payload = want)"

lemma VerifyPayload_SignPayload [simp]: "VerifyPayload hmac key p (SignPayload hmac key p)"
  by (simp add: VerifyPayload_def SignPayload_def)

section \<open>Requests\<close>

record Request =
  rqMethod :: string
  rqURI :: string
  rqTimestamp :: string
  rqNonce :: string
  rqSignature :: string
  rqBody :: string

definition newline :: string where
  "newline = [CHR 0x0A]"

definition SigningBytes :: "(string \<Rightarrow> string) \<Rightarrow> string \<Rightarrow> string \<Rightarrow> string \<Rightarrow> string \<Rightarrow> string \<Rightarrow> string" where
  "SigningBytes sha meth uri timestamp nonce body =
     ToUpper meth @ newline @ uri @ newline @ timestamp @ newline @ nonce @ newline @ hexEncode (sha body)"

definition SignRequest ::
    "(string \<Rightarrow> string \<Rightarrow> string) \<Rightarrow> (string \<Rightarrow> string) \<Rightarrow> string \<Rightarrow> time \<Rightarrow> string \<Rightarrow> Request \<Rightarrow> Request" where
  "SignRequest hmac sha key now nonce r =
     (let timestamp = FormatInt (Unix now)
      in r\<lparr>rqTimestamp := timestamp, rqNonce := nonce,
           rqSignature := SignPayload hmac key (SigningBytes sha (rqMethod r) (rqURI r) timestamp nonce (rqBody r))\<rparr>)"

definition VerifyRequest ::
    "(string \<Rightarrow> string \<Rightarrow> string) \<Rightarrow> (string \<Rightarrow> string) \<Rightarrow> string \<Rightarrow> time \<Rightarrow> duration \<Rightarrow> Request \<Rightarrow> go_error option" where
  "VerifyRequest hmac sha key now maxSkew r =
     (if rqTimestamp r = '''' \<or> rqNonce r = '''' \<or> rqSignature r = '''' then
        Some (APIErr (apiError ErrAuthentication ''Bridge authentication headers are required''))
      else case ParseInt64 (rqTimestamp r) of
        None \<Rightarrow> Some (APIErr (apiError ErrAuthentication ''Bridge timestamp is invalid''))
      | Some seconds \<Rightarrow>
          (let delta = Sub now (fromUnix seconds) in
           if delta > maxSkew \<or> delta < - maxSkew then
             Some (APIErr (apiError ErrExpiredRequest ''Bridge request timestamp is outside the allowed window''))
           else if length (rqNonce r) < 16 \<or> length (rqNonce r) > 128 then
             Some (APIErr (apiError ErrAuthentication ''Bridge nonce is invalid''))
           else if \<not> VerifyPayload hmac key (SigningBytes sha (rqMethod r) (rqURI r) (rqTimestamp r) (rqNonce r) (rqBody r))
                      (rqSignature r) then
             Some (APIErr (apiError ErrAuthentication ''Bridge request signature is invalid''))
           else None))"

definition ParseKey :: "string \<Rightarrow> go_error + string" where
  "ParseKey value0 =
     (let value = TrimSpace value0;
          plain = (if length value = 32 then Inr value
                   else Inl (errorsNew ''Bridge HMAC key must be 32 raw bytes or 64 hexadecimal characters''))
      in if length value = 64 then
           (case hexDecode value of
              Some decoded \<Rightarrow> if length decoded = 32 then Inr decoded else plain
            | None \<Rightarrow> plain)
         else plain)"

lemma VerifyRequest_stamp:
  assumes "VerifyRequest hmac sha key now w r = None"
  obtains seconds where "ParseInt64 (rqTimestamp r) = Some seconds"
    and "\<not> Sub now (fromUnix seconds) > w" and "\<not> Sub now (fromUnix seconds) < - w"
    and "16 \<le> length (rqNonce r)" and "length (rqNonce r) \<le> 128"
  using assms unfolding VerifyRequest_def by (auto simp: Let_def split: if_splits option.splits)

section \<open>The nonce bucket\<close>

text \<open>
  The pruning loop deletes what the cursor reaches. \<open>visit\<close> says which keys those are: bbolt is
  free to move a cursor over a deleted entry, so nothing is assumed of it.
\<close>

definition pruneNonces :: "(string \<Rightarrow> bool) \<Rightarrow> int \<Rightarrow> int bucket \<Rightarrow> int bucket" where
  "pruneNonces visit cutoff b =
     filter (\<lambda>(k, v). \<not> (visit k \<and> (case v of Valid seenAt \<Rightarrow> seenAt < cutoff | Corrupt \<Rightarrow> False))) b"

definition AcceptNonce ::
    "(string \<Rightarrow> bool) \<Rightarrow> duration \<Rightarrow> string \<Rightarrow> time \<Rightarrow> int bucket \<Rightarrow> go_error + int bucket" where
  "AcceptNonce visit window nonce now b =
     (if bget b nonce \<noteq> None then
        Inl (APIErr (apiError ErrReplay ''Bridge nonce was already used''))
      else boltPut nonce (Valid (Unix now)) (pruneNonces visit (Unix (now - 2 * window)) b))"

section \<open>A gate that admits fresh requests once\<close>

text \<open>
  What the middleware needs of a nonce store: admitting a nonce refuses it if it is there,
  records the second it was admitted, and forgets no nonce admitted within two windows.
\<close>

locale nonce_guard =
  fixes seenAt :: "'s \<Rightarrow> string \<Rightarrow> int option"
    and admit :: "string \<Rightarrow> time \<Rightarrow> 's \<Rightarrow> go_error + 's"
    and window :: duration
    and sane :: "'s \<Rightarrow> bool"
  assumes admit_fresh: "sane s \<Longrightarrow> admit n t s = Inr s' \<Longrightarrow> seenAt s n = None"
    and admit_records: "sane s \<Longrightarrow> admit n t s = Inr s' \<Longrightarrow> seenAt s' n = Some (Unix t)"
    and admit_keeps: "sane s \<Longrightarrow> admit n t s = Inr s' \<Longrightarrow> seenAt s m = Some u \<Longrightarrow> Unix (t - 2 * window) \<le> u
      \<Longrightarrow> seenAt s' m = Some u"
    and admit_sane: "sane s \<Longrightarrow> admit n t s = Inr s' \<Longrightarrow> sane s'"

text \<open>
  A run of the gate: each attempt is the instant its freshness is checked, the instant its nonce
  is admitted, and the request; the result lists the admitted requests.
\<close>

fun gateRun :: "('r \<Rightarrow> time \<Rightarrow> bool) \<Rightarrow> ('r \<Rightarrow> string) \<Rightarrow> (string \<Rightarrow> time \<Rightarrow> 's \<Rightarrow> go_error + 's)
    \<Rightarrow> (time \<times> time \<times> 'r) list \<Rightarrow> 's \<Rightarrow> 'r list" where
  "gateRun fresh nonceOf admit [] s = []"
| "gateRun fresh nonceOf admit ((t, u, r) # es) s =
     (if fresh r t then
        (case admit (nonceOf r) u s of
           Inl _ \<Rightarrow> gateRun fresh nonceOf admit es s
         | Inr s' \<Rightarrow> r # gateRun fresh nonceOf admit es s')
      else gateRun fresh nonceOf admit es s)"

text \<open>The clock does not run backwards: each request is checked after the one before was admitted.\<close>

fun clockOrdered :: "time \<Rightarrow> (time \<times> time \<times> 'r) list \<Rightarrow> bool" where
  "clockOrdered t0 [] = True"
| "clockOrdered t0 ((t, u, r) # es) = (t0 \<le> t \<and> t \<le> u \<and> clockOrdered u es)"

locale replay_gate = nonce_guard +
  fixes fresh :: "'r \<Rightarrow> time \<Rightarrow> bool" and nonceOf :: "'r \<Rightarrow> string" and stamp :: "'r \<Rightarrow> time"
  assumes window_pos: "0 \<le> window"
    and fresh_before: "fresh r t \<Longrightarrow> t \<le> stamp r + window"
    and fresh_after: "fresh r t \<Longrightarrow> stamp r - window \<le> t"
begin

text \<open>
  Once a nonce is recorded late enough for a stamp, no request with that nonce and stamp is
  admitted any more.
\<close>

lemma recorded_blocks:
  assumes "sane s" and "seenAt s n = Some u0" and "Unix (x - window) \<le> u0" and "clockOrdered t0 es"
  shows "\<forall>r \<in> set (gateRun fresh nonceOf admit es s). \<not> (nonceOf r = n \<and> stamp r = x)"
  using assms
proof (induction es arbitrary: s t0)
  case Nil
  then show ?case by simp
next
  case (Cons e es)
  obtain t u r where e: "e = (t, u, r)" by (cases e)
  have later: "clockOrdered u es" "t \<le> u" using Cons.prems(4) e by simp_all
  show ?case
  proof (cases "fresh r t \<and> (\<exists>s'. admit (nonceOf r) u s = Inr s')")
    case False
    then have "gateRun fresh nonceOf admit (e # es) s = gateRun fresh nonceOf admit es s"
      using e by (auto split: sum.splits)
    with Cons.IH [OF Cons.prems(1-3) later(1)] show ?thesis by simp
  next
    case True
    then obtain s' where s': "admit (nonceOf r) u s = Inr s'" by blast
    have ne: "nonceOf r \<noteq> n" using admit_fresh [OF Cons.prems(1) s'] Cons.prems(2) by auto
    have rest: "\<forall>q \<in> set (gateRun fresh nonceOf admit es s'). \<not> (nonceOf q = n \<and> stamp q = x)"
    proof (cases "u \<le> x + window")
      case True
      then have "Unix (u - 2 * window) \<le> u0"
        using Cons.prems(3) Unix_mono [of "u - 2 * window" "x - window"] by simp
      then have "seenAt s' n = Some u0" by (rule admit_keeps [OF Cons.prems(1) s' Cons.prems(2)])
      with Cons.IH [OF admit_sane [OF Cons.prems(1) s']] Cons.prems(3) later(1) show ?thesis by blast
    next
      case False
      have "stamp q \<noteq> x" if "q \<in> set (gateRun fresh nonceOf admit fs z)" "clockOrdered u fs" for q fs z
        using that False
      proof (induction fs arbitrary: z u)
        case (Cons f fs)
        obtain a b p where f: "f = (a, b, p)" by (cases f)
        with Cons.prems have ab: "u \<le> a" "a \<le> b" "clockOrdered b fs" by simp_all
        have IH: "\<And>z. q \<in> set (gateRun fresh nonceOf admit fs z) \<Longrightarrow> stamp q \<noteq> x"
          using Cons.IH ab Cons.prems(3) by fastforce
        from Cons.prems(1) f IH fresh_before [of p a] ab(1) Cons.prems(3) show ?case
          by (auto split: if_splits sum.splits)
      qed simp
      with later(1) show ?thesis by blast
    qed
    from True s' e ne rest show ?thesis by auto
  qed
qed

text \<open>The gate admits a nonce at most once for each stamp.\<close>

lemma admitted_once:
  "sane s \<Longrightarrow> clockOrdered t0 es \<Longrightarrow> distinct (map (\<lambda>r. (nonceOf r, stamp r)) (gateRun fresh nonceOf admit es s))"
proof (induction es arbitrary: s t0)
  case Nil
  then show ?case by simp
next
  case (Cons e es)
  obtain t u r where e: "e = (t, u, r)" by (cases e)
  have later: "clockOrdered u es" "t \<le> u" using Cons.prems(2) e by simp_all
  show ?case
  proof (cases "fresh r t \<and> (\<exists>s'. admit (nonceOf r) u s = Inr s')")
    case False
    then have "gateRun fresh nonceOf admit (e # es) s = gateRun fresh nonceOf admit es s"
      using e by (auto split: sum.splits)
    with Cons.IH [OF Cons.prems(1) later(1)] show ?thesis by simp
  next
    case True
    then obtain s' where fr: "fresh r t" and s': "admit (nonceOf r) u s = Inr s'" by blast
    note sane' = admit_sane [OF Cons.prems(1) s']
    have "Unix (stamp r - window) \<le> Unix u"
      using fresh_after [OF fr] later(2) by (intro Unix_mono) simp
    from recorded_blocks [OF sane' admit_records [OF Cons.prems(1) s'] this later(1)]
      Cons.IH [OF sane' later(1)] e fr s'
    show ?thesis by auto
  qed
qed

end

section \<open>The authenticate middleware\<close>

definition authWindow :: duration where
  "authWindow = 30 * second"

text \<open>
  The two instants are the two calls of \<open>s.now()\<close>. \<open>Inl\<close> is the status and the error of the
  refused request, \<open>Inr\<close> the nonce bucket with which the next handler runs.
\<close>

definition asAPIError :: "go_error \<Rightarrow> api_error" where
  "asAPIError err = BoundedAPIError err ErrInvalidRequest"

definition authenticate ::
    "(string \<Rightarrow> string \<Rightarrow> string) \<Rightarrow> (string \<Rightarrow> string) \<Rightarrow> string \<Rightarrow> (string \<Rightarrow> bool) \<Rightarrow> time \<Rightarrow> time \<Rightarrow> Request
     \<Rightarrow> int bucket \<Rightarrow> (nat \<times> api_error) + int bucket" where
  "authenticate hmac sha key visit t u r b =
     (if int (length (rqBody r)) > MaxRequestBytes then
        Inl (413, apiError ErrInvalidRequest ''Bridge request body is too large'')
      else case VerifyRequest hmac sha key t authWindow r of
        Some e \<Rightarrow> Inl (401, asAPIError e)
      | None \<Rightarrow> (case AcceptNonce visit authWindow (rqNonce r) u b of
          Inl e \<Rightarrow> Inl (409, asAPIError e)
        | Inr b' \<Rightarrow> Inr b'))"

fun authRun :: "(string \<Rightarrow> string \<Rightarrow> string) \<Rightarrow> (string \<Rightarrow> string) \<Rightarrow> string \<Rightarrow> (string \<Rightarrow> bool)
    \<Rightarrow> (time \<times> time \<times> Request) list \<Rightarrow> int bucket \<Rightarrow> Request list" where
  "authRun hmac sha key visit [] b = []"
| "authRun hmac sha key visit ((t, u, r) # es) b =
     (case authenticate hmac sha key visit t u r b of
        Inl _ \<Rightarrow> authRun hmac sha key visit es b
      | Inr b' \<Rightarrow> r # authRun hmac sha key visit es b')"

definition nonceSeen :: "int bucket \<Rightarrow> string \<Rightarrow> int option" where
  "nonceSeen b n = (case bget b n of Some (Valid u) \<Rightarrow> Some u | _ \<Rightarrow> None)"

definition requestFresh ::
    "(string \<Rightarrow> string \<Rightarrow> string) \<Rightarrow> (string \<Rightarrow> string) \<Rightarrow> string \<Rightarrow> Request \<Rightarrow> time \<Rightarrow> bool" where
  "requestFresh hmac sha key r t =
     (int (length (rqBody r)) \<le> MaxRequestBytes \<and> VerifyRequest hmac sha key t authWindow r = None)"

definition requestStamp :: "Request \<Rightarrow> time" where
  "requestStamp r = (case ParseInt64 (rqTimestamp r) of None \<Rightarrow> 0 | Some s \<Rightarrow> fromUnix s)"

lemma authWindow_bounds: "0 \<le> authWindow" "authWindow < maxDuration"
  by (simp_all add: authWindow_def second_def maxDuration_def)

lemma AcceptNonce_Inr:
  assumes "AcceptNonce visit w n t b = Inr b'"
  shows "bget b n = None" and "b' = bput n (Valid (Unix t)) (pruneNonces visit (Unix (t - 2 * w)) b)"
  using assms by (auto simp: AcceptNonce_def boltPut_def split: if_splits)

lemma pruneNonces_ok: "bucket_ok b \<Longrightarrow> bucket_ok (pruneNonces visit c b)"
  by (simp add: pruneNonces_def)

lemma nonceSeen_prune:
  assumes "bucket_ok b" and "nonceSeen b m = Some u" and "c \<le> u"
  shows "nonceSeen (pruneNonces visit c b) m = Some u"
proof -
  have "bget b m = Some (Valid u)"
    using assms(2) by (simp add: nonceSeen_def split: option.splits entry.splits)
  then show ?thesis
    using assms(3) unfolding pruneNonces_def nonceSeen_def by (subst bget_filter [OF assms(1)]) simp
qed

text \<open>The journal's nonce bucket is a nonce store, for any cursor behaviour.\<close>

interpretation nonces: nonce_guard nonceSeen "AcceptNonce visit w" w bucket_ok
  for visit :: "string \<Rightarrow> bool" and w :: duration
proof (unfold_locales, goal_cases)
  case (1 s n t s')
  then show ?case using AcceptNonce_Inr(1) by (simp add: nonceSeen_def)
next
  case (2 s n t s')
  then show ?case using AcceptNonce_Inr(2) [OF 2(2)] by (simp add: nonceSeen_def)
next
  case (3 s n t s' m u)
  have "m \<noteq> n" using 3 AcceptNonce_Inr(1) by (auto simp: nonceSeen_def)
  with AcceptNonce_Inr(2) [OF 3(2)] nonceSeen_prune [OF 3(1,3,4)] show ?case
    by (simp add: nonceSeen_def)
next
  case (4 s n t s')
  then show ?case using AcceptNonce_Inr(2) [OF 4(2)] pruneNonces_ok by simp
qed

text \<open>With the timestamp check of \<open>VerifyRequest\<close> in front of it, it is a replay gate.\<close>

interpretation gate: replay_gate nonceSeen "AcceptNonce visit authWindow" authWindow bucket_ok
    "requestFresh hmac sha key" rqNonce requestStamp
  for visit :: "string \<Rightarrow> bool" and hmac :: "string \<Rightarrow> string \<Rightarrow> string" and sha :: "string \<Rightarrow> string" and key :: string
proof unfold_locales
  show "0 \<le> authWindow" by (rule authWindow_bounds)
  fix r t assume "requestFresh hmac sha key r t"
  then have "VerifyRequest hmac sha key t authWindow r = None" by (simp add: requestFresh_def)
  then obtain seconds where s: "ParseInt64 (rqTimestamp r) = Some seconds"
    and w: "\<not> Sub t (fromUnix seconds) > authWindow" "\<not> Sub t (fromUnix seconds) < - authWindow"
    by (rule VerifyRequest_stamp)
  from Sub_window [OF authWindow_bounds w] s
  show "t \<le> requestStamp r + authWindow" and "requestStamp r - authWindow \<le> t"
    by (simp_all add: requestStamp_def)
qed

lemma authRun_gateRun:
  "authRun hmac sha key visit es b
    = gateRun (requestFresh hmac sha key) rqNonce (AcceptNonce visit authWindow) es b"
proof (induction es arbitrary: b)
  case (Cons e es)
  obtain t u r where "e = (t, u, r)" by (cases e)
  with Cons show ?case
    by (auto simp: authenticate_def requestFresh_def split: option.splits sum.splits)
qed simp

section \<open>Properties\<close>

text \<open>
  C1. No request is accepted twice: in any sequence of requests handled one after the other on a
  clock that does not run backwards, from any journal, the accepted requests have pairwise
  different (nonce, timestamp) pairs; since the signature covers both, a captured request
  cannot be replayed. This holds for every cursor behaviour of the pruning loop and any MAC.
\<close>

theorem accepted_requests_never_replay:
  assumes "bucket_ok b" and "clockOrdered t0 es"
  shows "distinct (map (\<lambda>r. (rqNonce r, requestStamp r)) (authRun hmac sha key visit es b))"
  using gate.admitted_once [OF assms] unfolding authRun_gateRun .

text \<open>A toy MAC for the witnesses: the first 32 bytes of the padded key and payload.\<close>

definition toyMac :: "string \<Rightarrow> string \<Rightarrow> string" where
  "toyMac k p = take 32 (k @ p)"

definition toySha :: "string \<Rightarrow> string" where
  "toySha p = take 32 p"

definition exampleRequest :: Request where
  "exampleRequest = SignRequest toyMac toySha ''k'' (fromUnix 1000) ''nonce-0123456789'' \<lparr>rqMethod = ''POST'',
     rqURI = ''/v1/targets/scan'', rqTimestamp = '''', rqNonce = '''', rqSignature = '''', rqBody = ''{}''\<rparr>"

theorem accepted_requests_never_replay_witness:
  "clockOrdered 0 [(fromUnix 1001, fromUnix 1001, exampleRequest), (fromUnix 1020, fromUnix 1021, exampleRequest)]
   \<and> authRun toyMac toySha ''k'' (\<lambda>_. True)
       [(fromUnix 1001, fromUnix 1001, exampleRequest), (fromUnix 1020, fromUnix 1021, exampleRequest)] []
     = [exampleRequest]
   \<and> distinct (map (\<lambda>r. (rqNonce r, requestStamp r)) (authRun toyMac toySha ''k'' (\<lambda>_. True)
       [(fromUnix 1001, fromUnix 1001, exampleRequest), (fromUnix 1020, fromUnix 1021, exampleRequest)] []))"
proof -
  let ?es = "[(fromUnix 1001, fromUnix 1001, exampleRequest), (fromUnix 1020, fromUnix 1021, exampleRequest)]"
  have clock: "clockOrdered 0 ?es" by (simp add: fromUnix_def second_def)
  have "authRun toyMac toySha ''k'' (\<lambda>_. True) ?es [] = [exampleRequest]" by code_simp
  with clock accepted_requests_never_replay [OF bucket_ok_Nil clock, of toyMac toySha "''k''" "\<lambda>_. True"]
  show ?thesis by blast
qed

text \<open>
  C4. What \<open>SignRequest\<close> signs, \<open>VerifyRequest\<close> accepts: with the same key, a nonce of 16 to 128
  bytes, a clock in the int64 range of seconds and a receiving clock within the allowed skew of
  the signed second. \<open>hmac\<close> is only asked not to return the empty string.
\<close>

theorem signed_request_verifies:
  assumes "16 \<le> length nonce" and "length nonce \<le> 128" and "\<And>p. hmac key p \<noteq> []"
    and "- 9223372036854775808 \<le> Unix now" and "Unix now \<le> 9223372036854775807"
    and "0 \<le> w" and "w < maxDuration"
    and "fromUnix (Unix now) - w \<le> t" and "t \<le> fromUnix (Unix now) + w"
  shows "VerifyRequest hmac sha key t w (SignRequest hmac sha key now nonce r) = None"
proof -
  have "FormatInt (Unix now) \<noteq> []"
    using natDigits_value by (auto simp: FormatInt_def)
  moreover have "SignPayload hmac key p \<noteq> []" for p
    using assms(3) [of p] by (cases "hmac key p") (simp_all add: SignPayload_def)
  moreover have "\<not> Sub t (fromUnix (Unix now)) > w" and "\<not> Sub t (fromUnix (Unix now)) < - w"
    using assms(6-9) by (simp_all add: Sub_def maxDuration_def)
  ultimately show ?thesis
    using assms(1,2) ParseInt64_FormatInt [OF assms(4,5)]
    by (auto simp: VerifyRequest_def SignRequest_def Let_def)
qed

theorem signed_request_verifies_witness:
  "VerifyRequest toyMac toySha ''k'' (fromUnix 1012) authWindow
     (SignRequest toyMac toySha ''k'' (fromUnix 1000) ''nonce-0123456789'' exampleRequest) = None"
  by (rule signed_request_verifies)
    (simp_all add: toyMac_def authWindow_def second_def maxDuration_def fromUnix_def Unix_def)

text \<open>
  The retention of nonces leaves no margin between the timestamp check and the nonce check:
  when another request is admitted in between, its pruning can forget a nonce that the first
  check still let through, and the same signed request is admitted a second time. Here the
  request carries a timestamp 30 seconds ahead, is admitted at second 1000, is checked again at
  second 1060, and its nonce is pruned by a request admitted at second 1061.
\<close>

definition skewedRequest :: Request where
  "skewedRequest = SignRequest toyMac toySha ''k'' (fromUnix 1030) ''nonce-0123456789'' exampleRequest"

theorem interleaved_check_admits_replay:
  "requestFresh toyMac toySha ''k'' skewedRequest (fromUnix 1000)
   \<and> requestFresh toyMac toySha ''k'' skewedRequest (fromUnix 1060)
   \<and> (case AcceptNonce (\<lambda>_. True) authWindow (rqNonce skewedRequest) (fromUnix 1000) [] of Inl _ \<Rightarrow> False
      | Inr b1 \<Rightarrow> (case AcceptNonce (\<lambda>_. True) authWindow ''another-nonce-987'' (fromUnix 1061) b1 of Inl _ \<Rightarrow> False
      | Inr b2 \<Rightarrow> (case AcceptNonce (\<lambda>_. True) authWindow (rqNonce skewedRequest) (fromUnix 1061) b2 of
          Inl _ \<Rightarrow> False | Inr _ \<Rightarrow> True)))"
  by code_simp

end
