(* ===== verification/Desired_Manifest.thy ===== *)
theory Desired_Manifest
  imports Routing_Bundle
begin

text \<open>
  The desired manifest of a target (\<open>DesiredManifest\<close> in
  \<open>src/internal/bridgeprotocol/types.go\<close>): normal form, validation, and the canonical bytes and
  hash that preflight tokens, snapshots and the Bridge bind to.

  A Go map is the list of its entries. A nil slice and an empty slice are the same list, so the
  nil checks of \<open>Normalize\<close> are invisible here. \<open>sort.Slice\<close> may order members with equal
  ids arbitrarily; \<open>Validate\<close> refuses equal ids, so the choice never reaches a caller.
\<close>

section \<open>Data\<close>

record SkillMember =
  SM_MemberID :: string
  SM_SkillID :: string
  SM_VersionID :: string
  SM_Slug :: string
  SM_SHA256 :: string
  SM_ContentHash :: string

record MCPMember =
  MM_MemberID :: string
  MM_ServerID :: string
  MM_Revision :: int
  MM_Name :: string
  MM_Transport :: string
  MM_Command :: string
  MM_Args :: "string list"
  MM_URL :: string
  MM_EnvRefs :: "(string \<times> string) list"
  MM_HeaderRefs :: "(string \<times> string) list"
  MM_ContentHash :: string

record DesiredManifest =
  DM_SchemaVersion :: int
  DM_Target :: Target
  DM_ProfileID :: string
  DM_ProfileRevision :: int
  DM_Skills :: "SkillMember list"
  DM_MCPServers :: "MCPMember list"
  DM_ManagedMemberIDs :: "string list"
  DM_RelayPort :: int
  DM_RelayGovernance :: "RelayGovernanceManifest option"

section \<open>Operations\<close>

definition Normalize :: "DesiredManifest \<Rightarrow> DesiredManifest" where
  "Normalize m =
     m\<lparr>DM_SchemaVersion := (if DM_SchemaVersion m = 0 then 1 else DM_SchemaVersion m),
       DM_Skills := sort_key SM_MemberID (DM_Skills m),
       DM_MCPServers := sort_key MM_MemberID (DM_MCPServers m),
       DM_ManagedMemberIDs := sort (DM_ManagedMemberIDs m)\<rparr>"

text \<open>\<open>mergeRefs(env, header)\<close>: a later map overrides the entries of an earlier one.\<close>

definition mergeRefs :: "(string \<times> string) list \<Rightarrow> (string \<times> string) list \<Rightarrow> (string \<times> string) list" where
  "mergeRefs env hdr = filter (\<lambda>(k, _). k \<notin> set (map fst hdr)) env @ hdr"

fun checkSkills :: "(string \<Rightarrow> bool) \<Rightarrow> SkillMember list \<Rightarrow> string list \<Rightarrow> go_error + string list" where
  "checkSkills uv [] seen = Inr seen"
| "checkSkills uv (s # ss) seen =
     (if \<not> validID uv (SM_MemberID s) \<or> \<not> validID uv (SM_SkillID s) \<or> \<not> validID uv (SM_VersionID s) then
        Inl (errorsNew ''Skill member contains an invalid identifier'')
      else if \<not> slugPattern (SM_Slug s) \<or> IsProtectedSkillEntry (SM_Slug s) then
        Inl (errorf ''invalid or protected Skill slug %q'' [SM_Slug s])
      else if \<not> IsSHA256 (SM_SHA256 s) \<or> \<not> IsSHA256 (SM_ContentHash s) then
        Inl (errorf ''invalid Skill artifact or content hash for %q'' [SM_Slug s])
      else if SM_MemberID s \<in> set seen then
        Inl (errorf ''duplicate managed member %q'' [SM_MemberID s])
      else checkSkills uv ss (SM_MemberID s # seen))"

definition transportError :: "MCPMember \<Rightarrow> go_error option" where
  "transportError s =
     (if MM_Transport s = ''stdio'' then
        (if TrimSpace (MM_Command s) = '''' \<or> MM_URL s \<noteq> '''' then
           Some (errorf ''stdio MCP server %q requires command and forbids URL'' [MM_Name s]) else None)
      else if MM_Transport s = ''http'' \<or> MM_Transport s = ''sse'' then
        (if TrimSpace (MM_URL s) = '''' \<or> MM_Command s \<noteq> '''' \<or> length (MM_Args s) \<noteq> 0 then
           Some (errorf ''network MCP server %q requires URL and forbids command/args'' [MM_Name s]) else None)
      else Some (errorf ''unsupported MCP transport %q'' [MM_Transport s]))"

fun checkMCP :: "(string \<Rightarrow> bool) \<Rightarrow> MCPMember list \<Rightarrow> string list \<Rightarrow> go_error + string list" where
  "checkMCP uv [] seen = Inr seen"
| "checkMCP uv (s # ss) seen =
     (if \<not> validID uv (MM_MemberID s) \<or> \<not> validID uv (MM_ServerID s) \<or> MM_Revision s < 1 then
        Inl (errorsNew ''MCP member contains an invalid identifier or revision'')
      else if \<not> slugPattern (MM_Name s) \<or> \<not> IsSHA256 (MM_ContentHash s) then
        Inl (errorf ''invalid MCP member %q'' [MM_Name s])
      else case transportError s of Some e \<Rightarrow> Inl e
      | None \<Rightarrow>
      if list_ex (\<lambda>(k, ref). TrimSpace k = '''' \<or> \<not> uv ref) (mergeRefs (MM_EnvRefs s) (MM_HeaderRefs s)) then
        Inl (errorf ''MCP server %q contains an invalid secret reference'' [MM_Name s])
      else if MM_MemberID s \<in> set seen then
        Inl (errorf ''duplicate managed member %q'' [MM_MemberID s])
      else checkMCP uv ss (MM_MemberID s # seen))"

definition governanceError :: "codec \<Rightarrow> DesiredManifest \<Rightarrow> go_error option" where
  "governanceError cd m =
     (if DM_SchemaVersion m \<noteq> 1 \<and> DM_SchemaVersion m \<noteq> 2 then
        Some (errorf ''unsupported manifest schema version %d'' [FormatInt (DM_SchemaVersion m)])
      else if DM_SchemaVersion m = 2 then
        (case DM_RelayGovernance m of
           None \<Rightarrow> Some (errorsNew ''Manifest v2 governance is valid only for shared relay targets'')
         | Some g \<Rightarrow>
             if T_Runtime (DM_Target m) \<noteq> RuntimeSharedRelay then
               Some (errorsNew ''Manifest v2 governance is valid only for shared relay targets'')
             else RelayGovernanceManifest_Validate cd g)
      else if DM_RelayGovernance m \<noteq> None then
        Some (errorsNew ''Manifest v1 cannot contain relay governance'')
      else None)"

definition placementError :: "DesiredManifest \<Rightarrow> go_error option" where
  "placementError m =
     (let relay = (T_Runtime (DM_Target m) = RuntimeSharedRelay) in
      if DM_ProfileRevision m < 0 then Some (errorsNew ''profile revision cannot be negative'')
      else if relay \<and> (DM_RelayPort m < 1 \<or> DM_RelayPort m > 65535) then
        Some (errorsNew ''shared relay target requires a valid relay port'')
      else if \<not> relay \<and> length (DM_MCPServers m) > 0 \<and> T_NodeKind (DM_Target m) = NodeKindLocal then
        Some (errorsNew ''local MCP servers belong to local/shared-relay'')
      else if relay \<and> length (DM_Skills m) > 0 then
        Some (errorsNew ''shared relay target cannot contain Skills'')
      else None)"

definition membersError :: "(string \<Rightarrow> bool) \<Rightarrow> DesiredManifest \<Rightarrow> go_error option" where
  "membersError uv m =
     (case checkSkills uv (DM_Skills m) [] of Inl e \<Rightarrow> Some e
      | Inr seen \<Rightarrow> (case checkMCP uv (DM_MCPServers m) seen of Inl e \<Rightarrow> Some e
      | Inr seenMembers \<Rightarrow>
          if length (DM_ManagedMemberIDs m) \<noteq> length seenMembers then
            Some (errorsNew ''managedMemberIds must exactly match Skill and MCP member IDs'')
          else case find (\<lambda>i. i \<notin> set seenMembers) (DM_ManagedMemberIDs m) of
                 Some i \<Rightarrow> Some (errorf ''unknown managed member id %q'' [i])
               | None \<Rightarrow> None))"

definition Manifest_Validate :: "codec \<Rightarrow> bool \<Rightarrow> DesiredManifest \<Rightarrow> go_error option" where
  "Manifest_Validate cd write m0 =
     (let m = Normalize m0 in
      case governanceError cd m of Some e \<Rightarrow> Some e
      | None \<Rightarrow> (case Target_Validate (uuidValid cd) write (DM_Target m) of Some e \<Rightarrow> Some e
      | None \<Rightarrow> (case placementError m of Some e \<Rightarrow> Some e
      | None \<Rightarrow> membersError (uuidValid cd) m)))"

text \<open>
  \<open>Canonical\<close>: normalise, validate for writing, put the canonical routing bundle in a v2
  manifest, then encode (\<open>marshalManifest\<close>, the struct encoder of encoding/json) and hash.
\<close>

definition canonicalGovernance :: "codec \<Rightarrow> DesiredManifest \<Rightarrow> go_error + DesiredManifest" where
  "canonicalGovernance cd m =
     (case DM_RelayGovernance m of
        None \<Rightarrow> Inr m
      | Some g \<Rightarrow>
          if DM_SchemaVersion m \<noteq> 2 then Inr m
          else case decodeRouting cd (RG_RoutingBundle g) of
            Inl e \<Rightarrow> Inl (Wrapped ''canonicalize relay routing bundle: %w'' e)
          | Inr bundle \<Rightarrow>
              (case RoutingBundle_Canonical cd bundle of
                 Inl e \<Rightarrow> Inl e
               | Inr (body, _) \<Rightarrow> Inr (m\<lparr>DM_RelayGovernance := Some (g\<lparr>RG_RoutingBundle := body\<rparr>)\<rparr>)))"

definition Manifest_Canonical ::
    "codec \<Rightarrow> (DesiredManifest \<Rightarrow> string) \<Rightarrow> DesiredManifest \<Rightarrow> go_error + (string \<times> string)" where
  "Manifest_Canonical cd marshalManifest m0 =
     (let m = Normalize m0 in
      case Manifest_Validate cd True m of Some e \<Rightarrow> Inl e
      | None \<Rightarrow> (case canonicalGovernance cd m of Inl e \<Rightarrow> Inl e
      | Inr m' \<Rightarrow> (let body = marshalManifest m' in Inr (body, hexEncode (sha256 cd body)))))"

section \<open>Normal form\<close>

lemma sort_key_idem [simp]: "sort_key f (sort_key f xs) = sort_key f xs"
  by (rule sort_key_id_if_sorted) simp

lemma Normalize_idem [simp]: "Normalize (Normalize m) = Normalize m"
  by (simp add: Normalize_def)

lemma Normalize_frame [simp]:
  "DM_Target (Normalize m) = DM_Target m" "DM_RelayGovernance (Normalize m) = DM_RelayGovernance m"
  "DM_ProfileRevision (Normalize m) = DM_ProfileRevision m" "DM_RelayPort (Normalize m) = DM_RelayPort m"
  by (simp_all add: Normalize_def)

lemma Manifest_Validate_Normalize: "Manifest_Validate cd w (Normalize m) = Manifest_Validate cd w m"
  by (simp add: Manifest_Validate_def)

section \<open>What a validated manifest guarantees\<close>

definition memberIDs :: "DesiredManifest \<Rightarrow> string list" where
  "memberIDs m = map SM_MemberID (DM_Skills m) @ map MM_MemberID (DM_MCPServers m)"

lemma checkSkills_Inr:
  "checkSkills uv ss seen = Inr seen' \<Longrightarrow> distinct seen \<Longrightarrow>
    seen' = rev (map SM_MemberID ss) @ seen \<and> distinct seen'
    \<and> (\<forall>s \<in> set ss. slugPattern (SM_Slug s) \<and> \<not> IsProtectedSkillEntry (SM_Slug s)
        \<and> IsSHA256 (SM_SHA256 s) \<and> IsSHA256 (SM_ContentHash s))"
  by (induction ss arbitrary: seen) (fastforce split: if_splits)+

lemma checkMCP_Inr:
  "checkMCP uv ss seen = Inr seen' \<Longrightarrow> distinct seen \<Longrightarrow>
    seen' = rev (map MM_MemberID ss) @ seen \<and> distinct seen'
    \<and> (\<forall>s \<in> set ss. slugPattern (MM_Name s) \<and> IsSHA256 (MM_ContentHash s) \<and> transportError s = None
        \<and> 1 \<le> MM_Revision s)"
  by (induction ss arbitrary: seen) (fastforce split: if_splits option.splits)+

lemma membersError_None:
  assumes "membersError uv m = None"
  shows "distinct (memberIDs m)" and "length (DM_ManagedMemberIDs m) = length (memberIDs m)"
    and "set (DM_ManagedMemberIDs m) \<subseteq> set (memberIDs m)"
    and "\<forall>s \<in> set (DM_Skills m). slugPattern (SM_Slug s) \<and> \<not> IsProtectedSkillEntry (SM_Slug s)"
proof -
  obtain seen seen' where s: "checkSkills uv (DM_Skills m) [] = Inr seen"
    and c: "checkMCP uv (DM_MCPServers m) seen = Inr seen'"
    and len: "length (DM_ManagedMemberIDs m) = length seen'"
    and fi: "find (\<lambda>i. i \<notin> set seen') (DM_ManagedMemberIDs m) = None"
    using assms unfolding membersError_def by (auto split: sum.splits if_splits option.splits)
  note s' = checkSkills_Inr [OF s distinct.simps(1) [THEN iffD2, OF TrueI]]
  note c' = checkMCP_Inr [OF c s' [THEN conjunct2, THEN conjunct1]]
  have d: "distinct seen'" using c' by blast
  have eq: "seen' = rev (memberIDs m)"
    using s' [THEN conjunct1] c' [THEN conjunct1] by (simp add: memberIDs_def)
  from d show "distinct (memberIDs m)" unfolding eq by simp
  from len show "length (DM_ManagedMemberIDs m) = length (memberIDs m)" by (simp add: eq)
  from fi show "set (DM_ManagedMemberIDs m) \<subseteq> set (memberIDs m)"
    by (auto simp: eq find_None_iff)
  from s' show "\<forall>s \<in> set (DM_Skills m). slugPattern (SM_Slug s) \<and> \<not> IsProtectedSkillEntry (SM_Slug s)"
    by blast
qed

lemma Manifest_Validate_None:
  assumes "Manifest_Validate cd write m = None"
  shows "governanceError cd (Normalize m) = None"
    and "Target_Validate (uuidValid cd) write (DM_Target m) = None"
    and "placementError (Normalize m) = None" and "membersError (uuidValid cd) (Normalize m) = None"
  using assms by (auto simp: Manifest_Validate_def Let_def split: option.splits)

lemma memberIDs_Normalize: "mset (memberIDs (Normalize m)) = mset (memberIDs m)"
  by (simp add: memberIDs_def Normalize_def)

lemma set_memberIDs_Normalize [simp]: "set (memberIDs (Normalize m)) = set (memberIDs m)"
  by (metis memberIDs_Normalize set_mset_mset)

section \<open>Properties\<close>

text \<open>
  C3. A manifest that \<open>DesiredManifest.Validate\<close> accepts for writing goes to a writable runtime
  (never Hermes), its member ids are distinct across Skills and MCP servers, every managed id is
  one of them and there are as many managed ids as members, and no Skill occupies a protected
  entry of the runtime's Skill directory.
\<close>

theorem manifest_members_sound:
  assumes "Manifest_Validate cd True m = None"
  shows "writableRuntime (T_Runtime (DM_Target m)) \<and> distinct (memberIDs m)
    \<and> set (DM_ManagedMemberIDs m) \<subseteq> set (memberIDs m)
    \<and> length (DM_ManagedMemberIDs m) = length (memberIDs m)
    \<and> (\<forall>s \<in> set (DM_Skills m). slugPattern (SM_Slug s) \<and> \<not> IsProtectedSkillEntry (SM_Slug s))"
proof -
  note v = Manifest_Validate_None [OF assms]
  note mem = membersError_None [OF v(4)]
  have "distinct (memberIDs m)"
    using mem(1) memberIDs_Normalize mset_eq_imp_distinct_iff by blast
  moreover have "length (memberIDs (Normalize m)) = length (memberIDs m)"
    using memberIDs_Normalize mset_eq_length by blast
  moreover have "set (DM_ManagedMemberIDs (Normalize m)) = set (DM_ManagedMemberIDs m)"
    "length (DM_ManagedMemberIDs (Normalize m)) = length (DM_ManagedMemberIDs m)"
    "set (DM_Skills (Normalize m)) = set (DM_Skills m)"
    by (simp_all add: Normalize_def)
  ultimately show ?thesis
    using mem(2-4) Target_Validate_runtime [OF v(2)] by simp
qed

text \<open>
  The canonical bytes and hash of a manifest do not depend on the order in which its
  Skills, MCP servers and managed ids are listed.
\<close>

theorem canonical_order_independent:
  assumes "mset ss = mset (DM_Skills m)" and "mset cs = mset (DM_MCPServers m)"
    and "mset ids = mset (DM_ManagedMemberIDs m)" and "Manifest_Validate cd True m = None"
  shows "Manifest_Canonical cd mm (m\<lparr>DM_Skills := ss, DM_MCPServers := cs, DM_ManagedMemberIDs := ids\<rparr>)
    = Manifest_Canonical cd mm m"
proof -
  have d: "distinct (memberIDs m)"
    using membersError_None(1) [OF Manifest_Validate_None(4) [OF assms(4)]]
      memberIDs_Normalize mset_eq_imp_distinct_iff by blast
  have "distinct (map SM_MemberID ss)" and "distinct (map MM_MemberID cs)"
    using d assms(1,2) mset_eq_imp_distinct_iff [of "map SM_MemberID ss" "map SM_MemberID (DM_Skills m)"]
      mset_eq_imp_distinct_iff [of "map MM_MemberID cs" "map MM_MemberID (DM_MCPServers m)"]
    by (simp_all add: memberIDs_def)
  then have "sort_key SM_MemberID ss = sort_key SM_MemberID (DM_Skills m)"
    and "sort_key MM_MemberID cs = sort_key MM_MemberID (DM_MCPServers m)"
    using assms(1,2) by (simp_all add: sort_key_perm_unique)
  moreover have "sort ids = sort (DM_ManagedMemberIDs m)"
    using assms(3) by (metis mset_sort properties_for_sort sorted_sort)
  ultimately have "Normalize (m\<lparr>DM_Skills := ss, DM_MCPServers := cs, DM_ManagedMemberIDs := ids\<rparr>) = Normalize m"
    by (simp add: Normalize_def)
  then show ?thesis by (simp add: Manifest_Canonical_def)
qed

text \<open>Two Skills on a local Claude target, for the witnesses.\<close>

definition exampleTarget :: Target where
  "exampleTarget = \<lparr>T_ID = ''t1'', T_NodeID = ''n1'', T_NodeKind = ''local'', T_SaltMinionID = '''',
     T_Runtime = ''claude'', T_ManagedUsername = ''dev'', T_ManagedHome = ''/home/dev''\<rparr>"

definition exampleSkill :: "string \<Rightarrow> string \<Rightarrow> SkillMember" where
  "exampleSkill i slug = \<lparr>SM_MemberID = i, SM_SkillID = ''k'', SM_VersionID = ''v'', SM_Slug = slug,
     SM_SHA256 = exampleHash, SM_ContentHash = exampleHash\<rparr>"

definition exampleManifest :: "string list \<Rightarrow> DesiredManifest" where
  "exampleManifest ids = \<lparr>DM_SchemaVersion = 0, DM_Target = exampleTarget, DM_ProfileID = '''',
     DM_ProfileRevision = 3, DM_Skills = [exampleSkill ''b'' ''review'', exampleSkill ''a'' ''lint''],
     DM_MCPServers = [], DM_ManagedMemberIDs = ids, DM_RelayPort = 0, DM_RelayGovernance = None\<rparr>"

definition exampleCodec :: codec where
  "exampleCodec = \<lparr>uuidValid = (\<lambda>s. s \<noteq> []), sha256 = (\<lambda>s. take 32 (s @ replicate 32 CHR 0x00)),
     decodeRouting = (\<lambda>_. Inr exampleBundle), marshalRouting = (\<lambda>r. Inr (RB_Mode r))\<rparr>"

lemma exampleManifest_valid: "Manifest_Validate exampleCodec True (exampleManifest [''b'', ''a'']) = None"
  by code_simp

theorem manifest_members_sound_witness:
  "Manifest_Validate exampleCodec True (exampleManifest [''b'', ''a'']) = None
   \<and> distinct (memberIDs (exampleManifest [''b'', ''a'']))"
  using manifest_members_sound [OF exampleManifest_valid] exampleManifest_valid by simp

theorem canonical_order_independent_witness:
  "Manifest_Canonical exampleCodec DM_ProfileID ((exampleManifest [''b'', ''a''])\<lparr>
      DM_Skills := [exampleSkill ''a'' ''lint'', exampleSkill ''b'' ''review''], DM_MCPServers := [],
      DM_ManagedMemberIDs := [''a'', ''b'']\<rparr>)
   = Manifest_Canonical exampleCodec DM_ProfileID (exampleManifest [''b'', ''a''])"
  using canonical_order_independent [of "[exampleSkill ''a'' ''lint'', exampleSkill ''b'' ''review'']"
      "exampleManifest [''b'', ''a'']" "[]" "[''a'', ''b'']" exampleCodec DM_ProfileID, OF _ _ _ exampleManifest_valid]
  by (simp add: exampleManifest_def)

text \<open>
  \<open>DesiredManifest.Validate\<close> compares the managed ids with the members by number and by
  membership only: a list that repeats one member and omits another is accepted, although the
  error message of the check promises an exact match.
\<close>

theorem managed_ids_may_omit_a_member:
  "Manifest_Validate exampleCodec True (exampleManifest [''a'', ''a'']) = None
   \<and> ''b'' \<in> set (memberIDs (exampleManifest [''a'', ''a'']))
   \<and> ''b'' \<notin> set (DM_ManagedMemberIDs (exampleManifest [''a'', ''a'']))"
  by code_simp

text \<open>
  The secret references of an MCP member are validated after merging the header map over
  the environment map: an invalid environment reference whose key is also a header key is not
  looked at.
\<close>

theorem env_ref_hidden_by_header_ref:
  assumes "transportError s = None" and "validID uv (MM_MemberID s)" and "validID uv (MM_ServerID s)"
    and "1 \<le> MM_Revision s" and "slugPattern (MM_Name s)" and "IsSHA256 (MM_ContentHash s)"
    and "TrimSpace k \<noteq> ''''" and "uv good"
  shows "checkMCP uv [s\<lparr>MM_EnvRefs := [(k, bad)], MM_HeaderRefs := [(k, good)]\<rparr>] [] = Inr [MM_MemberID s]"
proof -
  have "transportError (s\<lparr>MM_EnvRefs := [(k, bad)], MM_HeaderRefs := [(k, good)]\<rparr>) = transportError s"
    by (simp add: transportError_def)
  then show ?thesis using assms by (simp add: mergeRefs_def)
qed

theorem env_ref_hidden_by_header_ref_witness:
  "checkMCP (\<lambda>u. u = ''uuid'') [\<lparr>MM_MemberID = ''uuid'', MM_ServerID = ''uuid'', MM_Revision = 1, MM_Name = ''git'',
      MM_Transport = ''stdio'', MM_Command = ''uvx'', MM_Args = [], MM_URL = '''',
      MM_EnvRefs = [(''TOKEN'', ''not-a-uuid'')], MM_HeaderRefs = [(''TOKEN'', ''uuid'')],
      MM_ContentHash = exampleHash\<rparr>] [] = Inr [''uuid'']"
proof -
  let ?s = "\<lparr>MM_MemberID = ''uuid'', MM_ServerID = ''uuid'', MM_Revision = 1, MM_Name = ''git'',
      MM_Transport = ''stdio'', MM_Command = ''uvx'', MM_Args = [], MM_URL = '''',
      MM_EnvRefs = [], MM_HeaderRefs = [], MM_ContentHash = exampleHash\<rparr>"
  have "transportError ?s = None" and "slugPattern ''git''" and "IsSHA256 exampleHash"
    and "TrimSpace ''TOKEN'' \<noteq> ''''" and "TrimSpace ''uuid'' = ''uuid''"
    by code_simp+
  then show ?thesis
    using env_ref_hidden_by_header_ref [of ?s "\<lambda>u. u = ''uuid''" "''TOKEN''" "''uuid''" "''not-a-uuid''"]
    by (simp add: validID_def)
qed

end
