(* ===== verification/Bridge_Journal.thy ===== *)
theory Bridge_Journal
  imports Bridge_Auth Desired_Manifest
begin

text \<open>
  The Bridge journal (\<open>src/internal/bridge/journal.go\<close>, \<open>journal_helpers.go\<close>) with the protocol
  values it stores (\<open>src/internal/bridgeprotocol/types.go\<close>). The bbolt file is a record of its five
  buckets; every exported method is one definition. A method that runs in \<open>db.Update\<close> returns
  \<open>Inl\<close> with the error and leaves the buckets as they were, as bbolt rolls back.

  What \<open>json.Marshal\<close> writes is a \<open>json\<close> value. Two facts of encoding/json are parameters of the
  definitions that need them: \<open>em\<close>, the encoding of a desired manifest, and \<open>jlen\<close>, the length in
  bytes of an encoded value.
\<close>

section \<open>What the journal stores\<close>

record RelayMemberStatus =
  RM_MemberID :: string
  RM_Name :: string
  RM_Status :: string
  RM_CapabilityKinds :: "string list"
  RM_Tools :: int
  RM_Resources :: int
  RM_ResourceTemplates :: int
  RM_Prompts :: int
  RM_CheckedAt :: time
  RM_ErrorCode :: string
  RM_ErrorReason :: message

record RelayStatus =
  RS_State :: string
  RS_Healthy :: bool
  RS_IntentionalPaused :: bool
  RS_Endpoint :: string
  RS_FixedPort :: int
  RS_SystemdEnabled :: bool
  RS_Version :: string
  RS_Contract :: string
  RS_MemberStatuses :: "RelayMemberStatus list"
  RS_ErrorCode :: string
  RS_ErrorReason :: message

record TargetResult =
  TR_Status :: string
  TR_Health :: string
  TR_TargetRevision :: string
  TR_BackupID :: string
  TR_Repaired :: bool
  TR_Manifest :: "DesiredManifest option"
  TR_Relay :: "RelayStatus option"
  TR_Details :: "(string \<times> json) list"
  TR_Error :: "api_error option"

text \<open>\<open>TargetResult{Status: s}\<close>: the other fields are zero.\<close>

definition zeroResult :: TargetResult where
  "zeroResult = \<lparr>TR_Status = '''', TR_Health = '''', TR_TargetRevision = '''', TR_BackupID = '''',
     TR_Repaired = False, TR_Manifest = None, TR_Relay = None, TR_Details = [], TR_Error = None\<rparr>"

record OperationTarget =
  OT_TargetID :: string
  OT_Status :: string
  OT_SaltJID :: string
  OT_Result :: "TargetResult option"
  OT_Error :: "api_error option"

record Operation =
  OP_ID :: string
  OP_Kind :: string
  OP_Status :: string
  OP_Targets :: "OperationTarget list"
  OP_CreatedAt :: time
  OP_UpdatedAt :: time

record Backup =
  BK_ID :: string
  BK_TargetID :: string
  BK_NodeKind :: string
  BK_SaltMinionID :: string
  BK_Runtime :: string
  BK_SourceOperationID :: string
  BK_Revision :: string
  BK_CreatedAt :: time

text \<open>\<open>Status\<close> 0 marks a request whose handler has not answered yet; its response is null.\<close>

record idempotencyRecord =
  IR_RequestHash :: string
  IR_OperationID :: string
  IR_Status :: int
  IR_Response :: json
  IR_CreatedAt :: time

record saltMemberFingerprint =
  SF_Kind :: string
  SF_Name :: string
  SF_ContentHash :: string

record saltRecoveryRecord =
  SR_OperationID :: string
  SR_Function :: string
  SR_Target :: Target
  SR_SaltJID :: string
  SR_LocalBundle :: string
  SR_RemoteBundle :: string
  SR_ExpectedMembers :: "saltMemberFingerprint list"
  SR_CanVerifySnapshot :: bool
  SR_PreserveUnmanaged :: bool
  SR_CreatedAt :: time

record Journal =
  J_nonces :: "int bucket"
  J_idempotency :: "idempotencyRecord bucket"
  J_operations :: "Operation bucket"
  J_saltRecovery :: "saltRecoveryRecord bucket"
  J_backups :: "Backup bucket"

text \<open>\<open>OpenJournal\<close> on a new file: the five buckets exist and are empty.\<close>

definition emptyJournal :: Journal where
  "emptyJournal = \<lparr>J_nonces = [], J_idempotency = [], J_operations = [], J_saltRecovery = [], J_backups = []\<rparr>"

definition journal_ok :: "Journal \<Rightarrow> bool" where
  "journal_ok j = (bucket_ok (J_nonces j) \<and> bucket_ok (J_idempotency j) \<and> bucket_ok (J_operations j)
     \<and> bucket_ok (J_saltRecovery j) \<and> bucket_ok (J_backups j))"

text \<open>What \<open>json.Unmarshal\<close> returns for bytes that are not a document of the wanted type.\<close>

definition decodeError :: go_error where
  "decodeError = errorsNew ''json: cannot decode value''"

section \<open>JSON encodings\<close>

definition encodeAPIError :: "api_error \<Rightarrow> json" where
  "encodeAPIError e = JObj ([(''code'', JStr (apiCode e)), (''message'', JMsg (apiMessage e))]
     @ omitFalse ''retryable'' (apiRetryable e)
     @ (if apiDetails e = [] then [] else [(''details'', JObj (apiDetails e))]))"

definition omitEmptyMsg :: "string \<Rightarrow> message \<Rightarrow> (string \<times> json) list" where
  "omitEmptyMsg key value = (if value = Lit [] then [] else [(key, JMsg value)])"

definition encodeRelayMember :: "RelayMemberStatus \<Rightarrow> json" where
  "encodeRelayMember m = JObj ([(''memberId'', JStr (RM_MemberID m)), (''name'', JStr (RM_Name m)),
     (''status'', JStr (RM_Status m)), (''capabilityKinds'', JArr (map JStr (RM_CapabilityKinds m))),
     (''capabilities'', JObj [(''tools'', JNum (RM_Tools m)), (''resources'', JNum (RM_Resources m)),
        (''resourceTemplates'', JNum (RM_ResourceTemplates m)), (''prompts'', JNum (RM_Prompts m))]),
     (''checkedAt'', JTime (RM_CheckedAt m))]
     @ omitEmpty ''errorCode'' (RM_ErrorCode m) @ omitEmptyMsg ''errorReason'' (RM_ErrorReason m))"

definition encodeRelayStatus :: "RelayStatus \<Rightarrow> json" where
  "encodeRelayStatus s = JObj ([(''state'', JStr (RS_State s)), (''healthy'', JBool (RS_Healthy s)),
     (''intentionalPaused'', JBool (RS_IntentionalPaused s)), (''endpoint'', JStr (RS_Endpoint s)),
     (''fixedPort'', JNum (RS_FixedPort s)), (''systemdEnabled'', JBool (RS_SystemdEnabled s))]
     @ omitEmpty ''version'' (RS_Version s) @ omitEmpty ''contract'' (RS_Contract s)
     @ (if RS_MemberStatuses s = [] then []
        else [(''memberStatuses'', JArr (map encodeRelayMember (RS_MemberStatuses s)))])
     @ omitEmpty ''errorCode'' (RS_ErrorCode s) @ omitEmptyMsg ''errorReason'' (RS_ErrorReason s))"

definition encodeTargetResult :: "(DesiredManifest \<Rightarrow> json) \<Rightarrow> TargetResult \<Rightarrow> json" where
  "encodeTargetResult em r = JObj ([(''status'', JStr (TR_Status r)), (''health'', JStr (TR_Health r))]
     @ omitEmpty ''targetRevision'' (TR_TargetRevision r) @ omitEmpty ''backupId'' (TR_BackupID r)
     @ omitFalse ''repaired'' (TR_Repaired r)
     @ omitNil ''manifest'' (map_option em (TR_Manifest r))
     @ omitNil ''relay'' (map_option encodeRelayStatus (TR_Relay r))
     @ (if TR_Details r = [] then [] else [(''details'', JObj (TR_Details r))])
     @ omitNil ''error'' (map_option encodeAPIError (TR_Error r)))"

definition encodeOperationTarget :: "(DesiredManifest \<Rightarrow> json) \<Rightarrow> OperationTarget \<Rightarrow> json" where
  "encodeOperationTarget em t = JObj ([(''targetId'', JStr (OT_TargetID t)), (''status'', JStr (OT_Status t))]
     @ omitEmpty ''saltJid'' (OT_SaltJID t)
     @ omitNil ''result'' (map_option (encodeTargetResult em) (OT_Result t))
     @ omitNil ''error'' (map_option encodeAPIError (OT_Error t)))"

definition encodeOperation :: "(DesiredManifest \<Rightarrow> json) \<Rightarrow> Operation \<Rightarrow> json" where
  "encodeOperation em p = JObj [(''id'', JStr (OP_ID p)), (''kind'', JStr (OP_Kind p)),
     (''status'', JStr (OP_Status p)), (''targets'', JArr (map (encodeOperationTarget em) (OP_Targets p))),
     (''createdAt'', JTime (OP_CreatedAt p)), (''updatedAt'', JTime (OP_UpdatedAt p))]"

definition encodeTarget :: "Target \<Rightarrow> json" where
  "encodeTarget t = JObj ([(''id'', JStr (T_ID t)), (''nodeId'', JStr (T_NodeID t)), (''nodeKind'', JStr (T_NodeKind t))]
     @ omitEmpty ''saltMinionId'' (T_SaltMinionID t)
     @ [(''runtime'', JStr (T_Runtime t)), (''managedUsername'', JStr (T_ManagedUsername t))]
     @ omitEmpty ''managedHome'' (T_ManagedHome t))"

definition encodeFingerprint :: "saltMemberFingerprint \<Rightarrow> json" where
  "encodeFingerprint f = JObj [(''kind'', JStr (SF_Kind f)), (''name'', JStr (SF_Name f)),
     (''contentHash'', JStr (SF_ContentHash f))]"

definition encodeRecovery :: "saltRecoveryRecord \<Rightarrow> json" where
  "encodeRecovery r = JObj [(''operationId'', JStr (SR_OperationID r)), (''function'', JStr (SR_Function r)),
     (''target'', encodeTarget (SR_Target r)), (''saltJid'', JStr (SR_SaltJID r)),
     (''localBundle'', JStr (SR_LocalBundle r)), (''remoteBundle'', JStr (SR_RemoteBundle r)),
     (''expectedMembers'', JArr (map encodeFingerprint (SR_ExpectedMembers r))),
     (''canVerifySnapshot'', JBool (SR_CanVerifySnapshot r)),
     (''preserveUnmanaged'', JBool (SR_PreserveUnmanaged r)), (''createdAt'', JTime (SR_CreatedAt r))]"

section \<open>What may not be stored\<close>

definition stringsLower :: "string \<Rightarrow> string" where
  "stringsLower value = ToLower (TrimSpace value)"

definition sensitiveKeys :: "string list" where
  "sensitiveKeys = [''secretvalues'', ''archive'', ''content'', ''manifest'', ''rawoutput'', ''plaintext'']"

fun hasSensitiveValue :: "json \<Rightarrow> bool" where
  "hasSensitiveValue (JObj typed) =
     list_ex (\<lambda>(key, child). stringsLower key \<in> set sensitiveKeys \<or> hasSensitiveValue child) typed"
| "hasSensitiveValue (JArr typed) = list_ex hasSensitiveValue typed"
| "hasSensitiveValue _ = False"

text \<open>
  \<open>BoundedAPIError\<close> keeps the class of an error and drops its text: what is kept of a target result
  and of a relay status is only what has no free text of a runtime in it.
\<close>

definition boundedReason :: "string \<Rightarrow> api_error" where
  "boundedReason code = BoundedAPIError (APIErr (apiError code '''')) ErrRelayUnhealthy"

definition journalSafeMember :: "RelayMemberStatus \<Rightarrow> RelayMemberStatus" where
  "journalSafeMember m =
     (if RM_ErrorCode m \<noteq> '''' then
        m\<lparr>RM_ErrorCode := apiCode (boundedReason (RM_ErrorCode m)),
          RM_ErrorReason := apiMessage (boundedReason (RM_ErrorCode m))\<rparr>
      else m)"

definition journalSafeRelayStatus :: "RelayStatus option \<Rightarrow> RelayStatus option" where
  "journalSafeRelayStatus status = (case status of None \<Rightarrow> None
     | Some s \<Rightarrow>
        (let safe = (if RS_ErrorCode s \<noteq> '''' then
               s\<lparr>RS_ErrorCode := apiCode (boundedReason (RS_ErrorCode s)),
                 RS_ErrorReason := apiMessage (boundedReason (RS_ErrorCode s))\<rparr>
             else s)
         in Some (safe\<lparr>RS_MemberStatuses := map journalSafeMember (RS_MemberStatuses s)\<rparr>)))"

definition journalSafeTargetResult :: "TargetResult \<Rightarrow> TargetResult" where
  "journalSafeTargetResult result =
     zeroResult\<lparr>TR_Status := TR_Status result, TR_Health := TR_Health result,
       TR_TargetRevision := TR_TargetRevision result, TR_BackupID := TR_BackupID result,
       TR_Repaired := TR_Repaired result, TR_Relay := journalSafeRelayStatus (TR_Relay result),
       TR_Error := map_option (\<lambda>e. BoundedAPIError (APIErr e) ErrInvalidRequest) (TR_Error result)\<rparr>"

section \<open>Idempotency records\<close>

definition conflictError :: go_error where
  "conflictError = APIErr (apiError ErrIdempotencyConflict ''Idempotency key was reused with a different request'')"

definition maxResponseBytes :: int where
  "maxResponseBytes = 2 * 2 ^ 20"

text \<open>\<open>None\<close> in the result: no record of the key.\<close>

definition IdempotencyGet :: "string \<Rightarrow> string \<Rightarrow> Journal \<Rightarrow> go_error + (int \<times> json) option" where
  "IdempotencyGet key hash j =
     (case bget (J_idempotency j) key of
        None \<Rightarrow> Inr None
      | Some Corrupt \<Rightarrow> Inl decodeError
      | Some (Valid record) \<Rightarrow>
          if IR_RequestHash record \<noteq> hash then Inl conflictError
          else Inr (Some (IR_Status record, IR_Response record)))"

definition pendingRecord :: "time \<Rightarrow> string \<Rightarrow> string \<Rightarrow> idempotencyRecord" where
  "pendingRecord now hash operationID =
     \<lparr>IR_RequestHash = hash, IR_OperationID = operationID, IR_Status = 0, IR_Response = JNull, IR_CreatedAt = now\<rparr>"

text \<open>The result is the record and whether it was there already, with the journal after the call.\<close>

definition IdempotencyBegin ::
    "time \<Rightarrow> string \<Rightarrow> string \<Rightarrow> string \<Rightarrow> Journal \<Rightarrow> (go_error + idempotencyRecord \<times> bool) \<times> Journal" where
  "IdempotencyBegin now key hash operationID j =
     (case bget (J_idempotency j) key of
        Some Corrupt \<Rightarrow> (Inl decodeError, j)
      | Some (Valid record) \<Rightarrow>
          (if IR_RequestHash record \<noteq> hash then Inl conflictError else Inr (record, True), j)
      | None \<Rightarrow>
          (let record = pendingRecord now hash operationID
           in case boltPut key (Valid record) (J_idempotency j) of
                Inl e \<Rightarrow> (Inl e, j)
              | Inr b \<Rightarrow> (Inr (record, False), j\<lparr>J_idempotency := b\<rparr>)))"

definition answeredRecord :: "time \<Rightarrow> string \<Rightarrow> int \<Rightarrow> json \<Rightarrow> idempotencyRecord" where
  "answeredRecord now hash status response =
     \<lparr>IR_RequestHash = hash, IR_OperationID = '''', IR_Status = status, IR_Response = response, IR_CreatedAt = now\<rparr>"

definition IdempotencyPut ::
    "(json \<Rightarrow> int) \<Rightarrow> time \<Rightarrow> string \<Rightarrow> string \<Rightarrow> int \<Rightarrow> json \<Rightarrow> Journal \<Rightarrow> go_error + Journal" where
  "IdempotencyPut jlen now key hash status response j =
     (if jlen response > maxResponseBytes then
        Inl (errorsNew ''idempotency response exceeds safe journal limit'')
      else if hasSensitiveValue response then
        Inl (errorsNew ''refusing to persist sensitive response in Bridge journal'')
      else case boltPut key (Valid (answeredRecord now hash status response)) (J_idempotency j) of
        Inl e \<Rightarrow> Inl e
      | Inr b \<Rightarrow> Inr (j\<lparr>J_idempotency := b\<rparr>))"

definition requestHash :: "(string \<Rightarrow> string) \<Rightarrow> string \<Rightarrow> string \<Rightarrow> string \<Rightarrow> string" where
  "requestHash sha meth path body = hexEncode (sha (meth @ newline @ path @ newline @ body))"

section \<open>Operations and Salt recovery records\<close>

definition PutOperation :: "(DesiredManifest \<Rightarrow> json) \<Rightarrow> Operation \<Rightarrow> Journal \<Rightarrow> go_error + Journal" where
  "PutOperation em p j =
     (if hasSensitiveValue (encodeOperation em p) then
        Inl (errorsNew ''refusing to persist sensitive operation data'')
      else case boltPut (OP_ID p) (Valid p) (J_operations j) of
        Inl e \<Rightarrow> Inl e
      | Inr b \<Rightarrow> Inr (j\<lparr>J_operations := b\<rparr>))"

definition PutRunningSaltOperation ::
    "(DesiredManifest \<Rightarrow> json) \<Rightarrow> Operation \<Rightarrow> saltRecoveryRecord \<Rightarrow> Journal \<Rightarrow> go_error + Journal" where
  "PutRunningSaltOperation em p recovery j =
     (if OP_ID p = '''' \<or> SR_OperationID recovery \<noteq> OP_ID p \<or> SR_SaltJID recovery = ''''
         \<or> T_ManagedHome (SR_Target recovery) \<noteq> '''' then
        Inl (errorsNew ''running Salt operation recovery metadata is incomplete'')
      else if hasSensitiveValue (encodeOperation em p) \<or> hasSensitiveValue (encodeRecovery recovery) then
        Inl (errorsNew ''refusing to persist sensitive Salt recovery data'')
      else case boltPut (OP_ID p) (Valid p) (J_operations j) of
        Inl e \<Rightarrow> Inl e
      | Inr ops \<Rightarrow> (case boltPut (OP_ID p) (Valid recovery) (J_saltRecovery j) of
          Inl e \<Rightarrow> Inl e
        | Inr rec \<Rightarrow> Inr (j\<lparr>J_operations := ops, J_saltRecovery := rec\<rparr>)))"

fun decodeAll :: "(string \<times> 'v entry) list \<Rightarrow> go_error + 'v list" where
  "decodeAll [] = Inr []"
| "decodeAll ((_, Corrupt) # es) = Inl decodeError"
| "decodeAll ((_, Valid v) # es) =
     (case decodeAll es of Inl e \<Rightarrow> Inl e | Inr vs \<Rightarrow> Inr (v # vs))"

definition SaltRecoveries :: "Journal \<Rightarrow> go_error + saltRecoveryRecord list" where
  "SaltRecoveries j = decodeAll (J_saltRecovery j)"

text \<open>bbolt's \<open>Delete\<close> of an absent key, the empty one included, is not an error.\<close>

definition DeleteSaltRecovery :: "string \<Rightarrow> Journal \<Rightarrow> Journal" where
  "DeleteSaltRecovery operationID j = j\<lparr>J_saltRecovery := bdelete operationID (J_saltRecovery j)\<rparr>"

definition Journal_Operation :: "string \<Rightarrow> Journal \<Rightarrow> go_error + Operation" where
  "Journal_Operation operationID j =
     (case bget (J_operations j) operationID of
        None \<Rightarrow> Inl (errorsNew ''operation not found'')
      | Some Corrupt \<Rightarrow> Inl decodeError
      | Some (Valid p) \<Rightarrow> Inr p)"

section \<open>Recovery after a restart\<close>

definition lostResultError :: api_error where
  "lostResultError = (apiError ErrSaltJobMissing ''Bridge restarted before the target result was observed'')
     \<lparr>apiRetryable := True\<rparr>"

definition recoverTarget :: "OperationTarget \<Rightarrow> OperationTarget" where
  "recoverTarget t =
     (if OT_Status t = OperationRunning then
        t\<lparr>OT_Status := OperationFailed, OT_Error := Some lostResultError,
          OT_Result := Some (zeroResult\<lparr>TR_Status := OperationFailed, TR_Health := HealthBlocked,
            TR_Error := Some lostResultError\<rparr>)\<rparr>
      else t)"

text \<open>The operation that replaces the stored one; \<open>None\<close> when nothing has changed.\<close>

definition recoverOperation :: "time \<Rightarrow> Operation \<Rightarrow> Operation option" where
  "recoverOperation now p =
     (if list_ex (\<lambda>t. OT_Status t = OperationRunning) (OP_Targets p) \<or> OP_Status p = OperationRunning then
        Some (p\<lparr>OP_Targets := map recoverTarget (OP_Targets p),
          OP_Status := (if OP_Status p = OperationRunning then OperationFailed else OP_Status p),
          OP_UpdatedAt := now\<rparr>)
      else None)"

text \<open>
  \<open>bucket.ForEach\<close> over the entries the bucket has when the transaction starts; the callback writes
  only the key it was called with.
\<close>

fun recoverLoop :: "time \<Rightarrow> (string \<times> Operation entry) list \<Rightarrow> Journal \<Rightarrow> go_error + Journal" where
  "recoverLoop now [] j = Inr j"
| "recoverLoop now ((key, Corrupt) # es) j = Inl (Wrapped ''decode Bridge operation %q: %w'' decodeError)"
| "recoverLoop now ((key, Valid p) # es) j =
     (case recoverOperation now p of
        None \<Rightarrow> recoverLoop now es j
      | Some q \<Rightarrow>
          (case boltPut key (Valid q) (J_operations j) of
             Inl e \<Rightarrow> Inl e
           | Inr b \<Rightarrow> recoverLoop now es
               (j\<lparr>J_saltRecovery := bdelete key (J_saltRecovery j), J_operations := b\<rparr>)))"

definition Journal_RecoverOperations :: "time \<Rightarrow> Journal \<Rightarrow> go_error + Journal" where
  "Journal_RecoverOperations now j = recoverLoop now (J_operations j) j"

text \<open>The operation has the one result that answers a pending request.\<close>

definition answerable :: "Operation \<Rightarrow> bool" where
  "answerable p = (IsTerminalOperationStatus (OP_Status p) \<and> length (OP_Targets p) = 1
     \<and> OT_Result (hd (OP_Targets p)) \<noteq> None)"

definition keepPending :: "Operation bucket \<Rightarrow> idempotencyRecord \<Rightarrow> bool" where
  "keepPending ops record =
     (IR_Status record \<noteq> 0 \<or> (IR_OperationID record \<noteq> '''' \<and>
        (case bget ops (IR_OperationID record) of Some (Valid p) \<Rightarrow> answerable p | _ \<Rightarrow> False)))"

text \<open>\<open>visit\<close> says which keys the cursor reaches, as in \<open>pruneNonces\<close>.\<close>

definition RecoverPendingIdempotency :: "(string \<Rightarrow> bool) \<Rightarrow> Journal \<Rightarrow> go_error + Journal" where
  "RecoverPendingIdempotency visit j =
     (if list_ex (\<lambda>(key, v). visit key \<and> (case v of Corrupt \<Rightarrow> True | Valid _ \<Rightarrow> False)) (J_idempotency j) then
        Inl decodeError
      else Inr (j\<lparr>J_idempotency := filter (\<lambda>(key, v). \<not> (visit key \<and>
          (case v of Valid record \<Rightarrow> \<not> keepPending (J_operations j) record | Corrupt \<Rightarrow> False))) (J_idempotency j)\<rparr>))"

section \<open>The backup catalog\<close>

definition PutBackup :: "Backup \<Rightarrow> Journal \<Rightarrow> go_error + Journal" where
  "PutBackup b j = (case boltPut (BK_ID b) (Valid b) (J_backups j) of
     Inl e \<Rightarrow> Inl e | Inr bs \<Rightarrow> Inr (j\<lparr>J_backups := bs\<rparr>))"

text \<open>
  The order of \<open>sortBackups\<close>: newest first, and at the same instant the greater ID first. With the
  IDs distinct it is total, so the unstable \<open>sort.Slice\<close> has one result, that of \<open>sort_key\<close>.
\<close>

datatype backupKey = BackupKey (keyAt: time) (keyID: string)

instantiation backupKey :: linorder
begin

definition less_eq_backupKey :: "backupKey \<Rightarrow> backupKey \<Rightarrow> bool" where
  "less_eq_backupKey a b = (keyAt b < keyAt a \<or> keyAt a = keyAt b \<and> keyID b \<le> keyID a)"

definition less_backupKey :: "backupKey \<Rightarrow> backupKey \<Rightarrow> bool" where
  "less_backupKey a b = (keyAt b < keyAt a \<or> keyAt a = keyAt b \<and> keyID b < keyID a)"

instance
proof
  fix x y z :: backupKey
  show "x < y \<longleftrightarrow> x \<le> y \<and> \<not> y \<le> x"
    by (auto simp: less_eq_backupKey_def less_backupKey_def)
  show "x \<le> x" by (simp add: less_eq_backupKey_def)
  show "x \<le> z" if "x \<le> y" "y \<le> z"
    using that by (auto simp: less_eq_backupKey_def)
  show "x = y" if "x \<le> y" "y \<le> x"
    using that by (cases x; cases y) (auto simp: less_eq_backupKey_def)
  show "x \<le> y \<or> y \<le> x" by (auto simp: less_eq_backupKey_def)
qed

end

definition backupKeyOf :: "Backup \<Rightarrow> backupKey" where
  "backupKeyOf b = BackupKey (BK_CreatedAt b) (BK_ID b)"

definition sortBackups :: "Backup list \<Rightarrow> Backup list" where
  "sortBackups items = sort_key backupKeyOf items"

definition Backups :: "string \<Rightarrow> Journal \<Rightarrow> go_error + Backup list" where
  "Backups targetID j =
     (case decodeAll (J_backups j) of
        Inl e \<Rightarrow> Inl e
      | Inr bs \<Rightarrow> Inr (sortBackups (filter (\<lambda>b. targetID = '''' \<or> BK_TargetID b = targetID) bs)))"

fun expiredLoop :: "time \<Rightarrow> int \<Rightarrow> (string \<Rightarrow> int) \<Rightarrow> Backup list \<Rightarrow> Backup list" where
  "expiredLoop cutoff maxPerTarget kept [] = []"
| "expiredLoop cutoff maxPerTarget kept (b # bs) =
     (let n = kept (BK_TargetID b) + 1; rest = expiredLoop cutoff maxPerTarget (kept(BK_TargetID b := n)) bs
      in if BK_CreatedAt b < cutoff \<or> n > maxPerTarget then b # rest else rest)"

text \<open>\<open>remove\<close> acts on the world the backups lie in; the first error ends the loop.\<close>

fun removeAll :: "(Backup \<Rightarrow> 'w \<Rightarrow> go_error option \<times> 'w) \<Rightarrow> Backup list \<Rightarrow> 'w \<Rightarrow> go_error option \<times> 'w" where
  "removeAll remove [] w = (None, w)"
| "removeAll remove (b # bs) w =
     (case remove b w of (Some e, w') \<Rightarrow> (Some e, w') | (None, w') \<Rightarrow> removeAll remove bs w')"

definition GCBackups ::
    "time \<Rightarrow> int \<Rightarrow> int \<Rightarrow> (Backup \<Rightarrow> 'w \<Rightarrow> go_error option \<times> 'w) \<Rightarrow> Journal \<times> 'w
     \<Rightarrow> (go_error + string list) \<times> Journal \<times> 'w" where
  "GCBackups now maxAgeDays maxPerTarget remove = (\<lambda>(j, w).
     if maxAgeDays < 1 \<or> maxAgeDays > 3650 \<or> maxPerTarget < 1 \<or> maxPerTarget > 1000 then
       (Inl (errorsNew ''backup retention limits are invalid''), j, w)
     else case Backups '''' j of
       Inl e \<Rightarrow> (Inl e, j, w)
     | Inr items \<Rightarrow>
         (let expired = expiredLoop (now - maxAgeDays * 24 * hour) maxPerTarget (\<lambda>_. 0) items
          in case removeAll remove expired w of
               (Some e, w') \<Rightarrow> (Inl e, j, w')
             | (None, w') \<Rightarrow>
                 (Inr (map BK_ID expired),
                  j\<lparr>J_backups := fold bdelete (map BK_ID expired) (J_backups j)\<rparr>, w')))"

section \<open>Journal-safe values are never refused\<close>

definition plainKeys :: "string list" where
  "plainKeys = [''code'', ''message'', ''retryable'', ''details'', ''memberId'', ''name'', ''status'',
     ''capabilityKinds'', ''capabilities'', ''tools'', ''resources'', ''resourceTemplates'', ''prompts'',
     ''checkedAt'', ''errorCode'', ''errorReason'', ''state'', ''healthy'', ''intentionalPaused'', ''endpoint'',
     ''fixedPort'', ''systemdEnabled'', ''version'', ''contract'', ''memberStatuses'', ''health'',
     ''targetRevision'', ''backupId'', ''repaired'', ''relay'', ''error'', ''targetId'', ''saltJid'', ''result'',
     ''id'', ''kind'', ''targets'', ''createdAt'', ''updatedAt'', ''nodeId'', ''nodeKind'', ''saltMinionId'',
     ''runtime'', ''managedUsername'', ''managedHome'', ''contentHash'', ''operationId'', ''function'', ''target'',
     ''localBundle'', ''remoteBundle'', ''expectedMembers'', ''canVerifySnapshot'', ''preserveUnmanaged'']"

text \<open>An object is clean when its keys are plain and its members are clean.\<close>

definition cleanFields :: "(string \<times> json) list \<Rightarrow> bool" where
  "cleanFields fs = (\<not> hasSensitiveValue (JObj fs))"

lemma plainKeys_clean: "\<forall>k \<in> set plainKeys. stringsLower k \<notin> set sensitiveKeys"
  by code_simp

lemma cleanFields_Nil [simp]: "cleanFields []"
  by (simp add: cleanFields_def)

lemma cleanFields_append [simp]: "cleanFields (xs @ ys) = (cleanFields xs \<and> cleanFields ys)"
  by (auto simp: cleanFields_def)

lemma cleanFields_Cons:
  "k \<in> set plainKeys \<Longrightarrow> cleanFields ((k, v) # fs) = (\<not> hasSensitiveValue v \<and> cleanFields fs)"
  using plainKeys_clean by (auto simp: cleanFields_def)

lemma cleanFields_omit:
  assumes "k \<in> set plainKeys"
  shows "cleanFields (omitEmpty k s)" and "cleanFields (omitFalse k b)" and "cleanFields (omitEmptyMsg k m)"
    and "cleanFields (omitNil k v) = (\<forall>x. v = Some x \<longrightarrow> \<not> hasSensitiveValue x)"
  using assms by (auto simp: omitEmpty_def omitFalse_def omitEmptyMsg_def omitNil_def cleanFields_Cons
      split: option.splits)

lemma omitNil_None [simp]: "omitNil k None = []"
  by (simp add: omitNil_def)

lemma sensitive_JObj: "hasSensitiveValue (JObj fs) = (\<not> cleanFields fs)"
  by (simp add: cleanFields_def)

lemmas clean_simps = sensitive_JObj cleanFields_Cons cleanFields_omit plainKeys_def list_ex_iff

declare hasSensitiveValue.simps(1) [simp del]

lemma encodeAPIError_clean: "apiDetails e = [] \<Longrightarrow> \<not> hasSensitiveValue (encodeAPIError e)"
  by (simp add: encodeAPIError_def clean_simps)

lemma encodeRelayMember_clean: "\<not> hasSensitiveValue (encodeRelayMember m)"
  by (simp add: encodeRelayMember_def clean_simps)

lemma encodeRelayStatus_clean: "\<not> hasSensitiveValue (encodeRelayStatus s)"
  by (simp add: encodeRelayStatus_def clean_simps encodeRelayMember_clean)

lemma safe_result_clean: "\<not> hasSensitiveValue (encodeTargetResult em (journalSafeTargetResult r))"
  by (auto simp: encodeTargetResult_def journalSafeTargetResult_def zeroResult_def clean_simps
      encodeRelayStatus_clean encodeAPIError_clean bounded_no_details BoundedAPIError_bounded)

lemma encodeOperation_clean:
  "(\<not> hasSensitiveValue (encodeOperation em p)) =
    (\<forall>t \<in> set (OP_Targets p). \<not> hasSensitiveValue (encodeOperationTarget em t))"
  by (simp add: encodeOperation_def clean_simps)

lemma encodeOperationTarget_clean:
  "(\<not> hasSensitiveValue (encodeOperationTarget em t)) =
    ((\<forall>r. OT_Result t = Some r \<longrightarrow> \<not> hasSensitiveValue (encodeTargetResult em r))
     \<and> (\<forall>e. OT_Error t = Some e \<longrightarrow> \<not> hasSensitiveValue (encodeAPIError e)))"
  by (auto simp: encodeOperationTarget_def clean_simps)

lemma encodeRecovery_clean: "\<not> hasSensitiveValue (encodeRecovery r)"
  by (simp add: encodeRecovery_def encodeTarget_def encodeFingerprint_def clean_simps)

lemma journalSafe_idem: "journalSafeTargetResult (journalSafeTargetResult r) = journalSafeTargetResult r"
proof -
  have reason: "boundedReason (apiCode (boundedReason c)) = boundedReason c" for c
  proof -
    have "is_bounded (boundedReason c)" by (simp add: boundedReason_def BoundedAPIError_bounded)
    then obtain cl where "classOf (apiCode (boundedReason c)) = Some cl"
      and "boundedReason c = boundedError (apiCode (boundedReason c)) cl" by (auto simp: is_bounded_def)
    then show ?thesis
      by (subst boundedReason_def) (simp add: BoundedAPIError_def apiError_def split: option.split)
  qed
  have member: "journalSafeMember (journalSafeMember m) = journalSafeMember m" for m
    by (simp add: journalSafeMember_def reason)
  have relay: "journalSafeRelayStatus (journalSafeRelayStatus s) = journalSafeRelayStatus s" for s
    by (cases s) (simp_all add: journalSafeRelayStatus_def Let_def reason member comp_def)
  show ?thesis
    by (cases "TR_Error r")
      (simp_all add: journalSafeTargetResult_def zeroResult_def relay BoundedAPIError_idem BoundedAPIError_bounded)
qed

section \<open>What a restart leaves\<close>

definition settled :: "Operation \<Rightarrow> bool" where
  "settled p = (OP_Status p \<noteq> OperationRunning \<and> list_all (\<lambda>t. OT_Status t \<noteq> OperationRunning) (OP_Targets p))"

lemma recoverOperation_None: "(recoverOperation now p = None) = settled p"
  by (simp add: recoverOperation_def settled_def list_ex_iff list_all_iff)

lemma recoverTarget_settled: "OT_Status (recoverTarget t) \<noteq> OperationRunning"
  by (simp add: recoverTarget_def)

lemma recoverOperation_settled: "recoverOperation now p = Some q \<Longrightarrow> settled q"
  by (auto simp: recoverOperation_def settled_def list_all_iff recoverTarget_settled split: if_splits)

lemma boltPut_Inr: "boltPut k v b = Inr b' \<Longrightarrow> b' = bput k v b"
  by (simp add: boltPut_def split: if_splits)

text \<open>A step of the loop: nothing for a settled operation, else both buckets are written.\<close>

definition recoverInto :: "string \<Rightarrow> Operation \<Rightarrow> Journal \<Rightarrow> Journal" where
  "recoverInto key q j = j\<lparr>J_saltRecovery := bdelete key (J_saltRecovery j), J_operations := bput key (Valid q) (J_operations j)\<rparr>"

lemma recoverLoop_Valid:
  assumes "recoverLoop now ((key, Valid p) # es) j = Inr j'"
  obtains "settled p" "recoverLoop now es j = Inr j'"
  | q where "\<not> settled p" "recoverOperation now p = Some q" "recoverLoop now es (recoverInto key q j) = Inr j'"
  using assms recoverOperation_None [of now p]
  by (auto simp: recoverInto_def dest!: boltPut_Inr split: option.splits sum.splits)

lemma recoverLoop_frame:
  "recoverLoop now es j = Inr j' \<Longrightarrow> journal_ok j \<Longrightarrow>
    J_idempotency j' = J_idempotency j \<and> J_backups j' = J_backups j \<and> J_nonces j' = J_nonces j \<and> journal_ok j'
    \<and> (k \<notin> fst ` set es \<longrightarrow> bget (J_operations j') k = bget (J_operations j) k
         \<and> bget (J_saltRecovery j') k = bget (J_saltRecovery j) k)
    \<and> (bget (J_saltRecovery j) k = None \<longrightarrow> bget (J_saltRecovery j') k = None)"
proof (induction es arbitrary: j)
  case Nil
  then show ?case by simp
next
  case (Cons e es)
  obtain key v where e: "e = (key, v)" by (cases e)
  have "v \<noteq> Corrupt" using Cons.prems e by auto
  then obtain p where v: "v = Valid p" by (cases v) auto
  from Cons.prems(1) [unfolded e v] show ?case
  proof (cases rule: recoverLoop_Valid)
    case 1
    with Cons e show ?thesis by auto
  next
    case (2 q)
    have "journal_ok (recoverInto key q j)" using Cons.prems(2) by (simp add: journal_ok_def recoverInto_def)
    from Cons.IH [OF 2(3) this] show ?thesis by (auto simp: e recoverInto_def)
  qed
qed

lemma recoverLoop_entry:
  assumes "recoverLoop now es j = Inr j'" and "journal_ok j" and "distinct (map fst es)" and "(k, Valid p) \<in> set es"
  shows "if settled p then bget (J_operations j') k = bget (J_operations j) k
     else bget (J_operations j') k = Some (Valid (the (recoverOperation now p))) \<and> bget (J_saltRecovery j') k = None"
  using assms
proof (induction es arbitrary: j)
  case Nil
  then show ?case by simp
next
  case (Cons e es)
  obtain key v where e: "e = (key, v)" by (cases e)
  have "v \<noteq> Corrupt" using Cons.prems e by auto
  then obtain p' where v: "v = Valid p'" by (cases v) auto
  have d: "distinct (map fst es)" and nin: "key \<notin> fst ` set es" using Cons.prems(3) e by auto
  have mem: "k = key \<and> p = p' \<or> k \<noteq> key \<and> (k, Valid p) \<in> set es"
    using Cons.prems(4) nin e v by force
  from Cons.prems(1) [unfolded e v] show ?case
  proof (cases rule: recoverLoop_Valid)
    case 1
    show ?thesis
    proof (cases "k = key")
      case True
      then show ?thesis using mem 1 recoverLoop_frame [OF 1(2) Cons.prems(2), of key] nin by simp
    next
      case False
      then show ?thesis using mem Cons.IH [OF 1(2) Cons.prems(2) d] by blast
    qed
  next
    case (2 q)
    have ok: "journal_ok (recoverInto key q j)" using Cons.prems(2) by (simp add: journal_ok_def recoverInto_def)
    show ?thesis
    proof (cases "k = key")
      case True
      then show ?thesis using mem 2 recoverLoop_frame [OF 2(3) ok, of key] nin by (simp add: recoverInto_def)
    next
      case False
      then show ?thesis using mem Cons.IH [OF 2(3) ok d] by (simp add: recoverInto_def split: if_splits)
    qed
  qed
qed

lemma recoverLoop_total:
  assumes "\<forall>(k, v) \<in> set es. v \<noteq> Corrupt \<and> k \<noteq> '''' \<and> int (length k) \<le> boltMaxKeySize"
  shows "\<exists>j'. recoverLoop now es j = Inr j'"
  using assms
  by (induction now es j rule: recoverLoop.induct) (auto simp: boltPut_def split: option.splits)

lemma recoverLoop_not_corrupt: "recoverLoop now es j = Inr j' \<Longrightarrow> (k, Corrupt) \<notin> set es"
  by (induction now es j rule: recoverLoop.induct) (auto split: option.splits sum.splits)

text \<open>What \<open>RecoverOperations\<close> does to each entry of the journal.\<close>

lemma RecoverOperations_entries:
  assumes "journal_ok j" and "Journal_RecoverOperations now j = Inr j'"
  shows "J_idempotency j' = J_idempotency j" and "J_backups j' = J_backups j" and "journal_ok j'"
    and "bget (J_operations j) k = Some (Valid p) \<Longrightarrow>
       if settled p then bget (J_operations j') k = Some (Valid p)
       else bget (J_operations j') k = Some (Valid (the (recoverOperation now p))) \<and> bget (J_saltRecovery j') k = None"
    and "bget (J_operations j') k = Some (Valid q) \<Longrightarrow>
       \<exists>p. bget (J_operations j) k = Some (Valid p) \<and> q = (if settled p then p else the (recoverOperation now p))"
proof -
  have r: "recoverLoop now (J_operations j) j = Inr j'" using assms(2) by (simp add: Journal_RecoverOperations_def)
  have b: "bucket_ok (J_operations j)" using assms(1) by (simp add: journal_ok_def)
  then have d: "distinct (map fst (J_operations j))" by (simp add: bucket_ok_def)
  note fr = recoverLoop_frame [OF r assms(1)]
  show "J_idempotency j' = J_idempotency j" and "J_backups j' = J_backups j" and "journal_ok j'" using fr by blast+
  have ent: "if settled p then bget (J_operations j') k = Some (Valid p)
       else bget (J_operations j') k = Some (Valid (the (recoverOperation now p))) \<and> bget (J_saltRecovery j') k = None"
    if "bget (J_operations j) k = Some (Valid p)" for p
    using recoverLoop_entry [OF r assms(1) d bget_in_set [OF that]] that by simp
  then show "bget (J_operations j) k = Some (Valid p) \<Longrightarrow>
       if settled p then bget (J_operations j') k = Some (Valid p)
       else bget (J_operations j') k = Some (Valid (the (recoverOperation now p))) \<and> bget (J_saltRecovery j') k = None" .
  assume q: "bget (J_operations j') k = Some (Valid q)"
  show "\<exists>p. bget (J_operations j) k = Some (Valid p) \<and> q = (if settled p then p else the (recoverOperation now p))"
  proof (cases "bget (J_operations j) k")
    case None
    then have "k \<notin> fst ` set (J_operations j)" by (simp add: bget_def map_of_eq_None_iff)
    then show ?thesis using fr [of k] q None by simp
  next
    case (Some v)
    have "v \<noteq> Corrupt" using recoverLoop_not_corrupt [OF r] bget_in_set [OF Some] by blast
    then obtain p where "v = Valid p" by (cases v) auto
    then show ?thesis using ent [of p] Some q by (auto split: if_splits)
  qed
qed

lemma RecoverOperations_settled:
  assumes "journal_ok j" and "Journal_RecoverOperations now j = Inr j'" and "bget (J_operations j') k = Some (Valid q)"
  shows "settled q"
proof -
  obtain p where "q = (if settled p then p else the (recoverOperation now p))"
    using RecoverOperations_entries(5) [OF assms] by blast
  then show ?thesis
    using recoverOperation_None [of now p] recoverOperation_settled [of now p] by (cases "settled p") auto
qed

text \<open>
  C10. On a well-formed journal, after \<open>Journal.RecoverOperations\<close> no operation and no target of one
  is running any more; operations that were settled are kept as they are, those that were interrupted
  lose their Salt recovery record, and the idempotency records and backups are untouched. When every stored
  operation decodes, the recovery completes.
\<close>

theorem recovery_settles_operations:
  assumes "journal_ok j"
  shows "(\<forall>j'. Journal_RecoverOperations now j = Inr j' \<longrightarrow>
        (\<forall>k q. bget (J_operations j') k = Some (Valid q) \<longrightarrow> settled q)
      \<and> (\<forall>k p. bget (J_operations j) k = Some (Valid p) \<and> settled p \<longrightarrow> bget (J_operations j') k = Some (Valid p))
      \<and> (\<forall>k p. bget (J_operations j) k = Some (Valid p) \<and> \<not> settled p \<longrightarrow> bget (J_saltRecovery j') k = None)
      \<and> J_idempotency j' = J_idempotency j \<and> J_backups j' = J_backups j \<and> journal_ok j')
    \<and> ((\<forall>(k, v) \<in> set (J_operations j). v \<noteq> Corrupt \<and> k \<noteq> '''' \<and> int (length k) \<le> boltMaxKeySize)
        \<longrightarrow> (\<exists>j'. Journal_RecoverOperations now j = Inr j'))"
proof (intro conjI allI impI)
  fix j' assume r: "Journal_RecoverOperations now j = Inr j'"
  note R = RecoverOperations_entries [OF assms r]
  show "J_idempotency j' = J_idempotency j" "J_backups j' = J_backups j" "journal_ok j'" using R(1-3) .
  show "settled q" if "bget (J_operations j') k = Some (Valid q)" for k q
    using RecoverOperations_settled [OF assms r that] .
  show "bget (J_operations j') k = Some (Valid p)" if "bget (J_operations j) k = Some (Valid p) \<and> settled p" for k p
    using R(4) [of k p] that by simp
  show "bget (J_saltRecovery j') k = None" if "bget (J_operations j) k = Some (Valid p) \<and> \<not> settled p" for k p
    using R(4) [of k p] that by simp
next
  assume "\<forall>(k, v) \<in> set (J_operations j). v \<noteq> Corrupt \<and> k \<noteq> '''' \<and> int (length k) \<le> boltMaxKeySize"
  then show "\<exists>j'. Journal_RecoverOperations now j = Inr j'"
    unfolding Journal_RecoverOperations_def by (rule recoverLoop_total)
qed

definition exampleOperation :: Operation where
  "exampleOperation = \<lparr>OP_ID = ''op-1'', OP_Kind = ''apply'', OP_Status = OperationRunning,
     OP_Targets = [\<lparr>OT_TargetID = ''t-1'', OT_Status = OperationRunning, OT_SaltJID = '''', OT_Result = None, OT_Error = None\<rparr>],
     OP_CreatedAt = 1, OP_UpdatedAt = 1\<rparr>"

definition exampleJournal :: Journal where
  "exampleJournal = emptyJournal\<lparr>J_operations := [(''op-1'', Valid exampleOperation)],
     J_idempotency := [(''request-1'', Valid (pendingRecord 1 ''hash'' ''op-1''))]\<rparr>"

lemma exampleJournal_ok: "journal_ok exampleJournal"
  by (simp add: journal_ok_def exampleJournal_def emptyJournal_def bucket_ok_def)

lemma exampleJournal_op: "bget (J_operations exampleJournal) ''op-1'' = Some (Valid exampleOperation)"
  by (simp add: exampleJournal_def bget_def)

theorem recovery_settles_operations_witness:
  "\<exists>j' q. Journal_RecoverOperations 5 exampleJournal = Inr j'
     \<and> bget (J_operations j') ''op-1'' = Some (Valid q) \<and> settled q \<and> bget (J_saltRecovery j') ''op-1'' = None"
proof -
  note T = recovery_settles_operations [OF exampleJournal_ok, of 5]
  have "\<forall>(k, v) \<in> set (J_operations exampleJournal). v \<noteq> Corrupt \<and> k \<noteq> '''' \<and> int (length k) \<le> boltMaxKeySize"
    by (simp add: exampleJournal_def boltMaxKeySize_def)
  with T obtain j' where r: "Journal_RecoverOperations 5 exampleJournal = Inr j'" by blast
  have ns: "\<not> settled exampleOperation" by (simp add: settled_def exampleOperation_def)
  obtain q where q: "bget (J_operations j') ''op-1'' = Some (Valid q)"
    using RecoverOperations_entries(4) [OF exampleJournal_ok r exampleJournal_op] ns by simp
  with T r exampleJournal_op ns show ?thesis by blast
qed

section \<open>Retention of backups\<close>

lemma decodeAll_Inr: "(decodeAll es = Inr vs) = (map snd es = map Valid vs)"
proof (induction es arbitrary: vs rule: decodeAll.induct)
  case (3 k v es)
  show ?case
  proof (cases "decodeAll es")
    case (Inl e)
    then have "map snd es \<noteq> map Valid us" for us using 3 [of us] by simp
    with Inl show ?thesis by (cases vs) simp_all
  next
    case (Inr us)
    then have "map snd es = map Valid us" using 3 [of us] by simp
    moreover have "(map Valid (v # us) = map Valid vs) = (v # us = vs)"
      by (rule inj_map_eq_map) (simp add: inj_def)
    ultimately show ?thesis using Inr by auto
  qed
qed auto

text \<open>Every entry decodes, to a backup filed under its own ID (as \<open>PutBackup\<close> writes it).\<close>

definition catalog_ok :: "Backup bucket \<Rightarrow> bool" where
  "catalog_ok b = (bucket_ok b \<and> list_all (\<lambda>(k, v). case v of Valid x \<Rightarrow> BK_ID x = k | Corrupt \<Rightarrow> False) b)"

definition catalogued :: "Backup bucket \<Rightarrow> Backup list" where
  "catalogued b = List.map_filter (\<lambda>(_, v). case v of Valid x \<Rightarrow> Some x | Corrupt \<Rightarrow> None) b"

lemma catalog_decode:
  assumes "catalog_ok b"
  shows "decodeAll b = Inr (catalogued b)" and "distinct (map BK_ID (catalogued b))"
    and "map BK_ID (catalogued b) = map fst b"
proof -
  have "list_all (\<lambda>(k, v). case v of Valid x \<Rightarrow> BK_ID x = k | Corrupt \<Rightarrow> False) b"
    using assms by (simp add: catalog_ok_def)
  then have *: "map snd b = map Valid (catalogued b) \<and> map BK_ID (catalogued b) = map fst b"
    by (induction b) (auto simp: catalogued_def map_filter_simps split: entry.splits)
  then show "decodeAll b = Inr (catalogued b)" and "map BK_ID (catalogued b) = map fst b"
    by (simp_all add: decodeAll_Inr)
  then show "distinct (map BK_ID (catalogued b))"
    using assms by (simp add: catalog_ok_def bucket_ok_def)
qed

lemma bget_catalogued: "catalog_ok b \<Longrightarrow> (bget b k = Some (Valid x)) = (x \<in> set (catalogued b) \<and> BK_ID x = k)"
proof -
  assume ok: "catalog_ok b"
  then have "bucket_ok b" by (simp add: catalog_ok_def)
  then have "(bget b k = Some (Valid x)) = ((k, Valid x) \<in> set b)"
    using bget_in_set in_set_bget by metis
  also have "\<dots> = (x \<in> set (catalogued b) \<and> BK_ID x = k)"
    using ok unfolding catalog_ok_def catalogued_def
    by (induction b) (auto simp: map_filter_simps bucket_ok_def split: entry.splits)
  finally show ?thesis .
qed

lemma expiredLoop_iff:
  "b \<in> set (expiredLoop cutoff m kept xs) \<longleftrightarrow> (\<exists>ys zs. xs = ys @ b # zs \<and>
     (BK_CreatedAt b < cutoff \<or> kept (BK_TargetID b) + 1 + int (length (filter (\<lambda>c. BK_TargetID c = BK_TargetID b) ys)) > m))"
  (is "_ \<longleftrightarrow> ?R kept xs")
proof (induction xs arbitrary: kept)
  case Nil
  then show ?case by simp
next
  case (Cons a xs)
  define kept' where "kept' = kept(BK_TargetID a := kept (BK_TargetID a) + 1)"
  have step: "b \<in> set (expiredLoop cutoff m kept (a # xs)) \<longleftrightarrow>
      (a = b \<and> (BK_CreatedAt b < cutoff \<or> kept (BK_TargetID b) + 1 > m)) \<or> b \<in> set (expiredLoop cutoff m kept' xs)"
    by (auto simp: Let_def kept'_def)
  have "?R kept (a # xs) = ((a = b \<and> (BK_CreatedAt b < cutoff \<or> kept (BK_TargetID b) + 1 > m)) \<or> ?R kept' xs)"
    (is "?L = ?M")
  proof
    assume ?L
    then obtain ys zs where "a # xs = ys @ b # zs" and
      "BK_CreatedAt b < cutoff \<or> kept (BK_TargetID b) + 1 + int (length (filter (\<lambda>c. BK_TargetID c = BK_TargetID b) ys)) > m"
      by blast
    then show ?M by (cases ys) (auto simp: kept'_def split: if_splits)
  next
    assume ?M
    then show ?L
    proof
      assume "a = b \<and> (BK_CreatedAt b < cutoff \<or> kept (BK_TargetID b) + 1 > m)"
      then show ?L by (intro exI [of _ "[]"] exI [of _ xs]) auto
    next
      assume "?R kept' xs"
      then obtain ys zs where "xs = ys @ b # zs" and
        "BK_CreatedAt b < cutoff \<or> kept' (BK_TargetID b) + 1 + int (length (filter (\<lambda>c. BK_TargetID c = BK_TargetID b) ys)) > m"
        by blast
      then show ?L by (intro exI [of _ "a # ys"] exI [of _ zs]) (auto simp: kept'_def split: if_splits)
    qed
  qed
  then show ?case unfolding step Cons.IH by (rule sym)
qed

text \<open>How many backups of the same target are newer, in the order of \<open>sortBackups\<close>.\<close>

definition newerBackups :: "Backup list \<Rightarrow> Backup \<Rightarrow> int" where
  "newerBackups bs b = int (length (filter (\<lambda>c. BK_TargetID c = BK_TargetID b \<and> backupKeyOf c < backupKeyOf b) bs))"

lemma newerBackups_sorted:
  assumes "sorted (map backupKeyOf xs)" and "distinct (map backupKeyOf xs)" and "xs = ys @ b # zs"
  shows "newerBackups xs b = int (length (filter (\<lambda>c. BK_TargetID c = BK_TargetID b) ys))"
proof -
  have "backupKeyOf c < backupKeyOf b" if "c \<in> set ys" for c
  proof -
    have "backupKeyOf c \<le> backupKeyOf b" using assms that by (simp add: sorted_append)
    moreover have "backupKeyOf c \<in> backupKeyOf ` set ys" using that by (rule imageI)
    then have "backupKeyOf c \<noteq> backupKeyOf b" using assms(2) unfolding assms(3) by auto
    ultimately show ?thesis by simp
  qed
  moreover have "\<not> backupKeyOf c < backupKeyOf b" if "c \<in> set zs" for c
    using assms that by (simp add: sorted_append leD)
  ultimately have "filter (\<lambda>c. BK_TargetID c = BK_TargetID b \<and> backupKeyOf c < backupKeyOf b) xs
      = filter (\<lambda>c. BK_TargetID c = BK_TargetID b) ys"
    unfolding assms(3) filter_append by (simp add: filter_empty_conv cong: filter_cong)
  then show ?thesis by (simp add: newerBackups_def)
qed

lemma newerBackups_mset: "mset xs = mset ys \<Longrightarrow> newerBackups xs b = newerBackups ys b"
proof -
  assume "mset xs = mset ys"
  then have "size (mset (filter P xs)) = size (mset (filter P ys))" for P by simp
  then show ?thesis unfolding newerBackups_def size_mset by simp
qed

lemma distinct_backupKey: "distinct (map BK_ID bs) \<Longrightarrow> distinct (map backupKeyOf bs)"
  by (induction bs) (auto simp: backupKeyOf_def image_iff)

lemma expired_iff:
  assumes "distinct (map BK_ID bs)"
  shows "b \<in> set (expiredLoop cutoff m (\<lambda>_. 0) (sortBackups bs)) \<longleftrightarrow>
    b \<in> set bs \<and> (BK_CreatedAt b < cutoff \<or> newerBackups bs b \<ge> m)"
proof -
  define xs where "xs = sortBackups bs"
  have s: "sorted (map backupKeyOf xs)" and m: "mset xs = mset bs" by (simp_all add: xs_def sortBackups_def)
  have "distinct (map backupKeyOf bs)" by (rule distinct_backupKey [OF assms])
  moreover have "mset (map backupKeyOf xs) = mset (map backupKeyOf bs)" using m by simp
  ultimately have d: "distinct (map backupKeyOf xs)" using mset_eq_imp_distinct_iff by blast
  have "b \<in> set xs \<longleftrightarrow> (\<exists>ys zs. xs = ys @ b # zs)" by (auto simp: in_set_conv_decomp)
  then have "b \<in> set (expiredLoop cutoff m' (\<lambda>_. 0) xs) \<longleftrightarrow>
      b \<in> set xs \<and> (BK_CreatedAt b < cutoff \<or> newerBackups xs b \<ge> m')" for m'
    unfolding expiredLoop_iff using newerBackups_sorted [OF s d] by fastforce
  then show ?thesis
    using newerBackups_mset [OF m] mset_eq_setD [OF m] by (simp add: xs_def)
qed

text \<open>
  C9. Backup retention. With valid limits and a catalog whose entries decode, a successful
  \<open>GCBackups\<close> reports and deletes exactly the backups that are older than the maximal age or that
  have at least \<open>maxPerTarget\<close> newer backups of the same target, and it keeps every other entry. When removing
  one of them fails, the catalog is as it was; limits out of range are refused before anything is removed.
\<close>

theorem backup_retention:
  assumes "catalog_ok (J_backups j)"
  shows "case GCBackups now maxAgeDays maxPerTarget remove (j, w) of
      (Inr removed, j', w') \<Rightarrow>
        1 \<le> maxAgeDays \<and> maxAgeDays \<le> 3650 \<and> 1 \<le> maxPerTarget \<and> maxPerTarget \<le> 1000
        \<and> (\<forall>b \<in> set (catalogued (J_backups j)). BK_ID b \<in> set removed \<longleftrightarrow>
             BK_CreatedAt b < now - maxAgeDays * 24 * hour
             \<or> maxPerTarget \<le> newerBackups (catalogued (J_backups j)) b)
        \<and> (\<forall>k. bget (J_backups j') k = (if k \<in> set removed then None else bget (J_backups j) k))
    | (Inl e, j', w') \<Rightarrow> j' = j \<and>
        (maxAgeDays < 1 \<or> maxAgeDays > 3650 \<or> maxPerTarget < 1 \<or> maxPerTarget > 1000 \<longrightarrow> w' = w)"
proof -
  define items where "items = catalogued (J_backups j)"
  define cutoff where "cutoff = now - maxAgeDays * 24 * hour"
  define expired where "expired = expiredLoop cutoff maxPerTarget (\<lambda>_. 0) (sortBackups items)"
  note cd = catalog_decode [OF assms, folded items_def]
  have ok: "bucket_ok (J_backups j)" using assms by (simp add: catalog_ok_def)
  have B: "Backups '''' j = Inr (sortBackups items)" by (simp add: Backups_def cd)
  have ex: "b \<in> set expired \<longleftrightarrow> b \<in> set items \<and> (BK_CreatedAt b < cutoff \<or> newerBackups items b \<ge> maxPerTarget)" for b
    unfolding expired_def by (rule expired_iff [OF cd(2)])
  have id: "BK_ID b \<in> set (map BK_ID expired) \<longleftrightarrow> b \<in> set expired" if "b \<in> set items" for b
  proof -
    have "inj_on BK_ID (set items)" using cd(2) by (simp add: distinct_map)
    moreover have "set expired \<subseteq> set items" using ex by blast
    ultimately show ?thesis using that by (auto dest: inj_onD)
  qed
  have del: "bget (fold bdelete ks (J_backups j)) k = (if k \<in> set ks then None else bget (J_backups j) k)" for ks k
    using bolt.lookup_remove_all [OF ok] by blast
  show ?thesis
  proof (cases "maxAgeDays < 1 \<or> maxAgeDays > 3650 \<or> maxPerTarget < 1 \<or> maxPerTarget > 1000")
    case True
    then show ?thesis by (simp add: GCBackups_def)
  next
    case lim: False
    obtain r w' where rm: "removeAll remove expired w = (r, w')" by (cases "removeAll remove expired w")
    have G: "GCBackups now maxAgeDays maxPerTarget remove (j, w) = (case r of Some e \<Rightarrow> (Inl e, j, w')
        | None \<Rightarrow> (Inr (map BK_ID expired), j\<lparr>J_backups := fold bdelete (map BK_ID expired) (J_backups j)\<rparr>, w'))"
      using lim rm by (cases r) (auto simp: GCBackups_def B Let_def expired_def cutoff_def)
    show ?thesis
    proof (cases r)
      case None
      then show ?thesis unfolding G using lim id ex del
        by (simp add: items_def [symmetric] cutoff_def [symmetric] del: set_map)
    next
      case (Some e)
      then show ?thesis unfolding G using lim by simp
    qed
  qed
qed

definition exampleBackup :: "string \<Rightarrow> time \<Rightarrow> Backup" where
  "exampleBackup i at = \<lparr>BK_ID = i, BK_TargetID = ''t-1'', BK_NodeKind = NodeKindLocal, BK_SaltMinionID = '''',
     BK_Runtime = RuntimeClaude, BK_SourceOperationID = '''', BK_Revision = '''', BK_CreatedAt = at\<rparr>"

definition exampleCatalog :: Journal where
  "exampleCatalog = emptyJournal\<lparr>J_backups :=
     [(''b-1'', Valid (exampleBackup ''b-1'' 10)), (''b-2'', Valid (exampleBackup ''b-2'' 20)),
      (''b-3'', Valid (exampleBackup ''b-3'' 30))]\<rparr>"

definition acceptRemoval :: "Backup \<Rightarrow> unit \<Rightarrow> go_error option \<times> unit" where
  "acceptRemoval b w = (None, w)"

text \<open>Three backups of one target with at most two kept: the oldest goes, the newest stays.\<close>

theorem backup_retention_witness:
  "\<exists>removed j'. GCBackups 40 30 2 acceptRemoval (exampleCatalog, ()) = (Inr removed, j', ())
     \<and> ''b-1'' \<in> set removed \<and> bget (J_backups j') ''b-3'' = Some (Valid (exampleBackup ''b-3'' 30))"
proof -
  have ok: "catalog_ok (J_backups exampleCatalog)" by code_simp
  note T = backup_retention [OF ok, where now = 40 and maxAgeDays = 30 and maxPerTarget = 2
      and remove = acceptRemoval and w = "()"]
  have run: "\<not> isl (fst (GCBackups 40 30 2 acceptRemoval (exampleCatalog, ())))" by code_simp
  obtain removed j' where g: "GCBackups 40 30 2 acceptRemoval (exampleCatalog, ()) = (Inr removed, j', ())"
  proof -
    obtain x j' where x: "GCBackups 40 30 2 acceptRemoval (exampleCatalog, ()) = (x, j', ())"
      using prod_cases3 by (metis (full_types) old.unit.exhaust)
    then show ?thesis using run that by (cases x) simp_all
  qed
  let ?c = "catalogued (J_backups exampleCatalog)"
  have mem: "exampleBackup ''b-1'' 10 \<in> set ?c" "exampleBackup ''b-3'' 30 \<in> set ?c" by code_simp+
  have new: "newerBackups ?c (exampleBackup ''b-1'' 10) = 2" "newerBackups ?c (exampleBackup ''b-3'' 30) = 0" by code_simp+
  have ids: "BK_ID (exampleBackup i at) = i" "BK_CreatedAt (exampleBackup i at) = at" for i at
    by (simp_all add: exampleBackup_def)
  have old: "\<not> (30::int) < 40 - 30 * 24 * hour" by (simp add: hour_def minute_def second_def)
  have "bget (J_backups exampleCatalog) ''b-3'' = Some (Valid (exampleBackup ''b-3'' 30))" by code_simp
  then show ?thesis using T mem new old unfolding g prod.case sum.case
    by (metis ids int_one_le_iff_zero_less not_numeral_le_zero order_refl)
qed

end
