(* ===== verification/Bridge_Server.thy ===== *)
theory Bridge_Server
  imports Bridge_Journal Skill_Package
begin

text \<open>
  The Bridge HTTP server (\<open>src/internal/bridge/server.go\<close>): the idempotent mutation wrapper, the ephemeral
  wrapper, the request handlers and what a restart does. A handler is a function of the request body and
  of the state, a journal and the world the adapter acts on; it returns an error or a status with
  the encoded result (\<open>None\<close> when \<open>json.Marshal\<close> fails).

  Decoding a body (\<open>decodeStrict\<close>, \<open>DecodeGovernanceBody\<close>) is the parameter \<open>dec\<close> of a handler. The adapter
  is an interface of the source: each handler takes the method it calls. The wrapper's parameters are
  \<open>sha\<close> (SHA-256), \<open>un\<close> (\<open>json.Unmarshal\<close> into the struct that holds the operation ID), \<open>em\<close> and \<open>jlen\<close> as in
  the journal; each call of the clock is an argument.
\<close>

section \<open>Requests and responses\<close>

record BridgeResponse =
  RESP_Status :: int
  RESP_Body :: json

record Artifact =
  AR_VersionID :: string
  AR_SHA256 :: string
  AR_Archive :: string

record CommitRequest =
  CR_OperationID :: string
  CR_OperationKind :: string
  CR_Target :: Target
  CR_ExpectedRevision :: string
  CR_Manifest :: DesiredManifest
  CR_Artifacts :: "Artifact list"
  CR_SecretValues :: "(string \<times> string) list"
  CR_BackupID :: string
  CR_IntentionalPaused :: bool
  CR_FullRelayProbe :: bool

record ReconcileRequest =
  RR_OperationID :: string
  RR_Target :: Target
  RR_Manifest :: DesiredManifest
  RR_Artifacts :: "Artifact list"
  RR_SecretValues :: "(string \<times> string) list"
  RR_IntentionalPaused :: bool
  RR_FullRelayProbe :: bool

record RelayActionRequest =
  RA_Target :: Target
  RA_Port :: int
  RA_IntentionalPaused :: bool
  RA_Manifest :: "DesiredManifest option"

record RelayReloadRequest =
  RL_RelayConfigurationRevisionID :: string
  RL_RoutingBundleHash :: string
  RL_RoutingBundle :: string

record ConfirmationDecisionRequest =
  CD_ChallengeID :: string
  CD_BindingHash :: string

record ObservationDrainRequest =
  OD_AfterBootID :: "string option"
  OD_AfterSequence :: int
  OD_Limit :: int

record NativeClientInspectionRequest =
  NI_ManagedUsername :: string
  NI_ClientKind :: string

type_synonym outcome = "go_error + int \<times> json option"
type_synonym 'w handler = "string \<Rightarrow> Journal \<times> 'w \<Rightarrow> outcome \<times> Journal \<times> 'w"
type_synonym ('i, 'r, 'w) adapterOp = "'i \<Rightarrow> Journal \<times> 'w \<Rightarrow> (go_error + 'r) \<times> Journal \<times> 'w"

definition bridgeError :: "int \<Rightarrow> api_error \<Rightarrow> BridgeResponse" where
  "bridgeError status e = \<lparr>RESP_Status = status, RESP_Body = JObj [(''error'', encodeAPIError e)]\<rparr>"

definition statusForBridgeError :: "api_error \<Rightarrow> int" where
  "statusForBridgeError e =
     (if apiCode e = ErrRevisionConflict \<or> apiCode e = ErrReplay \<or> apiCode e = ErrIdempotencyConflict
         \<or> apiCode e = ErrRelayPortConflict then 409
      else if apiCode e = ErrTargetUnavailable \<or> apiCode e = ErrRelayUnhealthy then 503
      else if apiCode e = ErrUnsupportedOperation then 501
      else 400)"

text \<open>\<open>err.Error()\<close>; of a wrapped error only the format is kept.\<close>

fun errMessage :: "go_error \<Rightarrow> message" where
  "errMessage (APIErr e) = apiMessage e"
| "errMessage (Err m) = m"
| "errMessage (Wrapped f _) = Fmt f []"

definition invalidRequest :: "go_error \<Rightarrow> go_error" where
  "invalidRequest err = APIErr \<lparr>apiCode = ErrInvalidRequest, apiMessage = errMessage err, apiRetryable = False, apiDetails = []\<rparr>"

section \<open>Operations in the journal\<close>

definition persistRunningOperation ::
    "(DesiredManifest \<Rightarrow> json) \<Rightarrow> time \<Rightarrow> string \<Rightarrow> string \<Rightarrow> string \<Rightarrow> Journal \<Rightarrow> Journal" where
  "persistRunningOperation em now operationID kind targetID j =
     (case PutOperation em \<lparr>OP_ID = operationID, OP_Kind = kind, OP_Status = OperationRunning,
        OP_Targets = [\<lparr>OT_TargetID = targetID, OT_Status = OperationRunning, OT_SaltJID = '''', OT_Result = None, OT_Error = None\<rparr>],
        OP_CreatedAt = now, OP_UpdatedAt = now\<rparr> j of
      Inl _ \<Rightarrow> j | Inr j' \<Rightarrow> j')"

definition safeOperation :: "time \<Rightarrow> string \<Rightarrow> string \<Rightarrow> string \<Rightarrow> TargetResult \<Rightarrow> Journal \<Rightarrow> Operation" where
  "safeOperation now operationID kind targetID result0 j =
     (let result = journalSafeTargetResult result0;
          status = (if TR_Status result = '''' then OperationFailed else TR_Status result);
          (createdAt, saltJID) = (case Journal_Operation operationID j of
             Inl _ \<Rightarrow> (now, '''')
           | Inr existing \<Rightarrow> (OP_CreatedAt existing,
               if length (OP_Targets existing) = 1 then OT_SaltJID (hd (OP_Targets existing)) else ''''))
      in \<lparr>OP_ID = operationID, OP_Kind = kind, OP_Status = status,
          OP_Targets = [\<lparr>OT_TargetID = targetID, OT_Status = status, OT_SaltJID = saltJID, OT_Result = Some result,
             OT_Error = (if status = OperationSucceeded then None else TR_Error result)\<rparr>],
          OP_CreatedAt = createdAt, OP_UpdatedAt = now\<rparr>)"

definition persistSafeOperation ::
    "(DesiredManifest \<Rightarrow> json) \<Rightarrow> time \<Rightarrow> string \<Rightarrow> string \<Rightarrow> string \<Rightarrow> TargetResult \<Rightarrow> Journal \<Rightarrow> Journal" where
  "persistSafeOperation em now operationID kind targetID result j =
     (case PutOperation em (safeOperation now operationID kind targetID result j) j of Inl _ \<Rightarrow> j | Inr j' \<Rightarrow> j')"

text \<open>The status and response for the result of an operation's only target, with the target's error.\<close>

definition recoveredAnswer :: "(DesiredManifest \<Rightarrow> json) \<Rightarrow> api_error option \<Rightarrow> TargetResult \<Rightarrow> int \<times> json" where
  "recoveredAnswer em targetError result0 =
     (let result = (if TR_Error result0 = None then result0\<lparr>TR_Error := targetError\<rparr> else result0)
      in case TR_Error result of
           Some e \<Rightarrow> if TR_Status result = OperationFailed
             then (statusForBridgeError e, JObj [(''error'', encodeAPIError e)])
             else (200, encodeTargetResult em result)
         | None \<Rightarrow> (200, encodeTargetResult em result))"

text \<open>The answer to a pending request that can be read off the journal; \<open>None\<close>: there is none.\<close>

definition recoveredIdempotencyResponse ::
    "(DesiredManifest \<Rightarrow> json) \<Rightarrow> string \<Rightarrow> Journal \<Rightarrow> (int \<times> json) option" where
  "recoveredIdempotencyResponse em operationID j =
     (if operationID = '''' then None
      else case Journal_Operation operationID j of
        Inl _ \<Rightarrow> None
      | Inr p \<Rightarrow>
          if \<not> IsTerminalOperationStatus (OP_Status p) \<or> length (OP_Targets p) \<noteq> 1 then None
          else case OT_Result (hd (OP_Targets p)) of
            None \<Rightarrow> None
          | Some result \<Rightarrow>
              (let answer = recoveredAnswer em (OT_Error (hd (OP_Targets p))) result
               in if hasSensitiveValue (snd answer) then None else Some answer))"

definition operationIDFromBody :: "(string \<Rightarrow> string option) \<Rightarrow> string \<Rightarrow> string" where
  "operationIDFromBody un body = (case un body of None \<Rightarrow> '''' | Some operationID \<Rightarrow> operationID)"

section \<open>The mutation and ephemeral wrappers\<close>

record wrapper_env =
  we_sha :: "string \<Rightarrow> string"
  we_un :: "string \<Rightarrow> string option"
  we_em :: "DesiredManifest \<Rightarrow> json"
  we_jlen :: "json \<Rightarrow> int"

record http_request =
  hr_method :: string
  hr_uri :: string
  hr_key :: string
  hr_body :: string

text \<open>\<open>mutation\<close> up to the call of the handler: an answer, or the key and hash the handler runs for.\<close>

definition mutationBegin ::
    "wrapper_env \<Rightarrow> time \<Rightarrow> http_request \<Rightarrow> Journal \<Rightarrow> (BridgeResponse + string \<times> string) \<times> Journal" where
  "mutationBegin we now r j =
     (let key = TrimSpace (hr_key r) in
      if length key < 8 \<or> length key > 200 then
        (Inl (bridgeError 400 (apiError ErrInvalidRequest ''Mutation requires an Idempotency-Key of 8-200 characters'')), j)
      else let hash = requestHash (we_sha we) (hr_method r) (hr_uri r) (hr_body r) in
        case IdempotencyBegin now key hash (operationIDFromBody (we_un we) (hr_body r)) j of
          (Inl e, j1) \<Rightarrow> (Inl (bridgeError 409 (asAPIError e)), j1)
        | (Inr (record, existing), j1) \<Rightarrow>
            if existing \<and> IR_Status record \<noteq> 0 then
              (Inl \<lparr>RESP_Status = IR_Status record, RESP_Body = IR_Response record\<rparr>, j1)
            else if existing then
              (case recoveredIdempotencyResponse (we_em we) (IR_OperationID record) j1 of
                 None \<Rightarrow> (Inl (bridgeError 409 (apiError ErrIdempotencyConflict ''Idempotent operation is still running'')), j1)
               | Some (status, recovered) \<Rightarrow>
                   (case IdempotencyPut (we_jlen we) now key hash status recovered j1 of
                      Inl _ \<Rightarrow> (Inl (bridgeError 500 (apiError ErrInvalidRequest
                        ''Bridge could not persist the recovered idempotent result'')), j1)
                    | Inr j2 \<Rightarrow> (Inl \<lparr>RESP_Status = status, RESP_Body = recovered\<rparr>, j2)))
            else (Inr (key, hash), j1))"

text \<open>\<open>mutation\<close> from the handler's return on.\<close>

definition mutationFinish ::
    "wrapper_env \<Rightarrow> time \<Rightarrow> string \<Rightarrow> string \<Rightarrow> outcome \<Rightarrow> Journal \<Rightarrow> BridgeResponse \<times> Journal" where
  "mutationFinish we now key hash out j =
     (let (status, result) = (case out of
            Inl e \<Rightarrow> (statusForBridgeError (asAPIError e), Some (JObj [(''error'', encodeAPIError (asAPIError e))]))
          | Inr sr \<Rightarrow> sr)
      in case result of
           None \<Rightarrow> (bridgeError 500 (apiError ErrInvalidRequest ''Bridge response encoding failed''), j)
         | Some encoded \<Rightarrow>
             (case IdempotencyPut (we_jlen we) now key hash status encoded j of
                Inl _ \<Rightarrow> (bridgeError 500 (apiError ErrInvalidRequest ''Bridge could not persist the idempotent result''), j)
              | Inr j' \<Rightarrow> (\<lparr>RESP_Status = status, RESP_Body = encoded\<rparr>, j')))"

definition mutation ::
    "wrapper_env \<Rightarrow> time \<Rightarrow> time \<Rightarrow> 'w handler \<Rightarrow> http_request \<Rightarrow> Journal \<times> 'w \<Rightarrow> BridgeResponse \<times> Journal \<times> 'w" where
  "mutation we t u handler r = (\<lambda>(j, w).
     case mutationBegin we t r j of
       (Inl resp, j1) \<Rightarrow> (resp, j1, w)
     | (Inr (key, hash), j1) \<Rightarrow>
         (case handler (hr_body r) (j1, w) of
            (out, j2, w2) \<Rightarrow> (case mutationFinish we u key hash out j2 of (resp, j3) \<Rightarrow> (resp, j3, w2))))"

text \<open>An encoding failure in \<open>writeBridgeJSON\<close> is ignored and the body is empty, here \<open>JNull\<close>.\<close>

definition ephemeral :: "'w handler \<Rightarrow> http_request \<Rightarrow> Journal \<times> 'w \<Rightarrow> BridgeResponse \<times> Journal \<times> 'w" where
  "ephemeral handler r s =
     (case handler (hr_body r) s of
        (Inl e, s') \<Rightarrow> (bridgeError (statusForBridgeError (asAPIError e)) (asAPIError e), s')
      | (Inr (status, result), s') \<Rightarrow>
          (\<lparr>RESP_Status = status, RESP_Body = (case result of Some v \<Rightarrow> v | None \<Rightarrow> JNull)\<rparr>, s'))"

section \<open>Handlers that change a target\<close>

text \<open>The calls that follow the validation in \<open>commit\<close>, \<open>restore\<close> and \<open>reconcile\<close>, which have the same shape.\<close>

definition runOnTarget ::
    "(DesiredManifest \<Rightarrow> json) \<Rightarrow> time \<Rightarrow> time \<Rightarrow> string \<Rightarrow> string \<Rightarrow> string
     \<Rightarrow> (Journal \<times> 'w \<Rightarrow> (go_error + TargetResult) \<times> Journal \<times> 'w) \<Rightarrow> Journal \<times> 'w \<Rightarrow> outcome \<times> Journal \<times> 'w" where
  "runOnTarget em t u operationID kind targetID act = (\<lambda>(j, w).
     case act (persistRunningOperation em t operationID kind targetID j, w) of
       (Inl e, j2, w2) \<Rightarrow>
         (Inl e, persistSafeOperation em u operationID kind targetID
            (zeroResult\<lparr>TR_Status := OperationFailed, TR_Error := Some (asAPIError e)\<rparr>) j2, w2)
     | (Inr result0, j2, w2) \<Rightarrow>
         (let result = journalSafeTargetResult result0
          in (Inr (200, Some (encodeTargetResult em result)),
              persistSafeOperation em u operationID kind targetID result j2, w2)))"

fun checkArtifacts :: "package_env \<Rightarrow> Artifact list \<Rightarrow> go_error option" where
  "checkArtifacts pe [] = None"
| "checkArtifacts pe (a # as) =
     (if AR_VersionID a = '''' \<or> \<not> IsSHA256 (AR_SHA256 a) \<or> AR_Archive a = [] then
        Some (errorsNew ''commit contains an invalid artifact'')
      else case ScanZIP pe (AR_Archive a) DefaultLimits of
        Inl _ \<Rightarrow> Some (errorsNew ''commit contains a mismatched or unsafe artifact'')
      | Inr pkg \<Rightarrow>
          if PK_SHA256 pkg \<noteq> AR_SHA256 a then Some (errorsNew ''commit contains a mismatched or unsafe artifact'')
          else checkArtifacts pe as)"

definition validateCommit :: "codec \<Rightarrow> package_env \<Rightarrow> CommitRequest \<Rightarrow> go_error option" where
  "validateCommit cd pe input =
     (if CR_OperationID input = '''' \<or> \<not> IsSHA256 (CR_ExpectedRevision input) then
        Some (errorsNew ''operationId and expectedRevision are required'')
      else if T_ID (CR_Target input) \<noteq> T_ID (DM_Target (CR_Manifest input)) then
        Some (errorsNew ''commit target does not match manifest'')
      else case Manifest_Validate cd True (CR_Manifest input) of
        Some e \<Rightarrow> Some e
      | None \<Rightarrow> checkArtifacts pe (CR_Artifacts input))"

definition commit ::
    "codec \<Rightarrow> package_env \<Rightarrow> (DesiredManifest \<Rightarrow> json) \<Rightarrow> (string \<Rightarrow> go_error + CommitRequest) \<Rightarrow> time \<Rightarrow> time
     \<Rightarrow> (CommitRequest, TargetResult, 'w) adapterOp \<Rightarrow> string \<Rightarrow> 'w handler" where
  "commit cd pe em dec t u adapterCommit kind body s =
     (case dec body of
        Inl e \<Rightarrow> (Inl (invalidRequest e), s)
      | Inr input0 \<Rightarrow>
          if CR_OperationKind input0 \<noteq> kind then
            (Inl (invalidRequest (errorsNew ''commit operationKind does not match the typed route'')), s)
          else let input = input0\<lparr>CR_OperationKind := kind\<rparr>
            in case validateCommit cd pe input of
                 Some e \<Rightarrow> (Inl (invalidRequest e), s)
               | None \<Rightarrow> runOnTarget em t u (CR_OperationID input) kind (T_ID (CR_Target input)) (adapterCommit input) s)"

definition restore ::
    "codec \<Rightarrow> (DesiredManifest \<Rightarrow> json) \<Rightarrow> (string \<Rightarrow> go_error + CommitRequest) \<Rightarrow> time \<Rightarrow> time
     \<Rightarrow> (CommitRequest, TargetResult, 'w) adapterOp \<Rightarrow> 'w handler" where
  "restore cd em dec t u adapterRestore body s =
     (case dec body of
        Inl e \<Rightarrow> (Inl (invalidRequest e), s)
      | Inr input \<Rightarrow>
          if CR_OperationKind input \<noteq> ''restore'' then
            (Inl (invalidRequest (errorsNew ''restore operationKind does not match the typed route'')), s)
          else if CR_BackupID input = '''' \<or> CR_OperationID input = '''' \<or> \<not> IsSHA256 (CR_ExpectedRevision input) then
            (Inl (invalidRequest (errorsNew ''restore requires backupId, operationId, and expectedRevision'')), s)
          else case Target_Validate (uuidValid cd) True (CR_Target input) of
            Some e \<Rightarrow> (Inl (invalidRequest e), s)
          | None \<Rightarrow> runOnTarget em t u (CR_OperationID input) ''restore'' (T_ID (CR_Target input)) (adapterRestore input) s)"

definition reconcile ::
    "codec \<Rightarrow> (DesiredManifest \<Rightarrow> json) \<Rightarrow> (string \<Rightarrow> go_error + ReconcileRequest) \<Rightarrow> time \<Rightarrow> time
     \<Rightarrow> (ReconcileRequest, TargetResult, 'w) adapterOp \<Rightarrow> 'w handler" where
  "reconcile cd em dec t u adapterReconcile body s =
     (case dec body of
        Inl e \<Rightarrow> (Inl (invalidRequest e), s)
      | Inr input \<Rightarrow>
          if RR_OperationID input = '''' \<or> T_ID (RR_Target input) \<noteq> T_ID (DM_Target (RR_Manifest input)) then
            (Inl (invalidRequest (errorsNew ''reconcile target and operation are required'')), s)
          else case Manifest_Validate cd True (RR_Manifest input) of
            Some e \<Rightarrow> (Inl (invalidRequest e), s)
          | None \<Rightarrow> runOnTarget em t u (RR_OperationID input) ''reconcile'' (T_ID (RR_Target input)) (adapterReconcile input) s)"

section \<open>The other handlers\<close>

text \<open>\<open>result, err := s.adapter.Op(...); return http.StatusOK, result, err\<close>\<close>

definition answerOK :: "(go_error + json option) \<times> Journal \<times> 'w \<Rightarrow> outcome \<times> Journal \<times> 'w" where
  "answerOK = (\<lambda>(r, s). (case r of Inl e \<Rightarrow> Inl e | Inr v \<Rightarrow> Inr (200, v), s))"

definition refreshNodes :: "(unit, json option, 'w) adapterOp \<Rightarrow> 'w handler" where
  "refreshNodes op body s = answerOK (op () s)"

definition decodeEmptyObject :: "(string \<Rightarrow> go_error option) \<Rightarrow> string \<Rightarrow> go_error option" where
  "decodeEmptyObject strict body = strict body"

text \<open>A read of one target: the request carries the target and what else the adapter method needs.\<close>

definition scan :: "codec \<Rightarrow> (string \<Rightarrow> go_error + Target) \<Rightarrow> (Target, json option, 'w) adapterOp \<Rightarrow> 'w handler" where
  "scan cd dec op body s =
     (case dec body of
        Inl e \<Rightarrow> (Inl (invalidRequest e), s)
      | Inr input \<Rightarrow> (case Target_Validate (uuidValid cd) False input of
          Some e \<Rightarrow> (Inl (invalidRequest e), s)
        | None \<Rightarrow> answerOK (op input s)))"

definition exportLocalSkill ::
    "codec \<Rightarrow> (string \<Rightarrow> go_error + Target \<times> string \<times> string \<times> string)
     \<Rightarrow> (Target \<times> string \<times> string \<times> string, json option, 'w) adapterOp \<Rightarrow> 'w handler" where
  "exportLocalSkill cd dec op body s =
     (case dec body of
        Inl e \<Rightarrow> (Inl (invalidRequest e), s)
      | Inr input \<Rightarrow> (case Target_Validate (uuidValid cd) False (fst input) of
          Some e \<Rightarrow> (Inl (invalidRequest e), s)
        | None \<Rightarrow> answerOK (op input s)))"

definition exportLocalSkillBatch ::
    "codec \<Rightarrow> (string \<Rightarrow> go_error + Target \<times> string \<times> (string \<times> string) list)
     \<Rightarrow> (Target \<times> string \<times> (string \<times> string) list, json option, 'w) adapterOp \<Rightarrow> 'w handler" where
  "exportLocalSkillBatch cd dec op body s =
     (case dec body of
        Inl e \<Rightarrow> (Inl (invalidRequest e), s)
      | Inr input \<Rightarrow> (case Target_Validate (uuidValid cd) False (fst input) of
          Some e \<Rightarrow> (Inl (invalidRequest e), s)
        | None \<Rightarrow> answerOK (op input s)))"

definition previewLocalMCP :: "codec \<Rightarrow> (string \<Rightarrow> go_error + Target) \<Rightarrow> (Target, json option, 'w) adapterOp \<Rightarrow> 'w handler" where
  "previewLocalMCP cd dec op body s =
     (case dec body of
        Inl e \<Rightarrow> (Inl (invalidRequest e), s)
      | Inr input \<Rightarrow> (case Target_Validate (uuidValid cd) False input of
          Some e \<Rightarrow> (Inl (invalidRequest e), s)
        | None \<Rightarrow> answerOK (op input s)))"

definition captureLocalMCP ::
    "codec \<Rightarrow> (string \<Rightarrow> go_error + Target \<times> string \<times> string \<times> string)
     \<Rightarrow> (Target \<times> string \<times> string \<times> string, json option, 'w) adapterOp \<Rightarrow> 'w handler" where
  "captureLocalMCP cd dec op body s =
     (case dec body of
        Inl e \<Rightarrow> (Inl (invalidRequest e), s)
      | Inr input \<Rightarrow> (case Target_Validate (uuidValid cd) False (fst input) of
          Some e \<Rightarrow> (Inl (invalidRequest e), s)
        | None \<Rightarrow> answerOK (op input s)))"

definition preflight ::
    "codec \<Rightarrow> (string \<Rightarrow> go_error + Target \<times> DesiredManifest) \<Rightarrow> (Target \<times> DesiredManifest, json option, 'w) adapterOp \<Rightarrow> 'w handler" where
  "preflight cd dec op body s =
     (case dec body of
        Inl e \<Rightarrow> (Inl (invalidRequest e), s)
      | Inr (target, manifest) \<Rightarrow> (case Manifest_Validate cd True manifest of
          Some e \<Rightarrow> (Inl (invalidRequest e), s)
        | None \<Rightarrow> if T_ID target \<noteq> T_ID (DM_Target manifest) then
              (Inl (invalidRequest (errorsNew ''target does not match manifest'')), s)
            else answerOK (op (target, manifest) s)))"

text \<open>The response lists the removed backups and their number.\<close>

definition gcBackups ::
    "(string \<Rightarrow> go_error + int \<times> int) \<Rightarrow> time \<Rightarrow> (Backup \<Rightarrow> 'w \<Rightarrow> go_error option \<times> 'w) \<Rightarrow> 'w handler" where
  "gcBackups dec now remove body s =
     (case dec body of
        Inl e \<Rightarrow> (Inl (invalidRequest e), s)
      | Inr (maxAgeDays, maxPerTarget) \<Rightarrow>
          (case GCBackups now maxAgeDays maxPerTarget remove s of
             (Inl e, s') \<Rightarrow> (Inl e, s')
           | (Inr removed, s') \<Rightarrow> (Inr (200, Some (JObj [(''removed'', JNum (int (length removed))),
                (''removedBackupIds'', JArr (map JStr removed))])), s')))"

definition relay ::
    "codec \<Rightarrow> (string \<Rightarrow> go_error + RelayActionRequest) \<Rightarrow> (RelayActionRequest, json option, 'w) adapterOp \<Rightarrow> 'w handler" where
  "relay cd dec op body s =
     (case dec body of
        Inl e \<Rightarrow> (Inl (invalidRequest e), s)
      | Inr input \<Rightarrow> (case Target_Validate (uuidValid cd) True (RA_Target input) of
          Some e \<Rightarrow> (Inl (invalidRequest e), s)
        | None \<Rightarrow>
            if T_NodeKind (RA_Target input) \<noteq> NodeKindLocal \<or> T_Runtime (RA_Target input) \<noteq> RuntimeSharedRelay then
              (Inl (invalidRequest (errorsNew ''relay controls require local/shared-relay target'')), s)
            else if RA_Port input < 1 \<or> RA_Port input > 65535 then
              (Inl (invalidRequest (errorsNew ''relay controls require a valid fixed port'')), s)
            else case RA_Manifest input of
              None \<Rightarrow> answerOK (op input s)
            | Some m \<Rightarrow>
                if DM_Target m \<noteq> RA_Target input \<or> DM_RelayPort m \<noteq> RA_Port input then
                  (Inl (invalidRequest (errorsNew ''relay manifest does not match the fixed target and port'')), s)
                else case Manifest_Validate cd True m of
                  Some e \<Rightarrow> (Inl (invalidRequest e), s)
                | None \<Rightarrow> answerOK (op input s)))"

text \<open>
  The three handlers of empty requests: \<open>relayGovernanceCapability\<close>, \<open>observeRelayContracts\<close> and
  \<open>listRelayConfirmations\<close>.
\<close>

definition emptyRequest :: "(string \<Rightarrow> go_error option) \<Rightarrow> (unit, json option, 'w) adapterOp \<Rightarrow> 'w handler" where
  "emptyRequest strict op body s =
     (case decodeEmptyObject strict body of Some e \<Rightarrow> (Inl (invalidRequest e), s) | None \<Rightarrow> answerOK (op () s))"

definition reloadRelayGovernance ::
    "codec \<Rightarrow> (string \<Rightarrow> go_error + RelayReloadRequest) \<Rightarrow> (string \<Rightarrow> go_error + RoutingBundle)
     \<Rightarrow> (RelayReloadRequest, json option, 'w) adapterOp \<Rightarrow> 'w handler" where
  "reloadRelayGovernance cd dec decBundle op body s =
     (case dec body of
        Inl e \<Rightarrow> (Inl (invalidRequest e), s)
      | Inr input \<Rightarrow> (case decBundle (RL_RoutingBundle input) of
          Inl e \<Rightarrow> (Inl (invalidRequest e), s)
        | Inr bundle \<Rightarrow>
            (case RoutingBundle_Canonical cd bundle of
               Inl _ \<Rightarrow> (Inl (invalidRequest (errorsNew ''relay reload bundle binding is invalid'')), s)
             | Inr (_, hash) \<Rightarrow>
                 if hash \<noteq> RL_RoutingBundleHash input
                    \<or> RB_RelayConfigurationRevisionID bundle \<noteq> RL_RelayConfigurationRevisionID input then
                   (Inl (invalidRequest (errorsNew ''relay reload bundle binding is invalid'')), s)
                 else answerOK (op input s))))"

definition decideRelayConfirmation ::
    "(string \<Rightarrow> go_error + ConfirmationDecisionRequest) \<Rightarrow> (bool \<times> ConfirmationDecisionRequest, json option, 'w) adapterOp
     \<Rightarrow> bool \<Rightarrow> 'w handler" where
  "decideRelayConfirmation dec op approve body s =
     (case dec body of
        Inl e \<Rightarrow> (Inl (invalidRequest e), s)
      | Inr input \<Rightarrow>
          if \<not> IsSHA256 (CD_ChallengeID input) \<or> \<not> IsSHA256 (CD_BindingHash input) then
            (Inl (invalidRequest (errorsNew ''confirmation challenge and binding hashes are invalid'')), s)
          else answerOK (op (approve, input) s))"

definition drainRelayObservations ::
    "codec \<Rightarrow> (string \<Rightarrow> go_error + ObservationDrainRequest) \<Rightarrow> (ObservationDrainRequest, json option, 'w) adapterOp \<Rightarrow> 'w handler" where
  "drainRelayObservations cd dec op body s =
     (case dec body of
        Inl e \<Rightarrow> (Inl (invalidRequest e), s)
      | Inr input \<Rightarrow>
          if OD_AfterSequence input < 0 \<or> OD_Limit input < 1 \<or> OD_Limit input > 1000
             \<or> (case OD_AfterBootID input of Some b \<Rightarrow> \<not> uuidValid cd b | None \<Rightarrow> False) then
            (Inl (invalidRequest (errorsNew ''observation cursor or limit is invalid'')), s)
          else answerOK (op input s))"

definition inspectNativeClient ::
    "(string \<Rightarrow> go_error + NativeClientInspectionRequest) \<Rightarrow> (NativeClientInspectionRequest, json option, 'w) adapterOp \<Rightarrow> 'w handler" where
  "inspectNativeClient dec op body s =
     (case dec body of
        Inl e \<Rightarrow> (Inl (invalidRequest e), s)
      | Inr input \<Rightarrow> (case ValidateManagedUsername (NI_ManagedUsername input) of
          Some e \<Rightarrow> (Inl (invalidRequest e), s)
        | None \<Rightarrow>
            if NI_ClientKind input \<noteq> RuntimeClaude \<and> NI_ClientKind input \<noteq> RuntimeCodex then
              (Inl (invalidRequest (errorsNew ''native client kind must be claude or codex'')), s)
            else answerOK (op input s)))"

definition cancelOperation :: "'w handler" where
  "cancelOperation body s = (Inl (APIErr (apiError ErrUnsupportedOperation
     ''Only queued target dispatch can be cancelled by the control plane'')), s)"

definition operation_get :: "(DesiredManifest \<Rightarrow> json) \<Rightarrow> string \<Rightarrow> Journal \<Rightarrow> BridgeResponse" where
  "operation_get em operationID j =
     (case Journal_Operation operationID j of
        Inl _ \<Rightarrow> bridgeError 404 (apiError ErrInvalidRequest ''Bridge operation was not found'')
      | Inr p \<Rightarrow> \<lparr>RESP_Status = 200, RESP_Body = encodeOperation em p\<rparr>)"

section \<open>Routes\<close>

datatype route_wrapper = Mutation | Ephemeral | Direct

text \<open>The table of \<open>Router\<close>: method, path and wrapper.\<close>

definition routes :: "((string \<times> string) \<times> route_wrapper) list" where
  "routes =
     [((''GET'', ''/v1/health''), Direct),
      ((''POST'', ''/v1/nodes/refresh''), Mutation),
      ((''POST'', ''/v1/targets/scan''), Mutation),
      ((''POST'', ''/v1/local/skills/export''), Ephemeral),
      ((''POST'', ''/v1/local/skills/export-batch''), Ephemeral),
      ((''POST'', ''/v1/local/mcp/preview''), Ephemeral),
      ((''POST'', ''/v1/local/mcp/capture''), Ephemeral),
      ((''POST'', ''/v1/targets/preflight''), Mutation),
      ((''POST'', ''/v1/targets/apply''), Mutation),
      ((''POST'', ''/v1/targets/edit''), Mutation),
      ((''POST'', ''/v1/targets/restore''), Mutation),
      ((''POST'', ''/v1/targets/reconcile''), Mutation),
      ((''GET'', ''/v1/backups''), Direct),
      ((''POST'', ''/v1/backups/gc''), Mutation)]
     @ map (\<lambda>action. ((''POST'', ''/v1/relay/'' @ action), Mutation)) [''status'', ''start'', ''stop'', ''restart'', ''health'']
     @ [((''POST'', ''/v1/relay/governance/capability''), Ephemeral),
      ((''POST'', ''/v1/relay/governance/session-canary''), Ephemeral),
      ((''POST'', ''/v1/relay/governance/reload''), Mutation),
      ((''POST'', ''/v1/relay/governance/contracts/observe''), Ephemeral),
      ((''POST'', ''/v1/relay/governance/confirmations/list''), Ephemeral),
      ((''POST'', ''/v1/relay/governance/confirmations/approve''), Mutation),
      ((''POST'', ''/v1/relay/governance/confirmations/reject''), Mutation),
      ((''POST'', ''/v1/relay/governance/observations/drain''), Ephemeral),
      ((''POST'', ''/v1/native-clients/inspect''), Ephemeral),
      ((''GET'', ''/v1/operations/{operationID}''), Direct),
      ((''POST'', ''/v1/operations/{operationID}/cancel''), Mutation)]"

section \<open>Start of the server\<close>

text \<open>
  \<open>NewServer\<close> with the adapter's recovery, when it has one, instead of the journal's. \<open>rec\<close> is that
  method; it acts on the journal and on the world.
\<close>

definition NewServer ::
    "(string \<Rightarrow> bool) \<Rightarrow> time \<Rightarrow> (Journal \<times> 'w \<Rightarrow> go_error option \<times> Journal \<times> 'w) option \<Rightarrow> string \<Rightarrow> Journal \<times> 'w
     \<Rightarrow> go_error option \<times> Journal \<times> 'w" where
  "NewServer visit now rec key = (\<lambda>(j, w).
     if length key \<noteq> 32 then (Some (errorsNew ''Bridge HMAC key must be 32 bytes''), j, w)
     else let (e, j1, w1) = (case rec of
            Some f \<Rightarrow> f (j, w)
          | None \<Rightarrow> (case Journal_RecoverOperations now j of Inl e \<Rightarrow> (Some e, j, w) | Inr j' \<Rightarrow> (None, j', w)))
       in case e of
            Some err \<Rightarrow> (Some err, j1, w1)
          | None \<Rightarrow> (case RecoverPendingIdempotency visit j1 of
              Inl err \<Rightarrow> (Some err, j1, w1) | Inr j2 \<Rightarrow> (None, j2, w1)))"

section \<open>Replays\<close>

text \<open>The answer stored for a key and request hash.\<close>

definition storedAnswer :: "Journal \<Rightarrow> string \<Rightarrow> string \<Rightarrow> BridgeResponse option" where
  "storedAnswer j key hash =
     (case bget (J_idempotency j) key of
        Some (Valid record) \<Rightarrow>
          if IR_RequestHash record = hash \<and> IR_Status record \<noteq> 0
          then Some \<lparr>RESP_Status = IR_Status record, RESP_Body = IR_Response record\<rparr> else None
      | _ \<Rightarrow> None)"

definition requestKey :: "http_request \<Rightarrow> string" where
  "requestKey r = TrimSpace (hr_key r)"

definition keyAllowed :: "http_request \<Rightarrow> bool" where
  "keyAllowed r = (8 \<le> length (requestKey r) \<and> length (requestKey r) \<le> 200)"

definition hashOf :: "wrapper_env \<Rightarrow> http_request \<Rightarrow> string" where
  "hashOf we r = requestHash (we_sha we) (hr_method r) (hr_uri r) (hr_body r)"

text \<open>The handlers write operations, recovery records and backups, never idempotency records.\<close>

definition keepsIdempotency :: "(Journal \<times> 'w \<Rightarrow> 'a \<times> Journal \<times> 'w) \<Rightarrow> bool" where
  "keepsIdempotency f = (\<forall>j w. J_idempotency (fst (snd (f (j, w)))) = J_idempotency j)"

lemma boltPut_key: "8 \<le> length k \<Longrightarrow> length k \<le> 200 \<Longrightarrow> boltPut k v b = Inr (bput k v b)"
  by (auto simp: boltPut_def boltMaxKeySize_def)

lemma IdempotencyPut_Inr:
  assumes "IdempotencyPut jlen now key hash status response j = Inr j'"
  shows "j' = j\<lparr>J_idempotency := bput key (Valid (answeredRecord now hash status response)) (J_idempotency j)\<rparr>"
  using assms boltPut_Inr by (fastforce simp: IdempotencyPut_def split: if_splits sum.splits)

lemma mutationBegin_cases:
  assumes "keyAllowed r"
  shows "mutationBegin we t r j =
    (case bget (J_idempotency j) (requestKey r) of
       None \<Rightarrow> (Inr (requestKey r, hashOf we r),
          j\<lparr>J_idempotency := bput (requestKey r) (Valid (pendingRecord t (hashOf we r) (operationIDFromBody (we_un we) (hr_body r))))
             (J_idempotency j)\<rparr>)
     | Some Corrupt \<Rightarrow> (Inl (bridgeError 409 (asAPIError decodeError)), j)
     | Some (Valid record) \<Rightarrow>
         if IR_RequestHash record \<noteq> hashOf we r then (Inl (bridgeError 409 (asAPIError conflictError)), j)
         else if IR_Status record \<noteq> 0 then (Inl \<lparr>RESP_Status = IR_Status record, RESP_Body = IR_Response record\<rparr>, j)
         else case recoveredIdempotencyResponse (we_em we) (IR_OperationID record) j of
           None \<Rightarrow> (Inl (bridgeError 409 (apiError ErrIdempotencyConflict ''Idempotent operation is still running'')), j)
         | Some (status, recovered) \<Rightarrow>
             (case IdempotencyPut (we_jlen we) t (requestKey r) (hashOf we r) status recovered j of
                Inl _ \<Rightarrow> (Inl (bridgeError 500 (apiError ErrInvalidRequest
                  ''Bridge could not persist the recovered idempotent result'')), j)
              | Inr j2 \<Rightarrow> (Inl \<lparr>RESP_Status = status, RESP_Body = recovered\<rparr>, j2)))"
  using assms
  by (auto simp: mutationBegin_def keyAllowed_def requestKey_def [symmetric] hashOf_def [symmetric] IdempotencyBegin_def Let_def boltPut_key
      split: option.split entry.split)

lemma mutationBegin_refused: "\<not> keyAllowed r \<Longrightarrow> \<exists>e. mutationBegin we t r j = (Inl (bridgeError 400 e), j)"
  unfolding mutationBegin_def keyAllowed_def requestKey_def Let_def by (auto simp: not_le)

lemma storedAnswer_put:
  "storedAnswer (j\<lparr>J_idempotency := bput key (Valid (answeredRecord now hash status response)) b\<rparr>) key hash'
    = (if hash' = hash \<and> status \<noteq> 0 then Some \<lparr>RESP_Status = status, RESP_Body = response\<rparr> else None)"
  by (auto simp: storedAnswer_def answeredRecord_def)

lemma mutation_replays:
  assumes "storedAnswer j (requestKey r) (hashOf we r) = Some resp" and "keyAllowed r"
  shows "mutation we t u h r (j, w) = (resp, j, w)"
  using assms
  by (auto simp: mutation_def mutationBegin_cases storedAnswer_def split: option.splits entry.splits if_splits)

lemma mutation_conflicts:
  assumes "storedAnswer j (requestKey r) hash = Some resp" and "keyAllowed r" and "hash \<noteq> hashOf we r"
  shows "mutation we t u h r (j, w) = (bridgeError 409 (asAPIError conflictError), j, w)"
  using assms
  by (auto simp: mutation_def mutationBegin_cases storedAnswer_def split: option.splits entry.splits if_splits)

text \<open>After a mutation, a stored answer for this request is the response that was sent.\<close>

lemma mutation_stores:
  assumes "keepsIdempotency (h (hr_body r))" and "keyAllowed r"
    and m: "mutation we t u h r (j, w) = (resp, j', w')"
    and st: "storedAnswer j' (requestKey r) (hashOf we r) = Some a"
  shows "resp = a"
proof (cases "bget (J_idempotency j) (requestKey r)")
  case None
  define j1 where "j1 = j\<lparr>J_idempotency := bput (requestKey r) (Valid (pendingRecord t (hashOf we r) (operationIDFromBody (we_un we) (hr_body r))))
             (J_idempotency j)\<rparr>"
  have b: "mutationBegin we t r j = (Inr (requestKey r, hashOf we r), j1)"
    using None assms(2) by (simp add: mutationBegin_cases j1_def)
  obtain out j2 w2 where h: "h (hr_body r) (j1, w) = (out, j2, w2)" by (cases "h (hr_body r) (j1, w)")
  have f: "mutationFinish we u (requestKey r) (hashOf we r) out j2 = (resp, j')"
    using m b h by (auto simp: mutation_def split: prod.splits)
  have "J_idempotency j2 = J_idempotency j1" using assms(1) h by (metis fst_conv keepsIdempotency_def snd_conv)
  then have pend: "storedAnswer j2 (requestKey r) (hashOf we r) = None"
    by (simp add: storedAnswer_def j1_def pendingRecord_def)
  obtain status result where sr: "(case out of
            Inl e \<Rightarrow> (statusForBridgeError (asAPIError e), Some (JObj [(''error'', encodeAPIError (asAPIError e))]))
          | Inr sr \<Rightarrow> sr) = (status, result)" by fastforce
  show ?thesis
  proof (cases result)
    case None
    then have "j' = j2" using f sr by (simp add: mutationFinish_def)
    with st pend show ?thesis by simp
  next
    case (Some enc)
    show ?thesis
    proof (cases "IdempotencyPut (we_jlen we) u (requestKey r) (hashOf we r) status enc j2")
      case (Inl e)
      then have "j' = j2" using f sr Some by (simp add: mutationFinish_def)
      with st pend show ?thesis by simp
    next
      case (Inr j3)
      then have "j' = j3" and "resp = \<lparr>RESP_Status = status, RESP_Body = enc\<rparr>"
        using f sr Some by (simp_all add: mutationFinish_def)
      with st IdempotencyPut_Inr [OF Inr] show ?thesis by (simp add: storedAnswer_put split: if_splits)
    qed
  qed
next
  case (Some v)
  then show ?thesis using m st assms(2)
    by (auto simp: mutation_def mutationBegin_cases storedAnswer_put dest!: IdempotencyPut_Inr
        split: entry.splits if_splits option.splits sum.splits)
      (auto simp: storedAnswer_def split: if_splits)
qed

text \<open>
  Replays of a mutation. Once a mutation has left an answer for its key and request in the journal, that
  answer is the response it sent; every later request with the same key, method, path and body gets the same
  response, runs no handler and changes nothing; and a request that uses the key with another
  content is refused with 409 and changes nothing.
\<close>

theorem mutation_replay:
  assumes "keepsIdempotency (h (hr_body r))" and "keyAllowed r"
    and "mutation we t u h r (j, w) = (resp, j', w')"
    and "storedAnswer j' (requestKey r) (hashOf we r) = Some a"
  shows "a = resp \<and> mutation we t2 u2 h2 r (j', w2) = (resp, j', w2)
    \<and> (requestKey r2 = requestKey r \<and> hashOf we r2 \<noteq> hashOf we r \<longrightarrow>
        mutation we t2 u2 h2 r2 (j', w2) = (bridgeError 409 (asAPIError conflictError), j', w2))"
proof -
  have a: "a = resp" using mutation_stores [OF assms] by simp
  moreover have "mutation we t2 u2 h2 r (j', w2) = (resp, j', w2)"
    by (rule mutation_replays) (use assms(2,4) a in simp_all)
  moreover have "mutation we t2 u2 h2 r2 (j', w2) = (bridgeError 409 (asAPIError conflictError), j', w2)"
    if "requestKey r2 = requestKey r" "hashOf we r2 \<noteq> hashOf we r"
    using that assms(2,4) by (intro mutation_conflicts [of _ _ "hashOf we r"]) (auto simp: keyAllowed_def)
  ultimately show ?thesis by blast
qed

definition exampleWrapper :: wrapper_env where
  "exampleWrapper = \<lparr>we_sha = take 32, we_un = (\<lambda>_. Some ''op-1''), we_em = (\<lambda>_. JNull), we_jlen = (\<lambda>_. 2)\<rparr>"

definition exampleHttp :: http_request where
  "exampleHttp = \<lparr>hr_method = ''POST'', hr_uri = ''/v1/targets/apply'', hr_key = ''request-1'', hr_body = ''{}''\<rparr>"

definition exampleHandler :: "unit handler" where
  "exampleHandler body s = (Inr (200, Some (JObj [])), s)"

lemma exampleHttp_key: "keyAllowed exampleHttp"
  by code_simp

theorem mutation_replay_witness:
  "\<exists>j'. mutation exampleWrapper 1 2 exampleHandler exampleHttp (emptyJournal, ()) = (\<lparr>RESP_Status = 200, RESP_Body = JObj []\<rparr>, j', ())
     \<and> mutation exampleWrapper 3 4 cancelOperation exampleHttp (j', ()) = (\<lparr>RESP_Status = 200, RESP_Body = JObj []\<rparr>, j', ())"
proof -
  let ?r = "\<lparr>RESP_Status = 200, RESP_Body = JObj []\<rparr>"
  have keep: "keepsIdempotency (exampleHandler (hr_body exampleHttp))"
    by (simp add: keepsIdempotency_def exampleHandler_def)
  have "fst (mutation exampleWrapper 1 2 exampleHandler exampleHttp (emptyJournal, ())) = ?r" by code_simp
  then obtain j' where m: "mutation exampleWrapper 1 2 exampleHandler exampleHttp (emptyJournal, ()) = (?r, j', ())"
    by (cases "mutation exampleWrapper 1 2 exampleHandler exampleHttp (emptyJournal, ())") simp
  have "storedAnswer (fst (snd (mutation exampleWrapper 1 2 exampleHandler exampleHttp (emptyJournal, ()))))
      (requestKey exampleHttp) (hashOf exampleWrapper exampleHttp) = Some ?r" by code_simp
  then have st: "storedAnswer j' (requestKey exampleHttp) (hashOf exampleWrapper exampleHttp) = Some ?r" using m by simp
  have "mutation exampleWrapper 3 4 cancelOperation exampleHttp (j', ()) = (?r, j', ())"
    by (rule conjunct1 [OF conjunct2 [OF mutation_replay [OF keep exampleHttp_key m st]]])
  with m show ?thesis by blast
qed

section \<open>Handlers run once\<close>

text \<open>A run of labelled steps, with the labels it had, the last one first.\<close>

inductive labelledRun :: "('s \<Rightarrow> 'k option \<Rightarrow> 's \<Rightarrow> bool) \<Rightarrow> 's \<Rightarrow> 'k list \<Rightarrow> 's \<Rightarrow> bool" for lstep where
  run_Nil: "labelledRun lstep s [] s"
| run_quiet: "labelledRun lstep s ks s' \<Longrightarrow> lstep s' None s'' \<Longrightarrow> labelledRun lstep s ks s''"
| run_start: "labelledRun lstep s ks s' \<Longrightarrow> lstep s' (Some k) s'' \<Longrightarrow> labelledRun lstep s (k # ks) s''"

text \<open>
  A system whose labelled steps may start something for a key. If a step that starts a key finds it absent
  and leaves it present, and no step removes a key, then no run starts a key twice.
\<close>

locale keyed_start =
  fixes present :: "'s \<Rightarrow> 'k \<Rightarrow> bool"
    and lstep :: "'s \<Rightarrow> 'k option \<Rightarrow> 's \<Rightarrow> bool"
  assumes start_fresh: "lstep s (Some k) s' \<Longrightarrow> \<not> present s k"
    and start_marks: "lstep s (Some k) s' \<Longrightarrow> present s' k"
    and step_keeps: "lstep s l s' \<Longrightarrow> present s k \<Longrightarrow> present s' k"
begin

lemma run_once: "labelledRun lstep s ks s' \<Longrightarrow> distinct ks \<and> (\<forall>k \<in> set ks. present s' k)"
proof (induction rule: labelledRun.induct)
  case (run_start s ks s' k s'')
  then have "k \<notin> set ks" using start_fresh by blast
  with run_start show ?case using start_marks step_keeps by auto
qed (auto dest: step_keeps)

lemma run_not_present: "labelledRun lstep s ks s' \<Longrightarrow> present s k \<Longrightarrow> k \<notin> set ks \<and> present s' k"
proof (induction rule: labelledRun.induct)
  case (run_start s ks s' k' s'')
  then show ?case using start_fresh step_keeps by (metis set_ConsD)
qed (auto dest: step_keeps)

end

text \<open>
  What happens in one life of the server, as requests interleave: a request begins (and is answered, or starts
  its handler), a running handler writes to the journal, a handler returns and its answer is stored. The state
  is the journal with the keys and hashes of the handlers that are running.
\<close>

record server_state =
  ss_journal :: Journal
  ss_running :: "(string \<times> string) list"

inductive serverStep :: "wrapper_env \<Rightarrow> server_state \<Rightarrow> string option \<Rightarrow> server_state \<Rightarrow> bool" for we where
  answer: "mutationBegin we t r (ss_journal s) = (Inl resp, j') \<Longrightarrow>
    serverStep we s None (s\<lparr>ss_journal := j'\<rparr>)"
| start: "mutationBegin we t r (ss_journal s) = (Inr (key, hash), j') \<Longrightarrow>
    serverStep we s (Some key) (s\<lparr>ss_journal := j', ss_running := (key, hash) # ss_running s\<rparr>)"
| work: "J_idempotency j' = J_idempotency (ss_journal s) \<Longrightarrow>
    serverStep we s None (s\<lparr>ss_journal := j'\<rparr>)"
| finish: "(key, hash) \<in> set (ss_running s) \<Longrightarrow> mutationFinish we u key hash out (ss_journal s) = (resp, j') \<Longrightarrow>
    serverStep we s None (s\<lparr>ss_journal := j', ss_running := remove1 (key, hash) (ss_running s)\<rparr>)"

inductive_cases serverStep_startE: "serverStep we s (Some key) s'"
inductive_cases serverStep_quietE: "serverStep we s None s'"

definition hasRecord :: "server_state \<Rightarrow> string \<Rightarrow> bool" where
  "hasRecord s key = (bget (J_idempotency (ss_journal s)) key \<noteq> None)"

lemma mutationBegin_start:
  assumes "mutationBegin we t r j = (Inr (key, hash), j')"
  shows "keyAllowed r \<and> key = requestKey r \<and> hash = hashOf we r \<and> bget (J_idempotency j) key = None
    \<and> j' = j\<lparr>J_idempotency := bput key (Valid (pendingRecord t hash (operationIDFromBody (we_un we) (hr_body r)))) (J_idempotency j)\<rparr>"
proof -
  have k: "keyAllowed r" using mutationBegin_refused [of r we t j] assms by auto
  show ?thesis using assms k
    by (auto simp: mutationBegin_cases split: option.splits entry.splits if_splits sum.splits)
qed

lemma mutationBegin_frame:
  assumes "mutationBegin we t r j = (x, j')"
  shows "bget (J_idempotency j) k \<noteq> None \<Longrightarrow> bget (J_idempotency j') k \<noteq> None"
proof (cases "keyAllowed r")
  case False
  then show "bget (J_idempotency j) k \<noteq> None \<Longrightarrow> bget (J_idempotency j') k \<noteq> None"
    using mutationBegin_refused [of r we t j] assms by auto
next
  case True
  then show "bget (J_idempotency j) k \<noteq> None \<Longrightarrow> bget (J_idempotency j') k \<noteq> None" using assms
    by (auto simp: mutationBegin_cases dest!: IdempotencyPut_Inr split: option.splits entry.splits if_splits sum.splits)
qed

lemma mutationFinish_cases:
  assumes "mutationFinish we u key hash out j = (resp, j')"
  obtains "j' = j" | status enc where "IdempotencyPut (we_jlen we) u key hash status enc j = Inr j'"
      and "resp = \<lparr>RESP_Status = status, RESP_Body = enc\<rparr>"
      and "(case out of Inl e \<Rightarrow> status = statusForBridgeError (asAPIError e) | Inr sr \<Rightarrow> sr = (status, Some enc))"
  using assms by (auto simp: mutationFinish_def Let_def split: sum.splits option.splits prod.splits)

interpretation server: keyed_start hasRecord "serverStep we"
proof
  fix s s' l k
  show "\<not> hasRecord s k" if "serverStep we s (Some k) s'"
    using that by (auto simp: hasRecord_def dest!: mutationBegin_start elim!: serverStep_startE)
  show "hasRecord s' k" if "serverStep we s (Some k) s'"
    using that by (auto simp: hasRecord_def dest!: mutationBegin_start elim!: serverStep_startE)
  show "hasRecord s' k" if "serverStep we s l s'" and "hasRecord s k"
    using that
  proof (cases rule: serverStep.cases)
    case (answer t r resp j')
    then show ?thesis using mutationBegin_frame [OF answer(3)] that(2) by (simp add: hasRecord_def)
  next
    case (start t r key hash j')
    then show ?thesis using mutationBegin_frame [OF start(3)] that(2) by (simp add: hasRecord_def)
  next
    case (work j')
    then show ?thesis using that(2) by (simp add: hasRecord_def)
  next
    case (finish key hash u out resp j')
    from finish(4) show ?thesis
      by (rule mutationFinish_cases) (use finish(2) that(2) in \<open>auto simp: hasRecord_def dest!: IdempotencyPut_Inr\<close>)
  qed
qed

text \<open>
  C5. At most one run of a handler per key. However requests, handlers and their answers interleave between two
  starts of the server, the handler of one Idempotency-Key is started at most once, and not at all
  for a key that had a record when the server started.
\<close>

theorem handler_runs_once:
  assumes "labelledRun (serverStep we) s keys s'"
  shows "distinct keys \<and> (\<forall>key \<in> set keys. bget (J_idempotency (ss_journal s)) key = None
     \<and> bget (J_idempotency (ss_journal s')) key \<noteq> None)"
  using server.run_once [OF assms] server.run_not_present [OF assms] unfolding hasRecord_def by blast

theorem handler_runs_once_witness:
  "\<exists>s'. labelledRun (serverStep exampleWrapper) \<lparr>ss_journal = emptyJournal, ss_running = []\<rparr> [''request-1''] s'
     \<and> bget (J_idempotency (ss_journal s')) ''request-1'' \<noteq> None"
proof -
  let ?s = "\<lparr>ss_journal = emptyJournal, ss_running = []\<rparr>"
  obtain x j' where b: "mutationBegin exampleWrapper 1 exampleHttp (ss_journal ?s) = (x, j')" by fastforce
  moreover have "fst (mutationBegin exampleWrapper 1 exampleHttp (ss_journal ?s)) = Inr (''request-1'', hashOf exampleWrapper exampleHttp)"
    by code_simp
  ultimately have b': "mutationBegin exampleWrapper 1 exampleHttp (ss_journal ?s) = (Inr (''request-1'', hashOf exampleWrapper exampleHttp), j')"
    by simp
  let ?s' = "?s\<lparr>ss_journal := j', ss_running := (''request-1'', hashOf exampleWrapper exampleHttp) # ss_running ?s\<rparr>"
  have "labelledRun (serverStep exampleWrapper) ?s [''request-1''] ?s'"
    by (rule run_start [OF run_Nil]) (rule serverStep.start [OF b'])
  moreover from handler_runs_once [OF this] have "bget (J_idempotency (ss_journal ?s')) ''request-1'' \<noteq> None" by simp
  ultimately show ?thesis by blast
qed

section \<open>A crash between the handler and its answer\<close>

lemma bounded_clean: "\<not> hasSensitiveValue (encodeAPIError (BoundedAPIError e c))"
  by (rule encodeAPIError_clean) (rule bounded_no_details [OF BoundedAPIError_bounded])

lemma PutOperation_safe:
  assumes "operationID \<noteq> ''''" and "int (length operationID) \<le> boltMaxKeySize"
  shows "persistSafeOperation em now operationID kind targetID result j =
    j\<lparr>J_operations := bput operationID (Valid (safeOperation now operationID kind targetID result j)) (J_operations j)\<rparr>"
proof -
  define p where "p = safeOperation now operationID kind targetID result j"
  have id: "OP_ID p = operationID" by (simp add: p_def safeOperation_def Let_def split: prod.split)
  have "\<not> hasSensitiveValue (encodeOperation em p)"
    unfolding encodeOperation_clean encodeOperationTarget_clean
    by (auto simp: p_def safeOperation_def Let_def safe_result_clean split: prod.splits if_splits)
      (auto simp: journalSafeTargetResult_def zeroResult_def bounded_clean)
  then show ?thesis using assms id
    by (simp add: persistSafeOperation_def PutOperation_def boltPut_def p_def [symmetric])
qed

text \<open>The results from which the journal can rebuild the answer: an error, or a final result that is not a failure with an error in it.\<close>

definition rebuildable :: "go_error + TargetResult \<Rightarrow> bool" where
  "rebuildable x = (case x of Inl _ \<Rightarrow> True
     | Inr r \<Rightarrow> (TR_Status r = '''' \<or> IsTerminalOperationStatus (TR_Status r))
         \<and> \<not> (TR_Status r = OperationFailed \<and> TR_Error r \<noteq> None))"

definition answerOf :: "outcome \<Rightarrow> int \<times> json" where
  "answerOf out = (case out of
      Inl e \<Rightarrow> (statusForBridgeError (asAPIError e), JObj [(''error'', encodeAPIError (asAPIError e))])
    | Inr (status, result) \<Rightarrow> (status, the result))"

lemma asAPIError_bounded: "is_bounded (asAPIError e)"
  by (simp add: asAPIError_def BoundedAPIError_bounded)

lemma safeOperation_parts:
  "OP_Status (safeOperation now i k t r j) = (if TR_Status r = '''' then OperationFailed else TR_Status r)"
  "\<exists>jid. OP_Targets (safeOperation now i k t r j) = [\<lparr>OT_TargetID = t,
      OT_Status = (if TR_Status r = '''' then OperationFailed else TR_Status r), OT_SaltJID = jid,
      OT_Result = Some (journalSafeTargetResult r),
      OT_Error = (if TR_Status r = OperationSucceeded then None else TR_Error (journalSafeTargetResult r))\<rparr>]"
proof -
  have s: "TR_Status (journalSafeTargetResult r) = TR_Status r" by (simp add: journalSafeTargetResult_def)
  show "OP_Status (safeOperation now i k t r j) = (if TR_Status r = '''' then OperationFailed else TR_Status r)"
    by (simp add: safeOperation_def Let_def s split: prod.split)
  show "\<exists>jid. OP_Targets (safeOperation now i k t r j) = [\<lparr>OT_TargetID = t,
      OT_Status = (if TR_Status r = '''' then OperationFailed else TR_Status r), OT_SaltJID = jid,
      OT_Result = Some (journalSafeTargetResult r),
      OT_Error = (if TR_Status r = OperationSucceeded then None else TR_Error (journalSafeTargetResult r))\<rparr>]"
    by (simp add: safeOperation_def Let_def s split: prod.split)
qed

lemma recovered_of_safe:
  assumes "operationID \<noteq> ''''" and "int (length operationID) \<le> boltMaxKeySize"
    and "TR_Status r = '''' \<or> IsTerminalOperationStatus (TR_Status r)"
  shows "recoveredIdempotencyResponse em operationID (persistSafeOperation em now operationID kind targetID r j) =
    Some (case TR_Error (journalSafeTargetResult r) of
       Some e \<Rightarrow> if TR_Status r = OperationFailed then (statusForBridgeError e, JObj [(''error'', encodeAPIError e)])
                 else (200, encodeTargetResult em (journalSafeTargetResult r))
     | None \<Rightarrow> (200, encodeTargetResult em (journalSafeTargetResult r)))"
proof -
  define p where "p = safeOperation now operationID kind targetID r j"
  define rs where "rs = journalSafeTargetResult r"
  have fin: "IsTerminalOperationStatus (OP_Status p)"
    using assms(3) by (auto simp: p_def safeOperation_parts IsTerminalOperationStatus_def)
  obtain jid where tg: "OP_Targets p = [\<lparr>OT_TargetID = targetID,
      OT_Status = (if TR_Status r = '''' then OperationFailed else TR_Status r), OT_SaltJID = jid,
      OT_Result = Some rs, OT_Error = (if TR_Status r = OperationSucceeded then None else TR_Error rs)\<rparr>]"
    using safeOperation_parts(2) [of now operationID kind targetID r j] by (auto simp: p_def rs_def)
  have op: "Journal_Operation operationID (persistSafeOperation em now operationID kind targetID r j) = Inr p"
    by (simp add: PutOperation_safe [OF assms(1,2)] Journal_Operation_def p_def)
  have st: "TR_Status rs = TR_Status r" by (simp add: rs_def journalSafeTargetResult_def)
  have same: "rs\<lparr>TR_Error := None\<rparr> = rs" if "TR_Error rs = None" using that by (cases rs) simp
  have clean: "\<not> hasSensitiveValue (encodeTargetResult em rs)" by (simp add: rs_def safe_result_clean)
  have eclean: "\<not> hasSensitiveValue (JObj [(''error'', encodeAPIError e)])" if "TR_Error rs = Some e" for e
  proof -
    have "is_bounded e" using that by (auto simp: rs_def journalSafeTargetResult_def zeroResult_def BoundedAPIError_bounded)
    then show ?thesis by (simp add: clean_simps encodeAPIError_clean bounded_no_details)
  qed
  show ?thesis unfolding recoveredIdempotencyResponse_def op rs_def [symmetric]
    using assms(1) fin tg st clean eclean by (cases "TR_Error rs") (auto simp: Let_def same recoveredAnswer_def)
qed

text \<open>The journal after a handler that acts on a target gives back the answer the handler returned.\<close>

lemma runOnTarget_recovers:
  assumes "operationID \<noteq> ''''" and "int (length operationID) \<le> boltMaxKeySize"
    and run: "runOnTarget em t u operationID kind targetID act (j, w) = (out, j2, w2)"
    and res: "act (persistRunningOperation em t operationID kind targetID j, w) = (x, j1, w1)" and "rebuildable x"
  shows "recoveredIdempotencyResponse em operationID j2 = Some (answerOf out)"
proof (cases x)
  case (Inl e)
  define f where "f = zeroResult\<lparr>TR_Status := OperationFailed, TR_Error := Some (asAPIError e)\<rparr>"
  have out: "out = Inl e" and j2: "j2 = persistSafeOperation em u operationID kind targetID f j1"
    using run res Inl by (auto simp: runOnTarget_def f_def)
  have "TR_Error (journalSafeTargetResult f) = Some (asAPIError e)" and "TR_Status f = OperationFailed"
    by (simp_all add: f_def journalSafeTargetResult_def zeroResult_def BoundedAPIError_idem asAPIError_bounded)
  then show ?thesis using recovered_of_safe [OF assms(1,2), of f em u kind targetID j1]
    by (simp add: out j2 answerOf_def IsTerminalOperationStatus_def)
next
  case (Inr r)
  have out: "out = Inr (200, Some (encodeTargetResult em (journalSafeTargetResult r)))"
    and j2: "j2 = persistSafeOperation em u operationID kind targetID (journalSafeTargetResult r) j1"
    using run res Inr by (auto simp: runOnTarget_def Let_def)
  have st: "TR_Status (journalSafeTargetResult r) = TR_Status r" by (simp add: journalSafeTargetResult_def)
  have er: "TR_Error (journalSafeTargetResult r) = None \<or> TR_Status r \<noteq> OperationFailed"
    using assms(5) Inr by (auto simp: rebuildable_def journalSafeTargetResult_def zeroResult_def)
  have "TR_Status (journalSafeTargetResult r) = '''' \<or> IsTerminalOperationStatus (TR_Status (journalSafeTargetResult r))"
    using assms(5) Inr st by (auto simp: rebuildable_def)
  from recovered_of_safe [OF assms(1,2) this, of em u kind targetID j1] er show ?thesis
    by (auto simp: out j2 answerOf_def st journalSafe_idem split: option.splits)
qed

lemma persist_keeps [simp]:
  "J_idempotency (persistRunningOperation em now i k t j) = J_idempotency j"
  "J_idempotency (persistSafeOperation em now i k t r j) = J_idempotency j"
  by (simp_all add: persistRunningOperation_def persistSafeOperation_def PutOperation_def split: sum.split)

lemma runOnTarget_keeps: "keepsIdempotency act \<Longrightarrow> keepsIdempotency (runOnTarget em t u i k tid act)"
  unfolding keepsIdempotency_def runOnTarget_def
  by (auto simp: Let_def split: prod.split sum.split) (metis fst_conv persist_keeps(1) snd_conv)+

lemma commit_keeps:
  assumes "\<And>input. keepsIdempotency (adapterCommit input)"
  shows "keepsIdempotency (commit cd pe em dec t u adapterCommit kind body)"
  unfolding keepsIdempotency_def commit_def
  by (simp add: Let_def runOnTarget_keeps [OF assms, unfolded keepsIdempotency_def, rule_format]
      split: sum.split option.split if_split)

lemma RecoverPending_keeps_answerable:
  assumes "RecoverPendingIdempotency visit j = Inr j'" and "bucket_ok (J_idempotency j)"
    and "bget (J_idempotency j) key = Some (Valid record)" and "keepPending (J_operations j) record"
  shows "bget (J_idempotency j') key = Some (Valid record) \<and> J_operations j' = J_operations j"
  using assms by (auto simp: RecoverPendingIdempotency_def bget_filter split: if_splits)

lemma recovered_keepPending:
  assumes "recoveredIdempotencyResponse em operationID j = Some a" and "IR_OperationID record = operationID"
  shows "keepPending (J_operations j) record"
  using assms
  by (auto simp: recoveredIdempotencyResponse_def keepPending_def answerable_def Journal_Operation_def Let_def
      split: if_splits sum.splits option.splits entry.splits)

lemma recovered_cong:
  assumes "J_operations j = J_operations j'"
  shows "recoveredIdempotencyResponse em i j = recoveredIdempotencyResponse em i j'"
proof -
  have "Journal_Operation i j = Journal_Operation i j'" using assms by (simp add: Journal_Operation_def)
  then show ?thesis by (simp only: recoveredIdempotencyResponse_def)
qed

lemma recovered_clean:
  "recoveredIdempotencyResponse em operationID j = Some (status, response) \<Longrightarrow> \<not> hasSensitiveValue response"
  by (auto simp: recoveredIdempotencyResponse_def Let_def split: if_splits sum.splits option.splits prod.splits)

text \<open>
  C6. A crash after the work, before the answer. A commit has started its handler, the adapter has acted and the
  handler has recorded the operation, then the process stops before the answer is stored. After the restart, a
  retry of the request is not run again: it gets exactly the response that the first attempt would have sent.
  (The adapter's result has to be an error or a final result that is not a failure with an error in it; the
  response has to fit the journal's limit.)
\<close>

theorem commit_crash_recovers_answer:
  assumes ok: "bucket_ok (J_idempotency j)"
    and b: "mutationBegin we t r j = (Inr (key, hash), j1)"
    and dec: "dec (hr_body r) = Inr input" and kind: "CR_OperationKind input = kind"
    and valid: "validateCommit cd pe input = None" and un: "we_un we (hr_body r) = Some (CR_OperationID input)"
    and fit: "int (length (CR_OperationID input)) \<le> boltMaxKeySize"
    and act: "adapterCommit input (persistRunningOperation (we_em we) t1 (CR_OperationID input) kind (T_ID (CR_Target input)) j1, w) = (x, ja, wa)"
    and keeps: "\<And>i. keepsIdempotency (adapterCommit i)" and rb: "rebuildable x"
    and h: "commit cd pe (we_em we) dec t1 u1 adapterCommit kind (hr_body r) (j1, w) = (out, j2, w2)"
    and small: "we_jlen we (snd (answerOf out)) \<le> maxResponseBytes"
    and restart: "RecoverPendingIdempotency visit j2 = Inr j3"
  shows "fst (mutationBegin we t3 r j3) = Inl (fst (mutationFinish we u key hash out j2))
    \<and> fst (mutationFinish we u key hash out j2) = \<lparr>RESP_Status = fst (answerOf out), RESP_Body = snd (answerOf out)\<rparr>"
proof -
  let ?id = "CR_OperationID input"
  have same: "input\<lparr>CR_OperationKind := kind\<rparr> = input" using kind by (cases input) simp
  have run: "runOnTarget (we_em we) t1 u1 ?id kind (T_ID (CR_Target input)) (adapterCommit input) (j1, w) = (out, j2, w2)"
    using h dec kind valid by (simp add: commit_def same Let_def)
  have id: "?id \<noteq> ''''" using valid by (auto simp: validateCommit_def split: if_splits)
  note B = mutationBegin_start [OF b]
  have j1: "J_idempotency j1 = bput key (Valid (pendingRecord t hash ?id)) (J_idempotency j)"
    using B un by (simp add: operationIDFromBody_def)
  have "keepsIdempotency (commit cd pe (we_em we) dec t1 u1 adapterCommit kind (hr_body r))"
    by (rule commit_keeps [OF keeps])
  then have "J_idempotency j2 = J_idempotency j1" using h by (metis fst_conv keepsIdempotency_def snd_conv)
  with j1 have i2: "bget (J_idempotency j2) key = Some (Valid (pendingRecord t hash ?id))" and ok2: "bucket_ok (J_idempotency j2)"
    using ok by simp_all
  have rec: "recoveredIdempotencyResponse (we_em we) ?id j2 = Some (answerOf out)"
    by (rule runOnTarget_recovers [OF id fit run act rb])
  have keep: "bget (J_idempotency j3) key = Some (Valid (pendingRecord t hash ?id)) \<and> J_operations j3 = J_operations j2"
    by (rule RecoverPending_keeps_answerable [OF restart ok2 i2 recovered_keepPending [OF rec]]) (simp add: pendingRecord_def)
  have rec3: "recoveredIdempotencyResponse (we_em we) ?id j3 = Some (answerOf out)"
    using rec recovered_cong [OF conjunct2 [OF keep]] by simp
  obtain status enc where a: "answerOf out = (status, enc)" by (cases "answerOf out")
  have clean: "\<not> hasSensitiveValue enc" using recovered_clean rec a by metis
  have ka: "keyAllowed r" and k: "key = requestKey r" "hash = hashOf we r" using B by auto
  have put: "IdempotencyPut (we_jlen we) now key hash status enc i = Inr (i\<lparr>J_idempotency := bput key (Valid (answeredRecord now hash status enc)) (J_idempotency i)\<rparr>)" for now i
    using small a clean ka k by (simp add: IdempotencyPut_def keyAllowed_def boltPut_key)
  have fin: "fst (mutationFinish we u key hash out j2) = \<lparr>RESP_Status = status, RESP_Body = enc\<rparr>"
  proof -
    have "(case out of Inl e \<Rightarrow> (statusForBridgeError (asAPIError e), Some (JObj [(''error'', encodeAPIError (asAPIError e))]))
        | Inr sr \<Rightarrow> sr) = (status, Some enc)"
      using a run act by (auto simp: answerOf_def runOnTarget_def Let_def split: sum.splits)
    then show ?thesis by (simp add: mutationFinish_def put)
  qed
  have "fst (mutationBegin we t3 r j3) = Inl \<lparr>RESP_Status = status, RESP_Body = enc\<rparr>"
    using ka keep rec3 put a k by (simp add: mutationBegin_cases pendingRecord_def)
  with fin a show ?thesis by simp
qed

definition demoTarget :: Target where
  "demoTarget = \<lparr>T_ID = ''t-1'', T_NodeID = ''n-1'', T_NodeKind = NodeKindLocal, T_SaltMinionID = [],
     T_Runtime = RuntimeClaude, T_ManagedUsername = ''alice'', T_ManagedHome = []\<rparr>"

definition demoManifest :: DesiredManifest where
  "demoManifest = \<lparr>DM_SchemaVersion = 1, DM_Target = demoTarget, DM_ProfileID = [], DM_ProfileRevision = 0,
     DM_Skills = [], DM_MCPServers = [], DM_ManagedMemberIDs = [], DM_RelayPort = 0, DM_RelayGovernance = None\<rparr>"

definition demoCommit :: CommitRequest where
  "demoCommit = \<lparr>CR_OperationID = ''op-1'', CR_OperationKind = ''apply'', CR_Target = demoTarget,
     CR_ExpectedRevision = replicate 64 CHR ''a'', CR_Manifest = demoManifest, CR_Artifacts = [], CR_SecretValues = [],
     CR_BackupID = [], CR_IntentionalPaused = False, CR_FullRelayProbe = False\<rparr>"

definition demoCodec :: codec where
  "demoCodec = \<lparr>uuidValid = (\<lambda>_. True), sha256 = take 32, decodeRouting = (\<lambda>_. Inl decodeError), marshalRouting = (\<lambda>_. Inl decodeError)\<rparr>"

definition demoAdapter :: "(CommitRequest, TargetResult, unit) adapterOp" where
  "demoAdapter input s = (Inr (zeroResult\<lparr>TR_Status := OperationSucceeded, TR_Health := HealthHealthy\<rparr>), s)"

theorem commit_crash_recovers_answer_witness:
  "\<exists>out j1 j2 j3. mutationBegin exampleWrapper 1 exampleHttp emptyJournal
        = (Inr (''request-1'', hashOf exampleWrapper exampleHttp), j1)
     \<and> commit demoCodec exampleEnv (we_em exampleWrapper) (\<lambda>_. Inr demoCommit) 2 3 demoAdapter ''apply'' ''{}'' (j1, ())
        = (out, j2, ())
     \<and> RecoverPendingIdempotency (\<lambda>_. True) j2 = Inr j3
     \<and> fst (mutationBegin exampleWrapper 5 exampleHttp j3)
        = Inl (fst (mutationFinish exampleWrapper 4 ''request-1'' (hashOf exampleWrapper exampleHttp) out j2))"
proof -
  define j1 where "j1 = snd (mutationBegin exampleWrapper 1 exampleHttp emptyJournal)"
  have "fst (mutationBegin exampleWrapper 1 exampleHttp emptyJournal) = Inr (''request-1'', hashOf exampleWrapper exampleHttp)"
    by code_simp
  then have b: "mutationBegin exampleWrapper 1 exampleHttp emptyJournal = (Inr (''request-1'', hashOf exampleWrapper exampleHttp), j1)"
    by (simp add: j1_def prod_eq_iff)
  define dec :: "string \<Rightarrow> go_error + CommitRequest" where "dec = (\<lambda>_. Inr demoCommit)"
  let ?c = "commit demoCodec exampleEnv (we_em exampleWrapper) dec 2 3 demoAdapter ''apply'' (hr_body exampleHttp) (j1, ())"
  obtain out j2 where c: "?c = (out, j2, ())" by (cases ?c) simp
  have valid: "validateCommit demoCodec exampleEnv demoCommit = None" by code_simp
  have keeps: "keepsIdempotency (demoAdapter i)" for i by (simp add: keepsIdempotency_def demoAdapter_def)
  have ok: "bucket_ok (J_idempotency emptyJournal)" by (simp add: emptyJournal_def)
  have act: "demoAdapter demoCommit s = (Inr (zeroResult\<lparr>TR_Status := OperationSucceeded, TR_Health := HealthHealthy\<rparr>), s)" for s
    by (simp add: demoAdapter_def)
  have rb: "rebuildable (Inr (zeroResult\<lparr>TR_Status := OperationSucceeded, TR_Health := HealthHealthy\<rparr>))" by code_simp
  have "keepsIdempotency (commit demoCodec exampleEnv (we_em exampleWrapper) dec 2 3 demoAdapter ''apply'' (hr_body exampleHttp))"
    by (rule commit_keeps) (rule keeps)
  then have "J_idempotency j2 = J_idempotency j1" using c by (metis fst_conv keepsIdempotency_def snd_conv)
  moreover have "list_all (\<lambda>(_, v). v \<noteq> Corrupt) (J_idempotency j1)"
    using mutationBegin_start [OF b] by (simp add: emptyJournal_def)
  ultimately have "\<not> isl (RecoverPendingIdempotency (\<lambda>_. True) j2)"
    by (auto simp: RecoverPendingIdempotency_def list_ex_iff list_all_iff split: entry.splits)
  then obtain j3 where r: "RecoverPendingIdempotency (\<lambda>_. True) j2 = Inr j3"
    by (cases "RecoverPendingIdempotency (\<lambda>_. True) j2") simp_all
  have "fst (mutationBegin exampleWrapper 5 exampleHttp j3)
        = Inl (fst (mutationFinish exampleWrapper 4 ''request-1'' (hashOf exampleWrapper exampleHttp) out j2))"
    by (rule conjunct1 [OF commit_crash_recovers_answer [OF ok b _ _ valid _ _ act keeps rb c _ r]])
      (simp_all add: dec_def demoCommit_def exampleWrapper_def boltMaxKeySize_def maxResponseBytes_def)
  then show ?thesis using b c r by (auto simp: dec_def exampleHttp_def)
qed

section \<open>No request stays blocked after a restart\<close>

lemma encodeTargetResult_error:
  assumes "\<not> hasSensitiveValue (encodeTargetResult em r)" and "\<forall>e. err = Some e \<longrightarrow> \<not> hasSensitiveValue (encodeAPIError e)"
  shows "\<not> hasSensitiveValue (encodeTargetResult em (r\<lparr>TR_Error := err\<rparr>))"
  using assms by (auto simp: encodeTargetResult_def clean_simps)

lemma recoveredAnswer_clean:
  assumes "\<not> hasSensitiveValue (encodeTargetResult em r)" and "\<forall>e. err = Some e \<longrightarrow> \<not> hasSensitiveValue (encodeAPIError e)"
  shows "\<not> hasSensitiveValue (snd (recoveredAnswer em err r))"
proof -
  define r' where "r' = (if TR_Error r = None then r\<lparr>TR_Error := err\<rparr> else r)"
  have c: "\<not> hasSensitiveValue (encodeTargetResult em r')" unfolding r'_def using assms encodeTargetResult_error by auto
  have e: "\<not> hasSensitiveValue (encodeAPIError e)" if "TR_Error r' = Some e" for e
    using c that by (auto simp: encodeTargetResult_def clean_simps)
  show ?thesis unfolding recoveredAnswer_def Let_def r'_def [symmetric]
    using c e by (auto simp: clean_simps split: option.split)
qed

lemma answerable_recovered:
  assumes "answerable p" and "\<not> hasSensitiveValue (encodeOperation em p)"
    and "bget (J_operations j) i = Some (Valid p)" and "i \<noteq> []"
  shows "\<exists>a. recoveredIdempotencyResponse em i j = Some a"
proof -
  obtain t where t: "OP_Targets p = [t]" using assms(1) by (auto simp: answerable_def length_Suc_conv)
  obtain r where r: "OT_Result t = Some r" using assms(1) t by (auto simp: answerable_def)
  have "\<not> hasSensitiveValue (encodeTargetResult em r)" "\<forall>e. OT_Error t = Some e \<longrightarrow> \<not> hasSensitiveValue (encodeAPIError e)"
    using assms(2) t r by (auto simp: encodeOperation_clean encodeOperationTarget_clean)
  from recoveredAnswer_clean [OF this] show ?thesis using assms(1,3,4) t r
    by (simp add: recoveredIdempotencyResponse_def Journal_Operation_def answerable_def Let_def)
qed

text \<open>
  C11. A pending request is unblocked by every recovery whose cursor reaches its idempotency record. \<open>visit\<close> says which
  records the cursor reaches: the loop of \<open>RecoverPendingIdempotency\<close> deletes while it iterates, for which bbolt
  promises no order, so it is arbitrary here. The operation the record names, where the journal holds it, carries no
  sensitive data (\<open>PutOperation\<close> refuses such data). When the cursor reaches the record, the journal then has the
  operation from which its answer is rebuilt and a retry is told that it is pending or gets that answer, or a retry starts
  the handler anew. When the cursor passes the record over, the record stays as it was.
\<close>

theorem restart_unblocks_requests:
  assumes "bucket_ok (J_idempotency j)" and "RecoverPendingIdempotency visit j = Inr j'"
    and "keyAllowed r" and "bget (J_idempotency j) (requestKey r) = Some (Valid record)" and "IR_Status record = 0"
    and "\<forall>p. bget (J_operations j) (IR_OperationID record) = Some (Valid p) \<longrightarrow> \<not> hasSensitiveValue (encodeOperation (we_em we) p)"
  shows "(visit (requestKey r) \<longrightarrow>
      (\<exists>a. recoveredIdempotencyResponse (we_em we) (IR_OperationID record) j' = Some a
        \<and> bget (J_idempotency j') (requestKey r) = Some (Valid record))
      \<or> fst (mutationBegin we t r j') = Inr (requestKey r, hashOf we r))
    \<and> (\<not> visit (requestKey r) \<longrightarrow> bget (J_idempotency j') (requestKey r) = Some (Valid record))"
proof -
  have ops: "J_operations j' = J_operations j" using assms(2) by (auto simp: RecoverPendingIdempotency_def split: if_splits)
  have rec: "bget (J_idempotency j') (requestKey r)
      = (if visit (requestKey r) \<and> \<not> keepPending (J_operations j) record then None else Some (Valid record))"
    using assms(1,2,4) by (auto simp: RecoverPendingIdempotency_def bget_filter split: if_splits)
  show ?thesis
  proof (cases "keepPending (J_operations j) record")
    case True
    then obtain p where "bget (J_operations j) (IR_OperationID record) = Some (Valid p)" "answerable p" "IR_OperationID record \<noteq> []"
      using assms(5) by (auto simp: keepPending_def split: option.splits entry.splits)
    then show ?thesis using answerable_recovered [of p "we_em we" j' "IR_OperationID record"] assms(6) ops rec True by auto
  next
    case False
    then show ?thesis using rec assms(3) by (simp add: mutationBegin_cases)
  qed
qed

theorem restart_unblocks_requests_witness:
  "\<exists>j'. RecoverPendingIdempotency (\<lambda>k. k = ''request-1'') exampleJournal = Inr j'
     \<and> fst (mutationBegin exampleWrapper 9 exampleHttp j') = Inr (''request-1'', hashOf exampleWrapper exampleHttp)"
proof -
  have "\<not> isl (RecoverPendingIdempotency (\<lambda>k. k = ''request-1'') exampleJournal)" by code_simp
  then obtain j' where r: "RecoverPendingIdempotency (\<lambda>k. k = ''request-1'') exampleJournal = Inr j'"
    by (cases "RecoverPendingIdempotency (\<lambda>k. k = ''request-1'') exampleJournal") simp_all
  have k: "requestKey exampleHttp = ''request-1''" by code_simp
  have ok: "bucket_ok (J_idempotency exampleJournal)" using exampleJournal_ok by (simp add: journal_ok_def)
  have rec: "bget (J_idempotency exampleJournal) (requestKey exampleHttp) = Some (Valid (pendingRecord 1 ''hash'' ''op-1''))"
    by (simp add: k exampleJournal_def bget_def)
  have s: "IR_Status (pendingRecord 1 ''hash'' ''op-1'') = 0" "IR_OperationID (pendingRecord 1 ''hash'' ''op-1'') = ''op-1''"
    by (simp_all add: pendingRecord_def)
  have ops: "\<forall>p. bget (J_operations exampleJournal) (IR_OperationID (pendingRecord 1 ''hash'' ''op-1'')) = Some (Valid p)
      \<longrightarrow> \<not> hasSensitiveValue (encodeOperation (we_em exampleWrapper) p)"
    by (auto simp: exampleJournal_def bget_def exampleOperation_def encodeOperation_clean encodeOperationTarget_clean split: if_splits)
  have "recoveredIdempotencyResponse (we_em exampleWrapper) ''op-1'' exampleJournal = None" by code_simp
  moreover have "J_operations j' = J_operations exampleJournal" using r by (auto simp: RecoverPendingIdempotency_def split: if_splits)
  ultimately have n: "recoveredIdempotencyResponse (we_em exampleWrapper) ''op-1'' j' = None" using recovered_cong by metis
  show ?thesis
    using restart_unblocks_requests [OF ok r exampleHttp_key rec s(1) ops, of 9] r n s(2) k by auto
qed

end
