(* ===== verification/Salt_Driver.thy ===== *)
theory Salt_Driver
  imports Protocol_Types
begin

text \<open>
  The Salt driver of the Bridge (\<open>src/internal/saltdriver/runner.go\<close>): the command lines it runs, how it reads
  Salt's JSON, staging and cleanup of a bundle, and the polling loop of an asynchronous job.

  What is outside the repository is a field of \<open>salt_env\<close> over the world \<open>'w\<close>: running a command (\<open>None\<close>: it failed),
  reading the values of a byte stream with \<open>encoding/json\<close> (the values and whether the stream then ends without a
  syntax error), the clock, waiting one \<open>PollEvery\<close>, the context, the staging file and fresh UUIDs. The keys of Salt's
  answers are matched exactly. \<open>New\<close>'s values are used for the fields of \<open>Driver\<close>.
\<close>

section \<open>Environment\<close>

record 'w salt_env =
  se_run :: "string \<Rightarrow> string list \<Rightarrow> 'w \<Rightarrow> string option \<times> 'w"
  se_json :: "string \<Rightarrow> json list \<times> bool"
  se_now :: "'w \<Rightarrow> time"
  se_wait :: "'w \<Rightarrow> go_error option \<times> 'w"
  se_ctxErr :: "'w \<Rightarrow> go_error option"
  se_write :: "string \<Rightarrow> string \<Rightarrow> 'w \<Rightarrow> go_error option \<times> 'w"
  se_remove :: "string \<Rightarrow> 'w \<Rightarrow> 'w"
  se_uuid :: "'w \<Rightarrow> string \<times> 'w"

definition saltBin :: string where "saltBin = ''salt''"
definition saltRunBin :: string where "saltRunBin = ''salt-run''"
definition saltKeyBin :: string where "saltKeyBin = ''salt-key''"
definition saltCPBin :: string where "saltCPBin = ''salt-cp''"

definition stagingRoot :: string where
  "stagingRoot = ''/var/lib/toolhub-bridge/staging''"

definition remoteStagingRoot :: string where
  "remoteStagingRoot = ''/var/cache/salt/minion/toolhub-staging''"

definition maxSaltOutput :: int where
  "maxSaltOutput = 8 * 2 ^ 20"

definition pollEvery :: duration where
  "pollEvery = second"

definition pollTimeout :: duration where
  "pollTimeout = 10 * minute"

section \<open>Bounded command output\<close>

text \<open>The state that the writers of standard output and standard error share, with the bytes of standard output.\<close>

record outputLimit =
  ol_remaining :: int
  ol_exceeded :: bool
  ol_output :: string

text \<open>\<open>limitedWriter.Write\<close>; \<open>keep\<close> when the writer has a buffer. The result tells whether it reports the limit.\<close>

definition limitedWrite :: "bool \<Rightarrow> string \<Rightarrow> outputLimit \<Rightarrow> bool \<times> outputLimit" where
  "limitedWrite keep v l =
     (let allowed = min (int (length v)) (ol_remaining l);
          l1 = (if allowed > 0 \<and> keep then l\<lparr>ol_output := ol_output l @ take (nat allowed) v\<rparr> else l);
          l2 = l1\<lparr>ol_remaining := ol_remaining l - allowed\<rparr>
      in if allowed < int (length v) then (True, l2\<lparr>ol_exceeded := True\<rparr>) else (False, l2))"

fun writeAll :: "(bool \<times> string) list \<Rightarrow> outputLimit \<Rightarrow> outputLimit" where
  "writeAll [] l = l"
| "writeAll ((keep, v) # ws) l = writeAll ws (snd (limitedWrite keep v l))"

text \<open>\<open>ExecRunner.CombinedOutput\<close> for a command that writes \<open>ws\<close> to its two outputs and ends with \<open>err\<close>.\<close>

definition CombinedOutput :: "(bool \<times> string) list \<Rightarrow> go_error option \<Rightarrow> go_error + string" where
  "CombinedOutput ws err =
     (let l = writeAll ws \<lparr>ol_remaining = maxSaltOutput, ol_exceeded = False, ol_output = ''''\<rparr>
      in if ol_exceeded l then Inl (errorsNew ''Salt output exceeds safety limit'')
         else case err of Some e \<Rightarrow> Inl e | None \<Rightarrow> Inr (ol_output l))"

section \<open>Names that reach a command line\<close>

definition isAlnum :: "char \<Rightarrow> bool" where
  "isAlnum c = (isLower c \<or> isDigit c \<or> (CHR ''A'' \<le> c \<and> c \<le> CHR ''Z''))"

definition minionPattern :: "string \<Rightarrow> bool" where
  "minionPattern s = (case s of [] \<Rightarrow> False
     | c # t \<Rightarrow> isAlnum c \<and> list_all (\<lambda>d. isAlnum d \<or> d \<in> {CHR ''.'', CHR ''_'', CHR '':'', CHR ''-''}) t \<and> length t \<le> 254)"

definition jidPattern :: "string \<Rightarrow> bool" where
  "jidPattern s = (list_all isDigit s \<and> 8 \<le> length s \<and> length s \<le> 32)"

definition allowedFunctions :: "string list" where
  "allowedFunctions = [''toolhub.scan'', ''toolhub.preflight'', ''toolhub.apply'', ''toolhub.reconcile'', ''toolhub.restore'',
     ''toolhub.remove_backup'', ''toolhub.cleanup_bundle'', ''user.info'']"

section \<open>Salt's JSON\<close>

definition typeError :: go_error where
  "typeError = errorsNew ''json: cannot unmarshal value''"

text \<open>The members of an object as the map that \<open>encoding/json\<close> makes: the last of two equal keys wins.\<close>

definition objMember :: "(string \<times> json) list \<Rightarrow> string \<Rightarrow> json option" where
  "objMember fs key = map_of (rev fs) key"

fun decodeObjects :: "json list \<Rightarrow> go_error + (string \<times> json) list list" where
  "decodeObjects [] = Inr []"
| "decodeObjects (JObj fs # vs) = (case decodeObjects vs of Inl e \<Rightarrow> Inl e | Inr os \<Rightarrow> Inr (fs # os))"
| "decodeObjects (JNull # vs) = Inl (errorsNew ''Salt JSON output contains a non-object value'')"
| "decodeObjects (v # vs) = Inl typeError"

definition DecodeStreamingJSON :: "('w, 'z) salt_env_scheme \<Rightarrow> string \<Rightarrow> go_error + (string \<times> json) list list" where
  "DecodeStreamingJSON se body =
     (let (vs, clean) = se_json se (TrimSpace body) in
      case decodeObjects vs of
        Inl e \<Rightarrow> Inl e
      | Inr os \<Rightarrow> if \<not> clean then Inl (errorsNew ''invalid JSON'')
          else if os = [] then Inl (errorsNew ''Salt JSON output is empty'') else Inr os)"

definition MinionResult :: "('w, 'z) salt_env_scheme \<Rightarrow> string \<Rightarrow> string \<Rightarrow> go_error + json option" where
  "MinionResult se body minionID =
     (case DecodeStreamingJSON se body of
        Inl e \<Rightarrow> Inl e
      | Inr os \<Rightarrow> (case find (\<lambda>fs. objMember fs minionID \<noteq> None) os of
          None \<Rightarrow> Inr None | Some fs \<Rightarrow> Inr (objMember fs minionID)))"

text \<open>\<open>json.Unmarshal\<close> into a string, and into a list of strings.\<close>

fun decodeString :: "json \<Rightarrow> string option" where
  "decodeString (JStr s) = Some s"
| "decodeString JNull = Some ''''"
| "decodeString _ = None"

fun decodeStrings :: "json \<Rightarrow> string list option" where
  "decodeStrings JNull = Some []"
| "decodeStrings (JArr vs) = those (map decodeString vs)"
| "decodeStrings _ = None"

text \<open>A string field of a struct that \<open>json.Unmarshal\<close> fills from an object.\<close>

definition textField :: "(string \<times> json) list \<Rightarrow> string \<Rightarrow> string option" where
  "textField fs key = (case objMember fs key of None \<Rightarrow> Some '''' | Some v \<Rightarrow> decodeString v)"

definition ParseAsyncJID :: "('w, 'z) salt_env_scheme \<Rightarrow> string \<Rightarrow> string \<Rightarrow> go_error + string" where
  "ParseAsyncJID se body minionID =
     (case MinionResult se body minionID of
        Inl e \<Rightarrow> Inl e
      | Inr None \<Rightarrow> Inl (errorsNew ''Salt async response contains no target JID'')
      | Inr (Some v) \<Rightarrow>
          (case (case decodeString v of
                   Some s \<Rightarrow> Some s
                 | None \<Rightarrow> (case v of JObj fs \<Rightarrow> textField fs ''jid'' | _ \<Rightarrow> None)) of
             None \<Rightarrow> Inl (errorsNew ''Salt async JID response is invalid'')
           | Some jid \<Rightarrow> if jidPattern jid then Inr jid else Inl (errorsNew ''Salt async JID is invalid'')))"

definition acceptedIDs :: "(string \<times> json) list \<Rightarrow> string list" where
  "acceptedIDs fs = concat (map (\<lambda>key. case objMember fs key of
       None \<Rightarrow> [] | Some raw \<Rightarrow> (case decodeStrings raw of None \<Rightarrow> [] | Some ids \<Rightarrow> filter minionPattern ids))
     [''minions'', ''accepted''])"

definition parseAcceptedKeys :: "('w, 'z) salt_env_scheme \<Rightarrow> string \<Rightarrow> go_error + string list" where
  "parseAcceptedKeys se body =
     (case DecodeStreamingJSON se body of
        Inl e \<Rightarrow> Inl (Wrapped ''parse accepted Salt keys: %w'' e)
      | Inr os \<Rightarrow> Inr (sort (remdups (concat (map acceptedIDs os)))))"

section \<open>Commands\<close>

definition unavailable :: "string \<Rightarrow> go_error" where
  "unavailable text = APIErr ((apiError ErrTargetUnavailable text)\<lparr>apiRetryable := True\<rparr>)"

definition driver_version :: "('w, 'z) salt_env_scheme \<Rightarrow> string \<Rightarrow> 'w \<Rightarrow> (string \<times> bool) \<times> 'w" where
  "driver_version se minionID w =
     (if \<not> minionPattern minionID then (('''', False), w)
      else let (out, w1) = se_run se saltBin [''--out=json'', ''--static'', ''--timeout=10'', ''--'', minionID, ''test.version''] w
        in (case out of
              None \<Rightarrow> ('''', False)
            | Some body \<Rightarrow> (case MinionResult se body minionID of
                Inr (Some v) \<Rightarrow> (case decodeString v of
                    None \<Rightarrow> ('''', False) | Some s \<Rightarrow> (s, HasPrefix s ''3008.''))
              | _ \<Rightarrow> ('''', False)), w1))"

record AcceptedNode =
  AN_MinionID :: string
  AN_Version :: string
  AN_Online :: bool

fun nodeLoop :: "('w, 'z) salt_env_scheme \<Rightarrow> string list \<Rightarrow> 'w \<Rightarrow> AcceptedNode list \<times> 'w" where
  "nodeLoop se [] w = ([], w)"
| "nodeLoop se (i # is) w =
     (let ((v, online), w1) = driver_version se i w; (ns, w2) = nodeLoop se is w1
      in (\<lparr>AN_MinionID = i, AN_Version = v, AN_Online = online\<rparr> # ns, w2))"

definition AcceptedNodes :: "('w, 'z) salt_env_scheme \<Rightarrow> 'w \<Rightarrow> (go_error + AcceptedNode list) \<times> 'w" where
  "AcceptedNodes se w =
     (let (out, w1) = se_run se saltKeyBin [''--out=json'', ''--list=acc''] w in
      case out of
        None \<Rightarrow> (Inl (unavailable ''Could not list accepted Salt keys''), w1)
      | Some body \<Rightarrow> (case parseAcceptedKeys se body of
          Inl e \<Rightarrow> (Inl e, w1)
        | Inr ids \<Rightarrow> (let (ns, w2) = nodeLoop se ids w1 in (Inr ns, w2))))"

fun syncLoop :: "('w, 'z) salt_env_scheme \<Rightarrow> string \<Rightarrow> string list \<Rightarrow> 'w \<Rightarrow> go_error option \<times> 'w" where
  "syncLoop se minionID [] w = (None, w)"
| "syncLoop se minionID (f # fs) w =
     (let (out, w1) = se_run se saltBin [''--out=json'', ''--static'', ''--timeout=30'', ''--'', minionID, f] w in
      case out of
        None \<Rightarrow> (Some (unavailable ''Could not synchronize ToolHub Salt extensions''), w1)
      | Some body \<Rightarrow> (case MinionResult se body minionID of
          Inr (Some _) \<Rightarrow> syncLoop se minionID fs w1
        | _ \<Rightarrow> (Some (unavailable ''Salt extension synchronization returned no minion result''), w1)))"

definition EnsureCapabilities :: "('w, 'z) salt_env_scheme \<Rightarrow> string \<Rightarrow> 'w \<Rightarrow> go_error option \<times> 'w" where
  "EnsureCapabilities se minionID w =
     (let ((v, online), w1) = driver_version se minionID w in
      if \<not> online then
        (if v \<noteq> '''' \<and> \<not> HasPrefix v ''3008.'' then (Some (APIErr (apiError ErrSaltVersion ''Salt minion must run version 3008.x'')), w1)
         else (Some (unavailable ''Salt minion is unavailable''), w1))
      else syncLoop se minionID [''saltutil.sync_modules'', ''saltutil.sync_states''] w1)"

definition Driver_Call :: "('w, 'z) salt_env_scheme \<Rightarrow> string \<Rightarrow> string \<Rightarrow> string list \<Rightarrow> 'w \<Rightarrow> (go_error + json) \<times> 'w" where
  "Driver_Call se minionID f args w =
     (if \<not> minionPattern minionID \<or> f \<notin> set allowedFunctions then
        (Inl (APIErr (apiError ErrUnsupportedOperation ''Salt target or function is not allowed'')), w)
      else let (out, w1) = se_run se saltBin ([''--out=json'', ''--static'', ''--timeout=60'', ''--'', minionID, f] @ args) w
        in (case out of
              None \<Rightarrow> Inl (unavailable ''Salt call failed'')
            | Some body \<Rightarrow> (case MinionResult se body minionID of
                Inl e \<Rightarrow> Inl e
              | Inr None \<Rightarrow> Inl (unavailable ''Salt minion returned no result'')
              | Inr (Some v) \<Rightarrow> Inr v), w1))"

definition ResolveManagedHome :: "('w, 'z) salt_env_scheme \<Rightarrow> string \<Rightarrow> string \<Rightarrow> 'w \<Rightarrow> (go_error + string) \<times> 'w" where
  "ResolveManagedHome se minionID username0 w =
     (let username = TrimSpace username0 in
      if username = '''' then (Inl (APIErr (apiError ErrManagedUserMissing ''Managed username is required'')), w)
      else let (r, w1) = Driver_Call se minionID ''user.info'' [username] w in
        (case r of
           Inl e \<Rightarrow> Inl e
         | Inr raw \<Rightarrow>
             (case (case raw of JObj fs \<Rightarrow> (textField fs ''name'', textField fs ''home'') | JNull \<Rightarrow> (Some '''', Some '''') | _ \<Rightarrow> (None, None)) of
                (Some nm, Some home0) \<Rightarrow>
                  if nm \<noteq> username then Inl (APIErr (apiError ErrManagedUserMissing ''Managed user does not exist on the Salt minion''))
                  else let home = TrimSpace home0 in
                    if managedHomeBad home then Inl (APIErr (apiError ErrManagedUserMissing ''Managed user home is not a canonical safe path''))
                    else Inr home
              | _ \<Rightarrow> Inl (APIErr (apiError ErrManagedUserMissing ''Managed user does not exist on the Salt minion''))), w1))"

definition Driver_Dispatch :: "('w, 'z) salt_env_scheme \<Rightarrow> string \<Rightarrow> string \<Rightarrow> string list \<Rightarrow> 'w \<Rightarrow> (go_error + string) \<times> 'w" where
  "Driver_Dispatch se minionID f args w =
     (if \<not> minionPattern minionID \<or> f \<notin> set allowedFunctions \<or> f = ''user.info'' then
        (Inl (APIErr (apiError ErrUnsupportedOperation ''Salt async target or function is not allowed'')), w)
      else let (out, w1) = se_run se saltBin ([''--out=json'', ''--async'', ''--'', minionID, f] @ args) w
        in (case out of
              None \<Rightarrow> Inl (unavailable ''Salt async dispatch failed'')
            | Some body \<Rightarrow> ParseAsyncJID se body minionID, w1))"

section \<open>Polling\<close>

text \<open>
  One round looks the job up; after the deadline the job list decides which error it is. The loop is a partial function:
  \<open>None\<close> is a loop that never returns.
\<close>

definition pollAnswer :: "('w, 'z) salt_env_scheme \<Rightarrow> string option \<Rightarrow> string \<Rightarrow> json option" where
  "pollAnswer se out minionID = (case out of
       None \<Rightarrow> None
     | Some body \<Rightarrow> (case MinionResult se body minionID of
         Inr (Some v) \<Rightarrow> if v \<noteq> JNull then Some v else None
       | _ \<Rightarrow> None))"

definition pollExpired :: "('w, 'z) salt_env_scheme \<Rightarrow> string \<Rightarrow> 'w \<Rightarrow> go_error \<times> 'w" where
  "pollExpired se jid w =
     (let (out, w1) = se_run se saltRunBin [''--out=json'', ''jobs.list_job'', jid] w in
      (case out of
         Some listOutput \<Rightarrow> if Contains listOutput jid then unavailable ''Salt target operation timed out''
           else APIErr ((apiError ErrSaltJobMissing ''Salt job cache no longer contains the target JID'')\<lparr>apiRetryable := True\<rparr>)
       | None \<Rightarrow> APIErr ((apiError ErrSaltJobMissing ''Salt job cache no longer contains the target JID'')\<lparr>apiRetryable := True\<rparr>), w1))"

partial_function (option) pollLoop ::
    "('w, 'z) salt_env_scheme \<Rightarrow> string \<Rightarrow> string \<Rightarrow> time \<Rightarrow> 'w \<Rightarrow> ((go_error + json) \<times> 'w) option" where
  "pollLoop se jid minionID deadline w =
     (case se_ctxErr se w of
        Some e \<Rightarrow> Some (Inl e, w)
      | None \<Rightarrow>
          (let (out, w1) = se_run se saltRunBin [''--out=json'', ''jobs.lookup_jid'', jid] w in
           case pollAnswer se out minionID of
             Some v \<Rightarrow> Some (Inr v, w1)
           | None \<Rightarrow>
               if \<not> se_now se w1 < deadline then (let (e, w2) = pollExpired se jid w1 in Some (Inl e, w2))
               else (case se_wait se w1 of
                   (Some e, w2) \<Rightarrow> Some (Inl e, w2)
                 | (None, w2) \<Rightarrow> pollLoop se jid minionID deadline w2)))"

definition Driver_Poll :: "('w, 'z) salt_env_scheme \<Rightarrow> string \<Rightarrow> string \<Rightarrow> 'w \<Rightarrow> ((go_error + json) \<times> 'w) option" where
  "Driver_Poll se jid minionID w =
     (if \<not> jidPattern jid \<or> \<not> minionPattern minionID then Some (Inl (errorsNew ''invalid Salt JID or minion id''), w)
      else pollLoop se jid minionID (se_now se w + pollTimeout) w)"

section \<open>Staging\<close>

record StagedBundle =
  SB_LocalPath :: string
  SB_RemotePath :: string

text \<open>\<open>filepath.Rel\<close> on the parts of two clean paths: the parts left after the common prefix.\<close>

fun stripCommon :: "string list \<Rightarrow> string list \<Rightarrow> string list \<times> string list" where
  "stripCommon (b # bs) (t # ts) = (if b = t then stripCommon bs ts else (b # bs, t # ts))"
| "stripCommon bs ts = (bs, ts)"

definition pathParts :: "string \<Rightarrow> string list" where
  "pathParts p = filter (\<lambda>v. v \<noteq> '''' \<and> v \<noteq> ''.'') (splitOn CHR ''/'' p)"

definition path_Rel :: "string \<Rightarrow> string \<Rightarrow> string option" where
  "path_Rel base0 targ0 =
     (let base = path_Clean base0; targ = path_Clean targ0 in
      if path_IsAbs base \<noteq> path_IsAbs targ then None
      else let (bs, ts) = stripCommon (pathParts base) (pathParts targ) in
        if bs \<noteq> [] \<and> hd bs = ''..'' then None
        else if bs = [] \<and> ts = [] then Some ''.''
        else Some (joinWith ''/'' (replicate (length bs) ''..'' @ ts)))"

definition ensureStagingPath :: "string \<Rightarrow> string \<Rightarrow> go_error option" where
  "ensureStagingPath root candidate =
     (case path_Rel (path_Clean root) (path_Clean candidate) of
        None \<Rightarrow> Some (errorsNew ''staging path escapes Bridge staging root'')
      | Some rel \<Rightarrow>
          if rel = ''.'' \<or> rel = ''..'' \<or> HasPrefix rel ''../'' \<or> path_IsAbs rel then
            Some (errorsNew ''staging path escapes Bridge staging root'')
          else None)"

definition path_Join :: "string \<Rightarrow> string \<Rightarrow> string" where
  "path_Join a b = path_Clean (a @ ''/'' @ b)"

text \<open>\<open>body\<close> is the result of \<open>json.Marshal\<close> on the payload; \<open>se_write\<close> creates the directory and the file.\<close>

definition Driver_Stage :: "('w, 'z) salt_env_scheme \<Rightarrow> string \<Rightarrow> go_error + string \<Rightarrow> 'w \<Rightarrow> (go_error + StagedBundle) \<times> 'w" where
  "Driver_Stage se minionID body w =
     (if \<not> minionPattern minionID then (Inl (errorsNew ''invalid Salt minion id''), w)
      else case body of
        Inl e \<Rightarrow> (Inl e, w)
      | Inr bytes \<Rightarrow>
          if int (length bytes) > MaxRequestBytes then (Inl (errorsNew ''Salt staging bundle exceeds safety limit''), w)
          else let (token, w1) = se_uuid se w;
                   localPath = path_Join stagingRoot (token @ ''.json'');
                   remotePath = path_Join remoteStagingRoot (token @ ''.json'')
               in case ensureStagingPath stagingRoot localPath of
                 Some e \<Rightarrow> (Inl e, w1)
               | None \<Rightarrow> (case se_write se localPath bytes w1 of
                   (Some e, w2) \<Rightarrow> (Inl e, w2)
                 | (None, w2) \<Rightarrow>
                     (let (out, w3) = se_run se saltCPBin [''--chunked'', ''--out=json'', ''--'', minionID, localPath, remotePath] w2
                      in case out of
                           None \<Rightarrow> (Inl (unavailable ''Could not stage Salt target bundle''), se_remove se localPath w3)
                         | Some text \<Rightarrow> (case MinionResult se text minionID of
                             Inr (Some _) \<Rightarrow> (Inr \<lparr>SB_LocalPath = localPath, SB_RemotePath = remotePath\<rparr>, w3)
                           | _ \<Rightarrow> (Inl (errorsNew ''salt-cp returned no target result''), se_remove se localPath w3)))))"

definition Driver_Cleanup :: "('w, 'z) salt_env_scheme \<Rightarrow> StagedBundle \<Rightarrow> 'w \<Rightarrow> 'w" where
  "Driver_Cleanup se b w =
     (if ensureStagingPath stagingRoot (SB_LocalPath b) = None then se_remove se (SB_LocalPath b) w else w)"

definition CleanupRemote :: "('w, 'z) salt_env_scheme \<Rightarrow> string \<Rightarrow> StagedBundle \<Rightarrow> 'w \<Rightarrow> 'w" where
  "CleanupRemote se minionID b w =
     (let w1 = Driver_Cleanup se b w in
      if \<not> minionPattern minionID \<or> \<not> HasPrefix (path_Clean (SB_RemotePath b)) (remoteStagingRoot @ ''/'') then w1
      else snd (Driver_Call se minionID ''toolhub.cleanup_bundle'' [SB_RemotePath b] w1))"

section \<open>The polling loop returns\<close>

text \<open>Commands do not turn the clock back, and a wait that is not interrupted takes at least \<open>PollEvery\<close>.\<close>

definition steadyClock :: "('w, 'z) salt_env_scheme \<Rightarrow> bool" where
  "steadyClock se = ((\<forall>b a w. se_now se w \<le> se_now se (snd (se_run se b a w)))
     \<and> (\<forall>w. fst (se_wait se w) = None \<longrightarrow> se_now se w + pollEvery \<le> se_now se (snd (se_wait se w))))"

lemma pollEvery_pos: "0 < pollEvery"
  by (simp add: pollEvery_def second_def)

lemma pollLoop_terminates:
  assumes "steadyClock se"
  shows "\<exists>r w'. pollLoop se jid m deadline w = Some (r, w') \<and> r \<noteq> Inr JNull"
proof (induction "nat (deadline - se_now se w)" arbitrary: w rule: less_induct)
  case less
  obtain out w1 where run: "se_run se saltRunBin [''--out=json'', ''jobs.lookup_jid'', jid] w = (out, w1)" by (rule prod.exhaust)
  have t1: "se_now se w \<le> se_now se w1" using assms run unfolding steadyClock_def by (metis snd_conv)
  show ?case
  proof (cases "se_ctxErr se w = None \<and> pollAnswer se out m = None \<and> se_now se w1 < deadline \<and> fst (se_wait se w1) = None")
    case True
    then obtain w2 where wait: "se_wait se w1 = (None, w2)" by (cases "se_wait se w1") auto
    then have "se_now se w1 + pollEvery \<le> se_now se w2" using assms unfolding steadyClock_def by (metis fst_conv snd_conv)
    with t1 True pollEvery_pos have "nat (deadline - se_now se w2) < nat (deadline - se_now se w)" by linarith
    from less [OF this] True run wait show ?thesis by (subst pollLoop.simps) simp
  next
    case False
    have "v \<noteq> JNull" if "pollAnswer se out m = Some v" for v
      using that by (auto simp: pollAnswer_def split: option.splits sum.splits if_splits)
    with False run show ?thesis
      by (subst pollLoop.simps) (auto split: option.split prod.split)
  qed
qed

text \<open>
  C17. Polling ends: whatever Salt answers, \<open>Poll\<close> returns, with a result that is not JSON null or with an error, when
  the clock advances by \<open>PollEvery\<close> in every wait. An invalid job or minion name is refused before any command runs.
\<close>

theorem poll_terminates:
  assumes "steadyClock se"
  shows "\<exists>r w'. Driver_Poll se jid m w = Some (r, w') \<and> r \<noteq> Inr JNull
    \<and> (\<not> jidPattern jid \<or> \<not> minionPattern m \<longrightarrow> w' = w \<and> (\<exists>e. r = Inl e))"
  using pollLoop_terminates [OF assms] by (auto simp: Driver_Poll_def)

text \<open>A world for examples: the clock, with no command ever answering.\<close>

definition silentEnv :: "time salt_env" where
  "silentEnv = \<lparr>se_run = (\<lambda>b a w. (None, w + 1)), se_json = (\<lambda>s. ([], True)), se_now = id,
     se_wait = (\<lambda>w. (None, w + second)), se_ctxErr = (\<lambda>_. None), se_write = (\<lambda>p s w. (None, w)), se_remove = (\<lambda>p w. w),
     se_uuid = (\<lambda>w. (''token'', w))\<rparr>"

theorem poll_terminates_witness: "\<exists>r w'. Driver_Poll silentEnv ''20240101'' ''minion'' 0 = Some (r, w') \<and> r \<noteq> Inr JNull"
proof -
  have "steadyClock silentEnv" by (simp add: steadyClock_def silentEnv_def pollEvery_def)
  from poll_terminates [OF this, of "''20240101''" "''minion''" 0] show ?thesis by blast
qed

section \<open>Command lines\<close>

text \<open>An environment whose world also keeps the commands that ran, the last one first.\<close>

definition logged :: "('w, 'z) salt_env_scheme \<Rightarrow> ('w \<times> (string \<times> string list) list) salt_env" where
  "logged se = \<lparr>se_run = (\<lambda>b a (w, l). (let (out, w') = se_run se b a w in (out, (w', (b, a) # l)))), se_json = se_json se,
     se_now = (\<lambda>(w, l). se_now se w), se_wait = (\<lambda>(w, l). (let (e, w') = se_wait se w in (e, (w', l)))),
     se_ctxErr = (\<lambda>(w, l). se_ctxErr se w), se_write = (\<lambda>p s (w, l). (let (e, w') = se_write se p s w in (e, (w', l)))),
     se_remove = (\<lambda>p (w, l). (se_remove se p w, l)), se_uuid = (\<lambda>(w, l). (let (t, w') = se_uuid se w in (t, (w', l))))\<rparr>"

definition saltFunctions :: "string list" where
  "saltFunctions = allowedFunctions @ [''test.version'', ''saltutil.sync_modules'', ''saltutil.sync_states'']"

text \<open>Options only before \<open>--\<close>, then a well-formed minion and a known function; job numbers are digits.\<close>

definition safeCommand :: "string \<times> string list \<Rightarrow> bool" where
  "safeCommand c = (case c of (b, args) \<Rightarrow>
     if b = saltBin then
       list_all (\<lambda>a. HasPrefix a ''--'') (takeWhile (\<lambda>a. a \<noteq> ''--'') args)
       \<and> (case dropWhile (\<lambda>a. a \<noteq> ''--'') args of _ # m # f # _ \<Rightarrow> minionPattern m \<and> f \<in> set saltFunctions | _ \<Rightarrow> False)
     else if b = saltRunBin then
       (case args of [out, f, jid] \<Rightarrow> out = ''--out=json'' \<and> f \<in> {''jobs.lookup_jid'', ''jobs.list_job''} \<and> jidPattern jid | _ \<Rightarrow> False)
     else if b = saltKeyBin then args = [''--out=json'', ''--list=acc'']
     else b = saltCPBin \<and> (case args of [c, out, dashes, m, l, r] \<Rightarrow> c = ''--chunked'' \<and> out = ''--out=json'' \<and> dashes = ''--'' \<and> minionPattern m | _ \<Rightarrow> False))"

definition safeLog :: "'w \<times> (string \<times> string list) list \<Rightarrow> bool" where
  "safeLog w = list_all safeCommand (snd w)"

lemma logged_safe [simp]:
  "safeLog (snd (se_run (logged se) b a w)) \<longleftrightarrow> safeCommand (b, a) \<and> safeLog w"
  "safeLog (snd (se_wait (logged se) w)) = safeLog w"
  "safeLog (snd (se_write (logged se) p s w)) = safeLog w"
  "safeLog (se_remove (logged se) p w) = safeLog w"
  "safeLog (snd (se_uuid (logged se) w)) = safeLog w"
  by (auto simp: logged_def safeLog_def Let_def split: prod.splits)

lemma logged_run: "se_run (logged se) b a w = (out, w') \<Longrightarrow> safeLog w' \<longleftrightarrow> safeCommand (b, a) \<and> safeLog w"
  using logged_safe(1) [of se b a w] by simp

lemmas binaries = saltBin_def saltRunBin_def saltKeyBin_def saltCPBin_def

lemma safe_salt [simp]:
  assumes "minionPattern m" "f \<in> set saltFunctions"
  shows "safeCommand (saltBin, [''--out=json'', ''--static'', ''--timeout=10'', ''--'', m, f])"
    "safeCommand (saltBin, [''--out=json'', ''--static'', ''--timeout=30'', ''--'', m, f])"
    "safeCommand (saltBin, ''--out=json'' # ''--static'' # ''--timeout=60'' # ''--'' # m # f # args)"
    "safeCommand (saltBin, ''--out=json'' # ''--async'' # ''--'' # m # f # args)"
  using assms by (simp_all add: safeCommand_def HasPrefix_def)

lemma binaries_distinct [simp]:
  "saltRunBin \<noteq> saltBin" "saltKeyBin \<noteq> saltBin" "saltKeyBin \<noteq> saltRunBin" "saltCPBin \<noteq> saltBin" "saltCPBin \<noteq> saltRunBin" "saltCPBin \<noteq> saltKeyBin"
  by (simp_all add: binaries)

lemma safe_others [simp]:
  "jidPattern jid \<Longrightarrow> safeCommand (saltRunBin, [''--out=json'', ''jobs.lookup_jid'', jid])"
  "jidPattern jid \<Longrightarrow> safeCommand (saltRunBin, [''--out=json'', ''jobs.list_job'', jid])"
  "safeCommand (saltKeyBin, [''--out=json'', ''--list=acc''])"
  "minionPattern m \<Longrightarrow> safeCommand (saltCPBin, [''--chunked'', ''--out=json'', ''--'', m, l, r])"
  by (simp_all add: safeCommand_def)

lemma version_safe: "safeLog w \<Longrightarrow> driver_version (logged se) m w = (r, w') \<Longrightarrow> safeLog w'"
  by (auto simp: driver_version_def Let_def saltFunctions_def logged_run split: prod.splits if_splits)

lemma nodeLoop_safe: "safeLog w \<Longrightarrow> nodeLoop (logged se) is w = (r, w') \<Longrightarrow> safeLog w'"
  by (induction "is" arbitrary: w r w') (auto simp: Let_def dest: version_safe split: prod.splits)

lemma AcceptedNodes_safe:
  assumes "safeLog w" "AcceptedNodes (logged se) w = (r, w')"
  shows "safeLog w'"
proof -
  obtain out w1 where run: "se_run (logged se) saltKeyBin [''--out=json'', ''--list=acc''] w = (out, w1)" by (rule prod.exhaust)
  have 1: "safeLog w1" using logged_run [OF run] assms(1) by simp
  show ?thesis using assms(2) run 1
    by (cases w1; auto simp: AcceptedNodes_def split: prod.splits option.splits sum.splits) (metis nodeLoop_safe)
qed

lemma syncLoop_safe:
  "safeLog w \<Longrightarrow> minionPattern m \<Longrightarrow> set fs \<subseteq> set saltFunctions \<Longrightarrow> syncLoop (logged se) m fs w = (r, w') \<Longrightarrow> safeLog w'"
proof (induction fs arbitrary: w)
  case (Cons f fs)
  obtain out w1 where run: "se_run (logged se) saltBin [''--out=json'', ''--static'', ''--timeout=30'', ''--'', m, f] w = (out, w1)" by (rule prod.exhaust)
  have 1: "safeLog w1" using logged_run [OF run] Cons.prems by simp
  show ?case using Cons.prems run 1 Cons.IH [OF 1]
    by (auto split: option.splits sum.splits)
qed simp

lemma driver_version_online: "driver_version se m w = ((v, True), w') \<Longrightarrow> minionPattern m"
  by (auto simp: driver_version_def split: if_splits)

lemma EnsureCapabilities_safe:
  assumes "safeLog w" "EnsureCapabilities (logged se) m w = (r, w')"
  shows "safeLog w'"
proof -
  obtain v online w1 where v: "driver_version (logged se) m w = ((v, online), w1)" by (metis prod.exhaust)
  have 1: "safeLog w1" using version_safe [OF assms(1) v] .
  have f: "set [''saltutil.sync_modules'', ''saltutil.sync_states''] \<subseteq> set saltFunctions" by (simp add: saltFunctions_def)
  show ?thesis
  proof (cases online)
    case True
    with assms(2) v have "syncLoop (logged se) m [''saltutil.sync_modules'', ''saltutil.sync_states''] w1 = (r, w')"
      by (simp add: EnsureCapabilities_def)
    from syncLoop_safe [OF 1 _ f this] driver_version_online [of "logged se" m w v w1] v True show ?thesis by simp
  next
    case False
    with assms(2) v 1 show ?thesis by (auto simp: EnsureCapabilities_def split: if_splits)
  qed
qed

lemma Call_safe: "safeLog w \<Longrightarrow> Driver_Call (logged se) m f args w = (r, w') \<Longrightarrow> safeLog w'"
  by (auto simp: Driver_Call_def Let_def saltFunctions_def logged_run split: prod.splits if_splits)

lemma Home_safe: "safeLog w \<Longrightarrow> ResolveManagedHome (logged se) m u w = (r, w') \<Longrightarrow> safeLog w'"
  by (auto simp: ResolveManagedHome_def Let_def dest: Call_safe split: prod.splits if_splits)

lemma Dispatch_safe: "safeLog w \<Longrightarrow> Driver_Dispatch (logged se) m f args w = (r, w') \<Longrightarrow> safeLog w'"
  by (auto simp: Driver_Dispatch_def Let_def saltFunctions_def logged_run split: prod.splits if_splits)

lemma pollExpired_safe: "safeLog w \<Longrightarrow> jidPattern jid \<Longrightarrow> pollExpired (logged se) jid w = (r, w') \<Longrightarrow> safeLog w'"
  by (auto simp: pollExpired_def Let_def logged_run split: prod.splits)

lemma pollLoop_safe:
  assumes "pollLoop (logged se) jid m deadline w = Some (r, w')" "jidPattern jid" "safeLog w"
  shows "safeLog w'"
proof -
  have "jidPattern jid \<longrightarrow> safeLog w \<longrightarrow> safeLog (snd res)" if "pollLoop (logged se) jid m deadline w = Some res" for res
  proof (rule pollLoop.raw_induct [where P = "\<lambda>e jid m deadline w res. e = logged se \<longrightarrow> jidPattern jid \<longrightarrow> safeLog w \<longrightarrow> safeLog (snd res)",
        OF _ that, THEN mp, OF _ refl])
    fix f e jid m deadline w res
    assume IH: "\<And>e jid m deadline w res. f e jid m deadline w = Some res \<Longrightarrow> e = logged se \<longrightarrow> jidPattern jid \<longrightarrow> safeLog w \<longrightarrow> safeLog (snd res)"
      and eq: "(case se_ctxErr e w of Some err \<Rightarrow> Some (Inl err, w)
        | None \<Rightarrow> let (out, w1) = se_run e saltRunBin [''--out=json'', ''jobs.lookup_jid'', jid] w in
            case pollAnswer e out m of Some v \<Rightarrow> Some (Inr v, w1)
            | None \<Rightarrow> if \<not> se_now e w1 < deadline then let (err, w2) = pollExpired e jid w1 in Some (Inl err, w2)
                else case se_wait e w1 of (Some err, w2) \<Rightarrow> Some (Inl err, w2) | (None, w2) \<Rightarrow> f e jid m deadline w2) = Some res"
    show "e = logged se \<longrightarrow> jidPattern jid \<longrightarrow> safeLog w \<longrightarrow> safeLog (snd res)"
    proof (intro impI)
      assume e: "e = logged se" and j: "jidPattern jid" and w: "safeLog w"
      obtain out w1 where run: "se_run e saltRunBin [''--out=json'', ''jobs.lookup_jid'', jid] w = (out, w1)" by (rule prod.exhaust)
      then have 1: "safeLog w1" using logged_run [of se saltRunBin _ w out w1] j w e by simp
      obtain err w2 where wait: "se_wait e w1 = (err, w2)" by (rule prod.exhaust)
      then have 2: "safeLog w2" using logged_safe(2) [of se w1] 1 e by simp
      show "safeLog (snd res)"
        using eq run wait 1 2 w e j IH [of "logged se" jid m deadline w2 res] pollExpired_safe [OF 1 j]
        by (auto split: option.splits if_splits prod.splits)
    qed
  qed
  from this [OF assms(1)] assms(2,3) show ?thesis by simp
qed

lemma Poll_safe: "safeLog w \<Longrightarrow> Driver_Poll (logged se) jid m w = Some (r, w') \<Longrightarrow> safeLog w'"
  by (auto simp: Driver_Poll_def dest: pollLoop_safe split: if_splits)

lemma Stage_safe:
  assumes "safeLog w" "Driver_Stage (logged se) m body w = (r, w')"
  shows "safeLog w'"
proof -
  obtain t w1 where u: "se_uuid (logged se) w = (t, w1)" by (rule prod.exhaust)
  let ?l = "path_Join stagingRoot (t @ ''.json'')" and ?r = "path_Join remoteStagingRoot (t @ ''.json'')"
  obtain e w2 where wr: "se_write (logged se) ?l (projr body) w1 = (e, w2)" by (rule prod.exhaust)
  obtain out w3 where run: "se_run (logged se) saltCPBin [''--chunked'', ''--out=json'', ''--'', m, ?l, ?r] w2 = (out, w3)" by (rule prod.exhaust)
  have 2: "safeLog w1" "safeLog w2" using logged_safe(3,5) [of se] u wr assms(1) by (metis snd_conv)+
  then have "minionPattern m \<Longrightarrow> safeLog w3" using logged_run [OF run] by simp
  with 2 assms u wr run show ?thesis
    by (auto simp: Driver_Stage_def Let_def split: sum.splits option.splits if_splits)
qed

lemma CleanupRemote_safe: "safeLog w \<Longrightarrow> safeLog (CleanupRemote (logged se) m b w)"
  by (auto simp: CleanupRemote_def Driver_Cleanup_def Let_def intro: Call_safe [OF _ prod.collapse [symmetric]])

lemma snd_intro: "(\<And>r w'. p = (r, w') \<Longrightarrow> P w') \<Longrightarrow> P (snd p)"
  by (cases p) auto

text \<open>
  C16. Every command line that the driver runs is well formed: options stand only before \<open>--\<close>, the minion name after it
  matches the pattern and cannot be read as an option, the function is one of the fixed list, job numbers are digits.
\<close>

theorem commands_safe:
  "safeLog (snd (AcceptedNodes (logged se) (w, []))) \<and> safeLog (snd (EnsureCapabilities (logged se) m (w, [])))
   \<and> safeLog (snd (Driver_Call (logged se) m f args (w, []))) \<and> safeLog (snd (ResolveManagedHome (logged se) m user (w, [])))
   \<and> safeLog (snd (Driver_Dispatch (logged se) m f args (w, []))) \<and> safeLog (snd (Driver_Stage (logged se) m body (w, [])))
   \<and> safeLog (CleanupRemote (logged se) m bundle (w, []))
   \<and> (case Driver_Poll (logged se) jid m (w, []) of None \<Rightarrow> True | Some (r, w') \<Rightarrow> safeLog w')"
proof -
  have w: "safeLog (w, [])" by (simp add: safeLog_def)
  show ?thesis
    by (intro conjI; (rule snd_intro)?)
      (auto intro: AcceptedNodes_safe [OF w] EnsureCapabilities_safe [OF w] Call_safe [OF w] Home_safe [OF w] Dispatch_safe [OF w]
        Stage_safe [OF w] CleanupRemote_safe [OF w] Poll_safe [OF w] split: option.splits)
qed

section \<open>Captured output\<close>

lemma writeAll_spec:
  "0 \<le> ol_remaining l \<Longrightarrow>
   (let bytes = int (length (concat (map snd ws))) in
     0 \<le> ol_remaining (writeAll ws l)
     \<and> (ol_exceeded (writeAll ws l) \<longleftrightarrow> ol_exceeded l \<or> ol_remaining l < bytes)
     \<and> int (length (ol_output (writeAll ws l))) \<le> int (length (ol_output l)) + ol_remaining l
     \<and> (bytes \<le> ol_remaining l \<longrightarrow> ol_output (writeAll ws l) = ol_output l @ concat (map snd (filter fst ws))))"
proof (induction ws arbitrary: l)
  case (Cons x ws)
  obtain keep v where x: "x = (keep, v)" by (cases x)
  define l' where "l' = snd (limitedWrite keep v l)"
  have l': "0 \<le> ol_remaining l'" "ol_remaining l' = ol_remaining l - min (int (length v)) (ol_remaining l)"
    "ol_exceeded l' \<longleftrightarrow> ol_exceeded l \<or> ol_remaining l < int (length v)"
    "ol_output l' = ol_output l @ (if keep then take (nat (min (int (length v)) (ol_remaining l))) v else [])"
    using Cons.prems by (auto simp: l'_def limitedWrite_def Let_def)
  from Cons.IH [OF l'(1)] show ?case
    unfolding x l'_def [symmetric] writeAll.simps Let_def
    using l'(2-4) Cons.prems by (auto simp: min_def split: if_splits)
qed (simp add: Let_def)

text \<open>
  Command output is bounded: \<open>CombinedOutput\<close> returns at most \<open>maxSaltOutput\<close> bytes, exactly what the command wrote
  to standard output, and it fails whenever the two outputs together exceed the limit, whatever the exit status.
\<close>

theorem output_bounded:
  "case CombinedOutput ws err of
     Inr out \<Rightarrow> err = None \<and> out = concat (map snd (filter fst ws)) \<and> int (length out) \<le> maxSaltOutput
       \<and> int (length (concat (map snd ws))) \<le> maxSaltOutput
   | Inl e \<Rightarrow> err = Some e \<or> (maxSaltOutput < int (length (concat (map snd ws))) \<and> e = errorsNew ''Salt output exceeds safety limit'')"
proof -
  let ?l = "\<lparr>ol_remaining = maxSaltOutput, ol_exceeded = False, ol_output = ''''\<rparr>"
  have "0 \<le> ol_remaining ?l" by (simp add: maxSaltOutput_def)
  from writeAll_spec [OF this, of ws] show ?thesis
    by (auto simp: CombinedOutput_def Let_def not_less split: option.splits)
qed

section \<open>Staging paths\<close>

lemma path_Clean_rooted_parts:
  assumes "path_IsAbs p"
  obtains ws where "path_Clean p = CHR ''/'' # joinWith ''/'' ws" "pathParts (path_Clean p) = ws" "list_all plainPart ws"
proof -
  define ws where "ws = foldl (cleanStep True) [] (splitOn CHR ''/'' p)"
  have p: "path_Clean p = CHR ''/'' # joinWith ''/'' ws" using assms by (simp add: path_Clean_def ws_def)
  have pl: "list_all plainPart ws" unfolding ws_def by (rule foldl_cleanStep_rooted) simp
  have "\<forall>w \<in> set ws. CHR ''/'' \<notin> set w"
    using foldl_cleanStep_parts [of True "[]" "splitOn CHR ''/'' p"] splitOn_no_sep unfolding ws_def by fastforce
  then have "ws \<noteq> [] \<Longrightarrow> splitOn CHR ''/'' (joinWith ''/'' ws) = ws" by (simp add: splitOn_joinWith)
  then have "pathParts (path_Clean p) = filter (\<lambda>v. v \<noteq> '''' \<and> v \<noteq> ''.'') ws"
    unfolding p pathParts_def by (cases "ws = []") simp_all
  also have "\<dots> = ws" using pl by (auto simp: list_all_iff plainPart_def intro: filter_True)
  finally show thesis using that p pl by blast
qed

lemma foldl_cleanStep_filter:
  "foldl (cleanStep r) out ws = foldl (cleanStep r) out (filter (\<lambda>v. v \<noteq> '''' \<and> v \<noteq> ''.'') ws)"
  by (induction ws arbitrary: out) (auto simp: cleanStep_def)

lemma path_Clean_idem:
  assumes "path_IsAbs p"
  shows "path_Clean (path_Clean p) = path_Clean p"
proof -
  obtain ws where p: "path_Clean p = CHR ''/'' # joinWith ''/'' ws" "pathParts (path_Clean p) = ws" "list_all plainPart ws"
    by (rule path_Clean_rooted_parts [OF assms])
  have "foldl (cleanStep True) [] (splitOn CHR ''/'' (path_Clean p)) = ws"
    unfolding foldl_cleanStep_filter [of True "[]" "splitOn CHR ''/'' (path_Clean p)"] p(2) [unfolded pathParts_def]
    using foldl_cleanStep_plain [OF p(3), of True "[]"] by simp
  moreover have "path_IsAbs (path_Clean p)" by (simp add: p(1) path_IsAbs_def HasPrefix_def)
  ultimately have "path_Clean (path_Clean p) = ''/'' @ joinWith ''/'' ws"
    unfolding path_Clean_def [of "path_Clean p"] Let_def by (simp only: if_True)
  then show ?thesis by (simp add: p(1))
qed

lemma cleanStep_nonempty1: "[] \<notin> set out \<Longrightarrow> [] \<notin> set (cleanStep r out v)"
  unfolding cleanStep_def by (cases "v = [] \<or> v = ''.''"; cases "v = ''..''") (auto dest: in_set_butlastD)

lemma cleanStep_nonempty: "[] \<notin> set out \<Longrightarrow> [] \<notin> set (foldl (cleanStep r) out ws)"
  by (induction ws arbitrary: out) (simp_all add: cleanStep_nonempty1)

lemma path_Clean_relative:
  assumes "\<not> path_IsAbs p"
  shows "\<not> path_IsAbs (path_Clean p)"
proof -
  define ws where "ws = foldl (cleanStep False) [] (splitOn CHR ''/'' p)"
  have "[] \<notin> set ws" unfolding ws_def by (rule cleanStep_nonempty) simp
  moreover have "\<forall>w \<in> set ws. CHR ''/'' \<notin> set w"
    using foldl_cleanStep_parts [of False "[]" "splitOn CHR ''/'' p"] splitOn_no_sep unfolding ws_def by fastforce
  ultimately have "\<not> path_IsAbs (joinWith ''/'' ws)"
    by (cases "(''/'', ws)" rule: joinWith.cases; cases "hd ws") (auto simp: path_IsAbs_def HasPrefix_def)
  then show ?thesis using assms by (simp add: path_Clean_def ws_def Let_def path_IsAbs_def HasPrefix_def)
qed

lemma stripCommon_spec: "stripCommon bs ts = (xs, ys) \<Longrightarrow> \<exists>zs. bs = zs @ xs \<and> ts = zs @ ys"
proof (induction bs ts rule: stripCommon.induct)
  case (1 b bs t ts)
  show ?case
  proof (cases "b = t")
    case True
    with 1 obtain zs where "bs = zs @ xs \<and> ts = zs @ ys" by auto
    with True show ?thesis by (intro exI [of _ "b # zs"]) simp
  qed (use 1 in simp)
qed simp_all

lemma joinWith_append: "xs \<noteq> [] \<Longrightarrow> ys \<noteq> [] \<Longrightarrow> joinWith s (xs @ ys) = joinWith s xs @ s @ joinWith s ys"
proof (induction xs)
  case (Cons x xs)
  then show ?case by (cases xs; cases ys) simp_all
qed simp

lemma climbing_prefix: "HasPrefix (joinWith ''/'' (replicate (Suc n) ''..'' @ ts)) ''../'' \<or> joinWith ''/'' (replicate (Suc n) ''..'' @ ts) = ''..''"
  by (cases n; cases ts) (simp_all add: HasPrefix_def)

lemma ensureStagingPath_inside:
  assumes ok: "ensureStagingPath root c = None" and root: "path_IsAbs root" "path_Clean root = root" "root \<noteq> ''/''"
  shows "\<exists>rest. rest \<noteq> '''' \<and> path_Clean c = root @ ''/'' @ rest"
proof -
  obtain rel where rel: "path_Rel root (path_Clean c) = Some rel" "rel \<noteq> ''.''" "rel \<noteq> ''..''" "\<not> HasPrefix rel ''../''"
    using ok root(2) by (auto simp: ensureStagingPath_def split: option.splits if_splits)
  have abs: "path_IsAbs (path_Clean (path_Clean c))"
    using rel(1) root by (auto simp: path_Rel_def Let_def split: if_splits)
  have c: "path_IsAbs c"
  proof (rule ccontr)
    assume n: "\<not> path_IsAbs c"
    have "\<not> path_IsAbs (path_Clean d)" if "\<not> path_IsAbs d" for d
      using path_Clean_relative that by blast
    with n abs show False by blast
  qed
  obtain bs where b: "root = CHR ''/'' # joinWith ''/'' bs" "pathParts root = bs" "list_all plainPart bs"
    by (rule path_Clean_rooted_parts [OF root(1), unfolded root(2)])
  obtain ts where t: "path_Clean c = CHR ''/'' # joinWith ''/'' ts" "pathParts (path_Clean c) = ts" "list_all plainPart ts"
    by (rule path_Clean_rooted_parts [OF c])
  obtain xs ys where st: "stripCommon bs ts = (xs, ys)" by (rule prod.exhaust)
  then obtain zs where z: "bs = zs @ xs" "ts = zs @ ys" using stripCommon_spec by blast
  have r: "rel = joinWith ''/'' (replicate (length xs) ''..'' @ ys)" "xs \<noteq> [] \<or> ys \<noteq> []"
    using rel(1,2) root c st b(2) t(2) path_Clean_idem [OF c]
    by (auto simp: path_Rel_def Let_def split: if_splits)
  have "xs = []" using climbing_prefix [of "length xs - 1" ys] rel(3,4) r(1) by (cases xs) auto
  with z r(2) have "ts = bs @ ys" "ys \<noteq> []" by simp_all
  moreover have "bs \<noteq> []" using b(1) root(3) by auto
  ultimately have "path_Clean c = root @ ''/'' @ joinWith ''/'' ys" using b(1) t(1) by (simp add: joinWith_append)
  moreover have "joinWith ''/'' ys \<noteq> ''''"
    using \<open>ys \<noteq> []\<close> \<open>ts = bs @ ys\<close> t(3) by (cases ys rule: remdups_adj.cases) (auto simp: plainPart_def)
  ultimately show ?thesis by blast
qed

text \<open>
  The cleanup of a staged bundle removes no file outside the staging directory: either nothing is removed, or the
  local path, cleaned, is a proper descendant of it.
\<close>

theorem cleanup_contained:
  "Driver_Cleanup se b w = w
   \<or> (Driver_Cleanup se b w = se_remove se (SB_LocalPath b) w
      \<and> (\<exists>rest. rest \<noteq> '''' \<and> path_Clean (SB_LocalPath b) = stagingRoot @ ''/'' @ rest))"
proof -
  have "path_IsAbs stagingRoot" "path_Clean stagingRoot = stagingRoot" "stagingRoot \<noteq> ''/''"
    by code_simp+
  with ensureStagingPath_inside [of stagingRoot "SB_LocalPath b"] show ?thesis by (auto simp: Driver_Cleanup_def)
qed

end
