(* ===== verification/Bridge_Adapter.thy ===== *)
theory Bridge_Adapter
  imports Bridge_Server Salt_Driver
begin

text \<open>
  The Bridge's adapter (\<open>src/internal/bridge/adapter.go\<close>): it sends each request to the local runtime manager, to the
  relay manager or, through the Salt driver, to a minion. A Salt mutation is journaled with what is needed to settle it
  after a restart; \<open>CompositeAdapter_RecoverOperations\<close> does that.

  \<open>adapter_env\<close> extends the environment of the Salt driver with the managers of \<open>src/internal/runtime\<close>, which act on
  the world only, the lookup of a user, the publication of the Salt assets, JSON and SHA-256. A call on an incomplete
  adapter does not occur here: every field is present. Timestamps that are strings in Salt's JSON are the values \<open>JTime\<close>.
\<close>

section \<open>Values\<close>

record InventoryMember =
  IM_ID :: string
  IM_Kind :: string
  IM_Name :: string
  IM_ContentHash :: string
  IM_Protected :: bool
  IM_Rest :: "(string \<times> json) list"

record DiffItem =
  DI_Kind :: string
  DI_MemberID :: string
  DI_Name :: string
  DI_Reason :: string

record Diff =
  DF_Add :: "DiffItem list"
  DF_Replace :: "DiffItem list"
  DF_Delete :: "DiffItem list"
  DF_Excluded :: "DiffItem list"

record ScanResponse =
  SC_TargetRevision :: string
  SC_Members :: "InventoryMember list"

record PreflightResponse =
  PF_TargetRevision :: string
  PF_ManifestHash :: string
  PF_Diff :: Diff

record ManagedUser =
  MU_Name :: string
  MU_Home :: string
  MU_UID :: int
  MU_GID :: int

text \<open>\<open>saltReconcilePayload\<close> and the other payloads that reach \<open>Stage\<close>.\<close>

datatype saltPayload =
    PayCommit CommitRequest
  | PayReconcile ReconcileRequest
  | PaySaltReconcile ReconcileRequest string
  | PayMap "(string \<times> json) list"
  | PayScan Target
  | PayPreflight Target DesiredManifest

record 'w adapter_env = "'w salt_env" +
  ad_now :: "'w \<Rightarrow> time"
  ad_user :: "string \<Rightarrow> go_error + ManagedUser"
  ad_publish :: "'w \<Rightarrow> (go_error option) \<times> 'w"
  ad_marshal :: "saltPayload \<Rightarrow> go_error + string"
  ad_manifest :: "(string \<times> json) list \<Rightarrow> (DesiredManifest \<times> (string \<times> string) list) option"
  ad_encode :: "json \<Rightarrow> string"
  ad_sha :: "string \<Rightarrow> string"
  ad_em :: "DesiredManifest \<Rightarrow> json"
  ad_canonical :: "DesiredManifest \<Rightarrow> go_error + string"
  ad_localScan :: "ManagedUser \<Rightarrow> string \<Rightarrow> 'w \<Rightarrow> (go_error + ScanResponse) \<times> 'w"
  ad_localPreflight :: "ManagedUser \<Rightarrow> DesiredManifest \<Rightarrow> 'w \<Rightarrow> (go_error + PreflightResponse) \<times> 'w"
  ad_localApply :: "ManagedUser \<Rightarrow> CommitRequest \<Rightarrow> 'w \<Rightarrow> (go_error + TargetResult) \<times> 'w"
  ad_localReconcile :: "ManagedUser \<Rightarrow> ReconcileRequest \<Rightarrow> 'w \<Rightarrow> (go_error + TargetResult) \<times> 'w"
  ad_localRestore :: "ManagedUser \<Rightarrow> CommitRequest \<Rightarrow> 'w \<Rightarrow> (go_error + TargetResult) \<times> 'w"
  ad_localRemoveBackup :: "Backup \<Rightarrow> 'w \<Rightarrow> go_error option \<times> 'w"
  ad_relayApply :: "ManagedUser \<Rightarrow> CommitRequest \<Rightarrow> 'w \<Rightarrow> (go_error + TargetResult) \<times> 'w"
  ad_relayRestore :: "ManagedUser \<Rightarrow> CommitRequest \<Rightarrow> 'w \<Rightarrow> (go_error + TargetResult) \<times> 'w"
  ad_relayStatus :: "int \<Rightarrow> bool \<Rightarrow> DesiredManifest option \<Rightarrow> 'w \<Rightarrow> (go_error + RelayStatus) \<times> 'w"
  ad_relayStart :: "int \<Rightarrow> DesiredManifest option \<Rightarrow> 'w \<Rightarrow> RelayStatus \<times> 'w"
  ad_relayRestart :: "int \<Rightarrow> DesiredManifest option \<Rightarrow> 'w \<Rightarrow> RelayStatus \<times> 'w"
  ad_relayStop :: "'w \<Rightarrow> go_error option \<times> 'w"

section \<open>The relay's diff\<close>

text \<open>\<open>order\<close> is the order in which the map of the remaining servers is visited; the map has the last server of a name.\<close>

fun relayDiffLoop :: "InventoryMember list \<Rightarrow> (string \<times> MCPMember) list \<Rightarrow> Diff \<Rightarrow> Diff \<times> (string \<times> MCPMember) list" where
  "relayDiffLoop [] desired diff = (diff, desired)"
| "relayDiffLoop (item # current) desired diff =
     (if IM_Kind item = ''anchor'' then relayDiffLoop current desired diff
      else let diff' = (case map_of desired (IM_Name item) of
               None \<Rightarrow> diff\<lparr>DF_Delete := DF_Delete diff @ [\<lparr>DI_Kind = ''mcp'', DI_MemberID = '''', DI_Name = IM_Name item, DI_Reason = ''''\<rparr>]\<rparr>
             | Some server \<Rightarrow>
                 if IM_ContentHash item \<noteq> MM_ContentHash server then
                   diff\<lparr>DF_Replace := DF_Replace diff @ [\<lparr>DI_Kind = ''mcp'', DI_MemberID = MM_MemberID server, DI_Name = IM_Name item, DI_Reason = ''''\<rparr>]\<rparr>
                 else diff)
           in relayDiffLoop current (filter (\<lambda>(n, _). n \<noteq> IM_Name item) desired) diff')"

definition serversByName :: "MCPMember list \<Rightarrow> (string \<times> MCPMember) list" where
  "serversByName servers = foldl (\<lambda>m s. filter (\<lambda>(n, _). n \<noteq> MM_Name s) m @ [(MM_Name s, s)]) [] servers"

definition relayDiff ::
    "((string \<times> MCPMember) list \<Rightarrow> (string \<times> MCPMember) list) \<Rightarrow> InventoryMember list \<Rightarrow> DesiredManifest \<Rightarrow> Diff" where
  "relayDiff order current manifest =
     (let (diff, rest) = relayDiffLoop current (serversByName (DM_MCPServers manifest))
            \<lparr>DF_Add = [], DF_Replace = [], DF_Delete = [], DF_Excluded = []\<rparr>
      in diff\<lparr>DF_Add := map (\<lambda>(_, server). \<lparr>DI_Kind = ''mcp'', DI_MemberID = MM_MemberID server, DI_Name = MM_Name server, DI_Reason = ''''\<rparr>) (order rest)\<rparr>)"

section \<open>Fingerprints of the expected members\<close>

fun resolvedSecretMap :: "(string \<times> string) list \<Rightarrow> (string \<times> string) list \<Rightarrow> go_error + (string \<times> string) list" where
  "resolvedSecretMap [] secrets = Inr []"
| "resolvedSecretMap ((key, i) # refs) secrets =
     (case map_of secrets i of
        None \<Rightarrow> Inl (errorsNew ''missing MCP secret for recovery fingerprint'')
      | Some v \<Rightarrow> (case resolvedSecretMap refs secrets of Inl e \<Rightarrow> Inl e | Inr m \<Rightarrow> Inr ((key, v) # m)))"

text \<open>\<open>utf8.DecodeRune\<close> on a non-empty string: the rune and its size, or \<open>None\<close> for an invalid byte.\<close>

definition contByte :: "char \<Rightarrow> bool" where
  "contByte c = (0x80 \<le> (of_char c :: nat) \<and> (of_char c :: nat) \<le> 0xBF)"

definition lowBits :: "char \<Rightarrow> nat" where
  "lowBits c = of_char c mod 64"

definition decodeRune :: "string \<Rightarrow> (nat \<times> nat) option" where
  "decodeRune s = (case s of
       [] \<Rightarrow> None
     | a # t \<Rightarrow> (let n = (of_char a :: nat) in
         if n < 0x80 then Some (n, 1)
         else case t of
           [] \<Rightarrow> None
         | b # t2 \<Rightarrow>
             if \<not> contByte b then None
             else if 0xC2 \<le> n \<and> n \<le> 0xDF then Some (n mod 32 * 64 + lowBits b, 2)
             else case t2 of
               [] \<Rightarrow> None
             | c # t3 \<Rightarrow>
                 if \<not> contByte c then None
                 else if 0xE0 \<le> n \<and> n \<le> 0xEF \<and> (n = 0xE0 \<longrightarrow> 0xA0 \<le> (of_char b :: nat)) \<and> (n = 0xED \<longrightarrow> (of_char b :: nat) \<le> 0x9F) then
                   Some (n mod 16 * 4096 + lowBits b * 64 + lowBits c, 3)
                 else case t3 of
                   [] \<Rightarrow> None
                 | d # _ \<Rightarrow>
                     if contByte d \<and> 0xF0 \<le> n \<and> n \<le> 0xF4 \<and> (n = 0xF0 \<longrightarrow> 0x90 \<le> (of_char b :: nat)) \<and> (n = 0xF4 \<longrightarrow> (of_char b :: nat) \<le> 0x8F) then
                       Some (n mod 8 * 262144 + lowBits b * 4096 + lowBits c * 64 + lowBits d, 4)
                     else None))"

text \<open>\<open>%04x\<close> of a number below \<open>0x10000\<close>.\<close>

definition hex4 :: "nat \<Rightarrow> string" where
  "hex4 n = [hexDigit (n div 4096 mod 16), hexDigit (n div 256 mod 16), hexDigit (n div 16 mod 16), hexDigit (n mod 16)]"

definition pythonRune :: "nat \<Rightarrow> string" where
  "pythonRune r =
     (if r \<le> 0x7F then [char_of r]
      else if r \<le> 0xFFFF then CHR 0x5C # CHR ''u'' # hex4 r
      else let q = r - 0x10000
           in (CHR 0x5C # CHR ''u'' # hex4 (0xD800 + q div 1024)) @ (CHR 0x5C # CHR ''u'' # hex4 (0xDC00 + q mod 1024)))"

lemma decodeRune_size: "decodeRune s = Some (r, n) \<Longrightarrow> 0 < n"
  by (auto simp: decodeRune_def Let_def split: list.splits if_splits)

function pythonASCII :: "string \<Rightarrow> string option" where
  "pythonASCII [] = Some []"
| "pythonASCII (a # s) =
     (case decodeRune (a # s) of
        None \<Rightarrow> None
      | Some (r, n) \<Rightarrow> (case pythonASCII (drop n (a # s)) of None \<Rightarrow> None | Some t \<Rightarrow> Some (pythonRune r @ t)))"
  by pat_completeness auto
termination
  by (relation "measure length") (auto dest!: decodeRune_size)

definition pythonJSONHash :: "('w, 'z) adapter_env_scheme \<Rightarrow> json \<Rightarrow> go_error + string" where
  "pythonJSONHash ad v =
     (case pythonASCII (TrimSpace (ad_encode ad v)) of
        None \<Rightarrow> Inl (errorsNew ''recovery fingerprint JSON is not UTF-8'')
      | Some ascii \<Rightarrow> Inr (hexEncode (ad_sha ad ascii)))"

definition jsonMap :: "(string \<times> string) list \<Rightarrow> json" where
  "jsonMap m = JObj (map (\<lambda>(k, v). (k, JStr v)) m)"

text \<open>The configuration of one MCP server as the minion writes it, and its fingerprint.\<close>

definition expectedServer :: "('w, 'z) adapter_env_scheme \<Rightarrow> string \<Rightarrow> (string \<times> string) list \<Rightarrow> MCPMember \<Rightarrow> go_error + saltMemberFingerprint" where
  "expectedServer ad runtime secrets server =
     (case (if MM_Transport server = ''stdio'' then
              Inr [(''command'', JStr (MM_Command server)), (''args'', JArr (map JStr (MM_Args server)))]
            else if MM_Transport server = ''http'' then Inr [(''url'', JStr (MM_URL server))]
            else if MM_Transport server = ''sse'' then Inr [(''url'', JStr (MM_URL server)), (''transport'', JStr ''sse'')]
            else Inl (errorsNew ''unsupported MCP transport in recovery fingerprint'')) of
        Inl e \<Rightarrow> Inl e
      | Inr base \<Rightarrow>
     (case resolvedSecretMap (MM_EnvRefs server) secrets of
        Inl e \<Rightarrow> Inl e
      | Inr env \<Rightarrow>
     (case resolvedSecretMap (MM_HeaderRefs server) secrets of
        Inl e \<Rightarrow> Inl e
      | Inr headers \<Rightarrow>
     (case pythonJSONHash ad (JObj (base
           @ (if env \<noteq> [] then [(''env'', jsonMap env)] else [])
           @ (if headers \<noteq> [] then [(if runtime = RuntimeClaude then ''headers'' else ''http_headers'', jsonMap headers)] else [])
           @ (if runtime = RuntimeClaude \<and> (MM_Transport server = ''http'' \<or> MM_Transport server = ''sse'')
              then [(''type'', JStr (MM_Transport server))] else []))) of
        Inl e \<Rightarrow> Inl e
      | Inr h \<Rightarrow> Inr \<lparr>SF_Kind = ''mcp'', SF_Name = MM_Name server, SF_ContentHash = h\<rparr>))))"

fun expectedServers :: "('w, 'z) adapter_env_scheme \<Rightarrow> string \<Rightarrow> (string \<times> string) list \<Rightarrow> MCPMember list \<Rightarrow> go_error + saltMemberFingerprint list" where
  "expectedServers ad runtime secrets [] = Inr []"
| "expectedServers ad runtime secrets (s # ss) =
     (case expectedServer ad runtime secrets s of
        Inl e \<Rightarrow> Inl e
      | Inr f \<Rightarrow> (case expectedServers ad runtime secrets ss of Inl e \<Rightarrow> Inl e | Inr fs \<Rightarrow> Inr (f # fs)))"

text \<open>The sort by kind and name, as one key; of two equal keys the unstable \<open>sort.Slice\<close> may put either first.\<close>

definition expectedSaltMembers :: "('w, 'z) adapter_env_scheme \<Rightarrow> DesiredManifest \<Rightarrow> (string \<times> string) list \<Rightarrow> go_error + saltMemberFingerprint list" where
  "expectedSaltMembers ad manifest secrets =
     (case expectedServers ad (T_Runtime (DM_Target manifest)) secrets (DM_MCPServers manifest) of
        Inl e \<Rightarrow> Inl e
      | Inr mcp \<Rightarrow> Inr (sort_key (\<lambda>f. (SF_Kind f @ [CHR 0x00] @ SF_Name f))
          (map (\<lambda>s. \<lparr>SF_Kind = ''skill'', SF_Name = SM_Slug s, SF_ContentHash = SM_ContentHash s\<rparr>) (DM_Skills manifest) @ mcp)))"

section \<open>Verification of a snapshot\<close>

definition memberKey :: "string \<Rightarrow> string \<Rightarrow> string" where
  "memberKey kind nm = kind @ [CHR 0x00] @ nm"

definition wantedMembers :: "saltMemberFingerprint list \<Rightarrow> (string \<times> saltMemberFingerprint) list" where
  "wantedMembers expected = rev (map (\<lambda>f. (memberKey (SF_Kind f) (SF_Name f), f)) expected)"

text \<open>The loop over the scanned members; the keys seen so far are a set. \<open>None\<close>: the snapshot is refused.\<close>

fun matchLoop :: "(string \<times> saltMemberFingerprint) list \<Rightarrow> bool \<Rightarrow> InventoryMember list \<Rightarrow> string list \<Rightarrow> string list option" where
  "matchLoop wanted preserveUnmanaged [] seen = Some seen"
| "matchLoop wanted preserveUnmanaged (item # current) seen =
     (if IM_Kind item \<noteq> ''skill'' \<and> IM_Kind item \<noteq> ''mcp'' then matchLoop wanted preserveUnmanaged current seen
      else let key = memberKey (IM_Kind item) (IM_Name item) in
        case map_of wanted key of
          Some expectedItem \<Rightarrow>
            if IM_Protected item \<or> IM_ContentHash item \<noteq> SF_ContentHash expectedItem then None
            else matchLoop wanted preserveUnmanaged current (List.insert key seen)
        | None \<Rightarrow>
            if \<not> preserveUnmanaged \<and> \<not> IM_Protected item then None
            else matchLoop wanted preserveUnmanaged current seen)"

definition targetMatchesExpected :: "InventoryMember list \<Rightarrow> saltMemberFingerprint list \<Rightarrow> bool \<Rightarrow> bool" where
  "targetMatchesExpected current expected preserveUnmanaged =
     (case matchLoop (wantedMembers expected) preserveUnmanaged current [] of
        None \<Rightarrow> False
      | Some seen \<Rightarrow> length seen = length (remdups (map fst (wantedMembers expected))))"

section \<open>Salt's answers\<close>

fun decodeBool :: "json \<Rightarrow> bool option" where
  "decodeBool (JBool b) = Some b"
| "decodeBool JNull = Some False"
| "decodeBool _ = None"

definition boolField :: "(string \<times> json) list \<Rightarrow> string \<Rightarrow> bool option" where
  "boolField fs key = (case objMember fs key of None \<Rightarrow> Some False | Some v \<Rightarrow> decodeBool v)"

text \<open>The zero \<open>time.Time\<close>.\<close>

definition zeroTime :: time where
  "zeroTime = - 62135596800 * second"

definition timeField :: "(string \<times> json) list \<Rightarrow> string \<Rightarrow> time option" where
  "timeField fs key = (case objMember fs key of None \<Rightarrow> Some zeroTime | Some JNull \<Rightarrow> Some zeroTime | Some (JTime t) \<Rightarrow> Some t | _ \<Rightarrow> None)"

text \<open>A pointer field: \<open>Some None\<close> for a missing or null value.\<close>

definition pointerField :: "((string \<times> json) list \<Rightarrow> 'a option) \<Rightarrow> (string \<times> json) list \<Rightarrow> string \<Rightarrow> 'a option option" where
  "pointerField decode fs key = (case objMember fs key of
       None \<Rightarrow> Some None | Some JNull \<Rightarrow> Some None
     | Some (JObj gs) \<Rightarrow> map_option Some (decode gs) | Some _ \<Rightarrow> None)"

definition decodeAPIError :: "(string \<times> json) list \<Rightarrow> api_error option" where
  "decodeAPIError fs =
     (case (textField fs ''code'', textField fs ''message'', boolField fs ''retryable'', pointerField Some fs ''details'') of
        (Some c, Some m, Some r, Some d) \<Rightarrow>
          Some \<lparr>apiCode = c, apiMessage = Lit m, apiRetryable = r, apiDetails = (case d of None \<Rightarrow> [] | Some gs \<Rightarrow> gs)\<rparr>
      | _ \<Rightarrow> None)"

definition decodeBackup :: "(string \<times> json) list \<Rightarrow> Backup option" where
  "decodeBackup fs =
     (case those (map (textField fs) [''id'', ''targetId'', ''nodeKind'', ''saltMinionId'', ''runtime'', ''sourceOperationId'', ''revision'']) of
        Some [i, t, k, m, r, q, v] \<Rightarrow> map_option (\<lambda>c. \<lparr>BK_ID = i, BK_TargetID = t, BK_NodeKind = k, BK_SaltMinionID = m,
          BK_Runtime = r, BK_SourceOperationID = q, BK_Revision = v, BK_CreatedAt = c\<rparr>) (timeField fs ''createdAt'')
      | _ \<Rightarrow> None)"

definition decodeInventory :: "(string \<times> json) list \<Rightarrow> InventoryMember option" where
  "decodeInventory fs =
     (case (those (map (textField fs) [''id'', ''kind'', ''name'', ''contentHash'']), boolField fs ''protected'') of
        (Some [i, k, n, h], Some p) \<Rightarrow> Some \<lparr>IM_ID = i, IM_Kind = k, IM_Name = n, IM_ContentHash = h, IM_Protected = p, IM_Rest = fs\<rparr>
      | _ \<Rightarrow> None)"

definition decodeObjectOf :: "((string \<times> json) list \<Rightarrow> 'a option) \<Rightarrow> json \<Rightarrow> 'a option" where
  "decodeObjectOf decode v = (case v of JObj fs \<Rightarrow> decode fs | JNull \<Rightarrow> decode [] | _ \<Rightarrow> None)"

definition membersField :: "(string \<times> json) list \<Rightarrow> InventoryMember list option" where
  "membersField fs = (case objMember fs ''members'' of
       None \<Rightarrow> Some [] | Some JNull \<Rightarrow> Some []
     | Some (JArr vs) \<Rightarrow> those (map (decodeObjectOf decodeInventory) vs) | Some _ \<Rightarrow> None)"

text \<open>
  A failed scan returns \<open>response.Error\<close> as an error: with no error in the response that is an error value holding a nil
  pointer, here \<open>None\<close>; \<open>Some\<close> is an error that can be read.
\<close>

definition decodeScan :: "json \<Rightarrow> go_error option + ScanResponse" where
  "decodeScan raw =
     (case decodeObjectOf (\<lambda>fs. case (boolField fs ''ok'', textField fs ''targetRevision'', membersField fs, pointerField decodeAPIError fs ''error'') of
             (Some good, Some rv, Some ms, Some err) \<Rightarrow> Some (good, rv, ms, err) | _ \<Rightarrow> None) raw of
        None \<Rightarrow> Inl (Some (errorsNew ''Salt scan result is invalid''))
      | Some (good, rv, ms, err) \<Rightarrow>
          if \<not> good then Inl (map_option APIErr err) else Inr \<lparr>SC_TargetRevision = rv, SC_Members = ms\<rparr>)"

section \<open>Preparation of a minion\<close>

definition prepareSaltNode :: "('w, 'z) adapter_env_scheme \<Rightarrow> string \<Rightarrow> 'w \<Rightarrow> go_error option \<times> 'w" where
  "prepareSaltNode ad minionID w =
     (case ad_publish ad w of
        (Some e, w1) \<Rightarrow> (Some (Wrapped ''publish Salt ToolHub assets: %w'' e), w1)
      | (None, w1) \<Rightarrow> EnsureCapabilities ad minionID w1)"

definition prepareSaltTarget :: "('w, 'z) adapter_env_scheme \<Rightarrow> Target \<Rightarrow> 'w \<Rightarrow> (go_error + Target) \<times> 'w" where
  "prepareSaltTarget ad target w =
     (case prepareSaltNode ad (T_SaltMinionID target) w of
        (Some e, w1) \<Rightarrow> (Inl e, w1)
      | (None, w1) \<Rightarrow> (case ResolveManagedHome ad (T_SaltMinionID target) (T_ManagedUsername target) w1 of
          (Inl e, w2) \<Rightarrow> (Inl e, w2)
        | (Inr home, w2) \<Rightarrow> (Inr (target\<lparr>T_ManagedHome := home\<rparr>), w2)))"

section \<open>Scan\<close>

definition CompositeAdapter_Scan :: "('w, 'z) adapter_env_scheme \<Rightarrow> Target \<Rightarrow> 'w \<Rightarrow> (go_error option + ScanResponse) \<times> 'w" where
  "CompositeAdapter_Scan ad target w =
     (if T_NodeKind target = NodeKindLocal then
        (case ad_user ad (T_ManagedUsername target) of
           Inl e \<Rightarrow> (Inl (Some e), w)
         | Inr user \<Rightarrow> (case ad_localScan ad user (T_Runtime target) w of
             (Inl e, w1) \<Rightarrow> (Inl (Some e), w1) | (Inr r, w1) \<Rightarrow> (Inr r, w1)))
      else case prepareSaltTarget ad target w of
        (Inl e, w1) \<Rightarrow> (Inl (Some e), w1)
      | (Inr bound, w1) \<Rightarrow>
      (case Driver_Stage ad (T_SaltMinionID bound) (ad_marshal ad (PayScan bound)) w1 of
        (Inl e, w2) \<Rightarrow> (Inl (Some e), w2)
      | (Inr bundle, w2) \<Rightarrow>
          (let (r, w3) = Driver_Call ad (T_SaltMinionID bound) ''toolhub.scan'' [SB_RemotePath bundle] w2
           in ((case r of Inl e \<Rightarrow> Inl (Some e) | Inr raw \<Rightarrow> decodeScan raw), CleanupRemote ad (T_SaltMinionID bound) bundle w3))))"

section \<open>Preflight\<close>

definition decodeDiffItem :: "(string \<times> json) list \<Rightarrow> DiffItem option" where
  "decodeDiffItem fs = (case those (map (textField fs) [''kind'', ''memberId'', ''name'', ''reason'']) of
       Some [k, m, n, r] \<Rightarrow> Some \<lparr>DI_Kind = k, DI_MemberID = m, DI_Name = n, DI_Reason = r\<rparr> | _ \<Rightarrow> None)"

definition diffField :: "(string \<times> json) list \<Rightarrow> string \<Rightarrow> DiffItem list option" where
  "diffField fs key = (case objMember fs key of
       None \<Rightarrow> Some [] | Some JNull \<Rightarrow> Some []
     | Some (JArr vs) \<Rightarrow> those (map (decodeObjectOf decodeDiffItem) vs) | Some _ \<Rightarrow> None)"

definition decodeDiff :: "(string \<times> json) list \<Rightarrow> Diff option" where
  "decodeDiff fs = (case those (map (diffField fs) [''add'', ''replace'', ''delete'', ''excluded'']) of
       Some [a, r, d, x] \<Rightarrow> Some \<lparr>DF_Add = a, DF_Replace = r, DF_Delete = d, DF_Excluded = x\<rparr> | _ \<Rightarrow> None)"

definition decodePreflight :: "json \<Rightarrow> go_error option + PreflightResponse" where
  "decodePreflight raw =
     (case decodeObjectOf (\<lambda>fs. case (boolField fs ''ok'', textField fs ''targetRevision'', textField fs ''manifestHash'',
               (case objMember fs ''diff'' of None \<Rightarrow> decodeDiff [] | Some v \<Rightarrow> decodeObjectOf decodeDiff v), pointerField decodeAPIError fs ''error'') of
             (Some good, Some rv, Some h, Some d, Some err) \<Rightarrow> Some (good, rv, h, d, err) | _ \<Rightarrow> None) raw of
        None \<Rightarrow> Inl (Some (errorsNew ''Salt preflight result is invalid''))
      | Some (good, rv, h, d, err) \<Rightarrow>
          if \<not> good then Inl (map_option APIErr err) else Inr \<lparr>PF_TargetRevision = rv, PF_ManifestHash = h, PF_Diff = d\<rparr>)"

definition CompositeAdapter_Preflight ::
    "('w, 'z) adapter_env_scheme \<Rightarrow> ((string \<times> MCPMember) list \<Rightarrow> (string \<times> MCPMember) list) \<Rightarrow> Target \<Rightarrow> DesiredManifest \<Rightarrow> 'w
     \<Rightarrow> (go_error option + PreflightResponse) \<times> 'w" where
  "CompositeAdapter_Preflight ad order target manifest w =
     (if T_NodeKind target = NodeKindLocal then
        (case ad_user ad (T_ManagedUsername target) of
           Inl e \<Rightarrow> (Inl (Some e), w)
         | Inr user \<Rightarrow>
             if T_Runtime target = RuntimeSharedRelay then
               (case ad_localScan ad user (T_Runtime target) w of
                  (Inl e, w1) \<Rightarrow> (Inl (Some e), w1)
                | (Inr current, w1) \<Rightarrow> (case ad_canonical ad manifest of
                    Inl e \<Rightarrow> (Inl (Some e), w1)
                  | Inr h \<Rightarrow> (Inr \<lparr>PF_TargetRevision = SC_TargetRevision current, PF_ManifestHash = h,
                      PF_Diff = relayDiff order (SC_Members current) manifest\<rparr>, w1)))
             else (case ad_localPreflight ad user manifest w of
                (Inl e, w1) \<Rightarrow> (Inl (Some e), w1) | (Inr r, w1) \<Rightarrow> (Inr r, w1)))
      else case prepareSaltTarget ad target w of
        (Inl e, w1) \<Rightarrow> (Inl (Some e), w1)
      | (Inr bound, w1) \<Rightarrow>
      (case Driver_Stage ad (T_SaltMinionID bound) (ad_marshal ad (PayPreflight bound manifest)) w1 of
        (Inl e, w2) \<Rightarrow> (Inl (Some e), w2)
      | (Inr bundle, w2) \<Rightarrow>
          (let (r, w3) = Driver_Call ad (T_SaltMinionID bound) ''toolhub.preflight'' [SB_RemotePath bundle] w2
           in ((case r of Inl e \<Rightarrow> Inl (Some e) | Inr raw \<Rightarrow> decodePreflight raw), CleanupRemote ad (T_SaltMinionID bound) bundle w3))))"

section \<open>Salt mutations\<close>

definition bindSaltTarget :: "saltPayload \<Rightarrow> Target \<Rightarrow> go_error + saltPayload" where
  "bindSaltTarget payload target = (case payload of
       PayCommit v \<Rightarrow> Inr (PayCommit (v\<lparr>CR_Target := target\<rparr>))
     | PayReconcile v \<Rightarrow> Inr (PayReconcile (v\<lparr>RR_Target := target\<rparr>))
     | PaySaltReconcile v er \<Rightarrow> Inr (PaySaltReconcile (v\<lparr>RR_Target := target\<rparr>) er)
     | PayMap fs \<Rightarrow> Inr (PayMap (filter (\<lambda>(k, _). k \<noteq> ''target'') fs @ [(''target'', encodeTarget target)]))
     | _ \<Rightarrow> Inl (errorsNew ''Salt mutation payload is not a typed target request''))"

definition manifestAndSecretsFromPayload ::
    "('w, 'z) adapter_env_scheme \<Rightarrow> saltPayload \<Rightarrow> (DesiredManifest \<times> (string \<times> string) list) option" where
  "manifestAndSecretsFromPayload ad payload =
     (case (case payload of
              PayCommit v \<Rightarrow> Some (CR_Manifest v, CR_SecretValues v)
            | PayReconcile v \<Rightarrow> Some (RR_Manifest v, RR_SecretValues v)
            | PaySaltReconcile v _ \<Rightarrow> Some (RR_Manifest v, RR_SecretValues v)
            | PayMap fs \<Rightarrow> ad_manifest ad fs
            | PayPreflight _ m \<Rightarrow> Some (m, [])
            | PayScan _ \<Rightarrow> None) of
        None \<Rightarrow> None
      | Some (m, secrets) \<Rightarrow> if DM_SchemaVersion m = 0 then None else Some (m, secrets))"

definition publicBridgeError :: "go_error \<Rightarrow> api_error" where
  "publicBridgeError err = BoundedAPIError err ErrTargetUnavailable"

text \<open>What \<open>finishSaltOperation\<close> stores.\<close>

definition finishedResult :: "string \<Rightarrow> TargetResult \<Rightarrow> api_error option \<Rightarrow> TargetResult" where
  "finishedResult status result0 apiErr =
     (let r1 = (if TR_Status result0 = '''' then result0\<lparr>TR_Status := status\<rparr> else result0);
          r2 = (if TR_Health r1 = '''' \<and> status = OperationFailed then r1\<lparr>TR_Health := HealthBlocked\<rparr> else r1)
      in if TR_Error r2 = None then r2\<lparr>TR_Error := apiErr\<rparr> else r2)"

definition finishedSaltOperation :: "time \<Rightarrow> string \<Rightarrow> string \<Rightarrow> string \<Rightarrow> string \<Rightarrow> TargetResult \<Rightarrow> api_error option \<Rightarrow> Journal \<Rightarrow> Operation" where
  "finishedSaltOperation now operationID f targetID status result0 apiErr j =
     (let (p, saltJID) = (case Journal_Operation operationID j of
            Inl _ \<Rightarrow> (\<lparr>OP_ID = operationID, OP_Kind = f, OP_Status = '''', OP_Targets = [], OP_CreatedAt = now, OP_UpdatedAt = now\<rparr>, '''')
          | Inr p \<Rightarrow> (p, if length (OP_Targets p) = 1 then OT_SaltJID (hd (OP_Targets p)) else ''''))
      in p\<lparr>OP_Kind := f, OP_Status := status, OP_UpdatedAt := now,
           OP_Targets := [\<lparr>OT_TargetID = targetID, OT_Status = status, OT_SaltJID = saltJID,
             OT_Result = Some (journalSafeTargetResult (finishedResult status result0 apiErr)), OT_Error = apiErr\<rparr>]\<rparr>)"

definition finishSaltOperation ::
    "('w, 'z) adapter_env_scheme \<Rightarrow> time \<Rightarrow> string \<Rightarrow> string \<Rightarrow> string \<Rightarrow> string \<Rightarrow> TargetResult \<Rightarrow> api_error option \<Rightarrow> Journal
     \<Rightarrow> go_error option \<times> Journal" where
  "finishSaltOperation ad now operationID f targetID status result apiErr j =
     (case PutOperation (ad_em ad) (finishedSaltOperation now operationID f targetID status result apiErr j) j of
        Inl e \<Rightarrow> (Some e, j) | Inr j' \<Rightarrow> (None, j'))"

record saltEnvelope =
  EV_OK :: bool
  EV_Status :: string
  EV_Health :: string
  EV_TargetRevision :: string
  EV_BackupID :: string
  EV_Backup :: "Backup option"
  EV_Repaired :: bool
  EV_Error :: "api_error option"

definition decodeEnvelope :: "(string \<times> json) list \<Rightarrow> saltEnvelope option" where
  "decodeEnvelope fs =
     (case (those (map (textField fs) [''status'', ''health'', ''targetRevision'', ''backupId'']), boolField fs ''ok'', boolField fs ''repaired'',
            pointerField decodeBackup fs ''backup'', pointerField decodeAPIError fs ''error'') of
        (Some [s, h, r, b], Some good, Some rep, Some bk, Some err) \<Rightarrow>
          Some \<lparr>EV_OK = good, EV_Status = s, EV_Health = h, EV_TargetRevision = r, EV_BackupID = b, EV_Backup = bk, EV_Repaired = rep, EV_Error = err\<rparr>
      | _ \<Rightarrow> None)"

definition decodeSaltResult :: "json \<Rightarrow> Journal \<Rightarrow> (go_error + TargetResult) \<times> Journal" where
  "decodeSaltResult raw j =
     (case decodeObjectOf decodeEnvelope raw of
        None \<Rightarrow> (Inl (errorsNew ''Salt target result is invalid''), j)
      | Some v \<Rightarrow>
          if \<not> EV_OK v then
            (Inl (case EV_Error v of None \<Rightarrow> errorsNew ''Salt target returned an invalid failure'' | Some e \<Rightarrow> APIErr e), j)
          else let result = zeroResult\<lparr>TR_Status := (if EV_Status v = '''' then OperationSucceeded else EV_Status v),
                 TR_Health := (if EV_Health v = '''' then HealthHealthy else EV_Health v), TR_TargetRevision := EV_TargetRevision v,
                 TR_BackupID := EV_BackupID v, TR_Repaired := EV_Repaired v\<rparr>
            in case EV_Backup v of
                 None \<Rightarrow> (Inr result, j)
               | Some b \<Rightarrow> (case PutBackup b j of Inl e \<Rightarrow> (Inl e, j) | Inr j' \<Rightarrow> (Inr result, j')))"

definition isJobMissing :: "go_error \<Rightarrow> bool" where
  "isJobMissing e = (case asAPI e of None \<Rightarrow> False | Some a \<Rightarrow> apiCode a = ErrSaltJobMissing)"

definition verifiedResult :: "ScanResponse \<Rightarrow> TargetResult" where
  "verifiedResult current = zeroResult\<lparr>TR_Status := OperationSucceeded, TR_Health := HealthHealthy, TR_TargetRevision := SC_TargetRevision current\<rparr>"

text \<open>A scan that shows the expected members makes up for a lost job result.\<close>

definition verifySnapshot ::
    "('w, 'z) adapter_env_scheme \<Rightarrow> Target \<Rightarrow> bool \<Rightarrow> saltMemberFingerprint list \<Rightarrow> bool \<Rightarrow> 'w \<Rightarrow> TargetResult option \<times> 'w" where
  "verifySnapshot ad target canVerify expected preserve w =
     (case CompositeAdapter_Scan ad target w of
        (Inl _, w1) \<Rightarrow> (None, w1)
      | (Inr current, w1) \<Rightarrow>
          (if canVerify \<and> targetMatchesExpected (SC_Members current) expected preserve then Some (verifiedResult current) else None, w1))"

text \<open>What follows the dispatch, up to the deferred cleanup: polling, decoding and finishing. \<open>None\<close>: polling never returns.\<close>

definition awaitSalt ::
    "('w, 'z) adapter_env_scheme \<Rightarrow> saltRecoveryRecord \<Rightarrow> Target \<Rightarrow> Journal \<times> 'w \<Rightarrow> ((go_error + TargetResult) \<times> Journal \<times> 'w) option" where
  "awaitSalt ad rec target = (\<lambda>(j, w).
     let finish = (\<lambda>w. finishSaltOperation ad (ad_now ad w) (SR_OperationID rec) (SR_Function rec) (T_ID target));
         failed = (\<lambda>e j w. case finish w OperationFailed zeroResult (Some (publicBridgeError e)) j of
             (Some fe, j') \<Rightarrow> (Inl fe, j', w) | (None, j') \<Rightarrow> (Inl e, j', w));
         finished = (\<lambda>r j w. case finish w (TR_Status r) r None j of
             (Some fe, j') \<Rightarrow> (Inl fe, j', w) | (None, j') \<Rightarrow> (Inr r, j', w))
     in case Driver_Poll ad (SR_SaltJID rec) (T_SaltMinionID target) w of
          None \<Rightarrow> None
        | Some (Inl e, w1) \<Rightarrow> Some
            (if isJobMissing e then
               (case verifySnapshot ad target (SR_CanVerifySnapshot rec) (SR_ExpectedMembers rec) (SR_PreserveUnmanaged rec) w1 of
                  (Some r, w2) \<Rightarrow> finished r j w2
                | (None, w2) \<Rightarrow> failed e j w2)
             else failed e j w1)
        | Some (Inr raw, w1) \<Rightarrow> Some
            (case decodeSaltResult raw j of
               (Inl e, j1) \<Rightarrow> failed e j1 w1
             | (Inr r, j1) \<Rightarrow> finished r j1 w1))"

definition runningSaltOperation :: "time \<Rightarrow> string \<Rightarrow> string \<Rightarrow> string \<Rightarrow> string \<Rightarrow> Operation" where
  "runningSaltOperation now operationID f targetID jid =
     \<lparr>OP_ID = operationID, OP_Kind = f, OP_Status = OperationRunning,
      OP_Targets = [\<lparr>OT_TargetID = targetID, OT_Status = OperationRunning, OT_SaltJID = jid, OT_Result = None, OT_Error = None\<rparr>],
      OP_CreatedAt = now, OP_UpdatedAt = now\<rparr>"

definition saltMutation ::
    "('w, 'z) adapter_env_scheme \<Rightarrow> Target \<Rightarrow> string \<Rightarrow> string \<Rightarrow> saltPayload \<Rightarrow> Journal \<times> 'w \<Rightarrow> ((go_error + TargetResult) \<times> Journal \<times> 'w) option" where
  "saltMutation ad target0 operationID f payload0 = (\<lambda>(j, w).
     case prepareSaltTarget ad target0 w of
       (Inl e, w1) \<Rightarrow> Some (Inl e, j, w1)
     | (Inr target, w1) \<Rightarrow>
     (case bindSaltTarget payload0 target of
       Inl e \<Rightarrow> Some (Inl e, j, w1)
     | Inr payload \<Rightarrow>
     (let manifest = manifestAndSecretsFromPayload ad payload in
      case (case manifest of None \<Rightarrow> Inr [] | Some (m, secrets) \<Rightarrow> expectedSaltMembers ad m secrets) of
       Inl e \<Rightarrow> Some (Inl e, j, w1)
     | Inr expected \<Rightarrow>
     (case Driver_Stage ad (T_SaltMinionID target) (ad_marshal ad payload) w1 of
       (Inl e, w2) \<Rightarrow> Some (Inl e, j, w2)
     | (Inr bundle, w2) \<Rightarrow>
     (case Driver_Dispatch ad (T_SaltMinionID target) f [SB_RemotePath bundle] w2 of
       (Inl e, w3) \<Rightarrow> Some (Inl e, j, CleanupRemote ad (T_SaltMinionID target) bundle w3)
     | (Inr jid, w3) \<Rightarrow>
     (let now = ad_now ad w3;
          rec = \<lparr>SR_OperationID = operationID, SR_Function = f, SR_Target = target\<lparr>T_ManagedHome := ''''\<rparr>, SR_SaltJID = jid,
            SR_LocalBundle = SB_LocalPath bundle, SR_RemoteBundle = SB_RemotePath bundle, SR_ExpectedMembers = expected,
            SR_CanVerifySnapshot = (manifest \<noteq> None), SR_PreserveUnmanaged = (f = ''toolhub.reconcile''), SR_CreatedAt = now\<rparr>
      in case PutRunningSaltOperation (ad_em ad) (runningSaltOperation now operationID f (T_ID target) jid) rec j of
           Inl e \<Rightarrow> Some (Inl (Wrapped ''persist running Salt operation: %w'' e), j, CleanupRemote ad (T_SaltMinionID target) bundle w3)
         | Inr j1 \<Rightarrow> (case awaitSalt ad rec target (j1, w3) of
             None \<Rightarrow> None
           | Some (r, j2, w4) \<Rightarrow> Some (r, DeleteSaltRecovery operationID j2, CleanupRemote ad (T_SaltMinionID target) bundle w4))))))))"

section \<open>Requests\<close>

definition persistResultBackup :: "time \<Rightarrow> Target \<Rightarrow> string \<Rightarrow> TargetResult \<Rightarrow> Journal \<Rightarrow> Journal" where
  "persistResultBackup now target operationID result j =
     (if TR_BackupID result = '''' then j
      else case PutBackup \<lparr>BK_ID = TR_BackupID result, BK_TargetID = T_ID target, BK_NodeKind = T_NodeKind target,
          BK_SaltMinionID = T_SaltMinionID target, BK_Runtime = T_Runtime target, BK_SourceOperationID = operationID,
          BK_Revision = TR_TargetRevision result, BK_CreatedAt = now\<rparr> j of
        Inl _ \<Rightarrow> j | Inr j' \<Rightarrow> j')"

text \<open>The end of a local request: the backup of a result is catalogued.\<close>

definition localResult :: "('w, 'z) adapter_env_scheme \<Rightarrow> Target \<Rightarrow> string \<Rightarrow> Journal \<Rightarrow> (go_error + TargetResult) \<times> 'w \<Rightarrow> (go_error + TargetResult) \<times> Journal \<times> 'w" where
  "localResult ad target operationID j p = (case p of
       (Inl e, w) \<Rightarrow> (Inl e, j, w)
     | (Inr r, w) \<Rightarrow> (Inr r, persistResultBackup (ad_now ad w) target operationID r j, w))"

text \<open>A request that never returns (\<open>saltMutation\<close> polls for ever) is \<open>None\<close>.\<close>

definition CompositeAdapter_Commit :: "('w, 'z) adapter_env_scheme \<Rightarrow> CommitRequest \<Rightarrow> Journal \<times> 'w \<Rightarrow> ((go_error + TargetResult) \<times> Journal \<times> 'w) option" where
  "CompositeAdapter_Commit ad request = (\<lambda>(j, w).
     if T_NodeKind (CR_Target request) = NodeKindLocal then
       (case ad_user ad (T_ManagedUsername (CR_Target request)) of
          Inl e \<Rightarrow> Some (Inl e, j, w)
        | Inr user \<Rightarrow> Some (localResult ad (CR_Target request) (CR_OperationID request) j
            (if T_Runtime (CR_Target request) = RuntimeSharedRelay then ad_relayApply ad user request w else ad_localApply ad user request w)))
     else saltMutation ad (CR_Target request) (CR_OperationID request) ''toolhub.apply'' (PayCommit request) (j, w))"

definition CompositeAdapter_Reconcile :: "('w, 'z) adapter_env_scheme \<Rightarrow> ReconcileRequest \<Rightarrow> Journal \<times> 'w \<Rightarrow> ((go_error + TargetResult) \<times> Journal \<times> 'w) option" where
  "CompositeAdapter_Reconcile ad request = (\<lambda>(j, w).
     let target = RR_Target request in
     if T_NodeKind target = NodeKindLocal then
       (case ad_user ad (T_ManagedUsername target) of
          Inl e \<Rightarrow> Some (Inl e, j, w)
        | Inr user \<Rightarrow>
            if T_Runtime target = RuntimeSharedRelay then
              (case ad_localScan ad user (T_Runtime target) w of
                 (Inl e, w1) \<Rightarrow> Some (Inl e, j, w1)
               | (Inr current, w1) \<Rightarrow> Some (localResult ad target (RR_OperationID request) j
                   (ad_relayApply ad user \<lparr>CR_OperationID = RR_OperationID request, CR_OperationKind = ''reconcile'', CR_Target = target,
                      CR_ExpectedRevision = SC_TargetRevision current, CR_Manifest = RR_Manifest request, CR_Artifacts = RR_Artifacts request,
                      CR_SecretValues = RR_SecretValues request, CR_BackupID = '''', CR_IntentionalPaused = RR_IntentionalPaused request,
                      CR_FullRelayProbe = RR_FullRelayProbe request\<rparr> w1)))
            else Some (localResult ad target (RR_OperationID request) j (ad_localReconcile ad user request w)))
     else saltMutation ad target (RR_OperationID request) ''toolhub.reconcile'' (PaySaltReconcile request '''') (j, w))"

definition CompositeAdapter_Restore :: "('w, 'z) adapter_env_scheme \<Rightarrow> CommitRequest \<Rightarrow> Journal \<times> 'w \<Rightarrow> ((go_error + TargetResult) \<times> Journal \<times> 'w) option" where
  "CompositeAdapter_Restore ad request = (\<lambda>(j, w).
     if T_NodeKind (CR_Target request) = NodeKindLocal then
       (case ad_user ad (T_ManagedUsername (CR_Target request)) of
          Inl e \<Rightarrow> Some (Inl e, j, w)
        | Inr user \<Rightarrow> Some (localResult ad (CR_Target request) (CR_OperationID request) j
            (if T_Runtime (CR_Target request) = RuntimeSharedRelay then ad_relayRestore ad user request w else ad_localRestore ad user request w)))
     else saltMutation ad (CR_Target request) (CR_OperationID request) ''toolhub.restore'' (PayCommit request) (j, w))"

definition RemoveBackup :: "('w, 'z) adapter_env_scheme \<Rightarrow> Backup \<Rightarrow> 'w \<Rightarrow> go_error option \<times> 'w" where
  "RemoveBackup ad backup w =
     (if BK_NodeKind backup = NodeKindLocal then ad_localRemoveBackup ad backup w
      else if BK_NodeKind backup \<noteq> NodeKindSalt \<or> BK_SaltMinionID backup = '''' then
        (Some (errorsNew ''backup catalog is missing target routing metadata''), w)
      else case prepareSaltNode ad (BK_SaltMinionID backup) w of
        (Some e, w1) \<Rightarrow> (Some e, w1)
      | (None, w1) \<Rightarrow>
          (let (r, w2) = Driver_Call ad (BK_SaltMinionID backup) ''toolhub.remove_backup'' [BK_TargetID backup, BK_ID backup] w1
           in ((case r of Inl e \<Rightarrow> Some e | Inr _ \<Rightarrow> None), w2)))"

definition CompositeAdapter_Relay :: "('w, 'z) adapter_env_scheme \<Rightarrow> string \<Rightarrow> RelayActionRequest \<Rightarrow> 'w \<Rightarrow> (go_error + RelayStatus) \<times> 'w" where
  "CompositeAdapter_Relay ad action input w =
     (if action = ''health'' \<or> action = ''status'' then ad_relayStatus ad (RA_Port input) (RA_IntentionalPaused input) (RA_Manifest input) w
      else if action = ''start'' then (let (s, w1) = ad_relayStart ad (RA_Port input) (RA_Manifest input) w in (Inr s, w1))
      else if action = ''restart'' then (let (s, w1) = ad_relayRestart ad (RA_Port input) (RA_Manifest input) w in (Inr s, w1))
      else if action \<noteq> ''stop'' then (Inl (APIErr (apiError ErrUnsupportedOperation ''Unsupported relay action'')), w)
      else case ad_relayStop ad w of
        (Some e, w1) \<Rightarrow> (Inl e, w1)
      | (None, w1) \<Rightarrow> ad_relayStatus ad (RA_Port input) True None w1)"

record NodeInfo =
  ND_Name :: string
  ND_Kind :: string
  ND_SaltMinionID :: string
  ND_Status :: string
  ND_Version :: string
  ND_NodeID :: string

text \<open>\<open>uuid5\<close> is \<open>uuid.NewSHA1\<close> in the OID namespace.\<close>

definition RefreshNodes :: "('w, 'z) adapter_env_scheme \<Rightarrow> (string \<Rightarrow> string) \<Rightarrow> 'w \<Rightarrow> (go_error + NodeInfo list) \<times> 'w" where
  "RefreshNodes ad uuid5 w =
     (case AcceptedNodes ad w of
        (Inl e, w1) \<Rightarrow> (Inl e, w1)
      | (Inr nodes, w1) \<Rightarrow> (Inr
          (\<lparr>ND_Name = ''local'', ND_Kind = NodeKindLocal, ND_SaltMinionID = '''', ND_Status = ''online'', ND_Version = '''',
            ND_NodeID = uuid5 ''toolhub-local-node''\<rparr>
           # map (\<lambda>n. \<lparr>ND_Name = AN_MinionID n, ND_Kind = NodeKindSalt, ND_SaltMinionID = AN_MinionID n,
               ND_Status = (if AN_Online n then ''online'' else ''unavailable''), ND_Version = AN_Version n,
               ND_NodeID = uuid5 (''salt:'' @ AN_MinionID n)\<rparr>) nodes), w1))"

section \<open>Recovery\<close>

text \<open>\<open>errors.Join(recoveryErr, err)\<close>: nil when both are.\<close>

definition errorsJoin :: "go_error option \<Rightarrow> go_error option \<Rightarrow> go_error option" where
  "errorsJoin a b = (case (a, b) of (None, None) \<Rightarrow> None | (None, Some e) \<Rightarrow> Some e | (Some e, _) \<Rightarrow> Some e)"

text \<open>The outcome of the job of one recovery record. \<open>None\<close>: polling never returns.\<close>

definition recoveredResult ::
    "('w, 'z) adapter_env_scheme \<Rightarrow> saltRecoveryRecord \<Rightarrow> Journal \<times> 'w \<Rightarrow> ((go_error + TargetResult) \<times> Journal \<times> 'w) option" where
  "recoveredResult ad rec = (\<lambda>(j, w).
     case Driver_Poll ad (SR_SaltJID rec) (T_SaltMinionID (SR_Target rec)) w of
       None \<Rightarrow> None
     | Some (polled, w1) \<Rightarrow>
         (let (r, j1) = (case polled of Inl e \<Rightarrow> (Inl e, j) | Inr raw \<Rightarrow> decodeSaltResult raw j)
          in Some (case r of
               Inr result \<Rightarrow> (Inr result, j1, w1)
             | Inl e \<Rightarrow>
                 if isJobMissing e then
                   (case verifySnapshot ad (SR_Target rec) (SR_CanVerifySnapshot rec) (SR_ExpectedMembers rec) (SR_PreserveUnmanaged rec) w1 of
                      (Some result, w2) \<Rightarrow> (Inr result, j1, w2) | (None, w2) \<Rightarrow> (Inl e, j1, w2))
                 else (Inl e, j1, w1))))"

definition recoverSalt ::
    "('w, 'z) adapter_env_scheme \<Rightarrow> saltRecoveryRecord \<Rightarrow> Journal \<times> 'w \<Rightarrow> (go_error option \<times> Journal \<times> 'w) option" where
  "recoverSalt ad rec = (\<lambda>(j, w).
     case Journal_Operation (SR_OperationID rec) j of
       Inl _ \<Rightarrow> Some (None, DeleteSaltRecovery (SR_OperationID rec) j, w)
     | Inr p \<Rightarrow>
         if OP_Status p \<noteq> OperationRunning then Some (None, DeleteSaltRecovery (SR_OperationID rec) j, w)
         else case recoveredResult ad rec (j, w) of
           None \<Rightarrow> None
         | Some (r, j1, w1) \<Rightarrow>
             (let (status, result, apiErr) = (case r of
                    Inl e \<Rightarrow> (OperationFailed, zeroResult, Some (publicBridgeError e))
                  | Inr result \<Rightarrow> (if TR_Status result \<noteq> '''' then TR_Status result else OperationSucceeded, result, None));
                  (e, j2) = finishSaltOperation ad (ad_now ad w1) (SR_OperationID rec) (SR_Function rec) (T_ID (SR_Target rec)) status result apiErr j1
              in Some (e, DeleteSaltRecovery (SR_OperationID rec) j2,
                   CleanupRemote ad (T_SaltMinionID (SR_Target rec)) \<lparr>SB_LocalPath = SR_LocalBundle rec, SB_RemotePath = SR_RemoteBundle rec\<rparr> w1)))"

fun recoverSaltLoop ::
    "('w, 'z) adapter_env_scheme \<Rightarrow> saltRecoveryRecord list \<Rightarrow> go_error option \<Rightarrow> Journal \<times> 'w \<Rightarrow> (go_error option \<times> Journal \<times> 'w) option" where
  "recoverSaltLoop ad [] err s = Some (err, s)"
| "recoverSaltLoop ad (rec # recs) err s =
     (case recoverSalt ad rec s of None \<Rightarrow> None | Some (e, s') \<Rightarrow> recoverSaltLoop ad recs (errorsJoin err e) s')"

definition CompositeAdapter_RecoverOperations ::
    "('w, 'z) adapter_env_scheme \<Rightarrow> Journal \<times> 'w \<Rightarrow> (go_error option \<times> Journal \<times> 'w) option" where
  "CompositeAdapter_RecoverOperations ad = (\<lambda>(j, w).
     case SaltRecoveries j of
       Inl e \<Rightarrow> Some (Some e, j, w)
     | Inr recs \<Rightarrow> recoverSaltLoop ad recs None (j, w))"

end
