(* ===== verification/Adapter_Properties.thy ===== *)
theory Adapter_Properties
  imports Bridge_Adapter
begin

text \<open>
  What the Bridge's adapter guarantees: a snapshot is accepted exactly when the target has the expected members, the
  relay's diff is exact, and a Salt mutation leaves a settled operation in the journal, before and after a restart.
\<close>

section \<open>The comparison of a snapshot\<close>

definition managedKind :: "string \<Rightarrow> bool" where
  "managedKind k = (k = ''skill'' \<or> k = ''mcp'')"

text \<open>The fingerprint of a scanned member.\<close>

definition fingerprint :: "InventoryMember \<Rightarrow> saltMemberFingerprint" where
  "fingerprint item = \<lparr>SF_Kind = IM_Kind item, SF_Name = IM_Name item, SF_ContentHash = IM_ContentHash item\<rparr>"

definition fingerprintKey :: "saltMemberFingerprint \<Rightarrow> string \<times> string" where
  "fingerprintKey f = (SF_Kind f, SF_Name f)"

lemma memberKey_eq: "managedKind k \<Longrightarrow> managedKind k' \<Longrightarrow> (memberKey k n = memberKey k' n') = (k = k' \<and> n = n')"
  by (auto simp: managedKind_def memberKey_def)

lemma matchLoop_seen:
  "matchLoop wanted pres current seen = Some seen' \<Longrightarrow>
     set seen' = set seen \<union> {memberKey (IM_Kind i) (IM_Name i) |i. i \<in> set current \<and> managedKind (IM_Kind i)
        \<and> map_of wanted (memberKey (IM_Kind i) (IM_Name i)) \<noteq> None}"
  by (induction current arbitrary: seen) (auto simp: managedKind_def Let_def split: if_splits option.splits)

lemma matchLoop_distinct:
  "matchLoop wanted pres current seen = Some seen' \<Longrightarrow> distinct seen \<Longrightarrow> distinct seen'"
  by (induction current arbitrary: seen) (auto simp: Let_def split: if_splits option.splits)

definition acceptable :: "(string \<times> saltMemberFingerprint) list \<Rightarrow> bool \<Rightarrow> InventoryMember \<Rightarrow> bool" where
  "acceptable wanted pres i = (case map_of wanted (memberKey (IM_Kind i) (IM_Name i)) of
     Some f \<Rightarrow> \<not> IM_Protected i \<and> IM_ContentHash i = SF_ContentHash f
   | None \<Rightarrow> pres \<or> IM_Protected i)"

lemma matchLoop_Cons:
  "matchLoop wanted pres (i # current) seen =
     (if \<not> managedKind (IM_Kind i) then matchLoop wanted pres current seen
      else if acceptable wanted pres i then matchLoop wanted pres current
        (if map_of wanted (memberKey (IM_Kind i) (IM_Name i)) = None then seen else List.insert (memberKey (IM_Kind i) (IM_Name i)) seen)
      else None)"
  by (simp add: managedKind_def acceptable_def Let_def split: option.split)

lemma matchLoop_accepts:
  "(matchLoop wanted pres current seen \<noteq> None) = (\<forall>i \<in> set current. managedKind (IM_Kind i) \<longrightarrow> acceptable wanted pres i)"
proof (induction current arbitrary: seen)
  case (Cons i current)
  show ?case by (simp add: matchLoop_Cons Cons.IH del: matchLoop.simps not_None_eq)
qed simp

lemma map_of_wanted:
  assumes "distinct (map fingerprintKey expected)" and "\<forall>f \<in> set expected. managedKind (SF_Kind f)" and "managedKind k"
  shows "(map_of (wantedMembers expected) (memberKey k n) = Some f) = (f \<in> set expected \<and> SF_Kind f = k \<and> SF_Name f = n)"
proof -
  have "distinct (map fst (wantedMembers expected))"
    using assms(1,2) unfolding wantedMembers_def
    by (induction expected) (auto simp: fingerprintKey_def memberKey_eq)
  then have "(map_of (wantedMembers expected) (memberKey k n) = Some f) = ((memberKey k n, f) \<in> set (wantedMembers expected))"
    by simp
  also have "\<dots> = (f \<in> set expected \<and> SF_Kind f = k \<and> SF_Name f = n)"
    using assms(2,3) by (auto simp: wantedMembers_def memberKey_eq)
  finally show ?thesis .
qed

lemma map_of_wanted_None:
  assumes "\<forall>f \<in> set expected. managedKind (SF_Kind f)" and "managedKind k"
  shows "(map_of (wantedMembers expected) (memberKey k n) = None) = (\<forall>f \<in> set expected. fingerprintKey f \<noteq> (k, n))"
  using assms by (simp add: map_of_eq_None_iff wantedMembers_def image_iff fingerprintKey_def) (metis memberKey_eq)

lemma fingerprint_in:
  assumes "distinct (map fingerprintKey expected)" and "f \<in> set expected" and "fingerprintKey f = (IM_Kind i, IM_Name i)"
  shows "(fingerprint i \<in> set expected) = (IM_ContentHash i = SF_ContentHash f)" and "fingerprint i \<in> set expected \<Longrightarrow> fingerprint i = f"
proof -
  have eq: "(fingerprint i = f) = (IM_ContentHash i = SF_ContentHash f)"
    using assms(3) by (auto simp: fingerprint_def fingerprintKey_def)
  have k: "fingerprintKey (fingerprint i) = (IM_Kind i, IM_Name i)" by (simp add: fingerprint_def fingerprintKey_def)
  show 1: "fingerprint i = f" if "fingerprint i \<in> set expected"
    using assms that k by (metis distinct_map inj_onD)
  show "(fingerprint i \<in> set expected) = (IM_ContentHash i = SF_ContentHash f)" using 1 eq assms(2) by metis
qed

definition admissible :: "saltMemberFingerprint list \<Rightarrow> bool \<Rightarrow> InventoryMember \<Rightarrow> bool" where
  "admissible expected pres i =
     (if \<exists>f \<in> set expected. fingerprintKey f = (IM_Kind i, IM_Name i) then \<not> IM_Protected i \<and> fingerprint i \<in> set expected
      else pres \<or> IM_Protected i)"

lemma acceptable_admissible:
  assumes "distinct (map fingerprintKey expected)" and "\<forall>f \<in> set expected. managedKind (SF_Kind f)" and "managedKind (IM_Kind i)"
  shows "acceptable (wantedMembers expected) pres i = admissible expected pres i"
proof (cases "map_of (wantedMembers expected) (memberKey (IM_Kind i) (IM_Name i))")
  case None
  then have "\<not> (\<exists>f \<in> set expected. fingerprintKey f = (IM_Kind i, IM_Name i))" using map_of_wanted_None [OF assms(2,3)] by blast
  then show ?thesis using None by (simp only: acceptable_def admissible_def if_False option.case)
next
  case (Some f)
  then have f: "f \<in> set expected" "fingerprintKey f = (IM_Kind i, IM_Name i)"
    using map_of_wanted [OF assms] by (auto simp: fingerprintKey_def)
  then show ?thesis using fingerprint_in(1) [OF assms(1) f] Some by (auto simp: acceptable_def admissible_def)
qed

lemma seen_all:
  assumes "distinct (map fingerprintKey expected)" and "\<forall>f \<in> set expected. managedKind (SF_Kind f)"
    and acc: "\<forall>i \<in> set current. managedKind (IM_Kind i) \<longrightarrow> admissible expected pres i"
    and m: "matchLoop (wantedMembers expected) pres current [] = Some seen"
  shows "(length seen = length (remdups (map fst (wantedMembers expected)))) = (\<forall>f \<in> set expected. \<exists>i \<in> set current. fingerprint i = f)"
proof -
  let ?w = "wantedMembers expected"
  define keys where "keys = set (map fst ?w)"
  have keys: "keys = {memberKey (SF_Kind f) (SF_Name f) |f. f \<in> set expected}"
    by (simp add: keys_def wantedMembers_def image_image) blast
  have seen: "set seen = {memberKey (IM_Kind i) (IM_Name i) |i. i \<in> set current \<and> managedKind (IM_Kind i)
      \<and> map_of ?w (memberKey (IM_Kind i) (IM_Name i)) \<noteq> None}"
    using matchLoop_seen [OF m] by simp
  have sub: "set seen \<subseteq> keys" unfolding seen keys_def by (auto simp: map_of_eq_None_iff [symmetric] image_iff dest!: map_of_SomeD) force
  have "length seen = card (set seen)" using matchLoop_distinct [OF m] by (simp add: distinct_card)
  moreover have "length (remdups (map fst ?w)) = card keys" by (simp add: keys_def length_remdups_card_conv)
  ultimately have "(length seen = length (remdups (map fst ?w))) = (set seen = keys)"
    using sub card_subset_eq [of keys "set seen"] by (auto simp: keys_def)
  also have "\<dots> = (\<forall>f \<in> set expected. memberKey (SF_Kind f) (SF_Name f) \<in> set seen)"
    using sub unfolding keys by blast
  also have "\<dots> = (\<forall>f \<in> set expected. \<exists>i \<in> set current. fingerprint i = f)"
  proof (rule ball_cong [OF refl])
    fix f assume f: "f \<in> set expected"
    then have k: "managedKind (SF_Kind f)" using assms(2) by blast
    show "(memberKey (SF_Kind f) (SF_Name f) \<in> set seen) = (\<exists>i \<in> set current. fingerprint i = f)"
    proof
      assume "memberKey (SF_Kind f) (SF_Name f) \<in> set seen"
      then obtain i where i: "i \<in> set current" "managedKind (IM_Kind i)" "memberKey (SF_Kind f) (SF_Name f) = memberKey (IM_Kind i) (IM_Name i)"
        unfolding seen by blast
      then have e: "fingerprintKey f = (IM_Kind i, IM_Name i)" using memberKey_eq [OF k i(2)] by (simp add: fingerprintKey_def)
      then have "fingerprint i \<in> set expected" using acc i f unfolding admissible_def by (meson ext)
      then show "\<exists>i \<in> set current. fingerprint i = f" using fingerprint_in(2) [OF assms(1) f e] i(1) by blast
    next
      assume "\<exists>i \<in> set current. fingerprint i = f"
      then obtain i where i: "i \<in> set current" "fingerprint i = f" by blast
      then have n: "IM_Kind i = SF_Kind f" "IM_Name i = SF_Name f" by (auto simp: fingerprint_def)
      moreover have "map_of ?w (memberKey (SF_Kind f) (SF_Name f)) = Some f" using map_of_wanted [OF assms(1,2) k] f by blast
      ultimately show "memberKey (SF_Kind f) (SF_Name f) \<in> set seen" unfolding seen using i(1) k by (metis (mono_tags, lifting) mem_Collect_eq option.distinct(1))
    qed
  qed
  finally show ?thesis .
qed

text \<open>
  C20. A lost job is taken for a success only on proof. When the expected members are skills and MCP servers with distinct
  names, the comparison accepts a scan exactly if every expected member is present, every skill and server with an
  expected name is unprotected and has the expected hash, and, unless unmanaged members are preserved, every other one is
  protected. (The code compares numbers of keys; this is the comparison of the sets.)
\<close>

theorem snapshot_verified:
  assumes "distinct (map fingerprintKey expected)" and "\<forall>f \<in> set expected. managedKind (SF_Kind f)"
  shows "targetMatchesExpected current expected pres =
    ((\<forall>f \<in> set expected. \<exists>i \<in> set current. fingerprint i = f)
     \<and> (\<forall>i \<in> set current. managedKind (IM_Kind i) \<longrightarrow>
          (if \<exists>f \<in> set expected. fingerprintKey f = (IM_Kind i, IM_Name i) then \<not> IM_Protected i \<and> fingerprint i \<in> set expected
           else pres \<or> IM_Protected i)))"
proof (cases "matchLoop (wantedMembers expected) pres current []")
  case None
  then have "\<not> (\<forall>i \<in> set current. managedKind (IM_Kind i) \<longrightarrow> admissible expected pres i)"
    using matchLoop_accepts acceptable_admissible [OF assms] by metis
  then show ?thesis using None unfolding admissible_def by (simp add: targetMatchesExpected_def)
next
  case (Some seen)
  then have acc: "\<forall>i \<in> set current. managedKind (IM_Kind i) \<longrightarrow> admissible expected pres i"
    using matchLoop_accepts acceptable_admissible [OF assms] by (metis option.distinct(1))
  show ?thesis using seen_all [OF assms acc Some] acc Some unfolding admissible_def by (simp add: targetMatchesExpected_def)
qed

section \<open>The relay's diff\<close>

definition liveMembers :: "InventoryMember list \<Rightarrow> InventoryMember list" where
  "liveMembers current = filter (\<lambda>i. IM_Kind i \<noteq> ''anchor'') current"

lemma map_of_filter_key: "map_of (filter (\<lambda>(n, _). n \<noteq> k) m) n = (if n = k then None else map_of m n)"
  by (induction m) auto

definition removal :: "string \<Rightarrow> DiffItem" where
  "removal n = \<lparr>DI_Kind = ''mcp'', DI_MemberID = '''', DI_Name = n, DI_Reason = ''''\<rparr>"

definition replacement :: "string \<Rightarrow> MCPMember \<Rightarrow> DiffItem" where
  "replacement n s = \<lparr>DI_Kind = ''mcp'', DI_MemberID = MM_MemberID s, DI_Name = n, DI_Reason = ''''\<rparr>"

definition deletions :: "InventoryMember list \<Rightarrow> (string \<times> MCPMember) list \<Rightarrow> DiffItem set" where
  "deletions current desired = {removal (IM_Name i) |i. i \<in> set (liveMembers current) \<and> map_of desired (IM_Name i) = None}"

definition replacements :: "InventoryMember list \<Rightarrow> (string \<times> MCPMember) list \<Rightarrow> DiffItem set" where
  "replacements current desired = (\<Union>i \<in> set (liveMembers current).
     {replacement (IM_Name i) s |s. map_of desired (IM_Name i) = Some s \<and> IM_ContentHash i \<noteq> MM_ContentHash s})"

lemma relayDiffLoop_spec:
  assumes "distinct (map IM_Name (liveMembers current))" and "relayDiffLoop current desired d = (d', rest)"
  shows "rest = filter (\<lambda>(n, _). n \<notin> IM_Name ` set (liveMembers current)) desired
    \<and> DF_Add d' = DF_Add d \<and> DF_Excluded d' = DF_Excluded d
    \<and> set (DF_Delete d') = set (DF_Delete d) \<union> deletions current desired
    \<and> set (DF_Replace d') = set (DF_Replace d) \<union> replacements current desired"
  using assms
proof (induction current arbitrary: desired d)
  case Nil
  then show ?case by (auto simp: liveMembers_def deletions_def replacements_def)
next
  case (Cons i current)
  show ?case
  proof (cases "IM_Kind i = ''anchor''")
    case True
    then show ?thesis using Cons by (simp add: liveMembers_def deletions_def replacements_def)
  next
    case False
    let ?m = "filter (\<lambda>(n, _). n \<noteq> IM_Name i) desired"
    have l: "liveMembers (i # current) = i # liveMembers current" using False by (simp add: liveMembers_def)
    have d: "distinct (map IM_Name (liveMembers current))" and n: "\<forall>k \<in> set (liveMembers current). IM_Name k \<noteq> IM_Name i"
      using Cons.prems(1) unfolding l by (simp, metis image_eqI l list.simps(9) distinct.simps(2) Cons.prems(1) set_map)
    have m: "map_of ?m (IM_Name k) = map_of desired (IM_Name k)" if "k \<in> set (liveMembers current)" for k
      using n that by (simp add: map_of_filter_key)
    define d1 where "d1 = (case map_of desired (IM_Name i) of
        None \<Rightarrow> d\<lparr>DF_Delete := DF_Delete d @ [removal (IM_Name i)]\<rparr>
      | Some s \<Rightarrow> if IM_ContentHash i \<noteq> MM_ContentHash s then d\<lparr>DF_Replace := DF_Replace d @ [replacement (IM_Name i) s]\<rparr> else d)"
    have "relayDiffLoop (i # current) desired d = relayDiffLoop current ?m d1"
      unfolding d1_def removal_def replacement_def using False by (simp add: Let_def)
    then have run: "relayDiffLoop current ?m d1 = (d', rest)" using Cons.prems(2) by simp
    note IH = Cons.IH [OF d run]
    have del: "deletions (i # current) desired = (if map_of desired (IM_Name i) = None then {removal (IM_Name i)} else {}) \<union> deletions current ?m"
      unfolding deletions_def l using m by auto
    have repl: "replacements (i # current) desired = {replacement (IM_Name i) s |s. map_of desired (IM_Name i) = Some s \<and> IM_ContentHash i \<noteq> MM_ContentHash s}
        \<union> replacements current ?m"
      unfolding replacements_def l by (simp add: m cong: SUP_cong)
    have rest: "filter (\<lambda>(n, _). n \<notin> IM_Name ` set (liveMembers (i # current))) desired
        = filter (\<lambda>(n, _). n \<notin> IM_Name ` set (liveMembers current)) ?m"
      unfolding l by (auto simp: case_prod_unfold intro: filter_cong)
    show ?thesis unfolding del repl rest using IH unfolding d1_def by (auto split: option.splits if_splits)
  qed
qed

lemma serversByName_distinct:
  assumes "distinct (map MM_Name servers)"
  shows "serversByName servers = map (\<lambda>s. (MM_Name s, s)) servers"
proof -
  have "foldl (\<lambda>m s. filter (\<lambda>(n, _). n \<noteq> MM_Name s) m @ [(MM_Name s, s)]) m servers = m @ map (\<lambda>s. (MM_Name s, s)) servers"
    if "distinct (map fst m @ map MM_Name servers)" for m
    using that
  proof (induction servers arbitrary: m)
    case (Cons s servers)
    have "filter (\<lambda>(n, _). n \<noteq> MM_Name s) m = m" using Cons.prems by (force intro: filter_True)
    then show ?case using Cons by simp
  qed simp
  from this [of "[]"] show ?thesis using assms by (simp add: serversByName_def)
qed

lemma map_of_servers: "distinct (map MM_Name servers) \<Longrightarrow> (map_of (map (\<lambda>s. (MM_Name s, s)) servers) n = Some s) = (s \<in> set servers \<and> MM_Name s = n)"
  by (subst map_of_eq_Some_iff) (auto simp: comp_def)

lemma map_of_servers_None: "(map_of (map (\<lambda>s. (MM_Name s, s)) servers) n = None) = (n \<notin> MM_Name ` set servers)"
  by (auto simp: map_of_eq_None_iff image_image)

lemma same_pairs:
  assumes "distinct (map f xs)" and "distinct (map g ys)"
  shows "((\<forall>y \<in> set ys. g y \<in> f ` set xs) \<and> (\<forall>x \<in> set xs. f x \<in> g ` set ys) \<and> (\<forall>x \<in> set xs. \<forall>y \<in> set ys. g y = f x \<longrightarrow> h x = k y))
    = ((\<lambda>x. (f x, h x)) ` set xs = (\<lambda>y. (g y, k y)) ` set ys)"
proof (intro iffI conjI ballI impI)
  assume a: "(\<forall>y \<in> set ys. g y \<in> f ` set xs) \<and> (\<forall>x \<in> set xs. f x \<in> g ` set ys) \<and> (\<forall>x \<in> set xs. \<forall>y \<in> set ys. g y = f x \<longrightarrow> h x = k y)"
  show "(\<lambda>x. (f x, h x)) ` set xs = (\<lambda>y. (g y, k y)) ` set ys"
  proof (intro subset_antisym subsetI)
    fix p assume "p \<in> (\<lambda>x. (f x, h x)) ` set xs"
    then obtain x where x: "x \<in> set xs" "p = (f x, h x)" by blast
    with a obtain y where y: "y \<in> set ys" "f x = g y" by blast
    with a x have "p = (g y, k y)" by metis
    then show "p \<in> (\<lambda>y. (g y, k y)) ` set ys" using y(1) by (rule image_eqI)
  next
    fix p assume "p \<in> (\<lambda>y. (g y, k y)) ` set ys"
    then obtain y where y: "y \<in> set ys" "p = (g y, k y)" by blast
    with a obtain x where x: "x \<in> set xs" "g y = f x" by blast
    with a y have "p = (f x, h x)" by metis
    then show "p \<in> (\<lambda>x. (f x, h x)) ` set xs" using x(1) by (rule image_eqI)
  qed
next
  assume e: "(\<lambda>x. (f x, h x)) ` set xs = (\<lambda>y. (g y, k y)) ` set ys"
  have l: "\<exists>y \<in> set ys. f x = g y \<and> h x = k y" if "x \<in> set xs" for x
  proof -
    have "(f x, h x) \<in> (\<lambda>y. (g y, k y)) ` set ys" using that by (simp add: e [symmetric])
    then show ?thesis by blast
  qed
  have r: "\<exists>x \<in> set xs. g y = f x \<and> k y = h x" if "y \<in> set ys" for y
  proof -
    have "(g y, k y) \<in> (\<lambda>x. (f x, h x)) ` set xs" using that by (simp add: e)
    then show ?thesis by blast
  qed
  show "g y \<in> f ` set xs" if "y \<in> set ys" for y using r [OF that] by blast
  show "f x \<in> g ` set ys" if "x \<in> set xs" for x using l [OF that] by blast
  show "h x = k y" if "x \<in> set xs" "y \<in> set ys" "g y = f x" for x y
    using l [OF that(1)] that assms(2) by (metis distinct_map inj_onD)
qed

text \<open>
  C21. The diff shown for the relay is exact. For distinct names, whatever the order in which the remaining servers are
  visited, the additions are the wanted servers that are not there, the deletions the ones there that are not wanted, the
  replacements those whose content hash differs; so the diff is empty exactly if the same names are present with the same
  hashes.
\<close>

theorem relay_diff_exact:
  assumes "distinct (map IM_Name (liveMembers current))" and "distinct (map MM_Name (DM_MCPServers manifest))"
    and "\<forall>xs. set (order xs) = set xs"
  shows "set (DF_Add (relayDiff order current manifest)) = {replacement (MM_Name s) s |s.
        s \<in> set (DM_MCPServers manifest) \<and> MM_Name s \<notin> IM_Name ` set (liveMembers current)}
    \<and> set (DF_Delete (relayDiff order current manifest)) = {removal (IM_Name i) |i.
        i \<in> set (liveMembers current) \<and> IM_Name i \<notin> MM_Name ` set (DM_MCPServers manifest)}
    \<and> set (DF_Replace (relayDiff order current manifest)) = {replacement (IM_Name i) s |i s. i \<in> set (liveMembers current)
        \<and> s \<in> set (DM_MCPServers manifest) \<and> MM_Name s = IM_Name i \<and> IM_ContentHash i \<noteq> MM_ContentHash s}
    \<and> (DF_Add (relayDiff order current manifest) = [] \<and> DF_Delete (relayDiff order current manifest) = []
        \<and> DF_Replace (relayDiff order current manifest) = []
       \<longleftrightarrow> (\<lambda>i. (IM_Name i, IM_ContentHash i)) ` set (liveMembers current)
          = (\<lambda>s. (MM_Name s, MM_ContentHash s)) ` set (DM_MCPServers manifest))"
proof -
  let ?S = "set (DM_MCPServers manifest)" and ?L = "set (liveMembers current)" and ?d = "relayDiff order current manifest"
  note none = map_of_servers_None [of "DM_MCPServers manifest"] and some = map_of_servers [OF assms(2)]
  obtain d rest where run: "relayDiffLoop current (serversByName (DM_MCPServers manifest))
      \<lparr>DF_Add = [], DF_Replace = [], DF_Delete = [], DF_Excluded = []\<rparr> = (d, rest)" by (rule prod.exhaust)
  note spec = relayDiffLoop_spec [OF assms(1) run, unfolded serversByName_distinct [OF assms(2)]]
  have rest: "set rest = {(MM_Name s, s) |s. s \<in> ?S \<and> MM_Name s \<notin> IM_Name ` ?L}" using spec by auto
  have add: "set (DF_Add ?d) = {replacement (MM_Name s) s |s. s \<in> ?S \<and> MM_Name s \<notin> IM_Name ` ?L}"
    using run assms(3) rest by (auto simp: relayDiff_def replacement_def)
  have del: "set (DF_Delete ?d) = {removal (IM_Name i) |i. i \<in> ?L \<and> IM_Name i \<notin> MM_Name ` ?S}"
    using run spec none by (simp add: relayDiff_def deletions_def)
  have repl: "set (DF_Replace ?d) = {replacement (IM_Name i) s |i s. i \<in> ?L \<and> s \<in> ?S \<and> MM_Name s = IM_Name i \<and> IM_ContentHash i \<noteq> MM_ContentHash s}"
    using run spec by (simp add: relayDiff_def replacements_def some) blast
  have "(DF_Add ?d = [] \<and> DF_Delete ?d = [] \<and> DF_Replace ?d = []) =
     ((\<forall>s \<in> ?S. MM_Name s \<in> IM_Name ` ?L) \<and> (\<forall>i \<in> ?L. IM_Name i \<in> MM_Name ` ?S)
      \<and> (\<forall>i \<in> ?L. \<forall>s \<in> ?S. MM_Name s = IM_Name i \<longrightarrow> IM_ContentHash i = MM_ContentHash s))"
    unfolding set_empty [symmetric] add del repl by blast
  also have "\<dots> = ((\<lambda>i. (IM_Name i, IM_ContentHash i)) ` ?L = (\<lambda>s. (MM_Name s, MM_ContentHash s)) ` ?S)"
    by (rule same_pairs [OF assms(1,2)])
  finally show ?thesis using add del repl by blast
qed

section \<open>Every request returns\<close>

lemma Poll_returns: "steadyClock ad \<Longrightarrow> \<exists>r w'. Driver_Poll ad jid m w = Some (r, w')"
  using pollLoop_terminates [of ad jid m] unfolding Driver_Poll_def by metis

section \<open>What a finished Salt operation leaves in the journal\<close>

definition boltKey :: "string \<Rightarrow> bool" where
  "boltKey k = (k \<noteq> '''' \<and> int (length k) \<le> boltMaxKeySize)"

lemma boltPut_boltKey: "boltPut k v b = (if boltKey k then Inr (bput k v b) else Inl (if k = '''' then errorsNew ''key required'' else errorsNew ''key too large''))"
  by (auto simp: boltPut_def boltKey_def)

definition boundedError :: "api_error option \<Rightarrow> bool" where
  "boundedError apiErr = (case apiErr of None \<Rightarrow> True | Some e \<Rightarrow> apiDetails e = [])"

lemma publicBridgeError_bounded [simp]: "boundedError None" "boundedError (Some (publicBridgeError e))"
  by (simp_all add: boundedError_def publicBridgeError_def bounded_no_details BoundedAPIError_bounded)

lemma finished_parts:
  assumes "bget (J_operations j) i = Some (Valid p)"
  shows "OP_ID (finishedSaltOperation now i f t status r apiErr j) = OP_ID p"
    and "OP_Status (finishedSaltOperation now i f t status r apiErr j) = status"
    and "\<exists>x. OP_Targets (finishedSaltOperation now i f t status r apiErr j) = [x] \<and> OT_Status x = status
      \<and> OT_TargetID x = t \<and> OT_Error x = apiErr \<and> OT_Result x = Some (journalSafeTargetResult (finishedResult status r apiErr))"
  using assms by (simp_all add: finishedSaltOperation_def Journal_Operation_def Let_def)

lemma finishedResult_success: "TR_Status r \<noteq> '''' \<Longrightarrow> TR_Health r \<noteq> '''' \<Longrightarrow> finishedResult status r None = r"
  by (cases "TR_Error r") (simp_all add: finishedResult_def Let_def)

lemma finished_clean:
  assumes "bget (J_operations j) i = Some (Valid p)" and "boundedError apiErr"
  shows "\<not> hasSensitiveValue (encodeOperation em (finishedSaltOperation now i f t status r apiErr j))"
proof -
  obtain x where x: "OP_Targets (finishedSaltOperation now i f t status r apiErr j) = [x]" "OT_Error x = apiErr"
      "OT_Result x = Some (journalSafeTargetResult (finishedResult status r apiErr))"
    using finished_parts(3) [OF assms(1)] by metis
  show ?thesis
    unfolding encodeOperation_clean encodeOperationTarget_clean using x assms(2)
    by (auto simp: safe_result_clean boundedError_def encodeAPIError_clean)
qed

lemma finishSaltOperation_stores:
  assumes "bget (J_operations j) i = Some (Valid p)" "OP_ID p = i" "boltKey i" "boundedError apiErr"
  shows "finishSaltOperation ad now i f t status r apiErr j
    = (None, j\<lparr>J_operations := bput i (Valid (finishedSaltOperation now i f t status r apiErr j)) (J_operations j)\<rparr>)"
  using finished_clean [OF assms(1,4)] finished_parts(1) [OF assms(1)] assms(2,3)
  by (simp add: finishSaltOperation_def PutOperation_def boltPut_boltKey)

text \<open>The journal outside the catalog of backups.\<close>

definition sameButBackups :: "Journal \<Rightarrow> Journal \<Rightarrow> bool" where
  "sameButBackups j j' = (\<exists>b. j' = j\<lparr>J_backups := b\<rparr>)"

lemma sameButBackups_simps:
  "sameButBackups j j' \<Longrightarrow> J_operations j' = J_operations j \<and> J_saltRecovery j' = J_saltRecovery j \<and> J_idempotency j' = J_idempotency j \<and> J_nonces j' = J_nonces j"
  by (auto simp: sameButBackups_def)

lemma sameButBackups_refl [simp]: "sameButBackups j j"
  unfolding sameButBackups_def by (rule exI [of _ "J_backups j"]) simp

lemma decodeSaltResult_frame:
  assumes "decodeSaltResult raw j = (r, j')"
  shows "sameButBackups j j'" and "isl r \<Longrightarrow> j' = j"
    and "r = Inr x \<Longrightarrow> TR_Status x \<noteq> '''' \<and> TR_Health x \<noteq> ''''"
proof -
  have "sameButBackups j j' \<and> (isl r \<longrightarrow> j' = j) \<and> (\<forall>x. r = Inr x \<longrightarrow> TR_Status x \<noteq> '''' \<and> TR_Health x \<noteq> '''')"
    using assms unfolding decodeSaltResult_def PutBackup_def sameButBackups_def
    by (auto simp: Let_def intro: exI [of _ "J_backups j"]
        split: option.splits if_splits sum.splits)
  then show "sameButBackups j j'" "isl r \<Longrightarrow> j' = j" "r = Inr x \<Longrightarrow> TR_Status x \<noteq> '''' \<and> TR_Health x \<noteq> ''''" by blast+
qed

text \<open>The journal's entry for a result that was returned.\<close>

definition journaledAs :: "string \<Rightarrow> go_error + TargetResult \<Rightarrow> Operation \<Rightarrow> bool" where
  "journaledAs k r q = (OP_ID q = k \<and> (\<exists>x. OP_Targets q = [x] \<and> OT_Status x = OP_Status q \<and>
     (case r of
        Inr v \<Rightarrow> OP_Status q = TR_Status v \<and> OT_Result x = Some (journalSafeTargetResult v) \<and> OT_Error x = None
      | Inl e \<Rightarrow> OP_Status q = OperationFailed \<and> OT_Error x = Some (publicBridgeError e))))"

text \<open>
  What the recovery of one record leaves of its operation: the entry for the outcome of its own job, polled in the state
  \<open>s\<close> in which the record's turn comes, with nothing sensitive in it.
\<close>

definition settledBy :: "('w, 'z) adapter_env_scheme \<Rightarrow> saltRecoveryRecord \<Rightarrow> Journal \<times> 'w \<Rightarrow> Operation \<Rightarrow> bool" where
  "settledBy ad rec s q = (\<exists>r s'. recoveredResult ad rec s = Some (r, s') \<and> journaledAs (SR_OperationID rec) r q
     \<and> \<not> hasSensitiveValue (encodeOperation (ad_em ad) q))"

lemma finishedSalt_journaled:
  assumes p: "bget (J_operations j) i = Some (Valid p)" "OP_ID p = i"
  shows "journaledAs i (Inl e) (finishedSaltOperation now i f t OperationFailed zeroResult (Some (publicBridgeError e)) j)"
    and "TR_Status v \<noteq> '''' \<Longrightarrow> TR_Health v \<noteq> '''' \<Longrightarrow> journaledAs i (Inr v) (finishedSaltOperation now i f t (TR_Status v) v None j)"
  using finished_parts [OF p(1)] p(2) finishedResult_success unfolding journaledAs_def by simp_all metis+

lemma verifySnapshot_result:
  assumes "verifySnapshot ad target canVerify expected preserve w = (Some x, w')"
  shows "TR_Status x \<noteq> '''' \<and> TR_Health x \<noteq> ''''"
  using assms by (auto simp: verifySnapshot_def verifiedResult_def split: sum.splits if_splits prod.splits option.splits)

lemma recoveredResult_frame:
  assumes "recoveredResult ad rec (j, w) = Some (r, j', w')"
  shows "sameButBackups j j'" and "r = Inr x \<Longrightarrow> TR_Status x \<noteq> '''' \<and> TR_Health x \<noteq> ''''"
proof -
  obtain polled w1 where poll: "Driver_Poll ad (SR_SaltJID rec) (T_SaltMinionID (SR_Target rec)) w = Some (polled, w1)"
    using assms by (auto simp: recoveredResult_def split: option.splits)
  obtain d j1 where d: "(case polled of Inl e \<Rightarrow> (Inl e, j) | Inr raw \<Rightarrow> decodeSaltResult raw j) = (d, j1)" by (rule prod.exhaust)
  have j1: "sameButBackups j j1" using d decodeSaltResult_frame(1) by (fastforce split: sum.splits)
  have out: "j' = j1 \<and> (\<forall>x. r = Inr x \<longrightarrow> d = Inr x \<or>
      (\<exists>w2. verifySnapshot ad (SR_Target rec) (SR_CanVerifySnapshot rec) (SR_ExpectedMembers rec) (SR_PreserveUnmanaged rec) w1 = (Some x, w2)))"
    using assms poll d by (auto simp: recoveredResult_def split: sum.splits if_splits prod.splits option.splits)
  show "sameButBackups j j'" using out j1 by simp
  show "TR_Status x \<noteq> '''' \<and> TR_Health x \<noteq> ''''" if r: "r = Inr x"
  proof (cases "d = Inr x")
    case True
    then show ?thesis using d decodeSaltResult_frame(3) by (fastforce split: sum.splits)
  next
    case False
    then obtain w2 where "verifySnapshot ad (SR_Target rec) (SR_CanVerifySnapshot rec) (SR_ExpectedMembers rec) (SR_PreserveUnmanaged rec) w1 = (Some x, w2)"
      using out r by auto
    then show ?thesis by (rule verifySnapshot_result)
  qed
qed

lemma recoveredResult_returns: "steadyClock ad \<Longrightarrow> \<exists>r j' w'. recoveredResult ad rec (j, w) = Some (r, j', w')"
proof -
  assume "steadyClock ad"
  then obtain polled w1 where "Driver_Poll ad (SR_SaltJID rec) (T_SaltMinionID (SR_Target rec)) w = Some (polled, w1)"
    using Poll_returns by metis
  then have "recoveredResult ad rec (j, w) \<noteq> None" by (simp add: recoveredResult_def Let_def del: not_None_eq split: prod.split)
  then show ?thesis by (metis not_None_eq prod.exhaust)
qed

text \<open>One recovery record: what is changed, and that nothing goes wrong on a journal with proper keys.\<close>

definition operationsKeyed :: "Journal \<Rightarrow> bool" where
  "operationsKeyed j = (\<forall>k p. bget (J_operations j) k = Some (Valid p) \<longrightarrow> OP_ID p = k \<and> boltKey k)"

definition recoverable :: "Journal \<Rightarrow> string \<Rightarrow> bool" where
  "recoverable j k = (\<exists>p. bget (J_operations j) k = Some (Valid p) \<and> OP_Status p = OperationRunning)"

lemma recoverSalt_step:
  assumes "steadyClock ad" and "operationsKeyed j"
  shows "\<exists>j' w'. recoverSalt ad rec (j, w) = Some (None, j', w')
     \<and> J_saltRecovery j' = bdelete (SR_OperationID rec) (J_saltRecovery j)
     \<and> J_idempotency j' = J_idempotency j \<and> J_nonces j' = J_nonces j \<and> operationsKeyed j'
     \<and> (\<forall>k. k \<noteq> SR_OperationID rec \<or> \<not> recoverable j k \<longrightarrow> bget (J_operations j') k = bget (J_operations j) k)
     \<and> (recoverable j (SR_OperationID rec) \<longrightarrow>
          (\<exists>q. bget (J_operations j') (SR_OperationID rec) = Some (Valid q) \<and> settledBy ad rec (j, w) q))"
proof (cases "recoverable j (SR_OperationID rec)")
  case False
  then have "recoverSalt ad rec (j, w) = Some (None, DeleteSaltRecovery (SR_OperationID rec) j, w)"
    by (auto simp: recoverSalt_def recoverable_def Journal_Operation_def split: option.split entry.split)
  then show ?thesis using assms(2) False by (simp add: DeleteSaltRecovery_def operationsKeyed_def)
next
  case True
  let ?k = "SR_OperationID rec"
  obtain p where p: "bget (J_operations j) ?k = Some (Valid p)" "OP_Status p = OperationRunning"
    using True unfolding recoverable_def by blast
  have id: "OP_ID p = ?k" "boltKey ?k" using assms(2) p(1) unfolding operationsKeyed_def by metis+
  obtain r j1 w1 where r: "recoveredResult ad rec (j, w) = Some (r, j1, w1)" using recoveredResult_returns [OF assms(1)] by blast
  note fr = sameButBackups_simps [OF recoveredResult_frame(1) [OF r]]
  obtain status result apiErr where s: "(case r of
        Inl e \<Rightarrow> (OperationFailed, zeroResult, Some (publicBridgeError e))
      | Inr result \<Rightarrow> (if TR_Status result \<noteq> '''' then TR_Status result else OperationSucceeded, result, None)) = (status, result, apiErr)"
    by (rule prod_cases3)
  have b: "boundedError apiErr" using s by (auto split: sum.splits)
  have p1: "bget (J_operations j1) ?k = Some (Valid p)" using p fr by simp
  define q where "q = finishedSaltOperation (ad_now ad w1) ?k (SR_Function rec) (T_ID (SR_Target rec)) status result apiErr j1"
  have q1: "journaledAs ?k r q"
    using finishedSalt_journaled [OF p1 id(1)] recoveredResult_frame(2) [OF r] s unfolding q_def by (cases r) auto
  have q2: "\<not> hasSensitiveValue (encodeOperation (ad_em ad) q)" unfolding q_def by (rule finished_clean [OF p1 b])
  have q: "settledBy ad rec (j, w) q" using r q1 q2 unfolding settledBy_def by blast
  define j2 where "j2 = j1\<lparr>J_operations := bput ?k (Valid q) (J_operations j1)\<rparr>"
  have "finishSaltOperation ad (ad_now ad w1) ?k (SR_Function rec) (T_ID (SR_Target rec)) status result apiErr j1 = (None, j2)"
    unfolding j2_def q_def by (rule finishSaltOperation_stores [OF p1 id b])
  then have run: "recoverSalt ad rec (j, w) = Some (None, DeleteSaltRecovery ?k j2,
      CleanupRemote ad (T_SaltMinionID (SR_Target rec)) \<lparr>SB_LocalPath = SR_LocalBundle rec, SB_RemotePath = SR_RemoteBundle rec\<rparr> w1)"
    using p r s by (simp add: recoverSalt_def Journal_Operation_def)
  have key: "operationsKeyed (DeleteSaltRecovery ?k j2)"
    using assms(2) fr q id(2) by (simp add: operationsKeyed_def DeleteSaltRecovery_def j2_def) (use q1 in \<open>auto simp: journaledAs_def\<close>)
  show ?thesis using run key q fr True by (auto simp: DeleteSaltRecovery_def j2_def)
qed

lemma recoverSaltLoop_spec:
  assumes "steadyClock ad" and "operationsKeyed j" and "distinct (map SR_OperationID recs)"
  shows "\<exists>j' w'. recoverSaltLoop ad recs None (j, w) = Some (None, j', w')
     \<and> J_saltRecovery j' = filter (\<lambda>(k, _). k \<notin> SR_OperationID ` set recs) (J_saltRecovery j)
     \<and> J_idempotency j' = J_idempotency j \<and> J_nonces j' = J_nonces j
     \<and> (\<forall>k. k \<notin> SR_OperationID ` set recs \<or> \<not> recoverable j k \<longrightarrow> bget (J_operations j') k = bget (J_operations j) k)
     \<and> (\<forall>before rec after. recs = before @ rec # after \<and> recoverable j (SR_OperationID rec) \<longrightarrow>
          (\<exists>j1 w1 q. recoverSaltLoop ad before None (j, w) = Some (None, j1, w1)
             \<and> bget (J_operations j') (SR_OperationID rec) = Some (Valid q) \<and> settledBy ad rec (j1, w1) q))"
  using assms(2,3)
proof (induction recs arbitrary: j w)
  case Nil
  then show ?case by simp
next
  case (Cons rec recs)
  let ?k = "SR_OperationID rec"
  obtain j1 w1 where step: "recoverSalt ad rec (j, w) = Some (None, j1, w1)"
    and s1: "J_saltRecovery j1 = bdelete ?k (J_saltRecovery j)" "J_idempotency j1 = J_idempotency j" "J_nonces j1 = J_nonces j"
    and k1: "operationsKeyed j1"
    and f1: "\<And>k. k \<noteq> ?k \<or> \<not> recoverable j k \<Longrightarrow> bget (J_operations j1) k = bget (J_operations j) k"
    and q1: "recoverable j ?k \<Longrightarrow> \<exists>q. bget (J_operations j1) ?k = Some (Valid q) \<and> settledBy ad rec (j, w) q"
    using recoverSalt_step [OF assms(1) Cons.prems(1), of rec w] by metis
  have d: "distinct (map SR_OperationID recs)" and n: "?k \<notin> SR_OperationID ` set recs" using Cons.prems(2) by simp_all
  obtain j2 w2 where rest: "recoverSaltLoop ad recs None (j1, w1) = Some (None, j2, w2)"
    and s2: "J_saltRecovery j2 = filter (\<lambda>(k, _). k \<notin> SR_OperationID ` set recs) (J_saltRecovery j1)" "J_idempotency j2 = J_idempotency j1"
      "J_nonces j2 = J_nonces j1"
    and f2: "\<And>k. k \<notin> SR_OperationID ` set recs \<or> \<not> recoverable j1 k \<Longrightarrow> bget (J_operations j2) k = bget (J_operations j1) k"
    and q2: "\<And>before r after. recs = before @ r # after \<Longrightarrow> recoverable j1 (SR_OperationID r) \<Longrightarrow>
      \<exists>j3 w3 q. recoverSaltLoop ad before None (j1, w1) = Some (None, j3, w3)
        \<and> bget (J_operations j2) (SR_OperationID r) = Some (Valid q) \<and> settledBy ad r (j3, w3) q"
    using Cons.IH [OF k1 d, of w1] by metis
  have r: "recoverable j1 k = recoverable j k" if "k \<noteq> ?k" for k using f1 that by (simp add: recoverable_def)
  have run: "recoverSaltLoop ad (rec # before) None (j, w) = recoverSaltLoop ad before None (j1, w1)" for before
    using step by (simp add: errorsJoin_def)
  have sr: "J_saltRecovery j2 = filter (\<lambda>(k, _). k \<notin> SR_OperationID ` set (rec # recs)) (J_saltRecovery j)"
    unfolding s2(1) s1(1) bdelete_def by (auto simp: case_prod_unfold intro: filter_cong)
  have fr: "bget (J_operations j2) k = bget (J_operations j) k" if "k \<notin> SR_OperationID ` set (rec # recs) \<or> \<not> recoverable j k" for k
  proof (cases "k = ?k")
    case True
    then show ?thesis using that f1 [of k] f2 [of k] n by simp
  next
    case False
    then show ?thesis using that f1 [of k] f2 [of k] r [OF False] by simp
  qed
  have st: "\<exists>j3 w3 q. recoverSaltLoop ad before None (j, w) = Some (None, j3, w3)
        \<and> bget (J_operations j2) (SR_OperationID x) = Some (Valid q) \<and> settledBy ad x (j3, w3) q"
    if e: "rec # recs = before @ x # after" and x: "recoverable j (SR_OperationID x)" for before x after
  proof (cases before)
    case Nil
    then show ?thesis using e x q1 f2 [of ?k] n by simp
  next
    case (Cons y ys)
    then have y: "before = rec # ys" "recs = ys @ x # after" using e by simp_all
    then have "SR_OperationID x \<noteq> ?k" using n by auto
    with q2 [OF y(2)] r x show ?thesis unfolding y(1) run by simp
  qed
  show ?case using run [of recs] rest sr fr st s1(2,3) s2(2,3) by auto
qed

text \<open>
  C18. Recovery of Salt operations. On a journal with proper keys the adapter's recovery returns without error and takes the
  records in order. For each record of an operation that is running, the operation ends up journalled with the outcome of
  that record's own job, as \<open>recoveredResult\<close> gives it in the state the earlier records left: the status and the result
  of the decoded job or of the verified snapshot, word for word, or failed with the public error when neither could be had;
  and nothing sensitive is in the entry. No recovery record is left, and the answers, the nonces and every operation without
  a record or not running are as they were; so an operation that runs without a recovery record is still running when the
  server starts. The catalog of backups is not covered: decoding a job may add the backup its result names.
\<close>

theorem salt_recovery_settles:
  assumes "steadyClock ad" and "operationsKeyed j" and "bucket_ok (J_saltRecovery j)"
    and "\<forall>(k, v) \<in> set (J_saltRecovery j). \<exists>rec. v = Valid rec \<and> SR_OperationID rec = k"
  shows "\<exists>recs j' w'. SaltRecoveries j = Inr recs \<and> CompositeAdapter_RecoverOperations ad (j, w) = Some (None, j', w')
     \<and> J_saltRecovery j' = [] \<and> J_idempotency j' = J_idempotency j \<and> J_nonces j' = J_nonces j
     \<and> (\<forall>before rec after. recs = before @ rec # after \<and> recoverable j (SR_OperationID rec) \<longrightarrow>
          (\<exists>j1 w1 q. recoverSaltLoop ad before None (j, w) = Some (None, j1, w1)
             \<and> bget (J_operations j') (SR_OperationID rec) = Some (Valid q) \<and> settledBy ad rec (j1, w1) q))
     \<and> (\<forall>k. bget (J_saltRecovery j) k = None \<or> \<not> recoverable j k \<longrightarrow> bget (J_operations j') k = bget (J_operations j) k)"
proof -
  define recs where "recs = map (\<lambda>(k, v). case v of Valid rec \<Rightarrow> rec | Corrupt \<Rightarrow> undefined) (J_saltRecovery j)"
  have e: "map snd (J_saltRecovery j) = map Valid recs" and k: "map SR_OperationID recs = map fst (J_saltRecovery j)"
    unfolding recs_def using assms(4) by (induction "J_saltRecovery j") (auto simp: recs_def)
  have all: "SaltRecoveries j = Inr recs" using decodeAll_Inr [of "J_saltRecovery j" recs] e by (simp add: SaltRecoveries_def)
  have d: "distinct (map SR_OperationID recs)" using assms(3) k by (simp add: bucket_ok_def)
  have ids: "SR_OperationID ` set recs = fst ` set (J_saltRecovery j)" using k by (metis list.set_map)
  have mem: "(k \<in> SR_OperationID ` set recs) = (bget (J_saltRecovery j) k \<noteq> None)" for k
    unfolding ids bget_def by (auto simp: map_of_eq_None_iff)
  have none: "filter (\<lambda>(k, _). k \<notin> SR_OperationID ` set recs) (J_saltRecovery j) = []"
    unfolding ids by (simp add: filter_empty_conv case_prod_unfold)
  obtain j' w' where "recoverSaltLoop ad recs None (j, w) = Some (None, j', w')"
      "J_saltRecovery j' = [] \<and> J_idempotency j' = J_idempotency j \<and> J_nonces j' = J_nonces j"
      "\<forall>k. k \<notin> SR_OperationID ` set recs \<or> \<not> recoverable j k \<longrightarrow> bget (J_operations j') k = bget (J_operations j) k"
      "\<forall>before rec after. recs = before @ rec # after \<and> recoverable j (SR_OperationID rec) \<longrightarrow>
          (\<exists>j1 w1 q. recoverSaltLoop ad before None (j, w) = Some (None, j1, w1)
             \<and> bget (J_operations j') (SR_OperationID rec) = Some (Valid q) \<and> settledBy ad rec (j1, w1) q)"
    using recoverSaltLoop_spec [OF assms(1,2) d, of w] none by auto
  then show ?thesis using mem all
    by (intro exI [of _ recs] exI [of _ j'] exI [of _ w']) (simp add: CompositeAdapter_RecoverOperations_def)
qed

section \<open>Salt mutations\<close>

lemma awaitSalt_spec:
  assumes "steadyClock ad" and "bget (J_operations j) (SR_OperationID rec) = Some (Valid p)" and "OP_ID p = SR_OperationID rec"
    and "boltKey (SR_OperationID rec)"
  shows "\<exists>r j1 q w'. awaitSalt ad rec target (j, w)
        = Some (r, j1\<lparr>J_operations := bput (SR_OperationID rec) (Valid q) (J_operations j1)\<rparr>, w')
      \<and> sameButBackups j j1 \<and> journaledAs (SR_OperationID rec) r q"
proof -
  let ?k = "SR_OperationID rec" and ?f = "SR_Function rec" and ?t = "T_ID target"
  have finish: "finishSaltOperation ad (ad_now ad w) ?k ?f ?t status r apiErr j1
      = (None, j1\<lparr>J_operations := bput ?k (Valid (finishedSaltOperation (ad_now ad w) ?k ?f ?t status r apiErr j1)) (J_operations j1)\<rparr>)"
    if "sameButBackups j j1" "boundedError apiErr" for w status r apiErr j1
    using finishSaltOperation_stores [of j1 ?k p apiErr] sameButBackups_simps [OF that(1)] assms(2-4) that(2) by simp
  have fail: "journaledAs ?k (Inl e) (finishedSaltOperation now ?k ?f ?t OperationFailed zeroResult (Some (publicBridgeError e)) j1)"
    if "sameButBackups j j1" for e now j1
    using finished_parts [of j1 ?k p] sameButBackups_simps [OF that] assms(2,3) unfolding journaledAs_def by simp metis
  have good: "journaledAs ?k (Inr v) (finishedSaltOperation now ?k ?f ?t (TR_Status v) v None j1)"
    if "sameButBackups j j1" "TR_Status v \<noteq> ''''" "TR_Health v \<noteq> ''''" for v now j1
    using finished_parts [of j1 ?k p] finishedResult_success [OF that(2,3)] sameButBackups_simps [OF that(1)] assms(2,3)
    unfolding journaledAs_def by simp metis
  obtain polled w1 where poll: "Driver_Poll ad (SR_SaltJID rec) (T_SaltMinionID target) w = Some (polled, w1)"
    using Poll_returns [OF assms(1)] by metis
  show ?thesis
  proof (cases polled)
    case (Inl e)
    obtain v w2 where vs: "verifySnapshot ad target (SR_CanVerifySnapshot rec) (SR_ExpectedMembers rec) (SR_PreserveUnmanaged rec) w1 = (v, w2)"
      by (rule prod.exhaust)
    show ?thesis
    proof (cases "isJobMissing e \<and> v \<noteq> None")
      case True
      then obtain x where x: "v = Some x" by blast
      then have "TR_Status x \<noteq> ''''" "TR_Health x \<noteq> ''''"
        using vs by (auto simp: verifySnapshot_def verifiedResult_def split: prod.splits sum.splits if_splits)
      then show ?thesis using good [of j x] poll Inl True vs x by (simp add: awaitSalt_def Let_def finish) (metis sameButBackups_refl)
    next
      case False
      then show ?thesis using fail [of j e] poll Inl vs
        by (cases v; cases "isJobMissing e") (simp_all add: awaitSalt_def Let_def finish, (metis sameButBackups_refl)+)
    qed
  next
    case (Inr raw)
    obtain d j1 where d: "decodeSaltResult raw j = (d, j1)" by (rule prod.exhaust)
    note fr = decodeSaltResult_frame [OF d]
    show ?thesis
    proof (cases d)
      case (Inl e)
      then show ?thesis using fail [OF fr(1), of e] poll Inr d fr(1) by (simp add: awaitSalt_def Let_def finish) metis
    next
      case (Inr x)
      then show ?thesis using good [OF fr(1), of x] fr(3) [OF Inr] poll \<open>polled = Inr raw\<close> d fr(1)
        by (simp add: awaitSalt_def Let_def finish) metis
    qed
  qed
qed

lemma PutRunning_Inr:
  assumes "PutRunningSaltOperation em p rec j = Inr j1"
  shows "boltKey (OP_ID p)" and "SR_OperationID rec = OP_ID p"
    and "j1 = j\<lparr>J_operations := bput (OP_ID p) (Valid p) (J_operations j), J_saltRecovery := bput (OP_ID p) (Valid rec) (J_saltRecovery j)\<rparr>"
  using assms by (auto simp: PutRunningSaltOperation_def boltPut_boltKey split: if_splits)

lemma saltMutation_cases:
  assumes "saltMutation ad target0 i f payload (j, w) = out"
  obtains (early) e w' where "out = Some (Inl e, j, w')"
  | (await) target rec j1 w1 bun where
      "PutRunningSaltOperation (ad_em ad) (runningSaltOperation (ad_now ad w1) i f (T_ID target) (SR_SaltJID rec)) rec j = Inr j1"
      "out = (case awaitSalt ad rec target (j1, w1) of None \<Rightarrow> None
         | Some (r, j2, w4) \<Rightarrow> Some (r, DeleteSaltRecovery i j2, CleanupRemote ad (T_SaltMinionID target) bun w4))"
proof -
  obtain prep w1 where prep: "prepareSaltTarget ad target0 w = (prep, w1)" by (rule prod.exhaust)
  consider (refused) "\<exists>e. out = Some (Inl e, j, w1)"
    | (staged) target pl expected where "prep = Inr target" "bindSaltTarget payload target = Inr pl"
      "(case manifestAndSecretsFromPayload ad pl of None \<Rightarrow> Inr [] | Some (m, secrets) \<Rightarrow> expectedSaltMembers ad m secrets) = Inr expected"
  proof (cases prep)
    case (Inl e)
    then have "out = Some (Inl e, j, w1)" using prep unfolding assms [symmetric] by (simp add: saltMutation_def)
    then show thesis using that(1) by blast
  next
    case (Inr target)
    show thesis
    proof (cases "bindSaltTarget payload target")
      case (Inl e)
      then have "out = Some (Inl e, j, w1)" using prep \<open>prep = Inr target\<close> unfolding assms [symmetric] by (simp add: saltMutation_def)
      then show thesis using that(1) by blast
    next
      case (Inr pl)
      show thesis
      proof (cases "case manifestAndSecretsFromPayload ad pl of None \<Rightarrow> Inr [] | Some (m, secrets) \<Rightarrow> expectedSaltMembers ad m secrets")
        case (Inl e)
        then have "out = Some (Inl e, j, w1)" using prep \<open>prep = Inr target\<close> \<open>bindSaltTarget payload target = Inr pl\<close>
          unfolding assms [symmetric] by (simp add: saltMutation_def Let_def)
        then show thesis using that(1) by blast
      qed (use that(2) \<open>prep = Inr target\<close> \<open>bindSaltTarget payload target = Inr pl\<close> in blast)
    qed
  qed
  then show thesis
  proof cases
    case refused
    then show thesis using early by blast
  next
    case staged
    note t = staged
    obtain st w2 where st: "Driver_Stage ad (T_SaltMinionID target) (ad_marshal ad pl) w1 = (st, w2)" by (rule prod.exhaust)
    show thesis
    proof (cases st)
      case (Inl e)
      then have "out = Some (Inl e, j, w2)" using prep t st unfolding assms [symmetric] by (simp add: saltMutation_def Let_def)
      then show thesis by (rule early)
    next
      case (Inr bun)
      obtain di w3 where di: "Driver_Dispatch ad (T_SaltMinionID target) f [SB_RemotePath bun] w2 = (di, w3)" by (rule prod.exhaust)
      show thesis
      proof (cases di)
        case (Inl e)
        then show thesis using early [of e "CleanupRemote ad (T_SaltMinionID target) bun w3"] prep t st \<open>st = Inr bun\<close> di
          unfolding assms [symmetric] by (simp add: saltMutation_def Let_def)
      next
        case (Inr jid)
        define rec where "rec = \<lparr>SR_OperationID = i, SR_Function = f, SR_Target = target\<lparr>T_ManagedHome := ''''\<rparr>, SR_SaltJID = jid,
            SR_LocalBundle = SB_LocalPath bun, SR_RemoteBundle = SB_RemotePath bun, SR_ExpectedMembers = expected,
            SR_CanVerifySnapshot = (manifestAndSecretsFromPayload ad pl \<noteq> None), SR_PreserveUnmanaged = (f = ''toolhub.reconcile''), SR_CreatedAt = ad_now ad w3\<rparr>"
        have jid: "SR_SaltJID rec = jid" by (simp add: rec_def)
        have out: "out = (case PutRunningSaltOperation (ad_em ad) (runningSaltOperation (ad_now ad w3) i f (T_ID target) (SR_SaltJID rec)) rec j of
             Inl e \<Rightarrow> Some (Inl (Wrapped ''persist running Salt operation: %w'' e), j, CleanupRemote ad (T_SaltMinionID target) bun w3)
           | Inr j1 \<Rightarrow> (case awaitSalt ad rec target (j1, w3) of
               None \<Rightarrow> None
             | Some (r, j2, w4) \<Rightarrow> Some (r, DeleteSaltRecovery i j2, CleanupRemote ad (T_SaltMinionID target) bun w4)))"
          using prep t st \<open>st = Inr bun\<close> di Inr unfolding jid rec_def assms [symmetric] by (simp add: saltMutation_def Let_def del: not_None_eq)
        show thesis
        proof (cases "PutRunningSaltOperation (ad_em ad) (runningSaltOperation (ad_now ad w3) i f (T_ID target) (SR_SaltJID rec)) rec j")
          case (Inl e)
          then show thesis using early out by simp
        next
          case (Inr j1)
          then show thesis using await out by simp
        qed
      qed
    qed
  qed
qed

text \<open>
  C19. What a mutation on a minion leaves behind. It returns, and either nothing was dispatched and the journal is
  unchanged, or the journal has the operation with exactly the result that is returned (the safe part of it, or the public
  form of the error), no recovery record for it, and is otherwise unchanged but for the catalog of backups.
\<close>

theorem salt_mutation_journaled:
  assumes "steadyClock ad"
  shows "\<exists>r j' w'. saltMutation ad target i f payload (j, w) = Some (r, j', w')
     \<and> (isl r \<and> j' = j
        \<or> (\<exists>q. bget (J_operations j') i = Some (Valid q) \<and> journaledAs i r q \<and> bget (J_saltRecovery j') i = None
             \<and> (\<forall>k. k \<noteq> i \<longrightarrow> bget (J_operations j') k = bget (J_operations j) k \<and> bget (J_saltRecovery j') k = bget (J_saltRecovery j) k)
             \<and> J_idempotency j' = J_idempotency j \<and> J_nonces j' = J_nonces j))"
proof (rule saltMutation_cases [OF refl [of "saltMutation ad target i f payload (j, w)"]])
  fix e w'
  assume "saltMutation ad target i f payload (j, w) = Some (Inl e, j, w')"
  then show ?thesis by simp
next
  fix target' rec j1 w1 bun
  assume put: "PutRunningSaltOperation (ad_em ad) (runningSaltOperation (ad_now ad w1) i f (T_ID target') (SR_SaltJID rec)) rec j = Inr j1"
    and out: "saltMutation ad target i f payload (j, w) = (case awaitSalt ad rec target' (j1, w1) of None \<Rightarrow> None
         | Some (r, j2, w4) \<Rightarrow> Some (r, DeleteSaltRecovery i j2, CleanupRemote ad (T_SaltMinionID target') bun w4))"
  define p where "p = runningSaltOperation (ad_now ad w1) i f (T_ID target') (SR_SaltJID rec)"
  have id: "OP_ID p = i" by (simp add: p_def runningSaltOperation_def)
  note P = PutRunning_Inr [OF put [folded p_def], unfolded id]
  have op: "bget (J_operations j1) (SR_OperationID rec) = Some (Valid p)" using P by simp
  obtain r j2 q w' where a: "awaitSalt ad rec target' (j1, w1) = Some (r, j2\<lparr>J_operations := bput i (Valid q) (J_operations j2)\<rparr>, w')"
      "sameButBackups j1 j2" "journaledAs i r q"
    using awaitSalt_spec [OF assms op] id P(1,2) by metis
  show ?thesis using out a sameButBackups_simps [OF a(2)] P(3) by (simp add: DeleteSaltRecovery_def)
qed

section \<open>Examples\<close>

definition scannedSkill :: InventoryMember where
  "scannedSkill = \<lparr>IM_ID = ''i'', IM_Kind = ''skill'', IM_Name = ''lint'', IM_ContentHash = ''h'', IM_Protected = False, IM_Rest = []\<rparr>"

theorem snapshot_verified_witness:
  "targetMatchesExpected [scannedSkill] [fingerprint scannedSkill] False
   \<and> \<not> targetMatchesExpected [scannedSkill\<lparr>IM_ContentHash := ''g''\<rparr>] [fingerprint scannedSkill] False
   \<and> \<not> targetMatchesExpected [] [fingerprint scannedSkill] True"
  by (subst (1 2 3) snapshot_verified) (simp_all add: fingerprint_def scannedSkill_def fingerprintKey_def managedKind_def)

definition relayServer :: MCPMember where
  "relayServer = \<lparr>MM_MemberID = ''m'', MM_ServerID = ''s'', MM_Revision = 1, MM_Name = ''files'', MM_Transport = ''stdio'', MM_Command = ''c'',
     MM_Args = [], MM_URL = '''', MM_EnvRefs = [], MM_HeaderRefs = [], MM_ContentHash = ''new''\<rparr>"

definition relayItem :: InventoryMember where
  "relayItem = \<lparr>IM_ID = ''i'', IM_Kind = ''mcp'', IM_Name = ''files'', IM_ContentHash = ''old'', IM_Protected = False, IM_Rest = []\<rparr>"

theorem relay_diff_exact_witness:
  "set (DF_Replace (relayDiff rev [relayItem] ((exampleManifest [])\<lparr>DM_MCPServers := [relayServer]\<rparr>))) = {replacement ''files'' relayServer}
   \<and> DF_Delete (relayDiff rev [relayItem] ((exampleManifest [])\<lparr>DM_MCPServers := [relayServer]\<rparr>)) = []"
proof -
  let ?m = "(exampleManifest [])\<lparr>DM_MCPServers := [relayServer]\<rparr>"
  have live: "liveMembers [relayItem] = [relayItem]" by (simp add: liveMembers_def relayItem_def)
  have d: "distinct (map IM_Name (liveMembers [relayItem]))" "distinct (map MM_Name (DM_MCPServers ?m))" by (simp_all add: live)
  have "\<forall>xs::(string \<times> MCPMember) list. set (rev xs) = set xs" by simp
  from relay_diff_exact [OF d this] show ?thesis
    unfolding live by (simp add: relayItem_def relayServer_def replacement_def)
qed

definition idleRelay :: RelayStatus where
  "idleRelay = \<lparr>RS_State = ''stopped'', RS_Healthy = False, RS_IntentionalPaused = True, RS_Endpoint = '''', RS_FixedPort = 0,
     RS_SystemdEnabled = False, RS_Version = '''', RS_Contract = '''', RS_MemberStatuses = [], RS_ErrorCode = '''', RS_ErrorReason = Lit ''''\<rparr>"

definition silentAdapter :: "time adapter_env" where
  "silentAdapter = \<lparr>se_run = se_run silentEnv, se_json = se_json silentEnv, se_now = id, se_wait = se_wait silentEnv, se_ctxErr = (\<lambda>_. None),
     se_write = se_write silentEnv, se_remove = se_remove silentEnv, se_uuid = se_uuid silentEnv,
     ad_now = id, ad_user = (\<lambda>_. Inl decodeError), ad_publish = (\<lambda>w. (None, w)), ad_marshal = (\<lambda>_. Inr ''{}''), ad_manifest = (\<lambda>_. None),
     ad_encode = (\<lambda>_. ''{}''), ad_sha = id, ad_em = (\<lambda>_. JNull), ad_canonical = (\<lambda>_. Inl decodeError),
     ad_localScan = (\<lambda>_ _ w. (Inl decodeError, w)), ad_localPreflight = (\<lambda>_ _ w. (Inl decodeError, w)),
     ad_localApply = (\<lambda>_ _ w. (Inl decodeError, w)), ad_localReconcile = (\<lambda>_ _ w. (Inl decodeError, w)),
     ad_localRestore = (\<lambda>_ _ w. (Inl decodeError, w)), ad_localRemoveBackup = (\<lambda>_ w. (None, w)),
     ad_relayApply = (\<lambda>_ _ w. (Inl decodeError, w)), ad_relayRestore = (\<lambda>_ _ w. (Inl decodeError, w)),
     ad_relayStatus = (\<lambda>_ _ _ w. (Inl decodeError, w)), ad_relayStart = (\<lambda>_ _ w. (idleRelay, w)),
     ad_relayRestart = (\<lambda>_ _ w. (idleRelay, w)), ad_relayStop = (\<lambda>w. (None, w))\<rparr>"

lemma silentAdapter_steady: "steadyClock silentAdapter"
  by (simp add: steadyClock_def silentAdapter_def silentEnv_def pollEvery_def)

definition exampleRecovery :: saltRecoveryRecord where
  "exampleRecovery = \<lparr>SR_OperationID = ''op-1'', SR_Function = ''toolhub.apply'', SR_Target = demoTarget, SR_SaltJID = ''20240101'',
     SR_LocalBundle = '''', SR_RemoteBundle = '''', SR_ExpectedMembers = [], SR_CanVerifySnapshot = False, SR_PreserveUnmanaged = False, SR_CreatedAt = 1\<rparr>"

definition interruptedJournal :: Journal where
  "interruptedJournal = emptyJournal\<lparr>J_operations := [(''op-1'', Valid exampleOperation), (''op-2'', Valid (exampleOperation\<lparr>OP_ID := ''op-2''\<rparr>))],
     J_saltRecovery := [(''op-1'', Valid exampleRecovery)]\<rparr>"

text \<open>The second operation ran on the local target: it has no recovery record, and it keeps running.\<close>

theorem salt_recovery_settles_witness:
  "\<exists>j' w' q. CompositeAdapter_RecoverOperations silentAdapter (interruptedJournal, 0) = Some (None, j', w') \<and> J_saltRecovery j' = []
     \<and> bget (J_operations j') ''op-1'' = Some (Valid q) \<and> settledBy silentAdapter exampleRecovery (interruptedJournal, 0) q
     \<and> bget (J_operations j') ''op-2'' = Some (Valid (exampleOperation\<lparr>OP_ID := ''op-2''\<rparr>)) \<and> OP_Status exampleOperation = OperationRunning"
proof -
  have ops: "bget (J_operations interruptedJournal) k = (if k = ''op-1'' then Some (Valid exampleOperation)
      else if k = ''op-2'' then Some (Valid (exampleOperation\<lparr>OP_ID := ''op-2''\<rparr>)) else None)"
    and recs: "bget (J_saltRecovery interruptedJournal) k = (if k = ''op-1'' then Some (Valid exampleRecovery) else None)" for k
    by (auto simp: interruptedJournal_def bget_def)
  have a: "operationsKeyed interruptedJournal" "bucket_ok (J_saltRecovery interruptedJournal)"
    "\<forall>(k, v) \<in> set (J_saltRecovery interruptedJournal). \<exists>rec. v = Valid rec \<and> SR_OperationID rec = k"
    unfolding operationsKeyed_def ops
    by (auto simp: interruptedJournal_def boltKey_def boltMaxKeySize_def exampleOperation_def bucket_ok_def exampleRecovery_def split: if_splits)
  have k: "SR_OperationID exampleRecovery = ''op-1''" by (simp add: exampleRecovery_def)
  have r: "recoverable interruptedJournal (SR_OperationID exampleRecovery)" by (simp add: k recoverable_def ops exampleOperation_def)
  have l: "SaltRecoveries interruptedJournal = Inr ([] @ exampleRecovery # [])"
    by (simp add: SaltRecoveries_def interruptedJournal_def)
  note all = salt_recovery_settles [OF silentAdapter_steady a, of 0, unfolded l]
  obtain j' w' where 1: "CompositeAdapter_RecoverOperations silentAdapter (interruptedJournal, 0) = Some (None, j', w')" "J_saltRecovery j' = []"
    and 2: "\<And>before rec after. [] @ exampleRecovery # [] = before @ rec # after \<Longrightarrow> recoverable interruptedJournal (SR_OperationID rec) \<Longrightarrow>
        \<exists>j1 w1 q. recoverSaltLoop silentAdapter before None (interruptedJournal, 0) = Some (None, j1, w1)
           \<and> bget (J_operations j') (SR_OperationID rec) = Some (Valid q) \<and> settledBy silentAdapter rec (j1, w1) q"
    and 3: "\<And>k. bget (J_saltRecovery interruptedJournal) k = None \<Longrightarrow> bget (J_operations j') k = bget (J_operations interruptedJournal) k"
    using all by (smt (verit) sum.inject(2))
  obtain q where "bget (J_operations j') ''op-1'' = Some (Valid q)" "settledBy silentAdapter exampleRecovery (interruptedJournal, 0) q"
    using 2 [OF refl r] unfolding k by auto
  with 1 3 [of "''op-2''"] show ?thesis using ops [of "''op-2''"] recs [of "''op-2''"] by (auto simp: exampleOperation_def)
qed

theorem salt_mutation_journaled_witness:
  "\<exists>r j' w'. saltMutation silentAdapter demoTarget ''op-1'' ''toolhub.apply'' (PayCommit demoCommit) (emptyJournal, 0) = Some (r, j', w')"
  using salt_mutation_journaled [OF silentAdapter_steady, of demoTarget "''op-1''" "''toolhub.apply''" "PayCommit demoCommit" emptyJournal 0] by blast

end
