(* ===== verification/Operation_Queue.thy ===== *)
theory Operation_Queue
  imports Operation_Store
begin

text \<open>
  What the operation queue of \<open>Operation_Store\<close> guarantees. The schema's unique indexes, foreign keys and check
  constraints with the rules on dependencies are one predicate on databases, \<open>queue_ok\<close>. The two kinds of UPDATE and
  the two INSERTs keep it under conditions on single rows (\<open>safeOp\<close>, \<open>safeStep\<close>), every method is a sequence of
  those, and \<open>queueStep\<close> is one call of any method.
\<close>

section \<open>Partial unique indexes\<close>

definition uniqueIndex :: "('a \<Rightarrow> bool) \<Rightarrow> ('a \<Rightarrow> 'k) \<Rightarrow> 'a list \<Rightarrow> bool" where
  "uniqueIndex P k xs = distinct (map k (filter P xs))"

lemma uniqueIndex_append:
  "uniqueIndex P k (xs @ [x]) \<longleftrightarrow> uniqueIndex P k xs \<and> (P x \<longrightarrow> \<not> list_ex (\<lambda>y. P y \<and> k y = k x) xs)"
  by (auto simp: uniqueIndex_def list_ex_iff image_iff)

lemma uniqueIndex_update:
  assumes "uniqueIndex P k xs" "\<And>x. x \<in> set xs \<Longrightarrow> Q x \<Longrightarrow> k (f x) = k x \<and> (P (f x) \<longrightarrow> P x)"
  shows "uniqueIndex P k (map (\<lambda>x. if Q x then f x else x) xs)"
  using assms
proof (induction xs)
  case (Cons x xs)
  have "set (map k (filter P (map (\<lambda>x. if Q x then f x else x) xs))) \<subseteq> set (map k (filter P xs))"
    using Cons.prems(2) by (auto split: if_splits)
  with Cons show ?case by (auto simp: uniqueIndex_def split: if_splits)
qed (simp add: uniqueIndex_def)

lemma uniqueIndex_eq:
  assumes "uniqueIndex P k xs" "x \<in> set xs" "y \<in> set xs" "P x" "P y" "k x = k y"
  shows "x = y"
  using assms distinct_map [of k "filter P xs"] by (auto simp: uniqueIndex_def inj_on_def)

section \<open>The invariant\<close>

definition opStatuses :: "string set" where
  "opStatuses = {OperationQueued, OperationRunning, OperationSucceeded, OperationPartial, OperationFailed, OperationCancelled}"

definition coalescedLive :: "op_row \<Rightarrow> bool" where
  "coalescedLive q = (O_Kind q \<in> set coalescedControlOperationKinds \<and> liveStatus (O_Status q))"

text \<open>The unique indexes of the schema.\<close>

definition indexes_ok :: "db \<Rightarrow> bool" where
  "indexes_ok d = (uniqueIndex (\<lambda>_. True) O_ID (D_ops d)
     \<and> uniqueIndex (\<lambda>q. O_Key q \<noteq> None) (\<lambda>q. (O_Kind q, O_Key q)) (D_ops d)
     \<and> uniqueIndex coalescedLive O_Kind (D_ops d)
     \<and> uniqueIndex (\<lambda>_. True) W_ID (D_ots d)
     \<and> uniqueIndex (\<lambda>_. True) (\<lambda>w. (W_Op w, W_Target w)) (D_ots d)
     \<and> uniqueIndex owning W_Target (D_ots d))"

text \<open>Its check constraints, and the foreign keys of the steps.\<close>

definition rows_ok :: "db \<Rightarrow> bool" where
  "rows_ok d = ((\<forall>q \<in> set (D_ops d). O_Status q \<in> opStatuses)
     \<and> (\<forall>w \<in> set (D_ots d). W_Status w \<in> opStatuses)
     \<and> (\<forall>w \<in> set (D_ots d). \<exists>q \<in> set (D_ops d). O_ID q = W_Op w)
     \<and> (\<forall>w \<in> set (D_ots d). \<forall>i. W_DependsOn w = Some i \<longrightarrow> (\<exists>v \<in> set (D_ots d). W_ID v = i \<and> W_Op v = W_Op w)))"

text \<open>A running step's dependency has succeeded; a finished operation of a coalesced kind has no live step, and
  no step of it waits for a finalization.\<close>

definition order_ok :: "db \<Rightarrow> bool" where
  "order_ok d = ((\<forall>w \<in> set (D_ots d). W_Status w = OperationRunning \<longrightarrow> dependencyMet w d)
     \<and> (\<forall>w \<in> set (D_ots d). \<forall>q \<in> set (D_ops d). W_Op w = O_ID q \<and> O_Kind q \<in> set coalescedControlOperationKinds \<longrightarrow>
          \<not> W_GovPending w \<and> (liveStatus (W_Status w) \<longrightarrow> liveStatus (O_Status q))))"

definition queue_ok :: "db \<Rightarrow> bool" where
  "queue_ok d = (indexes_ok d \<and> rows_ok d \<and> order_ok d)"

lemma find_ID:
  assumes "uniqueIndex (\<lambda>_. True) k xs" "x \<in> set xs"
  shows "find (\<lambda>y. k y = k x) xs = Some x"
proof (cases "find (\<lambda>y. k y = k x) xs")
  case None
  with assms(2) show ?thesis by (auto simp: find_None_iff)
next
  case (Some y)
  then have "y \<in> set xs" "k y = k x" by (auto dest: find_key_SomeD)
  with assms have "y = x" by (metis uniqueIndex_eq)
  with Some show ?thesis by simp
qed

lemma findOp_mem: "queue_ok d \<Longrightarrow> q \<in> set (D_ops d) \<Longrightarrow> findOp (O_ID q) d = Some q"
  by (simp add: queue_ok_def indexes_ok_def findOp_def find_ID)

lemma findOT_mem: "queue_ok d \<Longrightarrow> w \<in> set (D_ots d) \<Longrightarrow> findOT (W_ID w) d = Some w"
  by (simp add: queue_ok_def indexes_ok_def findOT_def find_ID)

lemma findOpD: "findOp i d = Some q \<Longrightarrow> q \<in> set (D_ops d) \<and> O_ID q = i"
  by (auto simp: findOp_def dest: find_key_SomeD)

lemma findOTD: "findOT i d = Some w \<Longrightarrow> w \<in> set (D_ots d) \<and> W_ID w = i"
  by (auto simp: findOT_def dest: find_key_SomeD)

lemma op_unique: "queue_ok d \<Longrightarrow> p \<in> set (D_ops d) \<Longrightarrow> q \<in> set (D_ops d) \<Longrightarrow> O_ID p = O_ID q \<Longrightarrow> p = q"
  by (metis findOp_mem option.inject)

lemma step_unique: "queue_ok d \<Longrightarrow> v \<in> set (D_ots d) \<Longrightarrow> w \<in> set (D_ots d) \<Longrightarrow> W_ID v = W_ID w \<Longrightarrow> v = w"
  by (metis findOT_mem option.inject)

lemma dependencyMet_iff:
  "dependencyMet w d \<longleftrightarrow> (\<forall>i. W_DependsOn w = Some i \<longrightarrow> (\<exists>v \<in> set (D_ots d). W_ID v = i \<and> W_Status v = OperationSucceeded))"
  by (auto simp: dependencyMet_def list_ex_iff split: option.splits)

section \<open>Updates that keep it\<close>

text \<open>What an UPDATE may do to a row of \<open>operations\<close>, and to one of \<open>operation_targets\<close>.\<close>

definition safeOp :: "db \<Rightarrow> op_row \<Rightarrow> op_row \<Rightarrow> bool" where
  "safeOp d q q' = (O_ID q' = O_ID q \<and> O_Kind q' = O_Kind q \<and> O_Key q' = O_Key q \<and> O_Hash q' = O_Hash q
     \<and> (O_Cancel q \<longrightarrow> O_Cancel q')
     \<and> (O_Status q' = O_Status q \<or> O_Status q' \<in> opStatuses)
     \<and> (O_Kind q \<in> set coalescedControlOperationKinds \<longrightarrow>
          (liveStatus (O_Status q') \<longrightarrow> liveStatus (O_Status q))
          \<and> (\<not> liveStatus (O_Status q') \<and> liveStatus (O_Status q) \<longrightarrow> \<not> list_ex (\<lambda>w. liveStatus (W_Status w)) (targetsOf (O_ID q) d))))"

definition safeStep :: "db \<Rightarrow> ot_row \<Rightarrow> ot_row \<Rightarrow> bool" where
  "safeStep d w w' = (W_ID w' = W_ID w \<and> W_Op w' = W_Op w \<and> W_Target w' = W_Target w \<and> W_DependsOn w' = W_DependsOn w
     \<and> (W_Status w' = W_Status w \<or> W_Status w' \<in> opStatuses)
     \<and> (W_GovPending w' \<longrightarrow> W_GovPending w)
     \<and> (liveStatus (W_Status w') \<longrightarrow> liveStatus (W_Status w))
     \<and> (IsTerminalOperationStatus (W_Status w) \<longrightarrow> W_Status w' = W_Status w)
     \<and> (W_Status w' = OperationRunning \<longrightarrow> W_Status w = OperationRunning \<or> dependencyMet w d))"

lemma live_not_terminal: "liveStatus s \<Longrightarrow> \<not> IsTerminalOperationStatus s"
  by (auto simp: liveStatus_def IsTerminalOperationStatus_def)

lemma valid_status: "s \<in> opStatuses \<longleftrightarrow> liveStatus s \<or> IsTerminalOperationStatus s"
  by (auto simp: opStatuses_def liveStatus_def IsTerminalOperationStatus_def)

lemma safeOp_refl: "safeOp d q q"
  by (simp add: safeOp_def)

lemma safeStep_refl: "safeStep d w w"
  by (simp add: safeStep_def)

text \<open>Both tables after a safe UPDATE, as a relation between databases.\<close>

definition safeUpdate :: "db \<Rightarrow> db \<Rightarrow> bool" where
  "safeUpdate d d' = (D_targets d' = D_targets d \<and> list_all2 (safeOp d') (D_ops d) (D_ops d') \<and> list_all2 (safeStep d) (D_ots d) (D_ots d'))"

lemma uniqueIndex_all2:
  assumes "uniqueIndex P k xs" "list_all2 R xs ys" "\<And>x y. R x y \<Longrightarrow> k y = k x \<and> (P y \<longrightarrow> P x)"
  shows "uniqueIndex P k ys"
  using assms(2,1)
proof (induction rule: list_all2_induct)
  case (Cons x xs y ys)
  from \<open>list_all2 R xs ys\<close> have "set (map k (filter P ys)) \<subseteq> set (map k (filter P xs))"
    by (induction rule: list_all2_induct) (use assms(3) in \<open>auto 4 3\<close>)
  with Cons assms(3) [OF Cons(1)] show ?case by (auto simp: uniqueIndex_def split: if_splits)
qed simp

lemma all2_left: "list_all2 R xs ys \<Longrightarrow> y \<in> set ys \<Longrightarrow> \<exists>x \<in> set xs. R x y"
  by (induction rule: list_all2_induct) auto

lemma all2_right: "list_all2 R xs ys \<Longrightarrow> x \<in> set xs \<Longrightarrow> \<exists>y \<in> set ys. R x y"
  by (induction rule: list_all2_induct) auto

lemma safeUpdate_indexes: "safeUpdate d d' \<Longrightarrow> indexes_ok d \<Longrightarrow> indexes_ok d'"
  unfolding indexes_ok_def safeUpdate_def
  by (intro conjI; elim conjE; erule uniqueIndex_all2, assumption)
    (auto simp: safeOp_def safeStep_def coalescedLive_def owning_def)

lemma safeUpdate_rows:
  assumes u: "safeUpdate d d'" and ok: "rows_ok d"
  shows "rows_ok d'"
proof -
  have ops: "list_all2 (safeOp d') (D_ops d) (D_ops d')" and ots: "list_all2 (safeStep d) (D_ots d) (D_ots d')"
    using u by (simp_all add: safeUpdate_def)
  have 1: "O_Status q \<in> opStatuses" if "q \<in> set (D_ops d')" for q
    using all2_left [OF ops that] ok by (fastforce simp: safeOp_def rows_ok_def)
  have 2: "W_Status w \<in> opStatuses" if "w \<in> set (D_ots d')" for w
    using all2_left [OF ots that] ok by (fastforce simp: safeStep_def rows_ok_def)
  have 3: "\<exists>q \<in> set (D_ops d'). O_ID q = W_Op w" if w: "w \<in> set (D_ots d')" for w
  proof -
    obtain v where v: "v \<in> set (D_ots d)" "safeStep d v w" using all2_left [OF ots w] by blast
    with ok obtain q where "q \<in> set (D_ops d)" "O_ID q = W_Op v" by (auto simp: rows_ok_def)
    with all2_right [OF ops] obtain r where "r \<in> set (D_ops d')" "O_ID r = W_Op v" by (metis safeOp_def)
    with v(2) show ?thesis by (auto simp: safeStep_def)
  qed
  have 4: "\<exists>v \<in> set (D_ots d'). W_ID v = i \<and> W_Op v = W_Op w" if w: "w \<in> set (D_ots d')" "W_DependsOn w = Some i" for w i
  proof -
    obtain u where u: "u \<in> set (D_ots d)" "safeStep d u w" using all2_left [OF ots w(1)] by blast
    then have "W_DependsOn u = Some i" using w(2) by (simp add: safeStep_def)
    with ok u(1) obtain v where v: "v \<in> set (D_ots d)" "W_ID v = i" "W_Op v = W_Op u"
      unfolding rows_ok_def by blast
    from all2_right [OF ots v(1)] obtain x where "x \<in> set (D_ots d')" "W_ID x = W_ID v" "W_Op x = W_Op v"
      by (metis safeStep_def)
    with v u(2) show ?thesis by (auto simp: safeStep_def)
  qed
  show ?thesis using 1 2 3 4 by (simp add: rows_ok_def)
qed

lemma terminal_succeeded: "IsTerminalOperationStatus OperationSucceeded"
  by (simp add: IsTerminalOperationStatus_def)

lemma safeUpdate_dependencyMet:
  assumes "safeUpdate d d'" "dependencyMet w d" "W_DependsOn w' = W_DependsOn w"
  shows "dependencyMet w' d'"
proof -
  have ots: "list_all2 (safeStep d) (D_ots d) (D_ots d')" using assms(1) by (simp add: safeUpdate_def)
  have "\<exists>v \<in> set (D_ots d'). W_ID v = i \<and> W_Status v = OperationSucceeded" if dep: "W_DependsOn w = Some i" for i
  proof -
    obtain v where v: "v \<in> set (D_ots d)" "W_ID v = i" "W_Status v = OperationSucceeded"
      using assms(2) dep unfolding dependencyMet_iff by blast
    from all2_right [OF ots v(1)] v terminal_succeeded show ?thesis unfolding safeStep_def by metis
  qed
  with assms(3) show ?thesis by (simp add: dependencyMet_iff)
qed

lemma safeUpdate_order:
  assumes u: "safeUpdate d d'" and ok: "order_ok d"
  shows "order_ok d'"
proof -
  have ops: "list_all2 (safeOp d') (D_ops d) (D_ops d')" and ots: "list_all2 (safeStep d) (D_ots d) (D_ots d')"
    using u by (simp_all add: safeUpdate_def)
  have 1: "dependencyMet w d'" if w: "w \<in> set (D_ots d')" "W_Status w = OperationRunning" for w
  proof -
    obtain v where v: "v \<in> set (D_ots d)" "safeStep d v w" using all2_left [OF ots w(1)] by blast
    then have "dependencyMet v d" using ok w(2) unfolding safeStep_def order_ok_def by metis
    with v show ?thesis using safeUpdate_dependencyMet [OF u] by (simp add: safeStep_def)
  qed
  have 2: "\<not> W_GovPending w \<and> (liveStatus (W_Status w) \<longrightarrow> liveStatus (O_Status q))"
    if w: "w \<in> set (D_ots d')" "q \<in> set (D_ops d')" "W_Op w = O_ID q" "O_Kind q \<in> set coalescedControlOperationKinds" for w q
  proof -
    obtain v where v: "v \<in> set (D_ots d)" "safeStep d v w" using all2_left [OF ots w(1)] by blast
    obtain p where p: "p \<in> set (D_ops d)" "safeOp d' p q" using all2_left [OF ops w(2)] by blast
    have k: "W_Op v = O_ID p" "O_Kind p \<in> set coalescedControlOperationKinds"
      using v(2) p(2) w(3,4) unfolding safeStep_def safeOp_def by (elim conjE; simp)+
    have old: "\<not> W_GovPending v" "liveStatus (W_Status v) \<longrightarrow> liveStatus (O_Status p)"
      using ok v(1) p(1) k unfolding order_ok_def by blast+
    have "liveStatus (O_Status q)" if l: "liveStatus (W_Status w)"
    proof (rule ccontr)
      assume "\<not> liveStatus (O_Status q)"
      moreover have "liveStatus (O_Status p)" using old(2) l v(2) by (simp add: safeStep_def)
      moreover have "w \<in> set (targetsOf (O_ID p) d')" using w(1,3) p(2) by (simp add: targetsOf_def safeOp_def)
      ultimately show False using p(2) k(2) l by (auto simp: safeOp_def list_ex_iff)
    qed
    with old v(2) show ?thesis by (auto simp: safeStep_def)
  qed
  show ?thesis using 1 2 by (simp add: order_ok_def)
qed

lemma safeUpdate_ok: "safeUpdate d d' \<Longrightarrow> queue_ok d \<Longrightarrow> queue_ok d'"
  by (simp add: queue_ok_def safeUpdate_indexes safeUpdate_rows safeUpdate_order)

lemma safeUpdate_refl: "safeUpdate d d"
  by (simp add: safeUpdate_def list.rel_refl safeOp_refl safeStep_refl)

lemma updateOps_safe:
  "(\<And>q. q \<in> set (D_ops d) \<Longrightarrow> P q \<Longrightarrow> safeOp d q (f q)) \<Longrightarrow> safeUpdate d (updateOps P f d)"
proof -
  assume *: "\<And>q. q \<in> set (D_ops d) \<Longrightarrow> P q \<Longrightarrow> safeOp d q (f q)"
  have eq: "safeOp (updateOps P f d) = safeOp d"
    by (intro ext) (simp add: safeOp_def updateOps_def targetsOf_def)
  show ?thesis unfolding safeUpdate_def eq
    using * by (simp add: updateOps_def list_all2_conv_all_nth safeOp_refl safeStep_refl)
qed

lemma updateOTs_safe:
  "(\<And>w. w \<in> set (D_ots d) \<Longrightarrow> P w \<Longrightarrow> safeStep d w (f w)) \<Longrightarrow> safeUpdate d (updateOTs P f d)"
  by (simp add: safeUpdate_def updateOTs_def list_all2_conv_all_nth safeOp_refl safeStep_refl)

section \<open>One call\<close>

text \<open>Rows are never deleted; an operation keeps its identity and a requested cancellation,
  a step its place, and a terminal step its status.\<close>

definition keeps :: "db \<Rightarrow> db \<Rightarrow> bool" where
  "keeps d d' = ((\<forall>q \<in> set (D_ops d). \<exists>p \<in> set (D_ops d'). O_ID p = O_ID q \<and> O_Kind p = O_Kind q \<and> O_Key p = O_Key q \<and> O_Hash p = O_Hash q \<and> (O_Cancel q \<longrightarrow> O_Cancel p))
     \<and> (\<forall>w \<in> set (D_ots d). \<exists>v \<in> set (D_ots d'). W_ID v = W_ID w \<and> W_Op v = W_Op w \<and> W_Target v = W_Target w
          \<and> (IsTerminalOperationStatus (W_Status w) \<longrightarrow> W_Status v = W_Status w)))"

definition advance :: "db \<Rightarrow> db \<Rightarrow> bool" where
  "advance d d' = (queue_ok d \<longrightarrow> queue_ok d' \<and> keeps d d')"

lemma keeps_refl: "keeps d d"
  unfolding keeps_def by blast

lemma keeps_trans:
  assumes "keeps a b" "keeps b c"
  shows "keeps a c"
  using assms unfolding keeps_def by (intro conjI ballI) metis+

lemma advance_refl [simp]: "advance d d"
  by (simp add: advance_def keeps_refl)

lemma advance_trans: "advance a b \<Longrightarrow> (queue_ok a \<Longrightarrow> queue_ok b \<Longrightarrow> advance b c) \<Longrightarrow> advance a c"
  unfolding advance_def using keeps_trans by blast

lemma safeUpdate_keeps:
  assumes "safeUpdate d d'"
  shows "keeps d d'"
proof -
  have ops: "list_all2 (safeOp d') (D_ops d) (D_ops d')" and ots: "list_all2 (safeStep d) (D_ots d) (D_ots d')"
    using assms by (simp_all add: safeUpdate_def)
  show ?thesis unfolding keeps_def
  proof (intro conjI ballI)
    fix q assume "q \<in> set (D_ops d)"
    from all2_right [OF ops this]
    show "\<exists>p \<in> set (D_ops d'). O_ID p = O_ID q \<and> O_Kind p = O_Kind q \<and> O_Key p = O_Key q \<and> O_Hash p = O_Hash q \<and> (O_Cancel q \<longrightarrow> O_Cancel p)"
      unfolding safeOp_def by blast
  next
    fix w assume "w \<in> set (D_ots d)"
    from all2_right [OF ots this]
    show "\<exists>v \<in> set (D_ots d'). W_ID v = W_ID w \<and> W_Op v = W_Op w \<and> W_Target v = W_Target w
        \<and> (IsTerminalOperationStatus (W_Status w) \<longrightarrow> W_Status v = W_Status w)"
      unfolding safeStep_def by blast
  qed
qed

lemma safeUpdate_advance: "safeUpdate d d' \<Longrightarrow> advance d d'"
  by (simp add: advance_def safeUpdate_ok safeUpdate_keeps)

lemma updateOps_advance:
  "(\<And>q. queue_ok d \<Longrightarrow> q \<in> set (D_ops d) \<Longrightarrow> P q \<Longrightarrow> safeOp d q (f q)) \<Longrightarrow> advance d (updateOps P f d)"
  using safeUpdate_advance [OF updateOps_safe] advance_def by metis

lemma updateOTs_advance:
  "(\<And>w. queue_ok d \<Longrightarrow> w \<in> set (D_ots d) \<Longrightarrow> P w \<Longrightarrow> safeStep d w (f w)) \<Longrightarrow> advance d (updateOTs P f d)"
  using safeUpdate_advance [OF updateOTs_safe] advance_def by metis

lemma dependencyMet_mono: "set (D_ots d) \<subseteq> set (D_ots d') \<Longrightarrow> dependencyMet w d \<Longrightarrow> dependencyMet w d'"
  unfolding dependencyMet_iff by blast

lemma insertOp_advance:
  assumes ins: "insertOp q d = Inr d'" and st: "O_Status q \<in> opStatuses"
  shows "advance d d'"
proof -
  have d': "d' = d\<lparr>D_ops := D_ops d @ [q]\<rparr>" and fresh: "\<not> list_ex (\<lambda>p. O_ID p = O_ID q) (D_ops d)"
    and key: "O_Key q \<noteq> None \<longrightarrow> \<not> list_ex (\<lambda>p. O_Kind p = O_Kind q \<and> O_Key p = O_Key q) (D_ops d)"
    and co: "coalescedLive q \<longrightarrow> \<not> list_ex (\<lambda>p. O_Kind p = O_Kind q \<and> liveStatus (O_Status p)) (D_ops d)"
    using ins by (auto simp: insertOp_def coalescedLive_def split: if_splits)
  have "queue_ok d'" if ok: "queue_ok d"
  proof -
    have noStep: "W_Op w \<noteq> O_ID q" if "w \<in> set (D_ots d)" for w
      using ok fresh that unfolding queue_ok_def rows_ok_def list_ex_iff by metis
    have "indexes_ok d'"
      using ok fresh key co unfolding d' queue_ok_def indexes_ok_def coalescedLive_def
      by (simp add: uniqueIndex_append list_ex_iff) blast
    moreover have "rows_ok d'" using ok st unfolding d' queue_ok_def rows_ok_def by simp
    moreover have "order_ok d'"
      using ok noStep unfolding d' queue_ok_def order_ok_def by (simp add: dependencyMet_iff ball_Un)
    ultimately show ?thesis by (simp add: queue_ok_def)
  qed
  moreover have "keeps d d'" unfolding d' keeps_def by auto
  ultimately show ?thesis by (simp add: advance_def)
qed

lemma insertOT_advance:
  assumes ins: "insertOT w d = Inr d'" and st: "W_Status w \<in> opStatuses" "W_Status w \<noteq> OperationRunning"
    and op: "q \<in> set (D_ops d)" "O_ID q = W_Op w"
    and co: "O_Kind q \<in> set coalescedControlOperationKinds \<Longrightarrow> \<not> W_GovPending w \<and> liveStatus (O_Status q)"
  shows "advance d d'"
proof -
  have d': "d' = d\<lparr>D_ots := D_ots d @ [w]\<rparr>" and fresh: "\<not> list_ex (\<lambda>v. W_ID v = W_ID w) (D_ots d)"
    and place: "\<not> list_ex (\<lambda>v. W_Op v = W_Op w \<and> W_Target v = W_Target w) (D_ots d)"
    and own: "owning w \<longrightarrow> \<not> list_ex (\<lambda>v. owning v \<and> W_Target v = W_Target w) (D_ots d)"
    and dep: "\<forall>i. W_DependsOn w = Some i \<longrightarrow> list_ex (\<lambda>v. W_ID v = i) (D_ots d) \<and> \<not> list_ex (\<lambda>v. W_ID v = i \<and> W_Op v \<noteq> W_Op w) (D_ots d)"
    using ins by (auto simp: insertOT_def split: if_splits option.splits)
  have "queue_ok d'" if ok: "queue_ok d"
  proof -
    have "indexes_ok d'"
      using ok fresh place own unfolding d' queue_ok_def indexes_ok_def by (simp add: uniqueIndex_append list_ex_iff)
    moreover have "rows_ok d'"
      using ok st(1) op dep unfolding d' queue_ok_def rows_ok_def list_ex_iff by (simp add: ball_Un bex_Un) metis
    moreover have "order_ok d'"
    proof -
      have "dependencyMet v d'" if "v \<in> set (D_ots d')" "W_Status v = OperationRunning" for v
        using that ok st(2) dependencyMet_mono [of d d'] unfolding d' queue_ok_def order_ok_def by auto
      moreover have "p = q" if "p \<in> set (D_ops d)" "O_ID p = W_Op w" for p
        using op_unique [OF ok that(1) op(1)] that(2) op(2) by simp
      ultimately show ?thesis
        using ok co unfolding queue_ok_def order_ok_def d' by (simp add: ball_Un) metis
    qed
    ultimately show ?thesis by (simp add: queue_ok_def)
  qed
  moreover have "keeps d d'" unfolding d' keeps_def by auto
  ultimately show ?thesis by (simp add: advance_def)
qed

section \<open>Every method\<close>

text \<open>Statuses of the constant statements.\<close>

lemma status_facts [simp]:
  "OperationQueued \<in> opStatuses" "OperationRunning \<in> opStatuses" "OperationSucceeded \<in> opStatuses"
  "OperationFailed \<in> opStatuses" "OperationCancelled \<in> opStatuses" "OperationPartial \<in> opStatuses"
  "liveStatus OperationQueued" "liveStatus OperationRunning"
  "\<not> liveStatus OperationCancelled" "\<not> liveStatus OperationFailed" "\<not> liveStatus OperationSucceeded" "\<not> liveStatus OperationPartial"
  "\<not> IsTerminalOperationStatus OperationQueued" "\<not> IsTerminalOperationStatus OperationRunning"
  by (simp_all add: opStatuses_def liveStatus_def IsTerminalOperationStatus_def)

lemma terminal_status: "IsTerminalOperationStatus s \<Longrightarrow> s \<in> opStatuses \<and> \<not> liveStatus s \<and> s \<noteq> OperationRunning"
  by (auto simp: opStatuses_def liveStatus_def IsTerminalOperationStatus_def)

lemma insertOT_ops: "insertOT w d = Inr d' \<Longrightarrow> D_ops d' = D_ops d \<and> D_ots d' = D_ots d @ [w]"
  by (auto simp: insertOT_def split: if_splits)

lemma insertOp_ops: "insertOp q d = Inr d' \<Longrightarrow> D_ops d' = D_ops d @ [q] \<and> D_ots d' = D_ots d"
  by (auto simp: insertOp_def split: if_splits)

lemma governance_not_coalesced:
  "k = ''relay_config_apply'' \<or> k = ''policy_apply'' \<or> k = ''apply'' \<Longrightarrow> k \<notin> set coalescedControlOperationKinds"
  by (auto simp: coalescedControlOperationKinds_def)

lemma insertTargets_advance:
  assumes "insertTargets input opID rowIDs allIDs ts d = Inr d'"
    and "q \<in> set (D_ops d)" "O_ID q = opID" "O_Kind q = CI_Kind input" "liveStatus (O_Status q)"
  shows "advance d d'"
  using assms
proof (induction input opID rowIDs allIDs ts d rule: insertTargets.induct)
  case (2 input opID rowIDs allIDs t ts d)
  from "2.prems"(1) obtain request where r: "marshalJSONObject (map_of (CI_TargetRequests input) t) = Inr request"
    by (auto split: sum.splits)
  define w where "w = newStep input opID rowIDs allIDs t request"
  from "2.prems"(1) obtain d1 where ins: "insertOT w d = Inr d1" and rest: "insertTargets input opID rowIDs allIDs ts d1 = Inr d'"
    by (cases "insertOT w d") (simp_all add: r w_def split: sql_error.splits)
  have "advance d d1"
    by (rule insertOT_advance [OF ins _ _ "2.prems"(2)])
      (use "2.prems" governance_not_coalesced in \<open>auto simp: w_def newStep_def Let_def\<close>)
  moreover have "advance d1 d'"
    using "2.IH" [OF r ins [unfolded w_def] rest] "2.prems"(2-5) insertOT_ops [OF ins] by simp
  ultimately show ?case by (blast intro: advance_trans)
qed simp

lemma createOperationTx_cases:
  assumes "createOperationTx ce input locked snap d = Inr ((i, b), d')"
  shows "(b \<and> d' = d \<and> (\<exists>q. (keyedOperation input snap = Some q \<or> coalescedOperation input snap = Some q) \<and> i = O_ID q))
    \<or> (\<not> b \<and> i = ce_newID ce \<and> (\<exists>metadata d1. insertOp (newOperation ce input metadata) d = Inr d1
          \<and> insertTargets input (ce_newID ce) (ce_rowIDs ce) (uniqueIDs (CI_TargetIDs input)) (uniqueIDs (CI_TargetIDs input)) d1 = Inr d'))"
proof (cases "marshalJSONObject (CI_Metadata input)")
  case (Inr metadata)
  note tx = assms [unfolded createOperationTx_def, simplified Inr sum.case]
  show ?thesis
  proof (cases "keyedOperation input snap")
    case None
    show ?thesis
    proof (cases "coalescedOperation input snap")
      case None
      with tx \<open>keyedOperation input snap = None\<close> show ?thesis
        by (auto split: option.splits if_splits sum.splits sql_error.splits)
    qed (use tx None in auto)
  qed (use tx in \<open>auto split: if_splits\<close>)
qed (use assms in \<open>simp add: createOperationTx_def\<close>)

lemma createOperationTx_advance:
  assumes "createOperationTx ce input locked snap d = Inr ((i, b), d')"
  shows "advance d d'"
proof (cases b)
  case True
  with createOperationTx_cases [OF assms] show ?thesis by auto
next
  case False
  with createOperationTx_cases [OF assms] obtain metadata d1 where ins: "insertOp (newOperation ce input metadata) d = Inr d1"
    and loop: "insertTargets input (ce_newID ce) (ce_rowIDs ce) (uniqueIDs (CI_TargetIDs input)) (uniqueIDs (CI_TargetIDs input)) d1 = Inr d'"
    by auto
  have "advance d d1" using insertOp_advance [OF ins] by (simp add: newOperation_def)
  moreover have "advance d1 d'"
    by (rule insertTargets_advance [OF loop, of "newOperation ce input metadata"])
      (simp_all add: insertOp_ops [OF ins] newOperation_def)
  ultimately show ?thesis by (blast intro: advance_trans)
qed

lemma CreateOperation_advance: "advance d (snd (CreateOperation ce input snap d))"
  by (auto simp: CreateOperation_def dest: createOperationTx_advance split: sum.splits option.splits store_error.splits bool.splits)

lemma find_SomeD: "find P xs = Some x \<Longrightarrow> x \<in> set xs \<and> P x"
  by (induction xs) (auto split: if_splits)

lemma ClaimControlOperation_advance: "advance d (snd (ClaimControlOperation locked now d))"
proof (cases "fst (ClaimControlOperation locked now d) = Inl NotFound \<and> snd (ClaimControlOperation locked now d) = d")
  case False
  then obtain q where q: "find (\<lambda>q. O_Status q = OperationQueued \<and> \<not> O_Cancel q \<and> O_Kind q \<in> set controlOperationKinds
             \<and> \<not> hasTargets (O_ID q) d \<and> \<not> locked (O_ID q)) (D_ops d) = Some q"
    by (auto simp: ClaimControlOperation_def split: option.splits)
  then have m: "q \<in> set (D_ops d)" "O_Status q = OperationQueued" by (auto simp: find_Some_iff)
  have "advance d (updateOps (\<lambda>p. O_ID p = O_ID q) (\<lambda>p. p\<lparr>O_Status := OperationRunning, O_Started := orNow (O_Started p) now\<rparr>) d)"
    by (rule updateOps_advance) (use m op_unique in \<open>fastforce simp: safeOp_def\<close>)
  with q show ?thesis by (simp add: ClaimControlOperation_def Let_def)
qed simp

lemma noTargets_live: "\<not> hasTargets i d \<Longrightarrow> \<not> list_ex P (targetsOf i d)"
  by (auto simp: hasTargets_def targetsOf_def list_ex_iff)

lemma FinishControlOperation_advance: "advance d (snd (FinishControlOperation now i status result apiErr d))"
proof -
  have "advance d (updateOps (\<lambda>q. O_ID q = i \<and> O_Status q = OperationRunning \<and> \<not> hasTargets i d)
      (\<lambda>q. q\<lparr>O_Status := status, O_Metadata := m, O_ErrorCode := c, O_ErrorReason := r, O_Finished := Some now\<rparr>) d)"
    if "status = OperationSucceeded \<or> status = OperationFailed \<or> status = OperationCancelled" for m c r
    by (rule updateOps_advance) (use that noTargets_live in \<open>auto simp: safeOp_def\<close>)
  moreover have "advance d (updateOps (\<lambda>q. O_ID q = i \<and> O_Status q = OperationRunning \<and> \<not> hasTargets i d)
      (\<lambda>q. q\<lparr>O_Status := status, O_Metadata := m q, O_ErrorCode := c, O_ErrorReason := r, O_Finished := Some now\<rparr>) d)"
    if "status = OperationSucceeded \<or> status = OperationFailed \<or> status = OperationCancelled" for m c r
    by (rule updateOps_advance) (use that noTargets_live in \<open>auto simp: safeOp_def\<close>)
  ultimately show ?thesis by (auto simp: FinishControlOperation_def Let_def split: prod.splits)
qed

lemma RequeueRunningControlOperations_advance: "advance d (RequeueRunningControlOperations d)"
  unfolding RequeueRunningControlOperations_def by (rule updateOps_advance) (auto simp: safeOp_def)

lemma live_op:
  assumes "queue_ok d" "w \<in> set (targetsOf (O_ID q) d)" "q \<in> set (D_ops d)" "O_Kind q \<in> set coalescedControlOperationKinds"
    "liveStatus (W_Status w)"
  shows "liveStatus (O_Status q)"
  using assms by (auto simp: queue_ok_def order_ok_def targetsOf_def)

lemma targetsOf_updateOTs:
  assumes "\<And>w. W_Op (f w) = W_Op w"
  shows "targetsOf i (updateOTs P f d) = map (\<lambda>w. if P w then f w else w) (targetsOf i d)"
proof -
  have "(\<lambda>w. W_Op w = i) \<circ> (\<lambda>w. if P w then f w else w) = (\<lambda>w. W_Op w = i)" using assms by (auto simp: fun_eq_iff)
  then show ?thesis by (simp add: targetsOf_def updateOTs_def filter_map)
qed

lemma updateOTs_mem: "w \<in> set (D_ots d) \<Longrightarrow> P w \<Longrightarrow> f w \<in> set (D_ots (updateOTs P f d))"
  by (auto simp: updateOTs_def image_iff intro!: bexI [of _ w])

lemma setLive_advance:
  assumes "w \<in> set (targetsOf i d)" "liveStatus (W_Status w)" "\<And>q. P q \<Longrightarrow> O_ID q = i"
    "\<And>q. safeOp d q (f q) \<or> (O_ID (f q) = O_ID q \<and> O_Kind (f q) = O_Kind q \<and> O_Key (f q) = O_Key q \<and> O_Hash (f q) = O_Hash q \<and> (O_Cancel q \<longrightarrow> O_Cancel (f q)) \<and> liveStatus (O_Status (f q)))"
  shows "advance d (updateOps P f d)"
proof (rule updateOps_advance)
  fix q assume ok: "queue_ok d" and q: "q \<in> set (D_ops d)" "P q"
  show "safeOp d q (f q)"
    using assms(4) [of q] live_op [OF ok, of w q] assms(1-3) q valid_status by (fastforce simp: safeOp_def)
qed

lemma ClaimOperationTarget_cases:
  "ClaimOperationTarget locked now d = (Inl NotFound, d)
   \<or> (\<exists>w \<in> set (D_ots d). claimable w d \<and> \<not> locked (W_Op w) \<and> \<not> locked (W_ID w)
       \<and> snd (ClaimOperationTarget locked now d) =
           updateOps (\<lambda>q. O_ID q = W_Op w) (\<lambda>q. q\<lparr>O_Status := OperationRunning, O_Started := orNow (O_Started q) now\<rparr>)
             (updateOTs (\<lambda>v. W_ID v = W_ID w) (\<lambda>v. v\<lparr>W_Status := OperationRunning, W_Started := orNow (W_Started v) now\<rparr>) d)
       \<and> (\<forall>q v x. fst (ClaimOperationTarget locked now d) = Inr (q, v, x) \<longrightarrow> v = w\<lparr>W_Status := OperationRunning\<rparr>
            \<and> findOp (W_Op w) (snd (ClaimOperationTarget locked now d)) = Some q))"
proof (cases "find (\<lambda>w. \<not> locked (W_Op w) \<and> \<not> locked (W_ID w))
    (take 100 (sort_key W_Op (sort_key W_ID (filter (\<lambda>w. claimable w d) (D_ots d)))))")
  case (Some w)
  then have "w \<in> set (take 100 (sort_key W_Op (sort_key W_ID (filter (\<lambda>w. claimable w d) (D_ots d)))))"
    and free: "\<not> locked (W_Op w)" "\<not> locked (W_ID w)" by (blast dest: find_SomeD)+
  then have "w \<in> set (filter (\<lambda>w. claimable w d) (D_ots d))" by (metis in_set_takeD set_sort)
  with Some free show ?thesis by (auto simp: ClaimOperationTarget_def Let_def split: option.splits)
qed (simp add: ClaimOperationTarget_def)

lemma ClaimOperationTarget_advance: "advance d (snd (ClaimOperationTarget locked now d))"
  using ClaimOperationTarget_cases [of locked now d]
proof (elim disjE bexE conjE)
  fix w assume w: "w \<in> set (D_ots d)" "claimable w d"
    and eq: "snd (ClaimOperationTarget locked now d) =
           updateOps (\<lambda>q. O_ID q = W_Op w) (\<lambda>q. q\<lparr>O_Status := OperationRunning, O_Started := orNow (O_Started q) now\<rparr>)
             (updateOTs (\<lambda>v. W_ID v = W_ID w) (\<lambda>v. v\<lparr>W_Status := OperationRunning, W_Started := orNow (W_Started v) now\<rparr>) d)"
  let ?d = "updateOTs (\<lambda>v. W_ID v = W_ID w) (\<lambda>v. v\<lparr>W_Status := OperationRunning, W_Started := orNow (W_Started v) now\<rparr>) d"
  have q: "W_Status w = OperationQueued" "dependencyMet w d" using w(2) by (auto simp: claimable_def)
  have "advance d ?d"
  proof (rule updateOTs_advance)
    fix v assume "queue_ok d" "v \<in> set (D_ots d)" "W_ID v = W_ID w"
    then have "v = w" using w(1) step_unique by blast
    with q show "safeStep d v (v\<lparr>W_Status := OperationRunning, W_Started := orNow (W_Started v) now\<rparr>)" by (simp add: safeStep_def)
  qed
  moreover have "advance ?d (snd (ClaimOperationTarget locked now d))" unfolding eq
  proof (rule setLive_advance)
    show "w\<lparr>W_Status := OperationRunning, W_Started := orNow (W_Started w) now\<rparr> \<in> set (targetsOf (W_Op w) ?d)"
      using updateOTs_mem [of w d "\<lambda>v. W_ID v = W_ID w" "\<lambda>v. v\<lparr>W_Status := OperationRunning, W_Started := orNow (W_Started v) now\<rparr>"] w(1)
      by (simp add: targetsOf_def)
  qed (auto simp: safeOp_def)
  ultimately show ?thesis by (blast intro: advance_trans)
qed simp

lemma countStatus_simps:
  "countStatus s [] = 0" "countStatus s (w # ws) = (if W_Status w = s then 1 else 0) + countStatus s ws"
  by (simp_all add: countStatus_def)

lemma countStatus_zero: "countStatus s ws = 0 \<longleftrightarrow> (\<forall>w \<in> set ws. W_Status w \<noteq> s)"
  by (auto simp: countStatus_def filter_empty_conv)

lemma aggregateStatus_valid: "IsTerminalOperationStatus (aggregateStatus c ws)"
  by (simp add: aggregateStatus_def Let_def IsTerminalOperationStatus_def)

lemma recalculateOperation_advance: "advance d (recalculateOperation now i d)"
proof (cases "list_ex (\<lambda>w. liveStatus (W_Status w) \<or> W_GovPending w) (targetsOf i d)")
  case False
  then have none: "\<not> list_ex (\<lambda>w. liveStatus (W_Status w)) (targetsOf i d)" by (auto simp: list_ex_iff)
  show ?thesis unfolding recalculateOperation_def Let_def
    using False none aggregateStatus_valid terminal_status
    by (simp, intro updateOps_advance) (simp add: safeOp_def)
qed (simp add: recalculateOperation_def)

lemma clearPending_advance: "advance d (clearPending i d)"
  unfolding clearPending_def by (rule updateOTs_advance) (auto simp: safeStep_def)

lemma cancelSteps_advance:
  "advance d (updateOTs (\<lambda>w. P w \<and> W_Status w = OperationQueued) (\<lambda>w. w\<lparr>W_Status := OperationCancelled, W_Finished := Some now\<rparr>) d)"
  by (rule updateOTs_advance) (auto simp: safeStep_def)

lemma FinishOperationTarget_advance: "advance d (snd (FinishOperationTarget now i status result apiErr d))"
proof (cases "IsTerminalOperationStatus status \<and> (\<exists>w q. findOT i d = Some w \<and> findOp (W_Op w) d = Some q \<and> W_Status w = OperationRunning)")
  case True
  then obtain w q where f: "IsTerminalOperationStatus status" "findOT i d = Some w" "findOp (W_Op w) d = Some q" "W_Status w = OperationRunning"
    by blast
  define d1 where "d1 = updateOTs (\<lambda>v. W_ID v = i \<and> W_Status v = OperationRunning) (finishStep now status result apiErr) d"
  define d2 where "d2 = (if status \<noteq> OperationSucceeded then
      updateOTs (\<lambda>v. W_DependsOn v = Some i \<and> W_Status v = OperationQueued) (failDependant now) d1 else d1)"
  define d3 where "d3 = (if list_ex (\<lambda>v. terminalFailure (W_Status v)) (targetsOf (W_Op w) d2) then clearPending (W_Op w) d2 else d2)"
  have "advance d d1" unfolding d1_def
    by (rule updateOTs_advance) (use f(1) terminal_status in \<open>auto simp: safeStep_def finishStep_def Let_def split: prod.splits\<close>)
  moreover have "advance d1 d2" unfolding d2_def
    by (simp, intro impI updateOTs_advance) (auto simp: safeStep_def failDependant_def)
  moreover have "advance d2 d3" unfolding d3_def by (simp add: clearPending_advance)
  moreover have "advance d3 (recalculateOperation now (W_Op w) d3)" by (rule recalculateOperation_advance)
  moreover have "snd (FinishOperationTarget now i status result apiErr d) = recalculateOperation now (W_Op w) d3"
    using f by (simp add: FinishOperationTarget_def d3_def d2_def d1_def Let_def)
  ultimately show ?thesis by (metis advance_trans)
qed (auto simp: FinishOperationTarget_def split: option.splits)

lemma pending_not_coalesced:
  assumes "queue_ok d" "q \<in> set (D_ops d)" "list_ex W_GovPending (targetsOf (O_ID q) d)"
  shows "O_Kind q \<notin> set coalescedControlOperationKinds"
  using assms by (auto simp: queue_ok_def order_ok_def targetsOf_def list_ex_iff)

lemma failFinalization_advance:
  assumes "list_ex W_GovPending (targetsOf i d)"
  shows "advance d (updateOps (\<lambda>p. O_ID p = i \<and> O_Status p = OperationRunning)
      (\<lambda>p. p\<lparr>O_Status := OperationFailed, O_ErrorCode := c, O_ErrorReason := r, O_Finished := Some now\<rparr>) (clearPending i d))"
proof (cases "queue_ok d")
  case True
  have ops: "D_ops (clearPending i d) = D_ops d" by (simp add: clearPending_def updateOTs_def)
  show ?thesis
  proof (rule advance_trans [OF clearPending_advance updateOps_advance])
    fix q assume "q \<in> set (D_ops (clearPending i d))" "O_ID q = i \<and> O_Status q = OperationRunning"
    with assms pending_not_coalesced [OF True] ops
    show "safeOp (clearPending i d) q (q\<lparr>O_Status := OperationFailed, O_ErrorCode := c, O_ErrorReason := r, O_Finished := Some now\<rparr>)"
      by (auto simp: safeOp_def)
  qed
qed (simp add: advance_def)

lemma FailGovernanceFinalization_advance: "advance d (snd (FailGovernanceFinalization uv now i apiErr d))"
  by (auto simp: FailGovernanceFinalization_def Let_def failFinalization_advance split: option.splits)

lemma markGovernanceFinalizedTx_advance: "advance d (snd (markGovernanceFinalizedTx now i action d))"
proof -
  have "advance d (updateOps (\<lambda>q. O_ID q = i \<and> map_of (O_Metadata q) ''governanceFinalizedAction'' = None)
     (\<lambda>q. q\<lparr>O_Metadata := setField ''governanceFinalizedAction'' (JStr action) (O_Metadata q)\<rparr>) d)"
    by (rule updateOps_advance) (simp add: safeOp_def)
  from advance_trans [OF advance_trans [OF this clearPending_advance] recalculateOperation_advance]
  show ?thesis by (simp add: markGovernanceFinalizedTx_def Let_def)
qed

lemma UpdateOperationTargetRequest_advance: "advance d (snd (UpdateOperationTargetRequest i request d))"
proof -
  have "advance d (updateOTs (\<lambda>w. W_ID w = i \<and> W_Status w = OperationRunning) (\<lambda>w. w\<lparr>W_Request := b\<rparr>) d)" for b
    by (rule updateOTs_advance) (auto simp: safeStep_def)
  then show ?thesis by (auto simp: UpdateOperationTargetRequest_def Let_def split: sum.splits)
qed

lemma SetBridgeOperationMetadata_advance: "advance d (snd (SetBridgeOperationMetadata i b j d))"
proof -
  have "advance d (updateOTs (\<lambda>w. W_ID w = i \<and> W_Status w = OperationRunning) (\<lambda>w. w\<lparr>W_BridgeOp := b, W_SaltJID := j\<rparr>) d)"
    by (rule updateOTs_advance) (auto simp: safeStep_def)
  then show ?thesis by (auto simp: SetBridgeOperationMetadata_def Let_def)
qed

lemma CancelOperation_advance: "advance d (snd (CancelOperation now i d))"
proof (cases "\<exists>q. findOp i d = Some q \<and> liveStatus (O_Status q)")
  case True
  then obtain q where q: "findOp i d = Some q" "liveStatus (O_Status q)" by blast
  define d1 where "d1 = updateOps (\<lambda>p. O_ID p = i) (\<lambda>p. p\<lparr>O_Cancel := True\<rparr>) d"
  define d2 where "d2 = updateOTs (\<lambda>w. W_Op w = i \<and> W_Status w = OperationQueued)
      (\<lambda>w. w\<lparr>W_Status := OperationCancelled, W_Finished := Some now\<rparr>) d1"
  define d3 where "d3 = (if list_ex (\<lambda>w. W_Op w = i \<and> W_Status w = OperationQueued) (D_ots d1) then clearPending i d2 else d2)"
  have "advance d d1" unfolding d1_def by (rule updateOps_advance) (simp add: safeOp_def)
  from advance_trans [OF this cancelSteps_advance [of d1 "\<lambda>w. W_Op w = i" now]] have "advance d d2" by (simp add: d2_def)
  then have 3: "advance d d3" unfolding d3_def by (auto intro: advance_trans clearPending_advance)
  have "advance d3 (updateOps (\<lambda>p. O_ID p = i) (\<lambda>p. p\<lparr>O_Status := OperationCancelled, O_Finished := Some now\<rparr>) d3)"
    if "\<not> hasTargets i d3"
    by (rule updateOps_advance) (use noTargets_live [OF that] in \<open>auto simp: safeOp_def\<close>)
  with 3 recalculateOperation_advance [of d3 now i]
  have "advance d (if \<not> hasTargets i d3 then (if O_Status q = OperationQueued then
       updateOps (\<lambda>p. O_ID p = i) (\<lambda>p. p\<lparr>O_Status := OperationCancelled, O_Finished := Some now\<rparr>) d3 else d3)
     else recalculateOperation now i d3)"
    by (auto intro: advance_trans)
  moreover have "snd (CancelOperation now i d) = (if \<not> hasTargets i d3 then (if O_Status q = OperationQueued then
       updateOps (\<lambda>p. O_ID p = i) (\<lambda>p. p\<lparr>O_Status := OperationCancelled, O_Finished := Some now\<rparr>) d3 else d3)
     else recalculateOperation now i d3)"
    using q unfolding CancelOperation_def Let_def d3_def d2_def d1_def by simp
  ultimately show ?thesis by (simp only:)
qed (auto simp: CancelOperation_def split: option.splits)

lemma updateStep_advance:
  assumes "w \<in> set (D_ots d)" "safeStep d w (f w)"
  shows "advance d (updateOTs (\<lambda>v. W_ID v = W_ID w) f d)"
proof (rule updateOTs_advance)
  fix v assume "queue_ok d" "v \<in> set (D_ots d)" "W_ID v = W_ID w"
  then have "v = w" using assms(1) step_unique by blast
  with assms(2) show "safeStep d v (f v)" by simp
qed

lemma RequeueRunningOperationTarget_advance: "advance d (snd (RequeueRunningOperationTarget now i d))"
proof (cases "\<exists>w x q. findOT i d = Some w \<and> findTarget (W_Target w) d = Some x \<and> findOp (W_Op w) d = Some q \<and> W_Status w = OperationRunning")
  case True
  then obtain w x q where f: "findOT i d = Some w" "findTarget (W_Target w) d = Some x" "findOp (W_Op w) d = Some q"
    and run: "W_Status w = OperationRunning" by blast
  have w: "w \<in> set (D_ots d)" "W_ID w = i" using findOTD [OF f(1)] by auto
  let ?c = "\<lambda>v. v\<lparr>W_Status := OperationCancelled, W_PendingRerun := False, W_Finished := Some now\<rparr>"
  let ?f = "\<lambda>v. v\<lparr>W_Status := OperationQueued, W_Attempt := W_Attempt v + 1, W_Result := None, W_ErrorCode := '''',
                   W_ErrorReason := Lit '''', W_Started := None, W_Finished := None\<rparr>"
  let ?d1 = "updateOTs (\<lambda>v. W_ID v = i) ?f d"
  have "advance d (updateOTs (\<lambda>v. W_ID v = i) ?c d)"
    using updateStep_advance [OF w(1), of ?c] w run by (simp add: safeStep_def)
  then have 1: "advance d (recalculateOperation now (W_Op w) (updateOTs (\<lambda>v. W_ID v = i) ?c d))"
    by (rule advance_trans) (rule recalculateOperation_advance)
  have "advance d ?d1" using updateStep_advance [OF w(1), of ?f] w run by (simp add: safeStep_def)
  moreover have "?f w \<in> set (targetsOf (W_Op w) ?d1)"
    using updateOTs_mem [of w d "\<lambda>v. W_ID v = i" ?f] w by (simp add: targetsOf_def)
  then have "advance ?d1 (updateOps (\<lambda>p. O_ID p = W_Op w)
      (\<lambda>p. p\<lparr>O_Status := s, O_Finished := None, O_ErrorCode := '''', O_ErrorReason := Lit ''''\<rparr>) ?d1)"
    if "liveStatus s" for s
    by (rule setLive_advance) (use that in auto)
  ultimately have "advance d (updateOps (\<lambda>p. O_ID p = W_Op w)
      (\<lambda>p. p\<lparr>O_Status := s, O_Finished := None, O_ErrorCode := '''', O_ErrorReason := Lit ''''\<rparr>) ?d1)"
    if "liveStatus s" for s
    using that advance_trans by blast
  with 1 f run show ?thesis by (simp add: RequeueRunningOperationTarget_def Let_def)
qed (auto simp: RequeueRunningOperationTarget_def split: option.splits)

lemma reconcile_not_coalesced: "''reconcile'' \<notin> set coalescedControlOperationKinds"
  by (simp add: coalescedControlOperationKinds_def)

lemma insertReconcile_advance: "insertReconcile ids flag t probe d = Inr d' \<Longrightarrow> advance d d'"
proof -
  assume "insertReconcile ids flag t probe d = Inr d'"
  then obtain d1 where 1: "insertOp (reconcileOp (fst ids) flag) d = Inr d1"
    and 2: "insertOT (reconcileStep (snd ids) (fst ids) t probe) d1 = Inr d'"
    by (auto simp: insertReconcile_def split: sum.splits)
  have "advance d d1" using insertOp_advance [OF 1] by (simp add: reconcileOp_def)
  moreover have "advance d1 d'"
    by (rule insertOT_advance [OF 2, of "reconcileOp (fst ids) flag"])
      (simp_all add: insertOp_ops [OF 1] reconcileOp_def reconcileStep_def reconcile_not_coalesced)
  ultimately show ?thesis by (blast intro: advance_trans)
qed

lemma enqueueLoop_advance: "enqueueLoop ids ts n d = Inr (m, d') \<Longrightarrow> advance d d'"
proof (induction ids ts n d rule: enqueueLoop.induct)
  case (2 ids t probe ts n d)
  show ?case
  proof (cases "find (\<lambda>w. W_Target w = t \<and> liveStatus (W_Status w)) (D_ots d)")
    case None
    with "2.prems" obtain d1 where "insertReconcile (ids t) ''scheduled'' t probe d = Inr d1" "enqueueLoop ids ts (n + 1) d1 = Inr (m, d')"
      by (auto split: sum.splits)
    with 2 None insertReconcile_advance show ?thesis by (blast intro: advance_trans)
  next
    case (Some w)
    have "advance d (updateOTs (\<lambda>v. W_ID v = W_ID w) (\<lambda>v. v\<lparr>W_PendingRerun := True\<rparr>) d)"
      by (rule updateOTs_advance) (simp add: safeStep_def)
    with 2 Some show ?thesis by (auto intro: advance_trans)
  qed
qed simp

lemma EnqueueReconciles_advance: "advance d (snd (EnqueueReconciles ids now d))"
  by (auto simp: EnqueueReconciles_def dest: enqueueLoop_advance split: sum.splits)

lemma EnqueuePendingRerun_advance: "advance d (snd (EnqueuePendingRerun ids now i d))"
proof -
  have "advance d (updateOTs (\<lambda>v. W_ID v = i) (\<lambda>v. v\<lparr>W_PendingRerun := False\<rparr>) d)"
    by (rule updateOTs_advance) (simp add: safeStep_def)
  then show ?thesis
    by (auto simp: EnqueuePendingRerun_def Let_def intro: advance_trans insertReconcile_advance split: option.splits sum.splits)
qed

lemma retryProfileApplyTargets_advance: "advance d (snd (retryProfileApplyTargets ce now i key d))"
proof -
  have "advance d d3" if 1: "insertOp q d = Inr d1" and q: "O_ID q = n" "O_Kind q = ''apply''" "O_Status q = OperationQueued"
    and 2: "insertOT (retryRow now a n None skill) d1 = Inr d2" and 3: "insertOT (retryRow now b n (Some a) rel) d2 = Inr d3"
    for q n d1 d2 d3 a b skill rel
  proof -
    have "advance d d1" using insertOp_advance [OF 1] q by simp
    moreover have "advance d1 d2"
      by (rule insertOT_advance [OF 2, of q])
        (use insertOp_ops [OF 1] q governance_not_coalesced in \<open>auto simp: retryRow_def Let_def\<close>)
    moreover have "advance d2 d3"
      by (rule insertOT_advance [OF 3, of q])
        (use insertOp_ops [OF 1] insertOT_ops [OF 2] q governance_not_coalesced in \<open>auto simp: retryRow_def Let_def\<close>)
    ultimately show ?thesis by (blast intro: advance_trans)
  qed
  note inserts = this
  show ?thesis
    by (auto simp: retryProfileApplyTargets_def Let_def split: option.splits sum.splits intro: inserts)
qed

lemma RetryFailedTargets_advance: "advance d (snd (RetryFailedTargets ce now i key d))"
  by (auto simp: RetryFailedTargets_def retryProfileApplyTargets_advance CreateOperation_advance split: option.splits)

section \<open>Reachable databases\<close>

inductive queueStep :: "db \<Rightarrow> db \<Rightarrow> bool" where
  create: "queueStep d (snd (CreateOperation ce input snap d))"
| claimControl: "queueStep d (snd (ClaimControlOperation locked now d))"
| finishControl: "queueStep d (snd (FinishControlOperation now i status result apiErr d))"
| requeueControl: "queueStep d (RequeueRunningControlOperations d)"
| claim: "queueStep d (snd (ClaimOperationTarget locked now d))"
| finish: "queueStep d (snd (FinishOperationTarget now i status result apiErr d))"
| failFinalization: "queueStep d (snd (FailGovernanceFinalization uv now i apiErr d))"
| markFinalized: "queueStep d (snd (markGovernanceFinalizedTx now i action d))"
| updateRequest: "queueStep d (snd (UpdateOperationTargetRequest i request d))"
| setBridge: "queueStep d (snd (SetBridgeOperationMetadata i b j d))"
| cancel: "queueStep d (snd (CancelOperation now i d))"
| requeue: "queueStep d (snd (RequeueRunningOperationTarget now i d))"
| reconciles: "queueStep d (snd (EnqueueReconciles ids now d))"
| rerun: "queueStep d (snd (EnqueuePendingRerun pair now i d))"
| retry: "queueStep d (snd (RetryFailedTargets ce now i key d))"

lemmas method_advance =
  CreateOperation_advance ClaimControlOperation_advance FinishControlOperation_advance RequeueRunningControlOperations_advance
  ClaimOperationTarget_advance FinishOperationTarget_advance FailGovernanceFinalization_advance markGovernanceFinalizedTx_advance
  UpdateOperationTargetRequest_advance SetBridgeOperationMetadata_advance CancelOperation_advance
  RequeueRunningOperationTarget_advance EnqueueReconciles_advance EnqueuePendingRerun_advance RetryFailedTargets_advance

lemma queueStep_advance: "queueStep d d' \<Longrightarrow> advance d d'"
  by (induction rule: queueStep.induct) (rule method_advance)+

lemma queueSteps_advance: "queueStep\<^sup>*\<^sup>* d d' \<Longrightarrow> advance d d'"
  by (induction rule: rtranclp_induct) (auto intro: advance_trans queueStep_advance)

lemma reachable_ok: "queueStep\<^sup>*\<^sup>* d d' \<Longrightarrow> queue_ok d \<Longrightarrow> queue_ok d'"
  using queueSteps_advance by (simp add: advance_def)

lemma reachable_op:
  assumes "queueStep\<^sup>*\<^sup>* d d'" "queue_ok d" "findOp i d = Some q"
  obtains p where "findOp i d' = Some p" "O_Kind p = O_Kind q" "O_Key p = O_Key q" "O_Hash p = O_Hash q" "O_Cancel q \<Longrightarrow> O_Cancel p"
proof -
  have "keeps d d'" using queueSteps_advance assms(1,2) by (simp add: advance_def)
  then obtain p where "p \<in> set (D_ops d')" "O_ID p = i" "O_Kind p = O_Kind q" "O_Key p = O_Key q" "O_Hash p = O_Hash q" "O_Cancel q \<Longrightarrow> O_Cancel p"
    using findOpD [OF assms(3)] unfolding keeps_def by metis
  with findOp_mem [OF reachable_ok [OF assms(1,2)]] that show thesis by metis
qed

lemma reachable_step:
  assumes "queueStep\<^sup>*\<^sup>* d d'" "queue_ok d" "findOT i d = Some w"
  obtains v where "findOT i d' = Some v" "W_Op v = W_Op w" "W_Target v = W_Target w"
    "IsTerminalOperationStatus (W_Status w) \<Longrightarrow> W_Status v = W_Status w"
proof -
  have "keeps d d'" using queueSteps_advance assms(1,2) by (simp add: advance_def)
  then obtain v where "v \<in> set (D_ots d')" "W_ID v = i" "W_Op v = W_Op w" "W_Target v = W_Target w"
      "IsTerminalOperationStatus (W_Status w) \<Longrightarrow> W_Status v = W_Status w"
    using findOTD [OF assms(3)] unfolding keeps_def by metis
  with findOT_mem [OF reachable_ok [OF assms(1,2)]] that show thesis by metis
qed

definition exampleTarget :: "string \<Rightarrow> target_row" where
  "exampleTarget i = \<lparr>X_ID = i, X_Runtime = RuntimeClaude, X_Archived = False, X_Desired = None\<rparr>"

definition exampleQueue :: db where
  "exampleQueue = \<lparr>D_ops = [], D_ots = [], D_targets = [exampleTarget ''t1'', exampleTarget ''t2''], D_published = []\<rparr>"

definition exampleCreate :: "string \<Rightarrow> create_env" where
  "exampleCreate i = \<lparr>ce_enc = (\<lambda>j. case j of JObj fs \<Rightarrow> concat (map fst fs) | _ \<Rightarrow> ''''), ce_sha = id,
     ce_uuid = (\<lambda>s. s \<noteq> ''''), ce_newID = i, ce_rowIDs = (\<lambda>t. i @ t)\<rparr>"

definition exampleInput :: "string \<Rightarrow> string \<Rightarrow> string list \<Rightarrow> CreateOperationInput" where
  "exampleInput kind key targets = \<lparr>CI_Kind = kind, CI_SourceID = '''', CI_IdempotencyKey = key, CI_Request = JNull,
     CI_Metadata = None, CI_TargetIDs = targets, CI_TargetRequests = [], CI_TargetDependencies = []\<rparr>"

definition exampleCreated :: db where
  "exampleCreated = snd (CreateOperation (exampleCreate ''op'') (exampleInput ''scan'' ''k'' [''t1'', ''t2'']) exampleQueue exampleQueue)"

definition exampleClaimed :: db where
  "exampleClaimed = snd (ClaimOperationTarget (\<lambda>_. False) 5 exampleCreated)"

lemma exampleQueue_ok: "queue_ok exampleQueue"
  by (simp add: queue_ok_def indexes_ok_def rows_ok_def order_ok_def exampleQueue_def uniqueIndex_def)

lemma exampleQueue_claimed: "queueStep\<^sup>*\<^sup>* exampleQueue exampleClaimed"
  unfolding exampleClaimed_def exampleCreated_def
  by (rule rtranclp.rtrancl_into_rtrancl [OF r_into_rtranclp]) (rule queueStep.intros)+

lemma exampleClaimed_eq: "map (\<lambda>w. (W_ID w, W_Status w)) (D_ots exampleClaimed) = [(''opt1'', ''running''), (''opt2'', ''queued'')]"
  by code_simp

end
