(* ===== verification/Queue_Properties.thy ===== *)
theory Queue_Properties
  imports Operation_Queue
begin

text \<open>
  The properties of the operation queue: what holds in every reachable database, what an operation's status means,
  idempotent creation, and three behaviours in which the queue stops: a step or a control operation that is requeued
  after a cancellation, and the scheduler while a governance finalization is pending.
\<close>

section \<open>Properties\<close>

lemma ClaimOperationTarget_result:
  assumes "fst (ClaimOperationTarget locked now d) = Inr (q, v, x)"
  shows "\<exists>w \<in> set (D_ots d). claimable w d \<and> v = w\<lparr>W_Status := OperationRunning\<rparr>"
proof -
  have "ClaimOperationTarget locked now d \<noteq> (Inl NotFound, d)" using assms by auto
  with ClaimOperationTarget_cases [of locked now d] assms show ?thesis by blast
qed

text \<open>
  C13. The schema's constraints hold in every database that the methods can reach from one that meets them: unique
  identifiers, keys and coalesced operations, one owning step per target, valid statuses, dependencies inside one
  operation, no running step before its dependency has succeeded, no finished coalesced operation with a live step.
\<close>

theorem queue_invariant:
  assumes "queue_ok d" "queueStep\<^sup>*\<^sup>* d d'"
  shows "queue_ok d'"
  using reachable_ok assms by blast

theorem queue_invariant_witness:
  "queue_ok exampleClaimed \<and> map (\<lambda>w. (W_ID w, W_Status w)) (D_ots exampleClaimed) = [(''opt1'', ''running''), (''opt2'', ''queued'')]"
  using queue_invariant [OF exampleQueue_ok exampleQueue_claimed] exampleClaimed_eq by simp

text \<open>
  C12. A step that runs is the only step of its target that runs, and the step it depends on has succeeded and belongs
  to the same operation.
\<close>

theorem running_step_exclusive:
  assumes "queue_ok d" "queueStep\<^sup>*\<^sup>* d d'" "findOT i d' = Some w" "W_Status w = OperationRunning"
  shows "(\<forall>v \<in> set (D_ots d'). W_Target v = W_Target w \<and> W_Status v = OperationRunning \<longrightarrow> v = w)
    \<and> (\<forall>j. W_DependsOn w = Some j \<longrightarrow> (\<exists>v. findOT j d' = Some v \<and> W_Status v = OperationSucceeded \<and> W_Op v = W_Op w))"
proof (intro conjI ballI allI impI)
  have ok: "queue_ok d'" using reachable_ok assms(1,2) by blast
  have w: "w \<in> set (D_ots d')" using findOTD [OF assms(3)] by simp
  fix v assume v: "v \<in> set (D_ots d')" and t: "W_Target v = W_Target w \<and> W_Status v = OperationRunning"
  have "uniqueIndex owning W_Target (D_ots d')" using ok by (simp add: queue_ok_def indexes_ok_def)
  from uniqueIndex_eq [OF this v w] t assms(4) show "v = w" by (simp add: owning_def)
next
  have ok: "queue_ok d'" using reachable_ok assms(1,2) by blast
  have w: "w \<in> set (D_ots d')" using findOTD [OF assms(3)] by simp
  fix j assume j: "W_DependsOn w = Some j"
  have "dependencyMet w d'" using ok w assms(4) by (simp add: queue_ok_def order_ok_def)
  then obtain v where v: "v \<in> set (D_ots d')" "W_ID v = j" "W_Status v = OperationSucceeded"
    using j unfolding dependencyMet_iff by blast
  obtain u where u: "u \<in> set (D_ots d')" "W_ID u = j" "W_Op u = W_Op w"
    using ok w j unfolding queue_ok_def rows_ok_def by blast
  have "u = v" using step_unique [OF ok u(1) v(1)] u(2) v(2) by simp
  with u v findOT_mem [OF ok v(1)]
  show "\<exists>v. findOT j d' = Some v \<and> W_Status v = OperationSucceeded \<and> W_Op v = W_Op w" by auto
qed

theorem running_step_exclusive_witness:
  "findOT ''opt1'' exampleClaimed = Some (the (findOT ''opt1'' exampleClaimed))
    \<and> \<not> (\<exists>v. v \<in> set (D_ots exampleClaimed) \<and> W_Target v = W_Target (the (findOT ''opt1'' exampleClaimed))
          \<and> W_Status v = OperationRunning \<and> v \<noteq> the (findOT ''opt1'' exampleClaimed))"
proof -
  have f: "findOT ''opt1'' exampleClaimed = Some (the (findOT ''opt1'' exampleClaimed))
    \<and> W_Status (the (findOT ''opt1'' exampleClaimed)) = OperationRunning" by code_simp
  from conjunct1 [OF running_step_exclusive [OF exampleQueue_ok exampleQueue_claimed conjunct1 [OF f] conjunct2 [OF f]]] f
  show ?thesis by blast
qed

text \<open>
  A step that has reached a terminal status stays where it is with that status, whatever methods run afterwards:
  it is never claimed, requeued, cancelled or finished a second time.
\<close>

theorem terminal_steps_final:
  assumes "queue_ok d" "queueStep\<^sup>*\<^sup>* d d'" "findOT i d = Some w" "IsTerminalOperationStatus (W_Status w)"
  shows "(\<exists>v. findOT i d' = Some v \<and> W_Status v = W_Status w \<and> W_Op v = W_Op w \<and> W_Target v = W_Target w)
    \<and> (\<forall>locked now q v x. fst (ClaimOperationTarget locked now d') = Inr (q, v, x) \<longrightarrow> W_ID v \<noteq> i)"
proof -
  obtain v where v: "findOT i d' = Some v" "W_Status v = W_Status w" "W_Op v = W_Op w" "W_Target v = W_Target w"
    using reachable_step [OF assms(2,1,3)] assms(4) by metis
  have ok: "queue_ok d'" using reachable_ok assms(1,2) by blast
  have "W_ID u \<noteq> i" if c: "fst (ClaimOperationTarget locked now d') = Inr (q, u, x)" for locked now q u x
  proof
    assume i: "W_ID u = i"
    obtain y where y: "y \<in> set (D_ots d')" "claimable y d'" "u = y\<lparr>W_Status := OperationRunning\<rparr>"
      using ClaimOperationTarget_result [OF c] by blast
    have "W_ID y = W_ID v" using i y(3) findOTD [OF v(1)] by simp
    then have "y = v" using step_unique [OF ok y(1)] findOTD [OF v(1)] by blast
    with y(2) v(2) assms(4) show False by (simp add: claimable_def)
  qed
  with v show ?thesis by blast
qed

definition exampleFinished :: db where
  "exampleFinished = snd (FinishOperationTarget 7 ''opt1'' OperationFailed JNull None exampleClaimed)"

theorem terminal_steps_final_witness:
  "(\<exists>v. findOT ''opt1'' (snd (CancelOperation 9 ''op'' exampleFinished)) = Some v \<and> W_Status v = OperationFailed)"
proof -
  have f: "findOT ''opt1'' exampleFinished = Some (the (findOT ''opt1'' exampleFinished))
    \<and> W_Status (the (findOT ''opt1'' exampleFinished)) = OperationFailed" by code_simp
  have ok: "queue_ok exampleFinished"
    using reachable_ok [OF rtranclp.rtrancl_into_rtrancl [OF exampleQueue_claimed queueStep.finish] exampleQueue_ok]
    by (simp add: exampleFinished_def)
  have t: "IsTerminalOperationStatus (W_Status (the (findOT ''opt1'' exampleFinished)))"
    using f by (simp add: IsTerminalOperationStatus_def)
  from conjunct1 [OF terminal_steps_final [OF ok r_into_rtranclp [where r = queueStep, OF queueStep.cancel] conjunct1 [OF f] t]] f
  show ?thesis by auto
qed

text \<open>
  C14. What \<open>recalculateOperation\<close> makes of an operation once no step is live or waits for a finalization:
  succeeded, cancelled or failed when the steps say so without exception, partial otherwise; before that nothing changes.
\<close>

lemma countStatus_pos: "0 < countStatus s ws \<longleftrightarrow> (\<exists>w \<in> set ws. W_Status w = s)"
  using countStatus_zero [of s ws] by auto

lemma targetsOf_terminal:
  assumes "queue_ok d" "w \<in> set (targetsOf i d)" "\<not> liveStatus (W_Status w)"
  shows "W_Status w \<in> {OperationSucceeded, OperationPartial, OperationFailed, OperationCancelled}"
  using assms by (auto simp: queue_ok_def rows_ok_def targetsOf_def opStatuses_def liveStatus_def)

lemma all_statuses:
  assumes "\<forall>w \<in> set ws. W_Status w \<in> U"
  shows "(\<forall>w \<in> set ws. W_Status w \<in> T) \<longleftrightarrow> (\<forall>s \<in> U. s \<notin> T \<longrightarrow> \<not> (\<exists>w \<in> set ws. W_Status w = s))"
  using assms by auto

lemma aggregateStatus_outcome:
  assumes tm: "\<forall>w \<in> set ws. W_Status w \<in> {OperationSucceeded, OperationPartial, OperationFailed, OperationCancelled}"
  shows "aggregateStatus c ws = OperationSucceeded \<longleftrightarrow> (\<forall>w \<in> set ws. W_Status w = OperationSucceeded) \<and> (ws = [] \<longrightarrow> \<not> c)"
    and "aggregateStatus c ws = OperationCancelled \<longleftrightarrow> (\<forall>w \<in> set ws. W_Status w = OperationCancelled) \<and> (ws = [] \<longrightarrow> c)"
    and "aggregateStatus c ws = OperationFailed \<longleftrightarrow> (\<exists>w \<in> set ws. W_Status w = OperationFailed)
           \<and> (\<forall>w \<in> set ws. W_Status w = OperationFailed \<or> W_Status w = OperationCancelled)"
proof -
  define has where "has s = (\<exists>w \<in> set ws. W_Status w = s)" for s
  have none: "countStatus OperationQueued ws = 0" "countStatus OperationRunning ws = 0"
    using tm by (auto simp: countStatus_zero)
  have h: "(0 < countStatus s ws) = has s" "(countStatus s ws = 0) = (\<not> has s)" for s
    using countStatus_pos [of s ws] by (auto simp: has_def)
  note alls = all_statuses [OF tm, folded has_def]
  have S: "(\<forall>w \<in> set ws. W_Status w = OperationSucceeded) \<longleftrightarrow> \<not> has OperationPartial \<and> \<not> has OperationFailed \<and> \<not> has OperationCancelled"
    using alls [of "{OperationSucceeded}"] by simp
  have C: "(\<forall>w \<in> set ws. W_Status w = OperationCancelled) \<longleftrightarrow> \<not> has OperationSucceeded \<and> \<not> has OperationPartial \<and> \<not> has OperationFailed"
    using alls [of "{OperationCancelled}"] by simp
  have F: "(\<forall>w \<in> set ws. W_Status w = OperationFailed \<or> W_Status w = OperationCancelled) \<longleftrightarrow> \<not> has OperationSucceeded \<and> \<not> has OperationPartial"
    using alls [of "{OperationFailed, OperationCancelled}"] by simp
  have E: "ws = [] \<longleftrightarrow> \<not> has OperationSucceeded \<and> \<not> has OperationPartial \<and> \<not> has OperationFailed \<and> \<not> has OperationCancelled"
    using alls [of "{}"] by simp
  note eq = aggregateStatus_def Let_def none h
  show "aggregateStatus c ws = OperationSucceeded \<longleftrightarrow> (\<forall>w \<in> set ws. W_Status w = OperationSucceeded) \<and> (ws = [] \<longrightarrow> \<not> c)"
    unfolding S E eq by (simp add: h)
  show "aggregateStatus c ws = OperationCancelled \<longleftrightarrow> (\<forall>w \<in> set ws. W_Status w = OperationCancelled) \<and> (ws = [] \<longrightarrow> c)"
    unfolding C E eq by (simp add: h)
  show "aggregateStatus c ws = OperationFailed \<longleftrightarrow> (\<exists>w \<in> set ws. W_Status w = OperationFailed)
           \<and> (\<forall>w \<in> set ws. W_Status w = OperationFailed \<or> W_Status w = OperationCancelled)"
    unfolding F eq has_def [symmetric] by (simp add: h)
qed

theorem operation_outcome:
  assumes "queue_ok d" "findOp i d = Some q"
  shows "if \<exists>w \<in> set (targetsOf i d). liveStatus (W_Status w) \<or> W_GovPending w then recalculateOperation now i d = d
    else \<exists>p. findOp i (recalculateOperation now i d) = Some p \<and> D_ots (recalculateOperation now i d) = D_ots d
      \<and> O_Finished p = Some now
      \<and> (O_Status p = OperationSucceeded \<longleftrightarrow>
           (\<forall>w \<in> set (targetsOf i d). W_Status w = OperationSucceeded) \<and> (targetsOf i d = [] \<longrightarrow> \<not> O_Cancel q))
      \<and> (O_Status p = OperationCancelled \<longleftrightarrow>
           (\<forall>w \<in> set (targetsOf i d). W_Status w = OperationCancelled) \<and> (targetsOf i d = [] \<longrightarrow> O_Cancel q))
      \<and> (O_Status p = OperationFailed \<longleftrightarrow>
           (\<exists>w \<in> set (targetsOf i d). W_Status w = OperationFailed)
           \<and> (\<forall>w \<in> set (targetsOf i d). W_Status w = OperationFailed \<or> W_Status w = OperationCancelled))
      \<and> O_Status p \<in> {OperationSucceeded, OperationCancelled, OperationFailed, OperationPartial}"
proof (cases "\<exists>w \<in> set (targetsOf i d). liveStatus (W_Status w) \<or> W_GovPending w")
  case True
  then show ?thesis by (auto simp: recalculateOperation_def list_ex_iff)
next
  case False
  let ?ws = "targetsOf i d"
  let ?s = "aggregateStatus (O_Cancel q) ?ws"
  have tm: "\<forall>w \<in> set ?ws. W_Status w \<in> {OperationSucceeded, OperationPartial, OperationFailed, OperationCancelled}"
    using False targetsOf_terminal [OF assms(1)] by blast
  define r where "r = recalculateOperation now i d"
  have r: "r = updateOps (\<lambda>p. O_ID p = i) (\<lambda>p. p\<lparr>O_Status := aggregateStatus (O_Cancel p) ?ws, O_Finished := Some now\<rparr>) d"
    using False by (simp add: r_def recalculateOperation_def list_ex_iff)
  have "q \<in> set (D_ops d)" "O_ID q = i" using findOpD [OF assms(2)] by auto
  then have "q\<lparr>O_Status := ?s, O_Finished := Some now\<rparr> \<in> set (D_ops r)"
    by (auto simp: r updateOps_def image_iff intro!: bexI [of _ q])
  moreover have "queue_ok r" using recalculateOperation_advance [of d now i] assms(1) by (simp add: advance_def r_def)
  ultimately have f: "findOp i r = Some (q\<lparr>O_Status := ?s, O_Finished := Some now\<rparr>)"
    using findOp_mem [of r "q\<lparr>O_Status := ?s, O_Finished := Some now\<rparr>"] \<open>O_ID q = i\<close> by simp
  have ots: "D_ots r = D_ots d" by (simp add: r updateOps_def)
  note SCF = aggregateStatus_outcome [OF tm, of "O_Cancel q"]
  have V: "?s \<in> {OperationSucceeded, OperationCancelled, OperationFailed, OperationPartial}"
    using aggregateStatus_valid by (auto simp: IsTerminalOperationStatus_def)
  let ?p = "q\<lparr>O_Status := ?s, O_Finished := Some now\<rparr>"
  show ?thesis unfolding if_not_P [OF False] r_def [symmetric]
  proof (rule exI [of _ ?p], intro conjI)
    show "O_Status ?p = OperationSucceeded \<longleftrightarrow> (\<forall>w \<in> set ?ws. W_Status w = OperationSucceeded) \<and> (?ws = [] \<longrightarrow> \<not> O_Cancel q)"
      using SCF(1) by simp
    show "O_Status ?p = OperationCancelled \<longleftrightarrow> (\<forall>w \<in> set ?ws. W_Status w = OperationCancelled) \<and> (?ws = [] \<longrightarrow> O_Cancel q)"
      using SCF(2) by simp
    show "O_Status ?p = OperationFailed \<longleftrightarrow> (\<exists>w \<in> set ?ws. W_Status w = OperationFailed)
           \<and> (\<forall>w \<in> set ?ws. W_Status w = OperationFailed \<or> W_Status w = OperationCancelled)"
      using SCF(3) by simp
  qed (use f ots V in simp_all)
qed

definition exampleDone :: db where
  "exampleDone = snd (FinishOperationTarget 8 ''opt2'' OperationSucceeded JNull None
     (snd (ClaimOperationTarget (\<lambda>_. False) 7 exampleFinished)))"

theorem operation_outcome_witness:
  "\<exists>p. findOp ''op'' (recalculateOperation 9 ''op'' exampleDone) = Some p \<and> O_Finished p = Some 9 \<and> O_Status p \<noteq> OperationSucceeded
    \<and> O_Status p \<noteq> OperationFailed"
proof -
  have f: "findOp ''op'' exampleDone = Some (the (findOp ''op'' exampleDone))" by code_simp
  have ok: "queue_ok exampleDone"
    unfolding exampleDone_def exampleFinished_def
    by (rule reachable_ok [OF _ exampleQueue_ok])
      (rule rtranclp.rtrancl_into_rtrancl [OF rtranclp.rtrancl_into_rtrancl [OF rtranclp.rtrancl_into_rtrancl [OF exampleQueue_claimed]]];
       rule queueStep.intros)
  have no: "\<not> (\<exists>w \<in> set (targetsOf ''op'' exampleDone). liveStatus (W_Status w) \<or> W_GovPending w)"
    and s: "\<not> (\<forall>w \<in> set (targetsOf ''op'' exampleDone). W_Status w = OperationSucceeded)"
    and c: "\<not> (\<forall>w \<in> set (targetsOf ''op'' exampleDone). W_Status w = OperationFailed \<or> W_Status w = OperationCancelled)"
    by code_simp+
  from operation_outcome [OF ok f, of 9, unfolded if_not_P [OF no]] s c show ?thesis by auto
qed

text \<open>
  Idempotent creation. Once \<open>CreateOperation\<close> has answered a keyed request, the same request under the same key
  returns the same operation and writes nothing, after any number of other calls and also when the first call read the
  tables before other writers; a different request under that key is refused. The kinds that coalesce are excepted:
  they may answer with a live operation of another key.
\<close>

lemma keyedOperation_find:
  assumes ok: "queue_ok d" and q: "q \<in> set (D_ops d)" "O_Kind q = CI_Kind input" "O_Key q = Some (CI_IdempotencyKey input)"
    and key: "CI_IdempotencyKey input \<noteq> ''''"
  shows "keyedOperation input d = Some q"
proof (cases "keyedOperation input d")
  case None
  then show ?thesis using q key by (auto simp: keyedOperation_def find_None_iff)
next
  case (Some p)
  then have p: "p \<in> set (D_ops d)" "O_Kind p = O_Kind q" "O_Key p = O_Key q"
    using q key find_SomeD unfolding keyedOperation_def by (fastforce split: if_splits)+
  have "uniqueIndex (\<lambda>q. O_Key q \<noteq> None) (\<lambda>q. (O_Kind q, O_Key q)) (D_ops d)" using ok by (simp add: queue_ok_def indexes_ok_def)
  from uniqueIndex_eq [OF this p(1) q(1)] p q have "p = q" by simp
  with Some show ?thesis by simp
qed

lemma insertTargets_ops: "insertTargets input opID rowIDs allIDs ts d = Inr d' \<Longrightarrow> D_ops d' = D_ops d"
  by (induction input opID rowIDs allIDs ts d rule: insertTargets.induct)
    (auto dest: insertOT_ops split: sum.splits sql_error.splits)

lemma insertTargets_race: "insertTargets input opID rowIDs allIDs ts d \<noteq> Inl CoalescedRace"
  by (induction input opID rowIDs allIDs ts d rule: insertTargets.induct) (auto split: sum.splits sql_error.splits)

lemma CreateOperation_stored:
  assumes ok: "queue_ok snap" and seen: "queueStep\<^sup>*\<^sup>* snap d"
    and key: "CI_IdempotencyKey input \<noteq> ''''" and kind: "CI_Kind input \<notin> set coalescedControlOperationKinds"
    and run: "CreateOperation ce input snap d = (Inr q, d1)"
  shows "findOp (O_ID q) d1 = Some q \<and> O_Kind q = CI_Kind input \<and> O_Key q = Some (CI_IdempotencyKey input) \<and> O_Hash q = Some (inputHash ce input)"
proof -
  have okd: "queue_ok d" using reachable_ok [OF seen ok] .
  have race: "createOperationTx ce input False snap d \<noteq> Inl CoalescedRace"
    using kind by (auto simp: createOperationTx_def insertTargets_race lockActiveTargets_def Let_def split: sum.splits option.splits if_splits sql_error.splits)
  then obtain i b d2 where tx: "createOperationTx ce input False snap d = Inr ((i, b), d2)"
    using run by (auto simp: CreateOperation_def split: sum.splits store_error.splits prod.splits)
  have f: "findOp i d1 = Some q" "d1 = (if b then d else d2)"
    using run tx by (auto simp: CreateOperation_def Store_Operation_def split: option.splits bool.splits)
  have co: "coalescedOperation input snap = None" using kind by (simp add: coalescedOperation_def)
  show ?thesis
  proof (cases b)
    case True
    then obtain p where p: "keyedOperation input snap = Some p" "i = O_ID p"
      using createOperationTx_cases [OF tx] co by auto
    have hash: "O_Hash p = Some (inputHash ce input)"
      using tx p(1) by (auto simp: createOperationTx_def split: sum.splits if_splits)
    have m: "p \<in> set (D_ops snap)" "O_Kind p = CI_Kind input" "O_Key p = Some (CI_IdempotencyKey input)"
      using p(1) key find_SomeD unfolding keyedOperation_def by (fastforce split: if_splits)+
    obtain r where "findOp i d = Some r" "O_Kind r = O_Kind p" "O_Key r = O_Key p" "O_Hash r = O_Hash p"
      using reachable_op [OF seen ok findOp_mem [OF ok m(1)]] p(2) by metis
    with f True hash m findOpD show ?thesis by auto
  next
    case False
    then obtain metadata d3 where i: "i = ce_newID ce" and ins: "insertOp (newOperation ce input metadata) d = Inr d3"
      and loop: "insertTargets input (ce_newID ce) (ce_rowIDs ce) (uniqueIDs (CI_TargetIDs input)) (uniqueIDs (CI_TargetIDs input)) d3 = Inr d2"
      using createOperationTx_cases [OF tx] by auto
    have m: "newOperation ce input metadata \<in> set (D_ops d2)"
      using insertTargets_ops [OF loop] insertOp_ops [OF ins] by simp
    have "queue_ok d2" using createOperationTx_advance [OF tx] okd by (simp add: advance_def)
    from findOp_mem [OF this m] f False i have "q = newOperation ce input metadata" by (simp add: newOperation_def)
    with f i key show ?thesis by (simp add: newOperation_def nullableText_def)
  qed
qed

theorem create_replay:
  assumes ok: "queue_ok snap" and seen: "queueStep\<^sup>*\<^sup>* snap d"
    and key: "CI_IdempotencyKey input \<noteq> ''''" and kind: "CI_Kind input \<notin> set coalescedControlOperationKinds"
    and first: "CreateOperation ce input snap d = (Inr q, d1)" and later: "queueStep\<^sup>*\<^sup>* d1 d2"
    and again: "CI_Kind input' = CI_Kind input" "CI_IdempotencyKey input' = CI_IdempotencyKey input" "marshalJSONObject (CI_Metadata input') = Inr m"
  shows "if inputHash ce' input' = inputHash ce input
    then \<exists>p. CreateOperation ce' input' d2 d2 = (Inr p, d2) \<and> O_ID p = O_ID q
    else CreateOperation ce' input' d2 d2 = (Inl IdempotencyConflict, d2)"
proof -
  note stored = CreateOperation_stored [OF ok seen key kind first]
  have okd: "queue_ok d" using reachable_ok [OF seen ok] .
  have ok1: "queue_ok d1" using CreateOperation_advance [of d ce input snap] okd first by (simp add: advance_def)
  obtain p where p: "findOp (O_ID q) d2 = Some p" "O_Kind p = O_Kind q" "O_Key p = O_Key q" "O_Hash p = O_Hash q"
    using reachable_op [OF later ok1 conjunct1 [OF stored]] by metis
  have pm: "p \<in> set (D_ops d2)" "O_ID p = O_ID q" using findOpD [OF p(1)] by auto
  have ok2: "queue_ok d2" using reachable_ok [OF later ok1] .
  have "O_Kind p = CI_Kind input'" "O_Key p = Some (CI_IdempotencyKey input')" "CI_IdempotencyKey input' \<noteq> ''''"
    using p stored again key by simp_all
  from keyedOperation_find [OF ok2 pm(1) this] have k: "keyedOperation input' d2 = Some p" .
  have h: "O_Hash p = Some (inputHash ce input)" using p(4) stored by simp
  show ?thesis using p(1) pm(2) by (auto simp: CreateOperation_def createOperationTx_def again(3) k h Store_Operation_def)
qed

theorem create_replay_witness:
  "\<exists>p. CreateOperation (exampleCreate ''op9'') (exampleInput ''scan'' ''k'' [''t1'', ''t2'']) exampleClaimed exampleClaimed = (Inr p, exampleClaimed)
    \<and> O_ID p = ''op''"
proof -
  let ?q = "the (findOp ''op'' exampleCreated)"
  have first: "CreateOperation (exampleCreate ''op'') (exampleInput ''scan'' ''k'' [''t1'', ''t2'']) exampleQueue exampleQueue = (Inr ?q, exampleCreated)"
    by code_simp
  have i: "O_ID ?q = ''op''" by code_simp
  have later: "queueStep\<^sup>*\<^sup>* exampleCreated exampleClaimed"
    unfolding exampleClaimed_def by (rule r_into_rtranclp [where r = queueStep]) (rule queueStep.claim)
  have h: "inputHash (exampleCreate ''op9'') (exampleInput ''scan'' ''k'' [''t1'', ''t2''])
      = inputHash (exampleCreate ''op'') (exampleInput ''scan'' ''k'' [''t1'', ''t2''])"
    by (simp add: inputHash_def exampleCreate_def)
  have "CI_IdempotencyKey (exampleInput ''scan'' ''k'' [''t1'', ''t2'']) \<noteq> ''''"
    and "CI_Kind (exampleInput ''scan'' ''k'' [''t1'', ''t2'']) \<notin> set coalescedControlOperationKinds"
    and "marshalJSONObject (CI_Metadata (exampleInput ''scan'' ''k'' [''t1'', ''t2''])) = Inr (JObj [])"
    by (simp_all add: exampleInput_def coalescedControlOperationKinds_def marshalJSONObject_def)
  from create_replay [OF exampleQueue_ok rtranclp.rtrancl_refl this(1,2) first later refl refl this(3), of "exampleCreate ''op9''"] h i
  show ?thesis by simp
qed

lemma findOT_updateOTs:
  assumes "\<And>w. W_ID (f w) = W_ID w"
  shows "findOT i (updateOTs P f d) = map_option (\<lambda>w. if P w then f w else w) (findOT i d)"
proof -
  have "find (\<lambda>w. W_ID w = i) (map (\<lambda>w. if P w then f w else w) ws) = map_option (\<lambda>w. if P w then f w else w) (find (\<lambda>w. W_ID w = i) ws)" for ws
    using assms by (induction ws) auto
  then show ?thesis by (simp add: findOT_def updateOTs_def)
qed

lemma findOp_updateOps:
  assumes "\<And>q. O_ID (f q) = O_ID q"
  shows "findOp i (updateOps P f d) = map_option (\<lambda>q. if P q then f q else q) (findOp i d)"
proof -
  have "find (\<lambda>q. O_ID q = i) (map (\<lambda>q. if P q then f q else q) qs) = map_option (\<lambda>q. if P q then f q else q) (find (\<lambda>q. O_ID q = i) qs)" for qs
    using assms by (induction qs) auto
  then show ?thesis by (simp add: findOp_def updateOps_def)
qed

lemma updates_other [simp]:
  "findOT i (updateOps P g d) = findOT i d" "findOp j (updateOTs R f d) = findOp j d"
  "findTarget t (updateOps P g d) = findTarget t d" "findTarget t (updateOTs R f d) = findTarget t d"
  "targetsOf j (updateOps P g d) = targetsOf j d" "hasTargets j (updateOps P g d) = hasTargets j d"
  "D_ots (updateOps P g d) = D_ots d" "D_ops (updateOTs R f d) = D_ops d"
  by (simp_all add: findOT_def findOp_def findTarget_def targetsOf_def hasTargets_def updateOps_def updateOTs_def)

lemma hasTargets_updateOTs [simp]: "(\<And>w. W_Op (f w) = W_Op w) \<Longrightarrow> hasTargets j (updateOTs P f d) = hasTargets j d"
  by (auto simp: hasTargets_def updateOTs_def list_ex_iff)

text \<open>What a cancellation leaves of the operation and of a running step.\<close>

lemma CancelOperation_running:
  assumes "findOp j d = Some q" "liveStatus (O_Status q)" "findOT i d = Some w" "W_Status w = OperationRunning" "W_Op w = j"
  obtains p v where "findOp j (snd (CancelOperation now j d)) = Some p" "O_Cancel p" "O_Kind p = O_Kind q"
    "findOT i (snd (CancelOperation now j d)) = Some v" "W_Status v = OperationRunning" "W_Op v = j" "W_Target v = W_Target w" "W_BridgeOp v = W_BridgeOp w"
proof -
  define d1 where "d1 = updateOps (\<lambda>p. O_ID p = j) (\<lambda>p. p\<lparr>O_Cancel := True\<rparr>) d"
  define d2 where "d2 = updateOTs (\<lambda>w. W_Op w = j \<and> W_Status w = OperationQueued)
      (\<lambda>w. w\<lparr>W_Status := OperationCancelled, W_Finished := Some now\<rparr>) d1"
  define d3 where "d3 = (if list_ex (\<lambda>w. W_Op w = j \<and> W_Status w = OperationQueued) (D_ots d1) then clearPending j d2 else d2)"
  have i: "O_ID q = j" using findOpD [OF assms(1)] by simp
  have 2: "findOT i d2 = Some w" "findOp j d2 = Some (q\<lparr>O_Cancel := True\<rparr>)"
    using assms i unfolding d2_def d1_def by (simp_all add: findOT_updateOTs findOp_updateOps)
  have "\<exists>v. findOT i d3 = Some v \<and> W_Status v = OperationRunning \<and> W_Op v = j \<and> W_Target v = W_Target w \<and> W_BridgeOp v = W_BridgeOp w"
    using assms 2 by (simp add: d3_def clearPending_def findOT_updateOTs)
  then obtain v where v: "findOT i d3 = Some v" "W_Status v = OperationRunning" "W_Op v = j" "W_Target v = W_Target w" "W_BridgeOp v = W_BridgeOp w"
    by blast
  have 3: "findOp j d3 = Some (q\<lparr>O_Cancel := True\<rparr>)" using 2 unfolding d3_def by (auto simp: clearPending_def)
  have t: "v \<in> set (targetsOf j d3)" using findOTD [OF v(1)] v(3) by (simp add: targetsOf_def)
  then have "hasTargets j d3" by (auto simp: targetsOf_def hasTargets_def list_ex_iff)
  moreover have "list_ex (\<lambda>w. liveStatus (W_Status w) \<or> W_GovPending w) (targetsOf j d3)"
    using t v(2) status_facts(8) unfolding list_ex_iff by metis
  ultimately have "snd (CancelOperation now j d) = d3"
    using assms(1,2) unfolding CancelOperation_def Let_def d3_def d2_def d1_def
    by (simp add: recalculateOperation_def)
  with that [of "q\<lparr>O_Cancel := True\<rparr>" v] 3 v show thesis by simp
qed

lemma cancelled_not_claimed:
  assumes "queue_ok d" "findOT i d = Some w" "findOp (W_Op w) d = Some p" "O_Cancel p"
  shows "fst (ClaimOperationTarget locked now d) = Inr (q, v, x) \<Longrightarrow> W_ID v \<noteq> i"
proof
  assume c: "fst (ClaimOperationTarget locked now d) = Inr (q, v, x)" and i: "W_ID v = i"
  obtain y where y: "y \<in> set (D_ots d)" "claimable y d" "v = y\<lparr>W_Status := OperationRunning\<rparr>"
    using ClaimOperationTarget_result [OF c] by blast
  have "W_ID y = W_ID w" using i y(3) findOTD [OF assms(2)] by simp
  then have "y = w" using step_unique [OF assms(1) y(1)] findOTD [OF assms(2)] by blast
  with y(2) assms(3,4) show False by (simp add: claimable_def)
qed

lemma owner_blocks:
  assumes "v \<in> set (D_ots d)" "owning v" "owning row" "W_Target row = W_Target v"
  shows "insertOT row d \<noteq> Inr d'"
proof -
  have "list_ex (\<lambda>v. owning v \<and> W_Target v = W_Target row) (D_ots d)" using assms by (auto simp: list_ex_iff)
  with assms(3) show ?thesis by (simp add: insertOT_def)
qed

lemma live_step_blocks:
  assumes "findOT i d = Some v" "liveStatus (W_Status v)" "owning row" "W_Target row = W_Target v"
  shows "insertOT row d \<noteq> Inr d'"
  using owner_blocks [of v d row] findOTD [OF assms(1)] assms by (simp add: owning_def)

text \<open>
  C15. A running step that is requeued after its operation was cancelled is lost to the queue: it is queued then, and after
  any further calls of the methods in \<open>operations.go\<close> it is still in the table with its operation and its target,
  \<open>ClaimOperationTarget\<close> never hands it out again, and for as long as it is queued no other owning step can be
  inserted for its target. How long it stays queued is no part of the claim: cancelling the operation a second time ends
  it, and so does archiving its node (\<open>nodes.go\<close>), which is outside \<open>queueStep\<close>.
\<close>

theorem requeued_cancelled_step_stuck:
  assumes ok: "queue_ok d" and w: "findOT i d = Some w" "W_Status w = OperationRunning"
    and q: "findOp (W_Op w) d = Some q" "liveStatus (O_Status q)"
    and x: "findTarget (W_Target w) d = Some x" "\<not> X_Archived x"
    and c: "CancelOperation t1 (W_Op w) d = (None, d1)" and r: "RequeueRunningOperationTarget t2 i d1 = (e, d2)"
  shows "e = None \<and> (\<exists>v. findOT i d2 = Some v \<and> W_Status v = OperationQueued)
    \<and> (\<forall>d3. queueStep\<^sup>*\<^sup>* d2 d3 \<longrightarrow>
          (\<exists>v. findOT i d3 = Some v \<and> W_Op v = W_Op w \<and> W_Target v = W_Target w
             \<and> (W_Status v = OperationQueued \<longrightarrow>
                  (\<forall>row d4. owning row \<and> W_Target row = W_Target w \<longrightarrow> insertOT row d3 \<noteq> Inr d4)))
          \<and> (\<forall>locked now p v y. fst (ClaimOperationTarget locked now d3) = Inr (p, v, y) \<longrightarrow> W_ID v \<noteq> i))"
proof -
  obtain p v where p: "findOp (W_Op w) d1 = Some p" "O_Cancel p"
    and v: "findOT i d1 = Some v" "W_Status v = OperationRunning" "W_Op v = W_Op w" "W_Target v = W_Target w"
    by (rule CancelOperation_running [OF q w refl, of t1]) (use c in simp)
  have ok1: "queue_ok d1" using CancelOperation_advance [of d t1 "W_Op w"] ok c by (simp add: advance_def)
  have "D_targets d1 = D_targets d"
    using c by (auto simp: CancelOperation_def recalculateOperation_def clearPending_def updateOps_def updateOTs_def Let_def split: option.splits if_splits)
  then have x1: "findTarget (W_Target v) d1 = Some x" using x(1) v(4) by (simp add: findTarget_def)
  have e: "e = None" and step: "queueStep d1 d2"
    using r v p x1 x(2) queueStep.requeue [of d1 t2 i] by (auto simp: RequeueRunningOperationTarget_def Let_def)
  have 2: "\<exists>u. findOT i d2 = Some u \<and> W_Status u = OperationQueued"
    using r v p(1) x1 x(2) findOTD [OF v(1)] by (auto simp: RequeueRunningOperationTarget_def Let_def findOT_updateOTs)
  have "(\<exists>v. findOT i d3 = Some v \<and> W_Op v = W_Op w \<and> W_Target v = W_Target w
             \<and> (W_Status v = OperationQueued \<longrightarrow>
                  (\<forall>row d4. owning row \<and> W_Target row = W_Target w \<longrightarrow> insertOT row d3 \<noteq> Inr d4)))
      \<and> (\<forall>locked now p v y. fst (ClaimOperationTarget locked now d3) = Inr (p, v, y) \<longrightarrow> W_ID v \<noteq> i)"
    if s: "queueStep\<^sup>*\<^sup>* d2 d3" for d3
  proof -
    have s1: "queueStep\<^sup>*\<^sup>* d1 d3" using step s by (rule converse_rtranclp_into_rtranclp)
    obtain p3 where p3: "findOp (W_Op w) d3 = Some p3" "O_Cancel p3" using reachable_op [OF s1 ok1 p(1)] p(2) by metis
    obtain v3 where v3: "findOT i d3 = Some v3" "W_Op v3 = W_Op w" "W_Target v3 = W_Target w"
      using reachable_step [OF s1 ok1 v(1)] v(3,4) by metis
    have "\<forall>locked now p v y. fst (ClaimOperationTarget locked now d3) = Inr (p, v, y) \<longrightarrow> W_ID v \<noteq> i"
      using cancelled_not_claimed [OF reachable_ok [OF s1 ok1] v3(1)] p3 v3(2) by simp
    moreover have "insertOT row d3 \<noteq> Inr d4"
      if "W_Status v3 = OperationQueued" "owning row" "W_Target row = W_Target w" for row d4
      using live_step_blocks [OF v3(1) _ that(2)] that v3(3) by simp
    ultimately show ?thesis using v3 by blast
  qed
  with e 2 show ?thesis by blast
qed

theorem requeued_cancelled_step_stuck_witness:
  "\<not> (\<exists>locked now p v y. fst (ClaimOperationTarget locked now (snd (RequeueRunningOperationTarget 9 ''opt1''
        (snd (CancelOperation 8 ''op'' exampleClaimed))))) = Inr (p, v, y) \<and> W_ID v = ''opt1'')"
proof -
  let ?d1 = "snd (CancelOperation 8 ''op'' exampleClaimed)"
  let ?d2 = "snd (RequeueRunningOperationTarget 9 ''opt1'' ?d1)"
  let ?w = "the (findOT ''opt1'' exampleClaimed)" and ?q = "the (findOp ''op'' exampleClaimed)"
  have w: "findOT ''opt1'' exampleClaimed = Some ?w" "W_Status ?w = OperationRunning" and op: "W_Op ?w = ''op''" by code_simp+
  have q: "findOp (W_Op ?w) exampleClaimed = Some ?q" "liveStatus (O_Status ?q)" unfolding op by code_simp+
  have x: "findTarget (W_Target ?w) exampleClaimed = Some (exampleTarget ''t1'')" by code_simp
  have c: "CancelOperation 8 (W_Op ?w) exampleClaimed = (None, ?d1)" unfolding op by code_simp
  have r: "RequeueRunningOperationTarget 9 ''opt1'' ?d1 = (None, ?d2)" by code_simp
  have ok: "queue_ok exampleClaimed" using reachable_ok [OF exampleQueue_claimed exampleQueue_ok] .
  have a: "\<not> X_Archived (exampleTarget ''t1'')" by (simp add: exampleTarget_def)
  note stuck = conjunct2 [OF conjunct2 [OF requeued_cancelled_step_stuck [OF ok w q x a c r]]]
  from conjunct2 [OF mp [OF spec [OF stuck, of ?d2] rtranclp.rtrancl_refl]] show ?thesis by blast
qed

text \<open>
  A control operation of a coalesced kind that is cancelled while it runs and requeued after a restart blocks its
  kind: no worker claims it again, and every further request of that kind without a stored key of its own is answered
  with it, so nothing of that kind runs until it is cancelled a second time.
\<close>

lemma ClaimControlOperation_result:
  assumes ok: "queue_ok d" and "fst (ClaimControlOperation locked now d) = Inr p"
  shows "\<exists>q \<in> set (D_ops d). O_ID q = O_ID p \<and> \<not> O_Cancel q \<and> O_Status q = OperationQueued"
proof -
  obtain q where q: "find (\<lambda>q. O_Status q = OperationQueued \<and> \<not> O_Cancel q \<and> O_Kind q \<in> set controlOperationKinds
             \<and> \<not> hasTargets (O_ID q) d \<and> \<not> locked (O_ID q)) (D_ops d) = Some q"
    using assms(2) by (auto simp: ClaimControlOperation_def split: option.splits)
  then have "O_ID p = O_ID q"
    using assms(2) by (auto simp: ClaimControlOperation_def Store_Operation_def Let_def findOp_updateOps dest: findOpD split: option.splits if_splits)
  with find_SomeD [OF q] show ?thesis by auto
qed

lemma liveOperation_coalesced:
  assumes ok: "queue_ok d" and p: "findOp i d = Some p" "coalescedLive p"
  shows "liveOperation (O_Kind p) d = Some p"
proof (cases "liveOperation (O_Kind p) d")
  case None
  then show ?thesis using p findOpD [OF p(1)] by (auto simp: liveOperation_def coalescedLive_def find_None_iff)
next
  case (Some r)
  then have r: "r \<in> set (D_ops d)" "O_Kind r = O_Kind p" "liveStatus (O_Status r)"
    unfolding liveOperation_def using find_SomeD by fastforce+
  have "uniqueIndex coalescedLive O_Kind (D_ops d)" using ok by (simp add: queue_ok_def indexes_ok_def)
  from uniqueIndex_eq [OF this r(1) conjunct1 [OF findOpD [OF p(1)]]] p(2) r(2,3) have "r = p"
    by (simp add: coalescedLive_def)
  with Some show ?thesis by simp
qed

theorem cancelled_control_blocks_kind:
  assumes ok: "queue_ok d" and q: "findOp i d = Some q" "O_Status q = OperationRunning" "O_Kind q \<in> set coalescedControlOperationKinds"
    and t: "\<not> hasTargets i d" and d2: "d2 = RequeueRunningControlOperations (snd (CancelOperation t1 i d))"
  shows "(\<exists>p. findOp i d2 = Some p \<and> O_Status p = OperationQueued)
    \<and> (\<forall>d3. queueStep\<^sup>*\<^sup>* d2 d3 \<longrightarrow> (\<forall>locked now p. fst (ClaimControlOperation locked now d3) = Inr p \<longrightarrow> O_ID p \<noteq> i)
          \<and> (\<forall>p ce input m. findOp i d3 = Some p \<and> O_Status p = OperationQueued \<and> CI_Kind input = O_Kind q \<and> CI_TargetIDs input = []
               \<and> keyedOperation input d3 = None \<and> marshalJSONObject (CI_Metadata input) = Inr m
               \<longrightarrow> CreateOperation ce input d3 d3 = (Inr p, d3)))"
proof -
  define d1 where "d1 = snd (CancelOperation t1 i d)"
  have i: "O_ID q = i" using findOpD [OF q(1)] by simp
  have none: "\<not> list_ex (\<lambda>w. W_Op w = i \<and> W_Status w = OperationQueued) (D_ots d)"
    using t by (auto simp: hasTargets_def list_ex_iff)
  have "d1 = updateOTs (\<lambda>w. W_Op w = i \<and> W_Status w = OperationQueued)
      (\<lambda>w. w\<lparr>W_Status := OperationCancelled, W_Finished := Some t1\<rparr>) (updateOps (\<lambda>p. O_ID p = i) (\<lambda>p. p\<lparr>O_Cancel := True\<rparr>) d)"
    unfolding d1_def using q(1,2) t none by (simp add: CancelOperation_def Let_def)
  then have 1: "findOp i d1 = Some (q\<lparr>O_Cancel := True\<rparr>)" "\<not> hasTargets i d1"
    using q(1) t i by (simp_all add: findOp_updateOps)
  have kind: "O_Kind q \<in> set controlOperationKinds"
    using q(3) by (auto simp: coalescedControlOperationKinds_def controlOperationKinds_def)
  obtain p where p: "findOp i d2 = Some p" "O_Status p = OperationQueued" "O_Cancel p" "O_Kind p = O_Kind q"
    using 1 q(2) kind i by (auto simp: d2 d1_def [symmetric] RequeueRunningControlOperations_def findOp_updateOps)
  have ok2: "queue_ok d2"
    using advance_trans [OF CancelOperation_advance RequeueRunningControlOperations_advance, of d t1 i] ok
    by (simp add: advance_def d2)
  have "(\<forall>locked now p. fst (ClaimControlOperation locked now d3) = Inr p \<longrightarrow> O_ID p \<noteq> i)
      \<and> (\<forall>p ce input m. findOp i d3 = Some p \<and> O_Status p = OperationQueued \<and> CI_Kind input = O_Kind q \<and> CI_TargetIDs input = []
               \<and> keyedOperation input d3 = None \<and> marshalJSONObject (CI_Metadata input) = Inr m
               \<longrightarrow> CreateOperation ce input d3 d3 = (Inr p, d3))"
    if s: "queueStep\<^sup>*\<^sup>* d2 d3" for d3
  proof -
    obtain r where r: "findOp i d3 = Some r" "O_Cancel r" "O_Kind r = O_Kind q"
      using reachable_op [OF s ok2 p(1)] p(3,4) by metis
    have ok3: "queue_ok d3" using reachable_ok [OF s ok2] .
    have "O_ID a \<noteq> i" if "fst (ClaimControlOperation locked now d3) = Inr a" for locked now a
      using ClaimControlOperation_result [OF ok3 that] findOp_mem [OF ok3] r(1,2) by force
    moreover have "CreateOperation ce input d3 d3 = (Inr r, d3)"
      if "O_Status r = OperationQueued" "CI_Kind input = O_Kind q" "CI_TargetIDs input = []"
        "keyedOperation input d3 = None" "marshalJSONObject (CI_Metadata input) = Inr m" for ce input m
    proof -
      have "coalescedOperation input d3 = Some r"
        using liveOperation_coalesced [OF ok3 r(1)] r(3) q(3) that by (simp add: coalescedLive_def coalescedOperation_def)
      moreover have "O_ID r = i" using findOpD [OF r(1)] by simp
      ultimately show ?thesis using r(1) that by (simp add: CreateOperation_def createOperationTx_def Store_Operation_def)
    qed
    ultimately show ?thesis using r(1) by auto
  qed
  with p show ?thesis by blast
qed

definition exampleControl :: db where
  "exampleControl = snd (ClaimControlOperation (\<lambda>_. False) 5
     (snd (CreateOperation (exampleCreate ''c1'') (exampleInput ''contract_observe'' '''' []) exampleQueue exampleQueue)))"

theorem cancelled_control_blocks_kind_witness:
  "\<exists>p. findOp ''c1'' (RequeueRunningControlOperations (snd (CancelOperation 6 ''c1'' exampleControl))) = Some p \<and> O_Status p = OperationQueued"
proof -
  let ?q = "the (findOp ''c1'' exampleControl)"
  have q: "findOp ''c1'' exampleControl = Some ?q" "O_Status ?q = OperationRunning" "O_Kind ?q \<in> set coalescedControlOperationKinds"
    and t: "\<not> hasTargets ''c1'' exampleControl" by code_simp+
  have ok: "queue_ok exampleControl" unfolding exampleControl_def
    by (rule reachable_ok [OF _ exampleQueue_ok]) (rule rtranclp.rtrancl_into_rtrancl [OF r_into_rtranclp]; rule queueStep.intros)
  from conjunct1 [OF cancelled_control_blocks_kind [OF ok q t refl]] show ?thesis by blast
qed

text \<open>
  One target that waits for a governance finalization stops the scheduler: \<open>EnqueueReconciles\<close> looks only for
  queued and running steps, the unique index also counts the pending one, so the insert fails and the transaction with
  the reconciles of every other target is rolled back.
\<close>

lemma insertReconcile_ops:
  "insertReconcile ids flag t probe d = Inr d' \<Longrightarrow> D_ots d' = D_ots d @ [reconcileStep (snd ids) (fst ids) t probe]"
  using insertOT_ops insertOp_ops by (fastforce simp: insertReconcile_def split: sum.splits)

definition waiting :: "string \<Rightarrow> db \<Rightarrow> bool" where
  "waiting t d = ((\<exists>w \<in> set (D_ots d). W_Target w = t \<and> W_GovPending w) \<and> (\<forall>w \<in> set (D_ots d). W_Target w = t \<longrightarrow> \<not> liveStatus (W_Status w)))"

lemma waiting_rerun: "waiting t d \<Longrightarrow> waiting t (updateOTs P (\<lambda>v. v\<lparr>W_PendingRerun := True\<rparr>) d)"
  unfolding waiting_def updateOTs_def by (auto simp: bex_Un split: if_splits)

lemma waiting_insert:
  "waiting t d \<Longrightarrow> insertReconcile ids flag s probe d = Inr d' \<Longrightarrow> s \<noteq> t \<Longrightarrow> waiting t d'"
  using insertReconcile_ops by (fastforce simp: waiting_def reconcileStep_def)

lemma waiting_blocks: "waiting t d \<Longrightarrow> insertReconcile ids flag t probe d \<noteq> Inr d'"
proof
  assume w: "waiting t d" and "insertReconcile ids flag t probe d = Inr d'"
  then obtain d1 where 1: "insertOp (reconcileOp (fst ids) flag) d = Inr d1"
    and 2: "insertOT (reconcileStep (snd ids) (fst ids) t probe) d1 = Inr d'"
    by (auto simp: insertReconcile_def split: sum.splits)
  obtain v where "v \<in> set (D_ots d1)" "W_Target v = t" "W_GovPending v"
    using w insertOp_ops [OF 1] by (auto simp: waiting_def)
  with owner_blocks [OF this(1), of "reconcileStep (snd ids) (fst ids) t probe" d'] 2
  show False by (simp add: owning_def reconcileStep_def)
qed

lemma enqueueLoop_waiting: "waiting t d \<Longrightarrow> t \<in> set (map fst ts) \<Longrightarrow> \<exists>e. enqueueLoop ids ts n d = Inl e"
proof (induction ids ts n d rule: enqueueLoop.induct)
  case (2 ids s probe ts n d)
  show ?case
  proof (cases "find (\<lambda>w. W_Target w = s \<and> liveStatus (W_Status w)) (D_ots d)")
    case (Some w)
    then have "s \<noteq> t" using "2.prems"(1) find_SomeD [OF Some] by (auto simp: waiting_def)
    with 2 Some waiting_rerun show ?thesis by auto
  next
    case None
    show ?thesis
    proof (cases "insertReconcile (ids s) ''scheduled'' s probe d")
      case (Inr d')
      then have "s \<noteq> t" using waiting_blocks [OF "2.prems"(1)] by blast
      with 2 None Inr waiting_insert show ?thesis by fastforce
    qed (simp add: None)
  qed
qed simp

theorem finalization_blocks_reconciles:
  assumes "w \<in> set (D_ots d)" "W_GovPending w" "(W_Target w, probe) \<in> set (reconcileTargets now d)"
    and "\<forall>v \<in> set (D_ots d). W_Target v = W_Target w \<longrightarrow> \<not> liveStatus (W_Status v)"
  shows "\<exists>e. EnqueueReconciles ids now d = (Inl e, d)"
proof -
  have "waiting (W_Target w) d" using assms by (auto simp: waiting_def)
  moreover have "W_Target w \<in> set (map fst (reconcileTargets now d))" using assms(3) by force
  ultimately obtain e where "enqueueLoop ids (reconcileTargets now d) 0 d = Inl e" using enqueueLoop_waiting by blast
  then show ?thesis by (simp add: EnqueueReconciles_def)
qed

definition exampleSnapshot :: snapshot_row where
  "exampleSnapshot = \<lparr>DS_Health = ''healthy'', DS_Suspended = False, DS_NextRetry = None, DS_LastMemberCheck = None\<rparr>"

definition exampleFinalizing :: db where
  "exampleFinalizing =
     (let d0 = exampleQueue\<lparr>D_targets := [exampleTarget ''t0''\<lparr>X_Desired := Some exampleSnapshot\<rparr>, exampleTarget ''t1''\<lparr>X_Desired := Some exampleSnapshot\<rparr>]\<rparr>;
          d1 = snd (CreateOperation (exampleCreate ''op'') (exampleInput ''policy_apply'' '''' [''t1'']) d0 d0);
          d2 = snd (ClaimOperationTarget (\<lambda>_. False) 5 d1)
      in snd (FinishOperationTarget 7 ''opt1'' OperationSucceeded JNull None d2))"

theorem finalization_blocks_reconciles_witness:
  "\<exists>e. EnqueueReconciles (\<lambda>t. (t @ ''o'', t @ ''s'')) 60 exampleFinalizing = (Inl e, exampleFinalizing)"
proof -
  let ?w = "the (findOT ''opt1'' exampleFinalizing)"
  have "findOT ''opt1'' exampleFinalizing = Some ?w" and p: "W_GovPending ?w" by code_simp+
  then have w: "?w \<in> set (D_ots exampleFinalizing)" using findOTD by blast
  have "W_Target ?w = ''t1''" by code_simp
  moreover have "(''t1'', False) \<in> set (reconcileTargets 60 exampleFinalizing)" by code_simp
  ultimately have r: "(W_Target ?w, False) \<in> set (reconcileTargets 60 exampleFinalizing)" by simp
  have n: "\<forall>v \<in> set (D_ots exampleFinalizing). W_Target v = W_Target ?w \<longrightarrow> \<not> liveStatus (W_Status v)" by code_simp
  show ?thesis by (rule finalization_blocks_reconciles [OF w p r n])
qed

end
