(* ===== verification/Relay_Telemetry.thy ===== *)
theory Relay_Telemetry
  imports Complex_Main Governance_Store
begin

text \<open>
  The relay's observations of tool calls, from the ring in the relay process (\<open>mcpm/src/mcpm/toolhub/observations.py\<close>) to
  the daily aggregates of the store (\<open>src/internal/store/telemetry.go\<close>): recording and draining, the cursors the store
  keeps per server, the check of a drained batch, and its ingestion.

  Times are Unix seconds; a date is the number of its days since 1970-01-01. Identifiers are in the canonical form in which
  PostgreSQL prints them. A transaction that ends in an error leaves the database as it was.
\<close>

section \<open>Dates\<close>

definition daysFromCivil :: "int \<Rightarrow> int \<Rightarrow> int \<Rightarrow> int" where
  "daysFromCivil y m d =
     (let y' = (if m \<le> 2 then y - 1 else y);
          yoe = y' mod 400;
          doy = (153 * (if m > 2 then m - 3 else m + 9) + 2) div 5 + d - 1
      in (y' div 400) * 146097 + yoe * 365 + yoe div 4 - yoe div 100 + doy - 719468)"

definition daysIn :: "int \<Rightarrow> int \<Rightarrow> int" where
  "daysIn y m =
     (if m = 2 then (if y mod 4 = 0 \<and> (y mod 100 \<noteq> 0 \<or> y mod 400 = 0) then 29 else 28)
      else if m \<in> {4, 6, 9, 11} then 30 else 31)"

text \<open>The first bytes as a number of two digits, or of one if \<open>short\<close>, and the rest.\<close>

definition digits2 :: "bool \<Rightarrow> string \<Rightarrow> (int \<times> string) option" where
  "digits2 short s =
     (case s of
        a # b # r \<Rightarrow>
          if isDigit a \<and> isDigit b then Some (10 * digitVal a + digitVal b, r)
          else if short \<and> isDigit a then Some (digitVal a, b # r) else None
      | [a] \<Rightarrow> if short \<and> isDigit a then Some (digitVal a, []) else None
      | [] \<Rightarrow> None)"

definition expect :: "string \<Rightarrow> string \<Rightarrow> string option" where
  "expect w s = (if prefix w s then Some (drop (length w) s) else None)"

text \<open>\<open>time.Parse\<close> with the layout \<open>2006-01-02T15:04:00Z\<close>, in which the hour may have one digit: the Unix seconds.\<close>

definition parseMinuteBucket :: "string \<Rightarrow> int option" where
  "parseMinuteBucket s =
     Option.bind (digits2 False s) (\<lambda>(y1, s1).
     Option.bind (digits2 False s1) (\<lambda>(y2, s2).
     Option.bind (expect ''-'' s2) (\<lambda>s3.
     Option.bind (digits2 False s3) (\<lambda>(m, s4).
     Option.bind (expect ''-'' s4) (\<lambda>s5.
     Option.bind (digits2 False s5) (\<lambda>(d, s6).
     Option.bind (expect ''T'' s6) (\<lambda>s7.
     Option.bind (digits2 True s7) (\<lambda>(h, s8).
     Option.bind (expect '':'' s8) (\<lambda>s9.
     Option.bind (digits2 False s9) (\<lambda>(mi, s10).
       let y = 100 * y1 + y2 in
       if s10 = '':00Z'' \<and> 1 \<le> m \<and> m \<le> 12 \<and> 1 \<le> d \<and> d \<le> daysIn y m \<and> h < 24 \<and> mi < 60
       then Some (daysFromCivil y m d * 86400 + h * 3600 + mi * 60) else None))))))))))"

section \<open>Observations\<close>

text \<open>A \<open>float64\<close>.\<close>

datatype go_float = FloatNaN | FloatInf bool | Float rat

record Observation =
  OB_BootID :: string
  OB_Sequence :: int
  OB_ObservedAt :: go_float
  OB_MinuteBucket :: string
  OB_ProfileID :: string
  OB_ProfileRevisionID :: string
  OB_ServerID :: string
  OB_ToolID :: string
  OB_Decision :: string
  OB_ReasonCodes :: "string list"
  OB_Outcome :: string
  OB_ErrorClass :: string
  OB_DurationBucket :: string

record ObservationDrainResponse =
  DR_BootID :: string
  DR_Items :: "Observation list"
  DR_NextSequence :: int

text \<open>\<open>int64(x)\<close> for a finite \<open>x\<close> that is not negative; beyond the range it is what amd64 makes of it.\<close>

definition int64OfFloat :: "rat \<Rightarrow> int" where
  "int64OfFloat r = (if \<lfloor>r\<rfloor> \<ge> 2 ^ 63 then - (2 ^ 63) else \<lfloor>r\<rfloor>)"

definition observationDay :: "Observation \<Rightarrow> store_error + int" where
  "observationDay ob =
     (case OB_ObservedAt ob of
        Float r \<Rightarrow>
          if r < 0 then Inl Conflict
          else (case parseMinuteBucket (OB_MinuteBucket ob) of
            None \<Rightarrow> Inl Conflict
          | Some bucket \<Rightarrow> if int64OfFloat r - int64OfFloat r mod 60 \<noteq> bucket then Inl Conflict else Inr (bucket div 86400))
      | _ \<Rightarrow> Inl Conflict)"

section \<open>The ring of the relay\<close>

record ObservationRing =
  RG_Limit :: nat
  RG_BootID :: string
  RG_Sequence :: int
  RG_Items :: "Observation list"

abbreviation MaxDrainItems :: nat where "MaxDrainItems \<equiv> 1000"
abbreviation observationTTL :: rat where "observationTTL \<equiv> 86400"

text \<open>\<open>ObservationRing(limit)\<close> with the boot id that \<open>uuid4\<close> draws.\<close>

definition newRing :: "nat \<Rightarrow> string \<Rightarrow> ObservationRing" where
  "newRing limit boot = \<lparr>RG_Limit = limit, RG_BootID = boot, RG_Sequence = 0, RG_Items = []\<rparr>"

definition observedBefore :: "rat \<Rightarrow> Observation \<Rightarrow> bool" where
  "observedBefore cutoff ob = (case OB_ObservedAt ob of Float r \<Rightarrow> r \<le> cutoff | _ \<Rightarrow> False)"

definition ring_purge :: "rat \<Rightarrow> ObservationRing \<Rightarrow> ObservationRing" where
  "ring_purge now ring = ring\<lparr>RG_Items := dropWhile (observedBefore (now - observationTTL)) (RG_Items ring)\<rparr>"

text \<open>
  \<open>record\<close>: \<open>ob\<close> has the fields of the call; boot id, sequence number and time are the ring's. A full deque drops its
  oldest item.
\<close>

definition ring_record :: "rat \<Rightarrow> Observation \<Rightarrow> ObservationRing \<Rightarrow> Observation \<times> ObservationRing" where
  "ring_record now ob ring =
     (let r = ring_purge now ring;
          observed = ob\<lparr>OB_BootID := RG_BootID r, OB_Sequence := RG_Sequence r + 1, OB_ObservedAt := Float now\<rparr>;
          items = RG_Items r @ [observed]
      in (observed, r\<lparr>RG_Sequence := RG_Sequence r + 1, RG_Items := drop (length items - RG_Limit r) items\<rparr>))"

definition ring_drain :: "rat \<Rightarrow> string option \<Rightarrow> int \<Rightarrow> nat \<Rightarrow> ObservationRing \<Rightarrow> (ObservationDrainResponse \<times> ObservationRing) option" where
  "ring_drain now afterBoot afterSequence limit ring =
     (if \<not> (1 \<le> limit \<and> limit \<le> MaxDrainItems) \<or> afterSequence < 0 then None
      else let r = ring_purge now ring;
               cursor = (if afterBoot = Some (RG_BootID r) then afterSequence else 0);
               selected = take limit (filter (\<lambda>ob. OB_Sequence ob > cursor) (RG_Items r))
           in Some (\<lparr>DR_BootID = RG_BootID r, DR_Items = selected,
                DR_NextSequence = (if selected = [] then cursor else OB_Sequence (last selected))\<rparr>, r))"

section \<open>Tables\<close>

record cursor_row =
  CR_BootID :: string
  CR_Sequence :: int
  CR_Updated :: time

record aggregate_row =
  AG_Day :: int
  AG_ProfileID :: string
  AG_ProfileRevisionID :: string
  AG_ServerID :: string
  AG_ToolID :: string
  AG_ClientKind :: string
  AG_Decision :: string
  AG_Outcome :: string
  AG_ErrorClass :: string
  AG_DurationBucket :: string

text \<open>The aggregates map the dimensions of a row, which are unique in the table, to its calls and errors.\<close>

record telemetry_db =
  TM_Gov :: governance_db
  TM_Cursors :: "(string \<times> cursor_row) list"
  TM_Aggregates :: "(aggregate_row \<times> int \<times> int) list"

record RelayObservationCursor =
  OC_BootID :: string
  OC_Sequence :: int

record TelemetryIngestResult =
  TI_Accepted :: int
  TI_Duplicates :: int
  TI_Cursor :: RelayObservationCursor

definition appliedRelayServerIDs :: "governance_db \<Rightarrow> string list" where
  "appliedRelayServerIDs g = map RP_ServerID (sort_key RP_Position (filter (\<lambda>p. RP_RelayRevisionID p = GD_AppliedRelay g) (GD_RelayPins g)))"

definition knownRelayServerIDs :: "governance_db \<Rightarrow> string list" where
  "knownRelayServerIDs g = remdups (map RP_ServerID (GD_RelayPins g))"

definition cursorOf :: "telemetry_db \<Rightarrow> string \<Rightarrow> RelayObservationCursor" where
  "cursorOf d s = (case map_of (TM_Cursors d) s of
     None \<Rightarrow> \<lparr>OC_BootID = '''', OC_Sequence = 0\<rparr>
   | Some r \<Rightarrow> \<lparr>OC_BootID = CR_BootID r, OC_Sequence = CR_Sequence r\<rparr>)"

definition noCursor :: RelayObservationCursor where
  "noCursor = \<lparr>OC_BootID = '''', OC_Sequence = 0\<rparr>"

section \<open>The cursor of the next pull\<close>

definition latestCursor :: "(string \<times> cursor_row) list \<Rightarrow> RelayObservationCursor" where
  "latestCursor rows =
     (case sort_key (\<lambda>(s, r). - CR_Updated r) (sort_key fst (filter (\<lambda>(s, r). CR_BootID r \<noteq> '''') rows)) of
        [] \<Rightarrow> noCursor
      | (s, r) # _ \<Rightarrow> \<lparr>OC_BootID = CR_BootID r, OC_Sequence = CR_Sequence r\<rparr>)"

definition RelayObservationCursor :: "telemetry_db \<Rightarrow> RelayObservationCursor" where
  "RelayObservationCursor d =
     (let cursors = map (cursorOf d) (appliedRelayServerIDs (TM_Gov d));
          boots = remdups (filter (\<lambda>b. b \<noteq> '''') (map OC_BootID cursors))
      in if cursors = [] then latestCursor (TM_Cursors d)
         else if list_ex (\<lambda>c. OC_BootID c = '''') cursors \<or> length boots \<noteq> 1 then noCursor
         else \<lparr>OC_BootID = hd boots, OC_Sequence = Min (set (map OC_Sequence cursors))\<rparr>)"

section \<open>Checking a batch\<close>

definition telemetryDecisions :: "string list" where
  "telemetryDecisions = [''allow'', ''confirm'', ''deny'']"

definition telemetryOutcomes :: "string list" where
  "telemetryOutcomes = [''confirmation_required'', ''confirmed'', ''rejected'', ''expired'', ''denied'', ''not_executed'', ''executed'', ''failed'', ''unknown'']"

definition telemetryErrorClasses :: "string list" where
  "telemetryErrorClasses = [''none'', ''policy'', ''confirmation'', ''rate_limited'', ''timeout'', ''transport'', ''upstream'', ''internal'']"

definition telemetryDurationBuckets :: "string list" where
  "telemetryDurationBuckets = [''lt_10ms'', ''lt_100ms'', ''lt_1s'', ''lt_10s'', ''gte_10s'']"

abbreviation maxRelayObservationBatch :: nat where "maxRelayObservationBatch \<equiv> 1000"

text \<open>One item after the sequence number \<open>previous\<close>.\<close>

definition observationError :: "(string \<Rightarrow> bool) \<Rightarrow> ObservationDrainResponse \<Rightarrow> int \<Rightarrow> Observation \<Rightarrow> store_error option" where
  "observationError uv response previous item =
     (if OB_BootID item \<noteq> DR_BootID response \<or> OB_Sequence item \<le> previous \<or> OB_Sequence item > DR_NextSequence response
         \<or> \<not> uv (OB_ProfileID item) \<or> \<not> uv (OB_ProfileRevisionID item) \<or> \<not> uv (OB_ServerID item) \<or> \<not> uv (OB_ToolID item) then Some Conflict
      else if OB_Decision item \<notin> set telemetryDecisions \<or> OB_Outcome item \<notin> set telemetryOutcomes
         \<or> OB_ErrorClass item \<notin> set telemetryErrorClasses \<or> OB_DurationBucket item \<notin> set telemetryDurationBuckets
         \<or> length (OB_ReasonCodes item) > 32 then Some Conflict
      else if list_ex (\<lambda>reason. TrimSpace reason = '''' \<or> length reason > 64) (OB_ReasonCodes item) then Some Conflict
      else case observationDay item of Inl e \<Rightarrow> Some e | Inr _ \<Rightarrow> None)"

fun checkObservations :: "(string \<Rightarrow> bool) \<Rightarrow> ObservationDrainResponse \<Rightarrow> int \<Rightarrow> Observation list \<Rightarrow> store_error + int" where
  "checkObservations uv response previous [] = Inr previous"
| "checkObservations uv response previous (item # items) =
     (case observationError uv response previous item of
        Some e \<Rightarrow> Inl e
      | None \<Rightarrow> checkObservations uv response (OB_Sequence item) items)"

definition validateObservationDrain :: "(string \<Rightarrow> bool) \<Rightarrow> ObservationDrainResponse \<Rightarrow> store_error option" where
  "validateObservationDrain uv response =
     (if \<not> uv (DR_BootID response) \<or> DR_NextSequence response < 0 \<or> length (DR_Items response) > maxRelayObservationBatch then Some Conflict
      else case checkObservations uv response 0 (DR_Items response) of
        Inl e \<Rightarrow> Some e
      | Inr previous \<Rightarrow> if DR_Items response \<noteq> [] \<and> previous \<noteq> DR_NextSequence response then Some Conflict else None)"

section \<open>Ingestion\<close>

definition telemetryClientKind :: "governance_db \<Rightarrow> Observation \<Rightarrow> store_error + string" where
  "telemetryClientKind g ob =
     (case find (\<lambda>r. PV_ID r = OB_ProfileRevisionID ob \<and> PV_ProfileID r = OB_ProfileID ob) (GD_ProfileRevisions g) of
        None \<Rightarrow> Inl Conflict
      | Some r \<Rightarrow>
          if list_ex (\<lambda>t. TL_ID t = OB_ToolID ob \<and> TL_ServerID t = OB_ServerID ob) (GD_Tools g)
             \<and> (PV_ClientKind r = RuntimeClaude \<or> PV_ClientKind r = RuntimeCodex)
          then Inr (PV_ClientKind r) else Inl Conflict)"

definition aggregateKey :: "string \<Rightarrow> int \<Rightarrow> Observation \<Rightarrow> aggregate_row" where
  "aggregateKey clientKind day ob =
     \<lparr>AG_Day = day, AG_ProfileID = OB_ProfileID ob, AG_ProfileRevisionID = OB_ProfileRevisionID ob, AG_ServerID = OB_ServerID ob,
      AG_ToolID = OB_ToolID ob, AG_ClientKind = clientKind, AG_Decision = OB_Decision ob, AG_Outcome = OB_Outcome ob,
      AG_ErrorClass = (if OB_ErrorClass ob = ''none'' then '''' else OB_ErrorClass ob), AG_DurationBucket = OB_DurationBucket ob\<rparr>"

text \<open>The update of the row, or its insertion.\<close>

fun addCall :: "aggregate_row \<Rightarrow> int \<Rightarrow> (aggregate_row \<times> int \<times> int) list \<Rightarrow> (aggregate_row \<times> int \<times> int) list" where
  "addCall k e [] = [(k, 1, e)]"
| "addCall k e ((l, n, m) # rows) = (if l = k then (l, n + 1, m + e) # rows else (l, n, m) # addCall k e rows)"

text \<open>The loop over the items: the cursors it has reached, the result so far and the aggregates.\<close>

fun ingestLoop ::
    "governance_db \<Rightarrow> Observation list \<Rightarrow> (string \<Rightarrow> RelayObservationCursor) \<times> int \<times> int \<times> (aggregate_row \<times> int \<times> int) list
       \<Rightarrow> store_error + (int \<times> int \<times> (aggregate_row \<times> int \<times> int) list)" where
  "ingestLoop g [] (cursors, accepted, duplicates, rows) = Inr (accepted, duplicates, rows)"
| "ingestLoop g (ob # items) (cursors, accepted, duplicates, rows) =
     (let cursor = cursors (OB_ServerID ob) in
      if OC_BootID cursor = OB_BootID ob \<and> OB_Sequence ob \<le> OC_Sequence cursor then
        ingestLoop g items (cursors, accepted, duplicates + 1, rows)
      else case telemetryClientKind g ob of
        Inl e \<Rightarrow> Inl e
      | Inr clientKind \<Rightarrow> (case observationDay ob of
          Inl e \<Rightarrow> Inl e
        | Inr day \<Rightarrow>
            ingestLoop g items
              (cursors(OB_ServerID ob := \<lparr>OC_BootID = OB_BootID ob, OC_Sequence = OB_Sequence ob\<rparr>), accepted + 1, duplicates,
               addCall (aggregateKey clientKind day ob) (if OB_ErrorClass ob = ''none'' then 0 else 1) rows)))"

definition putCursor :: "string \<Rightarrow> cursor_row \<Rightarrow> (string \<times> cursor_row) list \<Rightarrow> (string \<times> cursor_row) list" where
  "putCursor s r rows = (s, r) # filter (\<lambda>(k, _). k \<noteq> s) rows"

text \<open>Rows are inserted for the servers that have none; those behind the batch move to its end.\<close>

definition insertCursors :: "time \<Rightarrow> string list \<Rightarrow> (string \<times> cursor_row) list \<Rightarrow> (string \<times> cursor_row) list" where
  "insertCursors now servers rows =
     foldl (\<lambda>rs s. if map_of rs s = None then putCursor s \<lparr>CR_BootID = '''', CR_Sequence = 0, CR_Updated = now\<rparr> rs else rs) rows servers"

definition advanceCursors :: "time \<Rightarrow> ObservationDrainResponse \<Rightarrow> string list \<Rightarrow> (string \<times> cursor_row) list \<Rightarrow> (string \<times> cursor_row) list" where
  "advanceCursors now response servers rows =
     foldl (\<lambda>rs s. case map_of rows s of
         None \<Rightarrow> rs
       | Some r \<Rightarrow>
           if CR_BootID r = DR_BootID response \<and> CR_Sequence r \<ge> DR_NextSequence response then rs
           else putCursor s \<lparr>CR_BootID = DR_BootID response, CR_Sequence = DR_NextSequence response, CR_Updated = now\<rparr> rs) rows servers"

definition cursorServers :: "governance_db \<Rightarrow> ObservationDrainResponse \<Rightarrow> string list" where
  "cursorServers g response = remdups (appliedRelayServerIDs g @ map OB_ServerID (DR_Items response))"

definition IngestRelayObservations ::
    "(string \<Rightarrow> bool) \<Rightarrow> time \<Rightarrow> ObservationDrainResponse \<Rightarrow> telemetry_db \<Rightarrow> store_error + (TelemetryIngestResult \<times> telemetry_db)" where
  "IngestRelayObservations uv now response d =
     (case validateObservationDrain uv response of
        Some e \<Rightarrow> Inl e
      | None \<Rightarrow>
          if \<not> list_all (\<lambda>ob. OB_ServerID ob \<in> set (knownRelayServerIDs (TM_Gov d))) (DR_Items response) then Inl Conflict
          else if list_ex (\<lambda>s. OC_BootID (cursorOf d s) = DR_BootID response \<and> DR_NextSequence response < OC_Sequence (cursorOf d s))
            (appliedRelayServerIDs (TM_Gov d)) then Inl Conflict
          else let servers = cursorServers (TM_Gov d) response; rows = insertCursors now servers (TM_Cursors d) in
            case ingestLoop (TM_Gov d) (DR_Items response) (cursorOf d, 0, 0, TM_Aggregates d) of
              Inl e \<Rightarrow> Inl e
            | Inr (accepted, duplicates, aggregates) \<Rightarrow>
                Inr (\<lparr>TI_Accepted = accepted, TI_Duplicates = duplicates,
                       TI_Cursor = \<lparr>OC_BootID = DR_BootID response, OC_Sequence = DR_NextSequence response\<rparr>\<rparr>,
                     d\<lparr>TM_Cursors := advanceCursors now response servers rows, TM_Aggregates := aggregates\<rparr>))"

text \<open>\<open>today\<close> is the date of \<open>now\<close> in UTC.\<close>

definition DeleteExpiredTelemetry :: "int \<Rightarrow> telemetry_db \<Rightarrow> int \<times> telemetry_db" where
  "DeleteExpiredTelemetry today d =
     (let kept = filter (\<lambda>(k, _). \<not> AG_Day k < today - 30) (TM_Aggregates d)
      in (int (length (TM_Aggregates d) - length kept), d\<lparr>TM_Aggregates := kept\<rparr>))"

section \<open>A pull\<close>

text \<open>
  The control operation \<open>relay_telemetry_pull\<close> of the worker: cursor, drain and ingestion. \<open>clock\<close> is the relay's time.
\<close>

abbreviation maxRelayObservationPull :: nat where "maxRelayObservationPull \<equiv> 1000"

definition telemetryPull ::
    "(string \<Rightarrow> bool) \<Rightarrow> time \<Rightarrow> rat \<Rightarrow> telemetry_db \<times> ObservationRing \<Rightarrow> (store_error + TelemetryIngestResult) \<times> telemetry_db \<times> ObservationRing" where
  "telemetryPull uv now clock = (\<lambda>(d, ring).
     let cursor = RelayObservationCursor d;
         afterBoot = (if OC_BootID cursor = '''' then None else Some (OC_BootID cursor))
     in case ring_drain clock afterBoot (OC_Sequence cursor) maxRelayObservationPull ring of
          None \<Rightarrow> (Inl (StoreErr (errorsNew ''observation drain failed'')), d, ring)
        | Some (response, ring') \<Rightarrow>
            (case IngestRelayObservations uv now response d of
               Inl e \<Rightarrow> (Inl e, d, ring')
             | Inr (result, d') \<Rightarrow> (Inr result, d', ring')))"

end
