(* ===== verification/Telemetry_Properties.thy ===== *)
theory Telemetry_Properties
  imports Relay_Telemetry
begin

text \<open>
  Every call the relay observes is counted once. The runs interleave calls recorded in the ring, expiry, restarts of the
  relay, changes of the governance tables and pulls, successful or not. The second half shows a state in which no pull
  succeeds any more.
\<close>

section \<open>Lists\<close>

lemma sorted_take_last:
  assumes "sorted_wrt (<) (map f xs)" and "x \<in> set xs" and "take n xs \<noteq> []" and "f x \<le> (f (last (take n xs)) :: int)"
  shows "x \<in> set (take n xs)"
proof (rule ccontr)
  assume "x \<notin> set (take n xs)"
  then have "x \<in> set (drop n xs)" using assms(2) set_append append_take_drop_id by (metis Un_iff)
  moreover have "sorted_wrt (<) (map f (take n xs) @ map f (drop n xs))" using assms(1) by (simp flip: map_append)
  ultimately have "f (last (take n xs)) < f x" using assms(3) by (auto simp: sorted_wrt_append)
  then show False using assms(4) by simp
qed

lemma sorted_map_distinct: "sorted_wrt (<) (map (f :: 'a \<Rightarrow> int) xs) \<Longrightarrow> distinct xs"
  by (induction xs) auto

lemma sorted_filter_map: "sorted_wrt (<) (map (f :: 'a \<Rightarrow> int) xs) \<Longrightarrow> sorted_wrt (<) (map f (filter P xs))"
  by (induction xs) auto

lemma sorted_drop_map: "sorted_wrt (<) (map (f :: 'a \<Rightarrow> int) xs) \<Longrightarrow> sorted_wrt (<) (map f (drop n xs))"
  using sorted_wrt_drop [of "(<)" "map f xs" n] by (simp add: drop_map)

lemma sorted_take_map: "sorted_wrt (<) (map (f :: 'a \<Rightarrow> int) xs) \<Longrightarrow> sorted_wrt (<) (map f (take n xs))"
  using sorted_wrt_take [of "(<)" "map f xs" n] by (simp add: take_map)

lemma sorted_dropWhile_map: "sorted_wrt (<) (map (f :: 'a \<Rightarrow> int) xs) \<Longrightarrow> sorted_wrt (<) (map f (dropWhile P xs))"
  by (induction xs) auto

section \<open>Aggregates\<close>

definition callsOf :: "(aggregate_row \<times> int \<times> int) list \<Rightarrow> aggregate_row \<Rightarrow> int" where
  "callsOf rows k = (case map_of rows k of None \<Rightarrow> 0 | Some (n, _) \<Rightarrow> n)"

lemma callsOf_addCall: "callsOf (addCall k e rows) l = callsOf rows l + (if l = k then 1 else 0)"
  by (induction k e rows rule: addCall.induct) (auto simp: callsOf_def)

definition tally :: "(aggregate_row \<times> Observation) list \<Rightarrow> aggregate_row \<Rightarrow> int" where
  "tally counted k = int (length (filter (\<lambda>(l, _). l = k) counted))"

lemma tally_simps [simp]:
  "tally [] k = 0"
  "tally (c # cs) k = (if fst c = k then 1 else 0) + tally cs k"
  "tally (cs @ ds) k = tally cs k + tally ds k"
  by (auto simp: tally_def split: prod.splits)

text \<open>\<open>ob\<close> may be counted under the key \<open>k\<close>.\<close>

definition keyFor :: "aggregate_row \<Rightarrow> Observation \<Rightarrow> bool" where
  "keyFor k ob = ((AG_ClientKind k = RuntimeClaude \<or> AG_ClientKind k = RuntimeCodex) \<and> observationDay ob = Inr (AG_Day k)
     \<and> k = aggregateKey (AG_ClientKind k) (AG_Day k) ob)"

definition alreadySeen :: "(string \<Rightarrow> RelayObservationCursor) \<Rightarrow> Observation \<Rightarrow> bool" where
  "alreadySeen cursors ob = (OC_BootID (cursors (OB_ServerID ob)) = OB_BootID ob \<and> OB_Sequence ob \<le> OC_Sequence (cursors (OB_ServerID ob)))"

lemma telemetryClientKind_Inr: "telemetryClientKind g ob = Inr c \<Longrightarrow> c = RuntimeClaude \<or> c = RuntimeCodex"
  by (auto simp: telemetryClientKind_def split: option.splits if_splits)

lemma ingestLoop_Inr:
  assumes "ingestLoop g items (cursors, a, u, rows) = Inr (a', u', rows')" and "sorted_wrt (<) (map OB_Sequence items)"
    and "\<forall>ob \<in> set items. OB_BootID ob = b"
  shows "\<exists>counted. map snd counted = filter (\<lambda>ob. \<not> alreadySeen cursors ob) items \<and> (\<forall>(k, ob) \<in> set counted. keyFor k ob)
    \<and> a' = a + int (length counted) \<and> (\<forall>k. callsOf rows' k = callsOf rows k + tally counted k)"
  using assms
proof (induction items arbitrary: cursors a u rows)
  case Nil
  then show ?case by simp
next
  case (Cons ob items)
  show ?case
  proof (cases "alreadySeen cursors ob")
    case True
    then show ?thesis using Cons by (force simp: alreadySeen_def)
  next
    case False
    let ?cursors = "cursors(OB_ServerID ob := \<lparr>OC_BootID = OB_BootID ob, OC_Sequence = OB_Sequence ob\<rparr>)"
    obtain c day where c: "telemetryClientKind g ob = Inr c" and day: "observationDay ob = Inr day"
      and rest: "ingestLoop g items (?cursors, a + 1, u, addCall (aggregateKey c day ob) (if OB_ErrorClass ob = ''none'' then 0 else 1) rows) = Inr (a', u', rows')"
      using Cons.prems(1) False by (auto simp: alreadySeen_def Let_def split: sum.splits)
    have sorted: "sorted_wrt (<) (map OB_Sequence items)" and "\<forall>ob \<in> set items. OB_BootID ob = b" using Cons.prems(2,3) by simp_all
    then obtain counted where i: "map snd counted = filter (\<lambda>ob. \<not> alreadySeen ?cursors ob) items" "\<forall>(k, ob) \<in> set counted. keyFor k ob"
      "a' = a + 1 + int (length counted)" "\<forall>k. callsOf rows' k = callsOf (addCall (aggregateKey c day ob) (if OB_ErrorClass ob = ''none'' then 0 else 1) rows) k + tally counted k"
      using Cons.IH [OF rest] by blast
    have "filter (\<lambda>ob. \<not> alreadySeen ?cursors ob) items = filter (\<lambda>ob. \<not> alreadySeen cursors ob) items"
    proof (rule filter_cong [OF refl])
      fix x assume "x \<in> set items"
      then have "OB_Sequence ob < OB_Sequence x" "OB_BootID x = OB_BootID ob" using Cons.prems(2,3) by simp_all
      then show "(\<not> alreadySeen ?cursors x) = (\<not> alreadySeen cursors x)" using False unfolding alreadySeen_def
        by (cases "OB_ServerID x = OB_ServerID ob") auto
    qed
    then have "map snd ((aggregateKey c day ob, ob) # counted) = filter (\<lambda>ob. \<not> alreadySeen cursors ob) (ob # items)" using i(1) False by simp
    moreover have "keyFor (aggregateKey c day ob) ob"
      using day telemetryClientKind_Inr [OF c] by (simp add: keyFor_def aggregateKey_def)
    then have "\<forall>(k, ob) \<in> set ((aggregateKey c day ob, ob) # counted). keyFor k ob" using i(2) by simp
    moreover have "a' = a + int (length ((aggregateKey c day ob, ob) # counted))" using i(3) by simp
    moreover have "\<forall>k. callsOf rows' k = callsOf rows k + tally ((aggregateKey c day ob, ob) # counted) k" using i(4) by (simp add: callsOf_addCall eq_commute)
    ultimately show ?thesis by blast
  qed
qed

section \<open>Cursors\<close>

lemma map_of_filter_other: "map_of (filter (\<lambda>(k, _). k \<noteq> s) rows) t = (if t = s then None else map_of rows t)"
  by (induction rows) auto

lemma map_of_putCursor [simp]: "map_of (putCursor s r rows) = (map_of rows)(s \<mapsto> r)"
  by (auto simp: putCursor_def fun_eq_iff map_of_filter_other)

lemma distinct_putCursor: "distinct (map fst rows) \<Longrightarrow> distinct (map fst (putCursor s r rows))"
  by (auto simp: putCursor_def distinct_map inj_on_def)

lemma map_of_insertCursors:
  "map_of (insertCursors now ss rows) t = (if t \<in> set ss \<and> map_of rows t = None then Some \<lparr>CR_BootID = '''', CR_Sequence = 0, CR_Updated = now\<rparr> else map_of rows t)"
  unfolding insertCursors_def by (induction ss arbitrary: rows) auto

lemma map_of_advanceCursors:
  "map_of (advanceCursors now response ss rows) t =
     (if t \<in> set ss then (case map_of rows t of None \<Rightarrow> None | Some r \<Rightarrow>
        if CR_BootID r = DR_BootID response \<and> CR_Sequence r \<ge> DR_NextSequence response then Some r
        else Some \<lparr>CR_BootID = DR_BootID response, CR_Sequence = DR_NextSequence response, CR_Updated = now\<rparr>)
      else map_of rows t)"
proof -
  let ?step = "\<lambda>rs s. case map_of rows s of None \<Rightarrow> rs | Some r \<Rightarrow>
      if CR_BootID r = DR_BootID response \<and> CR_Sequence r \<ge> DR_NextSequence response then rs
      else putCursor s \<lparr>CR_BootID = DR_BootID response, CR_Sequence = DR_NextSequence response, CR_Updated = now\<rparr> rs"
  have "map_of (foldl ?step rs ss) t =
     (if t \<in> set ss then (case map_of rows t of None \<Rightarrow> map_of rs t | Some r \<Rightarrow>
        if CR_BootID r = DR_BootID response \<and> CR_Sequence r \<ge> DR_NextSequence response then map_of rs t
        else Some \<lparr>CR_BootID = DR_BootID response, CR_Sequence = DR_NextSequence response, CR_Updated = now\<rparr>)
      else map_of rs t)" for rs
    by (induction ss arbitrary: rs) (auto split: option.splits)
  from this [of rows] show ?thesis by (auto simp: advanceCursors_def split: option.splits)
qed

lemma distinct_cursors:
  "distinct (map fst rows) \<Longrightarrow> distinct (map fst (insertCursors now ss rows))"
  "distinct (map fst rows') \<Longrightarrow> distinct (map fst (foldl (\<lambda>rs s. case map_of rows s of None \<Rightarrow> rs | Some r \<Rightarrow> if P r then rs else putCursor s q rs) rows' ss))"
  by (unfold insertCursors_def, induction ss arbitrary: rows, auto intro: distinct_putCursor)
    (induction ss arbitrary: rows', auto intro: distinct_putCursor split: option.splits)

lemma distinct_advanceCursors: "distinct (map fst rows) \<Longrightarrow> distinct (map fst (advanceCursors now response ss rows))"
  unfolding advanceCursors_def by (rule distinct_cursors(2))

lemma cursorOf_row: "OC_BootID (cursorOf d s) = b \<Longrightarrow> b \<noteq> '''' \<Longrightarrow> \<exists>r. map_of (TM_Cursors d) s = Some r \<and> CR_BootID r = b \<and> CR_Sequence r = OC_Sequence (cursorOf d s)"
  by (auto simp: cursorOf_def split: option.splits)

lemma latestCursor_row:
  assumes "distinct (map fst rows)" and "OC_BootID (latestCursor rows) = b" and "b \<noteq> ''''"
  shows "\<exists>s r. map_of rows s = Some r \<and> CR_BootID r = b \<and> CR_Sequence r = OC_Sequence (latestCursor rows)"
proof -
  let ?xs = "sort_key (\<lambda>(s, r). - CR_Updated r) (sort_key fst (filter (\<lambda>(s, r). CR_BootID r \<noteq> '''') rows))"
  obtain x xs where xs: "?xs = x # xs" using assms(2,3) by (cases ?xs) (auto simp: latestCursor_def noCursor_def)
  have "x \<in> set ?xs" using xs by simp
  then have "x \<in> set rows" by simp
  then have "map_of rows (fst x) = Some (snd x)" using assms(1) by simp
  then show ?thesis using xs assms(2) by (cases x) (auto simp: latestCursor_def)
qed

lemma RelayObservationCursor_row:
  assumes "distinct (map fst (TM_Cursors d))" and "OC_BootID (RelayObservationCursor d) = b" and "b \<noteq> ''''"
  shows "\<exists>s r. map_of (TM_Cursors d) s = Some r \<and> CR_BootID r = b \<and> CR_Sequence r = OC_Sequence (RelayObservationCursor d)"
proof (cases "appliedRelayServerIDs (TM_Gov d) = []")
  case True
  then show ?thesis using latestCursor_row assms by (simp add: RelayObservationCursor_def)
next
  case False
  define cursors where "cursors = map (cursorOf d) (appliedRelayServerIDs (TM_Gov d))"
  define boots where "boots = remdups (filter (\<lambda>b. b \<noteq> '''') (map OC_BootID cursors))"
  have ne: "cursors \<noteq> []" using False by (simp add: cursors_def)
  have c: "RelayObservationCursor d = (if list_ex (\<lambda>c. OC_BootID c = '''') cursors \<or> length boots \<noteq> 1 then noCursor
      else \<lparr>OC_BootID = hd boots, OC_Sequence = Min (set (map OC_Sequence cursors))\<rparr>)"
    using ne by (simp add: RelayObservationCursor_def Let_def flip: cursors_def boots_def)
  then have g: "\<not> list_ex (\<lambda>c. OC_BootID c = '''') cursors" "length boots = 1" "hd boots = b"
      and s: "OC_Sequence (RelayObservationCursor d) = Min (set (map OC_Sequence cursors))"
    using assms(2,3) by (auto simp: noCursor_def split: if_splits)
  have one: "set boots = {b}" using g(2,3) by (cases boots) auto
  have "Min (set (map OC_Sequence cursors)) \<in> set (map OC_Sequence cursors)" using ne by (intro Min_in) auto
  then obtain s' where s': "s' \<in> set (appliedRelayServerIDs (TM_Gov d))" "OC_Sequence (cursorOf d s') = Min (set (map OC_Sequence cursors))"
    by (auto simp: cursors_def)
  have "OC_BootID (cursorOf d s') \<in> set boots" using s'(1) g(1) by (auto simp: boots_def cursors_def list_ex_iff)
  then have "OC_BootID (cursorOf d s') = b" using one by simp
  then show ?thesis using cursorOf_row [of d s' b] assms(3) s' s by metis
qed

section \<open>A batch\<close>

lemma checkObservations_Inr:
  assumes "checkObservations uv response previous items = Inr r"
  shows "sorted_wrt (<) (previous # map OB_Sequence items) \<and> (\<forall>ob \<in> set items. OB_BootID ob = DR_BootID response \<and> OB_Sequence ob \<le> DR_NextSequence response)"
  using assms
proof (induction items arbitrary: previous)
  case (Cons ob items)
  then have "observationError uv response previous ob = None" and "checkObservations uv response (OB_Sequence ob) items = Inr r"
    by (simp_all split: option.splits)
  then show ?case using Cons.IH by (force simp: observationError_def split: if_splits)
qed simp

lemma validateObservationDrain_None:
  assumes "validateObservationDrain uv response = None"
  shows "sorted_wrt (<) (map OB_Sequence (DR_Items response))" "\<forall>ob \<in> set (DR_Items response). OB_BootID ob = DR_BootID response"
    "\<forall>ob \<in> set (DR_Items response). 0 < OB_Sequence ob \<and> OB_Sequence ob \<le> DR_NextSequence response"
  using assms by (auto simp: validateObservationDrain_def split: if_splits sum.splits dest!: checkObservations_Inr)

text \<open>What a successful ingestion has done: the newly counted observations and the cursors.\<close>

lemma Ingest_Inr:
  assumes "IngestRelayObservations uv now response d = Inr (result, d')" and "DR_BootID response \<noteq> ''''"
  shows "\<exists>counted. map snd counted = filter (\<lambda>ob. \<not> alreadySeen (cursorOf d) ob) (DR_Items response) \<and> (\<forall>(k, ob) \<in> set counted. keyFor k ob)
      \<and> (\<forall>k. callsOf (TM_Aggregates d') k = callsOf (TM_Aggregates d) k + tally counted k)"
    and "TM_Gov d' = TM_Gov d"
    and "distinct (map fst (TM_Cursors d)) \<Longrightarrow> distinct (map fst (TM_Cursors d'))"
    and "map_of (TM_Cursors d') t = (if t \<in> set (cursorServers (TM_Gov d) response)
        then (case map_of (TM_Cursors d) t of
            Some r \<Rightarrow> if CR_BootID r = DR_BootID response \<and> CR_Sequence r \<ge> DR_NextSequence response then Some r
              else Some \<lparr>CR_BootID = DR_BootID response, CR_Sequence = DR_NextSequence response, CR_Updated = now\<rparr>
          | None \<Rightarrow> Some \<lparr>CR_BootID = DR_BootID response, CR_Sequence = DR_NextSequence response, CR_Updated = now\<rparr>)
        else map_of (TM_Cursors d) t)"
    and "sorted_wrt (<) (map OB_Sequence (DR_Items response))" "\<forall>ob \<in> set (DR_Items response). OB_BootID ob = DR_BootID response"
      "\<forall>ob \<in> set (DR_Items response). OB_Sequence ob \<le> DR_NextSequence response"
proof -
  obtain accepted duplicates aggregates where v: "validateObservationDrain uv response = None"
    and l: "ingestLoop (TM_Gov d) (DR_Items response) (cursorOf d, 0, 0, TM_Aggregates d) = Inr (accepted, duplicates, aggregates)"
    and d': "d' = d\<lparr>TM_Cursors := advanceCursors now response (cursorServers (TM_Gov d) response) (insertCursors now (cursorServers (TM_Gov d) response) (TM_Cursors d)),
        TM_Aggregates := aggregates\<rparr>"
    using assms(1) by (auto simp: IngestRelayObservations_def Let_def split: option.splits if_splits sum.splits)
  note V = validateObservationDrain_None [OF v]
  show "sorted_wrt (<) (map OB_Sequence (DR_Items response))" "\<forall>ob \<in> set (DR_Items response). OB_BootID ob = DR_BootID response"
    "\<forall>ob \<in> set (DR_Items response). OB_Sequence ob \<le> DR_NextSequence response" using V by blast+
  show "\<exists>counted. map snd counted = filter (\<lambda>ob. \<not> alreadySeen (cursorOf d) ob) (DR_Items response) \<and> (\<forall>(k, ob) \<in> set counted. keyFor k ob)
      \<and> (\<forall>k. callsOf (TM_Aggregates d') k = callsOf (TM_Aggregates d) k + tally counted k)"
    using ingestLoop_Inr [OF l V(1,2)] d' by auto
  show "TM_Gov d' = TM_Gov d" using d' by simp
  show "distinct (map fst (TM_Cursors d)) \<Longrightarrow> distinct (map fst (TM_Cursors d'))" using d' distinct_cursors(1) distinct_advanceCursors by simp
  show "map_of (TM_Cursors d') t = (if t \<in> set (cursorServers (TM_Gov d) response)
        then (case map_of (TM_Cursors d) t of
            Some r \<Rightarrow> if CR_BootID r = DR_BootID response \<and> CR_Sequence r \<ge> DR_NextSequence response then Some r
              else Some \<lparr>CR_BootID = DR_BootID response, CR_Sequence = DR_NextSequence response, CR_Updated = now\<rparr>
          | None \<Rightarrow> Some \<lparr>CR_BootID = DR_BootID response, CR_Sequence = DR_NextSequence response, CR_Updated = now\<rparr>)
        else map_of (TM_Cursors d) t)"
    using d' assms(2) by (auto simp: map_of_advanceCursors map_of_insertCursors split: option.splits)
qed

section \<open>Runs\<close>

type_synonym relay_state = "telemetry_db \<times> ObservationRing \<times> Observation list \<times> string list"

text \<open>
  A state has the database, the ring, all observations recorded so far and the boot ids drawn so far. The governance tables
  change at any time; the servers of the cursors are not deleted.
\<close>

inductive relayStep :: "(string \<Rightarrow> bool) \<Rightarrow> relay_state \<Rightarrow> relay_state \<Rightarrow> bool" for uv where
  Record: "ring_record clock ob ring = (observed, ring') \<Longrightarrow> relayStep uv (d, ring, recorded, boots) (d, ring', observed # recorded, boots)"
| Pull: "telemetryPull uv now clock (d, ring) = (result, d', ring') \<Longrightarrow> relayStep uv (d, ring, recorded, boots) (d', ring', recorded, boots)"
| Restart: "boot \<noteq> '''' \<Longrightarrow> boot \<notin> set boots \<Longrightarrow> relayStep uv (d, ring, recorded, boots) (d, newRing limit boot, recorded, boot # boots)"
| Govern: "relayStep uv (d, ring, recorded, boots) (d\<lparr>TM_Gov := g\<rparr>, ring, recorded, boots)"

definition relayStart :: "governance_db \<Rightarrow> nat \<Rightarrow> string \<Rightarrow> relay_state" where
  "relayStart g limit boot = (\<lparr>TM_Gov = g, TM_Cursors = [], TM_Aggregates = []\<rparr>, newRing limit boot, [], [boot])"

definition obKey :: "Observation \<Rightarrow> string \<times> int" where
  "obKey ob = (OB_BootID ob, OB_Sequence ob)"

text \<open>The ring and what has been recorded.\<close>

fun ring_ok :: "relay_state \<Rightarrow> bool" where
  "ring_ok (d, ring, recorded, boots) =
     (RG_BootID ring \<in> set boots \<and> '''' \<notin> set boots \<and> 0 \<le> RG_Sequence ring
      \<and> sorted_wrt (<) (map OB_Sequence (RG_Items ring)) \<and> set (RG_Items ring) \<subseteq> set recorded
      \<and> (\<forall>ob \<in> set (RG_Items ring). OB_BootID ob = RG_BootID ring \<and> 1 \<le> OB_Sequence ob)
      \<and> distinct (map obKey recorded)
      \<and> (\<forall>ob \<in> set recorded. OB_BootID ob \<in> set boots \<and> (OB_BootID ob = RG_BootID ring \<longrightarrow> OB_Sequence ob \<le> RG_Sequence ring)))"

lemma ring_purge_simps [simp]: "RG_BootID (ring_purge now ring) = RG_BootID ring" "RG_Sequence (ring_purge now ring) = RG_Sequence ring"
  "RG_Limit (ring_purge now ring) = RG_Limit ring"
  by (simp_all add: ring_purge_def)

lemma ring_purge_items: "set (RG_Items (ring_purge now ring)) \<subseteq> set (RG_Items ring)"
  "sorted_wrt (<) (map OB_Sequence (RG_Items ring)) \<Longrightarrow> sorted_wrt (<) (map OB_Sequence (RG_Items (ring_purge now ring)))"
  by (auto simp: ring_purge_def sorted_dropWhile_map dest: set_dropWhileD)

lemma ring_ok_purge: "ring_ok (d, ring, recorded, boots) \<Longrightarrow> ring_ok (d', ring_purge now ring, recorded, boots)"
  using ring_purge_items(1) [where now = now and ring = ring] ring_purge_items(2) [where now = now and ring = ring] by auto

lemma drain_Some:
  assumes "ring_drain clock b c limit ring = Some (response, ring')"
  shows "ring' = ring_purge clock ring" "DR_BootID response = RG_BootID ring"
    "DR_Items response = take limit (filter (\<lambda>ob. OB_Sequence ob > (if b = Some (RG_BootID ring) then c else 0)) (RG_Items ring'))"
    "DR_NextSequence response = (if DR_Items response = [] then (if b = Some (RG_BootID ring) then c else 0) else OB_Sequence (last (DR_Items response)))"
    "0 \<le> c"
  using assms by (auto simp: ring_drain_def Let_def split: if_splits)

lemma telemetryPull_cases:
  assumes "telemetryPull uv now clock (d, ring) = (result, d', ring')"
  shows "(d' = d \<and> (ring' = ring \<or> ring' = ring_purge clock ring)) \<or> (\<exists>response r.
      ring_drain clock (if OC_BootID (RelayObservationCursor d) = '''' then None else Some (OC_BootID (RelayObservationCursor d)))
        (OC_Sequence (RelayObservationCursor d)) maxRelayObservationPull ring = Some (response, ring')
      \<and> IngestRelayObservations uv now response d = Inr (r, d'))"
  using assms by (auto simp: telemetryPull_def Let_def drain_Some(1) split: option.splits sum.splits)

lemma ring_ok_step:
  assumes "relayStep uv s s'" and "ring_ok s"
  shows "ring_ok s'"
  using assms
proof (induction rule: relayStep.induct)
  case (Record clock ob ring observed ring' d recorded boots)
  have p: "ring_ok (d, ring_purge clock ring, recorded, boots)" using ring_ok_purge Record.prems .
  define r where "r = ring_purge clock ring"
  have o: "observed = ob\<lparr>OB_BootID := RG_BootID r, OB_Sequence := RG_Sequence r + 1, OB_ObservedAt := Float clock\<rparr>"
    and r': "RG_BootID ring' = RG_BootID r" "RG_Sequence ring' = RG_Sequence r + 1"
      "RG_Items ring' = drop (length (RG_Items r @ [observed]) - RG_Limit r) (RG_Items r @ [observed])"
    using Record.hyps by (auto simp: ring_record_def Let_def r_def simp del: drop_append)
  have s: "OB_BootID observed = RG_BootID r" "OB_Sequence observed = RG_Sequence r + 1" using o by simp_all
  have P: "RG_BootID r \<in> set boots" "'''' \<notin> set boots" "0 \<le> RG_Sequence r" "sorted_wrt (<) (map OB_Sequence (RG_Items r))" "set (RG_Items r) \<subseteq> set recorded"
      "\<forall>ob \<in> set (RG_Items r). OB_BootID ob = RG_BootID r \<and> 1 \<le> OB_Sequence ob" "distinct (map obKey recorded)"
      "\<forall>ob \<in> set recorded. OB_BootID ob \<in> set boots \<and> (OB_BootID ob = RG_BootID r \<longrightarrow> OB_Sequence ob \<le> RG_Sequence r)"
    using p unfolding r_def ring_ok.simps by blast+
  have below: "\<forall>ob \<in> set (RG_Items r). OB_Sequence ob < OB_Sequence observed" using P(5,6,8) s(2) by force
  have "sorted_wrt (<) (map OB_Sequence (RG_Items r @ [observed]))" using P(4) below by (simp add: sorted_wrt_append)
  then have sorted: "sorted_wrt (<) (map OB_Sequence (RG_Items ring'))" unfolding r'(3) by (rule sorted_drop_map)
  have sub: "set (RG_Items ring') \<subseteq> insert observed (set (RG_Items r))" unfolding r'(3) using set_drop_subset by fastforce
  have fresh: "obKey observed \<notin> obKey ` set recorded" using P(8) s by (force simp: obKey_def)
  show ?case unfolding ring_ok.simps
  proof (intro conjI)
    show "RG_BootID ring' \<in> set boots" "'''' \<notin> set boots" "0 \<le> RG_Sequence ring'" using P(1,2,3) r' by simp_all
    show "sorted_wrt (<) (map OB_Sequence (RG_Items ring'))" by (rule sorted)
    show "set (RG_Items ring') \<subseteq> set (observed # recorded)" using sub P(5) by auto
    show "\<forall>ob \<in> set (RG_Items ring'). OB_BootID ob = RG_BootID ring' \<and> 1 \<le> OB_Sequence ob" using sub P(3,6) s r'(1) by auto
    show "distinct (map obKey (observed # recorded))" using fresh P(7) by simp
    show "\<forall>ob \<in> set (observed # recorded). OB_BootID ob \<in> set boots \<and> (OB_BootID ob = RG_BootID ring' \<longrightarrow> OB_Sequence ob \<le> RG_Sequence ring')"
    proof
      fix x assume "x \<in> set (observed # recorded)"
      then consider "x = observed" | "x \<in> set recorded" by auto
      then show "OB_BootID x \<in> set boots \<and> (OB_BootID x = RG_BootID ring' \<longrightarrow> OB_Sequence x \<le> RG_Sequence ring')"
        using P(1,8) s r'(1,2) by cases fastforce+
    qed
  qed
next
  case (Pull now clock d ring result d' ring' recorded boots)
  have "ring' = ring \<or> ring' = ring_purge clock ring" using telemetryPull_cases [OF Pull.hyps] drain_Some(1) by metis
  then show ?case
  proof
    assume "ring' = ring"
    then show ?thesis using Pull.prems by simp
  next
    assume "ring' = ring_purge clock ring"
    then show ?thesis using ring_ok_purge [OF Pull.prems] by blast
  qed
next
  case (Restart boot boots d ring recorded limit)
  then show ?case by (auto simp: newRing_def)
next
  case (Govern d ring recorded boots g)
  then show ?case by simp
qed

section \<open>Counting\<close>

text \<open>
  \<open>counted\<close> is what the aggregates hold. A counted observation of the current boot lies below the cursor of its server;
  whatever the ring still has below a cursor of the current boot is counted.
\<close>

definition below :: "telemetry_db \<Rightarrow> string \<Rightarrow> Observation \<Rightarrow> bool" where
  "below d s ob = (\<exists>r. map_of (TM_Cursors d) s = Some r \<and> CR_BootID r = OB_BootID ob \<and> OB_Sequence ob \<le> CR_Sequence r)"

definition cursors_ok :: "telemetry_db \<Rightarrow> ObservationRing \<Rightarrow> string list \<Rightarrow> bool" where
  "cursors_ok d ring boots = (distinct (map fst (TM_Cursors d)) \<and> (\<forall>s r. map_of (TM_Cursors d) s = Some r \<longrightarrow>
     (CR_BootID r = '''' \<or> CR_BootID r \<in> set boots) \<and> (CR_BootID r = RG_BootID ring \<longrightarrow> CR_Sequence r \<le> RG_Sequence ring)))"

fun counting_ok :: "(aggregate_row \<times> Observation) list \<Rightarrow> relay_state \<Rightarrow> bool" where
  "counting_ok counted (d, ring, recorded, boots) =
     (snd ` set counted \<subseteq> set recorded \<and> distinct (map (obKey \<circ> snd) counted) \<and> (\<forall>(k, ob) \<in> set counted. keyFor k ob)
      \<and> (\<forall>k. callsOf (TM_Aggregates d) k = tally counted k)
      \<and> (\<forall>ob \<in> snd ` set counted. OB_BootID ob = RG_BootID ring \<longrightarrow> below d (OB_ServerID ob) ob)
      \<and> (\<forall>s. \<forall>ob \<in> set (RG_Items ring). below d s ob \<longrightarrow> ob \<in> snd ` set counted))"

lemma alreadySeen_below:
  assumes "OB_BootID ob \<noteq> ''''"
  shows "alreadySeen (cursorOf d) ob = below d (OB_ServerID ob) ob"
  using assms by (auto simp: alreadySeen_def below_def cursorOf_def split: option.splits)

text \<open>The drain from the store's cursor reaches every item that is not below it.\<close>

lemma drained_all:
  assumes "ring_drain clock b c limit ring = Some (response, ring')" and "ring_ok (d, ring, recorded, boots)"
    and "ob \<in> set (RG_Items ring')" and "OB_Sequence ob \<le> DR_NextSequence response"
  shows "ob \<in> set (DR_Items response) \<or> b = Some (RG_BootID ring) \<and> OB_Sequence ob \<le> c"
proof -
  note D = drain_Some [OF assms(1)]
  define low where "low = (if b = Some (RG_BootID ring) then c else 0)"
  let ?fs = "filter (\<lambda>ob. OB_Sequence ob > low) (RG_Items ring')"
  have ok: "ring_ok (d, ring', recorded, boots)" using ring_ok_purge [OF assms(2)] unfolding D(1) by blast
  then have "1 \<le> OB_Sequence ob" using assms(3) by simp
  have sorted: "sorted_wrt (<) (map OB_Sequence ?fs)" by (rule sorted_filter_map) (use ok in simp)
  show ?thesis
  proof (cases "OB_Sequence ob \<le> low")
    case True
    then show ?thesis using \<open>1 \<le> OB_Sequence ob\<close> by (auto simp: low_def split: if_splits)
  next
    case False
    then have "ob \<in> set ?fs" using assms(3) by simp
    moreover have "DR_Items response = take limit ?fs" using D(3) by (simp add: low_def)
    moreover have "DR_Items response \<noteq> []" using D(4) assms(4) False by (auto simp: low_def split: if_splits)
    ultimately show ?thesis using sorted_take_last [OF sorted] assms(4) D(4) by auto
  qed
qed

lemma distinct_keys: "distinct (map obKey xs) \<Longrightarrow> x \<in> set xs \<Longrightarrow> y \<in> set xs \<Longrightarrow> obKey x = obKey y \<Longrightarrow> x = y"
  by (auto simp: distinct_map inj_on_def)

lemma pull_counts:
  assumes ring: "ring_ok (d, ring, recorded, boots)" and cursors: "cursors_ok d ring boots" and ok: "counting_ok counted (d, ring, recorded, boots)"
    and drain: "ring_drain clock b c limit ring = Some (response, ring')" and ingest: "IngestRelayObservations uv now response d = Inr (result, d')"
    and low: "b = Some (RG_BootID ring) \<Longrightarrow> \<exists>s r. map_of (TM_Cursors d) s = Some r \<and> CR_BootID r = RG_BootID ring \<and> CR_Sequence r = c"
  shows "cursors_ok d' ring' boots \<and> (\<exists>new. counting_ok (counted @ new) (d', ring', recorded, boots))"
proof -
  note D = drain_Some [OF drain]
  have ring': "ring_ok (d', ring', recorded, boots)" using ring_ok_purge [OF ring] unfolding D(1) by blast
  have boot: "RG_BootID ring' = RG_BootID ring" "RG_Sequence ring' = RG_Sequence ring" using D(1) by simp_all
  have "RG_BootID ring \<noteq> ''''" using ring by auto
  then have b: "DR_BootID response \<noteq> ''''" using D(2) by simp
  obtain new where new: "map snd new = filter (\<lambda>ob. \<not> alreadySeen (cursorOf d) ob) (DR_Items response)" "\<forall>(k, ob) \<in> set new. keyFor k ob"
      "\<forall>k. callsOf (TM_Aggregates d') k = callsOf (TM_Aggregates d) k + tally new k"
    using Ingest_Inr(1) [OF ingest b] by blast
  have rows: "map_of (TM_Cursors d') t = (if t \<in> set (cursorServers (TM_Gov d) response)
        then (case map_of (TM_Cursors d) t of
            Some r \<Rightarrow> if CR_BootID r = DR_BootID response \<and> CR_Sequence r \<ge> DR_NextSequence response then Some r
              else Some \<lparr>CR_BootID = DR_BootID response, CR_Sequence = DR_NextSequence response, CR_Updated = now\<rparr>
          | None \<Rightarrow> Some \<lparr>CR_BootID = DR_BootID response, CR_Sequence = DR_NextSequence response, CR_Updated = now\<rparr>)
        else map_of (TM_Cursors d) t)" for t
    using Ingest_Inr(4) [OF ingest b] .
  have items: "set (DR_Items response) \<subseteq> set (RG_Items ring')" using D(3) by (auto dest: in_set_takeD)
  have rec: "set (RG_Items ring') \<subseteq> set recorded" using ring' by simp
  have itemboot: "\<And>ob. ob \<in> set (RG_Items ring') \<Longrightarrow> OB_BootID ob = RG_BootID ring" using ring' boot by simp
  have next_le: "DR_NextSequence response \<le> RG_Sequence ring"
  proof (cases "DR_Items response = []")
    case True
    then show ?thesis using D(4) low cursors ring by (fastforce simp: cursors_ok_def split: if_splits)
  next
    case False
    then have l: "last (DR_Items response) \<in> set (RG_Items ring')" using items last_in_set by blast
    then have "last (DR_Items response) \<in> set recorded" using rec by blast
    moreover have "OB_BootID (last (DR_Items response)) = RG_BootID ring" using l itemboot by blast
    ultimately show ?thesis using False D(4) ring by auto
  qed
  have "cursors_ok d' ring' boots"
    using cursors next_le ring D(2) Ingest_Inr(3) [OF ingest b] unfolding cursors_ok_def boot rows by (auto split: option.splits if_splits)
  moreover have keep: "below d' s ob" if "below d s ob" "OB_BootID ob = RG_BootID ring" for s ob
    using that D(2) unfolding below_def rows by (auto split: option.splits)
  have reach: "below d' (OB_ServerID ob) ob" if "ob \<in> set (DR_Items response)" for ob
  proof -
    have "OB_ServerID ob \<in> set (cursorServers (TM_Gov d) response)" using that by (simp add: cursorServers_def)
    moreover have "OB_Sequence ob \<le> DR_NextSequence response" "OB_BootID ob = DR_BootID response"
      using that Ingest_Inr(6,7) [OF ingest b] by blast+
    ultimately show ?thesis unfolding below_def rows by (auto split: option.splits)
  qed
  have seen: "alreadySeen (cursorOf d) ob = below d (OB_ServerID ob) ob" if "ob \<in> set (DR_Items response)" for ob
    using that items itemboot \<open>RG_BootID ring \<noteq> ''''\<close> by (intro alreadySeen_below) auto
  have newobs: "snd ` set new = {ob \<in> set (DR_Items response). \<not> below d (OB_ServerID ob) ob}"
    using new(1) seen by (metis (mono_tags, lifting) Collect_cong list.set_map set_filter)
  have C: "snd ` set counted \<subseteq> set recorded" "distinct (map (obKey \<circ> snd) counted)" "\<forall>(k, ob) \<in> set counted. keyFor k ob"
      "\<forall>k. callsOf (TM_Aggregates d) k = tally counted k" "\<forall>ob \<in> snd ` set counted. OB_BootID ob = RG_BootID ring \<longrightarrow> below d (OB_ServerID ob) ob"
      "\<forall>s. \<forall>ob \<in> set (RG_Items ring). below d s ob \<longrightarrow> ob \<in> snd ` set counted"
    using ok unfolding counting_ok.simps by blast+
  have recd: "distinct (map obKey recorded)" using ring by simp
  have "counting_ok (counted @ new) (d', ring', recorded, boots)"
    unfolding counting_ok.simps
  proof (intro conjI)
    show "snd ` set (counted @ new) \<subseteq> set recorded" unfolding set_append image_Un newobs using C(1) items rec by blast
    show "\<forall>(k, ob) \<in> set (counted @ new). keyFor k ob" using C(3) new(2) by auto
    show "\<forall>k. callsOf (TM_Aggregates d') k = tally (counted @ new) k" using C(4) new(3) by simp
    have "distinct (map snd new)" unfolding new(1) using sorted_map_distinct [OF Ingest_Inr(5) [OF ingest b]] by simp
    moreover have new_rec: "x \<in> set recorded" if "x \<in> snd ` set new" for x using that unfolding newobs using items rec by blast
    then have "inj_on obKey (snd ` set new)" using distinct_keys [OF recd] by (intro inj_onI) blast
    ultimately have "distinct (map (obKey \<circ> snd) new)" by (simp add: distinct_map comp_inj_on)
    moreover have "(obKey \<circ> snd) ` set counted \<inter> (obKey \<circ> snd) ` set new = {}"
    proof -
      have False if "x \<in> snd ` set counted" "y \<in> snd ` set new" "obKey x = obKey y" for x y
      proof -
        have "x = y" using distinct_keys [OF recd _ _ that(3)] that(1,2) C(1) new_rec by blast
        then show False using that(1,2) C(5) items itemboot unfolding newobs by blast
      qed
      then show ?thesis by fastforce
    qed
    ultimately show "distinct (map (obKey \<circ> snd) (counted @ new))" using C(2) by simp
    show "\<forall>ob \<in> snd ` set (counted @ new). OB_BootID ob = RG_BootID ring' \<longrightarrow> below d' (OB_ServerID ob) ob"
      unfolding set_append image_Un newobs boot(1) using C(5) keep reach by blast
    show "\<forall>s. \<forall>ob \<in> set (RG_Items ring'). below d' s ob \<longrightarrow> ob \<in> snd ` set (counted @ new)"
    proof (intro allI ballI impI)
      fix s ob assume o: "ob \<in> set (RG_Items ring')" "below d' s ob"
      have in_ring: "ob \<in> set (RG_Items ring)" using o(1) ring_purge_items(1) D(1) by blast
      show "ob \<in> snd ` set (counted @ new)"
      proof (cases "\<exists>t. below d t ob")
        case True
        then show ?thesis using C(6) in_ring by auto
      next
        case False
        then have "OB_Sequence ob \<le> DR_NextSequence response"
          using o(2) unfolding below_def rows by (auto split: option.splits if_splits)
        then have "ob \<in> set (DR_Items response) \<or> b = Some (RG_BootID ring) \<and> OB_Sequence ob \<le> c"
          using drained_all [OF drain ring o(1)] by blast
        moreover have "\<not> (b = Some (RG_BootID ring) \<and> OB_Sequence ob \<le> c)"
          using low False itemboot [OF o(1)] unfolding below_def by force
        ultimately show ?thesis using newobs False by auto
      qed
    qed
  qed
  then show ?thesis using calculation by blast
qed

text \<open>Nothing is counted: the ring loses items, or gains items that lie below no cursor.\<close>

lemma counting_frame:
  assumes ok: "counting_ok counted (d, ring, recorded, boots)" and sub: "set recorded \<subseteq> set recorded'"
    and same: "TM_Cursors d' = TM_Cursors d" "TM_Aggregates d' = TM_Aggregates d"
    and boot: "\<forall>ob \<in> set recorded. OB_BootID ob = RG_BootID ring' \<longrightarrow> OB_BootID ob = RG_BootID ring"
    and items: "\<forall>ob \<in> set (RG_Items ring'). (\<exists>s. below d s ob) \<longrightarrow> ob \<in> set (RG_Items ring)"
  shows "\<exists>new. counting_ok (counted @ new) (d', ring', recorded', boots')"
proof -
  have b: "below d' = below d" using same(1) by (simp add: below_def fun_eq_iff)
  have "counting_ok counted (d', ring', recorded', boots')"
    using ok unfolding counting_ok.simps b same
  proof (elim conjE, intro conjI)
    assume C: "snd ` set counted \<subseteq> set recorded" "\<forall>ob \<in> snd ` set counted. OB_BootID ob = RG_BootID ring \<longrightarrow> below d (OB_ServerID ob) ob"
      "\<forall>s. \<forall>ob \<in> set (RG_Items ring). below d s ob \<longrightarrow> ob \<in> snd ` set counted"
    show "snd ` set counted \<subseteq> set recorded'" using C(1) sub by (rule subset_trans)
    show "\<forall>ob \<in> snd ` set counted. OB_BootID ob = RG_BootID ring' \<longrightarrow> below d (OB_ServerID ob) ob" using C(1,2) boot by blast
    show "\<forall>s. \<forall>ob \<in> set (RG_Items ring'). below d s ob \<longrightarrow> ob \<in> snd ` set counted" using C(3) items by blast
  qed
  then show ?thesis by (metis append_Nil2)
qed

lemma counting_step:
  assumes "relayStep uv s s'" and "ring_ok s" and "counting_ok counted s" and "cursors_ok (fst s) (fst (snd s)) (snd (snd (snd s)))"
  shows "cursors_ok (fst s') (fst (snd s')) (snd (snd (snd s'))) \<and> (\<exists>new. counting_ok (counted @ new) s')"
  using assms
proof (induction rule: relayStep.induct)
  case (Record clock ob ring observed ring' d recorded boots)
  have o: "RG_BootID ring' = RG_BootID ring" "RG_Sequence ring' = RG_Sequence ring + 1" "OB_BootID observed = RG_BootID ring" "OB_Sequence observed = RG_Sequence ring + 1"
    and "RG_Items ring' = drop (length (RG_Items (ring_purge clock ring) @ [observed]) - RG_Limit ring) (RG_Items (ring_purge clock ring) @ [observed])"
    using Record.hyps by (auto simp: ring_record_def Let_def simp del: drop_append)
  then have items: "set (RG_Items ring') \<subseteq> insert observed (set (RG_Items ring))"
    using set_drop_subset ring_purge_items(1) by fastforce
  have cur: "cursors_ok d ring boots" using Record.prems(3) by simp
  then have "cursors_ok d ring' boots" using o by (force simp: cursors_ok_def)
  moreover have "\<not> below d t observed" for t using cur o unfolding below_def cursors_ok_def by force
  then have "\<exists>new. counting_ok (counted @ new) (d, ring', observed # recorded, boots)"
    using items o(1) by (intro counting_frame [OF Record.prems(2)]) auto
  ultimately show ?case by simp
next
  case (Pull now clock d ring result d' ring' recorded boots)
  have ring: "ring_ok (d, ring, recorded, boots)" and ok: "counting_ok counted (d, ring, recorded, boots)" and cur: "cursors_ok d ring boots"
    using Pull.prems by simp_all
  have "'''' \<notin> set boots" "RG_BootID ring \<in> set boots" using ring by simp_all
  then have ne: "RG_BootID ring \<noteq> ''''" by metis
  define c where "c = RelayObservationCursor d"
  consider (same) "d' = d" "ring' = ring" | (purged) "d' = d" "ring' = ring_purge clock ring"
    | (counted) response r where "ring_drain clock (if OC_BootID c = '''' then None else Some (OC_BootID c)) (OC_Sequence c) maxRelayObservationPull ring = Some (response, ring')"
      "IngestRelayObservations uv now response d = Inr (r, d')"
    using telemetryPull_cases [OF Pull.hyps] unfolding c_def by blast
  then show ?case
  proof cases
    case same
    then show ?thesis using ok cur by (metis append_Nil2 fst_conv snd_conv)
  next
    case purged
    have "\<exists>new. counting_ok (counted @ new) (d, ring_purge clock ring, recorded, boots)"
      using ring_purge_items(1) [where now = clock and ring = ring] by (intro counting_frame [OF ok]) auto
    moreover have "cursors_ok d (ring_purge clock ring) boots" using cur by (simp add: cursors_ok_def)
    ultimately show ?thesis using purged by simp
  next
    case (counted response r)
    have "\<exists>s r. map_of (TM_Cursors d) s = Some r \<and> CR_BootID r = RG_BootID ring \<and> CR_Sequence r = OC_Sequence c"
      if "(if OC_BootID c = '''' then None else Some (OC_BootID c)) = Some (RG_BootID ring)"
      using RelayObservationCursor_row [of d "RG_BootID ring"] cur that ne by (auto simp: c_def cursors_ok_def split: if_splits)
    from pull_counts [OF ring cur ok counted(1,2) this] show ?thesis by simp
  qed
next
  case (Restart boot boots d ring recorded limit)
  have "cursors_ok d (newRing limit boot) (boot # boots)"
    using Restart.prems(3) Restart.hyps unfolding cursors_ok_def by (fastforce simp: newRing_def)
  moreover have "\<forall>ob \<in> set recorded. OB_BootID ob \<noteq> boot" using Restart.prems(1) Restart.hyps by auto
  then have "\<exists>new. counting_ok (counted @ new) (d, newRing limit boot, recorded, boot # boots)"
    by (intro counting_frame [OF Restart.prems(2)]) (auto simp: newRing_def)
  ultimately show ?case by simp
next
  case (Govern d ring recorded boots g)
  have "cursors_ok (d\<lparr>TM_Gov := g\<rparr>) ring boots" using Govern.prems(3) by (simp add: cursors_ok_def)
  moreover have "\<exists>new. counting_ok (counted @ new) (d\<lparr>TM_Gov := g\<rparr>, ring, recorded, boots)"
    by (intro counting_frame [OF Govern.prems(2)]) auto
  ultimately show ?case by simp
qed

lemma reachable_counting:
  assumes "(relayStep uv)\<^sup>*\<^sup>* (relayStart g limit boot) s" and "boot \<noteq> ''''"
  shows "ring_ok s \<and> cursors_ok (fst s) (fst (snd s)) (snd (snd (snd s))) \<and> (\<exists>counted. counting_ok counted s)"
  using assms(1)
proof (induction rule: rtranclp_induct)
  case base
  have "counting_ok [] (relayStart g limit boot)" by (simp add: relayStart_def newRing_def callsOf_def below_def)
  then show ?case using assms(2) by (auto simp: relayStart_def newRing_def cursors_ok_def)
next
  case (step s s')
  then show ?case using ring_ok_step counting_step by blast
qed

text \<open>
  C26. Every call is counted once. Whatever calls, restarts of the relay, expiries, governance changes and pulls happened,
  the aggregates are the tally of pairwise different recorded observations, each under the date and the dimensions it
  carries, and every observation that the ring still has at or below a cursor of its boot is among them: nothing is counted
  twice and nothing is skipped.
\<close>

theorem telemetry_exactly_once:
  assumes "(relayStep uv)\<^sup>*\<^sup>* (relayStart g limit boot) (d, ring, recorded, boots)" and "boot \<noteq> ''''"
  shows "\<exists>counted. snd ` set counted \<subseteq> set recorded \<and> distinct (map (obKey \<circ> snd) counted) \<and> (\<forall>(k, ob) \<in> set counted. keyFor k ob)
    \<and> (\<forall>k. callsOf (TM_Aggregates d) k = tally counted k)
    \<and> (\<forall>s. \<forall>ob \<in> set (RG_Items ring). below d s ob \<longrightarrow> ob \<in> snd ` set counted)"
proof -
  obtain counted where "counting_ok counted (d, ring, recorded, boots)" using reachable_counting [OF assms] by blast
  then show ?thesis unfolding counting_ok.simps by (elim conjE, intro exI [of _ counted] conjI)
qed

section \<open>A server behind the others\<close>

lemma refusals_conflict:
  "(if a then Some Conflict else if b then Some Conflict else if c then Some Conflict else (case q of Inl e \<Rightarrow> Some e | Inr x \<Rightarrow> None)) = Some f
    \<Longrightarrow> (\<And>g. q = Inl g \<Longrightarrow> g = Conflict) \<Longrightarrow> f = Conflict"
  by (cases q) (auto split: if_splits)

lemma checkObservations_conflict: "checkObservations uv response previous items = Inl e \<Longrightarrow> e = Conflict"
proof (induction items arbitrary: previous)
  case (Cons ob items)
  have day: "observationDay x = Inl f \<Longrightarrow> f = Conflict" for x f
    by (auto simp: observationDay_def split: go_float.splits if_splits option.splits)
  have "f = Conflict" if "observationError uv response previous ob = Some f" for f
    by (rule refusals_conflict [OF that [unfolded observationError_def]]) (rule day)
  then show ?case using Cons by (auto split: option.splits)
qed simp

text \<open>
  What the relay and the pulls do while the governance tables stay as they are and the relay runs on: calls are recorded and
  pulls are made, in any order.
\<close>

inductive collectStep :: "(string \<Rightarrow> bool) \<Rightarrow> telemetry_db \<times> ObservationRing \<Rightarrow> telemetry_db \<times> ObservationRing \<Rightarrow> bool" for uv where
  collectRecord: "ring_record clock ob ring = (observed, ring') \<Longrightarrow> collectStep uv (d, ring) (d, ring')"
| collectPull: "telemetryPull uv now clock (d, ring) = (result, d', ring') \<Longrightarrow> collectStep uv (d, ring) (d', ring')"

text \<open>The observations of the ring after the start of the next pull and before the cursor of \<open>s\<close>.\<close>

definition pullStart :: "telemetry_db \<Rightarrow> ObservationRing \<Rightarrow> int" where
  "pullStart d ring = (if OC_BootID (RelayObservationCursor d) = RG_BootID ring then OC_Sequence (RelayObservationCursor d) else 0)"

definition behind :: "telemetry_db \<Rightarrow> string \<Rightarrow> ObservationRing \<Rightarrow> Observation list" where
  "behind d s ring = filter (\<lambda>ob. pullStart d ring < OB_Sequence ob \<and> OB_Sequence ob < OC_Sequence (cursorOf d s)) (RG_Items ring)"

lemma sorted_filter_less:
  assumes "sorted_wrt (<) (map (f :: 'a \<Rightarrow> int) xs)"
  shows "filter (\<lambda>x. f x < c) xs = takeWhile (\<lambda>x. f x < c) xs"
  using assms
proof (induction xs)
  case (Cons a xs)
  have "filter (\<lambda>x. f x < c) xs = []" if "\<not> f a < c"
    using Cons.prems that by (fastforce simp: filter_empty_conv)
  then show ?case using Cons by simp
qed simp

lemma last_take_less:
  assumes "sorted_wrt (<) (map (f :: 'a \<Rightarrow> int) xs)" and "n \<le> length (filter (\<lambda>x. f x < c) xs)" and "0 < n"
  shows "take n xs \<noteq> [] \<and> f (last (take n xs)) < c"
proof -
  have "take n xs = take n (takeWhile (\<lambda>x. f x < c) xs)"
    using assms(2) unfolding sorted_filter_less [OF assms(1)] by (metis append_take_drop_id takeWhile_dropWhile_id take_append diff_is_0_eq take_0 append_Nil2)
  moreover have "xs \<noteq> []" using assms(2,3) by auto
  ultimately show ?thesis using assms(3) by (metis in_set_takeD last_in_set set_takeWhileD take_eq_Nil less_numeral_extra(3))
qed

definition cursorsNonneg :: "telemetry_db \<Rightarrow> bool" where
  "cursorsNonneg d = (\<forall>s r. map_of (TM_Cursors d) s = Some r \<longrightarrow> 0 \<le> CR_Sequence r)"

lemma pull_nonneg:
  assumes "telemetryPull uv now clock (d, ring) = (result, d', ring')" and "cursorsNonneg d"
  shows "cursorsNonneg d'"
proof -
  have "cursorsNonneg d'" if i: "IngestRelayObservations uv now response d = Inr (r, d')" for response r
  proof -
    have "validateObservationDrain uv response = None" using i by (auto simp: IngestRelayObservations_def split: option.splits)
    then have "0 \<le> DR_NextSequence response" by (auto simp: validateObservationDrain_def split: if_splits)
    with assms(2) i show ?thesis
      unfolding cursorsNonneg_def
      by (auto simp: IngestRelayObservations_def Let_def map_of_advanceCursors map_of_insertCursors split: option.splits if_splits sum.splits)
  qed
  with telemetryPull_cases [OF assms(1)] assms(2) show ?thesis by blast
qed

lemma reachable_nonneg: "(relayStep uv)\<^sup>*\<^sup>* (relayStart g limit boot) s \<Longrightarrow> cursorsNonneg (fst s)"
proof (induction rule: rtranclp_induct)
  case base
  then show ?case by (simp add: relayStart_def cursorsNonneg_def)
next
  case (step s s')
  from step(2,3) show ?case
  proof (induction rule: relayStep.induct)
    case (Govern d ring recorded boots g)
    then show ?case by (simp add: cursorsNonneg_def)
  qed (use pull_nonneg in auto)
qed

lemma nextPull_nonneg:
  assumes "cursorsNonneg d" and "s \<in> set (appliedRelayServerIDs (TM_Gov d))"
  shows "0 \<le> OC_Sequence (RelayObservationCursor d)"
proof -
  have "0 \<le> OC_Sequence (cursorOf d t)" for t using assms(1) by (auto simp: cursorsNonneg_def cursorOf_def split: option.split)
  moreover have "appliedRelayServerIDs (TM_Gov d) \<noteq> []" using assms(2) by auto
  ultimately show ?thesis by (auto simp: RelayObservationCursor_def Let_def noCursor_def)
qed

lemma ingest_refused:
  assumes "s \<in> set (appliedRelayServerIDs (TM_Gov d))" and "OC_BootID (cursorOf d s) = DR_BootID response"
    and "DR_NextSequence response < OC_Sequence (cursorOf d s)"
  shows "IngestRelayObservations uv now response d = Inl Conflict"
proof -
  have conflict: "validateObservationDrain uv response = None \<or> validateObservationDrain uv response = Some Conflict"
    by (auto simp: validateObservationDrain_def checkObservations_conflict split: sum.splits)
  moreover have "list_ex (\<lambda>s. OC_BootID (cursorOf d s) = DR_BootID response \<and> DR_NextSequence response < OC_Sequence (cursorOf d s)) (appliedRelayServerIDs (TM_Gov d))"
    using assms by (auto simp: list_ex_iff)
  ultimately show ?thesis by (auto simp: IngestRelayObservations_def)
qed

lemma pull_refused:
  assumes s: "s \<in> set (appliedRelayServerIDs (TM_Gov d))" "OC_BootID (cursorOf d s) = RG_BootID ring"
    and ring: "RG_BootID ring \<noteq> ''''" "sorted_wrt (<) (map OB_Sequence (RG_Items ring))" and low: "cursorsNonneg d"
    and far: "maxRelayObservationPull \<le> length (behind d s (ring_purge clock ring))"
  shows "telemetryPull uv now clock (d, ring) = (Inl Conflict, d, ring_purge clock ring)"
proof -
  let ?r = "ring_purge clock ring" and ?c = "RelayObservationCursor d"
  let ?b = "if OC_BootID ?c = '''' then None else Some (OC_BootID ?c)"
  let ?fs = "filter (\<lambda>ob. pullStart d ring < OB_Sequence ob) (RG_Items ?r)"
  have start: "pullStart d ?r = pullStart d ring" "(if ?b = Some (RG_BootID ring) then OC_Sequence ?c else 0) = pullStart d ring"
    using ring(1) by (auto simp: pullStart_def)
  have f: "behind d s ?r = filter (\<lambda>ob. OB_Sequence ob < OC_Sequence (cursorOf d s)) ?fs"
    unfolding behind_def start by (auto simp: conj_commute)
  have "sorted_wrt (<) (map OB_Sequence ?fs)" by (intro sorted_filter_map ring_purge_items(2) ring(2))
  from last_take_less [OF this far [unfolded f]]
  have nx: "take maxRelayObservationPull ?fs \<noteq> []" "OB_Sequence (last (take maxRelayObservationPull ?fs)) < OC_Sequence (cursorOf d s)"
    by simp_all
  define response where "response = \<lparr>DR_BootID = RG_BootID ring, DR_Items = take maxRelayObservationPull ?fs,
    DR_NextSequence = OB_Sequence (last (take maxRelayObservationPull ?fs))\<rparr>"
  have "ring_drain clock ?b (OC_Sequence ?c) maxRelayObservationPull ring = Some (response, ?r)"
    using nx(1) nextPull_nonneg [OF low s(1)] start(2) unfolding ring_drain_def Let_def ring_purge_simps start(2) response_def by simp
  moreover have "IngestRelayObservations uv now response d = Inl Conflict"
    by (rule ingest_refused [OF s(1)]) (use s(2) nx(2) in \<open>simp_all add: response_def\<close>)
  ultimately show ?thesis by (simp add: telemetryPull_def Let_def)
qed

lemma length_filter_dropWhile: "length (filter P (dropWhile Q xs)) \<le> length (filter P xs)"
  by (induction xs) auto

lemma length_filter_drop: "length (filter P (drop n xs)) \<le> length (filter P xs)"
  by (metis append_take_drop_id filter_append le_add2 length_append)

lemma behind_purge: "length (behind d s (ring_purge clock ring)) \<le> length (behind d s ring)"
  unfolding behind_def pullStart_def ring_purge_simps by (simp add: ring_purge_def length_filter_dropWhile)

text \<open>A new call is beyond all cursors, so recording one never lengthens the stretch before a cursor.\<close>

lemma behind_record:
  assumes "ring_record clock ob ring = (observed, ring')" and "OC_Sequence (cursorOf d s) \<le> RG_Sequence ring"
  shows "length (behind d s ring') \<le> length (behind d s ring)"
    and "RG_BootID ring' = RG_BootID ring" and "RG_Sequence ring' = RG_Sequence ring + 1"
proof -
  let ?r = "ring_purge clock ring"
  have r: "RG_BootID ring' = RG_BootID ring" "RG_Sequence ring' = RG_Sequence ring + 1" "OB_Sequence observed = RG_Sequence ring + 1"
    "RG_Items ring' = drop (length (RG_Items ?r @ [observed]) - RG_Limit ring) (RG_Items ?r @ [observed])"
    using assms(1) by (auto simp: ring_record_def Let_def simp del: drop_append)
  then show "RG_BootID ring' = RG_BootID ring" "RG_Sequence ring' = RG_Sequence ring + 1" by blast+
  let ?P = "\<lambda>ob. pullStart d ring < OB_Sequence ob \<and> OB_Sequence ob < OC_Sequence (cursorOf d s)"
  have "\<not> ?P observed" using r(3) assms(2) by simp
  then have "filter ?P (RG_Items ?r @ [observed]) = filter ?P (RG_Items ?r)" by simp
  then have "length (filter ?P (RG_Items ring')) \<le> length (filter ?P (RG_Items ?r))"
    using length_filter_drop [of ?P "length (RG_Items ?r @ [observed]) - RG_Limit ring" "RG_Items ?r @ [observed]"] by (simp only: r(4))
  then show "length (behind d s ring') \<le> length (behind d s ring)"
    using behind_purge [of d s clock ring] r(1) by (simp add: behind_def pullStart_def)
qed

lemma collect_stuck:
  assumes run: "(collectStep uv)\<^sup>*\<^sup>* (d, ring) x"
    and s: "s \<in> set (appliedRelayServerIDs (TM_Gov d))" "OC_BootID (cursorOf d s) = RG_BootID ring"
    and ok: "ring_ok (d, ring, recorded, boots)" and low: "cursorsNonneg d" and top: "OC_Sequence (cursorOf d s) \<le> RG_Sequence ring"
  shows "RG_BootID (snd x) = RG_BootID ring \<and> RG_Sequence ring \<le> RG_Sequence (snd x) \<and> (\<exists>rs. ring_ok (d, snd x, rs, boots))
    \<and> (maxRelayObservationPull \<le> length (behind d s (snd x)) \<longrightarrow> fst x = d)"
  using run
proof (induction rule: rtranclp_induct)
  case base
  then show ?case using ok by auto
next
  case (step y z)
  obtain rs where y: "RG_BootID (snd y) = RG_BootID ring" "RG_Sequence ring \<le> RG_Sequence (snd y)" "ring_ok (d, snd y, rs, boots)"
    "maxRelayObservationPull \<le> length (behind d s (snd y)) \<longrightarrow> fst y = d" using step.IH by blast
  from step.hyps(2) show ?case
  proof cases
    case (collectRecord clock ob r observed r' e)
    have c: "OC_Sequence (cursorOf d s) \<le> RG_Sequence r" using top y(2) collectRecord by simp
    note b = behind_record [OF collectRecord(3) c]
    have ex: "\<exists>rs. ring_ok (d, snd z, rs, boots)"
      unfolding collectRecord(2) snd_conv
      by (rule exI, rule ring_ok_step [OF relayStep.Record [OF collectRecord(3)] y(3) [unfolded collectRecord(1) snd_conv]])
    have "fst z = d" if "maxRelayObservationPull \<le> length (behind d s (snd z))"
      using y(4) that b(1) collectRecord(1,2) by simp
    then show ?thesis using y(1,2) b(2,3) ex collectRecord(1,2) by simp
  next
    case (collectPull now clock e r result e' r')
    have r: "r' = r \<or> r' = ring_purge clock r" using telemetryPull_cases [OF collectPull(3)] drain_Some(1) by blast
    note yr = y(3) [unfolded collectPull(1) snd_conv]
    have ok': "ring_ok (d, r', rs, boots)" using r yr ring_ok_purge [OF yr, of d clock] by (elim disjE) (simp_all only:)
    have sorted: "sorted_wrt (<) (map OB_Sequence (RG_Items r))" using yr by simp
    have "e' = d" if far: "maxRelayObservationPull \<le> length (behind d s r')"
    proof -
      have "length (behind d s r') \<le> length (behind d s r)" using r behind_purge by auto
      then have e: "e = d" using y(4) far collectPull(1) by auto
      show ?thesis
      proof (cases "r' = ring_purge clock r")
        case True
        have "RG_BootID ring \<in> set boots" "'''' \<notin> set boots" using ok by simp_all
        then have "RG_BootID r \<noteq> ''''" using y(1) collectPull(1) by auto
        moreover have "OC_BootID (cursorOf d s) = RG_BootID r" using s(2) y(1) collectPull(1) by simp
        moreover have "maxRelayObservationPull \<le> length (behind d s (ring_purge clock r))" using far True by simp
        ultimately have "telemetryPull uv now clock (d, r) = (Inl Conflict, d, ring_purge clock r)"
          using pull_refused [OF s(1) _ _ sorted low] by blast
        then show ?thesis using collectPull(3) e by simp
      next
        case False
        then show ?thesis using telemetryPull_cases [OF collectPull(3)] drain_Some(1) e by blast
      qed
    qed
    moreover have "\<exists>rs. ring_ok (d, snd z, rs, boots)" unfolding collectPull(2) snd_conv by (rule exI, rule ok')
    moreover have "RG_BootID r' = RG_BootID r \<and> RG_Sequence r' = RG_Sequence r" using r by auto
    ultimately show ?thesis using y(1,2) collectPull(1,2) by simp
  qed
qed

text \<open>
  C27. The batch of a pull starts at the smallest cursor of the applied servers, or at the beginning of the ring when one of
  them has none, and has at most 1000 items; a batch that ends before the cursor of another applied server is refused as a
  whole. Hence, from any reachable state in which an applied server has a cursor of the relay's boot, and through any
  further recorded calls and pulls: as long as the ring holds 1000 unexpired observations between the start of the pull and
  that cursor, every pull so far has left the database as it was, and the next one is refused with a conflict and leaves
  it so. Recording further calls does not help; only the ring's forgetting, a restart of the relay or a change of the applied
  servers can end it.
\<close>

theorem pull_stuck_behind:
  assumes "(relayStep uv)\<^sup>*\<^sup>* (relayStart g limit boot) (d, ring, recorded, boots)" and "boot \<noteq> ''''"
    and "s \<in> set (appliedRelayServerIDs (TM_Gov d))" and "OC_BootID (cursorOf d s) = RG_BootID ring"
    and "(collectStep uv)\<^sup>*\<^sup>* (d, ring) (d', ring')"
    and "maxRelayObservationPull \<le> length (behind d s (ring_purge clock ring'))"
  shows "d' = d \<and> telemetryPull uv now clock (d', ring') = (Inl Conflict, d, ring_purge clock ring')"
proof -
  have ok: "ring_ok (d, ring, recorded, boots)" and cur: "cursors_ok d ring boots" using reachable_counting [OF assms(1,2)] by auto
  have low: "cursorsNonneg d" using reachable_nonneg [OF assms(1)] by simp
  have "RG_BootID ring \<in> set boots" "'''' \<notin> set boots" using ok by simp_all
  then have ne: "RG_BootID ring \<noteq> ''''" by metis
  have top: "OC_Sequence (cursorOf d s) \<le> RG_Sequence ring"
    using cursorOf_row [OF assms(4) ne] cur unfolding cursors_ok_def by metis
  obtain rs where run: "RG_BootID ring' = RG_BootID ring" "ring_ok (d, ring', rs, boots)"
    "maxRelayObservationPull \<le> length (behind d s ring') \<longrightarrow> d' = d"
    using collect_stuck [OF assms(5,3,4) ok low top] by auto
  have "d' = d" using run(3) assms(6) behind_purge [of d s clock ring'] by simp
  with pull_refused [OF assms(3) _ _ _ low assms(6), of uv now] run(1,2) ne assms(4) show ?thesis by simp
qed

section \<open>Examples\<close>

definition exampleCall :: Observation where
  "exampleCall = \<lparr>OB_BootID = '''', OB_Sequence = 0, OB_ObservedAt = FloatNaN, OB_MinuteBucket = ''1970-01-02T00:01:00Z'', OB_ProfileID = ''f'',
     OB_ProfileRevisionID = ''v'', OB_ServerID = ''s'', OB_ToolID = ''t1'', OB_Decision = ''allow'', OB_ReasonCodes = [], OB_Outcome = ''executed'',
     OB_ErrorClass = ''none'', OB_DurationBucket = ''lt_1s''\<rparr>"

definition exampleRelayGov :: governance_db where
  "exampleRelayGov = \<lparr>GD_Policies = [], GD_CurrentPolicy = '''', GD_AppliedPolicy = '''', GD_RelayRevisions = [],
     GD_RelayPins = [\<lparr>RP_RelayRevisionID = ''r'', RP_ServerID = ''s'', RP_MCPRevisionID = ''m'', RP_Position = 0\<rparr>,
       \<lparr>RP_RelayRevisionID = ''q'', RP_ServerID = ''s'', RP_MCPRevisionID = ''m'', RP_Position = 0\<rparr>,
       \<lparr>RP_RelayRevisionID = ''q'', RP_ServerID = ''new'', RP_MCPRevisionID = ''n'', RP_Position = 1\<rparr>],
     GD_CurrentRelay = ''r'', GD_AppliedRelay = ''r'', GD_Mode = ''enforced'', GD_DefaultProfile = None, GD_Servers = [], GD_MCPRevisions = [],
     GD_Contracts = [], GD_ContractStates = [], GD_ContractTools = [],
     GD_Tools = [\<lparr>TL_ID = ''t1'', TL_ServerID = ''s'', TL_Name = ''list''\<rparr>], GD_Profiles = [], GD_Published = [],
     GD_ProfileRevisions = [\<lparr>PV_ID = ''v'', PV_ProfileID = ''f'', PV_Revision = 1, PV_CanonicalHash = '''', PV_Name = ''dev'',
       PV_Description = '''', PV_ClientKind = ''claude'', PV_Category = '''', PV_Variant = ''standard'', PV_MigrationState = ''ready'',
       PV_PendingBindings = False, PV_ArchivedRestore = False\<rparr>],
     GD_ProfileGovernance = [], GD_ProfileRules = [], GD_Renames = [], GD_Proposals = []\<rparr>"

definition exampleObserved :: Observation where
  "exampleObserved = exampleCall\<lparr>OB_BootID := ''b'', OB_Sequence := 1, OB_ObservedAt := Float 86460\<rparr>"

definition exampleRing :: ObservationRing where
  "exampleRing = \<lparr>RG_Limit = 10, RG_BootID = ''b'', RG_Sequence = 1, RG_Items = [exampleObserved]\<rparr>"

definition exampleCounted :: telemetry_db where
  "exampleCounted = \<lparr>TM_Gov = exampleRelayGov, TM_Cursors = [(''s'', \<lparr>CR_BootID = ''b'', CR_Sequence = 1, CR_Updated = 7\<rparr>)],
     TM_Aggregates = [(aggregateKey ''claude'' 1 exampleObserved, 1, 0)]\<rparr>"

lemma exampleDay: "observationDay exampleObserved = Inr 1"
  by code_simp

lemma exampleRecord: "ring_record 86460 exampleCall (newRing 10 ''b'') = (exampleObserved, exampleRing)"
  by (simp add: ring_record_def newRing_def ring_purge_def exampleObserved_def exampleRing_def Let_def)

lemma examplePurge: "ring_purge 86461 exampleRing = exampleRing"
  by (simp add: ring_purge_def exampleRing_def exampleObserved_def observedBefore_def)

lemma exampleStart_cursor: "RelayObservationCursor \<lparr>TM_Gov = exampleRelayGov, TM_Cursors = [], TM_Aggregates = []\<rparr> = noCursor"
  by code_simp

lemma exampleCounted_cursor: "RelayObservationCursor exampleCounted = \<lparr>OC_BootID = ''b'', OC_Sequence = 1\<rparr>"
  by code_simp

lemma exampleIngest:
  "IngestRelayObservations (\<lambda>s. s \<noteq> '''') 7 \<lparr>DR_BootID = ''b'', DR_Items = [exampleObserved], DR_NextSequence = 1\<rparr> \<lparr>TM_Gov = exampleRelayGov, TM_Cursors = [], TM_Aggregates = []\<rparr>
    = Inr (\<lparr>TI_Accepted = 1, TI_Duplicates = 0, TI_Cursor = \<lparr>OC_BootID = ''b'', OC_Sequence = 1\<rparr>\<rparr>, exampleCounted)"
  by code_simp

lemma exampleIngestNone:
  "IngestRelayObservations (\<lambda>s. s \<noteq> '''') 8 \<lparr>DR_BootID = ''b'', DR_Items = [], DR_NextSequence = 1\<rparr> exampleCounted
    = Inr (\<lparr>TI_Accepted = 0, TI_Duplicates = 0, TI_Cursor = \<lparr>OC_BootID = ''b'', OC_Sequence = 1\<rparr>\<rparr>, exampleCounted)"
  by code_simp

lemma examplePull1: "telemetryPull (\<lambda>s. s \<noteq> '''') 7 86461 (\<lparr>TM_Gov = exampleRelayGov, TM_Cursors = [], TM_Aggregates = []\<rparr>, exampleRing)
    = (Inr \<lparr>TI_Accepted = 1, TI_Duplicates = 0, TI_Cursor = \<lparr>OC_BootID = ''b'', OC_Sequence = 1\<rparr>\<rparr>, exampleCounted, exampleRing)"
proof -
  have "ring_drain 86461 None 0 maxRelayObservationPull exampleRing
      = Some (\<lparr>DR_BootID = ''b'', DR_Items = [exampleObserved], DR_NextSequence = 1\<rparr>, exampleRing)"
    unfolding ring_drain_def examplePurge by (simp add: exampleRing_def exampleObserved_def Let_def)
  then show ?thesis by (simp add: telemetryPull_def exampleStart_cursor noCursor_def exampleIngest Let_def)
qed

lemma examplePull2: "telemetryPull (\<lambda>s. s \<noteq> '''') 8 86461 (exampleCounted, exampleRing)
    = (Inr \<lparr>TI_Accepted = 0, TI_Duplicates = 0, TI_Cursor = \<lparr>OC_BootID = ''b'', OC_Sequence = 1\<rparr>\<rparr>, exampleCounted, exampleRing)"
proof -
  have "ring_drain 86461 (Some ''b'') 1 maxRelayObservationPull exampleRing
      = Some (\<lparr>DR_BootID = ''b'', DR_Items = [], DR_NextSequence = 1\<rparr>, exampleRing)"
    unfolding ring_drain_def examplePurge by (simp add: exampleRing_def exampleObserved_def Let_def)
  then show ?thesis by (simp add: telemetryPull_def exampleCounted_cursor exampleIngestNone Let_def)
qed

theorem telemetry_exactly_once_witness:
  "\<exists>counted. snd ` set counted \<subseteq> {exampleObserved} \<and> distinct (map (obKey \<circ> snd) counted)
    \<and> tally counted (aggregateKey ''claude'' 1 exampleObserved) = 1"
proof -
  let ?step = "relayStep (\<lambda>s. s \<noteq> '''')"
  have 1: "?step (relayStart exampleRelayGov 10 ''b'') (\<lparr>TM_Gov = exampleRelayGov, TM_Cursors = [], TM_Aggregates = []\<rparr>, exampleRing, [exampleObserved], [''b''])"
    unfolding relayStart_def by (rule relayStep.Record [OF exampleRecord])
  have 2: "?step (\<lparr>TM_Gov = exampleRelayGov, TM_Cursors = [], TM_Aggregates = []\<rparr>, exampleRing, [exampleObserved], [''b''])
      (exampleCounted, exampleRing, [exampleObserved], [''b''])" by (rule relayStep.Pull [OF examplePull1])
  have 3: "?step (exampleCounted, exampleRing, [exampleObserved], [''b'']) (exampleCounted, exampleRing, [exampleObserved], [''b''])"
    by (rule relayStep.Pull [OF examplePull2])
  have run: "?step\<^sup>*\<^sup>* (relayStart exampleRelayGov 10 ''b'') (exampleCounted, exampleRing, [exampleObserved], [''b''])"
    by (rule converse_rtranclp_into_rtranclp, rule 1, rule converse_rtranclp_into_rtranclp, rule 2, rule r_into_rtranclp, rule 3)
  have "callsOf (TM_Aggregates exampleCounted) (aggregateKey ''claude'' 1 exampleObserved) = 1" by (simp add: exampleCounted_def callsOf_def)
  then show ?thesis using telemetry_exactly_once [OF run] by fastforce
qed

text \<open>
  The calls of a busy relay, each collected by a pull of its own; then the revision \<open>q\<close> with a second server is applied,
  which has no cursor yet.
\<close>

definition callAt :: "nat \<Rightarrow> Observation" where
  "callAt n = exampleCall\<lparr>OB_BootID := ''b'', OB_Sequence := int n, OB_ObservedAt := Float 86460\<rparr>"

definition busyRing :: "nat \<Rightarrow> ObservationRing" where
  "busyRing n = \<lparr>RG_Limit = 2000, RG_BootID = ''b'', RG_Sequence = int n, RG_Items = map callAt [1..<Suc n]\<rparr>"

definition busyCursors :: "nat \<Rightarrow> (string \<times> cursor_row) list" where
  "busyCursors n = (if n = 0 then [] else [(''s'', \<lparr>CR_BootID = ''b'', CR_Sequence = int n, CR_Updated = 7\<rparr>)])"

definition busyStore :: "nat \<Rightarrow> telemetry_db" where
  "busyStore n = \<lparr>TM_Gov = exampleRelayGov, TM_Cursors = busyCursors n,
     TM_Aggregates = (if n = 0 then [] else [(aggregateKey ''claude'' 1 exampleObserved, int n, 0)])\<rparr>"

lemma busyPurge: "ring_purge 86461 (busyRing n) = busyRing n" "ring_purge 86460 (busyRing n) = busyRing n"
proof -
  have "dropWhile (observedBefore c) (map callAt [1..<Suc n]) = map callAt [1..<Suc n]" if "c < 86460" for c
    using that by (cases n) (simp_all add: upt_conv_Cons callAt_def observedBefore_def del: upt_Suc)
  then show "ring_purge 86461 (busyRing n) = busyRing n" "ring_purge 86460 (busyRing n) = busyRing n"
    by (simp_all add: ring_purge_def busyRing_def del: upt_Suc)
qed

lemma busyRecord: "n < 2000 \<Longrightarrow> ring_record 86460 exampleCall (busyRing n) = (callAt (Suc n), busyRing (Suc n))"
  unfolding ring_record_def busyPurge by (simp add: busyRing_def callAt_def Let_def add.commute)

lemma busyNew: "filter (\<lambda>ob. OB_Sequence ob > int n) (map callAt [1..<Suc (Suc n)]) = [callAt (Suc n)]"
proof -
  have "filter (\<lambda>ob. OB_Sequence ob > int n) (map callAt [1..<Suc n]) = []" by (auto simp: filter_empty_conv callAt_def)
  then show ?thesis by (simp add: callAt_def)
qed

lemma busyCursor: "RelayObservationCursor (busyStore n) = (if n = 0 then noCursor else \<lparr>OC_BootID = ''b'', OC_Sequence = int n\<rparr>)"
proof -
  have a: "appliedRelayServerIDs exampleRelayGov = [''s'']" by code_simp
  show ?thesis by (simp add: RelayObservationCursor_def busyStore_def busyCursors_def cursorOf_def a noCursor_def Let_def)
qed

lemma busyDay: "observationDay (callAt n) = Inr 1"
proof -
  have "observationDay (callAt n) = observationDay exampleObserved" by (simp add: observationDay_def callAt_def exampleObserved_def)
  then show ?thesis by (simp add: exampleDay)
qed

lemma busyKey: "aggregateKey c day (callAt n) = aggregateKey c day exampleObserved"
  by (simp add: aggregateKey_def callAt_def exampleObserved_def)

lemma busyValid: "validateObservationDrain (\<lambda>s. s \<noteq> '''') \<lparr>DR_BootID = ''b'', DR_Items = [callAt (Suc n)], DR_NextSequence = int (Suc n)\<rparr> = None"
  by (simp add: validateObservationDrain_def observationError_def busyDay)
    (simp add: callAt_def exampleCall_def telemetryDecisions_def telemetryOutcomes_def telemetryErrorClasses_def telemetryDurationBuckets_def)

lemma busyIngest:
  "IngestRelayObservations (\<lambda>s. s \<noteq> '''') 7 \<lparr>DR_BootID = ''b'', DR_Items = [callAt (Suc n)], DR_NextSequence = int (Suc n)\<rparr> (busyStore n)
    = Inr (\<lparr>TI_Accepted = 1, TI_Duplicates = 0, TI_Cursor = \<lparr>OC_BootID = ''b'', OC_Sequence = int (Suc n)\<rparr>\<rparr>, busyStore (Suc n))"
proof -
  have g: "appliedRelayServerIDs exampleRelayGov = [''s'']" "''s'' \<in> set (knownRelayServerIDs exampleRelayGov)" by code_simp+
  have c: "telemetryClientKind exampleRelayGov (callAt (Suc n)) = Inr ''claude''"
    by (simp add: telemetryClientKind_def callAt_def exampleCall_def exampleRelayGov_def)
  have s: "OB_ServerID (callAt (Suc n)) = ''s''" "OB_BootID (callAt (Suc n)) = ''b''" "OB_Sequence (callAt (Suc n)) = int (Suc n)"
    "OB_ErrorClass (callAt (Suc n)) = ''none''" by (simp_all add: callAt_def exampleCall_def)
  show ?thesis
    unfolding IngestRelayObservations_def busyValid
    by (simp add: g s c busyDay busyKey cursorServers_def busyStore_def busyCursors_def cursorOf_def Let_def
        insertCursors_def advanceCursors_def putCursor_def)
qed

lemma busyPull: "telemetryPull (\<lambda>s. s \<noteq> '''') 7 86461 (busyStore n, busyRing (Suc n))
    = (Inr \<lparr>TI_Accepted = 1, TI_Duplicates = 0, TI_Cursor = \<lparr>OC_BootID = ''b'', OC_Sequence = int (Suc n)\<rparr>\<rparr>, busyStore (Suc n), busyRing (Suc n))"
proof -
  have d: "ring_drain 86461 (if OC_BootID (RelayObservationCursor (busyStore n)) = '''' then None else Some (OC_BootID (RelayObservationCursor (busyStore n))))
      (OC_Sequence (RelayObservationCursor (busyStore n))) maxRelayObservationPull (busyRing (Suc n))
    = Some (\<lparr>DR_BootID = ''b'', DR_Items = [callAt (Suc n)], DR_NextSequence = int (Suc n)\<rparr>, busyRing (Suc n))"
  proof -
    let ?c = "RelayObservationCursor (busyStore n)"
    have low: "(if (if OC_BootID ?c = '''' then None else Some (OC_BootID ?c)) = Some ''b'' then OC_Sequence ?c else 0) = int n"
      "\<not> OC_Sequence ?c < 0" by (simp_all add: busyCursor noCursor_def)
    have r: "RG_BootID (busyRing (Suc n)) = ''b''" "RG_Items (busyRing (Suc n)) = map callAt [1..<Suc (Suc n)]"
      by (simp_all add: busyRing_def del: upt_Suc)
    have q: "OB_Sequence (callAt (Suc n)) = int (Suc n)" by (simp add: callAt_def)
    show ?thesis unfolding ring_drain_def busyPurge Let_def r low(1) busyNew using low(2) by (simp add: q del: upt_Suc)
  qed
  show ?thesis unfolding telemetryPull_def Let_def prod.case d option.case busyIngest sum.case ..
qed

lemma busy_reachable:
  "n \<le> 2000 \<Longrightarrow> \<exists>recorded. (relayStep (\<lambda>s. s \<noteq> ''''))\<^sup>*\<^sup>* (relayStart exampleRelayGov 2000 ''b'') (busyStore n, busyRing n, recorded, [''b''])"
proof (induction n)
  case 0
  have "relayStart exampleRelayGov 2000 ''b'' = (busyStore 0, busyRing 0, [], [''b''])"
    by (simp add: relayStart_def busyStore_def busyCursors_def newRing_def busyRing_def)
  then show ?case by auto
next
  case (Suc n)
  then obtain recorded where run: "(relayStep (\<lambda>s. s \<noteq> ''''))\<^sup>*\<^sup>* (relayStart exampleRelayGov 2000 ''b'') (busyStore n, busyRing n, recorded, [''b''])" by auto
  have n: "n < 2000" using Suc.prems by simp
  from rtranclp.rtrancl_into_rtrancl [OF rtranclp.rtrancl_into_rtrancl [OF run relayStep.Record [OF busyRecord [OF n]]] relayStep.Pull [OF busyPull]]
  show ?case by blast
qed

definition joinedStore :: "nat \<Rightarrow> telemetry_db" where
  "joinedStore n = (busyStore n)\<lparr>TM_Gov := exampleRelayGov\<lparr>GD_AppliedRelay := ''q''\<rparr>\<rparr>"

lemma joinedServers: "appliedRelayServerIDs (exampleRelayGov\<lparr>GD_AppliedRelay := ''q''\<rparr>) = [''s'', ''new'']"
  by code_simp

lemma joinedStart: "pullStart (joinedStore n) ring = 0"
  by (simp add: pullStart_def RelayObservationCursor_def joinedStore_def joinedServers busyStore_def busyCursors_def cursorOf_def noCursor_def Let_def)

lemma joinedCursor: "0 < n \<Longrightarrow> cursorOf (joinedStore n) ''s'' = \<lparr>OC_BootID = ''b'', OC_Sequence = int n\<rparr>"
  by (simp add: joinedStore_def busyStore_def busyCursors_def cursorOf_def)

lemma joinedBehind: "0 < n \<Longrightarrow> length (behind (joinedStore n) ''s'' (busyRing (n + m))) = n - 1"
proof -
  assume n: "0 < n"
  let ?P = "\<lambda>ob. 0 < OB_Sequence ob \<and> OB_Sequence ob < int n"
  have q: "OB_Sequence (callAt k) = int k" for k by (simp add: callAt_def)
  have "[1..<Suc (n + m)] = [1..<n] @ [n..<n + Suc m]" using upt_add_eq_append [of 1 n "Suc m"] n by simp
  moreover have "filter ?P (map callAt [1..<n]) = map callAt [1..<n]" by (rule filter_True) (auto simp: q)
  moreover have "filter ?P (map callAt [n..<n + Suc m]) = []" by (auto simp: filter_empty_conv q)
  ultimately have "filter ?P (map callAt [1..<Suc (n + m)]) = map callAt [1..<n]" by (simp only: map_append filter_append append_Nil2)
  then show ?thesis unfolding behind_def joinedStart joinedCursor [OF n] by (simp add: busyRing_def del: upt_Suc)
qed

theorem pull_stuck_behind_witness:
  "telemetryPull (\<lambda>s. s \<noteq> '''') 8 86461 (joinedStore 1001, busyRing (1001 + 1)) = (Inl Conflict, joinedStore 1001, busyRing (1001 + 1))"
proof -
  obtain recorded where "(relayStep (\<lambda>s. s \<noteq> ''''))\<^sup>*\<^sup>* (relayStart exampleRelayGov 2000 ''b'') (busyStore 1001, busyRing 1001, recorded, [''b''])"
    using busy_reachable [of 1001] by auto
  then have run: "(relayStep (\<lambda>s. s \<noteq> ''''))\<^sup>*\<^sup>* (relayStart exampleRelayGov 2000 ''b'') (joinedStore 1001, busyRing 1001, recorded, [''b''])"
    unfolding joinedStore_def by (rule rtranclp.rtrancl_into_rtrancl) (rule relayStep.Govern)
  have s: "''s'' \<in> set (appliedRelayServerIDs (TM_Gov (joinedStore 1001)))" by (simp add: joinedStore_def joinedServers)
  have c: "OC_BootID (cursorOf (joinedStore 1001) ''s'') = RG_BootID (busyRing 1001)"
    by (simp add: joinedCursor busyRing_def del: upt_Suc upt_rec_numeral)
  have later: "(collectStep (\<lambda>s. s \<noteq> ''''))\<^sup>*\<^sup>* (joinedStore 1001, busyRing 1001) (joinedStore 1001, busyRing (1001 + 1))"
    using collectRecord [OF busyRecord [of 1001]] by (simp add: r_into_rtranclp)
  have "maxRelayObservationPull \<le> length (behind (joinedStore 1001) ''s'' (ring_purge 86461 (busyRing (1001 + 1))))"
    unfolding busyPurge using joinedBehind [of 1001 1] by simp
  from pull_stuck_behind [OF run _ s c later this, of 8] show ?thesis unfolding busyPurge by simp
qed

end
