(* ===== verification/Tool_Contracts.thy ===== *)
theory Tool_Contracts
  imports Profile_Store "HOL-Library.AList"
begin

text \<open>
  The contracts of MCP servers (\<open>src/internal/store/contracts.go\<close>): what a server was seen to offer is normalised, hashed and
  kept as an immutable revision; every tool gets a status against the accepted contract; a tool that vanished and one that
  appeared with the same schemas become a rename proposal; an operator accepts a contract or confirms a rename.

  A raw schema is a string that \<open>ge_unmarshal\<close> decodes. A Go map is a \<open>JObj\<close> whose members are in the order of their keys, as
  \<open>json.Marshal\<close> writes them; a nil map is \<open>JNull\<close>. A method is one transaction over the governance tables. \<open>contract_ids\<close>
  gives the ids that \<open>uuid.NewString\<close> returns. Seals (\<open>mcp_contract_revision_seals\<close>) are written with every revision and have
  no table here.
\<close>

section \<open>The canonical form of a contract\<close>

definition observedToolName :: "string \<Rightarrow> bool" where
  "observedToolName s = (case s of
     [] \<Rightarrow> False
   | c # cs \<Rightarrow> (isLower c \<or> isDigit c) \<and> list_all (\<lambda>x. isLower x \<or> isDigit x \<or> x \<in> {CHR ''.'', CHR ''_'', CHR ''-''}) cs \<and> length cs \<le> 127)"

record ObservedToolInput =
  OI_Name :: string
  OI_InputSchema :: string
  OI_OutputSchema :: string
  OI_Annotations :: json
  OI_Presentation :: json
  OI_ReadOnlyHint :: bool
  OI_Mutating :: bool

record normalizedObservedTool =
  NT_Name :: string
  NT_InputSchema :: json
  NT_OutputSchema :: json
  NT_Annotations :: json
  NT_Presentation :: json

abbreviation expectedObject :: store_error where "expectedObject \<equiv> StoreErr (errorsNew ''expected JSON object'')"

definition normalizeObject :: "governance_env \<Rightarrow> string \<Rightarrow> store_error + json" where
  "normalizeObject ge raw =
     (if raw = '''' then Inr (JObj [])
      else case ge_unmarshal ge raw of
        None \<Rightarrow> Inl (StoreErr (errorsNew ''invalid JSON''))
      | Some v \<Rightarrow> if isObject v then Inr v else Inl expectedObject)"

definition cloneObject :: "governance_env \<Rightarrow> json \<Rightarrow> json" where
  "cloneObject ge v =
     (if v = JNull then JObj []
      else case ge_unmarshal ge (ge_marshal ge v) of
        None \<Rightarrow> JObj []
      | Some w \<Rightarrow> if isObject w then w else JObj [])"

text \<open>Assigning a member of a Go map.\<close>

definition setMember :: "string \<Rightarrow> json \<Rightarrow> json \<Rightarrow> json" where
  "setMember k v object = JObj (sort_key fst (AList.update k v (objectMembers object)))"

definition hintedAnnotations :: "governance_env \<Rightarrow> ObservedToolInput \<Rightarrow> json" where
  "hintedAnnotations ge t =
     (let a = cloneObject ge (OI_Annotations t);
          b = (if OI_ReadOnlyHint t then setMember ''readOnlyHint'' (JBool True) a else a)
      in if OI_Mutating t then setMember ''mutatingHint'' (JBool True) b else b)"

definition forbiddenObservations :: "string list" where
  "forbiddenObservations = [''secretvalue'', ''secretvalues'', ''ciphertext'', ''arguments'', ''result'', ''results'', ''prompt'', ''prompts'',
     ''rawerror'', ''sessionid'', ''apikey'']"

fun forbiddenObservation :: "json \<Rightarrow> bool" where
  "forbiddenObservation (JObj fs) =
     list_ex (\<lambda>kv. normalizedGovernanceMetadataKey (fst kv) \<in> set forbiddenObservations \<or> forbiddenObservation (snd kv)) fs"
| "forbiddenObservation (JArr vs) = list_ex forbiddenObservation vs"
| "forbiddenObservation _ = False"

definition rejectForbiddenObservationKeys :: "json \<Rightarrow> store_error option" where
  "rejectForbiddenObservationKeys v = (if forbiddenObservation v then Some (StoreErr (errorsNew ''forbidden observation field'')) else None)"

definition toolError :: "string \<Rightarrow> string \<Rightarrow> store_error" where
  "toolError what nm = StoreErr (errorf what [nm])"

text \<open>One round of the loop of \<open>CanonicalContract\<close>, after the check for a duplicate.\<close>

definition normalizeTool :: "governance_env \<Rightarrow> ObservedToolInput \<Rightarrow> store_error + normalizedObservedTool" where
  "normalizeTool ge t =
     (let nm = TrimSpace (OI_Name t) in
      case normalizeObject ge (OI_InputSchema t) of
        Inl _ \<Rightarrow> Inl (toolError ''tool %s input schema'' nm)
      | Inr input \<Rightarrow> (case normalizeObject ge (OI_OutputSchema t) of
          Inl _ \<Rightarrow> Inl (toolError ''tool %s output schema'' nm)
        | Inr output \<Rightarrow>
            if forbiddenObservation (hintedAnnotations ge t) then Inl (toolError ''tool %s annotations'' nm)
            else if forbiddenObservation (cloneObject ge (OI_Presentation t)) then Inl (toolError ''tool %s presentation'' nm)
            else Inr \<lparr>NT_Name = nm, NT_InputSchema = input, NT_OutputSchema = output, NT_Annotations = hintedAnnotations ge t,
                   NT_Presentation = cloneObject ge (OI_Presentation t)\<rparr>))"

fun normalizeTools :: "governance_env \<Rightarrow> ObservedToolInput list \<Rightarrow> string list \<Rightarrow> store_error + normalizedObservedTool list" where
  "normalizeTools ge [] seen = Inr []"
| "normalizeTools ge (t # ts) seen =
     (let nm = TrimSpace (OI_Name t) in
      if \<not> observedToolName nm then Inl (toolError ''invalid observed tool name %q'' nm)
      else if nm \<in> set seen then Inl (toolError ''duplicate observed tool %q'' nm)
      else case normalizeTool ge t of
        Inl e \<Rightarrow> Inl e
      | Inr n \<Rightarrow> (case normalizeTools ge ts (nm # seen) of Inl e \<Rightarrow> Inl e | Inr ns \<Rightarrow> Inr (n # ns)))"

definition normalizedJSON :: "normalizedObservedTool \<Rightarrow> json" where
  "normalizedJSON n = JObj [(''name'', JStr (NT_Name n)), (''inputSchema'', NT_InputSchema n), (''outputSchema'', NT_OutputSchema n),
     (''annotations'', NT_Annotations n), (''presentation'', NT_Presentation n)]"

definition contractJSON :: "normalizedObservedTool list \<Rightarrow> json" where
  "contractJSON ns = JObj [(''tools'', JArr (map normalizedJSON ns))]"

abbreviation maxObservedContractTools :: nat where "maxObservedContractTools \<equiv> 500"

text \<open>
  \<open>sort.Slice\<close> need not keep the order of equal names; two tools of one name are refused in any order. The result is the body
  and its hash.
\<close>

definition CanonicalContract :: "governance_env \<Rightarrow> ObservedToolInput list \<Rightarrow> store_error + (string \<times> string)" where
  "CanonicalContract ge tools =
     (if length tools > maxObservedContractTools then Inl (StoreErr (errorsNew ''observed contract exceeds tool limit''))
      else case normalizeTools ge (sort_key OI_Name tools) [] of
        Inl e \<Rightarrow> Inl e
      | Inr ns \<Rightarrow> let body = ge_marshal ge (contractJSON ns) in Inr (body, hexEncode (ge_sha ge body)))"

definition member :: "string \<Rightarrow> json \<Rightarrow> json" where
  "member k v = (case map_of (objectMembers v) k of None \<Rightarrow> JNull | Some x \<Rightarrow> x)"

definition textMember :: "string \<Rightarrow> json \<Rightarrow> string" where
  "textMember k v = (case member k v of JStr s \<Rightarrow> s | _ \<Rightarrow> '''')"

text \<open>\<open>json.Unmarshal\<close> into the struct.\<close>

definition toolOf :: "json \<Rightarrow> normalizedObservedTool" where
  "toolOf v = \<lparr>NT_Name = textMember ''name'' v, NT_InputSchema = member ''inputSchema'' v, NT_OutputSchema = member ''outputSchema'' v,
     NT_Annotations = member ''annotations'' v, NT_Presentation = member ''presentation'' v\<rparr>"

definition normalizedToolsFromBody :: "governance_env \<Rightarrow> string \<Rightarrow> normalizedObservedTool list" where
  "normalizedToolsFromBody ge body =
     (case ge_unmarshal ge body of
        None \<Rightarrow> []
      | Some v \<Rightarrow> (case member ''tools'' v of JArr ts \<Rightarrow> map toolOf ts | _ \<Rightarrow> []))"

section \<open>Stored tools and their statuses\<close>

abbreviation ContractToolUnchanged :: string where "ContractToolUnchanged \<equiv> ''unchanged''"
abbreviation ContractToolNewHidden :: string where "ContractToolNewHidden \<equiv> ''new_hidden''"
abbreviation ContractToolRemoved :: string where "ContractToolRemoved \<equiv> ''removed''"
abbreviation ContractToolPausedIncompatible :: string where "ContractToolPausedIncompatible \<equiv> ''paused_incompatible''"
abbreviation ContractToolChangedPresentation :: string where "ContractToolChangedPresentation \<equiv> ''changed_presentation''"

record storedContractTool =
  SD_ID :: string
  SD_Name :: string
  SD_InputSchema :: json
  SD_OutputSchema :: json
  SD_Annotations :: json
  SD_Presentation :: json

definition storedTool :: "contract_tool_row \<times> tool_row \<Rightarrow> store_error + storedContractTool" where
  "storedTool = (\<lambda>(ct, t).
     if list_all decodesToMap [CT_InputSchema ct, CT_OutputSchema ct, CT_Annotations ct, CT_Presentation ct] then
       Inr \<lparr>SD_ID = TL_ID t, SD_Name = TL_Name t, SD_InputSchema = CT_InputSchema ct, SD_OutputSchema = CT_OutputSchema ct,
         SD_Annotations = CT_Annotations ct, SD_Presentation = CT_Presentation ct\<rparr>
     else Inl (StoreErr (errorsNew ''json: cannot unmarshal into map'')))"

text \<open>The map of the tools of a revision by name, as a list; the names of one server's tools are unique.\<close>

definition contractToolsTx :: "governance_db \<Rightarrow> string option \<Rightarrow> store_error + storedContractTool list" where
  "contractToolsTx g revision = (case revision of None \<Rightarrow> Inr [] | Some c \<Rightarrow> mapE storedTool (contractTools g c))"

text \<open>The value of \<open>normalizeObject\<close> with its error ignored.\<close>

definition schemaOf :: "governance_env \<Rightarrow> string \<Rightarrow> json" where
  "schemaOf ge raw = (case normalizeObject ge raw of Inl _ \<Rightarrow> JNull | Inr v \<Rightarrow> v)"

definition compareTool :: "governance_env \<Rightarrow> storedContractTool option \<Rightarrow> ObservedToolInput \<Rightarrow> string" where
  "compareTool ge previous t =
     (case previous of
        None \<Rightarrow> ContractToolNewHidden
      | Some old \<Rightarrow>
          if \<not> equalJSONMap ge (SD_InputSchema old) (schemaOf ge (OI_InputSchema t))
             \<or> \<not> equalJSONMap ge (SD_OutputSchema old) (schemaOf ge (OI_OutputSchema t))
             \<or> \<not> equalJSONMap ge (SD_Annotations old) (hintedAnnotations ge t) then ContractToolPausedIncompatible
          else if \<not> equalJSONMap ge (SD_Presentation old) (cloneObject ge (OI_Presentation t)) then ContractToolChangedPresentation
          else ContractToolUnchanged)"

definition findStored :: "storedContractTool list \<Rightarrow> string \<Rightarrow> storedContractTool option" where
  "findStored previous nm = find (\<lambda>s. SD_Name s = nm) previous"

definition compareContractTools :: "governance_env \<Rightarrow> storedContractTool list \<Rightarrow> ObservedToolInput list \<Rightarrow> (string \<times> string) list" where
  "compareContractTools ge previous current =
     foldl (\<lambda>m t. AList.update (OI_Name t) (compareTool ge (findStored previous (OI_Name t)) t) m)
       (map (\<lambda>s. (SD_Name s, ContractToolRemoved)) previous) current"

section \<open>Observing a contract\<close>

record contract_ids =
  ni_Revision :: "string \<Rightarrow> string"
  ni_Tool :: "string \<Rightarrow> string \<Rightarrow> string"
  ni_Proposal :: "string \<Rightarrow> string \<Rightarrow> string"

record ContractObservationInput =
  BI_ServerID :: string
  BI_Tools :: "ObservedToolInput list"

record ContractObservationResult =
  BR_Revision :: contract_revision_row
  BR_Statuses :: "(string \<times> string) list"

definition checkViolation :: "string \<Rightarrow> store_error" where
  "checkViolation relation = StoreErr (errorf ''new row for relation %q violates check constraint'' [relation])"

text \<open>The row of \<open>mcp_contract_state\<close>, inserted when there is none.\<close>

definition freshState :: "string \<Rightarrow> contract_state_row" where
  "freshState serverID = \<lparr>CS_ServerID = serverID, CS_Accepted = None, CS_Latest = None, CS_ReviewState = ''unreviewed''\<rparr>"

definition stateForUpdate :: "string \<Rightarrow> governance_db \<Rightarrow> contract_state_row \<times> governance_db" where
  "stateForUpdate serverID g =
     (case findState g serverID of
        Some cs \<Rightarrow> (cs, g)
      | None \<Rightarrow> (freshState serverID, g\<lparr>GD_ContractStates := GD_ContractStates g @ [freshState serverID]\<rparr>))"

definition updateState :: "string \<Rightarrow> (contract_state_row \<Rightarrow> contract_state_row) \<Rightarrow> governance_db \<Rightarrow> governance_db" where
  "updateState serverID f g = g\<lparr>GD_ContractStates := map (\<lambda>cs. if CS_ServerID cs = serverID then f cs else cs) (GD_ContractStates g)\<rparr>"

definition nextContractRevision :: "governance_db \<Rightarrow> string \<Rightarrow> int" where
  "nextContractRevision g serverID = foldl max 0 (map CV_Revision (filter (\<lambda>c. CV_ServerID c = serverID) (GD_Contracts g))) + 1"

text \<open>The insert, with the unique constraints of \<open>mcp_contract_revisions\<close>; a \<open>jsonb\<close> column takes the decoded body.\<close>

definition insertContract :: "governance_env \<Rightarrow> string \<Rightarrow> string \<Rightarrow> string \<Rightarrow> string \<Rightarrow> governance_db \<Rightarrow> store_error + (contract_revision_row \<times> governance_db)" where
  "insertContract ge revisionID serverID body hash g =
     (case ge_unmarshal ge body of
        None \<Rightarrow> Inl (StoreErr (errorsNew ''invalid input syntax for type json''))
      | Some v \<Rightarrow>
          let c = \<lparr>CV_ID = revisionID, CV_ServerID = serverID, CV_Revision = nextContractRevision g serverID, CV_CanonicalHash = hash, CV_Body = v\<rparr> in
          if \<not> isObject v then Inl (checkViolation ''mcp_contract_revisions'')
          else if list_ex (\<lambda>q. CV_ID q = revisionID) (GD_Contracts g) then Inl (uniqueViolation ''mcp_contract_revisions_pkey'')
          else if list_ex (\<lambda>q. CV_ServerID q = serverID \<and> CV_Revision q = CV_Revision c) (GD_Contracts g) then
            Inl (uniqueViolation ''mcp_contract_revisions_server_id_revision_key'')
          else if list_ex (\<lambda>q. CV_ServerID q = serverID \<and> CV_CanonicalHash q = hash) (GD_Contracts g) then
            Inl (uniqueViolation ''mcp_contract_revisions_server_id_canonical_hash_key'')
          else Inr (c, g\<lparr>GD_Contracts := GD_Contracts g @ [c]\<rparr>))"

text \<open>A tool keeps its id over all contracts of its server.\<close>

definition findToolByName :: "governance_db \<Rightarrow> string \<Rightarrow> string \<Rightarrow> tool_row option" where
  "findToolByName g serverID nm = find (\<lambda>t. TL_ServerID t = serverID \<and> TL_Name t = nm) (GD_Tools g)"

definition stableContractToolID :: "contract_ids \<Rightarrow> string \<Rightarrow> string \<Rightarrow> governance_db \<Rightarrow> store_error + (string \<times> governance_db)" where
  "stableContractToolID ids serverID nm g =
     (case findToolByName g serverID nm of
        Some t \<Rightarrow> Inr (TL_ID t, g)
      | None \<Rightarrow>
          let i = ni_Tool ids serverID nm in
          if list_ex (\<lambda>t. TL_ID t = i) (GD_Tools g) then Inl (uniqueViolation ''mcp_tools_pkey'')
          else if \<not> observedToolName nm then Inl (checkViolation ''mcp_tools'')
          else Inr (i, g\<lparr>GD_Tools := GD_Tools g @ [\<lparr>TL_ID = i, TL_ServerID = serverID, TL_Name = nm\<rparr>]\<rparr>))"

text \<open>A column gets a member of the tool's own JSON, decoded and encoded once more.\<close>

definition column :: "governance_env \<Rightarrow> json \<Rightarrow> string \<Rightarrow> json option" where
  "column ge normalized k = ge_unmarshal ge (ge_marshal ge (member k normalized))"

definition contractToolRow ::
    "governance_env \<Rightarrow> string \<Rightarrow> string \<Rightarrow> int \<Rightarrow> string \<Rightarrow> normalizedObservedTool \<Rightarrow> store_error + contract_tool_row" where
  "contractToolRow ge revisionID toolID position status n =
     (case ge_unmarshal ge (ge_marshal ge (normalizedJSON n)) of
        None \<Rightarrow> Inl (StoreErr (errorsNew ''invalid JSON''))
      | Some v \<Rightarrow> (case (column ge v ''inputSchema'', column ge v ''outputSchema'', column ge v ''annotations'', column ge v ''presentation'') of
          (Some a, Some b, Some c, Some e) \<Rightarrow>
            if list_all isObject [a, b, c, e]
               \<and> status \<in> {ContractToolUnchanged, ContractToolNewHidden, ContractToolPausedIncompatible, ContractToolChangedPresentation} then
              Inr \<lparr>CT_ContractRevisionID = revisionID, CT_ToolID = toolID, CT_Position = position, CT_InputSchema = a, CT_OutputSchema = b,
                CT_Annotations = c, CT_Presentation = e, CT_Status = status\<rparr>
            else Inl (checkViolation ''mcp_contract_revision_tools'')
        | _ \<Rightarrow> Inl (StoreErr (errorsNew ''invalid input syntax for type json''))))"

definition insertContractTool :: "contract_tool_row \<Rightarrow> governance_db \<Rightarrow> store_error + governance_db" where
  "insertContractTool r g =
     (if list_ex (\<lambda>q. CT_ContractRevisionID q = CT_ContractRevisionID r \<and> CT_ToolID q = CT_ToolID r) (GD_ContractTools g) then
        Inl (uniqueViolation ''mcp_contract_revision_tools_pkey'')
      else if list_ex (\<lambda>q. CT_ContractRevisionID q = CT_ContractRevisionID r \<and> CT_Position q = CT_Position r) (GD_ContractTools g) then
        Inl (uniqueViolation ''mcp_contract_revision_tools_contract_revision_id_position_key'')
      else Inr (g\<lparr>GD_ContractTools := GD_ContractTools g @ [r]\<rparr>))"

fun insertTools ::
    "governance_env \<Rightarrow> contract_ids \<Rightarrow> string \<Rightarrow> string \<Rightarrow> (string \<times> string) list \<Rightarrow> int \<Rightarrow> normalizedObservedTool list \<Rightarrow> governance_db \<Rightarrow> store_error + governance_db" where
  "insertTools ge ids serverID revisionID statuses position [] g = Inr g"
| "insertTools ge ids serverID revisionID statuses position (n # ns) g =
     (case stableContractToolID ids serverID (NT_Name n) g of
        Inl e \<Rightarrow> Inl e
      | Inr (toolID, g1) \<Rightarrow> (case contractToolRow ge revisionID toolID position (mapText statuses (NT_Name n)) n of
          Inl e \<Rightarrow> Inl e
        | Inr r \<Rightarrow> (case insertContractTool r g1 of
            Inl e \<Rightarrow> Inl e
          | Inr g2 \<Rightarrow> insertTools ge ids serverID revisionID statuses (position + 1) ns g2)))"

section \<open>Rename proposals\<close>

definition schemaPairEqual :: "governance_env \<Rightarrow> storedContractTool \<Rightarrow> ObservedToolInput \<Rightarrow> bool" where
  "schemaPairEqual ge old added =
     (equalJSONMap ge (SD_InputSchema old) (schemaOf ge (OI_InputSchema added))
      \<and> equalJSONMap ge (SD_OutputSchema old) (schemaOf ge (OI_OutputSchema added)))"

definition toolIDForRevision :: "governance_db \<Rightarrow> string \<Rightarrow> string \<Rightarrow> string \<Rightarrow> store_error + string" where
  "toolIDForRevision g serverID revisionID nm =
     (case find (\<lambda>(ct, t). TL_ServerID t = serverID \<and> TL_Name t = nm) (contractTools g revisionID) of
        None \<Rightarrow> Inl noRows
      | Some (_, t) \<Rightarrow> Inr (TL_ID t))"

text \<open>\<open>ON CONFLICT DO NOTHING\<close>.\<close>

definition insertProposal :: "proposal_row \<Rightarrow> governance_db \<Rightarrow> governance_db" where
  "insertProposal p g =
     (if list_ex (\<lambda>q. PO_ID q = PO_ID p
          \<or> (PO_ServerID q, PO_RemovedToolID q, PO_AddedToolID q, PO_RemovedContract q, PO_AddedContract q)
            = (PO_ServerID p, PO_RemovedToolID p, PO_AddedToolID p, PO_RemovedContract p, PO_AddedContract p)) (GD_Proposals g) then g
      else g\<lparr>GD_Proposals := GD_Proposals g @ [p]\<rparr>)"

definition proposalFor :: "contract_ids \<Rightarrow> string \<Rightarrow> string \<Rightarrow> string \<Rightarrow> string \<Rightarrow> string \<Rightarrow> string \<Rightarrow> proposal_row" where
  "proposalFor ids serverID oldRevisionID newRevisionID status removedID addedID =
     \<lparr>PO_ID = ni_Proposal ids removedID addedID, PO_ServerID = serverID, PO_RemovedToolID = removedID, PO_AddedToolID = addedID,
       PO_RemovedContract = oldRevisionID, PO_AddedContract = newRevisionID, PO_Status = status\<rparr>"

fun proposePairs ::
    "governance_env \<Rightarrow> contract_ids \<Rightarrow> string \<Rightarrow> string \<Rightarrow> string \<Rightarrow> string \<Rightarrow> (storedContractTool \<times> ObservedToolInput) list \<Rightarrow> governance_db \<Rightarrow> store_error + governance_db" where
  "proposePairs ge ids serverID oldRevisionID newRevisionID status [] g = Inr g"
| "proposePairs ge ids serverID oldRevisionID newRevisionID status ((old, added) # pairs) g =
     (if \<not> schemaPairEqual ge old added then proposePairs ge ids serverID oldRevisionID newRevisionID status pairs g
      else case toolIDForRevision g serverID newRevisionID (OI_Name added) of
        Inl e \<Rightarrow> Inl e
      | Inr newToolID \<Rightarrow> proposePairs ge ids serverID oldRevisionID newRevisionID status pairs
          (insertProposal (proposalFor ids serverID oldRevisionID newRevisionID status (SD_ID old) newToolID) g))"

text \<open>
  One tool removed and one added: the id of the new tool is read before the schemas are compared. The map of the previous tools
  is walked in any order; here in the order of its list.
\<close>

definition createRenameProposalTx ::
    "governance_env \<Rightarrow> contract_ids \<Rightarrow> string \<Rightarrow> string option \<Rightarrow> string \<Rightarrow> storedContractTool list \<Rightarrow> ObservedToolInput list \<Rightarrow> (string \<times> string) list \<Rightarrow> governance_db \<Rightarrow> store_error + governance_db" where
  "createRenameProposalTx ge ids serverID oldRevision newRevisionID previous current statuses g =
     (case oldRevision of
        None \<Rightarrow> Inr g
      | Some oldRevisionID \<Rightarrow>
          if previous = [] then Inr g
          else let removed = filter (\<lambda>s. mapText statuses (SD_Name s) = ContractToolRemoved) previous;
                   added = filter (\<lambda>t. mapText statuses (OI_Name t) = ContractToolNewHidden) current in
          if length removed = 1 \<and> length added = 1 then
            (case toolIDForRevision g serverID newRevisionID (OI_Name (hd added)) of
               Inl e \<Rightarrow> Inl e
             | Inr _ \<Rightarrow> proposePairs ge ids serverID oldRevisionID newRevisionID ''suspected'' [(hd removed, hd added)] g)
          else proposePairs ge ids serverID oldRevisionID newRevisionID ''ambiguous'' (List.product removed added) g)"

section \<open>The observation of one server\<close>

text \<open>The same contract as the latest: nothing is written; the statuses are those against the accepted one.\<close>

definition observeSame ::
    "governance_env \<Rightarrow> contract_state_row \<Rightarrow> contract_revision_row \<Rightarrow> ObservedToolInput list \<Rightarrow> governance_db \<Rightarrow> store_error + ContractObservationResult" where
  "observeSame ge state latest tools g =
     (case contractToolsTx g (case CS_Accepted state of None \<Rightarrow> CS_Latest state | Some a \<Rightarrow> Some a) of
        Inl e \<Rightarrow> Inl e
      | Inr baseline \<Rightarrow> Inr \<lparr>BR_Revision = latest, BR_Statuses = compareContractTools ge baseline tools\<rparr>)"

definition reviewState :: "string option \<Rightarrow> (string \<times> string) list \<Rightarrow> string" where
  "reviewState latest statuses =
     (if latest = None then ''unreviewed''
      else if list_ex (\<lambda>(_, s). s = ContractToolPausedIncompatible) statuses then ''paused'' else ''changed'')"

definition observeNew ::
    "governance_env \<Rightarrow> contract_ids \<Rightarrow> string \<Rightarrow> contract_state_row \<Rightarrow> string \<Rightarrow> string \<Rightarrow> ObservedToolInput list \<Rightarrow> governance_db \<Rightarrow> store_error + (ContractObservationResult \<times> governance_db)" where
  "observeNew ge ids serverID state body hash tools g =
     (let latest = CS_Latest state; accepted = CS_Accepted state; revisionID = ni_Revision ids serverID in
      case contractToolsTx g latest of
        Inl e \<Rightarrow> Inl e
      | Inr previous \<Rightarrow> (case (if accepted \<noteq> None \<and> accepted \<noteq> latest then contractToolsTx g accepted else Inr previous) of
          Inl e \<Rightarrow> Inl e
        | Inr baseline \<Rightarrow> (case insertContract ge revisionID serverID body hash g of
            Inl e \<Rightarrow> Inl e
          | Inr (c, g1) \<Rightarrow>
              let statuses = compareContractTools ge baseline tools in
              (case insertTools ge ids serverID revisionID statuses 0 (normalizedToolsFromBody ge body) g1 of
                 Inl e \<Rightarrow> Inl e
               | Inr g2 \<Rightarrow>
                   let g3 = updateState serverID (\<lambda>cs. cs\<lparr>CS_Latest := Some revisionID, CS_ReviewState := reviewState latest statuses\<rparr>) g2 in
                   (case createRenameProposalTx ge ids serverID latest revisionID previous tools (compareContractTools ge previous tools) g3 of
                      Inl e \<Rightarrow> Inl e
                    | Inr g4 \<Rightarrow> Inr (\<lparr>BR_Revision = c, BR_Statuses = statuses\<rparr>, g4))))))"

definition ObserveContractsTx ::
    "governance_env \<Rightarrow> contract_ids \<Rightarrow> ContractObservationInput \<Rightarrow> governance_db \<Rightarrow> store_error + (ContractObservationResult \<times> governance_db)" where
  "ObserveContractsTx ge ids input g =
     (let serverID = BI_ServerID input in
      if \<not> ge_uuid ge serverID then Inl NotFound
      else if findServer g serverID = None then Inl NotFound
      else case CanonicalContract ge (BI_Tools input) of
        Inl e \<Rightarrow> Inl e
      | Inr (body, hash) \<Rightarrow>
          let (state, g0) = stateForUpdate serverID g in
          (case CS_Latest state of
             None \<Rightarrow> observeNew ge ids serverID state body hash (BI_Tools input) g0
           | Some l \<Rightarrow> (case findContract g0 l of
               None \<Rightarrow> Inl noRows
             | Some c \<Rightarrow>
                 if CV_CanonicalHash c = hash then
                   (case observeSame ge state c (BI_Tools input) g0 of Inl e \<Rightarrow> Inl e | Inr r \<Rightarrow> Inr (r, g0))
                 else observeNew ge ids serverID state body hash (BI_Tools input) g0)))"

definition ObserveContracts ::
    "governance_env \<Rightarrow> contract_ids \<Rightarrow> ContractObservationInput \<Rightarrow> governance_db \<Rightarrow> (store_error + ContractObservationResult) \<times> governance_db" where
  "ObserveContracts ge ids input g = (case ObserveContractsTx ge ids input g of Inl e \<Rightarrow> (Inl e, g) | Inr (r, g') \<Rightarrow> (Inr r, g'))"

section \<open>The observation of the relay\<close>

record ContractToolDTO =
  KT_Name :: string
  KT_RuntimeName :: string
  KT_Title :: "string option"
  KT_Description :: "string option"
  KT_InputSchema :: json
  KT_OutputSchema :: json
  KT_Annotations :: json

record ContractServerObservation =
  KS_ServerID :: string
  KS_ServerName :: string
  KS_MCPConfigRevisionID :: string
  KS_Tools :: "ContractToolDTO list"

record ContractObservationResponse =
  KR_RelayConfigurationRevisionID :: string
  KR_Servers :: "ContractServerObservation list"

record RelayContractObservationResult =
  RO_Observed :: nat
  RO_Changed :: nat
  RO_Paused :: nat

definition observedTool :: "governance_env \<Rightarrow> ContractToolDTO \<Rightarrow> ObservedToolInput" where
  "observedTool ge t =
     \<lparr>OI_Name = KT_Name t, OI_InputSchema = ge_marshal ge (KT_InputSchema t), OI_OutputSchema = ge_marshal ge (KT_OutputSchema t),
      OI_Annotations = cloneObject ge (KT_Annotations t),
      OI_Presentation = JObj ((case KT_Description t of None \<Rightarrow> [] | Some s \<Rightarrow> [(''description'', JStr s)])
        @ (case KT_Title t of None \<Rightarrow> [] | Some s \<Rightarrow> [(''title'', JStr s)])),
      OI_ReadOnlyHint = annotationBool (objectMembers (KT_Annotations t)) ''readOnlyHint'',
      OI_Mutating = annotationBool (objectMembers (KT_Annotations t)) ''mutatingHint''\<rparr>"

text \<open>The servers of the applied configuration: id, name and pinned revision.\<close>

definition appliedServers :: "governance_db \<Rightarrow> (string \<times> string \<times> string) list" where
  "appliedServers g = map (\<lambda>(pin, nm). (RP_ServerID pin, nm, RP_MCPRevisionID pin)) (relayServers g (GD_AppliedRelay g))"

definition addStatuses :: "(string \<times> string) list \<Rightarrow> RelayContractObservationResult \<Rightarrow> RelayContractObservationResult" where
  "addStatuses statuses r =
     \<lparr>RO_Observed = RO_Observed r + 1,
      RO_Changed = RO_Changed r + length (filter (\<lambda>(_, s). s \<noteq> ContractToolUnchanged) statuses),
      RO_Paused = RO_Paused r + length (filter (\<lambda>(_, s). s = ContractToolPausedIncompatible) statuses)\<rparr>"

fun observeServers ::
    "governance_env \<Rightarrow> contract_ids \<Rightarrow> (string \<times> string \<times> string) list \<Rightarrow> ContractServerObservation list \<Rightarrow> string list
     \<Rightarrow> RelayContractObservationResult \<Rightarrow> governance_db \<Rightarrow> store_error + (RelayContractObservationResult \<times> governance_db)" where
  "observeServers ge ids expected [] seen r g = Inr (r, g)"
| "observeServers ge ids expected (s # ss) seen r g =
     (if map_of expected (KS_ServerID s) \<noteq> Some (KS_ServerName s, KS_MCPConfigRevisionID s) then Inl Conflict
      else if KS_ServerID s \<in> set seen then Inl Conflict
      else case ObserveContractsTx ge ids \<lparr>BI_ServerID = KS_ServerID s, BI_Tools = map (observedTool ge) (KS_Tools s)\<rparr> g of
        Inl e \<Rightarrow> Inl e
      | Inr (observation, g') \<Rightarrow> observeServers ge ids expected ss (KS_ServerID s # seen) (addStatuses (BR_Statuses observation) r) g')"

definition ObserveRelayContracts ::
    "governance_env \<Rightarrow> contract_ids \<Rightarrow> ContractObservationResponse \<Rightarrow> governance_db
     \<Rightarrow> (store_error + RelayContractObservationResult) \<times> governance_db" where
  "ObserveRelayContracts ge ids response g =
     (if \<not> ge_uuid ge (KR_RelayConfigurationRevisionID response) \<or> length (KR_Servers response) > 500 then (Inl Conflict, g)
      else if GD_AppliedRelay g \<noteq> KR_RelayConfigurationRevisionID response then (Inl Conflict, g)
      else if length (appliedServers g) \<noteq> length (KR_Servers response) then (Inl Conflict, g)
      else case observeServers ge ids (appliedServers g) (KR_Servers response) [] \<lparr>RO_Observed = 0, RO_Changed = 0, RO_Paused = 0\<rparr> g of
        Inl e \<Rightarrow> (Inl e, g)
      | Inr (r, g') \<Rightarrow> (Inr r, g'))"

section \<open>Accepting a contract\<close>

text \<open>The event of an audit; its metadata has been redacted.\<close>

record AuditEvent =
  AE_Action :: string
  AE_ResourceType :: string
  AE_ResourceID :: string
  AE_Outcome :: string
  AE_IPAddress :: string
  AE_Metadata :: json

record contract_db =
  KD_Profiles :: profile_db
  KD_LegacyProfileID :: "string option"
  KD_LegacyProfileState :: string
  KD_Audit :: "AuditEvent list"

abbreviation KD_Gov :: "contract_db \<Rightarrow> governance_db" where "KD_Gov d \<equiv> PD_Gov (KD_Profiles d)"

definition overContracts :: "(governance_db \<Rightarrow> governance_db) \<Rightarrow> contract_db \<Rightarrow> contract_db" where
  "overContracts f d = d\<lparr>KD_Profiles := overGov f (KD_Profiles d)\<rparr>"

definition profileInputFromRevision :: "profile_db \<Rightarrow> string \<Rightarrow> string \<Rightarrow> store_error + ProfileInput" where
  "profileInputFromRevision d profileID revisionID =
     (case (findProfile (PD_Gov d) profileID, findRevision (PD_Gov d) revisionID) of
        (Some p, Some r) \<Rightarrow>
          if PV_ProfileID r \<noteq> profileID then Inl NotFound
          else (let skills = sort_key PSK_Position (filter (\<lambda>x. PSK_ProfileRevisionID x = revisionID) (PD_ProfileSkills d));
                    servers = sort_key PMS_Position (filter (\<lambda>x. PMS_ProfileRevisionID x = revisionID) (PD_ProfileServers d));
                    (governance, rules) = profileGovernanceInputs d revisionID in
            Inr \<lparr>FI_Name = PV_Name r, FI_Description = PV_Description r, FI_ClientKind = PV_ClientKind r, FI_Category = PV_Category r,
              FI_Variant = PV_Variant r, FI_MigrationState = PV_MigrationState r,
              FI_SkillIDs = map PSK_SkillID skills, FI_MCPServerIDs = map PMS_ServerID servers,
              FI_SkillVersionIDs = map (\<lambda>x. (PSK_SkillID x, PSK_VersionID x)) skills,
              FI_MCPRevisionIDs = map (\<lambda>x. (PMS_ServerID x, PMS_MCPRevisionID x)) servers,
              FI_MCPGovernance = governance, FI_ToolRules = rules, FI_Revision = PF_Revision p,
              FI_ArchivedRestore = PV_ArchivedRestore r, FI_PendingBindings = PV_PendingBindings r\<rparr>)
      | _ \<Rightarrow> Inl NotFound)"

text \<open>The pins of the relay configuration with the accepted contract of each server.\<close>

definition relayPinsOf :: "governance_db \<Rightarrow> string \<Rightarrow> (string \<times> string \<times> string) list" where
  "relayPinsOf g relayRevisionID =
     map (\<lambda>pin. (RP_ServerID pin, RP_MCPRevisionID pin, acceptedContract g (RP_ServerID pin)))
       (sort_key RP_Position (filter (\<lambda>pin. RP_RelayRevisionID pin = relayRevisionID) (GD_RelayPins g)))"

definition bootstrapInput :: "(string \<times> string \<times> string) list \<Rightarrow> ProfileInput \<Rightarrow> ProfileInput" where
  "bootstrapInput pins input = input\<lparr>
     FI_MCPServerIDs := map (\<lambda>(s, _, _). s) pins,
     FI_MCPRevisionIDs := map (\<lambda>(s, m, _). (s, m)) pins,
     FI_MCPGovernance := map (\<lambda>(s, m, c). \<lparr>GO_ServerID = s, GO_MCPRevisionID = m, GO_AcceptedContractRevisionID = c,
       GO_VisibilityMode = ''all_accepted''\<rparr>) pins\<rparr>"

definition applicableBindings :: "profile_db \<Rightarrow> string \<Rightarrow> string \<Rightarrow> pending_binding list" where
  "applicableBindings d revisionID relayRevisionID =
     filter (\<lambda>b. BN_ProfileRevisionID b = revisionID
       \<and> list_ex (\<lambda>pin. RP_RelayRevisionID pin = relayRevisionID \<and> RP_MCPRevisionID pin = BN_MCPRevisionID b) (GD_RelayPins (PD_Gov d))) (PD_Pending d)"

definition copyBindings :: "string \<Rightarrow> string \<Rightarrow> profile_db \<Rightarrow> profile_db" where
  "copyBindings newRevisionID oldRevisionID d = d\<lparr>PD_Pending := PD_Pending d @
     map (\<lambda>b. b\<lparr>BN_ProfileRevisionID := newRevisionID\<rparr>)
       (filter (\<lambda>b. BN_ProfileRevisionID b = oldRevisionID
          \<and> list_ex (\<lambda>r. PMS_ProfileRevisionID r = newRevisionID \<and> PMS_MCPRevisionID r = BN_MCPRevisionID b) (PD_ProfileServers d)) (PD_Pending d))\<rparr>"

fun bootstrapProfiles ::
    "profile_env \<Rightarrow> (string \<Rightarrow> string) \<Rightarrow> string \<Rightarrow> (string \<times> string \<times> string) list \<Rightarrow> (string \<times> string) list \<Rightarrow> profile_db \<Rightarrow> store_error + profile_db" where
  "bootstrapProfiles fe newIDs relayRevisionID pins [] d = Inr d"
| "bootstrapProfiles fe newIDs relayRevisionID pins ((profileID, revisionID) # rest) d =
     (case profileInputFromRevision d profileID revisionID of
        Inl e \<Rightarrow> Inl e
      | Inr input \<Rightarrow>
          if FI_PendingBindings input \<and> applicableBindings d revisionID relayRevisionID = [] then
            bootstrapProfiles fe newIDs relayRevisionID pins rest d
          else (case saveProfile fe '''' (newIDs profileID) profileID (bootstrapInput pins input) d of
            Inl e \<Rightarrow> Inl e
          | Inr ((_, newRevisionID), d1) \<Rightarrow>
              bootstrapProfiles fe newIDs relayRevisionID pins rest
                (if FI_PendingBindings input then copyBindings newRevisionID revisionID d1 else d1)))"

definition bootstrapFirstContractProfiles :: "profile_env \<Rightarrow> (string \<Rightarrow> string) \<Rightarrow> string \<Rightarrow> contract_db \<Rightarrow> store_error + contract_db" where
  "bootstrapFirstContractProfiles fe newIDs acceptedServerID d =
     (let g = KD_Gov d; pins = relayPinsOf g (GD_AppliedRelay g);
          profiles = map (\<lambda>p. (PF_ID p, PF_CurrentRevisionID p))
            (sort_key PF_ID (filter (\<lambda>p. \<not> PF_Archived p \<and> PF_ClientKind p \<in> {''claude'', ''codex''} \<and> PF_MigrationState p = ''ready'') (GD_Profiles g))) in
      if GD_Mode g \<noteq> ''compatibility'' \<or> KD_LegacyProfileID d = None \<or> KD_LegacyProfileState d \<noteq> ''pending'' then Inr d
      else if acceptedServerID \<notin> (\<lambda>(s, _, _). s) ` set pins then Inr d
      else case bootstrapProfiles fe newIDs (GD_AppliedRelay g) pins profiles (KD_Profiles d) of
        Inl e \<Rightarrow> Inl e
      | Inr p \<Rightarrow> Inr (d\<lparr>KD_Profiles := p\<rparr>))"

definition acceptRow :: "string \<Rightarrow> contract_state_row \<Rightarrow> contract_state_row" where
  "acceptRow revisionID cs = cs\<lparr>CS_Accepted := Some revisionID, CS_ReviewState := ''accepted''\<rparr>"

definition AcceptContract ::
    "profile_env \<Rightarrow> (string \<Rightarrow> string) \<Rightarrow> string \<Rightarrow> string \<Rightarrow> string list \<Rightarrow> contract_db \<Rightarrow> store_error + contract_db" where
  "AcceptContract fe newIDs serverID revisionID ipAddresses d =
     (if length ipAddresses > 1 then Inl (StoreErr (errorsNew ''contract acceptance accepts at most one IP address''))
      else case findContract (KD_Gov d) revisionID of
        None \<Rightarrow> Inl NotFound
      | Some c \<Rightarrow>
          if CV_ServerID c \<noteq> serverID then Inl Conflict
          else (case findState (KD_Gov d) serverID of
            None \<Rightarrow> Inl noRows
          | Some cs \<Rightarrow>
              let d1 = overContracts (updateState serverID (acceptRow revisionID)) d in
              (case (if CS_Accepted cs = None then bootstrapFirstContractProfiles fe newIDs serverID d1 else Inr d1) of
                 Inl e \<Rightarrow> Inl e
               | Inr d2 \<Rightarrow> Inr (d2\<lparr>KD_Audit := KD_Audit d2 @ [\<lparr>AE_Action = ''relay_contract_accept'', AE_ResourceType = ''relay_contract'',
                   AE_ResourceID = revisionID, AE_Outcome = ''success'', AE_IPAddress = concat ipAddresses,
                   AE_Metadata = JObj [(''serverId'', JStr serverID), (''canonicalHash'', JStr (CV_CanonicalHash c))]\<rparr>]\<rparr>))))"

section \<open>Confirming a rename\<close>

record rename_pair =
  QN_ServerID :: string
  QN_OldToolID :: string
  QN_NewToolID :: string
  QN_OldContract :: string
  QN_NewContract :: string

definition renameOf :: "proposal_row \<Rightarrow> rename_pair" where
  "renameOf p = \<lparr>QN_ServerID = PO_ServerID p, QN_OldToolID = PO_RemovedToolID p, QN_NewToolID = PO_AddedToolID p,
     QN_OldContract = PO_RemovedContract p, QN_NewContract = PO_AddedContract p\<rparr>"

definition ownedTool :: "governance_db \<Rightarrow> string \<Rightarrow> string \<Rightarrow> store_error option" where
  "ownedTool g serverID toolID =
     (case findTool g toolID of None \<Rightarrow> Some NotFound | Some t \<Rightarrow> if TL_ServerID t \<noteq> serverID then Some Conflict else None)"

definition ownedContract :: "governance_db \<Rightarrow> string \<Rightarrow> string \<Rightarrow> store_error option" where
  "ownedContract g serverID contractID =
     (case findContract g contractID of None \<Rightarrow> Some NotFound | Some c \<Rightarrow> if CV_ServerID c \<noteq> serverID then Some Conflict else None)"

definition hasContractTool :: "governance_db \<Rightarrow> string \<times> string \<Rightarrow> bool" where
  "hasContractTool g = (\<lambda>(contractID, toolID).
     list_ex (\<lambda>ct. CT_ContractRevisionID ct = contractID \<and> CT_ToolID ct = toolID) (GD_ContractTools g))"

definition validateRenameProposalTx :: "governance_db \<Rightarrow> rename_pair \<Rightarrow> store_error option" where
  "validateRenameProposalTx g q =
     (case firstError (ownedTool g (QN_ServerID q)) [QN_OldToolID q, QN_NewToolID q] of
        Some e \<Rightarrow> Some e
      | None \<Rightarrow> (case firstError (ownedContract g (QN_ServerID q)) [QN_OldContract q, QN_NewContract q] of
          Some e \<Rightarrow> Some e
        | None \<Rightarrow>
            if \<not> list_all (hasContractTool g) [(QN_OldContract q, QN_OldToolID q), (QN_NewContract q, QN_NewToolID q)] then Some Conflict
            else (case findState g (QN_ServerID q) of
              None \<Rightarrow> Some noRows
            | Some cs \<Rightarrow> if CS_Latest cs \<noteq> Some (QN_NewContract q) then Some Conflict else None)))"

text \<open>The decision of the old tool moves to the new one; the map keeps its other entries.\<close>

definition renameOverride :: "string \<Rightarrow> string \<Rightarrow> (string \<times> string) list \<Rightarrow> (string \<times> string) list" where
  "renameOverride oldToolID newToolID overrides =
     AList.update newToolID (mapText overrides oldToolID) (AList.delete oldToolID overrides)"

definition cloneGlobalPolicyForRename :: "governance_env \<Rightarrow> string \<Rightarrow> time \<Rightarrow> string \<Rightarrow> string \<Rightarrow> governance_db \<Rightarrow> store_error + governance_db" where
  "cloneGlobalPolicyForRename ge newID now oldToolID newToolID g =
     (case findPolicy g (GD_CurrentPolicy g) of
        None \<Rightarrow> Inl noRows
      | Some p \<Rightarrow>
          if mapText (GP_ExplicitOverrides p) oldToolID = '''' then Inr g
          else let overrides = renameOverride oldToolID newToolID (GP_ExplicitOverrides p);
                   input = \<lparr>GI_Revision = GP_Revision p, GI_CatalogVersion = GP_CatalogVersion p, GI_ExplicitOverrides = overrides,
                     GI_UnclassifiedMutating = GP_UnclassifiedMutating p, GI_ReviewedReadOnly = GP_ReviewedReadOnly p\<rparr> in
          (case insertPolicy \<lparr>GP_ID = newID, GP_Revision = GP_Revision p + 1, GP_CanonicalHash = canonicalPolicyHash ge input,
                GP_CatalogVersion = GP_CatalogVersion p, GP_ExplicitOverrides = overrides,
                GP_UnclassifiedMutating = GP_UnclassifiedMutating p, GP_ReviewedReadOnly = GP_ReviewedReadOnly p, GP_CreatedAt = now\<rparr> g of
             Inl e \<Rightarrow> Inl e
           | Inr g' \<Rightarrow> Inr (g'\<lparr>GD_CurrentPolicy := newID\<rparr>)))"

definition renamedID :: "string \<Rightarrow> string \<Rightarrow> string \<Rightarrow> string" where
  "renamedID old new i = (if i = old then new else i)"

text \<open>The profiles whose current revision has a rule for the old tool, or shows all tools of the old contract.\<close>

definition renameCandidates :: "governance_db \<Rightarrow> rename_pair \<Rightarrow> (string \<times> string) list" where
  "renameCandidates g q =
     map (\<lambda>p. (PF_ID p, PF_CurrentRevisionID p))
       (sort_key PF_ID (filter (\<lambda>p. hasRule g (PF_CurrentRevisionID p) (QN_OldToolID q)
          \<or> list_ex (\<lambda>r. PG_ServerID r = QN_ServerID q \<and> PG_AcceptedContract r = Some (QN_OldContract q) \<and> PG_VisibilityMode r = ''all_accepted'')
              (governanceRows g (PF_CurrentRevisionID p))) (GD_Profiles g)))"

definition renameGovernance :: "rename_pair \<Rightarrow> profile_governance_row \<Rightarrow> profile_governance_row" where
  "renameGovernance q r = (if PG_AcceptedContract r = Some (QN_OldContract q) then r\<lparr>PG_AcceptedContract := Some (QN_NewContract q)\<rparr> else r)"

definition renameRule :: "rename_pair \<Rightarrow> profile_rule_row \<Rightarrow> profile_rule_row" where
  "renameRule q r = r\<lparr>PT_ToolID := renamedID (QN_OldToolID q) (QN_NewToolID q) (PT_ToolID r)\<rparr>"

text \<open>The input of the hash has the row's fields and the renamed governance and rules.\<close>

definition canonicalRenamedProfileHash :: "profile_env \<Rightarrow> profile_db \<Rightarrow> profile_revision_row \<Rightarrow> rename_pair \<Rightarrow> string" where
  "canonicalRenamedProfileHash fe d r q =
     (let i = PV_ID r; g = PD_Gov d in
      CanonicalGovernedProfileHash fe
        \<lparr>FI_Name = PV_Name r, FI_Description = PV_Description r, FI_ClientKind = PV_ClientKind r, FI_Category = PV_Category r,
         FI_Variant = PV_Variant r, FI_MigrationState = PV_MigrationState r, FI_SkillIDs = [], FI_MCPServerIDs = [],
         FI_SkillVersionIDs = [], FI_MCPRevisionIDs = [],
         FI_MCPGovernance = map (governanceInputOf \<circ> renameGovernance q) (sort_key PG_ServerID (governanceRows g i)),
         FI_ToolRules = map (ruleInputOf \<circ> renameRule q) (sort_key PT_ToolID (filter (\<lambda>x. PT_ProfileRevisionID x = i) (GD_ProfileRules g))),
         FI_Revision = 0, FI_ArchivedRestore = False, FI_PendingBindings = False\<rparr>
        (skillPins d i) (serverPins d i))"

text \<open>The copy of one revision under a new id; the rules of a revision have distinct tools (primary key).\<close>

definition cloneRevision :: "profile_env \<Rightarrow> rename_pair \<Rightarrow> string \<Rightarrow> string \<Rightarrow> string \<Rightarrow> profile_db \<Rightarrow> store_error + profile_db" where
  "cloneRevision fe q newRevisionID profileID revisionID d =
     (let g = PD_Gov d in
      case findRevision g revisionID of
        None \<Rightarrow> Inl noRows
      | Some r \<Rightarrow>
          let row = r\<lparr>PV_ID := newRevisionID, PV_ProfileID := profileID, PV_Revision := PV_Revision r + 1,
                PV_CanonicalHash := canonicalRenamedProfileHash fe d r q\<rparr>;
              rules = map (\<lambda>x. (renameRule q x)\<lparr>PT_ProfileRevisionID := newRevisionID\<rparr>)
                (filter (\<lambda>x. PT_ProfileRevisionID x = revisionID) (GD_ProfileRules g)) in
          (case insertRevision row g of
             Inl e \<Rightarrow> Inl e
           | Inr g1 \<Rightarrow>
               if \<not> distinct (map PT_ToolID rules) then Inl (uniqueViolation ''profile_revision_tool_rules_pkey'')
               else Inr (d\<lparr>PD_Gov := g1\<lparr>
                   GD_ProfileGovernance := GD_ProfileGovernance g1 @ map (\<lambda>x. (renameGovernance q x)\<lparr>PG_ProfileRevisionID := newRevisionID\<rparr>) (governanceRows g revisionID),
                   GD_ProfileRules := GD_ProfileRules g1 @ rules,
                   GD_Profiles := map (\<lambda>p. if PF_ID p = profileID then p\<lparr>PF_Revision := PV_Revision r + 1, PF_CurrentRevisionID := newRevisionID\<rparr> else p) (GD_Profiles g1)\<rparr>,
                 PD_ProfileSkills := PD_ProfileSkills d @ map (\<lambda>x. x\<lparr>PSK_ProfileRevisionID := newRevisionID\<rparr>)
                   (filter (\<lambda>x. PSK_ProfileRevisionID x = revisionID) (PD_ProfileSkills d)),
                 PD_ProfileServers := PD_ProfileServers d @ map (\<lambda>x. x\<lparr>PMS_ProfileRevisionID := newRevisionID\<rparr>)
                   (filter (\<lambda>x. PMS_ProfileRevisionID x = revisionID) (PD_ProfileServers d)),
                 PD_Pending := PD_Pending d @ map (\<lambda>b. b\<lparr>BN_ProfileRevisionID := newRevisionID\<rparr>)
                   (filter (\<lambda>b. BN_ProfileRevisionID b = revisionID) (PD_Pending d)),
                 PD_Seals := PD_Seals d @ [newRevisionID]\<rparr>)))"

fun cloneProfilesForRename :: "profile_env \<Rightarrow> (string \<Rightarrow> string) \<Rightarrow> rename_pair \<Rightarrow> (string \<times> string) list \<Rightarrow> profile_db \<Rightarrow> store_error + profile_db" where
  "cloneProfilesForRename fe newIDs q [] d = Inr d"
| "cloneProfilesForRename fe newIDs q ((profileID, revisionID) # rest) d =
     (case cloneRevision fe q (newIDs profileID) profileID revisionID d of
        Inl e \<Rightarrow> Inl e
      | Inr d' \<Rightarrow> cloneProfilesForRename fe newIDs q rest d')"

text \<open>The rename itself, with the unique constraints of \<open>mcp_tool_renames\<close>.\<close>

definition insertRename :: "string \<Rightarrow> rename_pair \<Rightarrow> governance_db \<Rightarrow> store_error + governance_db" where
  "insertRename newID q g =
     (if list_ex (\<lambda>r. RN_ID r = newID) (GD_Renames g) then Inl (uniqueViolation ''mcp_tool_renames_pkey'')
      else if list_ex (\<lambda>r. RN_ServerID r = QN_ServerID q \<and> RN_OldToolID r = QN_OldToolID q \<and> RN_NewToolID r = QN_NewToolID q) (GD_Renames g) then
        Inl (uniqueViolation ''mcp_tool_renames_server_id_old_tool_id_new_tool_id_key'')
      else Inr (g\<lparr>GD_Renames := GD_Renames g @ [\<lparr>RN_ID = newID, RN_ServerID = QN_ServerID q, RN_OldToolID = QN_OldToolID q,
        RN_NewToolID = QN_NewToolID q, RN_RemovedContract = QN_OldContract q, RN_AddedContract = QN_NewContract q\<rparr>]\<rparr>))"

definition setStatus :: "(proposal_row \<Rightarrow> bool) \<Rightarrow> string \<Rightarrow> governance_db \<Rightarrow> governance_db" where
  "setStatus hit status g = g\<lparr>GD_Proposals := map (\<lambda>p. if hit p then p\<lparr>PO_Status := status\<rparr> else p) (GD_Proposals g)\<rparr>"

definition rivalProposal :: "proposal_row \<Rightarrow> proposal_row \<Rightarrow> bool" where
  "rivalProposal p q = (PO_ID q \<noteq> PO_ID p \<and> PO_ServerID q = PO_ServerID p \<and> PO_RemovedContract q = PO_RemovedContract p
     \<and> PO_AddedContract q = PO_AddedContract p \<and> PO_Status q = ''ambiguous''
     \<and> (PO_RemovedToolID q = PO_RemovedToolID p \<or> PO_AddedToolID q = PO_AddedToolID p))"

record rename_ids =
  ri_Rename :: string
  ri_Policy :: string
  ri_Revision :: "string \<Rightarrow> string"

definition ConfirmToolRename :: "profile_env \<Rightarrow> rename_ids \<Rightarrow> time \<Rightarrow> string \<Rightarrow> contract_db \<Rightarrow> store_error + contract_db" where
  "ConfirmToolRename fe ids now proposalID d =
     (let g = KD_Gov d in
      case find (\<lambda>p. PO_ID p = proposalID) (GD_Proposals g) of
        None \<Rightarrow> Inl NotFound
      | Some p \<Rightarrow>
          let q = renameOf p in
          if PO_Status p \<noteq> ''suspected'' \<and> PO_Status p \<noteq> ''ambiguous'' then Inl Conflict
          else (case validateRenameProposalTx g q of
            Some e \<Rightarrow> Inl e
          | None \<Rightarrow>
          (case insertRename (ri_Rename ids) q (if PO_Status p = ''ambiguous'' then setStatus (rivalProposal p) ''rejected'' g else g) of
            Inl e \<Rightarrow> Inl e
          | Inr g1 \<Rightarrow>
          (case cloneGlobalPolicyForRename (fe_gov fe) (ri_Policy ids) now (QN_OldToolID q) (QN_NewToolID q) g1 of
            Inl e \<Rightarrow> Inl e
          | Inr g2 \<Rightarrow>
          (case cloneProfilesForRename fe (ri_Revision ids) q (renameCandidates g2 q) ((KD_Profiles d)\<lparr>PD_Gov := g2\<rparr>) of
            Inl e \<Rightarrow> Inl e
          | Inr d1 \<Rightarrow>
              Inr (d\<lparr>KD_Profiles := overGov (\<lambda>g. updateState (QN_ServerID q) (acceptRow (QN_NewContract q))
                    (setStatus (\<lambda>x. PO_ID x = proposalID) ''confirmed'' g)) d1,
                  KD_Audit := KD_Audit d @ [\<lparr>AE_Action = ''mcp_tool_rename_confirmed'', AE_ResourceType = ''mcp_server'',
                    AE_ResourceID = QN_ServerID q, AE_Outcome = ''success'', AE_IPAddress = '''',
                    AE_Metadata = JObj [(''newContractRevisionId'', JStr (QN_NewContract q)), (''newToolId'', JStr (QN_NewToolID q)),
                      (''oldContractRevisionId'', JStr (QN_OldContract q)), (''oldToolId'', JStr (QN_OldToolID q))]\<rparr>]\<rparr>))))))"

end
