(* ===== verification/Json_Codec.thy ===== *)
theory Json_Codec
  imports ToolHub_Prelude
begin

text \<open>
  What the code relies on of \<open>encoding/json\<close> when it decodes a value into \<open>any\<close> and encodes it again: decoding gives the value
  back with the members of every object in the order of their keys. \<open>json_laws\<close> says this of a pair of functions;
  \<open>unaryMarshal\<close> and \<open>unaryUnmarshal\<close> are a concrete pair that satisfies it.
\<close>

section \<open>Canonical values\<close>

text \<open>The values that decoding can give: no duplicate keys, numbers that a \<open>float64\<close> holds.\<close>

fun goJSON :: "json \<Rightarrow> bool" where
  "goJSON JNull = True"
| "goJSON (JBool _) = True"
| "goJSON (JNum n) = (\<bar>n\<bar> \<le> 2 ^ 53)"
| "goJSON (JTime _) = False"
| "goJSON (JStr _) = True"
| "goJSON (JMsg _) = False"
| "goJSON (JArr vs) = list_all goJSON vs"
| "goJSON (JObj fs) = (distinct (map fst fs) \<and> list_all (\<lambda>kv. goJSON (snd kv)) fs)"

fun canon :: "json \<Rightarrow> json" where
  "canon (JArr vs) = JArr (map canon vs)"
| "canon (JObj fs) = JObj (sort_key fst (map (\<lambda>kv. (fst kv, canon (snd kv))) fs))"
| "canon v = v"

lemma map_fst_pairs [simp]: "map (fst \<circ> (\<lambda>kv. (fst kv, f kv))) xs = map fst xs"
  by simp

lemma distinct_map_sort_key [simp]: "distinct (map f (sort_key k xs)) = distinct (map f xs)"
proof -
  have "mset (map f (sort_key k xs)) = mset (map f xs)" by simp
  then show ?thesis by (metis mset_eq_imp_distinct_iff)
qed

lemma goJSON_canon [simp]: "goJSON v \<Longrightarrow> goJSON (canon v)"
  by (induction v rule: canon.induct) (auto simp: list_all_iff comp_def)

lemma canon_idem [simp]: "canon (canon v) = canon v"
proof (induction v rule: canon.induct)
  case (2 fs)
  have step: "map (\<lambda>kv. (fst kv, canon (snd kv))) (sort_key fst (map (\<lambda>kv. (fst kv, canon (snd kv))) fs))
      = sort_key fst (map (\<lambda>kv. (fst kv, canon (snd kv))) fs)"
    by (rule map_idI) (use 2 in auto)
  show ?case unfolding canon.simps step by (simp add: sort_key_id_if_sorted)
qed auto

definition json_laws :: "(string \<Rightarrow> json option) \<Rightarrow> (json \<Rightarrow> string) \<Rightarrow> bool" where
  "json_laws unmarshal marshal =
     ((\<forall>v. goJSON v \<longrightarrow> unmarshal (marshal v) = Some (canon v))
      \<and> (\<forall>s v. unmarshal s = Some v \<longrightarrow> goJSON v \<and> canon v = v))"

lemma json_roundtrip: "json_laws u m \<Longrightarrow> goJSON v \<Longrightarrow> u (m v) = Some (canon v)"
  and json_decoded: "json_laws u m \<Longrightarrow> u s = Some v \<Longrightarrow> goJSON v \<and> canon v = v"
  by (simp_all add: json_laws_def)

section \<open>A concrete pair\<close>

definition putString :: "string \<Rightarrow> string" where
  "putString s = concat (map (\<lambda>c. [CHR ''c'', c]) s) @ ''e''"

definition putNat :: "nat \<Rightarrow> string" where
  "putNat n = replicate n CHR ''1'' @ ''e''"

fun unaryMarshal :: "json \<Rightarrow> string" where
  "unaryMarshal JNull = ''n''"
| "unaryMarshal (JBool b) = (if b then ''t'' else ''f'')"
| "unaryMarshal (JNum n) = (if n \<ge> 0 then CHR ''p'' else CHR ''m'') # putNat (nat \<bar>n\<bar>)"
| "unaryMarshal (JTime _) = ''T''"
| "unaryMarshal (JStr s) = CHR ''s'' # putString s"
| "unaryMarshal (JMsg _) = ''M''"
| "unaryMarshal (JArr vs) = CHR ''['' # concat (map (\<lambda>v. CHR ''v'' # unaryMarshal v) vs) @ ''e''"
| "unaryMarshal (JObj fs) = CHR ''{'' # concat (map (\<lambda>kv. CHR ''k'' # putString (fst kv) @ unaryMarshal (snd kv)) fs) @ ''e''"

fun getString :: "string \<Rightarrow> (string \<times> string) option" where
  "getString [] = None"
| "getString (c # s) =
     (if c = CHR ''e'' then Some ([], s)
      else case s of [] \<Rightarrow> None | x # r \<Rightarrow> (case getString r of None \<Rightarrow> None | Some (t, q) \<Rightarrow> Some (x # t, q)))"

fun getNat :: "string \<Rightarrow> nat \<times> string" where
  "getNat [] = (0, [])"
| "getNat (c # s) = (if c = CHR ''1'' then (case getNat s of (n, r) \<Rightarrow> (Suc n, r)) else (0, s))"

fun getValue :: "nat \<Rightarrow> string \<Rightarrow> (json \<times> string) option"
  and getItems :: "nat \<Rightarrow> string \<Rightarrow> (json list \<times> string) option"
  and getMembers :: "nat \<Rightarrow> string \<Rightarrow> ((string \<times> json) list \<times> string) option" where
  "getValue (Suc n) (c # s) =
     (if c = CHR ''n'' then Some (JNull, s)
      else if c = CHR ''t'' then Some (JBool True, s)
      else if c = CHR ''f'' then Some (JBool False, s)
      else if c = CHR ''p'' then (case getNat s of (k, r) \<Rightarrow> Some (JNum (int k), r))
      else if c = CHR ''m'' then (case getNat s of (k, r) \<Rightarrow> Some (JNum (- int k), r))
      else if c = CHR ''s'' then map_option (\<lambda>(t, r). (JStr t, r)) (getString s)
      else if c = CHR ''['' then map_option (\<lambda>(vs, r). (JArr vs, r)) (getItems n s)
      else if c = CHR ''{'' then map_option (\<lambda>(fs, r). (JObj fs, r)) (getMembers n s)
      else None)"
| "getValue _ _ = None"
| "getItems (Suc n) (c # s) =
     (if c = CHR ''v'' then
        (case getValue n s of None \<Rightarrow> None | Some (v, r) \<Rightarrow> map_option (\<lambda>(vs, q). (v # vs, q)) (getItems n r))
      else Some ([], s))"
| "getItems _ _ = None"
| "getMembers (Suc n) (c # s) =
     (if c = CHR ''k'' then
        (case getString s of
           None \<Rightarrow> None
         | Some (k, r) \<Rightarrow> (case getValue n r of None \<Rightarrow> None | Some (v, q) \<Rightarrow> map_option (\<lambda>(fs, p). ((k, v) # fs, p)) (getMembers n q)))
      else Some ([], s))"
| "getMembers _ _ = None"

definition unaryUnmarshal :: "string \<Rightarrow> json option" where
  "unaryUnmarshal s = (case getValue (length s) s of Some (v, []) \<Rightarrow> if goJSON v then Some (canon v) else None | _ \<Rightarrow> None)"

lemma getString_put [simp]: "getString (putString s @ r) = Some (s, r)"
  by (induction s) (simp_all add: putString_def)

lemma getNat_put [simp]: "getNat (putNat n @ r) = (n, r)"
  by (induction n) (simp_all add: putNat_def)

lemma unaryMarshal_nonempty: "unaryMarshal v \<noteq> []"
  by (cases v) auto

lemma getItems_put:
  assumes "\<And>v n r. v \<in> set vs \<Longrightarrow> length (unaryMarshal v) \<le> n \<Longrightarrow> getValue n (unaryMarshal v @ r) = Some (v, r)"
    and "length (concat (map (\<lambda>v. CHR ''v'' # unaryMarshal v) vs)) < n"
  shows "getItems n (concat (map (\<lambda>v. CHR ''v'' # unaryMarshal v) vs) @ CHR ''e'' # r) = Some (vs, r)"
  using assms
proof (induction vs arbitrary: n)
  case Nil
  then show ?case by (cases n) auto
next
  case (Cons v vs)
  then obtain m where m: "n = Suc m" by (cases n) auto
  have "getValue m (unaryMarshal v @ concat (map (\<lambda>v. CHR ''v'' # unaryMarshal v) vs) @ CHR ''e'' # r)
      = Some (v, concat (map (\<lambda>v. CHR ''v'' # unaryMarshal v) vs) @ CHR ''e'' # r)"
    using Cons.prems m by auto
  moreover have "getItems m (concat (map (\<lambda>v. CHR ''v'' # unaryMarshal v) vs) @ CHR ''e'' # r) = Some (vs, r)"
    by (rule Cons.IH) (use Cons.prems m in auto)
  ultimately show ?case by (simp add: m)
qed

lemma getMembers_put:
  assumes "\<And>kv n r. kv \<in> set fs \<Longrightarrow> length (unaryMarshal (snd kv)) \<le> n \<Longrightarrow> getValue n (unaryMarshal (snd kv) @ r) = Some (snd kv, r)"
    and "length (concat (map (\<lambda>kv. CHR ''k'' # putString (fst kv) @ unaryMarshal (snd kv)) fs)) < n"
  shows "getMembers n (concat (map (\<lambda>kv. CHR ''k'' # putString (fst kv) @ unaryMarshal (snd kv)) fs) @ CHR ''e'' # r) = Some (fs, r)"
  using assms
proof (induction fs arbitrary: n)
  case Nil
  then show ?case by (cases n) auto
next
  case (Cons kv fs)
  let ?rest = "concat (map (\<lambda>kv. CHR ''k'' # putString (fst kv) @ unaryMarshal (snd kv)) fs) @ CHR ''e'' # r"
  obtain m where m: "n = Suc m" using Cons.prems by (cases n) auto
  have "getValue m (unaryMarshal (snd kv) @ ?rest) = Some (snd kv, ?rest)" using Cons.prems m by auto
  moreover have "getMembers m ?rest = Some (fs, r)" by (rule Cons.IH) (use Cons.prems m in auto)
  ultimately show ?case by (simp add: m)
qed

lemma getValue_put: "goJSON v \<Longrightarrow> length (unaryMarshal v) \<le> n \<Longrightarrow> getValue n (unaryMarshal v @ r) = Some (v, r)"
proof (induction v arbitrary: n r)
  case (JArr vs)
  then obtain m where m: "n = Suc m" by (cases n) auto
  have "getItems m (concat (map (\<lambda>v. CHR ''v'' # unaryMarshal v) vs) @ CHR ''e'' # r) = Some (vs, r)"
    by (rule getItems_put) (use JArr m in \<open>auto simp: list_all_iff\<close>)
  then show ?case by (simp add: m)
next
  case (JObj fs)
  then obtain m where m: "n = Suc m" by (cases n) auto
  have "getMembers m (concat (map (\<lambda>kv. CHR ''k'' # putString (fst kv) @ unaryMarshal (snd kv)) fs) @ CHR ''e'' # r) = Some (fs, r)"
  proof (rule getMembers_put)
    fix kv k q assume "kv \<in> set fs" "length (unaryMarshal (snd kv)) \<le> k"
    then show "getValue k (unaryMarshal (snd kv) @ q) = Some (snd kv, q)"
      using JObj.IH [of kv "snd kv" k q] JObj.prems(1) by (simp add: list_all_iff snds.intros)
  qed (use JObj m in auto)
  then show ?case by (simp add: m)
next
  case JNull
  then show ?case by (cases n) simp_all
next
  case (JBool b)
  then show ?case by (cases n; cases b) simp_all
next
  case (JNum k)
  then show ?case by (cases n; cases "k \<ge> 0") simp_all
next
  case (JStr s)
  then show ?case by (cases n) simp_all
qed simp_all

lemma unary_laws: "json_laws unaryUnmarshal unaryMarshal"
  unfolding json_laws_def
proof (intro conjI allI impI)
  fix v assume g: "goJSON v"
  have "getValue (length (unaryMarshal v)) (unaryMarshal v) = Some (v, [])" using getValue_put [OF g order_refl, of "[]"] by simp
  with g show "unaryUnmarshal (unaryMarshal v) = Some (canon v)" by (simp add: unaryUnmarshal_def)
next
  fix s v assume "unaryUnmarshal s = Some v"
  then show "goJSON v" and "canon v = v"
    by (auto simp: unaryUnmarshal_def split: option.splits prod.splits list.splits if_splits)
qed

end
