(* ===== verification/Contract_Properties.thy ===== *)
theory Contract_Properties
  imports Tool_Contracts Json_Codec Profile_Properties
begin

text \<open>
  The contract tables over observations, acceptances and confirmed renames: their invariant, what an observation pauses, which
  observations change nothing, which are refused for ever, and what a rename carries over. The functions outside are assumed to
  satisfy \<open>json_laws\<close>; the witnesses use the pair of \<open>Json_Codec\<close>.
\<close>

section \<open>Normalised tools\<close>

abbreviation laws :: "governance_env \<Rightarrow> bool" where "laws ge \<equiv> json_laws (ge_unmarshal ge) (ge_marshal ge)"

definition canonicalObject :: "json \<Rightarrow> bool" where
  "canonicalObject v = (goJSON v \<and> canon v = v \<and> isObject v)"

definition normalTool :: "normalizedObservedTool \<Rightarrow> bool" where
  "normalTool n = list_all canonicalObject [NT_InputSchema n, NT_OutputSchema n, NT_Annotations n, NT_Presentation n]"

lemma isObjectE:
  assumes "isObject v"
  obtains fs where "v = JObj fs"
  using assms by (cases v) (auto simp: isObject_def)

lemma isObject_JObj [simp]: "isObject (JObj fs)"
  by (simp add: isObject_def)

lemma canonicalObject_empty [simp]: "canonicalObject (JObj [])"
  by (simp add: canonicalObject_def)

lemma canon_members:
  assumes "canon (JObj fs) = JObj fs" and "kv \<in> set fs"
  shows "canon (snd kv) = snd kv"
proof -
  have "kv \<in> set (sort_key fst (map (\<lambda>kv. (fst kv, canon (snd kv))) fs))"
    using assms by (simp only: canon.simps json.inject)
  then obtain kv' where "kv = (fst kv', canon (snd kv'))" using assms(2) by auto
  then show ?thesis by simp
qed

lemma set_update: "set (AList.update k v al) \<subseteq> insert (k, v) (set al)"
  by (induction al) auto

lemma canonicalObject_setMember:
  assumes "canonicalObject ob"
  shows "canonicalObject (setMember k (JBool b) ob)"
proof -
  obtain fs where ob: "ob = JObj fs" using assms by (auto simp: canonicalObject_def elim: isObjectE)
  let ?xs = "AList.update k (JBool b) fs"
  have go: "distinct (map fst fs)" "\<forall>kv \<in> set fs. goJSON (snd kv)" using assms by (auto simp: canonicalObject_def ob list_all_iff)
  have el: "goJSON (snd kv) \<and> canon (snd kv) = snd kv" if "kv \<in> set ?xs" for kv
    using that set_update [of k "JBool b" fs] go(2) canon_members [of fs kv] assms by (auto simp: canonicalObject_def ob)
  have "map (\<lambda>kv. (fst kv, canon (snd kv))) (sort_key fst ?xs) = sort_key fst ?xs"
    by (rule map_idI) (use el in auto)
  then have "canon (JObj (sort_key fst ?xs)) = JObj (sort_key fst ?xs)" by (simp add: sort_key_id_if_sorted)
  moreover have "goJSON (JObj (sort_key fst ?xs))"
    using el distinct_update [OF go(1)] by (auto simp: list_all_iff)
  ultimately show ?thesis by (simp add: canonicalObject_def setMember_def ob objectMembers_def)
qed

lemma decodedObject: "laws ge \<Longrightarrow> ge_unmarshal ge s = Some v \<Longrightarrow> isObject v \<Longrightarrow> canonicalObject v"
  using json_decoded by (simp add: canonicalObject_def)

lemma canonicalObject_normalize: "laws ge \<Longrightarrow> normalizeObject ge raw = Inr v \<Longrightarrow> canonicalObject v"
  by (auto simp: normalizeObject_def split: if_splits option.splits intro: decodedObject)

lemma canonicalObject_clone: "laws ge \<Longrightarrow> canonicalObject (cloneObject ge v)"
  by (auto simp: cloneObject_def split: option.split intro: decodedObject)

lemma canonicalObject_hinted: "laws ge \<Longrightarrow> canonicalObject (hintedAnnotations ge t)"
  by (simp add: hintedAnnotations_def Let_def canonicalObject_clone canonicalObject_setMember)

lemma normalizeTool_fields:
  assumes "normalizeTool ge t = Inr n"
  shows "n = \<lparr>NT_Name = TrimSpace (OI_Name t), NT_InputSchema = schemaOf ge (OI_InputSchema t), NT_OutputSchema = schemaOf ge (OI_OutputSchema t),
      NT_Annotations = hintedAnnotations ge t, NT_Presentation = cloneObject ge (OI_Presentation t)\<rparr>"
    and "laws ge \<Longrightarrow> normalTool n"
  using assms by (auto simp: normalizeTool_def Let_def schemaOf_def normalTool_def canonicalObject_clone canonicalObject_hinted
      canonicalObject_normalize split: sum.splits if_splits)

lemma normalizeTools_fields:
  assumes "normalizeTools ge ts seen = Inr ns"
  shows "list_all2 (\<lambda>t n. normalizeTool ge t = Inr n) ts ns"
    and "distinct (map NT_Name ns)" and "set (map NT_Name ns) \<inter> set seen = {}"
proof (atomize (full), use assms in \<open>induction ge ts seen arbitrary: ns rule: normalizeTools.induct\<close>)
  case (2 ge t ts seen)
  let ?nm = "TrimSpace (OI_Name t)"
  from 2(2) obtain n ms where n: "observedToolName ?nm" "?nm \<notin> set seen" "normalizeTool ge t = Inr n"
      "normalizeTools ge ts (?nm # seen) = Inr ms" "ns = n # ms"
    by (auto simp: Let_def split: if_splits sum.splits)
  from 2(1) [OF refl _ _ n(3) n(4)] n(1,2) normalizeTool_fields(1) [OF n(3)] show ?case by (auto simp: n)
qed simp

lemma sort_key_fst_lookup:
  assumes "distinct (map fst xs)"
  shows "map_of (sort_key fst xs) k = map_of xs k"
proof (cases "map_of xs k")
  case None
  then have "map_of (sort_key fst xs) k = None" by (simp add: map_of_eq_None_iff)
  with None show ?thesis by simp
qed (simp add: assms map_of_eq_Some_iff)

lemma canon_member:
  assumes "distinct (map fst fs)"
  shows "member k (canon (JObj fs)) = canon (member k (JObj fs))"
proof -
  have "map_of (map (\<lambda>kv. (fst kv, canon (snd kv))) fs) k = map_option canon (map_of fs k)" by (induction fs) auto
  then show ?thesis
    using assms by (simp add: member_def objectMembers_def sort_key_fst_lookup split: option.split)
qed

lemma normalizedJSON_distinct: "distinct (map fst (objectMembers (normalizedJSON n)))"
  by (simp add: normalizedJSON_def objectMembers_def)

lemma normalizedJSON_members [simp]:
  "member ''name'' (normalizedJSON n) = JStr (NT_Name n)" "member ''inputSchema'' (normalizedJSON n) = NT_InputSchema n"
  "member ''outputSchema'' (normalizedJSON n) = NT_OutputSchema n" "member ''annotations'' (normalizedJSON n) = NT_Annotations n"
  "member ''presentation'' (normalizedJSON n) = NT_Presentation n"
  by (simp_all add: normalizedJSON_def member_def objectMembers_def)

lemma canon_normalizedJSON:
  "member k (canon (normalizedJSON n)) = canon (member k (normalizedJSON n))"
  unfolding normalizedJSON_def by (rule canon_member) simp

lemma normalTool_members:
  assumes "normalTool n"
  shows "canon (NT_InputSchema n) = NT_InputSchema n" "canon (NT_OutputSchema n) = NT_OutputSchema n"
    "canon (NT_Annotations n) = NT_Annotations n" "canon (NT_Presentation n) = NT_Presentation n"
    "goJSON (normalizedJSON n)"
  using assms by (simp_all add: normalTool_def canonicalObject_def normalizedJSON_def)

lemma toolOf_canon: "normalTool n \<Longrightarrow> toolOf (canon (normalizedJSON n)) = n"
  by (simp add: toolOf_def textMember_def canon_normalizedJSON normalTool_members)

definition bodyTools :: "json \<Rightarrow> normalizedObservedTool list" where
  "bodyTools v = (case member ''tools'' v of JArr ts \<Rightarrow> map toolOf ts | _ \<Rightarrow> [])"

lemma normalizedToolsFromBody_value: "normalizedToolsFromBody ge body = (case ge_unmarshal ge body of None \<Rightarrow> [] | Some v \<Rightarrow> bodyTools v)"
  by (simp add: normalizedToolsFromBody_def bodyTools_def split: option.split)

lemma contract_body:
  assumes "laws ge" and "list_all normalTool ns"
  shows "ge_unmarshal ge (ge_marshal ge (contractJSON ns)) = Some (canon (contractJSON ns))"
    and "bodyTools (canon (contractJSON ns)) = ns" and "isObject (canon (contractJSON ns))"
proof -
  have "goJSON (contractJSON ns)" using assms(2) normalTool_members(5) by (auto simp: contractJSON_def list_all_iff)
  then show "ge_unmarshal ge (ge_marshal ge (contractJSON ns)) = Some (canon (contractJSON ns))" by (rule json_roundtrip [OF assms(1)])
  have "map (toolOf \<circ> (canon \<circ> normalizedJSON)) ns = ns" by (rule map_idI) (use assms(2) in \<open>auto simp: list_all_iff toolOf_canon\<close>)
  then show "bodyTools (canon (contractJSON ns)) = ns" by (simp add: bodyTools_def contractJSON_def member_def objectMembers_def)
  show "isObject (canon (contractJSON ns))" by (simp add: contractJSON_def)
qed

section \<open>Statuses\<close>

lemma compare_fold:
  assumes "distinct (map OI_Name ts)"
  shows "map_of (foldl (\<lambda>m t. AList.update (OI_Name t) (f t) m) m ts) nm
    = (case find (\<lambda>t. OI_Name t = nm) ts of Some t \<Rightarrow> Some (f t) | None \<Rightarrow> map_of m nm)"
  using assms
proof (induction ts arbitrary: m)
  case (Cons t ts)
  have "find (\<lambda>x. OI_Name x = OI_Name t) ts = None" using Cons.prems by (auto simp: find_None_iff image_iff)
  with Cons show ?case by (auto simp: update_conv' split: option.split)
qed simp

lemma removed_lookup:
  "map_of (map (\<lambda>s. (SD_Name s, ContractToolRemoved)) previous) nm
    = (if nm \<in> SD_Name ` set previous then Some ContractToolRemoved else None)"
  by (induction previous) auto

lemma compare_lookup:
  assumes "distinct (map OI_Name ts)"
  shows "map_of (compareContractTools ge previous ts) nm
    = (case find (\<lambda>t. OI_Name t = nm) ts of
         Some t \<Rightarrow> Some (compareTool ge (findStored previous nm) t)
       | None \<Rightarrow> if nm \<in> SD_Name ` set previous then Some ContractToolRemoved else None)"
proof -
  show ?thesis
  proof (cases "find (\<lambda>t. OI_Name t = nm) ts")
    case None
    then show ?thesis by (simp add: compareContractTools_def compare_fold [OF assms] removed_lookup)
  next
    case (Some t)
    then have "OI_Name t = nm" by (rule find_key_SomeD [THEN conjunct2])
    with Some show ?thesis by (simp add: compareContractTools_def compare_fold [OF assms])
  qed
qed

section \<open>The invariant of the contract tables\<close>

definition fieldsOf :: "contract_tool_row \<times> tool_row \<Rightarrow> normalizedObservedTool" where
  "fieldsOf = (\<lambda>(ct, t). \<lparr>NT_Name = TL_Name t, NT_InputSchema = CT_InputSchema ct, NT_OutputSchema = CT_OutputSchema ct,
     NT_Annotations = CT_Annotations ct, NT_Presentation = CT_Presentation ct\<rparr>)"

definition ownContract :: "governance_db \<Rightarrow> string \<Rightarrow> string option \<Rightarrow> bool" where
  "ownContract g serverID c = (case c of None \<Rightarrow> True | Some i \<Rightarrow> (case findContract g i of None \<Rightarrow> False | Some r \<Rightarrow> CV_ServerID r = serverID))"

definition rowOK :: "governance_db \<Rightarrow> contract_tool_row \<Rightarrow> bool" where
  "rowOK g ct = (case (findContract g (CT_ContractRevisionID ct), findTool g (CT_ToolID ct)) of
     (Some c, Some t) \<Rightarrow> TL_ServerID t = CV_ServerID c \<and> normalTool (fieldsOf (ct, t))
   | _ \<Rightarrow> False)"

definition stateOK :: "governance_db \<Rightarrow> contract_state_row \<Rightarrow> bool" where
  "stateOK g cs = (ownContract g (CS_ServerID cs) (CS_Accepted cs) \<and> ownContract g (CS_ServerID cs) (CS_Latest cs))"

definition contractOK :: "governance_db \<Rightarrow> contract_revision_row \<Rightarrow> bool" where
  "contractOK g c = (map fieldsOf (contractTools g (CV_ID c)) = bodyTools (CV_Body c))"

definition contracts_wf :: "governance_db \<Rightarrow> bool" where
  "contracts_wf g = (distinct (map CV_ID (GD_Contracts g))
     \<and> distinct (map (\<lambda>c. (CV_ServerID c, CV_CanonicalHash c)) (GD_Contracts g))
     \<and> distinct (map TL_ID (GD_Tools g))
     \<and> distinct (map (\<lambda>t. (TL_ServerID t, TL_Name t)) (GD_Tools g))
     \<and> distinct (map (\<lambda>ct. (CT_ContractRevisionID ct, CT_ToolID ct)) (GD_ContractTools g))
     \<and> distinct (map CS_ServerID (GD_ContractStates g))
     \<and> list_all (rowOK g) (GD_ContractTools g)
     \<and> list_all (stateOK g) (GD_ContractStates g)
     \<and> list_all (contractOK g) (GD_Contracts g))"

lemma wfD:
  assumes "contracts_wf g"
  shows "distinct (map CV_ID (GD_Contracts g))"
    and "distinct (map (\<lambda>c. (CV_ServerID c, CV_CanonicalHash c)) (GD_Contracts g))"
    and "distinct (map TL_ID (GD_Tools g))"
    and "distinct (map (\<lambda>t. (TL_ServerID t, TL_Name t)) (GD_Tools g))"
    and "distinct (map (\<lambda>ct. (CT_ContractRevisionID ct, CT_ToolID ct)) (GD_ContractTools g))"
    and "distinct (map CS_ServerID (GD_ContractStates g))"
    and "ct \<in> set (GD_ContractTools g) \<Longrightarrow> rowOK g ct"
    and "cs \<in> set (GD_ContractStates g) \<Longrightarrow> stateOK g cs"
    and "c \<in> set (GD_Contracts g) \<Longrightarrow> contractOK g c"
  using assms by (simp_all add: contracts_wf_def list_all_iff)

lemma rowOKE:
  assumes "rowOK g ct"
  obtains c t where "findContract g (CT_ContractRevisionID ct) = Some c" "findTool g (CT_ToolID ct) = Some t"
    "TL_ServerID t = CV_ServerID c" "normalTool (fieldsOf (ct, t))"
  using assms by (auto simp: rowOK_def split: option.splits)

section \<open>Growing tables\<close>

lemma findTool_append:
  "findTool g i = Some t \<Longrightarrow> GD_Tools g' = GD_Tools g @ ts \<Longrightarrow> findTool g' i = Some t"
  by (simp add: findTool_def find_append)

lemma findContract_append:
  "findContract g i = Some c \<Longrightarrow> GD_Contracts g' = GD_Contracts g @ cs \<Longrightarrow> findContract g' i = Some c"
  by (simp add: findContract_def find_append)

lemma map_filter_cong_set: "(\<And>x. x \<in> set xs \<Longrightarrow> f x = g x) \<Longrightarrow> List.map_filter f xs = List.map_filter g xs"
  by (induction xs) (auto simp: List.map_filter_simps split: option.split)

text \<open>The rows of a contract do not change when rows of other contracts and tools are added.\<close>

lemma contractTools_append:
  assumes "GD_Tools g' = GD_Tools g @ ts" and "GD_ContractTools g' = GD_ContractTools g @ rows"
    and "\<forall>r \<in> set rows. CT_ContractRevisionID r \<noteq> c" and "\<forall>ct \<in> set (GD_ContractTools g). findTool g (CT_ToolID ct) \<noteq> None"
  shows "contractTools g' c = contractTools g c"
proof -
  have f: "filter (\<lambda>ct. CT_ContractRevisionID ct = c) (GD_ContractTools g') = filter (\<lambda>ct. CT_ContractRevisionID ct = c) (GD_ContractTools g)"
    using assms(2,3) by (auto simp: filter_empty_conv)
  have t: "findTool g' (CT_ToolID ct) = findTool g (CT_ToolID ct)" if "ct \<in> set (GD_ContractTools g)" for ct
    using assms(4) that findTool_append [OF _ assms(1)] by fastforce
  show ?thesis unfolding contractTools_def f
    by (rule map_filter_cong_set) (simp add: t)
qed

section \<open>The rows of an observation\<close>

lemma contractToolRow_fields:
  assumes "laws ge" and n: "normalTool n" and "contractToolRow ge revisionID toolID position status n = Inr r"
  shows "r = \<lparr>CT_ContractRevisionID = revisionID, CT_ToolID = toolID, CT_Position = position, CT_InputSchema = NT_InputSchema n,
      CT_OutputSchema = NT_OutputSchema n, CT_Annotations = NT_Annotations n, CT_Presentation = NT_Presentation n, CT_Status = status\<rparr>"
    and "status \<noteq> '''' \<and> status \<noteq> ContractToolRemoved"
proof -
  have u: "ge_unmarshal ge (ge_marshal ge (normalizedJSON n)) = Some (canon (normalizedJSON n))"
    by (rule json_roundtrip [OF assms(1) normalTool_members(5) [OF n]])
  have g: "goJSON (NT_InputSchema n)" "goJSON (NT_OutputSchema n)" "goJSON (NT_Annotations n)" "goJSON (NT_Presentation n)"
    using n by (simp_all add: normalTool_def canonicalObject_def)
  have c: "column ge (canon (normalizedJSON n)) ''inputSchema'' = Some (NT_InputSchema n)"
    "column ge (canon (normalizedJSON n)) ''outputSchema'' = Some (NT_OutputSchema n)"
    "column ge (canon (normalizedJSON n)) ''annotations'' = Some (NT_Annotations n)"
    "column ge (canon (normalizedJSON n)) ''presentation'' = Some (NT_Presentation n)"
    using g by (simp_all add: column_def canon_normalizedJSON normalTool_members [OF n] json_roundtrip [OF assms(1)])
  show "r = \<lparr>CT_ContractRevisionID = revisionID, CT_ToolID = toolID, CT_Position = position, CT_InputSchema = NT_InputSchema n,
      CT_OutputSchema = NT_OutputSchema n, CT_Annotations = NT_Annotations n, CT_Presentation = NT_Presentation n, CT_Status = status\<rparr>"
    and "status \<noteq> '''' \<and> status \<noteq> ContractToolRemoved"
    using assms(3) by (auto simp: contractToolRow_def u c split: if_splits)
qed

definition toolsWf :: "governance_db \<Rightarrow> bool" where
  "toolsWf g = (distinct (map TL_ID (GD_Tools g)) \<and> distinct (map (\<lambda>t. (TL_ServerID t, TL_Name t)) (GD_Tools g))
     \<and> distinct (map (\<lambda>ct. (CT_ContractRevisionID ct, CT_ToolID ct)) (GD_ContractTools g)))"

lemma findToolByName_SomeD: "findToolByName g s nm = Some t \<Longrightarrow> t \<in> set (GD_Tools g) \<and> TL_ServerID t = s \<and> TL_Name t = nm"
  by (auto simp: findToolByName_def find_Some_iff)

lemma stable_spec:
  assumes "stableContractToolID ids s nm g = Inr (i, g1)" and wf: "toolsWf g"
  shows "\<exists>ts t. g1 = g\<lparr>GD_Tools := GD_Tools g @ ts\<rparr> \<and> toolsWf g1 \<and> findTool g1 i = Some t \<and> TL_ServerID t = s \<and> TL_Name t = nm"
proof (cases "findToolByName g s nm")
  case (Some t)
  note t = findToolByName_SomeD [OF Some]
  have "findTool g (TL_ID t) = Some t" unfolding findTool_def by (rule find_key_unique) (use t wf in \<open>auto simp: toolsWf_def\<close>)
  moreover have "i = TL_ID t" "g1 = g\<lparr>GD_Tools := GD_Tools g @ []\<rparr>" using assms(1) Some by (simp_all add: stableContractToolID_def)
  ultimately show ?thesis using t wf by (intro exI [of _ "[]"] exI [of _ t]) simp
next
  case None
  let ?t = "\<lparr>TL_ID = ni_Tool ids s nm, TL_ServerID = s, TL_Name = nm\<rparr>"
  from assms(1) None have new: "\<not> list_ex (\<lambda>t. TL_ID t = ni_Tool ids s nm) (GD_Tools g)" and i: "i = ni_Tool ids s nm"
      and g1: "g1 = g\<lparr>GD_Tools := GD_Tools g @ [?t]\<rparr>"
    by (auto simp: stableContractToolID_def Let_def split: if_splits)
  have "find (\<lambda>t. TL_ID t = ni_Tool ids s nm) (GD_Tools g) = None" using new by (auto simp: find_None_iff list_ex_iff)
  then have "findTool g1 i = Some ?t" by (simp add: findTool_def g1 i find_append)
  moreover have "toolsWf g1"
  proof -
    have "ni_Tool ids s nm \<notin> TL_ID ` set (GD_Tools g)" using new by (auto simp: list_ex_iff)
    moreover have "(s, nm) \<notin> (\<lambda>t. (TL_ServerID t, TL_Name t)) ` set (GD_Tools g)" using None by (auto simp: findToolByName_def find_None_iff)
    ultimately show ?thesis using wf by (simp add: toolsWf_def g1)
  qed
  ultimately show ?thesis using g1 by (intro exI [of _ "[?t]"] exI [of _ ?t]) simp
qed

definition rowFor :: "governance_db \<Rightarrow> string \<Rightarrow> string \<Rightarrow> (string \<times> string) list \<Rightarrow> contract_tool_row \<Rightarrow> normalizedObservedTool \<Rightarrow> bool" where
  "rowFor g serverID revisionID statuses r n = (CT_ContractRevisionID r = revisionID \<and> CT_Status r = mapText statuses (NT_Name n)
     \<and> CT_Status r \<noteq> '''' \<and> CT_Status r \<noteq> ContractToolRemoved
     \<and> (case findTool g (CT_ToolID r) of None \<Rightarrow> False | Some t \<Rightarrow> TL_ServerID t = serverID \<and> fieldsOf (r, t) = n))"

lemma insertContractTool_spec:
  assumes "insertContractTool r g = Inr g'" and "toolsWf g"
  shows "g' = g\<lparr>GD_ContractTools := GD_ContractTools g @ [r]\<rparr> \<and> toolsWf g'"
proof -
  have g': "g' = g\<lparr>GD_ContractTools := GD_ContractTools g @ [r]\<rparr>"
    and new: "\<not> list_ex (\<lambda>q. CT_ContractRevisionID q = CT_ContractRevisionID r \<and> CT_ToolID q = CT_ToolID r) (GD_ContractTools g)"
    using assms(1) by (simp_all add: insertContractTool_def split: if_splits)
  have "(CT_ContractRevisionID r, CT_ToolID r) \<notin> (\<lambda>ct. (CT_ContractRevisionID ct, CT_ToolID ct)) ` set (GD_ContractTools g)"
    using new by (fastforce simp: list_ex_iff)
  then show ?thesis using assms(2) by (simp add: toolsWf_def g')
qed

lemma insertTools_spec:
  assumes "laws ge" and "list_all normalTool ns" and "toolsWf g"
    and "insertTools ge ids serverID revisionID statuses position ns g = Inr g'"
  shows "\<exists>ts rows. g' = g\<lparr>GD_Tools := GD_Tools g @ ts, GD_ContractTools := GD_ContractTools g @ rows\<rparr> \<and> toolsWf g'
     \<and> sorted (map CT_Position rows) \<and> (\<forall>r \<in> set rows. position \<le> CT_Position r) \<and> list_all2 (rowFor g' serverID revisionID statuses) rows ns"
  using assms(2-)
proof (induction ns arbitrary: g position)
  case Nil
  then show ?case by (intro exI [of _ "[]"]) simp
next
  case (Cons n ns)
  from Cons.prems(3) obtain i g1 r g2 where s: "stableContractToolID ids serverID (NT_Name n) g = Inr (i, g1)"
      and r: "contractToolRow ge revisionID i position (mapText statuses (NT_Name n)) n = Inr r"
      and g2: "insertContractTool r g1 = Inr g2"
      and rest: "insertTools ge ids serverID revisionID statuses (position + 1) ns g2 = Inr g'"
    by (auto split: sum.splits)
  from stable_spec [OF s Cons.prems(2)] obtain ts t where g1: "g1 = g\<lparr>GD_Tools := GD_Tools g @ ts\<rparr>" "toolsWf g1"
      and t: "findTool g1 i = Some t" "TL_ServerID t = serverID" "TL_Name t = NT_Name n" by (elim exE conjE) (rule that)
  have n: "normalTool n" using Cons.prems(1) by simp
  note row = contractToolRow_fields [OF assms(1) n r]
  note ins = insertContractTool_spec [OF g2 g1(2)]
  from Cons.IH [OF _ ins [THEN conjunct2] rest] Cons.prems(1) obtain us rows
    where g': "g' = g2\<lparr>GD_Tools := GD_Tools g2 @ us, GD_ContractTools := GD_ContractTools g2 @ rows\<rparr>" and wf: "toolsWf g'"
      and pos: "sorted (map CT_Position rows)" "\<forall>r \<in> set rows. position + 1 \<le> CT_Position r"
      and rel: "list_all2 (rowFor g' serverID revisionID statuses) rows ns" by auto
  have g2': "g2 = g\<lparr>GD_Tools := GD_Tools g @ ts, GD_ContractTools := GD_ContractTools g @ [r]\<rparr>" using ins g1(1) by simp
  have "findTool g' i = Some t" by (rule findTool_append [OF t(1), of _ us]) (simp add: g' g2' g1(1))
  then have "rowFor g' serverID revisionID statuses r n" using row t by (simp add: rowFor_def fieldsOf_def)
  moreover have "g' = g\<lparr>GD_Tools := GD_Tools g @ (ts @ us), GD_ContractTools := GD_ContractTools g @ (r # rows)\<rparr>" by (simp add: g' g2')
  moreover have "CT_Position r = position" using row(1) by simp
  ultimately show ?case using wf pos rel
    by (intro exI [of _ "ts @ us"] exI [of _ "r # rows"] conjI) auto
qed

section \<open>Every observation keeps the invariant\<close>

lemma proposePairs_frame: "proposePairs ge ids s oldR newR st pairs g = Inr g' \<Longrightarrow> \<exists>ps. g' = g\<lparr>GD_Proposals := ps\<rparr>"
proof (induction pairs arbitrary: g)
  case Nil
  then show ?case by (intro exI [of _ "GD_Proposals g"]) simp
next
  case (Cons p pairs)
  obtain old added where p: "p = (old, added)" by (cases p)
  show ?case
  proof (cases "schemaPairEqual ge old added")
    case False
    then show ?thesis using Cons by (simp add: p)
  next
    case True
    then obtain i where "proposePairs ge ids s oldR newR st pairs (insertProposal (proposalFor ids s oldR newR st (SD_ID old) i) g) = Inr g'"
      using Cons.prems by (auto simp: p split: sum.splits)
    from Cons.IH [OF this] show ?thesis by (auto simp: insertProposal_def split: if_splits)
  qed
qed

lemma createRename_frame:
  assumes "createRenameProposalTx ge ids s oldR newR previous current statuses g = Inr g'"
  shows "\<exists>ps. g' = g\<lparr>GD_Proposals := ps\<rparr>"
proof -
  have "\<exists>ps. g = g\<lparr>GD_Proposals := ps\<rparr>" by (intro exI [of _ "GD_Proposals g"]) simp
  then show ?thesis
    using assms by (auto simp: createRenameProposalTx_def Let_def simp del: proposePairs.simps split: option.splits if_splits sum.splits
        dest!: proposePairs_frame)
qed

lemma canonical_contract:
  assumes "CanonicalContract ge tools = Inr (body, hash)"
  obtains ns where "list_all2 (\<lambda>t n. normalizeTool ge t = Inr n) (sort_key OI_Name tools) ns" "distinct (map NT_Name ns)"
    "body = ge_marshal ge (contractJSON ns)" "hash = hexEncode (ge_sha ge body)" "laws ge \<Longrightarrow> list_all normalTool ns"
proof -
  from assms obtain ns where ns: "normalizeTools ge (sort_key OI_Name tools) [] = Inr ns"
      and b: "body = ge_marshal ge (contractJSON ns)" "hash = hexEncode (ge_sha ge body)"
    by (auto simp: CanonicalContract_def Let_def split: if_splits sum.splits)
  note f = normalizeTools_fields [OF ns]
  have "list_all normalTool ns" if "laws ge"
    using f(1) normalizeTool_fields(2) [OF _ that] by (auto simp: list_all2_conv_all_nth list_all_length)
  then show thesis by (rule that [OF f(1,2) b])
qed

lemma rows_fields:
  "list_all2 (rowFor g s rid statuses) rows ns \<Longrightarrow>
    map fieldsOf (List.map_filter (\<lambda>ct. map_option (Pair ct) (findTool g (CT_ToolID ct))) rows) = ns"
  by (induction rule: list_all2_induct) (auto simp: List.map_filter_simps rowFor_def split: option.splits)

lemma list_all2_partner: "list_all2 R xs ys \<Longrightarrow> x \<in> set xs \<Longrightarrow> \<exists>y \<in> set ys. R x y"
  by (induction rule: list_all2_induct) auto

lemma rows_contract: "list_all2 (rowFor g s rid statuses) rows ns \<Longrightarrow> \<forall>r \<in> set rows. CT_ContractRevisionID r = rid"
  by (induction rule: list_all2_induct) (auto simp: rowFor_def)

lemma ownContract_append:
  "ownContract g s c \<Longrightarrow> GD_Contracts g' = GD_Contracts g @ cs \<Longrightarrow> ownContract g' s c"
  by (auto simp: ownContract_def dest: findContract_append split: option.splits)

lemma insertContract_spec:
  assumes "insertContract ge rid s body hash g = Inr (c, g1)"
  shows "g1 = g\<lparr>GD_Contracts := GD_Contracts g @ [c]\<rparr>" and "CV_ID c = rid" "CV_ServerID c = s" "CV_CanonicalHash c = hash"
    and "ge_unmarshal ge body = Some (CV_Body c)" and "findContract g rid = None"
    and "\<forall>q \<in> set (GD_Contracts g). \<not> (CV_ServerID q = s \<and> CV_CanonicalHash q = hash)"
    and "rid \<notin> CV_ID ` set (GD_Contracts g)"
  using assms by (auto simp: insertContract_def Let_def findContract_def find_None_iff list_ex_iff split: option.splits if_splits)

definition observed_state :: "string \<Rightarrow> string option \<Rightarrow> (string \<times> string) list \<Rightarrow> contract_state_row \<Rightarrow> contract_state_row" where
  "observed_state rid latest statuses cs = cs\<lparr>CS_Latest := Some rid, CS_ReviewState := reviewState latest statuses\<rparr>"

lemma observeNew_parts:
  assumes "observeNew ge ids s state body hash tools g = Inr (res, g')" and "laws ge" and "toolsWf g"
    and ns: "list_all normalTool ns" "body = ge_marshal ge (contractJSON ns)"
  obtains previous baseline c ts rows ps where
    "contractToolsTx g (CS_Latest state) = Inr previous"
    "(if CS_Accepted state \<noteq> None \<and> CS_Accepted state \<noteq> CS_Latest state then contractToolsTx g (CS_Accepted state) else Inr previous) = Inr baseline"
    "res = \<lparr>BR_Revision = c, BR_Statuses = compareContractTools ge baseline tools\<rparr>"
    "CV_ID c = ni_Revision ids s" "CV_ServerID c = s" "CV_CanonicalHash c = hash" "ge_unmarshal ge body = Some (CV_Body c)"
    "bodyTools (CV_Body c) = ns" "CV_ID c \<notin> CV_ID ` set (GD_Contracts g)"
    "\<forall>q \<in> set (GD_Contracts g). \<not> (CV_ServerID q = s \<and> CV_CanonicalHash q = hash)"
    "g' = (updateState s (observed_state (CV_ID c) (CS_Latest state) (BR_Statuses res))
        (g\<lparr>GD_Contracts := GD_Contracts g @ [c], GD_Tools := GD_Tools g @ ts, GD_ContractTools := GD_ContractTools g @ rows\<rparr>))\<lparr>GD_Proposals := ps\<rparr>"
    "toolsWf g'" "sorted (map CT_Position rows)" "list_all2 (rowFor g' s (CV_ID c) (BR_Statuses res)) rows ns"
proof -
  let ?rid = "ni_Revision ids s"
  from assms(1) obtain previous baseline c g1 g2 g4
    where a: "contractToolsTx g (CS_Latest state) = Inr previous"
      and b: "(if CS_Accepted state \<noteq> None \<and> CS_Accepted state \<noteq> CS_Latest state then contractToolsTx g (CS_Accepted state) else Inr previous) = Inr baseline"
      and i: "insertContract ge ?rid s body hash g = Inr (c, g1)"
      and t: "insertTools ge ids s ?rid (compareContractTools ge baseline tools) 0 (normalizedToolsFromBody ge body) g1 = Inr g2"
      and p: "createRenameProposalTx ge ids s (CS_Latest state) ?rid previous tools (compareContractTools ge previous tools)
          (updateState s (\<lambda>cs. cs\<lparr>CS_Latest := Some ?rid, CS_ReviewState := reviewState (CS_Latest state) (compareContractTools ge baseline tools)\<rparr>) g2) = Inr g4"
      and r: "res = \<lparr>BR_Revision = c, BR_Statuses = compareContractTools ge baseline tools\<rparr>" "g' = g4"
    by (auto simp: observeNew_def Let_def split: sum.splits prod.splits)
  note ins = insertContract_spec [OF i]
  note body = contract_body [OF assms(2) ns(1), folded ns(2)]
  have v: "CV_Body c = canon (contractJSON ns)" using ins(5) body(1) by simp
  have nt: "normalizedToolsFromBody ge body = ns" by (simp add: normalizedToolsFromBody_value body)
  have "toolsWf g1" using assms(3) by (simp add: toolsWf_def ins(1))
  from insertTools_spec [OF assms(2) ns(1) this t [unfolded nt]] obtain ts rows
    where g2: "g2 = g1\<lparr>GD_Tools := GD_Tools g1 @ ts, GD_ContractTools := GD_ContractTools g1 @ rows\<rparr>" "toolsWf g2"
      and rows: "sorted (map CT_Position rows)" "list_all2 (rowFor g2 s ?rid (compareContractTools ge baseline tools)) rows ns"
    by auto
  from createRename_frame [OF p] obtain ps where g4: "g4 = (updateState s (observed_state ?rid (CS_Latest state) (BR_Statuses res)) g2)\<lparr>GD_Proposals := ps\<rparr>"
    by (auto simp: r observed_state_def [abs_def])
  have rel: "rowFor g' = rowFor g2" by (intro ext) (simp add: rowFor_def r(2) g4 findTool_def updateState_def)
  have "rowFor g' s (CV_ID c) (BR_Statuses res) = rowFor g2 s ?rid (compareContractTools ge baseline tools)"
    using ins(2) by (simp add: rel r(1))
  with rows(2) have rel': "list_all2 (rowFor g' s (CV_ID c) (BR_Statuses res)) rows ns" by (simp only:)
  have "toolsWf g' = toolsWf g2" by (simp add: toolsWf_def r(2) g4 updateState_def)
  with g2(2) have wf': "toolsWf g'" by simp
  have g': "g' = (updateState s (observed_state (CV_ID c) (CS_Latest state) (BR_Statuses res))
        (g\<lparr>GD_Contracts := GD_Contracts g @ [c], GD_Tools := GD_Tools g @ ts, GD_ContractTools := GD_ContractTools g @ rows\<rparr>))\<lparr>GD_Proposals := ps\<rparr>"
    using ins(1,2) by (simp add: r(2) g4 g2(1))
  have b': "bodyTools (CV_Body c) = ns" using v body(2) by simp
  have "CV_ID c \<notin> CV_ID ` set (GD_Contracts g)" using ins(2,8) by simp
  then show thesis by (rule that [OF a b r(1) ins(2-5) b' _ ins(7) g' wf' rows(1) rel'])
qed

lemma wf_toolsWf: "contracts_wf g \<Longrightarrow> toolsWf g"
  by (simp add: contracts_wf_def toolsWf_def)

lemma wf_found_tools: "contracts_wf g \<Longrightarrow> \<forall>ct \<in> set (GD_ContractTools g). findTool g (CT_ToolID ct) \<noteq> None"
  by (auto dest!: wfD(7) elim!: rowOKE)

text \<open>The tables after a new contract: the old rows stay as they are, and the rows of the contract are its tools.\<close>

lemma observeNew_spec:
  assumes n: "observeNew ge ids s state body hash tools g = Inr (res, g')" and "laws ge" and wf: "contracts_wf g"
    and ns: "list_all normalTool ns" "body = ge_marshal ge (contractJSON ns)"
    and st: "findState g s = Some state"
  shows "contracts_wf g'"
    and "\<exists>c. BR_Revision res = c \<and> findContract g' (CV_ID c) = Some c \<and> CV_CanonicalHash c = hash \<and> CV_ServerID c = s
      \<and> ge_unmarshal ge body = Some (CV_Body c)
      \<and> findState g' s = Some (observed_state (CV_ID c) (CS_Latest state) (BR_Statuses res) state)"
    and "\<And>a. findContract g a \<noteq> None \<Longrightarrow> contractTools g' a = contractTools g a"
    and "contractToolsTx g (case CS_Accepted state of None \<Rightarrow> CS_Latest state | Some a \<Rightarrow> Some a) = Inr baseline
      \<Longrightarrow> BR_Statuses res = compareContractTools ge baseline tools"
proof -
  obtain previous base c ts rows ps where
    prev: "contractToolsTx g (CS_Latest state) = Inr previous"
    and base: "(if CS_Accepted state \<noteq> None \<and> CS_Accepted state \<noteq> CS_Latest state then contractToolsTx g (CS_Accepted state) else Inr previous) = Inr base"
    and res: "res = \<lparr>BR_Revision = c, BR_Statuses = compareContractTools ge base tools\<rparr>"
    and c: "CV_ID c = ni_Revision ids s" "CV_ServerID c = s" "CV_CanonicalHash c = hash" "ge_unmarshal ge body = Some (CV_Body c)"
      "bodyTools (CV_Body c) = ns" "CV_ID c \<notin> CV_ID ` set (GD_Contracts g)"
      "\<forall>q \<in> set (GD_Contracts g). \<not> (CV_ServerID q = s \<and> CV_CanonicalHash q = hash)"
    and g': "g' = (updateState s (observed_state (CV_ID c) (CS_Latest state) (BR_Statuses res))
        (g\<lparr>GD_Contracts := GD_Contracts g @ [c], GD_Tools := GD_Tools g @ ts, GD_ContractTools := GD_ContractTools g @ rows\<rparr>))\<lparr>GD_Proposals := ps\<rparr>"
    and twf: "toolsWf g'" and rows: "sorted (map CT_Position rows)" "list_all2 (rowFor g' s (CV_ID c) (BR_Statuses res)) rows ns"
    by (rule observeNew_parts [OF n assms(2) wf_toolsWf [OF wf] ns])
  have tabs: "GD_Contracts g' = GD_Contracts g @ [c]" "GD_Tools g' = GD_Tools g @ ts" "GD_ContractTools g' = GD_ContractTools g @ rows"
    "GD_ContractStates g' = map (\<lambda>cs. if CS_ServerID cs = s then observed_state (CV_ID c) (CS_Latest state) (BR_Statuses res) cs else cs) (GD_ContractStates g)"
    by (simp_all add: g' updateState_def)
  note rid = rows_contract [OF rows(2)]
  have absent: "findContract g (CV_ID c) = None"
    using c(6) unfolding findContract_def by (metis (mono_tags, lifting) find_None_iff image_eqI)
  then have fc: "findContract g' (CV_ID c) = Some c" by (simp add: findContract_def tabs find_append)
  have oldC: "findContract g' i = Some q" if "findContract g i = Some q" for i q by (rule findContract_append [OF that tabs(1)])
  have other: "CV_ID c \<noteq> a" if "findContract g a \<noteq> None" for a
    using that absent by auto
  show old: "contractTools g' a = contractTools g a" if "findContract g a \<noteq> None" for a
    by (rule contractTools_append [OF tabs(2,3) _ wf_found_tools [OF wf]]) (use rid other [OF that] in auto)
  have new: "map fieldsOf (contractTools g' (CV_ID c)) = ns"
  proof -
    have none: "CT_ContractRevisionID ct \<noteq> CV_ID c" if "ct \<in> set (GD_ContractTools g)" for ct
      using wfD(7) [OF wf that] absent by (auto elim!: rowOKE)
    have "filter (\<lambda>ct. CT_ContractRevisionID ct = CV_ID c) (GD_ContractTools g') = rows"
      using none rid by (simp add: tabs filter_empty_conv)
    then show ?thesis unfolding contractTools_def using rows_fields [OF rows(2)] rows(1) by (simp add: sort_key_id_if_sorted)
  qed
  have sid: "CS_ServerID (observed_state r l st cs) = CS_ServerID cs" for r l st cs by (simp add: observed_state_def)
  show "\<exists>c. BR_Revision res = c \<and> findContract g' (CV_ID c) = Some c \<and> CV_CanonicalHash c = hash \<and> CV_ServerID c = s
      \<and> ge_unmarshal ge body = Some (CV_Body c)
      \<and> findState g' s = Some (observed_state (CV_ID c) (CS_Latest state) (BR_Statuses res) state)"
  proof -
    have "find (\<lambda>x. CS_ServerID x = s) (map (\<lambda>cs. if CS_ServerID cs = s then f cs else cs) xs) = map_option f (find (\<lambda>x. CS_ServerID x = s) xs)"
      if "\<And>cs. CS_ServerID (f cs) = CS_ServerID cs" for f xs using that by (induction xs) auto
    from this [of "observed_state (CV_ID c) (CS_Latest state) (BR_Statuses res)" "GD_ContractStates g", OF sid]
    have "findState g' s = Some (observed_state (CV_ID c) (CS_Latest state) (BR_Statuses res) state)"
      using st by (simp add: findState_def tabs)
    with fc c show ?thesis by (simp add: res)
  qed
  show "BR_Statuses res = compareContractTools ge baseline tools"
    if "contractToolsTx g (case CS_Accepted state of None \<Rightarrow> CS_Latest state | Some a \<Rightarrow> Some a) = Inr baseline"
    using that prev base by (cases "CS_Accepted state") (auto simp: res split: if_splits)
  show "contracts_wf g'"
    unfolding contracts_wf_def
  proof (intro conjI)
    show "distinct (map CV_ID (GD_Contracts g'))" using wfD(1) [OF wf] c(6) by (simp add: tabs)
    show "distinct (map (\<lambda>c. (CV_ServerID c, CV_CanonicalHash c)) (GD_Contracts g'))"
      using wfD(2) [OF wf] c(2,3,7) by (auto simp: tabs)
    show "distinct (map TL_ID (GD_Tools g'))" "distinct (map (\<lambda>t. (TL_ServerID t, TL_Name t)) (GD_Tools g'))"
      "distinct (map (\<lambda>ct. (CT_ContractRevisionID ct, CT_ToolID ct)) (GD_ContractTools g'))"
      using twf by (simp_all add: toolsWf_def)
    have "map CS_ServerID (GD_ContractStates g') = map CS_ServerID (GD_ContractStates g)" by (simp add: tabs sid)
    then show "distinct (map CS_ServerID (GD_ContractStates g'))" using wfD(6) [OF wf] by simp
    have "rowOK g' ct" if "ct \<in> set (GD_ContractTools g)" for ct
      using wfD(7) [OF wf that] oldC findTool_append [OF _ tabs(2)] by (elim rowOKE) (simp add: rowOK_def)
    moreover have "rowOK g' r" if r: "r \<in> set rows" for r
    proof -
      obtain n where "n \<in> set ns" "rowFor g' s (CV_ID c) (BR_Statuses res) r n"
        using list_all2_partner [OF rows(2) r] by blast
      then show ?thesis using fc c(2) ns(1) by (auto simp: rowFor_def rowOK_def list_all_iff split: option.splits)
    qed
    ultimately show "list_all (rowOK g') (GD_ContractTools g')" by (auto simp: tabs list_all_iff)
    have "stateOK g' cs'" if "cs \<in> set (GD_ContractStates g)" "cs' = cs \<or> cs' = observed_state (CV_ID c) (CS_Latest state) (BR_Statuses res) cs \<and> CS_ServerID cs = s" for cs cs'
      using wfD(8) [OF wf that(1)] that(2) ownContract_append [OF _ tabs(1)] fc c(2)
      by (auto simp: stateOK_def observed_state_def ownContract_def [of g' _ "Some (CV_ID c)"])
    then show "list_all (stateOK g') (GD_ContractStates g')" by (auto simp: tabs(4) list_all_iff)
    have "contractOK g' q" if "q \<in> set (GD_Contracts g)" for q
    proof -
      have "findContract g (CV_ID q) = Some q" unfolding findContract_def by (rule find_key_unique [OF wfD(1) [OF wf] that])
      then show ?thesis using wfD(9) [OF wf that] old by (simp add: contractOK_def)
    qed
    moreover have "contractOK g' c" using new c(5) by (simp add: contractOK_def)
    ultimately show "list_all (contractOK g') (GD_Contracts g')" by (auto simp: tabs(1) list_all_iff)
  qed
qed

section \<open>What an observation leaves\<close>

lemma findState_insert: "findState g s = None \<Longrightarrow> GD_ContractStates g' = GD_ContractStates g @ [freshState s] \<Longrightarrow> findState g' s = Some (freshState s)"
  by (simp add: findState_def find_append freshState_def)

lemma wf_states:
  assumes "contracts_wf g" and "distinct (map CS_ServerID ss)" and "\<forall>cs \<in> set ss. stateOK g cs"
  shows "contracts_wf (g\<lparr>GD_ContractStates := ss\<rparr>)"
  using assms by (simp add: contracts_wf_def list_all_iff rowOK_def [abs_def] stateOK_def [abs_def] contractOK_def [abs_def] ownContract_def [abs_def]
      findContract_def findTool_def contractTools_def cong: option.case_cong)

lemma stateForUpdate_spec:
  assumes "stateForUpdate s g = (state, g0)" and "contracts_wf g"
  shows "contracts_wf g0" "findState g0 s = Some state" "CS_ServerID state = s"
    and "state = (case findState g s of None \<Rightarrow> freshState s | Some cs \<Rightarrow> cs)"
    and "g0 = (case findState g s of None \<Rightarrow> g\<lparr>GD_ContractStates := GD_ContractStates g @ [freshState s]\<rparr> | Some cs \<Rightarrow> g)"
proof -
  show st: "state = (case findState g s of None \<Rightarrow> freshState s | Some cs \<Rightarrow> cs)"
    and g0: "g0 = (case findState g s of None \<Rightarrow> g\<lparr>GD_ContractStates := GD_ContractStates g @ [freshState s]\<rparr> | Some cs \<Rightarrow> g)"
    using assms(1) by (auto simp: stateForUpdate_def split: option.splits)
  show "findState g0 s = Some state"
    using findState_insert [of g s g0] by (cases "findState g s") (simp_all add: st g0)
  then show "CS_ServerID state = s" unfolding findState_def by (rule find_key_SomeD [THEN conjunct2])
  show "contracts_wf g0"
  proof (cases "findState g s")
    case None
    have "s \<notin> CS_ServerID ` set (GD_ContractStates g)"
      using None unfolding findState_def by (metis (mono_tags, lifting) find_None_iff imageE)
    then have d: "distinct (map CS_ServerID (GD_ContractStates g @ [freshState s]))" using wfD(6) [OF assms(2)] by (simp add: freshState_def)
    have "\<forall>cs \<in> set (GD_ContractStates g @ [freshState s]). stateOK g cs"
      using wfD(8) [OF assms(2)] by (simp add: stateOK_def freshState_def ownContract_def)
    from wf_states [OF assms(2) d this] show ?thesis by (simp add: g0 None)
  qed (simp add: g0 assms(2))
qed

definition storedOf :: "contract_tool_row \<times> tool_row \<Rightarrow> storedContractTool" where
  "storedOf = (\<lambda>(ct, t). \<lparr>SD_ID = TL_ID t, SD_Name = TL_Name t, SD_InputSchema = CT_InputSchema ct, SD_OutputSchema = CT_OutputSchema ct,
     SD_Annotations = CT_Annotations ct, SD_Presentation = CT_Presentation ct\<rparr>)"

lemma contractTools_memD:
  assumes "(ct, t) \<in> set (contractTools g a)"
  shows "ct \<in> set (GD_ContractTools g)" "CT_ContractRevisionID ct = a" "findTool g (CT_ToolID ct) = Some t"
  using assms by (auto simp: contractTools_def set_map_filter)

lemma contractTools_memI:
  "ct \<in> set (GD_ContractTools g) \<Longrightarrow> CT_ContractRevisionID ct = a \<Longrightarrow> findTool g (CT_ToolID ct) = Some t \<Longrightarrow> (ct, t) \<in> set (contractTools g a)"
  by (auto simp: contractTools_def set_map_filter)

lemma contractTools_row:
  assumes "contracts_wf g" and "(ct, t) \<in> set (contractTools g a)"
  shows "normalTool (fieldsOf (ct, t))" "TL_ID t = CT_ToolID ct" "t \<in> set (GD_Tools g)"
    and "findContract g a = Some c \<Longrightarrow> TL_ServerID t = CV_ServerID c"
proof -
  note m = contractTools_memD [OF assms(2)]
  show "normalTool (fieldsOf (ct, t))" using wfD(7) [OF assms(1) m(1)] m(3) by (auto elim!: rowOKE)
  show "TL_ID t = CT_ToolID ct" "t \<in> set (GD_Tools g)" using m(3) unfolding findTool_def by (auto dest: find_key_SomeD)
  show "TL_ServerID t = CV_ServerID c" if "findContract g a = Some c" using wfD(7) [OF assms(1) m(1)] m(2,3) that by (auto elim!: rowOKE)
qed

lemma normal_objects:
  assumes "normalTool (fieldsOf (ct, t))"
  shows "isObject (CT_InputSchema ct)" "isObject (CT_OutputSchema ct)" "isObject (CT_Annotations ct)" "isObject (CT_Presentation ct)"
  using assms by (simp_all add: normalTool_def fieldsOf_def canonicalObject_def)

lemma mapE_all_Inr: "(\<And>x. x \<in> set xs \<Longrightarrow> f x = Inr (h x)) \<Longrightarrow> mapE f xs = Inr (map h xs)"
  by (induction xs) auto

lemma contractToolsTx_wf:
  assumes "contracts_wf g"
  shows "contractToolsTx g (Some a) = Inr (map storedOf (contractTools g a))"
proof -
  have "storedTool x = Inr (storedOf x)" if "x \<in> set (contractTools g a)" for x
  proof -
    obtain ct t where x: "x = (ct, t)" by (cases x)
    then show ?thesis using normal_objects [OF contractTools_row(1) [OF assms]] that by (simp add: storedTool_def storedOf_def decodesToMap_def)
  qed
  then show ?thesis by (simp add: contractToolsTx_def mapE_all_Inr)
qed

text \<open>The hash of the observed contract belongs to no other contract of the tables.\<close>

definition hash_identifies :: "governance_env \<Rightarrow> ObservedToolInput list \<Rightarrow> governance_db \<Rightarrow> bool" where
  "hash_identifies ge tools g =
     (case CanonicalContract ge tools of
        Inl _ \<Rightarrow> True
      | Inr (body, hash) \<Rightarrow> list_all (\<lambda>c. CV_CanonicalHash c = hash \<longrightarrow> ge_unmarshal ge body = Some (CV_Body c)) (GD_Contracts g))"

lemma observe_spec:
  assumes ob: "ObserveContractsTx ge ids input g = Inr (res, g')" and "laws ge" and wf: "contracts_wf g"
  shows "contracts_wf g'"
    and "\<exists>body c cs. CanonicalContract ge (BI_Tools input) = Inr (body, CV_CanonicalHash c) \<and> BR_Revision res = c
      \<and> findContract g' (CV_ID c) = Some c \<and> findState g' (BI_ServerID input) = Some cs \<and> CS_Latest cs = Some (CV_ID c)
      \<and> CS_Accepted cs = Option.bind (findState g (BI_ServerID input)) CS_Accepted
      \<and> (hash_identifies ge (BI_Tools input) g \<longrightarrow> ge_unmarshal ge body = Some (CV_Body c))
      \<and> (\<forall>a. CS_Accepted cs = Some a \<longrightarrow> BR_Statuses res = compareContractTools ge (map storedOf (contractTools g' a)) (BI_Tools input))"
proof (atomize (full), goal_cases)
  case 1
  let ?s = "BI_ServerID input"
  obtain body hash where can: "CanonicalContract ge (BI_Tools input) = Inr (body, hash)"
    using ob by (auto simp: ObserveContractsTx_def Let_def split: if_splits sum.splits)
  obtain state g0 where su: "stateForUpdate ?s g = (state, g0)" by (cases "stateForUpdate ?s g")
  note s = stateForUpdate_spec [OF su wf]
  obtain ns where ns: "body = ge_marshal ge (contractJSON ns)" "list_all normalTool ns"
    by (rule canonical_contract [OF can]) (use assms(2) in blast)
  have acc: "Option.bind (findState g ?s) CS_Accepted = CS_Accepted state" by (cases "findState g ?s") (simp_all add: s(4) freshState_def)
  have GC: "GD_Contracts g0 = GD_Contracts g" by (cases "findState g ?s") (simp_all add: s(5))
  have "state \<in> set (GD_ContractStates g0)" using s(2) unfolding findState_def by (rule find_key_SomeD [THEN conjunct1])
  from wfD(8) [OF s(1) this] have own: "ownContract g0 ?s (CS_Accepted state)" by (simp add: stateOK_def s(3))
  show ?case
  proof (cases "\<exists>l c. CS_Latest state = Some l \<and> findContract g0 l = Some c \<and> CV_CanonicalHash c = hash")
    case True
    then obtain l c where l: "CS_Latest state = Some l" "findContract g0 l = Some c" "CV_CanonicalHash c = hash" by blast
    then obtain r where r: "observeSame ge state c (BI_Tools input) g0 = Inr r" "res = r" "g' = g0"
      using ob by (auto simp: ObserveContractsTx_def Let_def can su split: if_splits sum.splits)
    have lc: "CV_ID c = l" "c \<in> set (GD_Contracts g)" using l(2) unfolding findContract_def GC by (auto dest: find_key_SomeD)
    have st: "BR_Statuses res = compareContractTools ge (map storedOf (contractTools g0 a)) (BI_Tools input)" if "CS_Accepted state = Some a" for a
      using r(1) by (simp add: r(2) observeSame_def that contractToolsTx_wf [OF s(1)]) (auto)
    have rev: "BR_Revision res = c" using r(1) by (auto simp: r(2) observeSame_def split: sum.splits)
    have "hash_identifies ge (BI_Tools input) g \<longrightarrow> ge_unmarshal ge body = Some (CV_Body c)"
      using lc(2) l(3) by (auto simp: hash_identifies_def can list_all_iff)
    then show ?thesis using s(1,2) l lc(1) st rev acc can r(3) by auto
  next
    case False
    then have "observeNew ge ids ?s state body hash (BI_Tools input) g0 = Inr (res, g')"
      using ob by (auto simp: ObserveContractsTx_def Let_def can su split: if_splits sum.splits option.splits)
    note n = observeNew_spec [OF this assms(2) s(1) ns(2,1) s(2)]
    from n(2) obtain c where c: "BR_Revision res = c" "findContract g' (CV_ID c) = Some c" "CV_CanonicalHash c = hash"
        "ge_unmarshal ge body = Some (CV_Body c)"
        "findState g' ?s = Some (observed_state (CV_ID c) (CS_Latest state) (BR_Statuses res) state)" by auto
    have "BR_Statuses res = compareContractTools ge (map storedOf (contractTools g' a)) (BI_Tools input)" if a: "CS_Accepted state = Some a" for a
      using n(4) [of "map storedOf (contractTools g0 a)"] n(3) [of a] own
      by (simp add: a contractToolsTx_wf [OF s(1)] ownContract_def split: option.splits)
    then show ?thesis using n(1) c can acc by (auto simp: observed_state_def)
  qed
qed

section \<open>What an observation pauses\<close>

lemma find_holds: "find P xs = Some x \<Longrightarrow> x \<in> set xs \<and> P x"
  by (induction xs) (auto split: if_splits)

lemma find_unique_Some:
  assumes "x \<in> set xs" and "P x" and "\<And>y. y \<in> set xs \<Longrightarrow> P y \<Longrightarrow> y = x"
  shows "find P xs = Some x"
proof -
  have "find P xs \<noteq> None" using assms(1,2) by (metis find_None_iff)
  then obtain y where y: "find P xs = Some y" by blast
  from find_holds [OF y] assms(3) have "y = x" by blast
  with y show ?thesis by simp
qed

lemma tool_names_unique:
  assumes wf: "contracts_wf g" and "(ct, t) \<in> set (contractTools g a)" and "(ct', t') \<in> set (contractTools g b)"
    and "TL_ServerID t = TL_ServerID t'" and "TL_Name t = TL_Name t'"
  shows "t = t'" "CT_ToolID ct = CT_ToolID ct'"
proof -
  note r = contractTools_row(2,3) [OF wf assms(2)] and r' = contractTools_row(2,3) [OF wf assms(3)]
  have "inj_on (\<lambda>t. (TL_ServerID t, TL_Name t)) (set (GD_Tools g))" using wfD(4) [OF wf] by (simp add: distinct_map)
  then show t: "t = t'" by (rule inj_onD) (use assms(4,5) r(2) r'(2) in simp_all)
  show "CT_ToolID ct = CT_ToolID ct'" using r(1) r'(1) t by simp
qed

lemma contract_row_unique:
  assumes wf: "contracts_wf g" and "ct \<in> set (GD_ContractTools g)" "ct' \<in> set (GD_ContractTools g)"
    and "CT_ContractRevisionID ct = CT_ContractRevisionID ct'" "CT_ToolID ct = CT_ToolID ct'"
  shows "ct = ct'"
proof -
  have "inj_on (\<lambda>ct. (CT_ContractRevisionID ct, CT_ToolID ct)) (set (GD_ContractTools g))" using wfD(5) [OF wf] by (simp add: distinct_map)
  then show ?thesis by (rule inj_onD) (use assms(2-5) in simp_all)
qed

lemma latestTool_find:
  assumes "findState g s = Some cs" and "CS_Latest cs = Some l"
  shows "latestTool g s i = find (\<lambda>ct. CT_ContractRevisionID ct = l \<and> CT_ToolID ct = i) (GD_ContractTools g)"
  by (simp add: latestTool_def assms)

lemma findStored_row:
  assumes wf: "contracts_wf g" and m: "(ct, t) \<in> set (contractTools g a)" and c: "findContract g a = Some c"
  shows "findStored (map storedOf (contractTools g a)) (TL_Name t) = Some (storedOf (ct, t))"
proof -
  let ?xs = "map storedOf (contractTools g a)"
  have mem: "storedOf (ct, t) \<in> set ?xs" using imageI [OF m, of storedOf] by simp
  have nm: "SD_Name (storedOf (ct, t)) = TL_Name t" by (simp add: storedOf_def)
  have "find (\<lambda>s. SD_Name s = TL_Name t) ?xs \<noteq> None"
    using mem nm by (metis (mono_tags, lifting) find_None_iff)
  then obtain s where s: "find (\<lambda>s. SD_Name s = TL_Name t) ?xs = Some s" by blast
  from find_key_SomeD [OF s] obtain ct' t' where s': "s = storedOf (ct', t')" "(ct', t') \<in> set (contractTools g a)" and n: "SD_Name s = TL_Name t"
    by auto
  have "TL_Name t = TL_Name t'" using n by (simp add: s'(1) storedOf_def)
  from tool_names_unique [OF wf m s'(2) _ this] contractTools_row(4) [OF wf m c] contractTools_row(4) [OF wf s'(2) c]
  have t: "t = t'" "CT_ToolID ct = CT_ToolID ct'" by auto
  have "ct = ct'" by (rule contract_row_unique [OF wf]) (use contractTools_memD [OF m] contractTools_memD [OF s'(2)] t in simp_all)
  then show ?thesis using s t s'(1) by (simp add: findStored_def)
qed

lemma observed_names:
  assumes "list_all2 (\<lambda>t n. normalizeTool ge t = Inr n) (sort_key OI_Name tools) ns" and "distinct (map NT_Name ns)"
    and trim: "\<forall>t \<in> set tools. TrimSpace (OI_Name t) = OI_Name t"
  shows "map NT_Name ns = map OI_Name (sort_key OI_Name tools)" and "distinct (map OI_Name tools)"
proof -
  have "list_all2 (\<lambda>t n. NT_Name n = OI_Name t) (sort_key OI_Name tools) ns"
  proof (rule list.rel_mono_strong [OF assms(1)])
    fix t n assume "t \<in> set (sort_key OI_Name tools)" "normalizeTool ge t = Inr n"
    with trim normalizeTool_fields(1) [OF this(2)] show "NT_Name n = OI_Name t" by simp
  qed
  then show e: "map NT_Name ns = map OI_Name (sort_key OI_Name tools)"
    by (induction rule: list_all2_induct) auto
  have "mset (map OI_Name (sort_key OI_Name tools)) = mset (map OI_Name tools)" by simp
  with e assms(2) show "distinct (map OI_Name tools)" by (metis mset_eq_imp_distinct_iff)
qed

lemma renderTool_paused:
  assumes "normalTool (fieldsOf (ct, t))" and "\<And>l. latest = Some l \<Longrightarrow> \<exists>u. normalTool (fieldsOf (l, u))"
  shows "\<exists>tool. renderTool ge global latest (ct, t) = Inr tool
     \<and> RT_Paused tool = (case latest of None \<Rightarrow> True | Some l \<Rightarrow> \<not> equalJSONMap ge (CT_InputSchema ct) (CT_InputSchema l)
        \<or> \<not> equalJSONMap ge (CT_OutputSchema ct) (CT_OutputSchema l) \<or> \<not> equalJSONMap ge (CT_Annotations ct) (CT_Annotations l))"
proof (cases latest)
  case None
  then show ?thesis using normal_objects [OF assms(1)] by (simp add: renderTool_def split: prod.split)
next
  case (Some l)
  from assms(2) [OF Some] obtain u where u: "normalTool (fieldsOf (l, u))" by blast
  show ?thesis using normal_objects [OF assms(1)] normal_objects [OF u] by (simp add: renderTool_def Some split: prod.split)
qed

lemma renderTool_fields:
  "renderTool ge global latest (ct, t) = Inr tool \<Longrightarrow> RT_ToolID tool = TL_ID t \<and> RT_Name tool = TL_Name t
     \<and> RT_InputSchema tool = CT_InputSchema ct \<and> RT_OutputSchema tool = CT_OutputSchema ct \<and> RT_Annotations tool = CT_Annotations ct"
  by (auto simp: renderTool_def Let_def split: if_splits option.splits prod.splits)

lemma observe_keeps:
  assumes ob: "ObserveContractsTx ge ids input g = Inr (res, g')" and "laws ge" and wf: "contracts_wf g" and c: "findContract g a \<noteq> None"
  shows "contractTools g' a = contractTools g a"
proof -
  let ?s = "BI_ServerID input"
  obtain body hash where can: "CanonicalContract ge (BI_Tools input) = Inr (body, hash)"
    using ob by (auto simp: ObserveContractsTx_def Let_def split: if_splits sum.splits)
  obtain state g0 where su: "stateForUpdate ?s g = (state, g0)" by (cases "stateForUpdate ?s g")
  note s = stateForUpdate_spec [OF su wf]
  obtain ns where ns: "body = ge_marshal ge (contractJSON ns)" "list_all normalTool ns"
    by (rule canonical_contract [OF can]) (use assms(2) in blast)
  have g0: "contractTools g0 a = contractTools g a" "findContract g0 a \<noteq> None"
    using c by (cases "findState g ?s"; simp add: s(5) contractTools_def findTool_def findContract_def)+
  from ob consider "g' = g0" | "observeNew ge ids ?s state body hash (BI_Tools input) g0 = Inr (res, g')"
    by (auto simp: ObserveContractsTx_def Let_def can su split: if_splits sum.splits option.splits)
  then show ?thesis
  proof cases
    case 2
    from observeNew_spec(3) [OF this assms(2) s(1) ns(2,1) s(2) g0(2)] g0(1) show ?thesis by simp
  qed (simp add: g0)
qed

text \<open>
  C35. A successful observation of a server leaves its accepted contract accepted and the tools of that contract as they were,
  and the routing bundle then renders every one of them, with the schemas and annotations of the accepted contract whatever was
  observed; the tool is paused exactly when the observation reported it as removed or as changed in its schemas or annotations.
\<close>

theorem observation_pauses:
  assumes "laws ge" and "contracts_wf g" and "ObserveContractsTx ge ids input g = Inr (res, g')"
    and "hash_identifies ge (BI_Tools input) g" and trim: "\<forall>t \<in> set (BI_Tools input). TrimSpace (OI_Name t) = OI_Name t"
    and acc: "acceptedContract g (BI_ServerID input) = a" "a \<noteq> ''''" and old: "(ct, t) \<in> set (contractTools g a)"
  shows "acceptedContract g' (BI_ServerID input) = a \<and> contractTools g' a = contractTools g a
     \<and> (\<exists>tool. renderTool ge global (latestTool g' (TL_ServerID t) (CT_ToolID ct)) (ct, t) = Inr tool
          \<and> RT_ToolID tool = TL_ID t \<and> RT_Name tool = TL_Name t \<and> RT_InputSchema tool = CT_InputSchema ct
          \<and> RT_OutputSchema tool = CT_OutputSchema ct \<and> RT_Annotations tool = CT_Annotations ct
          \<and> RT_Paused tool = (mapText (BR_Statuses res) (TL_Name t) \<in> {ContractToolRemoved, ContractToolPausedIncompatible}))"
proof -
  let ?s = "BI_ServerID input" and ?tools = "BI_Tools input"
  note spec = observe_spec [OF assms(3,1,2)]
  note wf = spec(1)
  from spec(2) assms(4) obtain body c cs where can: "CanonicalContract ge ?tools = Inr (body, CV_CanonicalHash c)"
      and c: "findContract g' (CV_ID c) = Some c" and cs: "findState g' ?s = Some cs" "CS_Latest cs = Some (CV_ID c)"
        "CS_Accepted cs = Option.bind (findState g ?s) CS_Accepted"
      and body: "ge_unmarshal ge body = Some (CV_Body c)"
      and st: "\<forall>a. CS_Accepted cs = Some a \<longrightarrow> BR_Statuses res = compareContractTools ge (map storedOf (contractTools g' a)) ?tools"
    by blast
  have "findContract g a \<noteq> None"
  proof -
    obtain cs0 where cs0: "findState g ?s = Some cs0" "CS_Accepted cs0 = Some a" using acc by (auto simp: acceptedContract_def split: option.splits)
    have "cs0 \<in> set (GD_ContractStates g)" using cs0(1) unfolding findState_def by (auto dest: find_key_SomeD)
    from wfD(8) [OF assms(2) this] show ?thesis by (auto simp: stateOK_def ownContract_def cs0(2) split: option.splits)
  qed
  from observe_keeps [OF assms(3,1,2) this] have keeps: "contractTools g' a = contractTools g a" .
  have m: "(ct, t) \<in> set (contractTools g' a)" using old keeps by simp
  have acc': "CS_Accepted cs = Some a" using acc by (auto simp: cs(3) acceptedContract_def split: option.splits)
  from st acc' have st: "BR_Statuses res = compareContractTools ge (map storedOf (contractTools g' a)) ?tools" by blast
  obtain ns where ns: "list_all2 (\<lambda>t n. normalizeTool ge t = Inr n) (sort_key OI_Name ?tools) ns" "distinct (map NT_Name ns)"
      "body = ge_marshal ge (contractJSON ns)" "list_all normalTool ns"
    by (rule canonical_contract [OF can]) (use assms(1) in blast)
  note names = observed_names [OF ns(1,2) trim]
  have csin: "cs \<in> set (GD_ContractStates g')" "CS_ServerID cs = ?s" using cs(1) unfolding findState_def by (auto dest: find_key_SomeD)
  have own: "CV_ServerID c = ?s" using wfD(8) [OF wf csin(1)] csin(2) cs(2) c by (auto simp: stateOK_def ownContract_def)
  obtain ac where ac: "findContract g' a = Some ac" "CV_ServerID ac = ?s"
    using wfD(8) [OF wf csin(1)] csin(2) acc' by (auto simp: stateOK_def ownContract_def split: option.splits)
  have sv: "TL_ServerID t = ?s" using contractTools_row(4) [OF wf m ac(1)] ac(2) by simp
  have "c \<in> set (GD_Contracts g')" using c unfolding findContract_def by (auto dest: find_key_SomeD)
  from wfD(9) [OF wf this] have rows: "map fieldsOf (contractTools g' (CV_ID c)) = ns"
    using body contract_body [OF assms(1) ns(4), folded ns(3)] by (simp add: contractOK_def)
  let ?l = "latestTool g' (TL_ServerID t) (CT_ToolID ct)"
  note lt = latestTool_find [OF cs(1,2), of "CT_ToolID ct", folded sv]
  have normal: "\<exists>u. normalTool (fieldsOf (r, u))" if "?l = Some r" for r
  proof -
    have "r \<in> set (GD_ContractTools g')" using that unfolding lt by (rule find_holds [THEN conjunct1])
    then show ?thesis using wfD(7) [OF wf] by (blast elim: rowOKE)
  qed
  from renderTool_paused [OF contractTools_row(1) [OF wf m] normal] obtain tool
    where tool: "renderTool ge global ?l (ct, t) = Inr tool"
      "RT_Paused tool = (case ?l of None \<Rightarrow> True | Some l \<Rightarrow> \<not> equalJSONMap ge (CT_InputSchema ct) (CT_InputSchema l)
        \<or> \<not> equalJSONMap ge (CT_OutputSchema ct) (CT_OutputSchema l) \<or> \<not> equalJSONMap ge (CT_Annotations ct) (CT_Annotations l))"
    by blast
  note look = compare_lookup [OF names(2), of ge "map storedOf (contractTools g' a)" "TL_Name t", folded st]
  have "RT_Paused tool = (mapText (BR_Statuses res) (TL_Name t) \<in> {ContractToolRemoved, ContractToolPausedIncompatible})"
  proof (cases "find (\<lambda>x. OI_Name x = TL_Name t) ?tools")
    case None
    then have no: "TL_Name t \<notin> OI_Name ` set ?tools" by (metis (mono_tags, lifting) find_None_iff imageE)
    have "?l = None"
    proof (rule ccontr)
      assume "?l \<noteq> None"
      then obtain r where "r \<in> set (GD_ContractTools g')" "CT_ContractRevisionID r = CV_ID c" "CT_ToolID r = CT_ToolID ct"
        unfolding lt using find_holds by fast
      then have "(r, t) \<in> set (contractTools g' (CV_ID c))" using contractTools_memD(3) [OF m] by (auto intro: contractTools_memI)
      then have "fieldsOf (r, t) \<in> set ns" unfolding rows [symmetric] set_map by (rule imageI)
      then have "NT_Name (fieldsOf (r, t)) \<in> set (map NT_Name ns)" by simp
      then show False unfolding names(1) using no by (simp add: fieldsOf_def)
    qed
    moreover have "TL_Name t \<in> SD_Name ` set (map storedOf (contractTools g' a))"
      using imageI [OF m, of "SD_Name \<circ> storedOf"] by (simp add: storedOf_def image_image)
    ultimately show ?thesis using look None by (simp add: tool(2) mapText_def)
  next
    case (Some x)
    note x = find_key_SomeD [OF Some]
    from x obtain n where n: "n \<in> set ns" "normalizeTool ge x = Inr n"
      using list_all2_partner [OF ns(1)] by (metis set_sort)
    from n(1) obtain ct' t' where r: "(ct', t') \<in> set (contractTools g' (CV_ID c))" "fieldsOf (ct', t') = n"
      unfolding rows [symmetric] by auto
    note nf = normalizeTool_fields(1) [OF n(2)]
    have "TrimSpace (TL_Name t) = TL_Name t" using trim x by metis
    then have "TL_Name t = TL_Name t'" using r(2) x unfolding nf by (simp add: fieldsOf_def)
    from tool_names_unique [OF wf m r(1) _ this] contractTools_row(4) [OF wf r(1) c] sv own
    have "CT_ToolID ct = CT_ToolID ct'" by simp
    then have "?l = Some ct'"
      unfolding lt using contractTools_memD(1,2) [OF r(1)] contract_row_unique [OF wf]
      by (intro find_unique_Some) auto
    then have "RT_Paused tool = (compareTool ge (Some (storedOf (ct, t))) x = ContractToolPausedIncompatible)"
      using r(2) unfolding nf by (auto simp: tool(2) compareTool_def storedOf_def fieldsOf_def)
    moreover have "mapText (BR_Statuses res) (TL_Name t) = compareTool ge (Some (storedOf (ct, t))) x"
      using look Some findStored_row [OF wf m ac(1)] by (simp add: mapText_def)
    moreover have "compareTool ge (Some (storedOf (ct, t))) x \<noteq> ContractToolRemoved" by (simp add: compareTool_def)
    ultimately show ?thesis by simp
  qed
  moreover have "acceptedContract g' ?s = a" by (simp add: acceptedContract_def cs(1) acc')
  ultimately show ?thesis using tool(1) renderTool_fields [OF tool(1)] keeps by blast
qed

section \<open>Observing again\<close>

text \<open>The tables an observation writes; contracts are only added, and only the observed server's state changes.\<close>

definition otherTables :: "governance_db \<Rightarrow> governance_db" where
  "otherTables g = g\<lparr>GD_Contracts := [], GD_Tools := [], GD_ContractTools := [], GD_ContractStates := [], GD_Proposals := []\<rparr>"

lemma findState_map_other:
  "(\<And>cs. CS_ServerID (f cs) = CS_ServerID cs) \<Longrightarrow> s' \<noteq> s
   \<Longrightarrow> find (\<lambda>x. CS_ServerID x = s') (map (\<lambda>cs. if CS_ServerID cs = s then f cs else cs) xs) = find (\<lambda>x. CS_ServerID x = s') xs"
  by (induction xs) auto

lemma observe_frame:
  assumes ob: "ObserveContractsTx ge ids input g = Inr (res, g')" and "laws ge" and wf: "contracts_wf g"
  shows "otherTables g' = otherTables g" and "\<exists>cs. GD_Contracts g' = GD_Contracts g @ cs"
    and "s \<noteq> BI_ServerID input \<Longrightarrow> findState g' s = findState g s"
proof (atomize (full), goal_cases)
  case 1
  let ?s = "BI_ServerID input"
  obtain body hash where can: "CanonicalContract ge (BI_Tools input) = Inr (body, hash)"
    using ob by (auto simp: ObserveContractsTx_def Let_def split: if_splits sum.splits)
  obtain state g0 where su: "stateForUpdate ?s g = (state, g0)" by (cases "stateForUpdate ?s g")
  note s = stateForUpdate_spec [OF su wf]
  obtain ns where ns: "body = ge_marshal ge (contractJSON ns)" "list_all normalTool ns"
    by (rule canonical_contract [OF can]) (use assms(2) in blast)
  have g0: "otherTables g0 = otherTables g" "GD_Contracts g0 = GD_Contracts g" "s \<noteq> ?s \<Longrightarrow> findState g0 s = findState g s"
    by (cases "findState g ?s"; simp add: s(5) otherTables_def findState_def find_append freshState_def split: option.split)+
  from ob consider "g' = g0" | "observeNew ge ids ?s state body hash (BI_Tools input) g0 = Inr (res, g')"
    by (auto simp: ObserveContractsTx_def Let_def can su split: if_splits sum.splits option.splits)
  then show ?case
  proof cases
    case 1
    then show ?thesis using g0 by simp
  next
    case 2
    obtain c ts rows ps where g': "g' = (updateState ?s (observed_state (CV_ID c) (CS_Latest state) (BR_Statuses res))
        (g0\<lparr>GD_Contracts := GD_Contracts g0 @ [c], GD_Tools := GD_Tools g0 @ ts, GD_ContractTools := GD_ContractTools g0 @ rows\<rparr>))\<lparr>GD_Proposals := ps\<rparr>"
      by (rule observeNew_parts [OF 2 assms(2) wf_toolsWf [OF s(1)] ns(2,1)])
    have "findState g' s = findState g0 s" if "s \<noteq> ?s"
      unfolding g' updateState_def findState_def by (simp add: findState_map_other that observed_state_def)
    then show ?thesis using g0 by (simp add: g' updateState_def otherTables_def)
  qed
qed

lemma otherTables_sel [simp]: "GD_Servers (otherTables g) = GD_Servers g"
  by (simp add: otherTables_def)

lemma otherTables_servers: "otherTables g' = otherTables g \<Longrightarrow> GD_Servers g' = GD_Servers g"
  by (metis otherTables_sel)

text \<open>
  C39. Observing the same tools again finds the same contract revision and changes no table, however often it is repeated; for a
  server with an accepted contract it reports the same statuses, so a paused tool stays reported.
\<close>

theorem repeated_observation:
  assumes "laws ge" and "contracts_wf g" and "ObserveContractsTx ge ids input g = Inr (res, g')"
  shows "\<exists>again. ObserveContractsTx ge ids' input g' = Inr (again, g') \<and> BR_Revision again = BR_Revision res
     \<and> (acceptedContract g (BI_ServerID input) = '''' \<or> BR_Statuses again = BR_Statuses res)"
proof -
  let ?s = "BI_ServerID input"
  note spec = observe_spec [OF assms(3,1,2)]
  from spec(2) obtain body c cs where o: "CanonicalContract ge (BI_Tools input) = Inr (body, CV_CanonicalHash c)" "BR_Revision res = c"
      "findContract g' (CV_ID c) = Some c" "findState g' ?s = Some cs" "CS_Latest cs = Some (CV_ID c)"
      "CS_Accepted cs = Option.bind (findState g ?s) CS_Accepted"
      "\<forall>a. CS_Accepted cs = Some a \<longrightarrow> BR_Statuses res = compareContractTools ge (map storedOf (contractTools g' a)) (BI_Tools input)"
    by blast
  have guards: "ge_uuid ge ?s" "findServer g' ?s \<noteq> None"
    using assms(3) otherTables_servers [OF observe_frame(1) [OF assms(3,1,2)]]
    by (auto simp: ObserveContractsTx_def Let_def findServer_def split: if_splits)
  let ?a = "case CS_Accepted cs of None \<Rightarrow> CV_ID c | Some a \<Rightarrow> a"
  let ?again = "\<lparr>BR_Revision = c, BR_Statuses = compareContractTools ge (map storedOf (contractTools g' ?a)) (BI_Tools input)\<rparr>"
  have "observeSame ge cs c (BI_Tools input) g' = Inr ?again"
    by (cases "CS_Accepted cs") (simp_all add: observeSame_def o(5) contractToolsTx_wf [OF spec(1)])
  then have "ObserveContractsTx ge ids' input g' = Inr (?again, g')"
    using guards o(1,3,4,5) by (simp add: ObserveContractsTx_def Let_def stateForUpdate_def)
  moreover have "CS_Accepted cs = Some a" if "acceptedContract g ?s = a" "a \<noteq> ''''" for a
    using that by (auto simp: acceptedContract_def o(6) split: option.splits)
  ultimately show ?thesis using o(2,7) by (cases "acceptedContract g ?s = ''''") auto
qed

section \<open>A server that goes back\<close>

text \<open>
  The server has offered these tools before, and then others: their contract is in the tables and is not the latest.
\<close>

definition wentBack :: "governance_env \<Rightarrow> governance_db \<Rightarrow> string \<Rightarrow> ObservedToolInput list \<Rightarrow> bool" where
  "wentBack ge g serverID tools =
     (case CanonicalContract ge tools of
        Inl _ \<Rightarrow> False
      | Inr (_, hash) \<Rightarrow> list_ex (\<lambda>c. CV_ServerID c = serverID \<and> CV_CanonicalHash c = hash) (GD_Contracts g)
          \<and> (case findState g serverID of
               None \<Rightarrow> False
             | Some cs \<Rightarrow> (case CS_Latest cs of
                 None \<Rightarrow> False
               | Some l \<Rightarrow> (case findContract g l of None \<Rightarrow> False | Some c \<Rightarrow> CV_CanonicalHash c \<noteq> hash))))"

lemma wentBack_iff:
  "wentBack ge g s tools = (\<exists>body hash cs l c. CanonicalContract ge tools = Inr (body, hash)
     \<and> list_ex (\<lambda>c. CV_ServerID c = s \<and> CV_CanonicalHash c = hash) (GD_Contracts g) \<and> findState g s = Some cs \<and> CS_Latest cs = Some l
     \<and> findContract g l = Some c \<and> CV_CanonicalHash c \<noteq> hash)"
proof (cases "CanonicalContract ge tools")
  case can: (Inr p)
  show ?thesis
  proof (cases "findState g s")
    case (Some cs)
    show ?thesis
    proof (cases "CS_Latest cs")
      case l: (Some l)
      show ?thesis using can Some l by (cases p; cases "findContract g l") (simp_all add: wentBack_def)
    qed (use can Some in \<open>cases p; simp add: wentBack_def\<close>)
  qed (use can in \<open>cases p; simp add: wentBack_def\<close>)
qed (simp add: wentBack_def)

lemma wentBack_refused:
  assumes "wentBack ge g s tools"
  shows "\<exists>e. ObserveContractsTx ge ids \<lparr>BI_ServerID = s, BI_Tools = tools\<rparr> g = Inl e"
proof -
  from assms obtain body hash cs l c where w: "CanonicalContract ge tools = Inr (body, hash)"
      "list_ex (\<lambda>c. CV_ServerID c = s \<and> CV_CanonicalHash c = hash) (GD_Contracts g)" "findState g s = Some cs" "CS_Latest cs = Some l"
      "findContract g l = Some c" "CV_CanonicalHash c \<noteq> hash"
    unfolding wentBack_iff by blast
  have ins: "\<exists>e. insertContract ge (ni_Revision ids s) s body hash g = Inl e"
    using w(2) by (auto simp: insertContract_def Let_def list_ex_iff split: option.split)
  have "\<exists>e. observeNew ge ids s cs body hash tools g = Inl e"
    using ins by (auto simp: observeNew_def Let_def split: sum.split)
  then show ?thesis using w by (auto simp: ObserveContractsTx_def Let_def stateForUpdate_def)
qed

lemma wentBack_stable:
  assumes "ObserveContractsTx ge ids input g = Inr (res, g')" and "laws ge" and "contracts_wf g" and "s \<noteq> BI_ServerID input"
    and "wentBack ge g s tools"
  shows "wentBack ge g' s tools"
proof -
  obtain cs where cs: "GD_Contracts g' = GD_Contracts g @ cs" using observe_frame(2) [OF assms(1-3)] by blast
  show ?thesis
    using assms(5) unfolding wentBack_iff observe_frame(3) [OF assms(1-3) assms(4)] cs list_ex_append
    by (elim exE conjE) (blast intro: findContract_append [OF _ cs])
qed

lemma observeServers_duplicate:
  assumes "s \<in> set ss" and "KS_ServerID s \<in> set seen"
  shows "\<exists>e. observeServers ge ids expected ss seen r g = Inl e"
  using assms by (induction ss arbitrary: seen r g) (auto split: sum.split)

lemma observeServers_refused:
  assumes "laws ge" and "contracts_wf g" and "s \<in> set ss" and "wentBack ge g (KS_ServerID s) (map (observedTool ge) (KS_Tools s))"
  shows "\<exists>e. observeServers ge ids expected ss seen r g = Inl e"
  using assms(2-)
proof (induction ss arbitrary: seen r g)
  case (Cons x ss)
  show ?case
  proof (cases "map_of expected (KS_ServerID x) \<noteq> Some (KS_ServerName x, KS_MCPConfigRevisionID x) \<or> KS_ServerID x \<in> set seen")
    case False
    let ?in = "\<lparr>BI_ServerID = KS_ServerID x, BI_Tools = map (observedTool ge) (KS_Tools x)\<rparr>"
    show ?thesis
    proof (cases "ObserveContractsTx ge ids ?in g")
      case (Inl e)
      with False show ?thesis by simp
    next
      case (Inr p)
      obtain res g' where p: "p = (res, g')" by (cases p)
      note ob = Inr [unfolded p]
      show ?thesis
      proof (cases "KS_ServerID x = KS_ServerID s")
        case True
        show ?thesis
        proof (cases "x = s")
          case True
          then show ?thesis using wentBack_refused [OF Cons.prems(3), of ids] ob by auto
        next
          case False
          then have s: "s \<in> set ss" using Cons.prems(2) by simp
          have "\<exists>e. observeServers ge ids expected ss (KS_ServerID x # seen) q h = Inl e" for q h
            by (rule observeServers_duplicate [OF s]) (simp add: True)
          with \<open>\<not> (_ \<or> _)\<close> ob show ?thesis by simp
        qed
      next
        case n: False
        then have s: "s \<in> set ss" using Cons.prems(2) by auto
        have "wentBack ge g' (KS_ServerID s) (map (observedTool ge) (KS_Tools s))"
          by (rule wentBack_stable [OF ob assms(1) Cons.prems(1) _ Cons.prems(3)]) (use n in simp)
        from Cons.IH [OF observe_spec(1) [OF ob assms(1) Cons.prems(1)] s this] False ob show ?thesis by simp
      qed
    qed
  qed auto
qed simp

text \<open>
  C38. When a server offers again what it offered before its latest contract, no observation of the relay succeeds while it does:
  the insert meets the unique hash of the old contract, the whole transaction is rolled back, and nothing is recorded for the
  other servers either. Tools that the latest contract paused stay paused.
\<close>

theorem reverted_contract_blocks_observation:
  assumes "laws ge" and "contracts_wf g" and "s \<in> set (KR_Servers response)"
    and "wentBack ge g (KS_ServerID s) (map (observedTool ge) (KS_Tools s))"
  shows "\<exists>e. ObserveRelayContracts ge ids response g = (Inl e, g)"
  using observeServers_refused [OF assms, of ids "appliedServers g" "[]" "\<lparr>RO_Observed = 0, RO_Changed = 0, RO_Paused = 0\<rparr>"]
  by (auto simp: ObserveRelayContracts_def)

section \<open>The invariant over all steps\<close>

inductive contract_step :: "profile_env \<Rightarrow> contract_db \<Rightarrow> contract_db \<Rightarrow> bool" for fe where
  observeStep: "ObserveRelayContracts (fe_gov fe) ids response (KD_Gov d) = (Inr r, g') \<Longrightarrow> contract_step fe d (overContracts (\<lambda>_. g') d)"
| acceptStep: "AcceptContract fe newIDs serverID revisionID ips d = Inr d' \<Longrightarrow> contract_step fe d d'"
| renameStep: "ConfirmToolRename fe ids now proposalID d = Inr d' \<Longrightarrow> contract_step fe d d'"

definition contractTables :: "governance_db \<Rightarrow> contract_revision_row list \<times> tool_row list \<times> contract_tool_row list \<times> contract_state_row list" where
  "contractTables g = (GD_Contracts g, GD_Tools g, GD_ContractTools g, GD_ContractStates g)"

lemma contractTables_wf:
  assumes "contractTables g' = contractTables g"
  shows "contracts_wf g' = contracts_wf g"
proof -
  have e: "GD_Contracts g' = GD_Contracts g" "GD_Tools g' = GD_Tools g" "GD_ContractTools g' = GD_ContractTools g" "GD_ContractStates g' = GD_ContractStates g"
    using assms by (simp_all add: contractTables_def)
  have "rowOK g' = rowOK g" "stateOK g' = stateOK g" "contractOK g' = contractOK g"
    unfolding rowOK_def [abs_def] stateOK_def [abs_def] contractOK_def [abs_def] ownContract_def [abs_def] findContract_def [abs_def]
      findTool_def [abs_def] contractTools_def [abs_def] e by (rule refl)+
  then show ?thesis by (simp add: contracts_wf_def e)
qed

lemma contractTables_reads:
  assumes "contractTables g' = contractTables g"
  shows "contractTools g' = contractTools g" "findState g' = findState g" "findContract g' = findContract g" "latestTool g' = latestTool g"
proof -
  have e: "GD_Contracts g' = GD_Contracts g" "GD_Tools g' = GD_Tools g" "GD_ContractTools g' = GD_ContractTools g" "GD_ContractStates g' = GD_ContractStates g"
    using assms by (simp_all add: contractTables_def)
  show "contractTools g' = contractTools g" "findState g' = findState g" "findContract g' = findContract g" "latestTool g' = latestTool g"
    unfolding contractTools_def [abs_def] findState_def [abs_def] findContract_def [abs_def] findTool_def [abs_def] latestTool_def [abs_def] e
    by (rule refl)+
qed

lemma saveProfile_contracts: "saveProfile fe newID rid i input d = Inr (p, d') \<Longrightarrow> contractTables (PD_Gov d') = contractTables (PD_Gov d)"
  by (cases p) (auto dest!: saveProfile_Inr simp: savedDB_def replaceProfileHeadProjection_def contractTables_def Let_def)

lemma bootstrapProfiles_contracts:
  "bootstrapProfiles fe newIDs relayID pins ps d = Inr d' \<Longrightarrow> contractTables (PD_Gov d') = contractTables (PD_Gov d)"
proof (induction ps arbitrary: d)
  case (Cons p ps)
  obtain pid rid where p: "p = (pid, rid)" by (cases p)
  from Cons.prems obtain input where input: "profileInputFromRevision d pid rid = Inr input" by (auto simp: p split: sum.splits)
  show ?case
  proof (cases "FI_PendingBindings input \<and> applicableBindings d rid relayID = []")
    case True
    then show ?thesis using Cons input by (simp add: p)
  next
    case False
    with Cons.prems input obtain q nr d1 where s: "saveProfile fe '''' (newIDs pid) pid (bootstrapInput pins input) d = Inr ((q, nr), d1)"
        and r: "bootstrapProfiles fe newIDs relayID pins ps (if FI_PendingBindings input then copyBindings nr rid d1 else d1) = Inr d'"
      by (auto simp: p split: sum.splits prod.splits)
    from Cons.IH [OF r] saveProfile_contracts [OF s] show ?thesis by (simp add: copyBindings_def split: if_splits)
  qed
qed simp

lemma bootstrap_contracts:
  assumes "bootstrapFirstContractProfiles fe newIDs s d = Inr d'"
  shows "contractTables (KD_Gov d') = contractTables (KD_Gov d)"
  using assms by (auto simp: bootstrapFirstContractProfiles_def Let_def split: if_splits sum.splits dest!: bootstrapProfiles_contracts)

lemma AcceptContract_Inr:
  assumes "AcceptContract fe newIDs s rid ips d = Inr d'"
  shows "\<exists>c cs. findContract (KD_Gov d) rid = Some c \<and> CV_ServerID c = s \<and> findState (KD_Gov d) s = Some cs
     \<and> contractTables (KD_Gov d') = contractTables (updateState s (acceptRow rid) (KD_Gov d))"
  using assms by (auto simp: AcceptContract_def Let_def overContracts_def split: if_splits option.splits sum.splits dest!: bootstrap_contracts)

lemma accept_wf:
  assumes wf: "contracts_wf g" and "findContract g rid = Some c" and "CV_ServerID c = s"
  shows "contracts_wf (updateState s (acceptRow rid) g)"
proof -
  have "map CS_ServerID (map (\<lambda>cs. if CS_ServerID cs = s then acceptRow rid cs else cs) (GD_ContractStates g)) = map CS_ServerID (GD_ContractStates g)"
    by (simp add: acceptRow_def)
  then have d: "distinct (map CS_ServerID (map (\<lambda>cs. if CS_ServerID cs = s then acceptRow rid cs else cs) (GD_ContractStates g)))"
    using wfD(6) [OF wf] by (simp only:)
  have "stateOK g (if CS_ServerID cs = s then acceptRow rid cs else cs)" if "cs \<in> set (GD_ContractStates g)" for cs
  proof -
    have "ownContract g s (Some rid)" by (simp add: ownContract_def assms(2,3))
    then show ?thesis using wfD(8) [OF wf that] by (auto simp: stateOK_def acceptRow_def)
  qed
  then have "\<forall>cs \<in> set (map (\<lambda>cs. if CS_ServerID cs = s then acceptRow rid cs else cs) (GD_ContractStates g)). stateOK g cs"
    unfolding set_map by blast
  from wf_states [OF wf d this] show ?thesis by (simp add: updateState_def)
qed

lemma cloneRevision_contracts: "cloneRevision fe q nr pid rid d = Inr d' \<Longrightarrow> contractTables (PD_Gov d') = contractTables (PD_Gov d)"
  by (auto simp: cloneRevision_def Let_def insertRevision_def contractTables_def split: option.splits if_splits)

lemma cloneProfiles_contracts: "cloneProfilesForRename fe ids q ps d = Inr d' \<Longrightarrow> contractTables (PD_Gov d') = contractTables (PD_Gov d)"
  by (induction fe ids q ps d rule: cloneProfilesForRename.induct) (auto split: sum.splits dest: cloneRevision_contracts)

lemma clonePolicy_contracts: "cloneGlobalPolicyForRename ge i now a b g = Inr g' \<Longrightarrow> contractTables g' = contractTables g"
  by (auto simp: cloneGlobalPolicyForRename_def Let_def insertPolicy_def contractTables_def split: option.splits if_splits sum.splits)

lemma ConfirmToolRename_Inr:
  assumes "ConfirmToolRename fe ids now proposalID d = Inr d'"
  obtains p g1 g2 d1 where "find (\<lambda>p. PO_ID p = proposalID) (GD_Proposals (KD_Gov d)) = Some p"
    "validateRenameProposalTx (KD_Gov d) (renameOf p) = None"
    "insertRename (ri_Rename ids) (renameOf p) (if PO_Status p = ''ambiguous'' then setStatus (rivalProposal p) ''rejected'' (KD_Gov d) else KD_Gov d) = Inr g1"
    "cloneGlobalPolicyForRename (fe_gov fe) (ri_Policy ids) now (PO_RemovedToolID p) (PO_AddedToolID p) g1 = Inr g2"
    "cloneProfilesForRename fe (ri_Revision ids) (renameOf p) (renameCandidates g2 (renameOf p)) ((KD_Profiles d)\<lparr>PD_Gov := g2\<rparr>) = Inr d1"
    "KD_Profiles d' = overGov (\<lambda>g. updateState (PO_ServerID p) (acceptRow (PO_AddedContract p)) (setStatus (\<lambda>x. PO_ID x = proposalID) ''confirmed'' g)) d1"
  using assms by (auto simp: ConfirmToolRename_def Let_def renameOf_def split: if_splits option.splits sum.splits)

lemma rename_contracts:
  assumes "ConfirmToolRename fe ids now proposalID d = Inr d'"
  shows "\<exists>c s rid. findContract (KD_Gov d) rid = Some c \<and> CV_ServerID c = s
     \<and> contractTables (KD_Gov d') = contractTables (updateState s (acceptRow rid) (KD_Gov d))"
proof -
  obtain p g1 g2 d1 where r: "validateRenameProposalTx (KD_Gov d) (renameOf p) = None"
    "insertRename (ri_Rename ids) (renameOf p) (if PO_Status p = ''ambiguous'' then setStatus (rivalProposal p) ''rejected'' (KD_Gov d) else KD_Gov d) = Inr g1"
    "cloneGlobalPolicyForRename (fe_gov fe) (ri_Policy ids) now (PO_RemovedToolID p) (PO_AddedToolID p) g1 = Inr g2"
    "cloneProfilesForRename fe (ri_Revision ids) (renameOf p) (renameCandidates g2 (renameOf p)) ((KD_Profiles d)\<lparr>PD_Gov := g2\<rparr>) = Inr d1"
    "KD_Profiles d' = overGov (\<lambda>g. updateState (PO_ServerID p) (acceptRow (PO_AddedContract p)) (setStatus (\<lambda>x. PO_ID x = proposalID) ''confirmed'' g)) d1"
    by (rule ConfirmToolRename_Inr [OF assms])
  have "contractTables g1 = contractTables (KD_Gov d)"
    using r(2) by (auto simp: insertRename_def setStatus_def contractTables_def split: if_splits)
  then have "contractTables (PD_Gov d1) = contractTables (KD_Gov d)" using clonePolicy_contracts [OF r(3)] cloneProfiles_contracts [OF r(4)] by simp
  then have t: "contractTables (KD_Gov d') = contractTables (updateState (PO_ServerID p) (acceptRow (PO_AddedContract p)) (KD_Gov d))"
    by (simp add: r(5) contractTables_def updateState_def setStatus_def)
  have "ownedContract (KD_Gov d) (PO_ServerID p) (PO_AddedContract p) = None"
    using r(1) by (auto simp: validateRenameProposalTx_def renameOf_def split: option.splits)
  then obtain c where "findContract (KD_Gov d) (PO_AddedContract p) = Some c" "CV_ServerID c = PO_ServerID p"
    by (auto simp: ownedContract_def split: option.splits if_splits)
  with t show ?thesis by blast
qed

lemma observeServers_wf:
  "observeServers ge ids expected ss seen r g = Inr (q, g') \<Longrightarrow> laws ge \<Longrightarrow> contracts_wf g \<Longrightarrow> contracts_wf g'"
proof (induction ss arbitrary: seen r g)
  case (Cons s ss)
  from Cons.prems(1) obtain ob g1 where o: "ObserveContractsTx ge ids \<lparr>BI_ServerID = KS_ServerID s, BI_Tools = map (observedTool ge) (KS_Tools s)\<rparr> g = Inr (ob, g1)"
      and r: "observeServers ge ids expected ss (KS_ServerID s # seen) (addStatuses (BR_Statuses ob) r) g1 = Inr (q, g')"
    by (auto split: if_splits sum.splits)
  from Cons.IH [OF r Cons.prems(2) observe_spec(1) [OF o Cons.prems(2,3)]] show ?case .
qed simp

lemma contract_step_wf:
  assumes "contract_step fe d d'" and "laws (fe_gov fe)" and "contracts_wf (KD_Gov d)"
  shows "contracts_wf (KD_Gov d')"
  using assms(1)
proof cases
  case (observeStep ids response r g')
  then have "contracts_wf g'" using assms(2,3) observeServers_wf by (fastforce simp: ObserveRelayContracts_def split: if_splits sum.splits prod.splits)
  then show ?thesis by (simp add: observeStep(1) overContracts_def)
next
  case (acceptStep newIDs s rid ips)
  from AcceptContract_Inr [OF this] obtain c where "findContract (KD_Gov d) rid = Some c" "CV_ServerID c = s"
      "contractTables (KD_Gov d') = contractTables (updateState s (acceptRow rid) (KD_Gov d))" by blast
  then show ?thesis using accept_wf [OF assms(3)] contractTables_wf by blast
next
  case (renameStep ids now pid)
  from rename_contracts [OF this] show ?thesis using accept_wf [OF assms(3)] contractTables_wf by blast
qed

text \<open>The revision numbers of a server's contracts.\<close>

definition contractNumbers :: "governance_db \<Rightarrow> string \<Rightarrow> int list" where
  "contractNumbers g s = map CV_Revision (filter (\<lambda>c. CV_ServerID c = s) (GD_Contracts g))"

definition numbered :: "governance_db \<Rightarrow> bool" where
  "numbered g = (distinct (map (\<lambda>c. (CV_ServerID c, CV_Revision c)) (GD_Contracts g))
     \<and> list_all (\<lambda>c. let ns = contractNumbers g (CV_ServerID c) in ns = map int [1..<Suc (length ns)]) (GD_Contracts g))"

lemma numbered_server: "numbered g \<Longrightarrow> contractNumbers g s = map int [1..<Suc (length (contractNumbers g s))]"
proof (cases "filter (\<lambda>c. CV_ServerID c = s) (GD_Contracts g)")
  case (Cons c cs)
  then have "c \<in> set (filter (\<lambda>c. CV_ServerID c = s) (GD_Contracts g))" by simp
  moreover assume "numbered g"
  ultimately show ?thesis by (auto simp: numbered_def Let_def list_all_iff)
qed (simp add: contractNumbers_def)

lemma foldl_max_upt: "foldl max 0 (map int [1..<Suc n]) = int n"
  by (induction n) simp_all

lemma numbered_next:
  assumes "numbered g"
  shows "nextContractRevision g s = int (length (contractNumbers g s)) + 1"
  using foldl_max_upt [of "length (contractNumbers g s)", folded numbered_server [OF assms, of s]]
  by (simp add: nextContractRevision_def contractNumbers_def)

lemma numbered_append:
  assumes g: "numbered g" and g': "GD_Contracts g' = GD_Contracts g @ [c]" and c: "CV_Revision c = nextContractRevision g (CV_ServerID c)"
  shows "numbered g'"
proof -
  have r: "contractNumbers g' s = contractNumbers g s @ (if CV_ServerID c = s then [int (length (contractNumbers g s)) + 1] else [])" for s
    by (simp add: contractNumbers_def g' c numbered_next [OF g])
  have all: "contractNumbers g' s = map int [1..<Suc (length (contractNumbers g' s))]" for s
  proof (cases "CV_ServerID c = s")
    case True
    have "map int [1..<Suc (length (contractNumbers g' s))] = map int [1..<Suc (length (contractNumbers g s))] @ [int (length (contractNumbers g s)) + 1]"
      using True by (simp add: r add.commute)
    then show ?thesis using True numbered_server [OF g, of s] by (simp add: r)
  next
    case False
    then show ?thesis using numbered_server [OF g, of s] by (simp add: r)
  qed
  have "\<not> (CV_ServerID q = CV_ServerID c \<and> CV_Revision q = CV_Revision c)" if "q \<in> set (GD_Contracts g)" for q
  proof
    assume e: "CV_ServerID q = CV_ServerID c \<and> CV_Revision q = CV_Revision c"
    then have "CV_Revision c \<in> set (contractNumbers g (CV_ServerID c))" using that by (auto simp: contractNumbers_def intro: rev_image_eqI)
    then have "CV_Revision c \<in> set (map int [1..<Suc (length (contractNumbers g (CV_ServerID c)))])" using numbered_server [OF g] by metis
    then show False unfolding c numbered_next [OF g] by auto
  qed
  then have "(CV_ServerID c, CV_Revision c) \<notin> (\<lambda>c. (CV_ServerID c, CV_Revision c)) ` set (GD_Contracts g)" by force
  then have "distinct (map (\<lambda>c. (CV_ServerID c, CV_Revision c)) (GD_Contracts g'))" using g by (simp add: numbered_def g')
  then show ?thesis using all by (simp add: numbered_def Let_def list_all_iff del: upt_Suc)
qed

lemma numbered_same: "GD_Contracts g' = GD_Contracts g \<Longrightarrow> numbered g' = numbered g"
  by (simp add: numbered_def contractNumbers_def)

lemma observe_numbered:
  assumes ob: "ObserveContractsTx ge ids input g = Inr (res, g')" and "laws ge" and wf: "contracts_wf g" and n: "numbered g"
  shows "numbered g'"
proof -
  let ?s = "BI_ServerID input"
  obtain body hash where can: "CanonicalContract ge (BI_Tools input) = Inr (body, hash)"
    using ob by (auto simp: ObserveContractsTx_def Let_def split: if_splits sum.splits)
  obtain state g0 where su: "stateForUpdate ?s g = (state, g0)" by (cases "stateForUpdate ?s g")
  note s = stateForUpdate_spec [OF su wf]
  obtain ns where ns: "body = ge_marshal ge (contractJSON ns)" "list_all normalTool ns"
    by (rule canonical_contract [OF can]) (use assms(2) in blast)
  have g0: "GD_Contracts g0 = GD_Contracts g" by (cases "findState g ?s"; simp add: s(5))
  from ob consider "g' = g0" | "observeNew ge ids ?s state body hash (BI_Tools input) g0 = Inr (res, g')"
    by (auto simp: ObserveContractsTx_def Let_def can su split: if_splits sum.splits option.splits)
  then show ?thesis
  proof cases
    case 1
    then show ?thesis using n numbered_same g0 by blast
  next
    case 2
    obtain c ts rows ps where c: "BR_Revision res = c" and g': "g' = (updateState ?s (observed_state (CV_ID c) (CS_Latest state) (BR_Statuses res))
        (g0\<lparr>GD_Contracts := GD_Contracts g0 @ [c], GD_Tools := GD_Tools g0 @ ts, GD_ContractTools := GD_ContractTools g0 @ rows\<rparr>))\<lparr>GD_Proposals := ps\<rparr>"
      by (rule observeNew_parts [OF 2 assms(2) wf_toolsWf [OF s(1)] ns(2,1)]) simp
    obtain g1 where "insertContract ge (ni_Revision ids ?s) ?s body hash g0 = Inr (c, g1)"
      using 2 c by (auto simp: observeNew_def Let_def split: sum.splits prod.splits)
    then have "CV_Revision c = nextContractRevision g0 (CV_ServerID c)"
      by (auto simp: insertContract_def Let_def split: option.splits if_splits)
    moreover have "GD_Contracts g' = GD_Contracts g0 @ [c]" by (simp add: g' updateState_def)
    ultimately show ?thesis using numbered_append [of g0 g' c] n numbered_same [OF g0] by blast
  qed
qed

lemma observeServers_numbered:
  "observeServers ge ids expected ss seen r g = Inr (q, g') \<Longrightarrow> laws ge \<Longrightarrow> contracts_wf g \<Longrightarrow> numbered g \<Longrightarrow> numbered g'"
proof (induction ss arbitrary: seen r g)
  case (Cons s ss)
  from Cons.prems(1) obtain ob g1 where o: "ObserveContractsTx ge ids \<lparr>BI_ServerID = KS_ServerID s, BI_Tools = map (observedTool ge) (KS_Tools s)\<rparr> g = Inr (ob, g1)"
      and r: "observeServers ge ids expected ss (KS_ServerID s # seen) (addStatuses (BR_Statuses ob) r) g1 = Inr (q, g')"
    by (auto split: if_splits sum.splits)
  from Cons.IH [OF r Cons.prems(2) observe_spec(1) [OF o Cons.prems(2,3)] observe_numbered [OF o Cons.prems(2,3,4)]] show ?case .
qed simp

lemma contract_step_numbered:
  assumes "contract_step fe d d'" and "laws (fe_gov fe)" and "contracts_wf (KD_Gov d)" and n: "numbered (KD_Gov d)"
  shows "numbered (KD_Gov d')"
  using assms(1)
proof cases
  case (observeStep ids response r g')
  then have "numbered g'" using assms(2-4) observeServers_numbered by (fastforce simp: ObserveRelayContracts_def split: if_splits sum.splits prod.splits)
  then show ?thesis by (simp add: observeStep(1) overContracts_def)
next
  case (acceptStep newIDs s rid ips)
  from AcceptContract_Inr [OF this] obtain f where "contractTables (KD_Gov d') = contractTables (updateState s f (KD_Gov d))" by blast
  then have "GD_Contracts (KD_Gov d') = GD_Contracts (KD_Gov d)" by (simp add: contractTables_def updateState_def)
  then show ?thesis using n numbered_same by blast
next
  case (renameStep ids now pid)
  from rename_contracts [OF this] obtain s f where "contractTables (KD_Gov d') = contractTables (updateState s f (KD_Gov d))" by blast
  then have "GD_Contracts (KD_Gov d') = GD_Contracts (KD_Gov d)" by (simp add: contractTables_def updateState_def)
  then show ?thesis using n numbered_same by blast
qed

text \<open>
  C37. Over every run of observations, acceptances and confirmed renames the contract tables keep their invariant: contract
  ids, and hashes and tool names per server, stay unique; the contracts of a server are numbered 1, 2, 3 and so on in the
  order in which they were observed, so that no revision number of a server is used twice; the latest and the accepted
  contract of a server are contracts of that server; and the stored tools of every contract are exactly those of its
  normalised body.
\<close>

theorem contract_store_invariant:
  assumes "laws (fe_gov fe)" and "contracts_wf (KD_Gov d)" and "numbered (KD_Gov d)" and "(contract_step fe)\<^sup>*\<^sup>* d d'"
  shows "contracts_wf (KD_Gov d') \<and> numbered (KD_Gov d')"
  using assms(4)
proof (induction rule: rtranclp_induct)
  case (step y z)
  then show ?case using contract_step_wf [OF _ assms(1)] contract_step_numbered [OF _ assms(1)] by blast
qed (use assms(2,3) in simp)

section \<open>Acceptance\<close>

lemma find_map_update:
  "(\<And>cs. CS_ServerID (f cs) = CS_ServerID cs)
   \<Longrightarrow> find (\<lambda>x. CS_ServerID x = s) (map (\<lambda>cs. if CS_ServerID cs = s then f cs else cs) xs) = map_option f (find (\<lambda>x. CS_ServerID x = s) xs)"
  by (induction xs) auto

lemma acceptRow_sid: "CS_ServerID (acceptRow rid cs) = CS_ServerID cs"
  by (simp add: acceptRow_def)

text \<open>
  C40. Accepting the latest contract of a server resumes all its tools: the bundle renders every one of them unpaused.
\<close>

theorem accepted_latest_resumes:
  assumes "contracts_wf (KD_Gov d)" and "AcceptContract fe newIDs s rid ips d = Inr d'"
    and "findState (KD_Gov d) s = Some cs" and "CS_Latest cs = Some rid" and m: "(ct, t) \<in> set (contractTools (KD_Gov d') rid)"
  shows "acceptedContract (KD_Gov d') s = rid
     \<and> (\<exists>tool. renderTool ge global (latestTool (KD_Gov d') (TL_ServerID t) (CT_ToolID ct)) (ct, t) = Inr tool \<and> \<not> RT_Paused tool)"
proof -
  let ?g = "updateState s (acceptRow rid) (KD_Gov d)"
  from AcceptContract_Inr [OF assms(2)] obtain c where c: "findContract (KD_Gov d) rid = Some c" "CV_ServerID c = s"
    and t: "contractTables (KD_Gov d') = contractTables ?g" by blast
  note reads = contractTables_reads [OF t]
  have wf: "contracts_wf ?g" by (rule accept_wf [OF assms(1) c])
  have "findState ?g s = map_option (acceptRow rid) (findState (KD_Gov d) s)"
    unfolding findState_def updateState_def by (simp add: find_map_update acceptRow_sid)
  then have cs: "findState ?g s = Some (acceptRow rid cs)" using assms(3) by simp
  have m': "(ct, t) \<in> set (contractTools ?g rid)" using m reads(1) by simp
  have "findContract ?g rid = Some c" using c(1) by (simp add: findContract_def updateState_def)
  from contractTools_row(4) [OF wf m' this] c(2) have sv: "TL_ServerID t = s" by simp
  have l: "CS_Latest (acceptRow rid cs) = Some rid" by (simp add: acceptRow_def assms(4))
  have "latestTool ?g s (CT_ToolID ct) = Some ct"
    unfolding latestTool_find [OF cs l]
    using contractTools_memD [OF m'] contract_row_unique [OF wf] by (intro find_unique_Some) auto
  then have l: "latestTool (KD_Gov d') (TL_ServerID t) (CT_ToolID ct) = Some ct" by (simp add: reads(4) sv)
  have n: "normalTool (fieldsOf (ct, t))" by (rule contractTools_row(1) [OF wf m'])
  from renderTool_paused [OF n, of "Some ct" ge global] n
  have "\<exists>tool. renderTool ge global (latestTool (KD_Gov d') (TL_ServerID t) (CT_ToolID ct)) (ct, t) = Inr tool \<and> \<not> RT_Paused tool"
    unfolding l by (auto simp: equalJSONMap_def)
  moreover have "acceptedContract (KD_Gov d') s = rid" using cs by (simp add: acceptedContract_def reads(2) acceptRow_def)
  ultimately show ?thesis by blast
qed

section \<open>Renames\<close>

definition ruleRowsOf :: "governance_db \<Rightarrow> string \<Rightarrow> profile_rule_row list" where
  "ruleRowsOf g r = filter (\<lambda>x. PT_ProfileRevisionID x = r) (GD_ProfileRules g)"

definition ruleOwners :: "governance_db \<Rightarrow> bool" where
  "ruleOwners g = list_all (\<lambda>x. PT_ProfileRevisionID x \<in> PV_ID ` set (GD_ProfileRevisions g)) (GD_ProfileRules g)"

text \<open>What a revision says of a tool: whether it is visible, the decision and its reasons.\<close>

definition ruleOf :: "governance_db \<Rightarrow> string \<Rightarrow> string \<Rightarrow> (bool \<times> string \<times> string list) option" where
  "ruleOf g r toolID = map_option (\<lambda>x. (PT_Visible x, PT_Decision x, PT_ReasonCodes x)) (findRule g r toolID)"

lemma find_filter: "find P (filter Q xs) = find (\<lambda>x. Q x \<and> P x) xs"
  by (induction xs) auto

lemma findRule_rows: "findRule g r i = find (\<lambda>x. PT_ToolID x = i) (ruleRowsOf g r)"
  by (simp add: findRule_def ruleRowsOf_def find_filter)

definition renamedRow :: "rename_pair \<Rightarrow> string \<Rightarrow> profile_rule_row \<Rightarrow> profile_rule_row" where
  "renamedRow q r x = (renameRule q x)\<lparr>PT_ProfileRevisionID := r\<rparr>"

text \<open>The rule for a tool in the renamed rows.\<close>

lemma find_renamed:
  assumes "distinct (map PT_ToolID (map (renamedRow q r) xs))" and "QN_OldToolID q \<noteq> QN_NewToolID q"
  shows "map_option (\<lambda>x. (PT_Visible x, PT_Decision x, PT_ReasonCodes x)) (find (\<lambda>x. PT_ToolID x = i) (map (renamedRow q r) xs))
    = (if i = QN_OldToolID q then None
       else map_option (\<lambda>x. (PT_Visible x, PT_Decision x, PT_ReasonCodes x))
         (find (\<lambda>x. PT_ToolID x = (if i = QN_NewToolID q \<and> (\<exists>x \<in> set xs. PT_ToolID x = QN_OldToolID q) then QN_OldToolID q else i)) xs))"
  using assms(1)
proof (induction xs)
  case (Cons x xs)
  have id: "PT_ToolID (renamedRow q r x) = renamedID (QN_OldToolID q) (QN_NewToolID q) (PT_ToolID x)" for x
    by (simp add: renamedRow_def renameRule_def)
  have same: "PT_Visible (renamedRow q r x) = PT_Visible x" "PT_Decision (renamedRow q r x) = PT_Decision x" "PT_ReasonCodes (renamedRow q r x) = PT_ReasonCodes x" for x
    by (simp_all add: renamedRow_def renameRule_def)
  have d: "\<forall>y \<in> set xs. renamedID (QN_OldToolID q) (QN_NewToolID q) (PT_ToolID y) \<noteq> renamedID (QN_OldToolID q) (QN_NewToolID q) (PT_ToolID x)"
    using Cons.prems by (auto simp: id image_iff)
  note IH = Cons.IH
  show ?case
  proof (cases "i = renamedID (QN_OldToolID q) (QN_NewToolID q) (PT_ToolID x)")
    case True
    then show ?thesis using d assms(2) by (auto simp: id same renamedID_def split: if_splits)
  next
    case False
    have ih: "map_option (\<lambda>x. (PT_Visible x, PT_Decision x, PT_ReasonCodes x)) (find (\<lambda>x. PT_ToolID x = i) (map (renamedRow q r) xs))
      = (if i = QN_OldToolID q then None
         else map_option (\<lambda>x. (PT_Visible x, PT_Decision x, PT_ReasonCodes x))
           (find (\<lambda>x. PT_ToolID x = (if i = QN_NewToolID q \<and> (\<exists>x \<in> set xs. PT_ToolID x = QN_OldToolID q) then QN_OldToolID q else i)) xs))"
      by (rule Cons.IH) (use Cons.prems in simp)
    have step: "find (\<lambda>x. PT_ToolID x = i) (map (renamedRow q r) (x # xs)) = find (\<lambda>x. PT_ToolID x = i) (map (renamedRow q r) xs)"
      using False by (auto simp: id)
    show ?thesis
    proof (cases "i = QN_OldToolID q")
      case True
      then show ?thesis unfolding step ih by simp
    next
      case nold: False
      show ?thesis
      proof (cases "PT_ToolID x = QN_OldToolID q")
        case True
        then have "i \<noteq> QN_NewToolID q" using False by (simp add: renamedID_def)
        with True nold show ?thesis unfolding step ih by simp
      next
        case x: False
        then have "PT_ToolID x \<noteq> i" using False by (simp add: renamedID_def)
        with x nold show ?thesis unfolding step ih by auto
      qed
    qed
  qed
qed simp

lemma find_profile_map:
  "j \<noteq> i \<Longrightarrow> find (\<lambda>p. PF_ID p = j) (map (\<lambda>p. if PF_ID p = i then p\<lparr>PF_Revision := n, PF_CurrentRevisionID := r\<rparr> else p) xs)
     = find (\<lambda>p. PF_ID p = j) xs"
  by (induction xs) auto

lemma find_profile_map_same:
  "find (\<lambda>p. PF_ID p = i) (map (\<lambda>p. if PF_ID p = i then p\<lparr>PF_Revision := n, PF_CurrentRevisionID := r\<rparr> else p) xs)
     = map_option (\<lambda>p. p\<lparr>PF_Revision := n, PF_CurrentRevisionID := r\<rparr>) (find (\<lambda>p. PF_ID p = i) xs)"
  by (induction xs) auto

lemma cloneRevision_spec:
  assumes "cloneRevision fe q nr pid rid d = Inr d'" and R: "ruleOwners (PD_Gov d)"
  shows "nr \<notin> PV_ID ` set (GD_ProfileRevisions (PD_Gov d))" and "rid \<in> PV_ID ` set (GD_ProfileRevisions (PD_Gov d))"
    and "PV_ID ` set (GD_ProfileRevisions (PD_Gov d')) = insert nr (PV_ID ` set (GD_ProfileRevisions (PD_Gov d)))"
    and "ruleRowsOf (PD_Gov d') nr = map (renamedRow q nr) (ruleRowsOf (PD_Gov d) rid)"
    and "distinct (map PT_ToolID (ruleRowsOf (PD_Gov d') nr))"
    and "r \<noteq> nr \<Longrightarrow> ruleRowsOf (PD_Gov d') r = ruleRowsOf (PD_Gov d) r"
    and "ruleOwners (PD_Gov d')"
    and "j \<noteq> pid \<Longrightarrow> findProfile (PD_Gov d') j = findProfile (PD_Gov d) j"
    and "map_option PF_CurrentRevisionID (findProfile (PD_Gov d') pid) = map_option (\<lambda>_. nr) (findProfile (PD_Gov d) pid)"
proof -
  let ?g = "PD_Gov d"
  let ?rules = "map (renamedRow q nr) (ruleRowsOf ?g rid)"
  from assms(1) obtain row where row: "findRevision ?g rid = Some row"
      and fresh: "\<not> list_ex (\<lambda>x. PV_ID x = nr) (GD_ProfileRevisions ?g)" and dist: "distinct (map PT_ToolID ?rules)"
      and revs: "\<exists>new. GD_ProfileRevisions (PD_Gov d') = GD_ProfileRevisions ?g @ [new] \<and> PV_ID new = nr"
      and rules: "GD_ProfileRules (PD_Gov d') = GD_ProfileRules ?g @ ?rules"
      and profs: "GD_Profiles (PD_Gov d') = map (\<lambda>p. if PF_ID p = pid then p\<lparr>PF_Revision := PV_Revision row + 1, PF_CurrentRevisionID := nr\<rparr> else p) (GD_Profiles ?g)"
    by (auto simp: cloneRevision_def Let_def insertRevision_def ruleRowsOf_def renamedRow_def [abs_def] comp_def split: option.splits if_splits)
  show nrf: "nr \<notin> PV_ID ` set (GD_ProfileRevisions ?g)" using fresh by (auto simp: list_ex_iff)
  show "rid \<in> PV_ID ` set (GD_ProfileRevisions ?g)"
    using find_key_SomeD [OF row [unfolded findRevision_def]] by blast
  show ids: "PV_ID ` set (GD_ProfileRevisions (PD_Gov d')) = insert nr (PV_ID ` set (GD_ProfileRevisions ?g))" using revs by auto
  have own: "PT_ProfileRevisionID (renamedRow q nr x) = nr" for x by (simp add: renamedRow_def)
  have "ruleRowsOf ?g nr = []" using R nrf by (auto simp: ruleRowsOf_def ruleOwners_def list_all_iff filter_empty_conv)
  then show rr: "ruleRowsOf (PD_Gov d') nr = ?rules" by (simp add: ruleRowsOf_def rules own filter_map comp_def)
  then show "distinct (map PT_ToolID (ruleRowsOf (PD_Gov d') nr))" using dist by simp
  show "ruleRowsOf (PD_Gov d') r = ruleRowsOf ?g r" if "r \<noteq> nr"
    using that by (simp add: ruleRowsOf_def rules filter_map comp_def own)
  show "ruleOwners (PD_Gov d')" using R by (auto simp: ruleOwners_def ids rules list_all_iff own)
  show "findProfile (PD_Gov d') j = findProfile ?g j" if "j \<noteq> pid"
    unfolding findProfile_def profs by (rule find_profile_map [OF that])
  show "map_option PF_CurrentRevisionID (findProfile (PD_Gov d') pid) = map_option (\<lambda>_. nr) (findProfile ?g pid)"
    unfolding findProfile_def profs by (simp add: find_profile_map_same option.map_comp comp_def)
qed

lemma cloneProfiles_spec:
  assumes "cloneProfilesForRename fe ids q ps d = Inr d'" and "ruleOwners (PD_Gov d)" and "distinct (map fst ps)"
  shows "(\<forall>r \<in> PV_ID ` set (GD_ProfileRevisions (PD_Gov d)). ruleRowsOf (PD_Gov d') r = ruleRowsOf (PD_Gov d) r)
    \<and> PV_ID ` set (GD_ProfileRevisions (PD_Gov d)) \<subseteq> PV_ID ` set (GD_ProfileRevisions (PD_Gov d'))
    \<and> (\<forall>j. j \<notin> fst ` set ps \<longrightarrow> findProfile (PD_Gov d') j = findProfile (PD_Gov d) j)
    \<and> (\<forall>(i, rid) \<in> set ps. rid \<in> PV_ID ` set (GD_ProfileRevisions (PD_Gov d)) \<longrightarrow>
        ruleRowsOf (PD_Gov d') (ids i) = map (renamedRow q (ids i)) (ruleRowsOf (PD_Gov d) rid)
        \<and> distinct (map PT_ToolID (ruleRowsOf (PD_Gov d') (ids i)))
        \<and> map_option PF_CurrentRevisionID (findProfile (PD_Gov d') i) = map_option (\<lambda>_. ids i) (findProfile (PD_Gov d) i))"
  using assms
proof (induction ps arbitrary: d)
  case (Cons p ps)
  obtain i rid where p: "p = (i, rid)" by (cases p)
  from Cons.prems(1) obtain d1 where c: "cloneRevision fe q (ids i) i rid d = Inr d1" and r: "cloneProfilesForRename fe ids q ps d1 = Inr d'"
    by (auto simp: p split: sum.splits)
  note s = cloneRevision_spec [OF c Cons.prems(2)]
  have d: "distinct (map fst ps)" "i \<notin> fst ` set ps" using Cons.prems(3) by (auto simp: p)
  note IH = Cons.IH [OF r s(7) d(1)]
  have old: "ruleRowsOf (PD_Gov d') x = ruleRowsOf (PD_Gov d) x" if "x \<in> PV_ID ` set (GD_ProfileRevisions (PD_Gov d))" for x
  proof -
    have "x \<noteq> ids i" using that s(1) by blast
    then show ?thesis using IH s(3) s(6) [of x] that by auto
  qed
  have other: "findProfile (PD_Gov d1) j = findProfile (PD_Gov d) j" if "j \<noteq> i" for j
    using that by (rule s(8))
  have cur: "map_option PF_CurrentRevisionID (findProfile (PD_Gov d') i) = map_option (\<lambda>_. ids i) (findProfile (PD_Gov d) i)"
  proof -
    have "findProfile (PD_Gov d') i = findProfile (PD_Gov d1) i" using IH [THEN conjunct2, THEN conjunct2, THEN conjunct1] d(2) by blast
    then show ?thesis using s(9) by simp
  qed
  have head: "ruleRowsOf (PD_Gov d') (ids i) = ruleRowsOf (PD_Gov d1) (ids i)" using IH s(3) by auto
  have rest: "ruleRowsOf (PD_Gov d') (ids j) = map (renamedRow q (ids j)) (ruleRowsOf (PD_Gov d) x)
        \<and> distinct (map PT_ToolID (ruleRowsOf (PD_Gov d') (ids j)))
        \<and> map_option PF_CurrentRevisionID (findProfile (PD_Gov d') j) = map_option (\<lambda>_. ids j) (findProfile (PD_Gov d) j)"
    if m: "(j, x) \<in> set ps" and x: "x \<in> PV_ID ` set (GD_ProfileRevisions (PD_Gov d))" for j x
  proof -
    have "x \<noteq> ids i" using x s(1) by blast
    then have rr: "ruleRowsOf (PD_Gov d1) x = ruleRowsOf (PD_Gov d) x" by (rule s(6))
    have "j \<noteq> i" using m d(2) by force
    then have fp: "findProfile (PD_Gov d1) j = findProfile (PD_Gov d) j" by (rule other)
    have "x \<in> PV_ID ` set (GD_ProfileRevisions (PD_Gov d1))" using x s(3) by blast
    from mp [OF bspec [OF IH [THEN conjunct2, THEN conjunct2, THEN conjunct2] m, unfolded prod.case] this]
    show ?thesis unfolding rr fp .
  qed
  show ?case
  proof (intro conjI)
    show "\<forall>x \<in> PV_ID ` set (GD_ProfileRevisions (PD_Gov d)). ruleRowsOf (PD_Gov d') x = ruleRowsOf (PD_Gov d) x" using old by blast
    show "PV_ID ` set (GD_ProfileRevisions (PD_Gov d)) \<subseteq> PV_ID ` set (GD_ProfileRevisions (PD_Gov d'))"
      using IH [THEN conjunct2, THEN conjunct1] s(3) by blast
    show "\<forall>j. j \<notin> fst ` set (p # ps) \<longrightarrow> findProfile (PD_Gov d') j = findProfile (PD_Gov d) j"
    proof (intro allI impI)
      fix j assume "j \<notin> fst ` set (p # ps)"
      then have "j \<noteq> i" "j \<notin> fst ` set ps" by (simp_all add: p)
      then have "findProfile (PD_Gov d') j = findProfile (PD_Gov d1) j" using IH [THEN conjunct2, THEN conjunct2, THEN conjunct1] by blast
      then show "findProfile (PD_Gov d') j = findProfile (PD_Gov d) j" using other [OF \<open>j \<noteq> i\<close>] by simp
    qed
    show "\<forall>(j, x) \<in> set (p # ps). x \<in> PV_ID ` set (GD_ProfileRevisions (PD_Gov d)) \<longrightarrow>
        ruleRowsOf (PD_Gov d') (ids j) = map (renamedRow q (ids j)) (ruleRowsOf (PD_Gov d) x)
        \<and> distinct (map PT_ToolID (ruleRowsOf (PD_Gov d') (ids j)))
        \<and> map_option PF_CurrentRevisionID (findProfile (PD_Gov d') j) = map_option (\<lambda>_. ids j) (findProfile (PD_Gov d) j)"
    proof
      fix y assume m: "y \<in> set (p # ps)"
      show "case y of (j, x) \<Rightarrow> x \<in> PV_ID ` set (GD_ProfileRevisions (PD_Gov d)) \<longrightarrow>
        ruleRowsOf (PD_Gov d') (ids j) = map (renamedRow q (ids j)) (ruleRowsOf (PD_Gov d) x)
        \<and> distinct (map PT_ToolID (ruleRowsOf (PD_Gov d') (ids j)))
        \<and> map_option PF_CurrentRevisionID (findProfile (PD_Gov d') j) = map_option (\<lambda>_. ids j) (findProfile (PD_Gov d) j)"
      proof (cases "y = p")
        case True
        show ?thesis unfolding True p prod.case
          using s(4) s(5) [folded head] head cur by (intro impI conjI) (simp_all del: map_map)
      next
        case False
        then have m': "y \<in> set ps" using m by simp
        obtain j x where y: "y = (j, x)" by (rule prod.exhaust)
        show ?thesis unfolding y prod.case by (rule impI, rule rest [OF m' [unfolded y]])
      qed
    qed
  qed
qed simp

lemma cloneProfiles_published: "cloneProfilesForRename fe ids q ps d = Inr d' \<Longrightarrow> GD_Published (PD_Gov d') = GD_Published (PD_Gov d)"
proof (induction ps arbitrary: d)
  case (Cons p ps)
  obtain j r where p: "p = (j, r)" by (cases p)
  from Cons.prems obtain d1 where c: "cloneRevision fe q (ids j) j r d = Inr d1" and n: "cloneProfilesForRename fe ids q ps d1 = Inr d'"
    by (auto simp: p split: sum.splits)
  have "GD_Published (PD_Gov d1) = GD_Published (PD_Gov d)"
    using c by (auto simp: cloneRevision_def Let_def insertRevision_def split: option.splits if_splits)
  with Cons.IH [OF n] show ?case by simp
qed simp

definition profileTablesOf :: "governance_db \<Rightarrow> profile_row list \<times> profile_revision_row list \<times> profile_rule_row list \<times> profile_governance_row list \<times> (string \<times> string) list" where
  "profileTablesOf g = (GD_Profiles g, GD_ProfileRevisions g, GD_ProfileRules g, GD_ProfileGovernance g, GD_Published g)"

definition profileRevisionIDs :: "governance_db \<Rightarrow> string set" where
  "profileRevisionIDs g = PV_ID ` set (GD_ProfileRevisions g)"

text \<open>
  All that the tables hold of one profile revision: its row, the governance rows, the rules, the skills, the servers, the pending
  bindings and the seal.
\<close>

definition revisionContent :: "profile_db \<Rightarrow> string \<Rightarrow> profile_revision_row list \<times> profile_governance_row list \<times> profile_rule_row list
    \<times> profile_skill_row list \<times> profile_server_row list \<times> pending_binding list \<times> string list" where
  "revisionContent d r =
     (filter (\<lambda>x. PV_ID x = r) (GD_ProfileRevisions (PD_Gov d)), filter (\<lambda>x. PG_ProfileRevisionID x = r) (GD_ProfileGovernance (PD_Gov d)),
      filter (\<lambda>x. PT_ProfileRevisionID x = r) (GD_ProfileRules (PD_Gov d)), filter (\<lambda>x. PSK_ProfileRevisionID x = r) (PD_ProfileSkills d),
      filter (\<lambda>x. PMS_ProfileRevisionID x = r) (PD_ProfileServers d), filter (\<lambda>x. BN_ProfileRevisionID x = r) (PD_Pending d),
      filter (\<lambda>x. x = r) (PD_Seals d))"

lemma cloneRevision_content:
  assumes "cloneRevision fe q nr pid rid d = Inr d'"
  shows "nr \<notin> PV_ID ` set (GD_ProfileRevisions (PD_Gov d))"
    and "PV_ID ` set (GD_ProfileRevisions (PD_Gov d)) \<subseteq> PV_ID ` set (GD_ProfileRevisions (PD_Gov d'))"
    and "r \<noteq> nr \<Longrightarrow> revisionContent d' r = revisionContent d r"
  using assms
  by (auto simp: cloneRevision_def Let_def insertRevision_def revisionContent_def filter_map comp_def list_ex_iff split: option.splits if_splits)

lemma cloneProfiles_content:
  "cloneProfilesForRename fe ids q ps d = Inr d' \<Longrightarrow> r \<in> PV_ID ` set (GD_ProfileRevisions (PD_Gov d)) \<Longrightarrow> revisionContent d' r = revisionContent d r"
proof (induction ps arbitrary: d)
  case (Cons p ps)
  obtain j x where p: "p = (j, x)" by (cases p)
  from Cons.prems(1) obtain d1 where c: "cloneRevision fe q (ids j) j x d = Inr d1" and n: "cloneProfilesForRename fe ids q ps d1 = Inr d'"
    by (auto simp: p split: sum.splits)
  note k = cloneRevision_content [OF c]
  have "r \<noteq> ids j" using Cons.prems(2) k(1) by blast
  with Cons.IH [OF n] Cons.prems(2) k(2,3) show ?case by auto
qed simp

text \<open>
  C36. A confirmed rename gives every profile that had a rule for the old tool, or shows all tools of the old contract, a new
  current revision whose rule for the new tool is the old tool's rule, which has none for the old tool, and whose other rules are
  unchanged: the rename loosens nothing. Every revision that existed, so every published one, is left as it was: its row, its
  governance rows, rules, skills, servers, pending bindings and seal; and the published revisions stay the published ones.
\<close>

theorem confirmed_rename_carries_rules:
  assumes "ConfirmToolRename fe ids now proposalID d = Inr d'"
    and "find (\<lambda>p. PO_ID p = proposalID) (GD_Proposals (KD_Gov d)) = Some p" and "PO_RemovedToolID p \<noteq> PO_AddedToolID p"
    and "ruleOwners (KD_Gov d)" and "distinct (map PF_ID (GD_Profiles (KD_Gov d)))"
    and "(i, rid) \<in> set (renameCandidates (KD_Gov d) (renameOf p))" and "rid \<in> profileRevisionIDs (KD_Gov d)"
  shows "map_option PF_CurrentRevisionID (findProfile (KD_Gov d') i) = Some (ri_Revision ids i)
     \<and> (\<forall>toolID. ruleOf (KD_Gov d') (ri_Revision ids i) toolID =
          (if toolID = PO_RemovedToolID p then None
           else if toolID = PO_AddedToolID p \<and> hasRule (KD_Gov d) rid (PO_RemovedToolID p) then ruleOf (KD_Gov d) rid (PO_RemovedToolID p)
           else ruleOf (KD_Gov d) rid toolID))
     \<and> (\<forall>r toolID. r \<in> profileRevisionIDs (KD_Gov d) \<longrightarrow> ruleOf (KD_Gov d') r toolID = ruleOf (KD_Gov d) r toolID)
     \<and> (\<forall>r. r \<in> profileRevisionIDs (KD_Gov d) \<longrightarrow> revisionContent (KD_Profiles d') r = revisionContent (KD_Profiles d) r)
     \<and> GD_Published (KD_Gov d') = GD_Published (KD_Gov d)"
proof -
  let ?q = "renameOf p"
  obtain g1 g2 d1 p' where p': "find (\<lambda>p. PO_ID p = proposalID) (GD_Proposals (KD_Gov d)) = Some p'" and s': "insertRename (ri_Rename ids) (renameOf p') (if PO_Status p' = ''ambiguous'' then setStatus (rivalProposal p') ''rejected'' (KD_Gov d) else KD_Gov d) = Inr g1"
    "cloneGlobalPolicyForRename (fe_gov fe) (ri_Policy ids) now (PO_RemovedToolID p') (PO_AddedToolID p') g1 = Inr g2"
    "cloneProfilesForRename fe (ri_Revision ids) (renameOf p') (renameCandidates g2 (renameOf p')) ((KD_Profiles d)\<lparr>PD_Gov := g2\<rparr>) = Inr d1"
    "KD_Profiles d' = overGov (\<lambda>g. updateState (PO_ServerID p') (acceptRow (PO_AddedContract p')) (setStatus (\<lambda>x. PO_ID x = proposalID) ''confirmed'' g)) d1"
    by (rule ConfirmToolRename_Inr [OF assms(1)])
  have "p' = p" using p' assms(2) by simp
  note s = s' [unfolded this]
  have g1: "profileTablesOf g1 = profileTablesOf (KD_Gov d)" using s(1) by (auto simp: insertRename_def setStatus_def profileTablesOf_def split: if_splits)
  have g2: "profileTablesOf g2 = profileTablesOf g1"
    using s(2) by (auto simp: cloneGlobalPolicyForRename_def Let_def insertPolicy_def profileTablesOf_def split: option.splits if_splits sum.splits)
  have e: "GD_Profiles g2 = GD_Profiles (KD_Gov d)" "GD_ProfileRevisions g2 = GD_ProfileRevisions (KD_Gov d)"
    "GD_ProfileRules g2 = GD_ProfileRules (KD_Gov d)" "GD_ProfileGovernance g2 = GD_ProfileGovernance (KD_Gov d)" "GD_Published g2 = GD_Published (KD_Gov d)"
    using g1 g2 by (simp_all add: profileTablesOf_def)
  have cand: "renameCandidates g2 ?q = renameCandidates (KD_Gov d) ?q"
    by (simp add: renameCandidates_def hasRule_def governanceRows_def e)
  have mem: "(i, rid) \<in> set (renameCandidates g2 ?q)" using assms(6) cand by simp
  have R: "ruleOwners (PD_Gov ((KD_Profiles d)\<lparr>PD_Gov := g2\<rparr>))" using assms(4) by (simp add: ruleOwners_def e)
  have "distinct (map fst (renameCandidates g2 ?q))" using assms(5) by (simp add: renameCandidates_def comp_def e distinct_map_filter)
  note c = cloneProfiles_spec [OF s(3) R this]
  have ridin: "rid \<in> PV_ID ` set (GD_ProfileRevisions g2)" using assms(7) by (simp add: profileRevisionIDs_def e)
  have gr: "ruleRowsOf (PD_Gov ((KD_Profiles d)\<lparr>PD_Gov := g2\<rparr>)) = ruleRowsOf (KD_Gov d)"
    "findProfile (PD_Gov ((KD_Profiles d)\<lparr>PD_Gov := g2\<rparr>)) = findProfile (KD_Gov d)"
    by (intro ext, simp add: ruleRowsOf_def findProfile_def e)+
  have "rid \<in> PV_ID ` set (GD_ProfileRevisions (PD_Gov ((KD_Profiles d)\<lparr>PD_Gov := g2\<rparr>)))" using ridin by simp
  note c4 = mp [OF bspec [OF c [THEN conjunct2, THEN conjunct2, THEN conjunct2] mem, unfolded prod.case] this, unfolded gr]
  have rows: "ruleRowsOf (PD_Gov d1) (ri_Revision ids i) = map (renamedRow ?q (ri_Revision ids i)) (ruleRowsOf (KD_Gov d) rid)"
    and dist: "distinct (map PT_ToolID (ruleRowsOf (PD_Gov d1) (ri_Revision ids i)))"
    and cur: "map_option PF_CurrentRevisionID (findProfile (PD_Gov d1) i) = map_option (\<lambda>_. ri_Revision ids i) (findProfile (KD_Gov d) i)"
    using c4 by blast+
  have last: "GD_ProfileRules (KD_Gov d') = GD_ProfileRules (PD_Gov d1)" "GD_Profiles (KD_Gov d') = GD_Profiles (PD_Gov d1)"
    "GD_Published (KD_Gov d') = GD_Published (PD_Gov d1)"
    by (simp_all add: s(4) updateState_def setStatus_def)
  have r': "ruleRowsOf (KD_Gov d') = ruleRowsOf (PD_Gov d1)" by (intro ext) (simp add: ruleRowsOf_def last)
  have "findProfile (KD_Gov d) i \<noteq> None"
    using assms(6) by (auto simp: renameCandidates_def findProfile_def find_None_iff)
  then have 1: "map_option PF_CurrentRevisionID (findProfile (KD_Gov d') i) = Some (ri_Revision ids i)"
    using cur by (auto simp: findProfile_def last)
  have 2: "ruleOf (KD_Gov d') (ri_Revision ids i) toolID =
          (if toolID = PO_RemovedToolID p then None
           else if toolID = PO_AddedToolID p \<and> hasRule (KD_Gov d) rid (PO_RemovedToolID p) then ruleOf (KD_Gov d) rid (PO_RemovedToolID p)
           else ruleOf (KD_Gov d) rid toolID)" for toolID
  proof -
    have h: "hasRule (KD_Gov d) rid t = (\<exists>x \<in> set (ruleRowsOf (KD_Gov d) rid). PT_ToolID x = t)" for t
      by (auto simp: hasRule_def ruleRowsOf_def list_ex_iff)
    have q: "QN_OldToolID ?q = PO_RemovedToolID p" "QN_NewToolID ?q = PO_AddedToolID p" by (simp_all add: renameOf_def)
    show ?thesis
      unfolding ruleOf_def findRule_rows r' rows h find_renamed [OF dist [unfolded rows], unfolded q, OF assms(3)] by auto
  qed
  have 3: "ruleOf (KD_Gov d') r toolID = ruleOf (KD_Gov d) r toolID" if "r \<in> profileRevisionIDs (KD_Gov d)" for r toolID
    using c [THEN conjunct1, unfolded gr] that by (auto simp: profileRevisionIDs_def ruleOf_def findRule_rows r' e)
  have 4: "GD_Published (KD_Gov d') = GD_Published (KD_Gov d)"
    using cloneProfiles_published [OF s(3)] by (simp add: last e)
  have 5: "revisionContent (KD_Profiles d') r = revisionContent (KD_Profiles d) r" if "r \<in> profileRevisionIDs (KD_Gov d)" for r
  proof -
    have "revisionContent d1 r = revisionContent ((KD_Profiles d)\<lparr>PD_Gov := g2\<rparr>) r"
      by (rule cloneProfiles_content [OF s(3)]) (use that in \<open>simp add: profileRevisionIDs_def e\<close>)
    then show ?thesis by (simp add: revisionContent_def s(4) updateState_def setStatus_def e)
  qed
  show ?thesis using 1 2 3 4 5 by blast
qed

end
