(* ===== verification/Contract_Witnesses.thy ===== *)
theory Contract_Witnesses
  imports Contract_Properties
begin

text \<open>
  The properties of the contract store at concrete inputs: a server whose tools are observed, accepted, changed and changed back, and a tool that is
  renamed. The functions outside are those of \<open>Json_Codec\<close>.
\<close>

section \<open>Examples\<close>

definition contractEnv :: governance_env where
  "contractEnv = \<lparr>ge_unmarshal = unaryUnmarshal, ge_marshal = unaryMarshal, ge_sha = (\<lambda>s. [char_of (length s)]), ge_uuid = (\<lambda>s. s \<noteq> []),
     ge_canonical = (\<lambda>_. Inr '''')\<rparr>"

lemma contractEnv_laws: "laws contractEnv"
  by (simp add: contractEnv_def unary_laws)

definition seenTool :: "string \<Rightarrow> string \<Rightarrow> ContractToolDTO" where
  "seenTool nm ty = \<lparr>KT_Name = nm, KT_RuntimeName = nm, KT_Title = None, KT_Description = Some ''about'', KT_InputSchema = JObj [(''type'', JStr ty)],
     KT_OutputSchema = JObj [], KT_Annotations = JObj [(''readOnlyHint'', JBool True)]\<rparr>"

definition seenServer :: "ContractToolDTO list \<Rightarrow> ContractServerObservation" where
  "seenServer tools = \<lparr>KS_ServerID = ''s'', KS_ServerName = ''files'', KS_MCPConfigRevisionID = ''m'', KS_Tools = tools\<rparr>"

definition seenInput :: "ContractToolDTO list \<Rightarrow> ContractObservationInput" where
  "seenInput tools = \<lparr>BI_ServerID = ''s'', BI_Tools = map (observedTool contractEnv) tools\<rparr>"

definition exampleIDs :: "string \<Rightarrow> contract_ids" where
  "exampleIDs c = \<lparr>ni_Revision = (\<lambda>_. c), ni_Tool = (\<lambda>_ nm. nm), ni_Proposal = (\<lambda>a b. a @ b)\<rparr>"

definition freshGov :: governance_db where
  "freshGov = exampleGov\<lparr>GD_Contracts := [], GD_Tools := [], GD_ContractTools := [], GD_ContractStates := [], GD_ProfileRules := [], GD_Renames := [], GD_Proposals := []\<rparr>"

lemma freshGov_wf: "contracts_wf freshGov"
  by code_simp

definition observedGov :: "string \<Rightarrow> ContractToolDTO list \<Rightarrow> governance_db \<Rightarrow> governance_db" where
  "observedGov c tools g = (case ObserveContractsTx contractEnv (exampleIDs c) (seenInput tools) g of Inr (_, g') \<Rightarrow> g' | Inl _ \<Rightarrow> g)"

definition observedStatuses :: "string \<Rightarrow> ContractToolDTO list \<Rightarrow> governance_db \<Rightarrow> (string \<times> string) list" where
  "observedStatuses c tools g = (case ObserveContractsTx contractEnv (exampleIDs c) (seenInput tools) g of Inr (r, _) \<Rightarrow> BR_Statuses r | Inl _ \<Rightarrow> [])"

text \<open>The rows that observing \<open>list\<close> and \<open>read\<close>, accepting them, and observing \<open>read\<close> with another schema and \<open>write\<close> leave.\<close>

definition toolJSON :: "string \<Rightarrow> string \<Rightarrow> json" where
  "toolJSON nm ty = JObj [(''annotations'', JObj [(''readOnlyHint'', JBool True)]), (''inputSchema'', JObj [(''type'', JStr ty)]),
     (''name'', JStr nm), (''outputSchema'', JObj []), (''presentation'', JObj [(''description'', JStr ''about'')])]"

definition toolAt :: "string \<Rightarrow> string \<Rightarrow> int \<Rightarrow> string \<Rightarrow> string \<Rightarrow> contract_tool_row" where
  "toolAt c i pos ty status = \<lparr>CT_ContractRevisionID = c, CT_ToolID = i, CT_Position = pos, CT_InputSchema = JObj [(''type'', JStr ty)],
     CT_OutputSchema = JObj [], CT_Annotations = JObj [(''readOnlyHint'', JBool True)], CT_Presentation = JObj [(''description'', JStr ''about'')],
     CT_Status = status\<rparr>"

definition contractAt :: "string \<Rightarrow> int \<Rightarrow> string \<Rightarrow> json list \<Rightarrow> contract_revision_row" where
  "contractAt c rev' hash tools = \<lparr>CV_ID = c, CV_ServerID = ''s'', CV_Revision = rev', CV_CanonicalHash = hash, CV_Body = JObj [(''tools'', JArr tools)]\<rparr>"

definition ownTool :: "string \<Rightarrow> tool_row" where
  "ownTool nm = \<lparr>TL_ID = nm, TL_ServerID = ''s'', TL_Name = nm\<rparr>"

definition firstGov :: governance_db where
  "firstGov = freshGov\<lparr>GD_Contracts := [contractAt ''c1'' 1 ''b0'' [toolJSON ''list'' ''a'', toolJSON ''read'' ''a'']],
     GD_Tools := [ownTool ''list'', ownTool ''read''],
     GD_ContractTools := [toolAt ''c1'' ''list'' 0 ''a'' ContractToolNewHidden, toolAt ''c1'' ''read'' 1 ''a'' ContractToolNewHidden],
     GD_ContractStates := [\<lparr>CS_ServerID = ''s'', CS_Accepted = Some ''c1'', CS_Latest = Some ''c1'', CS_ReviewState = ''accepted''\<rparr>]\<rparr>"

definition secondGov :: governance_db where
  "secondGov = firstGov\<lparr>GD_Contracts := GD_Contracts firstGov @ [contractAt ''c2'' 2 ''b2'' [toolJSON ''read'' ''b'', toolJSON ''write'' ''a'']],
     GD_Tools := GD_Tools firstGov @ [ownTool ''write''],
     GD_ContractTools := GD_ContractTools firstGov @ [toolAt ''c2'' ''read'' 0 ''b'' ContractToolPausedIncompatible, toolAt ''c2'' ''write'' 1 ''a'' ContractToolNewHidden],
     GD_ContractStates := [\<lparr>CS_ServerID = ''s'', CS_Accepted = Some ''c1'', CS_Latest = Some ''c2'', CS_ReviewState = ''paused''\<rparr>],
     GD_Proposals := [\<lparr>PO_ID = ''listwrite'', PO_ServerID = ''s'', PO_RemovedToolID = ''list'', PO_AddedToolID = ''write'', PO_RemovedContract = ''c1'',
       PO_AddedContract = ''c2'', PO_Status = ''suspected''\<rparr>]\<rparr>"

lemma firstGov_observed:
  "updateState ''s'' (acceptRow ''c1'') (observedGov ''c1'' [seenTool ''read'' ''a'', seenTool ''list'' ''a''] freshGov) = firstGov"
  by code_simp

lemma secondGov_observed: "observedGov ''c2'' [seenTool ''read'' ''b'', seenTool ''write'' ''a''] firstGov = secondGov"
  by code_simp

lemma firstGov_facts: "acceptedContract firstGov ''s'' = ''c1'' \<and> contracts_wf firstGov"
  by code_simp

lemma secondGov_facts: "observedStatuses ''c2'' [seenTool ''read'' ''b'', seenTool ''write'' ''a''] firstGov
    = [(''list'', ContractToolRemoved), (''read'', ContractToolPausedIncompatible), (''write'', ContractToolNewHidden)]"
  by code_simp

lemma second_observed:
  obtains res where "ObserveContractsTx contractEnv (exampleIDs ''c2'') (seenInput [seenTool ''read'' ''b'', seenTool ''write'' ''a'']) firstGov = Inr (res, secondGov)"
    and "BR_Statuses res = [(''list'', ContractToolRemoved), (''read'', ContractToolPausedIncompatible), (''write'', ContractToolNewHidden)]"
  using secondGov_facts
  by (cases "ObserveContractsTx contractEnv (exampleIDs ''c2'') (seenInput [seenTool ''read'' ''b'', seenTool ''write'' ''a'']) firstGov")
    (auto simp: observedStatuses_def observedGov_def secondGov_observed [symmetric])

definition pausedRow :: "contract_tool_row \<times> tool_row" where
  "pausedRow = last (contractTools secondGov ''c1'')"

lemma pausedRow_facts: "pausedRow \<in> set (contractTools firstGov ''c1'') \<and> TL_Name (snd pausedRow) = ''read''"
  by code_simp

lemma second_hash: "hash_identifies contractEnv (BI_Tools (seenInput [seenTool ''read'' ''b'', seenTool ''write'' ''a''])) firstGov"
  by code_simp

theorem observation_pauses_witness:
  "\<exists>tool. renderTool contractEnv defaultPolicy (latestTool secondGov (TL_ServerID (snd pausedRow)) (CT_ToolID (fst pausedRow)))
     (fst pausedRow, snd pausedRow) = Inr tool
     \<and> RT_InputSchema tool = CT_InputSchema (fst pausedRow) \<and> RT_Paused tool"
proof -
  obtain res where ob: "ObserveContractsTx contractEnv (exampleIDs ''c2'') (seenInput [seenTool ''read'' ''b'', seenTool ''write'' ''a'']) firstGov = Inr (res, secondGov)"
    and st: "BR_Statuses res = [(''list'', ContractToolRemoved), (''read'', ContractToolPausedIncompatible), (''write'', ContractToolNewHidden)]"
    by (rule second_observed)
  have trim: "\<forall>t \<in> set (BI_Tools (seenInput [seenTool ''read'' ''b'', seenTool ''write'' ''a''])). TrimSpace (OI_Name t) = OI_Name t" by code_simp
  have acc: "acceptedContract firstGov (BI_ServerID (seenInput [seenTool ''read'' ''b'', seenTool ''write'' ''a''])) = ''c1''"
    using firstGov_facts by (simp add: seenInput_def)
  have m: "(fst pausedRow, snd pausedRow) \<in> set (contractTools firstGov ''c1'')" using pausedRow_facts by simp
  from observation_pauses [OF contractEnv_laws firstGov_facts [THEN conjunct2] ob second_hash trim acc _ m, of defaultPolicy]
  show ?thesis using pausedRow_facts by (auto simp: st mapText_def)
qed

theorem repeated_observation_witness:
  "\<exists>again. ObserveContractsTx contractEnv (exampleIDs ''c9'') (seenInput [seenTool ''read'' ''b'', seenTool ''write'' ''a'']) secondGov = Inr (again, secondGov)
     \<and> BR_Statuses again = [(''list'', ContractToolRemoved), (''read'', ContractToolPausedIncompatible), (''write'', ContractToolNewHidden)]"
proof -
  obtain res where ob: "ObserveContractsTx contractEnv (exampleIDs ''c2'') (seenInput [seenTool ''read'' ''b'', seenTool ''write'' ''a'']) firstGov = Inr (res, secondGov)"
    and st: "BR_Statuses res = [(''list'', ContractToolRemoved), (''read'', ContractToolPausedIncompatible), (''write'', ContractToolNewHidden)]"
    by (rule second_observed)
  from repeated_observation [OF contractEnv_laws firstGov_facts [THEN conjunct2] ob, of "exampleIDs ''c9''"] show ?thesis
    using firstGov_facts by (auto simp: seenInput_def st)
qed

definition revertedResponse :: ContractObservationResponse where
  "revertedResponse = \<lparr>KR_RelayConfigurationRevisionID = ''r'', KR_Servers = [seenServer [seenTool ''read'' ''a'', seenTool ''list'' ''a'']]\<rparr>"

lemma secondGov_wf: "contracts_wf secondGov"
  by (rule second_observed) (rule observe_spec(1) [OF _ contractEnv_laws firstGov_facts [THEN conjunct2]])

definition seenHash :: "ObservedToolInput list \<Rightarrow> string" where
  "seenHash tools = (case CanonicalContract contractEnv tools of Inr (_, hash) \<Rightarrow> hash | Inl _ \<Rightarrow> [])"

lemma reverted_hash: "seenHash (map (observedTool contractEnv) [seenTool ''read'' ''a'', seenTool ''list'' ''a'']) = ''b0''"
  by code_simp

lemma reverted_rows:
  "list_ex (\<lambda>c. CV_ServerID c = ''s'' \<and> CV_CanonicalHash c = ''b0'') (GD_Contracts secondGov)"
  "map_option CS_Latest (findState secondGov ''s'') = Some (Some ''c2'')"
  "map_option CV_CanonicalHash (findContract secondGov ''c2'') = Some ''b2''"
  by (simp_all add: secondGov_def firstGov_def freshGov_def contractAt_def findState_def findContract_def)

lemma reverted_example: "wentBack contractEnv secondGov ''s'' (map (observedTool contractEnv) [seenTool ''read'' ''a'', seenTool ''list'' ''a''])"
  using reverted_hash reverted_rows by (auto simp: wentBack_def seenHash_def split: sum.splits)

theorem reverted_contract_blocks_observation_witness:
  "\<exists>e. ObserveRelayContracts contractEnv (exampleIDs ''c3'') revertedResponse secondGov = (Inl e, secondGov)"
proof (rule reverted_contract_blocks_observation [OF contractEnv_laws secondGov_wf])
  show "seenServer [seenTool ''read'' ''a'', seenTool ''list'' ''a''] \<in> set (KR_Servers revertedResponse)" by (simp add: revertedResponse_def)
  show "wentBack contractEnv secondGov (KS_ServerID (seenServer [seenTool ''read'' ''a'', seenTool ''list'' ''a'']))
      (map (observedTool contractEnv) (KS_Tools (seenServer [seenTool ''read'' ''a'', seenTool ''list'' ''a''])))"
    using reverted_example by (simp add: seenServer_def)
qed

definition contractFE :: profile_env where
  "contractFE = \<lparr>fe_gov = contractEnv, fe_bundle = exampleBundleEnv ''My Demo''\<rparr>"

definition secondDB :: contract_db where
  "secondDB = \<lparr>KD_Profiles = exampleProfiles\<lparr>PD_Gov := secondGov\<rparr>, KD_LegacyProfileID = None, KD_LegacyProfileState = ''pending'', KD_Audit = []\<rparr>"

definition acceptedDB :: contract_db where
  "acceptedDB = \<lparr>KD_Profiles = exampleProfiles\<lparr>PD_Gov := secondGov\<lparr>GD_ContractStates :=
       [\<lparr>CS_ServerID = ''s'', CS_Accepted = Some ''c2'', CS_Latest = Some ''c2'', CS_ReviewState = ''accepted''\<rparr>]\<rparr>\<rparr>,
     KD_LegacyProfileID = None, KD_LegacyProfileState = ''pending'',
     KD_Audit = [\<lparr>AE_Action = ''relay_contract_accept'', AE_ResourceType = ''relay_contract'', AE_ResourceID = ''c2'', AE_Outcome = ''success'',
       AE_IPAddress = [], AE_Metadata = JObj [(''serverId'', JStr ''s''), (''canonicalHash'', JStr ''b2'')]\<rparr>]\<rparr>"

lemma accepted_example: "AcceptContract contractFE id ''s'' ''c2'' [] secondDB = Inr acceptedDB"
  by code_simp

theorem contract_store_invariant_witness: "contracts_wf (KD_Gov acceptedDB) \<and> numbered (KD_Gov acceptedDB)"
proof (rule contract_store_invariant [of contractFE secondDB])
  show "laws (fe_gov contractFE)" using contractEnv_laws by (simp add: contractFE_def)
  show "contracts_wf (KD_Gov secondDB)" using secondGov_wf by (simp add: secondDB_def)
  show "numbered (KD_Gov secondDB)" by code_simp
  show "(contract_step contractFE)\<^sup>*\<^sup>* secondDB acceptedDB" by (rule r_into_rtranclp) (rule acceptStep [OF accepted_example])
qed

definition resumedRow :: "contract_tool_row \<times> tool_row" where
  "resumedRow = hd (contractTools (KD_Gov acceptedDB) ''c2'')"

lemma resumedRow_facts: "resumedRow \<in> set (contractTools (KD_Gov acceptedDB) ''c2'') \<and> map_option CS_Latest (findState (KD_Gov secondDB) ''s'') = Some (Some ''c2'')"
  by code_simp

theorem accepted_latest_resumes_witness:
  "acceptedContract (KD_Gov acceptedDB) ''s'' = ''c2''
   \<and> (\<exists>tool. renderTool contractEnv defaultPolicy (latestTool (KD_Gov acceptedDB) (TL_ServerID (snd resumedRow)) (CT_ToolID (fst resumedRow)))
        (fst resumedRow, snd resumedRow) = Inr tool \<and> \<not> RT_Paused tool)"
proof -
  obtain cs where cs: "findState (KD_Gov secondDB) ''s'' = Some cs" "CS_Latest cs = Some ''c2''" using resumedRow_facts by auto
  have wf: "contracts_wf (KD_Gov secondDB)" using secondGov_wf by (simp add: secondDB_def)
  have m: "(fst resumedRow, snd resumedRow) \<in> set (contractTools (KD_Gov acceptedDB) ''c2'')" using resumedRow_facts by simp
  show ?thesis by (rule accepted_latest_resumes [OF wf accepted_example cs m])
qed

text \<open>The tool \<open>list\<close> is renamed to \<open>lookup\<close>; the profile denies \<open>list\<close>.\<close>

definition renameGov :: governance_db where
  "renameGov = firstGov\<lparr>GD_Contracts := GD_Contracts firstGov @ [contractAt ''c2'' 2 ''b4'' [toolJSON ''lookup'' ''a'', toolJSON ''read'' ''a'']],
     GD_Tools := GD_Tools firstGov @ [ownTool ''lookup''],
     GD_ContractTools := GD_ContractTools firstGov @ [toolAt ''c2'' ''lookup'' 0 ''a'' ContractToolNewHidden, toolAt ''c2'' ''read'' 1 ''a'' ContractToolUnchanged],
     GD_ContractStates := [\<lparr>CS_ServerID = ''s'', CS_Accepted = Some ''c1'', CS_Latest = Some ''c2'', CS_ReviewState = ''changed''\<rparr>],
     GD_Proposals := [\<lparr>PO_ID = ''listlookup'', PO_ServerID = ''s'', PO_RemovedToolID = ''list'', PO_AddedToolID = ''lookup'', PO_RemovedContract = ''c1'',
       PO_AddedContract = ''c2'', PO_Status = ''suspected''\<rparr>],
     GD_ProfileRules := [\<lparr>PT_ProfileRevisionID = ''v'', PT_ToolID = ''list'', PT_Visible = True, PT_Decision = ''deny'', PT_ReasonCodes = []\<rparr>]\<rparr>"

lemma renameGov_observed:
  "(observedGov ''c2'' [seenTool ''read'' ''a'', seenTool ''lookup'' ''a''] firstGov)\<lparr>GD_ProfileRules := GD_ProfileRules renameGov\<rparr> = renameGov"
  by code_simp

definition renameDB :: contract_db where
  "renameDB = secondDB\<lparr>KD_Profiles := exampleProfiles\<lparr>PD_Gov := renameGov\<rparr>\<rparr>"

definition exampleRenameIDs :: rename_ids where
  "exampleRenameIDs = \<lparr>ri_Rename = ''n'', ri_Policy = ''p2'', ri_Revision = (\<lambda>_. ''v2'')\<rparr>"

definition renamedDB :: contract_db where
  "renamedDB = (case ConfirmToolRename contractFE exampleRenameIDs 0 ''listlookup'' renameDB of Inr d \<Rightarrow> d | Inl _ \<Rightarrow> renameDB)"

lemma renamed_example: "ConfirmToolRename contractFE exampleRenameIDs 0 ''listlookup'' renameDB = Inr renamedDB"
proof -
  have "(case ConfirmToolRename contractFE exampleRenameIDs 0 ''listlookup'' renameDB of Inr _ \<Rightarrow> True | Inl _ \<Rightarrow> False)" by code_simp
  then show ?thesis by (auto simp: renamedDB_def split: sum.splits)
qed

definition exampleProposal :: proposal_row where
  "exampleProposal = hd (GD_Proposals (KD_Gov renameDB))"

lemma exampleProposal_facts:
  "find (\<lambda>p. PO_ID p = ''listlookup'') (GD_Proposals (KD_Gov renameDB)) = Some exampleProposal"
  "PO_RemovedToolID exampleProposal = ''list'' \<and> PO_AddedToolID exampleProposal = ''lookup''"
  "ruleOwners (KD_Gov renameDB) \<and> distinct (map PF_ID (GD_Profiles (KD_Gov renameDB)))"
  "(''f'', ''v'') \<in> set (renameCandidates (KD_Gov renameDB) (renameOf exampleProposal))"
  "hasRule (KD_Gov renameDB) ''v'' ''list'' \<and> ruleOf (KD_Gov renameDB) ''v'' ''list'' = Some (True, ''deny'', [])"
  by code_simp+

theorem confirmed_rename_carries_rules_witness:
  "ruleOf (KD_Gov renamedDB) ''v2'' ''lookup'' = Some (True, ''deny'', []) \<and> ruleOf (KD_Gov renamedDB) ''v2'' ''list'' = None
   \<and> ruleOf (KD_Gov renamedDB) ''v'' ''list'' = Some (True, ''deny'', [])
   \<and> revisionContent (KD_Profiles renamedDB) ''v'' = revisionContent (KD_Profiles renameDB) ''v''"
proof -
  have v: "''v'' \<in> profileRevisionIDs (KD_Gov renameDB)" unfolding profileRevisionIDs_def by code_simp
  have ne: "PO_RemovedToolID exampleProposal \<noteq> PO_AddedToolID exampleProposal" using exampleProposal_facts(2) by simp
  note t = confirmed_rename_carries_rules [OF renamed_example exampleProposal_facts(1) ne exampleProposal_facts(3) [THEN conjunct1]
      exampleProposal_facts(3) [THEN conjunct2] exampleProposal_facts(4) v]
  have r: "ri_Revision exampleRenameIDs ''f'' = ''v2''" by (simp add: exampleRenameIDs_def)
  show ?thesis using t [THEN conjunct2] v exampleProposal_facts(2,5) by (simp add: r)
qed

end
