(* ===== verification/Spec2Isabelle.thy ===== *)
theory Spec2Isabelle
  imports Profile_Properties Adapter_Properties Queue_Properties Governance_Properties Telemetry_Properties Contract_Witnesses
begin

text \<open>
  \<^bold>\<open>ToolHub\<close> manages the Skills and MCP servers of AI clients on many machines. A control plane (\<open>src/internal/store\<close>,
  PostgreSQL) holds profiles, tool contracts, policies and a queue of operations; a worker executes the queue; a Bridge process
  (\<open>src/internal/bridge\<close>) with root rights applies manifests to the local machine or, through Salt, to minions; a relay
  process serves the MCP tools a routing bundle admits and records the calls. The theories follow these parts. Names are those
  of the source; a method of a type whose name occurs twice has the type's name in front (\<open>Journal_Operation\<close>).

  \<^bold>\<open>Shared.\<close>
  \<^item> \<open>ToolHub_Prelude\<close>: Go values (byte strings, instants, JSON values, errors as sums), the parts of the packages \<open>strings\<close>,
    \<open>strconv\<close>, \<open>path\<close> and \<open>time\<close> in use, lemmas on lists, the collections \<open>go_const\<close> and \<open>go_valid\<close>.
  \<^item> \<open>Protocol_Types\<close>: \<open>src/internal/bridgeprotocol/types.go\<close> (constants, error classes, targets).
  \<^item> \<open>Json_Codec\<close>: \<open>json_laws\<close>, what the store relies on of \<open>encoding/json\<close>, with a concrete pair of functions that has it.

  \<^bold>\<open>The Bridge\<close> (requests from the control plane to a machine).
  \<^item> \<open>Bolt_Bucket\<close>: a bbolt bucket as a sorted list of pairs; locale \<open>kv_bucket\<close>, interpreted on it.
  \<^item> \<open>Bridge_Auth\<close>: \<open>bridgeprotocol/auth.go\<close>, \<open>security/token.go\<close>, the nonces of \<open>bridge/journal.go\<close>, \<open>authenticate\<close> of
    \<open>bridge/server.go\<close>. Locale \<open>nonce_guard\<close> and its extension \<open>replay_gate\<close> prove once that a guard with a window refuses a
    second use; they are interpreted on \<open>AcceptNonce\<close>. C4: a signed request verifies. C1: no request is accepted twice.
  \<^item> \<open>Desired_Manifest\<close>: \<open>DesiredManifest\<close>, \<open>Normalize\<close>, \<open>Manifest_Validate\<close>. C3: the members of an accepted manifest.
  \<^item> \<open>Bridge_Journal\<close>: the five buckets of \<open>bridge/journal.go\<close>, one definition per method. C9: which backups are removed;
    C10: no operation is left running by \<open>Journal_RecoverOperations\<close>.
  \<^item> \<open>Bridge_Server\<close>: \<open>mutation\<close> (idempotency keys), every handler, \<open>NewServer\<close>. The server is the relation \<open>serverStep\<close>;
    locale \<open>keyed_start\<close> is interpreted on it. C5: a key's handler starts once; C6: after a crash between the handler and the
    stored answer, a retry gets the first answer; C11: no request stays blocked by a restart.
  \<^item> \<open>Skill_Package\<close>: \<open>skills/package.go\<close>. C7: an accepted archive is contained; C8: what the content hash identifies.
  \<^item> \<open>Salt_Driver\<close>: \<open>saltdriver/runner.go\<close>. C16: every command line is safe; C17: polling ends.
  \<^item> \<open>Bridge_Adapter\<close>, \<open>Adapter_Properties\<close>: \<open>bridge/adapter.go\<close>. C20 and C21: the comparison of a scan and the relay's diff
    are exact; C19: a mutation on a minion is journaled; C18: a restart settles it with the outcome of its own job.

  \<^bold>\<open>The queue\<close> (from the store to the worker).
  \<^item> \<open>Operation_Store\<close>: \<open>store/operations.go\<close>, every method. \<open>Operation_Queue\<close>: the invariant \<open>queue_ok\<close> (unique indexes,
    foreign keys, dependencies), the single-row updates that keep it, and the relation \<open>queueStep\<close>, one call of any method.
  \<^item> \<open>Queue_Properties\<close>. C13: \<open>queue_ok\<close> holds in every reachable database; C12: a running step is alone on its target and its
    dependency has succeeded; C14: how an operation gets its status; C15: a requeued cancelled step is never claimed again.

  \<^bold>\<open>Governance\<close> (which tools a client sees).
  \<^item> \<open>Routing_Bundle\<close>: \<open>bridgeprotocol/governance.go\<close>. C2: an accepted bundle never decides looser for a profile.
  \<^item> \<open>Call_Policy\<close>: \<open>policy/catalog.go\<close> and \<open>classifyGovernanceTool\<close>. C22: decision and reasons in closed form; C23: types.
  \<^item> \<open>Governance_Store\<close>, \<open>Governance_Properties\<close>: \<open>store/policies.go\<close>, \<open>relay_governance.go\<close> (saving, rendering). C24: the
    number of tools shown is the number the canary expects; C25: saved rules respect the ceiling.
  \<^item> \<open>Profile_Store\<close>, \<open>Profile_Properties\<close>: \<open>store/profiles.go\<close>. \<open>profile_step\<close> is one call; C30: the invariant of the tables,
    C31: revisions are permanent, C32: no lost update, C33: what is read back, C34: profiles stuck after an acceptance.
  \<^item> \<open>Profile_Bundle\<close>: \<open>profilebundle/bundle.go\<close>. C28: \<open>Parse\<close> inverts \<open>Encode\<close>, exactly when; C29: what \<open>Parse\<close> verified.
  \<^item> \<open>Tool_Contracts\<close>, \<open>Contract_Properties\<close>, \<open>Contract_Witnesses\<close>: \<open>store/contracts.go\<close>. \<open>contract_step\<close> is one call; C37: the
    invariant, C35: what an observation pauses, C36: what a rename carries over, C38: the observation that is refused for ever,
    C39: a repeated observation, C40: an acceptance ends every pause.
  \<^item> \<open>Relay_Telemetry\<close>, \<open>Telemetry_Properties\<close>: \<open>store/telemetry.go\<close> and the ring of \<open>mcpm/toolhub/observations.py\<close>.
    \<open>relayStep\<close> interleaves calls, restarts and pulls; C26: each call is counted once; C27: pulls that are refused.

  \<^bold>\<open>State and errors.\<close> A method maps its arguments and the state to \<open>Inl\<close> an error or \<open>Inr\<close> a result, with the new state. A
  transaction that fails leaves the state as it was, as bbolt and PostgreSQL roll back. A table is the list of its rows, a query
  a filter; clocks, fresh ids and the rows that other transactions lock are arguments. Runs are inductive relations over
  calls; invariants are proved by rule induction on them.

  \<^bold>\<open>Parameters.\<close> What is not in the repository is an argument: SHA-256 and HMAC, JSON, YAML and ZIP, \<open>url.Parse\<close>,
  \<open>uuid.Validate\<close>, Salt's commands, the runtime manager of the Bridge. Hypotheses on them are named in the statement of the
  property, and its witness instantiates them with concrete functions. \<open>visit\<close> says which records a bbolt cursor reaches while
  the loop deletes: it is arbitrary in \<open>RecoverPendingIdempotency\<close> and \<open>AcceptNonce\<close>, and C1 and C11 hold for every choice.

  \<^bold>\<open>Bounds and fuel.\<close> No definition uses fuel. Recursion that is not structural has a measure (\<open>stripRunes\<close>, \<open>natDigits\<close>,
  \<open>pythonASCII\<close>); the loop of \<open>Driver_Poll\<close> is \<open>partial_function (option)\<close>, and C17 proves that it returns when a wait takes
  \<open>PollEvery\<close>. The limits of the source (sizes, counts, windows) are its numbers.

  \<^bold>\<open>Narrower than the source.\<close>
  \<^item> \<open>Journal_RecoverOperations\<close> iterates the entries that the bucket has at the start; the code puts records inside \<open>ForEach\<close>,
    which bbolt leaves undefined. C10 is about the former.
  \<^item> \<open>telemetryPull\<close> reads the cursor, drains and ingests in one step; the worker makes three calls. C26 and C27 do not cover
    another pull in between (the worker has one loop).
  \<^item> \<open>json_laws\<close> is about integers up to \<open>2 ^ 53\<close> in magnitude and strings of any bytes; \<open>encoding/json\<close> also reads fractions
    and replaces invalid UTF-8. C35 to C40 are about schemas with such numbers.
  \<^item> \<open>queueStep\<close> has the methods of \<open>operations.go\<close> and \<open>markGovernanceFinalizedTx\<close>. Rows of the queue are also written by
    \<open>SetTargetProfileAndEnqueue\<close> (\<open>snapshots.go\<close>), \<open>intake.go\<close>, the archival of nodes (\<open>nodes.go\<close>) and the finalizations of
    \<open>relay_governance.go\<close>; C12, C13 and C15 speak of runs without them.
  \<^item> Concurrent transactions are the interleavings of whole calls, apart from \<open>createOperationTx\<close>, which reads before it locks
    and takes two databases, and the writers of C25.

  \<^bold>\<open>Not modelled\<close>: the worker's loops, snapshots, users and sessions, the library tables, the HTTP API, the file and
  process work of the runtime manager, clients of remote services, the migration tool, commands and scripts, and the decoding of
  JSON bodies into structs. They are I/O around the components above or tables those do not read.
\<close>

end
